(* ===== verification/Prelude.thy ===== *)
theory Prelude
  imports Complex_Main
begin

text \<open>
  Prelude of the development: what every component shares.

  The services under src/src/modules are TypeScript methods that read and write tables, draw
  random numbers, call a ledger and throw exceptions.  A method is modelled as a \<^emph>\<open>command\<close>: a
  function from a state to an error or a value, together with the state it leaves.  The state is
  kept when a command throws, because a write that was made before the exception is still there;
  only a database transaction takes writes back, and that is an explicit combinator of the theory
  World.  The theory holds the commands, a weakest-precondition calculus for them (the simp rules
  of \<^emph>\<open>wp\<close>), the locales of step guarantees and of state machines, list and option lemmas, and the
  JavaScript conversions between numbers and strings.
\<close>

named_theorems op_defs \<open>definitions of operations that proofs unfold\<close>

section \<open>Errors and commands\<close>

text \<open>The exceptions of the program: the NestJS HTTP exceptions the services throw, the two Prisma
  error codes the code looks at (P2002 with its target, P2025), and the errors of the runtime.\<close>

datatype error =
    NotFoundException string
  | BadRequestException string
  | ForbiddenException string
  | ConflictException string
  | InternalServerErrorException string
  | UniqueConstraint string
  | RecordNotFound
  | TypeError string
  | SyntaxError string
  | PlainError string

type_synonym ('s, 'a) cmd = "'s \<Rightarrow> (error + 'a) \<times> 's"

definition ret :: "'a \<Rightarrow> ('s, 'a) cmd" where
  "ret a = (\<lambda>s. (Inr a, s))"

definition throw :: "error \<Rightarrow> ('s, 'a) cmd" where
  "throw e = (\<lambda>s. (Inl e, s))"

definition bind :: "('s, 'a) cmd \<Rightarrow> ('a \<Rightarrow> ('s, 'b) cmd) \<Rightarrow> ('s, 'b) cmd" where
  "bind m f = (\<lambda>s. case m s of (Inl e, s') \<Rightarrow> (Inl e, s') | (Inr a, s') \<Rightarrow> f a s')"

definition andThen :: "('s, 'a) cmd \<Rightarrow> ('s, 'b) cmd \<Rightarrow> ('s, 'b) cmd" where
  "andThen m n = bind m (\<lambda>_. n)"

definition gets :: "('s \<Rightarrow> 'a) \<Rightarrow> ('s, 'a) cmd" where
  "gets f = (\<lambda>s. (Inr (f s), s))"

definition modify :: "('s \<Rightarrow> 's) \<Rightarrow> ('s, unit) cmd" where
  "modify f = (\<lambda>s. (Inr (), f s))"

definition guard :: "bool \<Rightarrow> error \<Rightarrow> ('s, unit) cmd" where
  "guard b e = (if b then ret () else throw e)"

definition whenM :: "bool \<Rightarrow> ('s, unit) cmd \<Rightarrow> ('s, unit) cmd" where
  "whenM b m = (if b then m else ret ())"

text \<open>\<^emph>\<open>need\<close> is the idiom \<open>if (!row) throw ...\<close> on the result of a lookup.\<close>

definition need :: "'a option \<Rightarrow> error \<Rightarrow> ('s, 'a) cmd" where
  "need x e = (case x of None \<Rightarrow> throw e | Some a \<Rightarrow> ret a)"

definition handle :: "('s, 'a) cmd \<Rightarrow> (error \<Rightarrow> ('s, 'a) cmd) \<Rightarrow> ('s, 'a) cmd" where
  "handle m h = (\<lambda>s. case m s of (Inl e, s') \<Rightarrow> h e s' | (Inr a, s') \<Rightarrow> (Inr a, s'))"

fun forEach :: "'x list \<Rightarrow> ('x \<Rightarrow> ('s, unit) cmd) \<Rightarrow> ('s, unit) cmd" where
  "forEach [] f = ret ()"
| "forEach (x # xs) f = andThen (f x) (forEach xs f)"

text \<open>A loop that threads an accumulator, as \<open>for (const x of xs) acc = await f(acc, x)\<close>.\<close>

fun foldC :: "('b \<Rightarrow> 'x \<Rightarrow> ('s, 'b) cmd) \<Rightarrow> 'b \<Rightarrow> 'x list \<Rightarrow> ('s, 'b) cmd" where
  "foldC f b [] = ret b"
| "foldC f b (x # xs) = bind (f b x) (\<lambda>b'. foldC f b' xs)"

section \<open>Weakest preconditions\<close>

text \<open>\<^emph>\<open>wp m Q E s\<close>: run from \<^emph>\<open>s\<close>, the command returns a value and state in \<^emph>\<open>Q\<close> or throws an error in a
  state of \<^emph>\<open>E\<close>.  The equations below compute it through every combinator.\<close>

definition wp :: "('s, 'a) cmd \<Rightarrow> ('a \<Rightarrow> 's \<Rightarrow> bool) \<Rightarrow> (error \<Rightarrow> 's \<Rightarrow> bool) \<Rightarrow> 's \<Rightarrow> bool" where
  "wp m Q E s = (case m s of (Inl e, s') \<Rightarrow> E e s' | (Inr a, s') \<Rightarrow> Q a s')"

lemma wp_ret [simp]: "wp (ret a) Q E s = Q a s"
  by (simp add: wp_def ret_def)

lemma wp_ret_eta [simp]: "wp (ret a) Q E = Q a"
  by (rule ext) simp

lemma wp_True [simp]: "wp m (\<lambda>_ _. True) (\<lambda>_ _. True) s"
  by (auto simp: wp_def split: sum.splits prod.splits)

lemma wp_throw [simp]: "wp (throw e) Q E s = E e s"
  by (simp add: wp_def throw_def)

lemma wp_bind [simp]: "wp (bind m f) Q E s = wp m (\<lambda>a. wp (f a) Q E) E s"
  by (auto simp: wp_def bind_def split: sum.splits prod.splits)

lemma wp_andThen [simp]: "wp (andThen m n) Q E s = wp m (\<lambda>_. wp n Q E) E s"
  by (simp add: andThen_def)

lemma wp_gets [simp]: "wp (gets f) Q E s = Q (f s) s"
  by (simp add: wp_def gets_def)

lemma wp_modify [simp]: "wp (modify f) Q E s = Q () (f s)"
  by (simp add: wp_def modify_def)

lemma wp_guard [simp]: "wp (guard b e) Q E s = (if b then Q () s else E e s)"
  by (simp add: guard_def)

lemma wp_whenM [simp]: "wp (whenM b m) Q E s = (if b then wp m Q E s else Q () s)"
  by (simp add: whenM_def)

lemma wp_need [simp]:
  "wp (need x e) Q E s = (case x of None \<Rightarrow> E e s | Some a \<Rightarrow> Q a s)"
  by (simp add: need_def split: option.split)

lemma wp_handle [simp]: "wp (handle m h) Q E s = wp m Q (\<lambda>e. wp (h e) Q E) s"
  by (auto simp: wp_def handle_def split: sum.splits prod.splits)

lemma wp_if [simp]: "wp (if b then m else n) Q E s = (if b then wp m Q E s else wp n Q E s)"
  by simp

lemma wp_case_option [simp]:
  "wp (case x of None \<Rightarrow> m | Some a \<Rightarrow> f a) Q E s =
     (case x of None \<Rightarrow> wp m Q E s | Some a \<Rightarrow> wp (f a) Q E s)"
  by (simp split: option.split)

lemma wp_let [simp]: "wp (let x = a in f x) Q E s = wp (f a) Q E s"
  by simp

lemma wp_mono:
  assumes "wp m Q E s" "\<And>a s'. Q a s' \<Longrightarrow> Q' a s'" "\<And>e s'. E e s' \<Longrightarrow> E' e s'"
  shows "wp m Q' E' s"
  using assms by (auto simp: wp_def split: sum.splits prod.splits)

lemma wp_conj:
  assumes "wp m Q E s" "wp m Q' E' s"
  shows "wp m (\<lambda>a s. Q a s \<and> Q' a s) (\<lambda>e s. E e s \<and> E' e s) s"
  using assms by (auto simp: wp_def split: sum.splits prod.splits)

lemma wp_result:
  "m s = (Inr a, s') \<Longrightarrow> wp m Q E s \<Longrightarrow> Q a s'"
  "m s = (Inl e, s') \<Longrightarrow> wp m Q E s \<Longrightarrow> E e s'"
  by (simp_all add: wp_def)

lemma wp_run:
  "wp m (\<lambda>_. P) (\<lambda>_. P) s \<longleftrightarrow> P (snd (m s))"
  by (auto simp: wp_def split: sum.splits prod.splits)

lemma wp_returns:
  "wp m Q (\<lambda>_ _. False) s \<Longrightarrow> \<exists>a s'. m s = (Inr a, s') \<and> Q a s'"
  by (cases "m s"; cases "fst (m s)") (auto simp: wp_def)

lemma run_eq: "fst (m s) = r \<Longrightarrow> m s = (r, snd (m s))"
  by (simp add: prod_eq_iff)

lemma wp_forEach:
  assumes "\<And>x s. x \<in> set xs \<Longrightarrow> I s \<Longrightarrow> wp (f x) (\<lambda>_. I) E s" "I s"
    and "\<And>s'. I s' \<Longrightarrow> Q () s'"
  shows "wp (forEach xs f) Q E s"
  using assms
proof (induction xs arbitrary: s)
  case (Cons x xs)
  have "wp (f x) (\<lambda>_. I) E s"
    using Cons.prems by simp
  moreover have "wp (forEach xs f) Q E t" if "I t" for t
    using Cons.prems that by (intro Cons.IH) auto
  ultimately show ?case
    by (auto elim: wp_mono)
qed simp

lemma wp_foldC:
  assumes "\<And>b x s. x \<in> set xs \<Longrightarrow> I b s \<Longrightarrow> wp (f b x) I E s" "I b s"
    and "\<And>b' s'. I b' s' \<Longrightarrow> Q b' s'"
  shows "wp (foldC f b xs) Q E s"
  using assms
proof (induction xs arbitrary: b s)
  case (Cons x xs)
  have "wp (f b x) I E s"
    using Cons.prems by simp
  moreover have "wp (foldC f c xs) Q E t" if "I c t" for c t
    using Cons.prems that by (intro Cons.IH) auto
  ultimately show ?case
    by (auto elim: wp_mono)
qed simp

text \<open>The same with the elements done so far in the invariant.\<close>

lemma wp_foldC_prefix:
  assumes "\<And>done x todo b s. xs = done @ x # todo \<Longrightarrow> I done b s \<Longrightarrow> wp (f b x) (I (done @ [x])) E s"
    and "I pre b s" "\<And>b' s'. I (pre @ ys) b' s' \<Longrightarrow> Q b' s'" "xs = pre @ ys"
  shows "wp (foldC f b ys) Q E s"
  using assms(2-)
proof (induction ys arbitrary: pre b s)
  case (Cons y ys)
  have "wp (foldC f c ys) Q E t" if "I (pre @ [y]) c t" for c t
    using Cons.prems that by (intro Cons.IH[of "pre @ [y]"]) auto
  then show ?case
    using assms(1)[of pre y ys b s] Cons.prems by (auto elim: wp_mono)
qed simp

section \<open>Properties kept by successful runs\<close>

text \<open>\<^emph>\<open>maintains P m\<close>: a run from a state of \<^emph>\<open>P\<close> that returns, returns in a state of \<^emph>\<open>P\<close>.  Nothing is said
  of a run that throws: its database writes are usually taken back by a transaction.\<close>

definition maintains :: "('s \<Rightarrow> bool) \<Rightarrow> ('s, 'a) cmd \<Rightarrow> bool" where
  "maintains P m \<longleftrightarrow> (\<forall>s. P s \<longrightarrow> wp m (\<lambda>_. P) (\<lambda>_ _. True) s)"

lemma maintainsI: "(\<And>s. P s \<Longrightarrow> wp m (\<lambda>_. P) (\<lambda>_ _. True) s) \<Longrightarrow> maintains P m"
  by (simp add: maintains_def)

lemma maintains_wp: "maintains P m \<Longrightarrow> P s \<Longrightarrow> wp m (\<lambda>_. P) (\<lambda>_ _. True) s"
  by (simp add: maintains_def)

lemma maintains_ret: "maintains P (ret a)"
  by (simp add: maintains_def)

lemma maintains_throw: "maintains P (throw e)"
  by (simp add: maintains_def)

lemma maintains_gets: "maintains P (gets f)"
  by (simp add: maintains_def)

lemma maintains_need: "maintains P (need x e)"
  by (simp add: maintains_def split: option.split)

lemma maintains_guard: "maintains P (guard b e)"
  by (simp add: maintains_def)

lemma maintains_bind: "maintains P m \<Longrightarrow> (\<And>a. maintains P (f a)) \<Longrightarrow> maintains P (bind m f)"
  unfolding maintains_def by (auto intro: wp_mono)

lemma maintains_andThen: "maintains P m \<Longrightarrow> maintains P n \<Longrightarrow> maintains P (andThen m n)"
  by (simp add: andThen_def maintains_bind)

lemma maintains_whenM: "maintains P m \<Longrightarrow> maintains P (whenM b m)"
  by (simp add: whenM_def maintains_ret)

lemma maintains_ite: "maintains P m \<Longrightarrow> maintains P n \<Longrightarrow> maintains P (if b then m else n)"
  by simp

lemma maintains_caseOption:
  "maintains P m \<Longrightarrow> (\<And>a. maintains P (f a)) \<Longrightarrow> maintains P (case x of None \<Rightarrow> m | Some a \<Rightarrow> f a)"
  by (simp split: option.split)

lemma maintains_foldC:
  "(\<And>b x. x \<in> set xs \<Longrightarrow> maintains P (f b x)) \<Longrightarrow> maintains P (foldC f b xs)"
  by (induction xs arbitrary: b) (simp_all add: maintains_ret maintains_bind)

lemma maintains_forEach:
  "(\<And>x. x \<in> set xs \<Longrightarrow> maintains P (f x)) \<Longrightarrow> maintains P (forEach xs f)"
  by (induction xs) (simp_all add: maintains_ret maintains_andThen)

lemmas maintains_rules = maintains_ret maintains_throw maintains_gets maintains_need maintains_guard
  maintains_bind maintains_andThen maintains_whenM maintains_ite maintains_caseOption maintains_foldC
  maintains_forEach

section \<open>Step guarantees\<close>

text \<open>A guarantee is a preorder on states: \<^emph>\<open>steps R m\<close> says that every run of \<^emph>\<open>m\<close>, successful or not,
  ends in a state related to the one it started from.  An invariant, the growth of a log and the
  absorption of a final status are all of this form, so the rules are proved once for the locale.\<close>

definition steps :: "('s \<Rightarrow> 's \<Rightarrow> bool) \<Rightarrow> ('s, 'a) cmd \<Rightarrow> bool" where
  "steps R m \<longleftrightarrow> (\<forall>s. R s (snd (m s)))"

lemma steps_wp: "steps R m \<longleftrightarrow> (\<forall>s. wp m (\<lambda>_. R s) (\<lambda>_. R s) s)"
  by (simp add: steps_def wp_run)

lemma stepsD: "steps R m \<Longrightarrow> m s = (r, s') \<Longrightarrow> R s s'"
  unfolding steps_def by (metis snd_conv)

locale guarantee =
  fixes R :: "'s \<Rightarrow> 's \<Rightarrow> bool"
  assumes R_refl: "R s s"
    and R_trans: "R s t \<Longrightarrow> R t u \<Longrightarrow> R s u"
begin

lemma ret: "steps R (ret a)"
  by (simp add: steps_wp R_refl)

lemma throw: "steps R (throw e)"
  by (simp add: steps_wp R_refl)

lemma gets: "steps R (gets f)"
  by (simp add: steps_wp R_refl)

lemma guard: "steps R (guard b e)"
  by (simp add: steps_wp R_refl)

lemma need: "steps R (need x e)"
  by (simp add: steps_wp R_refl split: option.split)

lemma modify: "(\<And>s. R s (f s)) \<Longrightarrow> steps R (modify f)"
  by (simp add: steps_wp)

lemma seq_state: "R s t \<Longrightarrow> steps R m \<Longrightarrow> R s (snd (m t))"
  unfolding steps_def by (blast intro: R_trans)

lemma wp_after: "steps R m \<Longrightarrow> R s t \<Longrightarrow> wp m (\<lambda>_. R s) (\<lambda>_. R s) t"
  by (simp add: wp_run seq_state)

lemma bind:
  assumes "steps R m" "\<And>a. steps R (f a)"
  shows "steps R (bind m f)"
proof -
  have "wp m (\<lambda>a. wp (f a) (\<lambda>_. R s) (\<lambda>_. R s)) (\<lambda>_. R s) s" for s
    using wp_after[OF assms(1) R_refl] by (rule wp_mono) (auto intro: wp_after assms(2))
  then show ?thesis
    by (simp add: steps_wp)
qed

lemma andThen: "steps R m \<Longrightarrow> steps R n \<Longrightarrow> steps R (andThen m n)"
  unfolding andThen_def by (rule bind)

lemma whenM: "steps R m \<Longrightarrow> steps R (whenM b m)"
  by (simp add: whenM_def ret)

lemma handle:
  assumes "steps R m" "\<And>e. steps R (h e)"
  shows "steps R (handle m h)"
proof -
  have "wp m (\<lambda>_. R s) (\<lambda>e. wp (h e) (\<lambda>_. R s) (\<lambda>_. R s)) s" for s
    using wp_after[OF assms(1) R_refl] by (rule wp_mono) (auto intro: wp_after assms(2))
  then show ?thesis
    by (simp add: steps_wp)
qed

lemma ite: "steps R m \<Longrightarrow> steps R n \<Longrightarrow> steps R (if b then m else n)"
  by simp

lemma caseOption:
  "steps R m \<Longrightarrow> (\<And>a. steps R (f a)) \<Longrightarrow> steps R (case x of None \<Rightarrow> m | Some a \<Rightarrow> f a)"
  by (simp split: option.split)

lemma forEach: "(\<And>x. x \<in> set xs \<Longrightarrow> steps R (f x)) \<Longrightarrow> steps R (forEach xs f)"
  by (induction xs) (simp_all add: ret andThen)

lemma foldC: "(\<And>b x. x \<in> set xs \<Longrightarrow> steps R (f b x)) \<Longrightarrow> steps R (foldC f b xs)"
  by (induction xs arbitrary: b) (simp_all add: ret bind)

lemmas combinators = ret throw gets guard need bind andThen whenM handle ite caseOption
  forEach foldC

end

section \<open>State machines\<close>

text \<open>The status tables of the program, \<open>Record<Status, Partial<Record<Action, Status>>>\<close>, are partial
  functions from a status and an action.  The contract they share: a status declared final has no
  outgoing entry.\<close>

inductive reaches :: "('q \<Rightarrow> 'a \<Rightarrow> 'q option) \<Rightarrow> 'q \<Rightarrow> 'q \<Rightarrow> bool" for \<delta> where
  refl: "reaches \<delta> q q"
| step: "reaches \<delta> q r \<Longrightarrow> \<delta> r a = Some t \<Longrightarrow> reaches \<delta> q t"

lemma reaches_trans: "reaches \<delta> r t \<Longrightarrow> reaches \<delta> q r \<Longrightarrow> reaches \<delta> q t"
  by (induction rule: reaches.induct) (auto intro: reaches.intros)

fun run_actions :: "('q \<Rightarrow> 'a \<Rightarrow> 'q option) \<Rightarrow> 'q \<Rightarrow> 'a list \<Rightarrow> 'q option" where
  "run_actions \<delta> q [] = Some q"
| "run_actions \<delta> q (a # as) = (case \<delta> q a of None \<Rightarrow> None | Some r \<Rightarrow> run_actions \<delta> r as)"

lemma run_actions_reaches: "run_actions \<delta> q as = Some r \<Longrightarrow> reaches \<delta> q r"
proof (induction as arbitrary: q)
  case (Cons a as)
  then obtain t where "\<delta> q a = Some t" "run_actions \<delta> t as = Some r"
    by (auto split: option.splits)
  then show ?case
    using reaches_trans[OF Cons.IH reaches.step[OF reaches.refl]] by simp
qed (simp add: reaches.refl)

locale state_machine =
  fixes \<delta> :: "'q \<Rightarrow> 'a \<Rightarrow> 'q option"
    and final :: "'q \<Rightarrow> bool"
  assumes final_stuck: "final q \<Longrightarrow> \<delta> q a = None"
begin

lemma final_absorbing: "reaches \<delta> q r \<Longrightarrow> final q \<Longrightarrow> r = q"
  by (induction rule: reaches.induct) (auto simp: final_stuck)

lemma final_rejects: "final q \<Longrightarrow> run_actions \<delta> q (a # as) = None"
  by (simp add: final_stuck)

end

end
