(* ===== verification/FundStates.thy ===== *)
theory FundStates
  imports Prelude "HOL-Library.Sublist"
begin

text \<open>
  The status enumerations of the funds layer and its transition tables
  (src/src/modules/funds-layer/dto/internal-fund.dto.ts, dto/internal-transaction.dto.ts and the
  tables at the head of domain/funds-flow.service.ts).  A fund leg on a chain follows
  \<open>CRYPTO_TRANSITIONS\<close>, a bank leg \<open>FIAT_TRANSITIONS\<close>; an absent entry is \<open>None\<close>.
\<close>

datatype InternalFundStatus =
    CREATED | SIGNING | BROADCASTED | CONFIRMING | CONFIRMED | CLEAR | FAILED | TIMEOUT
  | RETURNED | NEEDS_REVIEW | CANCELLED

datatype InternalFundAction =
    SIGN | BROADCAST | SIGN_FAIL | SEEN_IN_MEMPOOL | DROP | TIME_OUT | CONFIRM | FAIL | CLEAR_FUND
  | SUBMIT | RETURN | CANCEL | REORG

datatype InternalTransactionStatus =
    INTERNAL_FUNDS_PENDING | IT_SUCCESS | IT_FAILED | IT_CANCELLED | IT_REJECTED | IT_EXPIRED

fun fund_status_str :: "InternalFundStatus \<Rightarrow> string" where
  "fund_status_str CREATED = ''CREATED''"
| "fund_status_str SIGNING = ''SIGNING''"
| "fund_status_str BROADCASTED = ''BROADCASTED''"
| "fund_status_str CONFIRMING = ''CONFIRMING''"
| "fund_status_str CONFIRMED = ''CONFIRMED''"
| "fund_status_str CLEAR = ''CLEAR''"
| "fund_status_str FAILED = ''FAILED''"
| "fund_status_str TIMEOUT = ''TIMEOUT''"
| "fund_status_str RETURNED = ''RETURNED''"
| "fund_status_str NEEDS_REVIEW = ''NEEDS_REVIEW''"
| "fund_status_str CANCELLED = ''CANCELLED''"

fun fund_action_str :: "InternalFundAction \<Rightarrow> string" where
  "fund_action_str SIGN = ''SIGN''"
| "fund_action_str BROADCAST = ''BROADCAST''"
| "fund_action_str SIGN_FAIL = ''SIGN_FAIL''"
| "fund_action_str SEEN_IN_MEMPOOL = ''SEEN_IN_MEMPOOL''"
| "fund_action_str DROP = ''DROP''"
| "fund_action_str TIME_OUT = ''TIMEOUT''"
| "fund_action_str CONFIRM = ''CONFIRM''"
| "fund_action_str FAIL = ''FAIL''"
| "fund_action_str CLEAR_FUND = ''CLEAR''"
| "fund_action_str SUBMIT = ''SUBMIT''"
| "fund_action_str RETURN = ''RETURN''"
| "fund_action_str CANCEL = ''CANCEL''"
| "fund_action_str REORG = ''REORG''"

fun tx_status_str :: "InternalTransactionStatus \<Rightarrow> string" where
  "tx_status_str INTERNAL_FUNDS_PENDING = ''INTERNAL_FUNDS_PENDING''"
| "tx_status_str IT_SUCCESS = ''SUCCESS''"
| "tx_status_str IT_FAILED = ''FAILED''"
| "tx_status_str IT_CANCELLED = ''CANCELLED''"
| "tx_status_str IT_REJECTED = ''REJECTED''"
| "tx_status_str IT_EXPIRED = ''EXPIRED''"

section \<open>The transition tables\<close>

fun crypto_row :: "InternalFundStatus \<Rightarrow> (InternalFundAction \<times> InternalFundStatus) list" where
  "crypto_row CREATED = [(SIGN, SIGNING), (CANCEL, CANCELLED)]"
| "crypto_row SIGNING = [(BROADCAST, BROADCASTED), (SIGN_FAIL, FAILED), (CANCEL, CANCELLED)]"
| "crypto_row BROADCASTED = [(SEEN_IN_MEMPOOL, CONFIRMING), (DROP, FAILED), (TIME_OUT, TIMEOUT), (CANCEL, CANCELLED)]"
| "crypto_row CONFIRMING = [(CONFIRM, CONFIRMED), (REORG, BROADCASTED), (FAIL, FAILED), (TIME_OUT, TIMEOUT), (CANCEL, CANCELLED)]"
| "crypto_row CONFIRMED = [(CLEAR_FUND, CLEAR)]"
| "crypto_row CLEAR = []"
| "crypto_row FAILED = []"
| "crypto_row TIMEOUT = []"
| "crypto_row RETURNED = []"
| "crypto_row NEEDS_REVIEW = []"
| "crypto_row CANCELLED = []"

definition CRYPTO_TRANSITIONS ::
    "InternalFundStatus \<Rightarrow> InternalFundAction \<Rightarrow> InternalFundStatus option" where
  "CRYPTO_TRANSITIONS s a = map_of (crypto_row s) a"

fun fiat_row :: "InternalFundStatus \<Rightarrow> (InternalFundAction \<times> InternalFundStatus) list" where
  "fiat_row CREATED = [(SUBMIT, CONFIRMING), (CANCEL, CANCELLED)]"
| "fiat_row SIGNING = []"
| "fiat_row BROADCASTED = []"
| "fiat_row CONFIRMING = [(CONFIRM, CONFIRMED), (FAIL, FAILED), (TIME_OUT, TIMEOUT)]"
| "fiat_row CONFIRMED = [(CLEAR_FUND, CLEAR), (RETURN, RETURNED)]"
| "fiat_row CLEAR = [(RETURN, RETURNED)]"
| "fiat_row FAILED = []"
| "fiat_row TIMEOUT = []"
| "fiat_row RETURNED = []"
| "fiat_row NEEDS_REVIEW = []"
| "fiat_row CANCELLED = []"

definition FIAT_TRANSITIONS ::
    "InternalFundStatus \<Rightarrow> InternalFundAction \<Rightarrow> InternalFundStatus option" where
  "FIAT_TRANSITIONS s a = map_of (fiat_row s) a"

fun TERMINAL_STATUSES :: "InternalFundStatus \<Rightarrow> bool" where
  "TERMINAL_STATUSES CLEAR = True"
| "TERMINAL_STATUSES FAILED = True"
| "TERMINAL_STATUSES TIMEOUT = True"
| "TERMINAL_STATUSES RETURNED = True"
| "TERMINAL_STATUSES NEEDS_REVIEW = True"
| "TERMINAL_STATUSES CANCELLED = True"
| "TERMINAL_STATUSES _ = False"

fun TX_TERMINAL_STATUSES :: "InternalTransactionStatus \<Rightarrow> bool" where
  "TX_TERMINAL_STATUSES INTERNAL_FUNDS_PENDING = False"
| "TX_TERMINAL_STATUSES _ = True"

text \<open>\<open>getTransitionMap\<close>: the table by the asset's type; anything but FIAT is treated as crypto.\<close>

definition getTransitionMap ::
    "string \<Rightarrow> InternalFundStatus \<Rightarrow> InternalFundAction \<Rightarrow> InternalFundStatus option" where
  "getTransitionMap assetType =
     (if assetType = ''FIAT'' then FIAT_TRANSITIONS else CRYPTO_TRANSITIONS)"

text \<open>\<open>INTERNAL_FUND_STATE_TO_ACTION\<close> and \<open>buildInternalFundStateAction\<close>: the audit action of a status;
  NEEDS_REVIEW has no entry and falls back to its own name.\<close>

fun buildInternalFundStateAction :: "InternalFundStatus \<Rightarrow> string" where
  "buildInternalFundStateAction CLEAR = ''CLEARED''"
| "buildInternalFundStateAction TIMEOUT = ''TIMED_OUT''"
| "buildInternalFundStateAction RETURNED = ''REORGED''"
| "buildInternalFundStateAction s = fund_status_str s"

section \<open>Final statuses\<close>

lemma crypto_final: "TERMINAL_STATUSES s \<Longrightarrow> CRYPTO_TRANSITIONS s a = None"
  by (cases s) (simp_all add: CRYPTO_TRANSITIONS_def)

interpretation crypto: state_machine CRYPTO_TRANSITIONS TERMINAL_STATUSES
  by unfold_locales (rule crypto_final)

definition fiat_final :: "InternalFundStatus \<Rightarrow> bool" where
  "fiat_final s \<longleftrightarrow> TERMINAL_STATUSES s \<and> s \<noteq> CLEAR"

lemma fiat_final: "fiat_final s \<Longrightarrow> FIAT_TRANSITIONS s a = None"
  by (cases s) (simp_all add: fiat_final_def FIAT_TRANSITIONS_def)

interpretation fiat: state_machine FIAT_TRANSITIONS fiat_final
  by unfold_locales (rule fiat_final)

lemma fund_status_str_inj: "fund_status_str s = fund_status_str t \<longleftrightarrow> s = t"
  by (cases s; cases t) simp_all

section \<open>An order on the statuses\<close>

text \<open>The happy path of a crypto leg orders the statuses; the failures sit on top.  Every action but
  REORG moves up in it, which bounds the life of a leg.\<close>

fun fund_rank :: "InternalFundStatus \<Rightarrow> nat" where
  "fund_rank CREATED = 0"
| "fund_rank SIGNING = 1"
| "fund_rank BROADCASTED = 2"
| "fund_rank CONFIRMING = 3"
| "fund_rank CONFIRMED = 4"
| "fund_rank CLEAR = 5"
| "fund_rank FAILED = 6"
| "fund_rank TIMEOUT = 7"
| "fund_rank RETURNED = 8"
| "fund_rank NEEDS_REVIEW = 9"
| "fund_rank CANCELLED = 10"

lemma fund_rank_inj: "fund_rank s = fund_rank t \<Longrightarrow> s = t"
  by (cases s; cases t) simp_all

instantiation InternalFundStatus :: linorder
begin

definition less_eq_InternalFundStatus :: "InternalFundStatus \<Rightarrow> InternalFundStatus \<Rightarrow> bool" where
  "s \<le> t \<longleftrightarrow> fund_rank s \<le> fund_rank t"

definition less_InternalFundStatus :: "InternalFundStatus \<Rightarrow> InternalFundStatus \<Rightarrow> bool" where
  "s < t \<longleftrightarrow> fund_rank s < fund_rank t"

instance
  by standard
    (auto simp: less_eq_InternalFundStatus_def less_InternalFundStatus_def dest: fund_rank_inj)

end

lemma crypto_up: "CRYPTO_TRANSITIONS s a = Some t \<Longrightarrow> a \<noteq> REORG \<Longrightarrow> s < t"
  by (cases s) (auto simp: CRYPTO_TRANSITIONS_def less_InternalFundStatus_def split: if_splits)

lemma crypto_reorg: "CRYPTO_TRANSITIONS s REORG = Some t \<longleftrightarrow> s = CONFIRMING \<and> t = BROADCASTED"
  by (cases s) (auto simp: CRYPTO_TRANSITIONS_def)

lemma fiat_up: "FIAT_TRANSITIONS s a = Some t \<Longrightarrow> s < t"
  by (cases s) (auto simp: FIAT_TRANSITIONS_def less_InternalFundStatus_def split: if_splits)

text \<open>How many more actions a leg may take when no reorganisation happens.\<close>

fun crypto_left :: "InternalFundStatus \<Rightarrow> nat" where
  "crypto_left CREATED = 5"
| "crypto_left SIGNING = 4"
| "crypto_left BROADCASTED = 3"
| "crypto_left CONFIRMING = 2"
| "crypto_left CONFIRMED = 1"
| "crypto_left _ = 0"

lemma crypto_left_step:
  "CRYPTO_TRANSITIONS s a = Some t \<Longrightarrow>
     Suc (crypto_left t) \<le> crypto_left s + (if a = REORG then 2 else 0)"
  by (cases s) (auto simp: CRYPTO_TRANSITIONS_def split: if_splits)

lemma crypto_run_length:
  "run_actions CRYPTO_TRANSITIONS s as = Some t \<Longrightarrow>
     length as + crypto_left t \<le> crypto_left s + 2 * length (filter (\<lambda>a. a = REORG) as)"
proof (induction as arbitrary: s)
  case (Cons a as)
  then obtain r where r: "CRYPTO_TRANSITIONS s a = Some r"
      "run_actions CRYPTO_TRANSITIONS r as = Some t"
    by (auto split: option.splits)
  show ?case
    using Cons.IH[OF r(2)] crypto_left_step[OF r(1)] by (auto split: if_splits)
qed simp

text \<open>The actions a crypto leg still has to see, in this order, before it can be CLEAR.\<close>

fun crypto_todo :: "InternalFundStatus \<Rightarrow> InternalFundAction list" where
  "crypto_todo CREATED = [SIGN, BROADCAST, SEEN_IN_MEMPOOL, CONFIRM, CLEAR_FUND]"
| "crypto_todo SIGNING = [BROADCAST, SEEN_IN_MEMPOOL, CONFIRM, CLEAR_FUND]"
| "crypto_todo BROADCASTED = [SEEN_IN_MEMPOOL, CONFIRM, CLEAR_FUND]"
| "crypto_todo CONFIRMING = [CONFIRM, CLEAR_FUND]"
| "crypto_todo CONFIRMED = [CLEAR_FUND]"
| "crypto_todo _ = []"

lemma crypto_todo_step:
  "CRYPTO_TRANSITIONS s a = Some t \<Longrightarrow> subseq (crypto_todo t) as \<Longrightarrow> t = CLEAR \<or> \<not> TERMINAL_STATUSES t \<Longrightarrow>
     subseq (crypto_todo s) (a # as)"
  by (cases s) (auto simp: CRYPTO_TRANSITIONS_def split: if_splits dest: subseq_Cons')

lemma crypto_clear_history:
  "run_actions CRYPTO_TRANSITIONS s as = Some CLEAR \<Longrightarrow> subseq (crypto_todo s) as"
proof (induction as arbitrary: s)
  case (Cons a as)
  then obtain r where r: "CRYPTO_TRANSITIONS s a = Some r"
      "run_actions CRYPTO_TRANSITIONS r as = Some CLEAR"
    by (auto split: option.splits)
  have "r = CLEAR \<or> \<not> TERMINAL_STATUSES r"
    using r(2) crypto.final_rejects[of r] by (cases as) auto
  then show ?case
    using crypto_todo_step[OF r(1) Cons.IH[OF r(2)]] by simp
qed simp

text \<open>A bank leg has no loop and a single way to CLEAR.\<close>

fun fiat_todo :: "InternalFundStatus \<Rightarrow> InternalFundAction list" where
  "fiat_todo CREATED = [SUBMIT, CONFIRM, CLEAR_FUND]"
| "fiat_todo CONFIRMING = [CONFIRM, CLEAR_FUND]"
| "fiat_todo CONFIRMED = [CLEAR_FUND]"
| "fiat_todo _ = []"

lemma fiat_clear_history:
  "run_actions FIAT_TRANSITIONS s as = Some CLEAR \<Longrightarrow> as = fiat_todo s"
proof (induction as arbitrary: s)
  case (Cons a as)
  then obtain r where r: "FIAT_TRANSITIONS s a = Some r" "as = fiat_todo r"
      "run_actions FIAT_TRANSITIONS r as = Some CLEAR"
    by (auto split: option.splits)
  then show ?case
    by (cases s) (auto simp: FIAT_TRANSITIONS_def split: if_splits)
qed (auto split: option.splits)

end
