(* ===== verification/Paths.thy ===== *)
theory Paths
  imports Prelude
begin

text \<open>
  The internal-transfer whitelist (src/src/modules/funds-layer/constants/
  internal-transfer-paths.constant.ts and guards/whitelist.guard.ts): eleven paths between wallet
  roles, each with an accounting class, a medium, its triggers, the direction in which it is mirrored
  in the ledger, and for two-hop bank paths the route.  Wallet roles are strings; the roles of
  customer custody start with \<open>C_\<close>, the company's with \<open>F_\<close>.
\<close>

datatype TransferPath =
    CRYPTO_DEPOSIT_SWEEP | CRYPTO_HOTWALLET_FUND | CRYPTO_HOTWALLET_RETURN | CRYPTO_SETTLE_OUT
  | CRYPTO_SETTLE_IN | CRYPTO_WITHDRAW_FEE_COLLECT | CRYPTO_SWAP_FEE_COLLECT | FIAT_SETTLE_OUT
  | FIAT_SETTLE_IN | FIAT_WITHDRAW_FEE_COLLECT | FIAT_SWAP_FEE_COLLECT

datatype AccountingClass = Class_A | Class_B

datatype TransferMedium = CHAIN | BANK

datatype TbMirror = POOL_TO_FIRM | FIRM_TO_POOL

record TransferPathPolicy =
  p_path :: TransferPath
  p_from :: string
  p_to :: string
  p_class :: AccountingClass
  p_medium :: TransferMedium
  p_trigger :: "string list"
  p_mirror :: "TbMirror option"
  p_route :: "string list option"

fun transfer_path_str :: "TransferPath \<Rightarrow> string" where
  "transfer_path_str CRYPTO_DEPOSIT_SWEEP = ''CRYPTO_DEPOSIT_SWEEP''"
| "transfer_path_str CRYPTO_HOTWALLET_FUND = ''CRYPTO_HOTWALLET_FUND''"
| "transfer_path_str CRYPTO_HOTWALLET_RETURN = ''CRYPTO_HOTWALLET_RETURN''"
| "transfer_path_str CRYPTO_SETTLE_OUT = ''CRYPTO_SETTLE_OUT''"
| "transfer_path_str CRYPTO_SETTLE_IN = ''CRYPTO_SETTLE_IN''"
| "transfer_path_str CRYPTO_WITHDRAW_FEE_COLLECT = ''CRYPTO_WITHDRAW_FEE_COLLECT''"
| "transfer_path_str CRYPTO_SWAP_FEE_COLLECT = ''CRYPTO_SWAP_FEE_COLLECT''"
| "transfer_path_str FIAT_SETTLE_OUT = ''FIAT_SETTLE_OUT''"
| "transfer_path_str FIAT_SETTLE_IN = ''FIAT_SETTLE_IN''"
| "transfer_path_str FIAT_WITHDRAW_FEE_COLLECT = ''FIAT_WITHDRAW_FEE_COLLECT''"
| "transfer_path_str FIAT_SWAP_FEE_COLLECT = ''FIAT_SWAP_FEE_COLLECT''"

fun class_str :: "AccountingClass \<Rightarrow> string" where
  "class_str Class_A = ''A''"
| "class_str Class_B = ''B''"

fun medium_str :: "TransferMedium \<Rightarrow> string" where
  "medium_str CHAIN = ''CHAIN''"
| "medium_str BANK = ''BANK''"

fun TRANSFER_PATH_WHITELIST :: "TransferPath \<Rightarrow> TransferPathPolicy" where
  "TRANSFER_PATH_WHITELIST CRYPTO_DEPOSIT_SWEEP =
     \<lparr>p_path = CRYPTO_DEPOSIT_SWEEP, p_from = ''C_DEP'', p_to = ''C_MAIN'', p_class = Class_A,
      p_medium = CHAIN, p_trigger = [''CRON'', ''THRESHOLD''], p_mirror = None, p_route = None\<rparr>"
| "TRANSFER_PATH_WHITELIST CRYPTO_HOTWALLET_FUND =
     \<lparr>p_path = CRYPTO_HOTWALLET_FUND, p_from = ''C_MAIN'', p_to = ''C_OUT'', p_class = Class_A,
      p_medium = CHAIN, p_trigger = [''WITHDRAW''], p_mirror = None, p_route = None\<rparr>"
| "TRANSFER_PATH_WHITELIST CRYPTO_HOTWALLET_RETURN =
     \<lparr>p_path = CRYPTO_HOTWALLET_RETURN, p_from = ''C_OUT'', p_to = ''C_MAIN'', p_class = Class_A,
      p_medium = CHAIN, p_trigger = [''WITHDRAW''], p_mirror = None, p_route = None\<rparr>"
| "TRANSFER_PATH_WHITELIST CRYPTO_SETTLE_OUT =
     \<lparr>p_path = CRYPTO_SETTLE_OUT, p_from = ''C_MAIN'', p_to = ''F_OPS'', p_class = Class_B,
      p_medium = CHAIN, p_trigger = [''EOD''], p_mirror = Some POOL_TO_FIRM, p_route = None\<rparr>"
| "TRANSFER_PATH_WHITELIST CRYPTO_SETTLE_IN =
     \<lparr>p_path = CRYPTO_SETTLE_IN, p_from = ''F_OPS'', p_to = ''C_MAIN'', p_class = Class_B,
      p_medium = CHAIN, p_trigger = [''EOD''], p_mirror = Some FIRM_TO_POOL, p_route = None\<rparr>"
| "TRANSFER_PATH_WHITELIST CRYPTO_WITHDRAW_FEE_COLLECT =
     \<lparr>p_path = CRYPTO_WITHDRAW_FEE_COLLECT, p_from = ''C_MAIN'', p_to = ''F_FEE'', p_class = Class_B,
      p_medium = CHAIN, p_trigger = [''EOD''], p_mirror = Some POOL_TO_FIRM, p_route = None\<rparr>"
| "TRANSFER_PATH_WHITELIST FIAT_SETTLE_OUT =
     \<lparr>p_path = FIAT_SETTLE_OUT, p_from = ''C_VIBAN'', p_to = ''F_OPS'', p_class = Class_B,
      p_medium = BANK, p_trigger = [''SWAP''], p_mirror = Some POOL_TO_FIRM,
      p_route = Some [''C_VIBAN'', ''F_SET'', ''F_OPS'']\<rparr>"
| "TRANSFER_PATH_WHITELIST FIAT_SETTLE_IN =
     \<lparr>p_path = FIAT_SETTLE_IN, p_from = ''F_OPS'', p_to = ''C_VIBAN'', p_class = Class_B,
      p_medium = BANK, p_trigger = [''SWAP''], p_mirror = Some FIRM_TO_POOL,
      p_route = Some [''F_OPS'', ''F_SET'', ''C_VIBAN'']\<rparr>"
| "TRANSFER_PATH_WHITELIST FIAT_WITHDRAW_FEE_COLLECT =
     \<lparr>p_path = FIAT_WITHDRAW_FEE_COLLECT, p_from = ''C_VIBAN'', p_to = ''F_FEE'', p_class = Class_B,
      p_medium = BANK, p_trigger = [''WITHDRAW''], p_mirror = Some POOL_TO_FIRM, p_route = None\<rparr>"
| "TRANSFER_PATH_WHITELIST FIAT_SWAP_FEE_COLLECT =
     \<lparr>p_path = FIAT_SWAP_FEE_COLLECT, p_from = ''F_OPS'', p_to = ''F_FEE'', p_class = Class_B,
      p_medium = BANK, p_trigger = [''SWAP''], p_mirror = None, p_route = None\<rparr>"
| "TRANSFER_PATH_WHITELIST CRYPTO_SWAP_FEE_COLLECT =
     \<lparr>p_path = CRYPTO_SWAP_FEE_COLLECT, p_from = ''F_OPS'', p_to = ''F_FEE'', p_class = Class_B,
      p_medium = CHAIN, p_trigger = [''SWAP'', ''EOD''], p_mirror = None, p_route = None\<rparr>"

text \<open>\<open>Object.values\<close> lists the entries in the order they are written in the table, which is not the
  order of the enumeration: the fiat swap-fee path stands before the crypto one.\<close>

definition whitelist_keys :: "TransferPath list" where
  "whitelist_keys =
     [CRYPTO_DEPOSIT_SWEEP, CRYPTO_HOTWALLET_FUND, CRYPTO_HOTWALLET_RETURN, CRYPTO_SETTLE_OUT,
      CRYPTO_SETTLE_IN, CRYPTO_WITHDRAW_FEE_COLLECT, FIAT_SETTLE_OUT, FIAT_SETTLE_IN,
      FIAT_WITHDRAW_FEE_COLLECT, FIAT_SWAP_FEE_COLLECT, CRYPTO_SWAP_FEE_COLLECT]"

definition whitelist_values :: "TransferPathPolicy list" where
  "whitelist_values = map TRANSFER_PATH_WHITELIST whitelist_keys"

definition resolvePathPolicy :: "string \<Rightarrow> string \<Rightarrow> TransferPathPolicy option" where
  "resolvePathPolicy fromRole toRole =
     find (\<lambda>p. p_from p = fromRole \<and> p_to p = toRole) whitelist_values"

definition resolveRoutePolicy :: "string list \<Rightarrow> TransferPathPolicy option" where
  "resolveRoutePolicy route =
     find (\<lambda>p. case p_route p of None \<Rightarrow> False
               | Some r \<Rightarrow> length r = length route \<and> list_all (\<lambda>i. r ! i = route ! i) [0..<length r])
       whitelist_values"

definition AGGREGATION_THRESHOLD :: rat where
  "AGGREGATION_THRESHOLD = 100"

definition DUST_THRESHOLD :: rat where
  "DUST_THRESHOLD = 1"

section \<open>The whitelist guard\<close>

definition assertWhitelisted :: "string \<Rightarrow> string \<Rightarrow> ('s, TransferPathPolicy) cmd" where
  "assertWhitelisted fromRole toRole =
     need (resolvePathPolicy fromRole toRole) (BadRequestException ''TRANSFER_NOT_WHITELISTED'')"

definition assertRoute :: "string list \<Rightarrow> ('s, TransferPathPolicy) cmd" where
  "assertRoute route =
     need (resolveRoutePolicy route) (BadRequestException ''TRANSFER_ROUTE_NOT_WHITELISTED'')"

section \<open>What the whitelist allows\<close>

definition client_role :: "string \<Rightarrow> bool" where
  "client_role r \<longleftrightarrow> take 2 r = ''C_''"

definition expected_mirror :: "string \<Rightarrow> string \<Rightarrow> TbMirror option" where
  "expected_mirror f t =
     (if client_role f \<and> \<not> client_role t then Some POOL_TO_FIRM
      else if \<not> client_role f \<and> client_role t then Some FIRM_TO_POOL else None)"

lemma whitelist_keys_all: "set whitelist_keys = UNIV"
proof -
  have "p \<in> set whitelist_keys" for p
    by (cases p) (simp_all add: whitelist_keys_def)
  then show ?thesis
    by auto
qed

lemma policy_mirror:
  "p_mirror (TRANSFER_PATH_WHITELIST p) =
     expected_mirror (p_from (TRANSFER_PATH_WHITELIST p)) (p_to (TRANSFER_PATH_WHITELIST p))"
  by (cases p) (simp_all add: expected_mirror_def client_role_def)

lemma policy_class:
  "p_class (TRANSFER_PATH_WHITELIST p) = Class_A \<longleftrightarrow>
     client_role (p_from (TRANSFER_PATH_WHITELIST p)) \<and> client_role (p_to (TRANSFER_PATH_WHITELIST p))"
  by (cases p) (simp_all add: client_role_def)

lemma policy_key [simp]: "p_path (TRANSFER_PATH_WHITELIST p) = p"
  by (cases p) simp_all

lemma policy_route_ends:
  "p_route (TRANSFER_PATH_WHITELIST p) = Some r \<Longrightarrow>
     hd r = p_from (TRANSFER_PATH_WHITELIST p) \<and> last r = p_to (TRANSFER_PATH_WHITELIST p)"
  by (cases p) auto

lemma find_SomeD: "find P xs = Some x \<Longrightarrow> P x \<and> x \<in> set xs"
  by (induction xs) (auto split: if_splits)

lemma resolvePathPolicyD:
  "resolvePathPolicy f t = Some p \<Longrightarrow>
     p_from p = f \<and> p_to p = t \<and> p = TRANSFER_PATH_WHITELIST (p_path p)"
  unfolding resolvePathPolicy_def whitelist_values_def by (auto dest!: find_SomeD)

text \<open>The role pairs of the table are distinct but for the two swap-fee paths, of which the fiat one is
  found.\<close>

lemma resolvePathPolicy_complete:
  "resolvePathPolicy (p_from (TRANSFER_PATH_WHITELIST p)) (p_to (TRANSFER_PATH_WHITELIST p)) =
     Some (TRANSFER_PATH_WHITELIST (if p = CRYPTO_SWAP_FEE_COLLECT then FIAT_SWAP_FEE_COLLECT else p))"
  by (cases p) (simp_all add: resolvePathPolicy_def whitelist_values_def whitelist_keys_def)

lemma resolveRoutePolicyD:
  assumes "resolveRoutePolicy r = Some p"
  shows "p_route p = Some r \<and> p = TRANSFER_PATH_WHITELIST (p_path p)"
proof -
  from assms obtain r' where "p_route p = Some r'" "length r' = length r"
      "list_all (\<lambda>i. r' ! i = r ! i) [0..<length r']" "p \<in> set whitelist_values"
    unfolding resolveRoutePolicy_def by (auto dest!: find_SomeD split: option.splits)
  then show ?thesis
    by (auto simp: whitelist_values_def list_all_iff intro: nth_equalityI)
qed

end
