(* ===== verification/Money.thy ===== *)
theory Money
  imports Prelude
begin

text \<open>
  Numbers and their strings: the conversions between TigerBeetle's integer units and Prisma decimals
  (src/src/modules/funds-layer/accounting/tb-amount.util.ts), the hexadecimal form of ledger ids
  (src/src/modules/accounting/tigerbeetle/utils/tb-id.util.ts) and the end-of-day cutoff
  (src/src/modules/funds-layer/workflow/eod-cutoff.util.ts).  A BigInt is an \<^emph>\<open>int\<close>, a
  Prisma.Decimal an exact rational; the string steps of the code (toString, padStart, slice, split,
  parsing) are kept, and the lemmas show what they compute.
\<close>

section \<open>Digits\<close>

fun digits :: "nat \<Rightarrow> nat \<Rightarrow> nat list" where
  "digits b n = (if b \<le> 1 \<or> n < b then [n] else digits b (n div b) @ [n mod b])"

declare digits.simps [simp del]

definition undigits :: "nat \<Rightarrow> nat list \<Rightarrow> nat" where
  "undigits b ds = foldl (\<lambda>a d. a * b + d) 0 ds"

lemma foldl_undigits: "foldl (\<lambda>a d. a * b + d) x ds = x * b ^ length ds + undigits b ds"
proof (induction ds arbitrary: x)
  case (Cons d ds)
  show ?case
    unfolding undigits_def foldl.simps Cons.IH[of "x * b + d"] Cons.IH[of "0 * b + d"]
    by (simp add: algebra_simps)
qed (simp add: undigits_def)

lemma undigits_append: "undigits b (xs @ ys) = undigits b xs * b ^ length ys + undigits b ys"
  by (simp add: undigits_def foldl_undigits[of b "foldl _ 0 xs", unfolded undigits_def])

lemma undigits_simps [simp]: "undigits b [] = 0" "undigits b [d] = d"
  by (simp_all add: undigits_def)

lemma undigits_digits: "undigits b (digits b n) = n"
proof (induction b n rule: digits.induct)
  case (1 b n)
  show ?case
    using 1 by (subst digits.simps) (auto simp: undigits_append)
qed

lemma digits_less: "1 < b \<Longrightarrow> d \<in> set (digits b n) \<Longrightarrow> d < b"
proof (induction b n rule: digits.induct)
  case (1 b n)
  show ?case
  proof (cases "n < b")
    case True
    then show ?thesis
      using "1.prems" by (subst (asm) digits.simps) simp
  next
    case False
    have "digits b n = digits b (n div b) @ [n mod b]"
      using False "1.prems"(1) by (subst digits.simps) simp
    then show ?thesis
      using 1 False by auto
  qed
qed

lemma digits_nonempty: "digits b n \<noteq> []"
  by (subst digits.simps) simp

lemma undigits_zeros: "undigits b (replicate k 0 @ ds) = undigits b ds"
  by (induction k) (simp_all add: undigits_def)

lemma undigits_bound: "(\<And>d. d \<in> set ds \<Longrightarrow> d < b) \<Longrightarrow> undigits b ds < b ^ length ds"
proof (induction ds rule: rev_induct)
  case (snoc d ds)
  have "undigits b ds + 1 \<le> b ^ length ds" "d < b"
    using snoc by auto
  then have "(undigits b ds + 1) * b \<le> b ^ length ds * b"
    by (intro mult_le_mono1)
  then show ?case
    using \<open>d < b\<close> by (simp add: undigits_append algebra_simps)
qed simp

text \<open>The characters of the digits, lower case as \<open>toString(16)\<close> writes them.\<close>

definition digit_char :: "nat \<Rightarrow> char" where
  "digit_char d = char_of (if d < 10 then 48 + d else 87 + d)"

definition char_digit :: "nat \<Rightarrow> char \<Rightarrow> nat option" where
  "char_digit b c = (let k = of_char c :: nat;
       d = (if 48 \<le> k \<and> k \<le> 57 then k - 48
            else if 97 \<le> k \<and> k \<le> 122 then k - 87
            else if 65 \<le> k \<and> k \<le> 90 then k - 55 else b)
     in if d < b then Some d else None)"

lemma of_char_char_of_small: "k < 256 \<Longrightarrow> (of_char (char_of (k :: nat)) :: nat) = k"
  by (simp add: of_char_of)

lemma char_digit_char: "d < b \<Longrightarrow> b \<le> 36 \<Longrightarrow> char_digit b (digit_char d) = Some d"
  by (auto simp: char_digit_def digit_char_def of_char_char_of_small Let_def)

definition to_str :: "nat \<Rightarrow> nat \<Rightarrow> string" where
  "to_str b n = map digit_char (digits b n)"

fun parse_digits :: "nat \<Rightarrow> string \<Rightarrow> nat list option" where
  "parse_digits b [] = Some []"
| "parse_digits b (c # cs) =
     (case char_digit b c of None \<Rightarrow> None
      | Some d \<Rightarrow> (case parse_digits b cs of None \<Rightarrow> None | Some ds \<Rightarrow> Some (d # ds)))"

lemma parse_digits_map:
  "(\<And>d. d \<in> set ds \<Longrightarrow> d < b) \<Longrightarrow> b \<le> 36 \<Longrightarrow> parse_digits b (map digit_char ds) = Some ds"
  by (induction ds) (simp_all add: char_digit_char)

text \<open>\<open>BigInt(s)\<close> on a decimal string and \<open>BigInt('0x' + s)\<close>: the empty decimal string is 0, an empty
  hexadecimal one and any foreign character are a SyntaxError.\<close>

definition nat_str :: "nat \<Rightarrow> string" where
  "nat_str n = to_str 10 n"

definition parse_bigint :: "string \<Rightarrow> int option" where
  "parse_bigint s =
     (case s of [] \<Rightarrow> Some 0
      | c # cs \<Rightarrow>
          if c = CHR ''-'' then
            (if cs = [] then None else map_option (\<lambda>ds. - int (undigits 10 ds)) (parse_digits 10 cs))
          else map_option (\<lambda>ds. int (undigits 10 ds)) (parse_digits 10 s))"

definition parse_hex :: "string \<Rightarrow> int option" where
  "parse_hex s = (if s = [] then None else map_option (\<lambda>ds. int (undigits 16 ds)) (parse_digits 16 s))"

lemma parse_to_str: "1 < b \<Longrightarrow> b \<le> 36 \<Longrightarrow> parse_digits b (to_str b n) = Some (digits b n)"
  unfolding to_str_def by (rule parse_digits_map) (use digits_less[of b _ n] in auto)

section \<open>Ledger ids in hexadecimal\<close>

text \<open>\<open>bigintToHex\<close> and \<open>hexToBigint\<close>: the column form of a TigerBeetle id (an unsigned 128-bit
  number; a negative BigInt prints with a sign and does not parse back).\<close>

definition bigintToHex :: "int \<Rightarrow> string" where
  "bigintToHex v = (if v < 0 then ''-'' @ to_str 16 (nat (- v)) else to_str 16 (nat v))"

definition hexToBigint :: "string \<Rightarrow> int option" where
  "hexToBigint hex = parse_hex hex"

lemma to_str_nonempty: "to_str b n \<noteq> []"
  by (simp add: to_str_def digits_nonempty)

lemma hex_roundtrip: "0 \<le> v \<Longrightarrow> hexToBigint (bigintToHex v) = Some v"
  by (simp add: hexToBigint_def bigintToHex_def parse_hex_def parse_to_str to_str_nonempty
      undigits_digits)

section \<open>Units and decimals\<close>

definition pad_start :: "nat \<Rightarrow> char \<Rightarrow> string \<Rightarrow> string" where
  "pad_start k c s = replicate (k - length s) c @ s"

definition pad_end :: "nat \<Rightarrow> char \<Rightarrow> string \<Rightarrow> string" where
  "pad_end k c s = s @ replicate (k - length s) c"

text \<open>\<open>new Prisma.Decimal(s)\<close> on the strings the code builds: an optional minus sign, digits, and
  optionally a point and digits.\<close>

fun split_point :: "string \<Rightarrow> string \<times> string" where
  "split_point [] = ([], [])"
| "split_point (c # cs) =
     (if c = CHR ''.'' then ([], cs) else (let (w, f) = split_point cs in (c # w, f)))"

definition parse_unsigned :: "string \<Rightarrow> rat option" where
  "parse_unsigned s =
     (let (w, f) = split_point s in
        case (parse_digits 10 w, parse_digits 10 f) of
          (Some ws, Some fs) \<Rightarrow> Some (of_nat (undigits 10 (ws @ fs)) / 10 ^ length fs)
        | _ \<Rightarrow> None)"

definition new_Decimal :: "string \<Rightarrow> rat option" where
  "new_Decimal s =
     (case s of [] \<Rightarrow> None
      | c # cs \<Rightarrow> if c = CHR ''-'' then map_option uminus (parse_unsigned cs) else parse_unsigned s)"

definition bigintToDecimal :: "int \<Rightarrow> nat \<Rightarrow> rat option" where
  "bigintToDecimal value decimals =
     (let neg = value < 0;
          ab = nat \<bar>value\<bar>;
          s = pad_start (decimals + 1) (CHR ''0'') (nat_str ab);
          whole0 = take (length s - decimals) s;
          whole = (if whole0 = [] then ''0'' else whole0);
          frac = (if decimals > 0 then ''.'' @ drop (length s - decimals) s else [])
      in new_Decimal ((if neg then ''-'' else []) @ whole @ frac))"

text \<open>\<open>toDecimalPlaces(d, ROUND_DOWN)\<close> truncates towards zero; \<open>toFixed(d)\<close> rounds to \<^emph>\<open>d\<close> decimals,
  half away from zero, and prints exactly \<^emph>\<open>d\<close> fraction digits (no point when \<^emph>\<open>d\<close> is 0), with the sign of
  the number before it was rounded.\<close>

definition round_down :: "nat \<Rightarrow> rat \<Rightarrow> rat" where
  "round_down d v = sgn v * of_int \<lfloor>\<bar>v\<bar> * 10 ^ d\<rfloor> / 10 ^ d"

definition to_fixed :: "nat \<Rightarrow> rat \<Rightarrow> string" where
  "to_fixed d v =
     (let n = nat \<lfloor>\<bar>v\<bar> * 10 ^ d + 1 / 2\<rfloor>;
          s = pad_start (d + 1) (CHR ''0'') (nat_str n)
      in (if v < 0 then ''-'' else []) @ take (length s - d) s
         @ (if d > 0 then ''.'' @ drop (length s - d) s else []))"

definition decimalToTbUnits :: "rat \<Rightarrow> nat \<Rightarrow> int option" where
  "decimalToTbUnits value decimals =
     (let truncated = to_fixed decimals (round_down decimals value);
          (whole, frac) = split_point truncated
      in parse_bigint (whole @ take decimals (pad_end decimals (CHR ''0'') frac)))"

section \<open>What the conversions compute\<close>

definition pad_digits :: "nat \<Rightarrow> nat \<Rightarrow> nat list" where
  "pad_digits d n = replicate (d + 1 - length (digits 10 n)) 0 @ digits 10 n"

lemma pad_digits_less: "x \<in> set (pad_digits d n) \<Longrightarrow> x < 10"
  using digits_less[of 10 x n] by (auto simp: pad_digits_def)

lemma pad_digits_length: "d < length (pad_digits d n)"
  by (simp add: pad_digits_def)

lemma undigits_pad: "undigits 10 (pad_digits d n) = n"
  by (simp add: pad_digits_def undigits_zeros undigits_digits)

lemma pad_digits_nonempty [simp]: "pad_digits d n \<noteq> []"
  using pad_digits_length[of d n] by auto

lemma digit_char_0: "digit_char 0 = CHR ''0''"
proof -
  have "of_char (digit_char 0) = (of_char (CHR ''0'') :: nat)"
    by (simp add: digit_char_def of_char_of)
  then show ?thesis
    by (simp only: of_char_eq_iff)
qed

lemma pad_start_nat_str: "pad_start (d + 1) (CHR ''0'') (nat_str n) = map digit_char (pad_digits d n)"
  by (simp add: pad_start_def nat_str_def to_str_def pad_digits_def digit_char_0)

lemma digit_char_not [simp]:
  assumes "d < 10"
  shows "digit_char d \<noteq> CHR ''.''" "digit_char d \<noteq> CHR ''-''"
proof -
  have "char_digit 10 (CHR ''.'') = None" "char_digit 10 (CHR ''-'') = None"
    by (simp_all add: char_digit_def)
  then show "digit_char d \<noteq> CHR ''.''" "digit_char d \<noteq> CHR ''-''"
    using char_digit_char[of d 10] assms by force+
qed

lemma split_point_digits:
  assumes "\<And>d. d \<in> set xs \<Longrightarrow> d < 10"
  shows "split_point (map digit_char xs) = (map digit_char xs, [])"
    and "split_point (map digit_char xs @ CHR ''.'' # ys) = (map digit_char xs, ys)"
  using assms by (induction xs) auto

text \<open>The common shape of both printers: the padded digits with the point before the last \<^emph>\<open>d\<close>.\<close>

definition point_str :: "nat \<Rightarrow> nat \<Rightarrow> string" where
  "point_str d n =
     (let ds = pad_digits d n; k = length ds - d in
        map digit_char (take k ds) @ (if d > 0 then CHR ''.'' # map digit_char (drop k ds) else []))"

lemma split_point_str:
  "split_point (point_str d n) =
     (map digit_char (take (length (pad_digits d n) - d) (pad_digits d n)),
      map digit_char (drop (length (pad_digits d n) - d) (pad_digits d n)))"
  using split_point_digits[of "take (length (pad_digits d n) - d) (pad_digits d n)"]
    pad_digits_less[of _ d n]
  by (auto simp: point_str_def Let_def dest!: in_set_takeD)

lemma parse_parts:
  "parse_digits 10 (map digit_char (take k (pad_digits d n))) = Some (take k (pad_digits d n))"
  "parse_digits 10 (map digit_char (drop k (pad_digits d n))) = Some (drop k (pad_digits d n))"
  using pad_digits_less[of _ d n]
  by (auto intro!: parse_digits_map dest: in_set_takeD in_set_dropD)

lemma parse_point_str: "parse_unsigned (point_str d n) = Some (of_nat n / 10 ^ d)"
  using pad_digits_length[of d n]
  by (simp add: parse_unsigned_def split_point_str parse_parts undigits_pad)

lemma point_str_head: "\<exists>c cs. point_str d n = c # cs \<and> c \<noteq> CHR ''-''"
proof -
  obtain x xs where x: "pad_digits d n = x # xs"
    using pad_digits_length[of d n] by (cases "pad_digits d n") auto
  have "x < 10"
    using pad_digits_less[of x d n] x by simp
  moreover have "take (length (pad_digits d n) - d) (pad_digits d n) \<noteq> []"
    using pad_digits_length[of d n] by simp
  ultimately show ?thesis
    using x by (cases "length (pad_digits d n) - d") (auto simp: point_str_def Let_def)
qed

lemma printed_whole_nonempty:
  "take (length (map digit_char (pad_digits d n)) - d) (map digit_char (pad_digits d n)) \<noteq> []"
  using pad_digits_length[of d n] by simp

lemma point_str_slices:
  "take (length (map digit_char (pad_digits d n)) - d) (map digit_char (pad_digits d n))
     @ (if d > 0 then ''.'' @ drop (length (map digit_char (pad_digits d n)) - d)
          (map digit_char (pad_digits d n)) else []) = point_str d n"
  by (simp add: point_str_def Let_def take_map drop_map)

lemma bigintToDecimal_eq: "bigintToDecimal v d = Some (of_int v / 10 ^ d)"
proof -
  obtain c cs where c: "point_str d (nat \<bar>v\<bar>) = c # cs" "c \<noteq> CHR ''-''"
    using point_str_head by blast
  have "bigintToDecimal v d = new_Decimal ((if v < 0 then ''-'' else []) @ point_str d (nat \<bar>v\<bar>))"
    unfolding bigintToDecimal_def Let_def pad_start_nat_str point_str_slices[symmetric]
    using printed_whole_nonempty[of d "nat \<bar>v\<bar>"] by simp
  also have "\<dots> = Some (of_int v / 10 ^ d)"
  proof (cases "v < 0")
    case True
    then show ?thesis
      by (simp add: new_Decimal_def parse_point_str of_nat_nat)
  next
    case False
    have "new_Decimal (point_str d (nat \<bar>v\<bar>)) = parse_unsigned (point_str d (nat \<bar>v\<bar>))"
      unfolding new_Decimal_def c(1) using c(2) by simp
    then show ?thesis
      using False by (simp add: parse_point_str of_nat_nat)
  qed
  finally show ?thesis .
qed

lemma to_fixed_eq:
  "to_fixed d v = (if v < 0 then ''-'' else []) @ point_str d (nat \<lfloor>\<bar>v\<bar> * 10 ^ d + 1 / 2\<rfloor>)"
  unfolding to_fixed_def Let_def pad_start_nat_str point_str_slices ..

lemma floor_half: "\<lfloor>of_int k + 1 / 2 :: rat\<rfloor> = k"
  by (rule floor_unique) simp_all

lemma round_down_scaled: "\<lfloor>\<bar>round_down d v\<bar> * 10 ^ d + 1 / 2\<rfloor> = \<lfloor>\<bar>v\<bar> * 10 ^ d\<rfloor>"
proof (cases "v = 0")
  case False
  have "0 \<le> \<lfloor>\<bar>v\<bar> * 10 ^ d\<rfloor>"
    by simp
  then have "\<bar>round_down d v\<bar> * 10 ^ d = of_int \<lfloor>\<bar>v\<bar> * 10 ^ d\<rfloor>"
    using False by (simp add: round_down_def abs_mult abs_sgn_eq)
  then show ?thesis
    by (simp only: floor_half)
qed (simp add: round_down_def floor_eq_iff)

lemma round_down_neg: "round_down d v < 0 \<longleftrightarrow> v < 0 \<and> 0 < \<lfloor>\<bar>v\<bar> * 10 ^ d\<rfloor>"
proof -
  have "0 \<le> \<lfloor>\<bar>v\<bar> * 10 ^ d\<rfloor>"
    by simp
  then show ?thesis
    by (auto simp: round_down_def sgn_if divide_less_0_iff mult_less_0_iff not_less)
qed

text \<open>The reference meaning of \<open>decimalToTbUnits\<close>: truncation of the scaled amount towards zero.\<close>

definition tb_units :: "rat \<Rightarrow> nat \<Rightarrow> int" where
  "tb_units v d = (if v < 0 then - \<lfloor>- v * 10 ^ d\<rfloor> else \<lfloor>v * 10 ^ d\<rfloor>)"

lemma split_sign_point:
  "split_point (''-'' @ point_str d n) =
     (''-'' @ fst (split_point (point_str d n)), snd (split_point (point_str d n)))"
  by (simp add: split_beta)

text \<open>The second half of both conversions to units: split the printed number at the point and read the
  digits of both parts as one integer.\<close>

definition units_of_printed :: "nat \<Rightarrow> string \<Rightarrow> int option" where
  "units_of_printed d s =
     (let (whole, frac) = split_point s in parse_bigint (whole @ take d (pad_end d (CHR ''0'') frac)))"

lemma units_of_point_str:
  "units_of_printed d ((if neg then ''-'' else []) @ point_str d n) = Some (if neg then - int n else int n)"
proof -
  define ds where "ds = pad_digits d n"
  have frac: "take d (pad_end d (CHR ''0'') (map digit_char (drop (length ds - d) ds)))
      = map digit_char (drop (length ds - d) ds)"
    using pad_digits_length[of d n] by (simp add: pad_end_def ds_def)
  have joined: "map digit_char (take k ds) @ map digit_char (drop k ds) = map digit_char ds" for k
    by (simp flip: map_append)
  have parse: "parse_digits 10 (map digit_char ds) = Some ds" "undigits 10 ds = n" "ds \<noteq> []"
    unfolding ds_def using pad_digits_length[of d n]
    by (auto intro!: parse_digits_map simp: pad_digits_less undigits_pad)
  obtain x xs where x: "ds = x # xs" "x < 10"
    using parse(3) pad_digits_less[of _ d n] unfolding ds_def[symmetric] by (cases ds) auto
  have pos: "parse_bigint (map digit_char ds) = Some (int n)"
    unfolding parse_bigint_def using parse x by simp
  have neg: "parse_bigint (''-'' @ map digit_char ds) = Some (- int n)"
    unfolding parse_bigint_def using parse by simp
  have whole: "split_point (point_str d n) =
      (map digit_char (take (length ds - d) ds), map digit_char (drop (length ds - d) ds))"
    by (simp add: split_point_str ds_def)
  show ?thesis
    unfolding units_of_printed_def using pos neg by (auto simp: split_sign_point[simplified] whole frac joined split_beta)
qed

lemma decimalToTbUnits_eq: "decimalToTbUnits v d = Some (tb_units v d)"
proof -
  define n where "n = nat \<lfloor>\<bar>v\<bar> * 10 ^ d\<rfloor>"
  have "decimalToTbUnits v d = units_of_printed d ((if v < 0 \<and> 0 < n then ''-'' else []) @ point_str d n)"
    by (simp add: decimalToTbUnits_def Let_def units_of_printed_def to_fixed_eq round_down_scaled round_down_neg n_def)
  then have "decimalToTbUnits v d = Some (if v < 0 \<and> 0 < n then - int n else int n)"
    unfolding units_of_point_str .
  moreover have "\<lfloor>- v * 10 ^ d\<rfloor> = 0" if "v < 0" "\<not> 0 < n"
  proof -
    have "0 \<le> - v * 10 ^ d"
      using that(1) by (simp add: mult_nonpos_nonneg)
    then show ?thesis
      using that by (simp add: n_def floor_eq_iff)
  qed
  ultimately show ?thesis
    by (auto simp: tb_units_def n_def)
qed

text \<open>The conversion of the trading services, which prints with \<open>toFixed\<close> instead of truncating
  (\<open>decimalToBigint\<close> of swap-leg-accounting.ts): it rounds to the nearest unit.\<close>

definition decimalToBigint_fixed :: "rat \<Rightarrow> nat \<Rightarrow> int option" where
  "decimalToBigint_fixed value decimals =
     (let (whole, frac) = split_point (to_fixed decimals value);
          paddedFrac = take decimals (pad_end decimals (CHR ''0'') frac)
      in parse_bigint (whole @ paddedFrac))"

definition nearest_units :: "rat \<Rightarrow> nat \<Rightarrow> int" where
  "nearest_units v d = (if v < 0 then - \<lfloor>- v * 10 ^ d + 1 / 2\<rfloor> else \<lfloor>v * 10 ^ d + 1 / 2\<rfloor>)"

lemma decimalToBigint_fixed_eq: "decimalToBigint_fixed v d = Some (nearest_units v d)"
proof -
  have "decimalToBigint_fixed v d = units_of_printed d (to_fixed d v)"
    by (simp add: decimalToBigint_fixed_def units_of_printed_def Let_def)
  also have "\<dots> = Some (if v < 0 then - int (nat \<lfloor>\<bar>v\<bar> * 10 ^ d + 1 / 2\<rfloor>) else int (nat \<lfloor>\<bar>v\<bar> * 10 ^ d + 1 / 2\<rfloor>))"
    unfolding to_fixed_eq by (rule units_of_point_str)
  also have "\<dots> = Some (nearest_units v d)"
  proof (cases "v < 0")
    case True
    then have "v * 10 ^ d \<le> 0"
      by (simp add: mult_nonpos_nonneg)
    then show ?thesis
      using True by (simp add: nearest_units_def)
  qed (simp add: nearest_units_def)
  finally show ?thesis .
qed

section \<open>The end-of-day cutoff\<close>

text \<open>Milliseconds since the epoch; Asia/Dubai is four hours ahead of UTC all year.\<close>

definition EOD_OFFSET_MS :: int where
  "EOD_OFFSET_MS = 4 * 60 * 60 * 1000"

definition resolveEodCutoff :: "int \<Rightarrow> int" where
  "resolveEodCutoff t =
     (let dubaiMs = t + EOD_OFFSET_MS;
          midnightDubaiMs = dubaiMs div 86400000 * 86400000
      in midnightDubaiMs - EOD_OFFSET_MS)"

lemma eod_cutoff_spec:
  "resolveEodCutoff t \<le> t \<and> t < resolveEodCutoff t + 86400000
     \<and> (resolveEodCutoff t + EOD_OFFSET_MS) mod 86400000 = 0"
proof -
  define q m where "q = (t + EOD_OFFSET_MS) div 86400000" and "m = (t + EOD_OFFSET_MS) mod 86400000"
  have "q * 86400000 + m = t + EOD_OFFSET_MS" "0 \<le> m" "m < 86400000"
    unfolding q_def m_def by (simp_all add: div_mult_mod_eq)
  moreover have "resolveEodCutoff t = q * 86400000 - EOD_OFFSET_MS"
    by (simp add: resolveEodCutoff_def q_def)
  ultimately show ?thesis
    by simp
qed

end
