(* ===== verification/Schema.thy ===== *)
theory Schema
  imports FundStates Paths Money
begin

text \<open>
  The tables of the database (src/prisma/schema.prisma), one record per row type, with the columns the
  modelled services read or write.  Nullable columns are options, \<open>Decimal\<close> columns rationals, dates
  milliseconds.  Row ids are strings.  The status columns whose values are an enumeration of the
  program have its datatype; free-text status columns stay strings.  A status history is the JSON text
  the services append to: absent, a JSON array of entries, or some other text (which
  \<open>appendStatusHistory\<close> replaces by a fresh array).
\<close>

record hist_entry =
  h_status :: string
  h_timestamp :: int
  h_operator :: string
  h_note :: string

datatype history = HNull | HArray "hist_entry list" | HOther

record wallet =
  w_id :: string
  w_ownerType :: string
  w_ownerId :: "string option"
  w_ownerNo :: "string option"
  w_role :: string
  w_assetId :: string
  w_address :: "string option"
  w_iban :: "string option"
  w_status :: string
  w_balance :: rat

record asset =
  a_id :: string
  a_type :: string
  a_currency :: string
  a_code :: string
  a_decimals :: nat
  a_ledger :: "nat option"

record internal_transaction =
  t_id :: string
  t_no :: string
  t_type :: TransferPath
  t_status :: InternalTransactionStatus
  t_class :: AccountingClass
  t_medium :: TransferMedium
  t_trigger :: string
  t_traceId :: "string option"
  t_sourceType :: string
  t_sourceId :: string
  t_sourceNo :: "string option"
  t_ownerType :: string
  t_ownerId :: string
  t_ownerNo :: "string option"
  t_assetId :: string
  t_amount :: rat
  t_feeAmount :: rat
  t_netAmount :: rat
  t_fromWalletId :: "string option"
  t_toWalletId :: "string option"
  t_fromAddress :: "string option"
  t_fromIban :: "string option"
  t_toAddress :: "string option"
  t_toIban :: "string option"
  t_referenceNo :: "string option"
  t_batchId :: "string option"
  t_grossIn :: "rat option"
  t_grossOut :: "rat option"
  t_history :: history
  t_completedAt :: "int option"

record internal_fund =
  f_id :: string
  f_no :: string
  f_txId :: "string option"
  f_swapId :: "string option"
  f_withdrawId :: "string option"
  f_legSeq :: "nat option"
  f_attempt :: nat
  f_status :: InternalFundStatus
  f_assetId :: string
  f_amount :: rat
  f_feeAmount :: rat
  f_netAmount :: rat
  f_fromWalletId :: "string option"
  f_fromAddress :: "string option"
  f_fromIban :: "string option"
  f_toWalletId :: "string option"
  f_toAddress :: "string option"
  f_toIban :: "string option"
  f_txHash :: "string option"
  f_confirmations :: nat
  f_referenceNo :: "string option"
  f_providerTxnId :: "string option"
  f_nonce :: "string option"
  f_blockNo :: "string option"
  f_gasUsed :: "string option"
  f_gasPrice :: "string option"
  f_sentAt :: "int option"
  f_confirmedAt :: "int option"
  f_completedAt :: "int option"
  f_history :: history

record settlement_batch =
  b_id :: string
  b_no :: string
  b_type :: string
  b_category :: string
  b_cutoffAt :: int
  b_status :: string
  b_requestId :: "string option"
  b_traceId :: "string option"
  b_totalAssets :: nat
  b_settledAssets :: nat
  b_totalOutstandings :: nat
  b_settledOutstandings :: nat
  b_totalFees :: nat
  b_settledFees :: nat
  b_completedAt :: "int option"

record outstanding =
  o_id :: string
  o_no :: "string option"
  o_direction :: string
  o_assetId :: string
  o_assetCode :: "string option"
  o_amount :: rat
  o_status :: string
  o_swapId :: "string option"
  o_batchId :: "string option"
  o_transferId :: "string option"
  o_closedByFundId :: "string option"
  o_originTraceId :: "string option"
  o_lockedAt :: "int option"
  o_closedAt :: "int option"
  o_createdAt :: int

record fee_accrual =
  fa_id :: string
  fa_no :: string
  fa_sourceType :: string
  fa_sourceId :: string
  fa_sourceNo :: "string option"
  fa_ownerType :: string
  fa_ownerId :: string
  fa_ownerNo :: "string option"
  fa_feeKind :: string
  fa_category :: string
  fa_assetId :: string
  fa_assetCode :: "string option"
  fa_amount :: rat
  fa_status :: string
  fa_batchId :: "string option"
  fa_transferId :: "string option"
  fa_lockedAt :: "int option"
  fa_closedByFundId :: "string option"
  fa_closedAt :: "int option"
  fa_originTraceId :: "string option"
  fa_createdAt :: int

record tb_evidence =
  e_id :: string
  e_sourceType :: string
  e_sourceNo :: string
  e_eventCode :: string
  e_debitCode :: string
  e_creditCode :: string
  e_debitAccount :: "string option"
  e_creditAccount :: "string option"
  e_amount :: rat
  e_assetCode :: string
  e_traceId :: string
  e_actorType :: string
  e_actorId :: string
  e_memo :: "string option"
  e_pendingId :: "string option"
  e_transferType :: string
  e_debitWalletRef :: "string option"
  e_creditWalletRef :: "string option"
  e_externalRef :: "string option"
  e_crossing :: bool
  e_createdAt :: int

record account_flow =
  fl_transferId :: string
  fl_accountId :: string
  fl_walletRef :: "string option"
  fl_direction :: string
  fl_amount :: rat
  fl_crossing :: bool
  fl_externalRef :: "string option"
  fl_eventCode :: string
  fl_sourceType :: string
  fl_sourceNo :: string
  fl_transferType :: string
  fl_assetCode :: string
  fl_createdAt :: int

record tb_account =
  r_id :: string
  r_code :: nat
  r_ledger :: nat
  r_ownerType :: string
  r_ownerUuid :: "string option"
  r_ownerNo :: "string option"
  r_assetCode :: string
  r_status :: string
  r_description :: "string option"
  r_flags :: nat

record audit =
  au_action :: string
  au_entityType :: string
  au_entityId :: "string option"
  au_entityNo :: "string option"
  au_ownerType :: "string option"
  au_ownerId :: "string option"
  au_ownerNo :: "string option"
  au_workflowType :: "string option"
  au_traceId :: "string option"
  au_reason :: "string option"
  au_metadata :: "(string \<times> string) list"
  au_platform :: "string option"
  au_actorType :: string
  au_actorId :: string
  au_actorRole :: string

end
