(* ===== verification/TradeSchema.thy ===== *)
theory TradeSchema
  imports Schema
begin

text \<open>
  The tables of the trading and rail modules (src/prisma/schema.prisma) and their status
  enumerations (dto files of payins, payouts, deposit-transactions, withdraw-transactions): inbound
  and outbound rail rows (payin, payout), deposits, withdrawals, swaps and their quotes, and the columns of a
  customer that the gates read.  The JSON columns are kept parsed: the capabilities of the restrictions
  (none for text that is not a JSON array), and of a quote's \<open>totalsJson\<close> its entry \<open>amountOutNet\<close>.
\<close>

datatype PayinStatus = PI_DETECTED | PI_CONFIRMING | PI_CONFIRMED | PI_CLEARED | PI_FAILED

datatype PayinAction = PI_CONFIRM | PI_FAIL | PI_CLEAR | PI_BLOCK | PI_REORG

datatype PayoutStatus =
    PO_CREATED | PO_SIGNING | PO_BROADCASTED | PO_CONFIRMING | PO_CONFIRMED | PO_CLEARED
  | PO_FAILED | PO_TIMEOUT | PO_RETURNED

datatype PayoutAction =
    PO_SIGN | PO_BROADCAST | PO_SIGN_FAIL | PO_SEEN_IN_MEMPOOL | PO_DROP | PO_TIME_OUT | PO_CONFIRM
  | PO_FAIL | PO_CLEAR | PO_SUBMIT | PO_RETURN | PO_REORG

datatype DepositStatus =
    D_PAYIN_PENDING | D_COMPLIANCE_PENDING | D_ACTION_PENDING | D_SUCCESS | D_FROZEN | D_REJECTED
  | D_FAILED | D_EXPIRED | D_CONFISCATED

datatype DepositAction =
    D_PAYIN_CONFIRM | D_APPROVE | D_REJECT | D_FREEZE | D_ACTION_PEND | D_RESUME | D_CONFISCATE
  | D_EXPIRE | D_FAIL

datatype SignalStatus = SI_PENDING_SCAN | SI_PAYIN_CREATED | SI_IGNORED | SI_FAILED

datatype WithdrawStatus =
    W_CREATED | W_PENDING_APPROVAL | W_PENDING_COMPLIANCE | W_UNDER_REVIEW | W_APPROVED
  | W_PAYOUT_PENDING | W_SUCCESS | W_FAILED | W_REJECTED | W_CANCELLED | W_RETURNED | W_HELD

datatype WithdrawAction =
    WA_CHECK | WA_REQUIRE_APPROVAL | WA_GATE_APPROVE | WA_FLAG | WA_REJECT | WA_APPROVE | WA_CANCEL
  | WA_SUCCESS | WA_FAIL | WA_RETURN

record payin =
  pi_id :: string
  pi_no :: string
  pi_depositId :: "string option"
  pi_type :: string
  pi_status :: PayinStatus
  pi_toWalletId :: "string option"
  pi_assetId :: string
  pi_amount :: rat
  pi_ownerId :: "string option"
  pi_toAddress :: "string option"
  pi_toIban :: "string option"
  pi_fromAddress :: "string option"
  pi_fromIban :: "string option"
  pi_txHash :: "string option"
  pi_referenceNo :: "string option"
  pi_providerTxnId :: "string option"
  pi_receivedAt :: "int option"
  pi_traceId :: "string option"
  pi_history :: history

record payout =
  po_id :: string
  po_no :: string
  po_withdrawId :: string
  po_ownerId :: "string option"
  po_type :: string
  po_status :: PayoutStatus
  po_amount :: rat
  po_assetId :: string
  po_toWalletId :: "string option"
  po_toAddress :: "string option"
  po_toIban :: "string option"
  po_fromAddress :: "string option"
  po_fromIban :: "string option"
  po_txHash :: "string option"
  po_referenceNo :: "string option"
  po_gasUsed :: "string option"
  po_gasPrice :: "string option"
  po_sentAt :: "int option"
  po_completedAt :: "int option"
  po_history :: history

record deposit =
  d_id :: string
  d_no :: string
  d_ownerType :: string
  d_ownerId :: string
  d_status :: DepositStatus
  d_assetId :: string
  d_toWalletId :: string
  d_payinId :: "string option"
  d_amount :: rat
  d_netAmount :: rat
  d_feeAmount :: rat
  d_fromAddress :: "string option"
  d_toAddress :: "string option"
  d_toIban :: "string option"
  d_txHash :: "string option"
  d_kytStatus :: string
  d_kytRiskScore :: "int option"
  d_kytCheckedAt :: "int option"
  d_travelRuleRequired :: bool
  d_travelRuleStatus :: string
  d_travelRuleCheckedAt :: "int option"
  d_traceId :: "string option"
  d_history :: history
  d_aggregatedAt :: "int option"
  d_aggregatedTransferId :: "string option"
  d_completedAt :: "int option"
  d_createdAt :: int

record signal =
  si_id :: string
  si_no :: string
  si_ownerId :: string
  si_walletId :: string
  si_assetId :: string
  si_channelType :: string
  si_amount :: rat
  si_txHash :: "string option"
  si_referenceNo :: "string option"
  si_fromAddress :: "string option"
  si_fromIban :: "string option"
  si_riskLevel :: "string option"
  si_riskReason :: "string option"
  si_status :: SignalStatus
  si_dedupeKey :: string
  si_linkedPayinId :: "string option"
  si_submittedAt :: int
  si_lastScannedAt :: "int option"
  si_scanResult :: "string option"

record withdraw =
  wd_id :: string
  wd_no :: string
  wd_payoutId :: "string option"
  wd_payoutNo :: "string option"
  wd_ownerType :: string
  wd_ownerId :: string
  wd_ownerNo :: "string option"
  wd_status :: WithdrawStatus
  wd_assetId :: string
  wd_amount :: rat
  wd_feeAmount :: rat
  wd_netAmount :: rat
  wd_toWalletId :: "string option"
  wd_toAddress :: "string option"
  wd_toIban :: "string option"
  wd_fromWalletId :: "string option"
  wd_fromAddress :: "string option"
  wd_fromIban :: "string option"
  wd_txHash :: "string option"
  wd_referenceNo :: "string option"
  wd_preKytStatus :: string
  wd_preKytId :: "string option"
  wd_preKytRiskScore :: "int option"
  wd_preKytCheckedAt :: "int option"
  wd_kytStatus :: string
  wd_kytScreeningId :: "string option"
  wd_kytRiskScore :: "int option"
  wd_kytCheckedAt :: "int option"
  wd_travelRuleRequired :: bool
  wd_travelRuleStatus :: string
  wd_travelRuleTransferId :: "string option"
  wd_travelRuleCheckedAt :: "int option"
  wd_complianceStatus :: string
  wd_traceId :: "string option"
  wd_grossAed :: "rat option"
  wd_aedRate :: "rat option"
  wd_rateFetchedAt :: "int option"
  wd_rateFetchFailed :: bool
  wd_approvalCaseId :: "string option"
  wd_approvalNo :: "string option"
  wd_tbPendingNetId :: "string option"
  wd_tbPendingFeeId :: "string option"
  wd_parentType :: "string option"
  wd_parentId :: "string option"
  wd_pricingQuoteId :: "string option"
  wd_approvedAt :: "int option"
  wd_payoutRequestedAt :: "int option"
  wd_completedAt :: "int option"
  wd_history :: history

record swap =
  sw_id :: string
  sw_no :: string
  sw_quoteId :: "string option"
  sw_quoteNo :: "string option"
  sw_ownerType :: string
  sw_ownerId :: string
  sw_ownerNo :: "string option"
  sw_status :: string
  sw_stage :: "string option"
  sw_needsReview :: bool
  sw_fromAssetId :: string
  sw_fromAssetCode :: "string option"
  sw_fromAmount :: rat
  sw_toAssetId :: string
  sw_toAssetCode :: "string option"
  sw_toAmount :: rat
  sw_netToAmount :: "rat option"
  sw_feeAmount :: "rat option"
  sw_feeCurrency :: "string option"
  sw_feeBreakdown :: "string option"
  sw_exchangeRate :: rat
  sw_spreadAmount :: "rat option"
  sw_traceId :: "string option"
  sw_completedAt :: "int option"
  sw_history :: history

record swap_quote =
  q_id :: string
  q_no :: "string option"
  q_status :: string
  q_ownerType :: string
  q_ownerId :: string
  q_ownerNo :: "string option"
  q_fromAssetId :: string
  q_fromAssetCode :: string
  q_toAssetId :: string
  q_toAssetCode :: string
  q_amountIn :: rat
  q_amountOut :: rat
  q_rateAllIn :: rat
  q_marketRate :: rat
  q_feeTotal :: rat
  q_feeCurrency :: string
  q_feeBreakdown :: "string option"
  q_amountOutNet :: "string option"
  q_expiresAt :: int
  q_usedAt :: "int option"
  q_cancelledAt :: "int option"
  q_traceId :: "string option"

text \<open>The totals of a withdrawal quote are the entries of its \<open>totalsJson\<close> object, currency to amount text.\<close>

record withdraw_quote =
  wq_id :: string
  wq_no :: string
  wq_status :: string
  wq_ownerType :: string
  wq_ownerId :: string
  wq_ownerNo :: "string option"
  wq_assetId :: string
  wq_assetCode :: string
  wq_amount :: rat
  wq_totals :: "(string \<times> string) list"
  wq_expiresAt :: int
  wq_usedAt :: "int option"
  wq_cancelledAt :: "int option"

record customer =
  c_id :: string
  c_no :: string
  c_onboardingStatus :: string
  c_adminStatus :: string
  c_complianceStatus :: string
  c_restrictions :: "string list"

end
