(* ===== verification/World.thy ===== *)
theory World
  imports TradeSchema
begin

text \<open>
  The state every command works on.  \<^emph>\<open>db\<close> is the database: what a transaction takes back when it
  throws.  The rest of the world is not taken back: requests already answered by TigerBeetle, events
  already emitted, audit rows written without the transaction's client, and the numbers already drawn.

  Everything the services get from outside the repository is a field of the world, so every theorem is
  about all its values: the clock and the local date, the streams of \<open>randomUUID()\<close> and
  \<open>Math.random()\<close>, TigerBeetle's answer to a transfer and to a lookup as functions of the requests it
  has answered so far, its id generator, and the SHA-256 based id of a transfer key.
\<close>

section \<open>TigerBeetle's interface\<close>

datatype tb_flag = Flag_none | Flag_pending | Flag_post | Flag_void

record tb_transfer =
  tr_id :: int
  tr_debit :: int
  tr_credit :: int
  tr_amount :: int
  tr_pending_id :: int
  tr_timeout :: nat
  tr_ledger :: nat
  tr_code :: nat
  tr_flag :: tb_flag

datatype tb_status = TB_created | TB_exists | TB_rejected string | TB_unreachable

record tb_balance =
  debits_posted :: int
  credits_posted :: int
  debits_pending :: int
  credits_pending :: int

type_synonym tb_log = "(tb_transfer \<times> tb_status) list"

text \<open>A request to create an account; the zero fields of the request are left out.\<close>

record tb_new_account =
  na_id :: int
  na_ledger :: nat
  na_code :: nat
  na_flags :: nat
  na_user_data_128 :: int
  na_user_data_32 :: nat

type_synonym tb_acct_log = "(tb_new_account list \<times> tb_status list) list"

section \<open>The database and the world\<close>

datatype event =
    FundsFlowStatusChanged string "string option" InternalFundStatus InternalFundStatus string
  | PayinCreated string
  | PayinStatusChanged string PayinStatus PayinStatus
  | DepositStatusChanged string DepositStatus DepositStatus
  | PayoutEvent string string string
  | SwapSucceeded string string string
  | WithdrawalCreated string
  | WithdrawalKytUpdated string string nat
  | WithdrawalTravelRuleUpdated string string

record db =
  wallets :: "wallet list"
  assets :: "asset list"
  customers :: "customer list"
  transfers :: "internal_transaction list"
  funds :: "internal_fund list"
  batches :: "settlement_batch list"
  outstandings :: "outstanding list"
  accruals :: "fee_accrual list"
  payins :: "payin list"
  payouts :: "payout list"
  deposits :: "deposit list"
  signals :: "signal list"
  withdraws :: "withdraw list"
  swaps :: "swap list"
  quotes :: "swap_quote list"
  withdraw_quotes :: "withdraw_quote list"
  evidences :: "tb_evidence list"
  flows :: "account_flow list"
  registry :: "tb_account list"
  audits :: "audit list"

record world =
  db :: db
  audits_out :: "audit list"
  backlog :: "string list"
  emitted :: "event list"
  clock :: int
  ymd :: string
  uuid_src :: "nat \<Rightarrow> string"
  uuid_pos :: nat
  rnd_src :: "nat \<Rightarrow> nat"
  rnd_pos :: nat
  tb_reply :: "tb_log \<Rightarrow> tb_transfer \<Rightarrow> tb_status"
  tb_lookup :: "tb_log \<Rightarrow> int \<Rightarrow> tb_balance option"
  tb_log :: tb_log
  tb_acct_reply :: "tb_acct_log \<Rightarrow> tb_new_account list \<Rightarrow> tb_status list"
  tb_acct_log :: tb_acct_log
  tbid_src :: "nat \<Rightarrow> int"
  tbid_pos :: nat
  sha_id :: "string \<Rightarrow> int"

definition empty_db :: db where
  "empty_db = \<lparr>wallets = [], assets = [], customers = [], transfers = [], funds = [], batches = [],
     outstandings = [], accruals = [], payins = [], payouts = [], deposits = [], signals = [], withdraws = [],
     swaps = [], quotes = [], withdraw_quotes = [], evidences = [], flows = [], registry = [], audits = []\<rparr>"

type_synonym 'a op = "(world, 'a) cmd"

section \<open>Primitive commands\<close>

definition now :: "int op" where
  "now = gets clock"

definition randomUUID :: "string op" where
  "randomUUID = (\<lambda>w. (Inr (uuid_src w (uuid_pos w)), w\<lparr>uuid_pos := Suc (uuid_pos w)\<rparr>))"

text \<open>\<open>Math.floor(Math.random() * n)\<close>: the next draw, below \<^emph>\<open>n\<close>.\<close>

definition randomBelow :: "nat \<Rightarrow> nat op" where
  "randomBelow n = (\<lambda>w. (Inr (rnd_src w (rnd_pos w) mod n), w\<lparr>rnd_pos := Suc (rnd_pos w)\<rparr>))"

fun randomDigits :: "nat \<Rightarrow> string op" where
  "randomDigits 0 = ret []"
| "randomDigits (Suc n) =
     bind (randomBelow 16) (\<lambda>d. bind (randomDigits n) (\<lambda>ds. ret (to_str 16 d @ ds)))"

definition getsDb :: "(db \<Rightarrow> 'a) \<Rightarrow> 'a op" where
  "getsDb f = gets (\<lambda>w. f (db w))"

definition onDb :: "(db \<Rightarrow> db) \<Rightarrow> unit op" where
  "onDb f = modify (\<lambda>w. w\<lparr>db := f (db w)\<rparr>)"

definition emit :: "event \<Rightarrow> unit op" where
  "emit e = modify (\<lambda>w. w\<lparr>emitted := emitted w @ [e]\<rparr>)"

text \<open>\<open>$transaction(fn)\<close>: when the callback throws, the database is what it was.\<close>

definition transaction :: "'a op \<Rightarrow> 'a op" where
  "transaction m = (\<lambda>w. case m w of (Inl e, w') \<Rightarrow> (Inl e, w'\<lparr>db := db w\<rparr>) | (Inr a, w') \<Rightarrow> (Inr a, w'))"

text \<open>The idiom \<open>if (tx) return execute(tx); return prisma.$transaction(execute)\<close>.\<close>

definition inTx :: "bool \<Rightarrow> 'a op \<Rightarrow> 'a op" where
  "inTx tx m = (if tx then m else transaction m)"

text \<open>\<open>prisma.<table>.update({ where, data })\<close> on a row that is not there is P2025.\<close>

definition update_rows :: "('r \<Rightarrow> bool) \<Rightarrow> ('r \<Rightarrow> 'r) \<Rightarrow> 'r list \<Rightarrow> 'r list" where
  "update_rows p f rs = map (\<lambda>r. if p r then f r else r) rs"

definition by_id :: "('r \<Rightarrow> string) \<Rightarrow> string \<Rightarrow> 'r list \<Rightarrow> 'r option" where
  "by_id key i rs = find (\<lambda>r. key r = i) rs"

definition require_row :: "'r option \<Rightarrow> unit op" where
  "require_row r = guard (r \<noteq> None) RecordNotFound"

section \<open>Audit rows\<close>

definition audit0 :: "string \<Rightarrow> string \<Rightarrow> audit" where
  "audit0 action entityType = \<lparr>au_action = action, au_entityType = entityType, au_entityId = None,
     au_entityNo = None, au_ownerType = None, au_ownerId = None, au_ownerNo = None,
     au_workflowType = None, au_traceId = None, au_reason = None, au_metadata = [],
     au_platform = None, au_actorType = '''', au_actorId = '''', au_actorRole = ''''\<rparr>"

definition platform_of :: "string \<Rightarrow> string" where
  "platform_of operatorId = (if operatorId = ''SYSTEM'' then ''SYSTEM'' else ''ADMIN_API'')"

definition actor_of :: "string \<Rightarrow> audit \<Rightarrow> audit" where
  "actor_of operatorId a =
     a\<lparr>au_platform := Some (platform_of operatorId),
       au_actorType := (if operatorId = ''SYSTEM'' then ''SYSTEM'' else ''ADMIN''),
       au_actorId := operatorId,
       au_actorRole := (if operatorId = ''SYSTEM'' then ''SYSTEM'' else ''ADMIN'')\<rparr>"

definition system_actor :: "audit \<Rightarrow> audit" where
  "system_actor a =
     a\<lparr>au_platform := Some (case au_platform a of None \<Rightarrow> ''SYSTEM''
                             | Some p \<Rightarrow> if p = '''' then ''SYSTEM'' else p),
       au_actorType := ''SYSTEM'', au_actorId := ''SYSTEM'', au_actorRole := ''SYSTEM''\<rparr>"

text \<open>\<open>AuditLogsService.recordByActor\<close> and \<open>recordSystem\<close>: with the transaction's client the row is part
  of the database the transaction may take back, without it it is not.  The numbers, digests and masks
  the service derives are not kept.\<close>

definition recordByActor :: "audit \<Rightarrow> bool \<Rightarrow> unit op" where
  "recordByActor a withClient =
     (if withClient then onDb (\<lambda>d. d\<lparr>audits := audits d @ [a]\<rparr>)
      else modify (\<lambda>w. w\<lparr>audits_out := audits_out w @ [a]\<rparr>))"

definition recordSystem :: "audit \<Rightarrow> bool \<Rightarrow> unit op" where
  "recordSystem a withClient = recordByActor (system_actor a) withClient"

section \<open>Reference numbers\<close>

text \<open>\<open>generateReferenceNo\<close>: the prefix, the local date YYMMDD and a four-digit random number.\<close>

definition generateReferenceNo :: "string \<Rightarrow> string op" where
  "generateReferenceNo pre =
     bind (randomBelow 10000) (\<lambda>k. bind (gets ymd) (\<lambda>d.
       ret (pre @ d @ pad_start 4 (CHR ''0'') (nat_str k))))"

text \<open>The retry loop of every numbered row: draw a number, try, and draw again when the insert reports
  a conflict on the number's column; give up after the given number of attempts.\<close>

definition gave_up :: "string \<Rightarrow> error" where
  "gave_up column = InternalServerErrorException (''Failed to generate unique '' @ column)"

fun with_unique_no :: "nat \<Rightarrow> string \<Rightarrow> string \<Rightarrow> (string \<Rightarrow> 'a op) \<Rightarrow> 'a op" where
  "with_unique_no 0 pre column body =
     throw (gave_up column)"
| "with_unique_no (Suc n) pre column body =
     bind (generateReferenceNo pre) (\<lambda>no.
       handle (body no) (\<lambda>e. if e = UniqueConstraint column
         then with_unique_no n pre column body else throw e))"

definition MAX_NO_GENERATION_RETRIES :: nat where
  "MAX_NO_GENERATION_RETRIES = 10"

section \<open>JavaScript idioms\<close>

text \<open>\<open>x || y\<close> on optional strings treats the empty string as absent, \<open>x ?? y\<close> does not.\<close>

fun truthy :: "string option \<Rightarrow> bool" where
  "truthy None = False"
| "truthy (Some s) = (s \<noteq> [])"

definition or_else :: "string option \<Rightarrow> string option \<Rightarrow> string option" where
  "or_else x y = (if truthy x then x else y)"

fun nullish :: "'a option \<Rightarrow> 'a option \<Rightarrow> 'a option" where
  "nullish None y = y"
| "nullish (Some x) y = Some x"

definition to_upper :: "string \<Rightarrow> string" where
  "to_upper s = map (\<lambda>c. let k = of_char c :: nat in
     if 97 \<le> k \<and> k \<le> 122 then char_of (k - 32) else c) s"

definition alnum :: "char \<Rightarrow> bool" where
  "alnum c = (let k = of_char c :: nat in
     (48 \<le> k \<and> k \<le> 57) \<or> (65 \<le> k \<and> k \<le> 90) \<or> (97 \<le> k \<and> k \<le> 122))"

text \<open>\<open>normalizePart\<close> of audit-actions.constant.ts: runs of characters other than letters and digits
  become one underscore, underscores at the ends go, letters become capitals.\<close>

fun collapse :: "string \<Rightarrow> string" where
  "collapse [] = []"
| "collapse (c # cs) =
     (if alnum c then c # collapse cs
      else (case collapse cs of [] \<Rightarrow> ''_'' | d # ds \<Rightarrow> if d = CHR ''_'' then d # ds else CHR ''_'' # d # ds))"

definition normalizePart :: "string \<Rightarrow> string" where
  "normalizePart s = to_upper (rev (dropWhile (\<lambda>c. c = CHR ''_'')
     (rev (dropWhile (\<lambda>c. c = CHR ''_'') (collapse s)))))"

definition buildStateTransitionAction :: "string \<Rightarrow> string \<Rightarrow> string \<Rightarrow> string" where
  "buildStateTransitionAction entity fromStatus toStatus =
     normalizePart entity @ ''_'' @ normalizePart fromStatus @ ''_TO_'' @ normalizePart toStatus"

section \<open>Status histories\<close>

text \<open>\<open>appendStatusHistory\<close>: text that is not a JSON array is replaced by a fresh array.\<close>

fun history_entries :: "history \<Rightarrow> hist_entry list" where
  "history_entries HNull = []"
| "history_entries (HArray es) = es"
| "history_entries HOther = []"

definition appendStatusHistory :: "history \<Rightarrow> string \<Rightarrow> string \<Rightarrow> string \<Rightarrow> int \<Rightarrow> history" where
  "appendStatusHistory current nextStatus operatorId reason t =
     HArray (history_entries current @
       [\<lparr>h_status = nextStatus, h_timestamp = t, h_operator = operatorId, h_note = reason\<rparr>])"

section \<open>Wallets\<close>

text \<open>\<open>WalletBalanceService.adjust\<close>.\<close>

definition adjust :: "string option \<Rightarrow> rat \<Rightarrow> unit op" where
  "adjust walletId delta =
     (case walletId of None \<Rightarrow> ret ()
      | Some i \<Rightarrow>
          if i = '''' \<or> delta = 0 then ret ()
          else bind (getsDb (\<lambda>d. by_id w_id i (wallets d))) (\<lambda>row.
            andThen (require_row row)
              (onDb (\<lambda>d. d\<lparr>wallets := update_rows (\<lambda>x. w_id x = i)
                 (\<lambda>x. x\<lparr>w_balance := w_balance x + delta\<rparr>) (wallets d)\<rparr>))))"

text \<open>\<open>SystemWalletResolver\<close>: the first active wallet (the table is kept in creation order) of a role.\<close>

definition resolveWallet :: "string \<Rightarrow> string \<Rightarrow> wallet op" where
  "resolveWallet assetId role =
     bind (getsDb (\<lambda>d. find (\<lambda>x. w_role x = role \<and> w_assetId x = assetId \<and> w_ownerType x = ''PLATFORM''
         \<and> w_status x = ''ACTIVE'') (wallets d)))
       (\<lambda>row. need row (BadRequestException ''SYSTEM_WALLET_NOT_FOUND''))"

definition resolveCustomerWallet :: "string \<Rightarrow> string \<Rightarrow> string \<Rightarrow> wallet op" where
  "resolveCustomerWallet assetId role ownerId =
     bind (getsDb (\<lambda>d. find (\<lambda>x. w_role x = role \<and> w_assetId x = assetId \<and> w_ownerType x = ''CUSTOMER''
         \<and> w_ownerId x = Some ownerId \<and> w_status x = ''ACTIVE'') (wallets d)))
       (\<lambda>row. need row (BadRequestException ''CUSTOMER_WALLET_NOT_FOUND''))"

definition find_asset :: "string \<Rightarrow> db \<Rightarrow> asset option" where
  "find_asset i d = by_id a_id i (assets d)"

section \<open>Rules for the primitives\<close>

lemma wp_now [simp]: "wp now Q E w = Q (clock w) w"
  by (simp add: now_def)

lemma wp_randomUUID [simp]:
  "wp randomUUID Q E w = Q (uuid_src w (uuid_pos w)) (w\<lparr>uuid_pos := Suc (uuid_pos w)\<rparr>)"
  by (simp add: wp_def randomUUID_def)

lemma wp_randomBelow [simp]:
  "wp (randomBelow n) Q E w = Q (rnd_src w (rnd_pos w) mod n) (w\<lparr>rnd_pos := Suc (rnd_pos w)\<rparr>)"
  by (simp add: wp_def randomBelow_def)

lemma wp_getsDb [simp]: "wp (getsDb f) Q E w = Q (f (db w)) w"
  by (simp add: getsDb_def)

lemma wp_onDb [simp]: "wp (onDb f) Q E w = Q () (w\<lparr>db := f (db w)\<rparr>)"
  by (simp add: onDb_def)

lemma wp_emit [simp]: "wp (emit e) Q E w = Q () (w\<lparr>emitted := emitted w @ [e]\<rparr>)"
  by (simp add: emit_def)

lemma wp_transaction [simp]: "wp (transaction m) Q E w = wp m Q (\<lambda>e w'. E e (w'\<lparr>db := db w\<rparr>)) w"
  by (auto simp: wp_def transaction_def split: sum.splits prod.splits)

lemma wp_require_row [simp]:
  "wp (require_row r) Q E w = (if r = None then E RecordNotFound w else Q () w)"
  by (simp add: require_row_def)

lemma wp_recordByActor [simp]:
  "wp (recordByActor a c) Q E w =
     Q () (if c then w\<lparr>db := (db w)\<lparr>audits := audits (db w) @ [a]\<rparr>\<rparr>
           else w\<lparr>audits_out := audits_out w @ [a]\<rparr>)"
  by (simp add: recordByActor_def)

lemma wp_recordSystem [simp]: "wp (recordSystem a c) Q E w = wp (recordByActor (system_actor a) c) Q E w"
  by (simp add: recordSystem_def)

definition refno :: "string \<Rightarrow> string \<Rightarrow> nat \<Rightarrow> string" where
  "refno pre d k = pre @ d @ pad_start 4 (CHR ''0'') (nat_str (k mod 10000))"

lemma wp_generateReferenceNo [simp]:
  "wp (generateReferenceNo p) Q E w =
     Q (refno p (ymd w) (rnd_src w (rnd_pos w))) (w\<lparr>rnd_pos := Suc (rnd_pos w)\<rparr>)"
  by (simp add: generateReferenceNo_def refno_def)

lemma by_id_SomeD: "by_id key i rs = Some r \<Longrightarrow> key r = i \<and> r \<in> set rs"
  unfolding by_id_def by (auto dest: find_SomeD)

lemma find_None: "find P xs = None \<longleftrightarrow> (\<forall>x\<in>set xs. \<not> P x)"
  by (induction xs) auto

lemma by_id_None: "by_id key i rs = None \<longleftrightarrow> (\<forall>r\<in>set rs. key r \<noteq> i)"
  by (simp add: by_id_def find_None)

lemma length_update_rows [simp]: "length (update_rows p f rs) = length rs"
  by (simp add: update_rows_def)

lemma update_rows_Nil [simp]: "update_rows p f [] = []"
  by (simp add: update_rows_def)

lemma update_rows_Cons [simp]:
  "update_rows p f (r # rs) = (if p r then f r else r) # update_rows p f rs"
  by (simp add: update_rows_def)

lemma map_update_rows:
  "(\<And>r. g (f r) = g r) \<Longrightarrow> map g (update_rows p f rs) = map g rs"
  by (simp add: update_rows_def)

lemma in_update_rows:
  "r' \<in> set (update_rows p f rs) \<longleftrightarrow> (\<exists>r\<in>set rs. r' = (if p r then f r else r))"
  by (auto simp: update_rows_def)

lemma wp_adjust:
  "wp (adjust i d) Q E w =
     (case i of None \<Rightarrow> Q () w
      | Some j \<Rightarrow>
          if j = '''' \<or> d = 0 then Q () w
          else if by_id w_id j (wallets (db w)) = None then E RecordNotFound w
          else Q () (w\<lparr>db := (db w)\<lparr>wallets := update_rows (\<lambda>x. w_id x = j)
                 (\<lambda>x. x\<lparr>w_balance := w_balance x + d\<rparr>) (wallets (db w))\<rparr>\<rparr>))"
  by (cases i) (auto simp: adjust_def)

lemma wp_resolveWallet:
  "wp (resolveWallet a r) Q E w =
     (case find (\<lambda>x. w_role x = r \<and> w_assetId x = a \<and> w_ownerType x = ''PLATFORM''
         \<and> w_status x = ''ACTIVE'') (wallets (db w)) of
        None \<Rightarrow> E (BadRequestException ''SYSTEM_WALLET_NOT_FOUND'') w | Some x \<Rightarrow> Q x w)"
  by (simp add: resolveWallet_def)

lemma wp_resolveCustomerWallet:
  "wp (resolveCustomerWallet a r i) Q E w =
     (case find (\<lambda>x. w_role x = r \<and> w_assetId x = a \<and> w_ownerType x = ''CUSTOMER''
         \<and> w_ownerId x = Some i \<and> w_status x = ''ACTIVE'') (wallets (db w)) of
        None \<Rightarrow> E (BadRequestException ''CUSTOMER_WALLET_NOT_FOUND'') w | Some x \<Rightarrow> Q x w)"
  by (simp add: resolveCustomerWallet_def)

text \<open>The retry loop under an invariant that a failed attempt re-establishes.\<close>

lemma wp_with_unique_no:
  assumes "\<And>no w. I w \<Longrightarrow> wp (body no) Q (\<lambda>e w'. if e = UniqueConstraint col then I w' else E e w') w"
    and "\<And>w. I w \<Longrightarrow> I (w\<lparr>rnd_pos := Suc (rnd_pos w)\<rparr>)"
    and "\<And>w. I w \<Longrightarrow> E (gave_up col) w"
    and "I w"
  shows "wp (with_unique_no n p col body) Q E w"
  using assms(4)
proof (induction n arbitrary: w)
  case (Suc n)
  have "wp (body (refno p (ymd w) (rnd_src w (rnd_pos w)))) Q
      (\<lambda>e w'. if e = UniqueConstraint col then I w' else E e w') (w\<lparr>rnd_pos := Suc (rnd_pos w)\<rparr>)"
    using assms(1,2) Suc.prems by blast
  then show ?case
    by (auto elim!: wp_mono intro: Suc.IH split: if_splits)
qed (simp add: assms(3))

lemma maintains_transaction: "maintains P m \<Longrightarrow> maintains P (transaction m)"
  by (simp add: maintains_def)

lemma maintains_inTx: "maintains P m \<Longrightarrow> maintains P (inTx tx m)"
  by (simp add: inTx_def maintains_transaction)

section \<open>Guarantees that survive a rollback\<close>

locale tx_guarantee = guarantee R for R :: "world \<Rightarrow> world \<Rightarrow> bool" +
  assumes R_rollback: "R s t \<Longrightarrow> R s (t\<lparr>db := db s\<rparr>)"
begin

lemma transaction: "steps R m \<Longrightarrow> steps R (transaction m)"
  unfolding steps_wp wp_transaction by (blast intro: wp_mono R_rollback)

lemma inTx: "steps R m \<Longrightarrow> steps R (inTx tx m)"
  by (simp add: inTx_def transaction)

lemma with_unique_no:
  assumes "\<And>p. steps R (generateReferenceNo p)" "\<And>no. steps R (body no)"
  shows "steps R (with_unique_no n p col body)"
proof (induction n)
  case (Suc n)
  show ?case
    unfolding with_unique_no.simps by (intro combinators assms Suc)
qed (simp add: throw)

end

text \<open>\<^emph>\<open>fixed f m\<close>: the command leaves the observation \<^emph>\<open>f\<close> of the world as it is.\<close>

definition same :: "(world \<Rightarrow> 'b) \<Rightarrow> world \<Rightarrow> world \<Rightarrow> bool" where
  "same f s t \<longleftrightarrow> f t = f s"

lemma guarantee_same: "guarantee (same f)"
  by unfold_locales (simp_all add: same_def)

end
