(* ===== verification/InternalTransfers.thy ===== *)
theory InternalTransfers
  imports World
begin

text \<open>
  The aggregate of an internal transfer
  (src/src/modules/funds-layer/domain/internal-transfer.service.ts): \<open>createTransfer\<close> inserts the row
  under a fresh number, \<open>syncStatusFromFunds\<close> rolls the statuses of the transfer's fund legs up into the
  transfer's own status.  The second is what the funds-flow service calls through
  \<open>FundsFlowAggregatorPort\<close>.
\<close>

record CreateTransferInput =
  ct_path :: TransferPath
  ct_class :: AccountingClass
  ct_medium :: TransferMedium
  ct_trigger :: string
  ct_sourceType :: string
  ct_sourceId :: string
  ct_sourceNo :: "string option"
  ct_ownerType :: string
  ct_ownerId :: string
  ct_ownerNo :: "string option"
  ct_assetId :: string
  ct_amount :: rat
  ct_feeAmount :: rat
  ct_netAmount :: rat
  ct_fromWalletId :: string
  ct_toWalletId :: string
  ct_batchId :: "string option"
  ct_grossIn :: "rat option"
  ct_grossOut :: "rat option"

text \<open>\<open>internalTransaction.create\<close> with its unique constraints (number, source and path, primary key).\<close>

definition insert_transfer :: "internal_transaction \<Rightarrow> internal_transaction op" where
  "insert_transfer r =
     bind (getsDb transfers) (\<lambda>ts.
       if \<exists>t\<in>set ts. t_no t = t_no r then throw (UniqueConstraint ''internalTxNo'')
       else if \<exists>t\<in>set ts. t_sourceType t = t_sourceType r \<and> t_sourceId t = t_sourceId r
              \<and> t_type t = t_type r
         then throw (UniqueConstraint ''sourceType_sourceId_type'')
       else if \<exists>t\<in>set ts. t_id t = t_id r then throw (UniqueConstraint ''id'')
       else andThen (onDb (\<lambda>d. d\<lparr>transfers := transfers d @ [r]\<rparr>)) (ret r))"

definition batch_trace :: "string option \<Rightarrow> string option op" where
  "batch_trace batchId =
     (if truthy batchId
      then getsDb (\<lambda>d. case by_id b_id (the batchId) (batches d) of None \<Rightarrow> None | Some b \<Rightarrow> b_traceId b)
      else ret None)"

definition transfer_row ::
    "CreateTransferInput \<Rightarrow> string \<Rightarrow> string \<Rightarrow> string \<Rightarrow> history \<Rightarrow> internal_transaction" where
  "transfer_row inp rowId no traceId hist =
     \<lparr>t_id = rowId, t_no = no, t_type = ct_path inp, t_status = INTERNAL_FUNDS_PENDING,
      t_class = ct_class inp, t_medium = ct_medium inp, t_trigger = ct_trigger inp,
      t_traceId = Some traceId, t_sourceType = ct_sourceType inp, t_sourceId = ct_sourceId inp,
      t_sourceNo = ct_sourceNo inp, t_ownerType = ct_ownerType inp, t_ownerId = ct_ownerId inp,
      t_ownerNo = ct_ownerNo inp, t_assetId = ct_assetId inp, t_amount = ct_amount inp,
      t_feeAmount = ct_feeAmount inp, t_netAmount = ct_netAmount inp,
      t_fromWalletId = Some (ct_fromWalletId inp), t_toWalletId = Some (ct_toWalletId inp),
      t_fromAddress = None, t_fromIban = None, t_toAddress = None, t_toIban = None,
      t_referenceNo = None, t_batchId = ct_batchId inp, t_grossIn = ct_grossIn inp,
      t_grossOut = ct_grossOut inp, t_history = hist, t_completedAt = None\<rparr>"

definition createTransfer :: "CreateTransferInput \<Rightarrow> string \<Rightarrow> bool \<Rightarrow> internal_transaction op" where
  "createTransfer inp operatorId tx = inTx tx (
     bind (batch_trace (ct_batchId inp)) (\<lambda>found.
     bind (case found of None \<Rightarrow> randomUUID | Some t \<Rightarrow> ret t) (\<lambda>traceId.
     bind now (\<lambda>t.
     with_unique_no MAX_NO_GENERATION_RETRIES ''ITX'' ''internalTxNo'' (\<lambda>no.
       bind randomUUID (\<lambda>rowId.
         insert_transfer (transfer_row inp rowId no traceId
           (appendStatusHistory HNull (tx_status_str INTERNAL_FUNDS_PENDING) operatorId
              ''Internal transfer requested'' t))))))))"

section \<open>Rolling the legs up\<close>

text \<open>The status a transfer gets from the statuses of its legs: SUCCESS when all are settled, CANCELLED
  when all are cancelled, FAILED when one failed and none is still moving, otherwise unchanged.\<close>

fun leg_settled :: "InternalFundStatus \<Rightarrow> bool" where
  "leg_settled s = (s \<in> set [CONFIRMED, CLEAR])"

fun leg_failed :: "InternalFundStatus \<Rightarrow> bool" where
  "leg_failed s = (s = FAILED \<or> s = TIMEOUT)"

fun leg_progressing :: "InternalFundStatus \<Rightarrow> bool" where
  "leg_progressing s = (s \<notin> set [FAILED, TIMEOUT, CONFIRMED, CLEAR, CANCELLED, RETURNED])"

definition rollup :: "InternalTransactionStatus \<Rightarrow> InternalFundStatus list \<Rightarrow> InternalTransactionStatus" where
  "rollup current statuses =
     (if list_all leg_settled statuses then IT_SUCCESS
      else if list_all (\<lambda>s. s = CANCELLED) statuses then IT_CANCELLED
      else if list_ex leg_failed statuses \<and> \<not> list_ex leg_progressing statuses then IT_FAILED
      else current)"

definition legs_of :: "string \<Rightarrow> db \<Rightarrow> internal_fund list" where
  "legs_of i d = filter (\<lambda>f. f_txId f = Some i) (funds d)"

definition rolled_transfer ::
    "internal_transaction \<Rightarrow> InternalTransactionStatus \<Rightarrow> internal_fund list \<Rightarrow> string \<Rightarrow> int
       \<Rightarrow> internal_transaction" where
  "rolled_transfer item nxt legs operatorId t =
     (let totalFee = sum_list (map f_feeAmount legs) in
      item\<lparr>t_status := nxt, t_feeAmount := totalFee, t_netAmount := t_amount item - totalFee,
        t_history := appendStatusHistory (t_history item) (tx_status_str nxt) operatorId
          ''Aggregated from internal funds'' t,
        t_completedAt := (if TX_TERMINAL_STATUSES nxt then Some t else None)\<rparr>)"

definition syncStatusFromFunds :: "string \<Rightarrow> string \<Rightarrow> bool \<Rightarrow> internal_transaction op" where
  "syncStatusFromFunds i operatorId tx = inTx tx (
     bind (getsDb (\<lambda>d. by_id t_id i (transfers d))) (\<lambda>row.
     bind (need row (NotFoundException ''Internal transfer not found'')) (\<lambda>item.
     bind (getsDb (legs_of i)) (\<lambda>legs.
       let current = t_status item;
           nxt = rollup current (map f_status legs)
       in if legs = [] \<or> TX_TERMINAL_STATUSES current \<or> nxt = current then ret item
          else bind now (\<lambda>t.
            let updated = rolled_transfer item nxt legs operatorId t in
            andThen (onDb (\<lambda>d. d\<lparr>transfers := update_rows (\<lambda>x. t_id x = i) (\<lambda>_. updated) (transfers d)\<rparr>))
           (andThen (recordByActor (actor_of operatorId
              ((audit0 (buildStateTransitionAction ''INTERNAL_TRANSFER'' (tx_status_str current)
                  (tx_status_str nxt)) ''INTERNAL_TRANSFER'')
                \<lparr>au_entityId := Some (t_id updated), au_entityNo := Some (t_no updated),
                 au_ownerType := Some (t_ownerType updated), au_ownerId := Some (t_ownerId updated),
                 au_workflowType := Some ''INTERNAL_TRANSFER'', au_traceId := t_traceId updated,
                 au_reason := Some ''Aggregated from internal funds''\<rparr>)) True)
            (ret updated)))))))"

section \<open>Lemmas\<close>

lemma wp_insert_transfer:
  "wp (insert_transfer r) Q E w =
     (if \<exists>t\<in>set (transfers (db w)). t_no t = t_no r then E (UniqueConstraint ''internalTxNo'') w
      else if \<exists>t\<in>set (transfers (db w)). t_sourceType t = t_sourceType r \<and> t_sourceId t = t_sourceId r
              \<and> t_type t = t_type r
        then E (UniqueConstraint ''sourceType_sourceId_type'') w
      else if \<exists>t\<in>set (transfers (db w)). t_id t = t_id r then E (UniqueConstraint ''id'') w
      else Q r (w\<lparr>db := (db w)\<lparr>transfers := transfers (db w) @ [r]\<rparr>\<rparr>))"
  by (auto simp: insert_transfer_def)

lemma rollup_not_pending:
  "rollup c ss = INTERNAL_FUNDS_PENDING \<Longrightarrow> c = INTERNAL_FUNDS_PENDING"
  by (auto simp: rollup_def split: if_splits)

text \<open>When a leg can still move and not every leg is settled, the transfer is not closed.\<close>

lemma rollup_progressing:
  assumes "s \<in> set ss" "leg_progressing s"
  shows "rollup c ss = c"
proof -
  have "\<not> list_all leg_settled ss" "\<not> list_all (\<lambda>s. s = CANCELLED) ss" "list_ex leg_progressing ss"
    using assms by (auto simp: list_all_iff list_ex_iff)
  then show ?thesis
    by (simp add: rollup_def)
qed

lemma wp_syncStatus:
  assumes "by_id t_id i (transfers (db w)) = Some item"
  shows "wp (syncStatusFromFunds i op tx) Q E w =
    (let legs = legs_of i (db w); nxt = rollup (t_status item) (map f_status legs);
         updated = rolled_transfer item nxt legs op (clock w)
     in if legs = [] \<or> TX_TERMINAL_STATUSES (t_status item) \<or> nxt = t_status item then Q item w
        else Q updated (w\<lparr>db := (db w)\<lparr>
          transfers := update_rows (\<lambda>x. t_id x = i) (\<lambda>_. updated) (transfers (db w)),
          audits := audits (db w) @ [actor_of op
              ((audit0 (buildStateTransitionAction ''INTERNAL_TRANSFER'' (tx_status_str (t_status item))
                  (tx_status_str nxt)) ''INTERNAL_TRANSFER'')
                \<lparr>au_entityId := Some (t_id updated), au_entityNo := Some (t_no updated),
                 au_ownerType := Some (t_ownerType updated), au_ownerId := Some (t_ownerId updated),
                 au_workflowType := Some ''INTERNAL_TRANSFER'', au_traceId := t_traceId updated,
                 au_reason := Some ''Aggregated from internal funds''\<rparr>)]\<rparr>\<rparr>))"
  by (cases tx) (simp_all add: syncStatusFromFunds_def inTx_def assms Let_def)

end
