(* ===== verification/FundsFlow.thy ===== *)
theory FundsFlow
  imports InternalTransfers
begin

text \<open>
  The execution legs of the funds layer
  (src/src/modules/funds-layer/domain/funds-flow.service.ts): creating a leg for an internal transfer,
  a swap or a withdrawal fee, moving a leg through its transition table, clearing a leg (which moves
  the mock wallet balances), and the direct status writes for stuck swap legs and fee legs.  The roll-up
  of the parent transfer is the \<open>FundsFlowAggregatorPort\<close>, an argument of \<open>updateStatus\<close>.
\<close>

section \<open>Inserting a leg\<close>

definition fund0 :: "internal_fund" where
  "fund0 = \<lparr>f_id = '''', f_no = '''', f_txId = None, f_swapId = None, f_withdrawId = None,
     f_legSeq = None, f_attempt = 1, f_status = CREATED, f_assetId = '''', f_amount = 0,
     f_feeAmount = 0, f_netAmount = 0, f_fromWalletId = None, f_fromAddress = None, f_fromIban = None,
     f_toWalletId = None, f_toAddress = None, f_toIban = None, f_txHash = None, f_confirmations = 0,
     f_referenceNo = None, f_providerTxnId = None, f_nonce = None, f_blockNo = None,
     f_gasUsed = None, f_gasPrice = None, f_sentAt = None, f_confirmedAt = None,
     f_completedAt = None, f_history = HNull\<rparr>"

definition insert_fund :: "internal_fund \<Rightarrow> internal_fund op" where
  "insert_fund r =
     bind (getsDb funds) (\<lambda>fs.
       if \<exists>f\<in>set fs. f_no f = f_no r then throw (UniqueConstraint ''internalFundNo'')
       else if \<exists>f\<in>set fs. f_id f = f_id r then throw (UniqueConstraint ''id'')
       else andThen (onDb (\<lambda>d. d\<lparr>funds := funds d @ [r]\<rparr>)) (ret r))"

definition fund_audit :: "string \<Rightarrow> internal_fund \<Rightarrow> string \<Rightarrow> string \<Rightarrow> audit" where
  "fund_audit action f reason operatorId =
     actor_of operatorId ((audit0 action ''INTERNAL_FUND'')
       \<lparr>au_entityId := Some (f_id f), au_entityNo := Some (f_no f), au_reason := Some reason\<rparr>)"

text \<open>The loop the four creators share: draw a number, insert, write the CREATED audit.\<close>

definition create_numbered :: "(string \<Rightarrow> string \<Rightarrow> internal_fund) \<Rightarrow> (internal_fund \<Rightarrow> audit) \<Rightarrow>
    internal_fund op" where
  "create_numbered row aud =
     with_unique_no MAX_NO_GENERATION_RETRIES ''IFD'' ''internalFundNo'' (\<lambda>no.
       bind randomUUID (\<lambda>rowId.
       bind (insert_fund (row rowId no)) (\<lambda>created.
       andThen (recordByActor (aud created) True) (ret created))))"

text \<open>\<open>buildDepositWorkflowAuditContext\<close>.\<close>

definition depositContext :: "internal_transaction option \<Rightarrow> audit \<Rightarrow> audit" where
  "depositContext itx a =
     (case itx of None \<Rightarrow> a
      | Some t \<Rightarrow> if to_upper (t_sourceType t) = ''DEPOSIT'' then a\<lparr>au_workflowType := Some ''DEPOSIT''\<rparr> else a)"

definition done_at :: "InternalFundStatus \<Rightarrow> int \<Rightarrow> int option \<Rightarrow> int option" where
  "done_at s t old = (if TERMINAL_STATUSES s then Some t else old)"

record CreateFromInput =
  cf_txId :: string
  cf_status :: "InternalFundStatus option"
  cf_amount :: "rat option"
  cf_feeAmount :: "rat option"
  cf_netAmount :: "rat option"
  cf_fromWalletId :: "string option"
  cf_fromAddress :: "string option"
  cf_fromIban :: "string option"
  cf_toWalletId :: "string option"
  cf_toAddress :: "string option"
  cf_toIban :: "string option"
  cf_referenceNo :: "string option"

definition default_of :: "'a \<Rightarrow> 'a option \<Rightarrow> 'a" where
  "default_of a x = (case x of None \<Rightarrow> a | Some b \<Rightarrow> b)"

text \<open>The row of \<open>createFromInternalTransaction\<close>; \<open>netAmount || amount\<close> is the net amount, because a
  Decimal object is truthy even when it is zero.\<close>

definition fund_from_transfer ::
    "CreateFromInput \<Rightarrow> internal_transaction \<Rightarrow> string \<Rightarrow> int \<Rightarrow> string \<Rightarrow> string \<Rightarrow> internal_fund" where
  "fund_from_transfer inp itx operatorId t rowId no =
     (let status = default_of CREATED (cf_status inp) in
      fund0\<lparr>f_id := rowId, f_no := no, f_txId := Some (cf_txId inp), f_status := status,
        f_assetId := t_assetId itx, f_amount := default_of (t_netAmount itx) (cf_amount inp),
        f_feeAmount := default_of 0 (cf_feeAmount inp),
        f_netAmount := default_of (t_netAmount itx) (cf_netAmount inp),
        f_fromWalletId := nullish (cf_fromWalletId inp) (t_fromWalletId itx),
        f_fromAddress := nullish (cf_fromAddress inp) (t_fromAddress itx),
        f_fromIban := nullish (cf_fromIban inp) (t_fromIban itx),
        f_toWalletId := nullish (cf_toWalletId inp) (t_toWalletId itx),
        f_toAddress := nullish (cf_toAddress inp) (t_toAddress itx),
        f_toIban := nullish (cf_toIban inp) (t_toIban itx),
        f_referenceNo := nullish (cf_referenceNo inp) (t_referenceNo itx),
        f_history := appendStatusHistory HNull (fund_status_str status) operatorId
          ''Internal fund created'' t,
        f_completedAt := done_at status t None\<rparr>)"

definition createFromInternalTransaction ::
    "CreateFromInput \<Rightarrow> string \<Rightarrow> bool \<Rightarrow> internal_fund op" where
  "createFromInternalTransaction inp operatorId tx = inTx tx (
     bind (getsDb (\<lambda>d. by_id t_id (cf_txId inp) (transfers d))) (\<lambda>row.
     bind (need row (NotFoundException ''Internal transaction not found'')) (\<lambda>itx.
     bind (getsDb (\<lambda>d. find (\<lambda>f. f_txId f = Some (cf_txId inp)) (funds d))) (\<lambda>existing.
     case existing of
       Some f \<Rightarrow> ret f
     | None \<Rightarrow> bind now (\<lambda>t.
         create_numbered (fund_from_transfer inp itx operatorId t)
           (\<lambda>f. depositContext (Some itx) (fund_audit ''CREATED'' f ''Initial creation'' operatorId)))))))"

definition fund_leg_row ::
    "string \<Rightarrow> string \<Rightarrow> InternalFundStatus \<Rightarrow> string \<Rightarrow> rat \<Rightarrow> string \<Rightarrow> string \<Rightarrow> int \<Rightarrow> string \<Rightarrow> string
       \<Rightarrow> internal_fund" where
  "fund_leg_row txId assetId status operatorId amount fromW toW t rowId no =
     fund0\<lparr>f_id := rowId, f_no := no, f_txId := Some txId, f_status := status, f_assetId := assetId,
       f_amount := amount, f_feeAmount := 0, f_netAmount := amount, f_fromWalletId := Some fromW,
       f_toWalletId := Some toW,
       f_history := appendStatusHistory HNull (fund_status_str status) operatorId ''Fund leg created'' t,
       f_completedAt := done_at status t None\<rparr>"

definition createLeg ::
    "string \<Rightarrow> string \<Rightarrow> string \<Rightarrow> rat \<Rightarrow> InternalFundStatus option \<Rightarrow> string \<Rightarrow> bool \<Rightarrow> internal_fund op" where
  "createLeg txId fromW toW amount status0 operatorId tx = inTx tx (
     bind (getsDb (\<lambda>d. by_id t_id txId (transfers d))) (\<lambda>row.
     bind (need row (NotFoundException ''Internal transaction not found'')) (\<lambda>itx.
     bind now (\<lambda>t.
     create_numbered (fund_leg_row txId (t_assetId itx) (default_of CREATED status0) operatorId amount fromW toW t)
       (\<lambda>f. fund_audit ''CREATED'' f ''Fund leg created'' operatorId)))))"

definition swap_leg_row ::
    "string \<Rightarrow> nat \<Rightarrow> nat option \<Rightarrow> string \<Rightarrow> rat \<Rightarrow> string option \<Rightarrow> string option \<Rightarrow> string \<Rightarrow> int \<Rightarrow>
       string \<Rightarrow> string \<Rightarrow> internal_fund" where
  "swap_leg_row swapId legSeq legAttempt assetId amount fromW toW operatorId t rowId no =
     fund0\<lparr>f_id := rowId, f_no := no, f_swapId := Some swapId, f_legSeq := Some legSeq,
       f_attempt := default_of 1 legAttempt, f_status := CREATED, f_assetId := assetId,
       f_amount := amount, f_feeAmount := 0, f_netAmount := amount, f_fromWalletId := fromW,
       f_toWalletId := toW,
       f_history := appendStatusHistory HNull (fund_status_str CREATED) operatorId
         (''Swap leg '' @ nat_str legSeq @ '' created'') t\<rparr>"

definition createSwapLeg ::
    "string \<Rightarrow> nat \<Rightarrow> nat option \<Rightarrow> string \<Rightarrow> rat \<Rightarrow> string option \<Rightarrow> string option \<Rightarrow> string \<Rightarrow> bool
       \<Rightarrow> internal_fund op" where
  "createSwapLeg swapId legSeq legAttempt assetId amount fromW toW operatorId tx = inTx tx (
     bind now (\<lambda>t.
     create_numbered (swap_leg_row swapId legSeq legAttempt assetId amount fromW toW operatorId t)
       (\<lambda>f. fund_audit ''CREATED'' f (''Swap leg '' @ nat_str legSeq @ '' created'') operatorId)))"

record WithdrawFeeInput =
  wf_withdrawId :: string
  wf_assetId :: string
  wf_amount :: rat
  wf_fromWalletId :: "string option"
  wf_fromAddress :: "string option"
  wf_fromIban :: "string option"
  wf_toWalletId :: "string option"
  wf_toAddress :: "string option"
  wf_toIban :: "string option"

definition fee_fund_row :: "WithdrawFeeInput \<Rightarrow> string \<Rightarrow> int \<Rightarrow> string \<Rightarrow> string \<Rightarrow> internal_fund" where
  "fee_fund_row inp operatorId t rowId no =
     fund0\<lparr>f_id := rowId, f_no := no, f_withdrawId := Some (wf_withdrawId inp), f_status := CREATED,
       f_assetId := wf_assetId inp, f_amount := wf_amount inp, f_feeAmount := 0,
       f_netAmount := wf_amount inp, f_fromWalletId := wf_fromWalletId inp,
       f_fromAddress := wf_fromAddress inp, f_fromIban := wf_fromIban inp,
       f_toWalletId := wf_toWalletId inp, f_toAddress := wf_toAddress inp, f_toIban := wf_toIban inp,
       f_history := appendStatusHistory HNull (fund_status_str CREATED) operatorId
         ''Withdrawal fee fund created'' t\<rparr>"

definition createWithdrawFeeFund :: "WithdrawFeeInput \<Rightarrow> string \<Rightarrow> bool \<Rightarrow> internal_fund op" where
  "createWithdrawFeeFund inp operatorId tx = inTx tx (
     bind now (\<lambda>t.
     create_numbered (fee_fund_row inp operatorId t)
       (\<lambda>f. fund_audit ''CREATED'' f ''Withdrawal fee fund created'' operatorId)))"

section \<open>Moving a leg\<close>

definition put_fund :: "string \<Rightarrow> internal_fund \<Rightarrow> unit op" where
  "put_fund i r = onDb (\<lambda>d. d\<lparr>funds := update_rows (\<lambda>x. f_id x = i) (\<lambda>_. r) (funds d)\<rparr>)"

definition find_fund :: "string \<Rightarrow> db \<Rightarrow> internal_fund option" where
  "find_fund i d = by_id f_id i (funds d)"

definition applyLegClearedBalance :: "internal_fund \<Rightarrow> unit op" where
  "applyLegClearedBalance f =
     andThen (adjust (f_fromWalletId f) (- f_amount f)) (adjust (f_toWalletId f) (f_amount f))"

text \<open>\<open>item.asset?.type || 'CRYPTO'\<close>.\<close>

definition fund_asset_type :: "internal_fund \<Rightarrow> db \<Rightarrow> string" where
  "fund_asset_type f d =
     (case find_asset (f_assetId f) d of None \<Rightarrow> ''CRYPTO''
      | Some a \<Rightarrow> if a_type a = '''' then ''CRYPTO'' else a_type a)"

record UpdateFundDto =
  u_action :: InternalFundAction
  u_txHash :: "string option"
  u_referenceNo :: "string option"
  u_reason :: "string option"
  u_feeAmount :: "string option"
  u_providerTxnId :: "string option"
  u_nonce :: "string option"
  u_blockNo :: "string option"
  u_gasUsed :: "string option"
  u_gasPrice :: "string option"
  u_confirmations :: "nat option"

text \<open>The external references: what the caller passed, or the made-up values of the simulation when the
  leg has none yet.\<close>

record effective_refs =
  er_txHash :: "string option"
  er_referenceNo :: "string option"
  er_gasUsed :: "string option"
  er_gasPrice :: "string option"

definition mockTxHash :: "string op" where
  "mockTxHash = bind (randomDigits 64) (\<lambda>h. ret (''0x'' @ h))"

definition mockGasUsed :: "string op" where
  "mockGasUsed = bind (randomBelow 60000) (\<lambda>k. ret (nat_str (21000 + k)))"

definition mockGasPrice :: "string op" where
  "mockGasPrice = bind (randomBelow 9000000000) (\<lambda>k. ret (nat_str (1000000000 + k)))"

definition effectiveRefs :: "internal_fund \<Rightarrow> string \<Rightarrow> UpdateFundDto \<Rightarrow> effective_refs op" where
  "effectiveRefs item assetType dto =
     (let refs = \<lparr>er_txHash = u_txHash dto, er_referenceNo = u_referenceNo dto,
                   er_gasUsed = u_gasUsed dto, er_gasPrice = u_gasPrice dto\<rparr> in
      if assetType \<noteq> ''FIAT'' then
        bind (if u_action dto = BROADCAST \<and> \<not> truthy (u_txHash dto) \<and> \<not> truthy (f_txHash item)
              then bind mockTxHash (\<lambda>h. ret (refs\<lparr>er_txHash := Some h\<rparr>)) else ret refs) (\<lambda>r1.
        if u_action dto = CONFIRM then
          bind (if \<not> truthy (er_gasUsed r1) \<and> \<not> truthy (f_gasUsed item)
                then bind mockGasUsed (\<lambda>g. ret (r1\<lparr>er_gasUsed := Some g\<rparr>)) else ret r1) (\<lambda>r2.
          if \<not> truthy (er_gasPrice r2) \<and> \<not> truthy (f_gasPrice item)
          then bind mockGasPrice (\<lambda>g. ret (r2\<lparr>er_gasPrice := Some g\<rparr>)) else ret r2)
        else ret r1)
      else if u_action dto = SUBMIT \<and> \<not> truthy (u_referenceNo dto) \<and> \<not> truthy (f_referenceNo item)
        then ret (refs\<lparr>er_referenceNo := Some (''BANK-'' @ f_no item)\<rparr>)
      else ret refs)"

definition action_reason :: "UpdateFundDto \<Rightarrow> string" where
  "action_reason dto =
     (if truthy (u_reason dto) then the (u_reason dto) else ''Action: '' @ fund_action_str (u_action dto))"

text \<open>\<open>updateData\<close> applied to the row; a fee that does not parse is a DecimalError.\<close>

definition updated_fund ::
    "internal_fund \<Rightarrow> InternalFundStatus \<Rightarrow> UpdateFundDto \<Rightarrow> effective_refs \<Rightarrow> rat option \<Rightarrow> string \<Rightarrow> int
       \<Rightarrow> internal_fund" where
  "updated_fund item nextStatus dto refs fee operatorId t =
     item\<lparr>f_status := nextStatus,
       f_sentAt := (if nextStatus = SIGNING \<and> f_sentAt item = None then Some t else f_sentAt item),
       f_confirmedAt := (if nextStatus = CONFIRMED \<and> f_confirmedAt item = None then Some t
         else f_confirmedAt item),
       f_completedAt := done_at nextStatus t (f_completedAt item),
       f_txHash := or_else (er_txHash refs) (f_txHash item),
       f_referenceNo := or_else (er_referenceNo refs) (f_referenceNo item),
       f_feeAmount := default_of (f_feeAmount item) fee,
       f_providerTxnId := or_else (u_providerTxnId dto) (f_providerTxnId item),
       f_nonce := or_else (u_nonce dto) (f_nonce item),
       f_blockNo := or_else (u_blockNo dto) (f_blockNo item),
       f_gasUsed := or_else (er_gasUsed refs) (f_gasUsed item),
       f_gasPrice := or_else (er_gasPrice refs) (f_gasPrice item),
       f_confirmations := default_of (f_confirmations item) (u_confirmations dto),
       f_history := appendStatusHistory (f_history item) (fund_status_str nextStatus) operatorId
         (action_reason dto) t\<rparr>"

definition parse_fee :: "string option \<Rightarrow> rat option op" where
  "parse_fee fee =
     (case fee of None \<Rightarrow> ret None
      | Some s \<Rightarrow> bind (need (new_Decimal s) (PlainError ''DecimalError'')) (\<lambda>x. ret (Some x)))"

definition auto_clear_row :: "internal_fund \<Rightarrow> string \<Rightarrow> int \<Rightarrow> internal_fund" where
  "auto_clear_row f operatorId t =
     f\<lparr>f_status := CLEAR, f_completedAt := Some t,
       f_history := appendStatusHistory (f_history f) (fund_status_str CLEAR) operatorId
         ''Auto clear after internal transaction success'' t\<rparr>"

definition autoClearConfirmedFunds ::
    "internal_transaction \<Rightarrow> string \<Rightarrow> event list op" where
  "autoClearConfirmedFunds itx operatorId =
     bind (getsDb (\<lambda>d. filter (\<lambda>f. f_txId f = Some (t_id itx) \<and> f_status f = CONFIRMED) (funds d))) (\<lambda>confirmed.
       foldC (\<lambda>events f.
         bind now (\<lambda>t.
         andThen (put_fund (f_id f) (auto_clear_row f operatorId t))
        (andThen (applyLegClearedBalance f)
        (andThen (recordByActor (depositContext (Some itx)
            ((actor_of operatorId ((audit0 (buildInternalFundStateAction CLEAR) ''INTERNAL_FUND'')
               \<lparr>au_entityId := Some (f_id f),
                au_reason := Some ''Auto clear after internal transaction success'',
                au_metadata := [(''from'', fund_status_str CONFIRMED)]\<rparr>))\<lparr>au_platform := Some ''SYSTEM''\<rparr>)) True)
           (ret (events @ [FundsFlowStatusChanged (f_id f) (Some (t_id itx)) CONFIRMED CLEAR operatorId]))))))
       [] confirmed)"

definition emitAll :: "event list \<Rightarrow> unit op" where
  "emitAll es = forEach es emit"

definition cleared_event :: "string \<Rightarrow> event \<Rightarrow> bool" where
  "cleared_event i e =
     (case e of FundsFlowStatusChanged j _ _ nxt _ \<Rightarrow> j = i \<and> nxt = CLEAR | _ \<Rightarrow> False)"

text \<open>The transaction's body: the checks, the row, the wallets of a manual CLEAR, the audit, the roll-up
  through the port, and the automatic clearing when the roll-up made the transfer a success.\<close>

definition transition_fund ::
    "internal_fund \<Rightarrow> InternalFundStatus \<Rightarrow> UpdateFundDto \<Rightarrow> string \<Rightarrow> internal_fund op" where
  "transition_fund item nextStatus dto operatorId =
     bind (getsDb (fund_asset_type item)) (\<lambda>assetType.
     bind (effectiveRefs item assetType dto) (\<lambda>refs.
     bind (parse_fee (u_feeAmount dto)) (\<lambda>fee.
     bind now (\<lambda>t.
       let updated = updated_fund item nextStatus dto refs fee operatorId t in
       andThen (put_fund (f_id item) updated)
      (andThen (whenM (nextStatus = CLEAR) (applyLegClearedBalance item))
      (bind (getsDb (\<lambda>d. case f_txId item of None \<Rightarrow> None | Some j \<Rightarrow> by_id t_id j (transfers d))) (\<lambda>itx.
       andThen (recordByActor (depositContext itx
           ((fund_audit (buildInternalFundStateAction nextStatus) updated (action_reason dto) operatorId)
             \<lparr>au_metadata := [(''from'', fund_status_str (f_status item))]\<rparr>)) True)
         (ret updated))))))))"

definition settle_transfer ::
    "(string \<Rightarrow> string \<Rightarrow> bool \<Rightarrow> internal_transaction op) \<Rightarrow> internal_fund \<Rightarrow> internal_fund \<Rightarrow> string \<Rightarrow>
       (internal_fund \<times> event list) op" where
  "settle_transfer sync item updated operatorId =
     bind (getsDb (\<lambda>d. case f_txId item of None \<Rightarrow> None | Some j \<Rightarrow> by_id t_id j (transfers d))) (\<lambda>itx0.
     bind (need itx0 (TypeError ''item.internalTransaction is null'')) (\<lambda>itx.
     bind (sync (t_id itx) operatorId True) (\<lambda>txStatus.
       let first = FundsFlowStatusChanged (f_id item) (Some (t_id itx)) (f_status item) (f_status updated)
                     operatorId in
       if f_status updated = CONFIRMED \<and> t_status txStatus = IT_SUCCESS then
         bind (autoClearConfirmedFunds itx operatorId) (\<lambda>more.
         if list_ex (cleared_event (f_id item)) (first # more)
         then bind (getsDb (find_fund (f_id item))) (\<lambda>row. ret (default_of updated row, first # more))
         else ret (updated, first # more))
       else ret (updated, [first]))))"

definition updateStatus_body ::
    "(string \<Rightarrow> string \<Rightarrow> bool \<Rightarrow> internal_transaction op) \<Rightarrow> string \<Rightarrow> UpdateFundDto \<Rightarrow> string \<Rightarrow>
       (internal_fund \<times> event list) op" where
  "updateStatus_body sync i dto operatorId =
     bind (getsDb (find_fund i)) (\<lambda>row.
     bind (need row (NotFoundException ''Internal fund not found'')) (\<lambda>item.
     bind (getsDb (fund_asset_type item)) (\<lambda>assetType.
     bind (need (getTransitionMap assetType (f_status item) (u_action dto))
        (BadRequestException ''Invalid action for current status'')) (\<lambda>nextStatus.
     bind (transition_fund item nextStatus dto operatorId) (\<lambda>updated.
     settle_transfer sync item updated operatorId)))))"

definition updateStatus ::
    "(string \<Rightarrow> string \<Rightarrow> bool \<Rightarrow> internal_transaction op) \<Rightarrow> string \<Rightarrow> UpdateFundDto \<Rightarrow> string \<Rightarrow> bool \<Rightarrow>
       internal_fund op" where
  "updateStatus sync i dto operatorId tx =
     (if tx then bind (updateStatus_body sync i dto operatorId) (\<lambda>(updated, events). ret updated)
      else bind (transaction (updateStatus_body sync i dto operatorId)) (\<lambda>(updated, events).
             andThen (emitAll events) (ret updated)))"

text \<open>Swap legs have no parent transfer: they move with \<open>transitionSwapLeg\<close>.\<close>

definition swap_leg_reason :: "InternalFundStatus \<Rightarrow> InternalFundStatus \<Rightarrow> string" where
  "swap_leg_reason cur nxt = ''Swap leg '' @ fund_status_str cur @ ''->'' @ fund_status_str nxt"

definition transitioned_swap_leg ::
    "internal_fund \<Rightarrow> InternalFundStatus \<Rightarrow> string \<Rightarrow> int \<Rightarrow> internal_fund" where
  "transitioned_swap_leg leg nxt operatorId t =
     leg\<lparr>f_status := nxt,
       f_history := appendStatusHistory (f_history leg) (fund_status_str nxt) operatorId
         (swap_leg_reason (f_status leg) nxt) t,
       f_confirmedAt := (if nxt = CONFIRMED then Some t else f_confirmedAt leg),
       f_completedAt := done_at nxt t (f_completedAt leg)\<rparr>"

definition transitionSwapLeg ::
    "string \<Rightarrow> InternalFundAction \<Rightarrow> string \<Rightarrow> bool \<Rightarrow>
       (internal_fund \<times> InternalFundStatus \<times> InternalFundStatus) op" where
  "transitionSwapLeg i action operatorId tx = inTx tx (
     bind (getsDb (find_fund i)) (\<lambda>row.
     bind (need row (NotFoundException ''Internal fund leg not found'')) (\<lambda>leg.
     bind (getsDb (fund_asset_type leg)) (\<lambda>assetType.
     bind (need (getTransitionMap assetType (f_status leg) action)
        (BadRequestException ''Invalid action for status'')) (\<lambda>nxt.
     bind now (\<lambda>t.
       let updated = transitioned_swap_leg leg nxt operatorId t in
       andThen (put_fund i updated)
      (andThen (recordByActor ((fund_audit (buildInternalFundStateAction nxt) leg
             (swap_leg_reason (f_status leg) nxt) operatorId)
           \<lparr>au_metadata := [(''from'', fund_status_str (f_status leg))]\<rparr>) True)
        (ret (updated, f_status leg, nxt)))))))))"

definition needs_review_row :: "internal_fund \<Rightarrow> nat \<Rightarrow> string \<Rightarrow> int \<Rightarrow> internal_fund" where
  "needs_review_row leg attempt operatorId t =
     leg\<lparr>f_status := NEEDS_REVIEW, f_completedAt := Some t,
       f_history := appendStatusHistory (f_history leg) (fund_status_str NEEDS_REVIEW) operatorId
         (''Stuck after attempt '' @ nat_str attempt @ '' - awaiting manual resume'') t\<rparr>"

definition markLegNeedsReview :: "string \<Rightarrow> nat \<Rightarrow> string \<Rightarrow> bool \<Rightarrow> internal_fund op" where
  "markLegNeedsReview i attempt operatorId tx = inTx tx (
     bind (getsDb (find_fund i)) (\<lambda>row.
     bind (need row (NotFoundException ''Internal fund leg not found'')) (\<lambda>leg.
     bind now (\<lambda>t.
       let updated = needs_review_row leg attempt operatorId t in
       andThen (put_fund i updated) (ret updated)))))"

text \<open>The fee leg of a withdrawal follows the withdrawal; its status is written directly.\<close>

definition fee_fund_set :: "internal_fund \<Rightarrow> InternalFundStatus \<Rightarrow> string \<Rightarrow> string \<Rightarrow> int \<Rightarrow> internal_fund" where
  "fee_fund_set f status reason operatorId t =
     f\<lparr>f_status := status, f_completedAt := done_at status t (f_completedAt f),
       f_history := appendStatusHistory (f_history f) (fund_status_str status) operatorId reason t\<rparr>"

definition setWithdrawFeeFundStatus ::
    "string \<Rightarrow> InternalFundStatus \<Rightarrow> string \<Rightarrow> string \<Rightarrow> bool \<Rightarrow> internal_fund option op" where
  "setWithdrawFeeFundStatus withdrawId status reason operatorId tx = inTx tx (
     bind (getsDb (\<lambda>d. find (\<lambda>f. f_withdrawId f = Some withdrawId) (funds d))) (\<lambda>found.
     case found of
       None \<Rightarrow> ret None
     | Some f \<Rightarrow>
         if f_status f = status then ret (Some f)
         else bind now (\<lambda>t.
           let updated = fee_fund_set f status reason operatorId t in
           andThen (put_fund (f_id f) updated)
          (andThen (recordByActor ((fund_audit (buildInternalFundStateAction status) f reason operatorId)
               \<lparr>au_metadata := [(''from'', fund_status_str (f_status f))]\<rparr>) True)
            (ret (Some updated))))))"

end
