(* ===== verification/FundsFlowFacts.thy ===== *)
theory FundsFlowFacts
  imports FundsFlow
begin

text \<open>
  What the funds-flow operations keep and compute: the invariant of the leg table (unique numbers and
  ids, a history that ends in the row's status, a completion time exactly on the final statuses), the
  wallet movements of a cleared leg, and the number a new leg gets.
\<close>

section \<open>The invariant of the leg table\<close>

definition history_ok :: "internal_fund \<Rightarrow> bool" where
  "history_ok f \<longleftrightarrow> history_entries (f_history f) \<noteq> [] \<and>
     h_status (last (history_entries (f_history f))) = fund_status_str (f_status f)"

definition fund_ok :: "internal_fund \<Rightarrow> bool" where
  "fund_ok f \<longleftrightarrow> history_ok f \<and> (f_completedAt f \<noteq> None \<longleftrightarrow> TERMINAL_STATUSES (f_status f))"

definition funds_inv :: "db \<Rightarrow> bool" where
  "funds_inv d \<longleftrightarrow> distinct (map f_id (funds d)) \<and> distinct (map f_no (funds d)) \<and>
     (\<forall>f\<in>set (funds d). fund_ok f)"

lemma funds_inv_cong: "funds d' = funds d \<Longrightarrow> funds_inv d' = funds_inv d"
  by (simp add: funds_inv_def)

lemma funds_inv_simps [simp]:
  "funds_inv (d\<lparr>audits := x1\<rparr>) = funds_inv d"
  "funds_inv (d\<lparr>wallets := x2\<rparr>) = funds_inv d"
  "funds_inv (d\<lparr>transfers := x3\<rparr>) = funds_inv d"
  "funds_inv (d\<lparr>batches := x4\<rparr>) = funds_inv d"
  "funds_inv (d\<lparr>outstandings := x5\<rparr>) = funds_inv d"
  "funds_inv (d\<lparr>accruals := x6\<rparr>) = funds_inv d"
  by (simp_all add: funds_inv_def)

lemma append_history_ok:
  "history_entries (appendStatusHistory h s op r t) \<noteq> []"
  "h_status (last (history_entries (appendStatusHistory h s op r t))) = s"
  by (simp_all add: appendStatusHistory_def)

lemma fund_ok_written:
  "f_history f = appendStatusHistory h (fund_status_str (f_status f)) op r t \<Longrightarrow>
     (f_completedAt f \<noteq> None \<longleftrightarrow> TERMINAL_STATUSES (f_status f)) \<Longrightarrow> fund_ok f"
  by (simp add: fund_ok_def history_ok_def append_history_ok)

lemma funds_inv_insert:
  "funds_inv d \<Longrightarrow> fund_ok r \<Longrightarrow> \<forall>f\<in>set (funds d). f_no f \<noteq> f_no r \<and> f_id f \<noteq> f_id r \<Longrightarrow>
     funds_inv (d\<lparr>funds := funds d @ [r]\<rparr>)"
  by (auto simp: funds_inv_def)

definition keys :: "db \<Rightarrow> (string \<times> string) list" where
  "keys d = map (\<lambda>f. (f_id f, f_no f)) (funds d)"

lemma by_id_key: "by_id f_id i (funds d) = Some item \<Longrightarrow> (i, f_no item) \<in> set (keys d)"
  using by_id_SomeD by (fastforce simp: keys_def)

lemma keys_put:
  assumes "distinct (map f_id (funds d))" "(i, f_no r) \<in> set (keys d)" "f_id r = i"
  shows "keys (d\<lparr>funds := update_rows (\<lambda>x. f_id x = i) (\<lambda>_. r) (funds d)\<rparr>) = keys d"
proof -
  have "f_no f = f_no r" if "f \<in> set (funds d)" "f_id f = i" for f
    using that assms(1,2) by (auto simp: keys_def distinct_map inj_on_def)
  then show ?thesis
    using assms(3) by (auto simp: keys_def update_rows_def)
qed

lemma funds_inv_keys:
  "funds_inv d \<longleftrightarrow> distinct (map fst (keys d)) \<and> distinct (map snd (keys d)) \<and>
     (\<forall>f\<in>set (funds d). fund_ok f)"
  by (simp add: funds_inv_def keys_def comp_def)

lemma funds_inv_put:
  assumes "funds_inv d" "(i, f_no r) \<in> set (keys d)" "f_id r = i" "fund_ok r"
  shows "funds_inv (d\<lparr>funds := update_rows (\<lambda>x. f_id x = i) (\<lambda>_. r) (funds d)\<rparr>)"
proof -
  have "keys (d\<lparr>funds := update_rows (\<lambda>x. f_id x = i) (\<lambda>_. r) (funds d)\<rparr>) = keys d"
    using assms by (intro keys_put) (simp_all add: funds_inv_def)
  then show ?thesis
    using assms by (auto simp: funds_inv_keys in_update_rows)
qed

section \<open>Rules for the building blocks\<close>

lemma wp_insert_fund:
  "wp (insert_fund r) Q E w =
     (if \<exists>f\<in>set (funds (db w)). f_no f = f_no r then E (UniqueConstraint ''internalFundNo'') w
      else if \<exists>f\<in>set (funds (db w)). f_id f = f_id r then E (UniqueConstraint ''id'') w
      else Q r (w\<lparr>db := (db w)\<lparr>funds := funds (db w) @ [r]\<rparr>\<rparr>))"
  by (auto simp: insert_fund_def)

lemma wp_put_fund [simp]:
  "wp (put_fund i r) Q E w =
     Q () (w\<lparr>db := (db w)\<lparr>funds := update_rows (\<lambda>x. f_id x = i) (\<lambda>_. r) (funds (db w))\<rparr>\<rparr>)"
  by (simp add: put_fund_def)

lemma wp_inTx:
  "wp (inTx tx m) Q E w = wp m Q (\<lambda>e w'. E e (if tx then w' else w'\<lparr>db := db w\<rparr>)) w"
  by (cases tx) (simp_all add: inTx_def)

text \<open>Creating a numbered leg: on success one row was appended, whose number and id were free.\<close>

lemma wp_create_numbered:
  assumes "\<And>i no. f_no (row i no) = no \<and> f_id (row i no) = i"
    and "\<And>i no (v :: world). \<forall>f\<in>set (funds (db w)). f_no f \<noteq> no \<and> f_id f \<noteq> i \<Longrightarrow> db v = db w \<Longrightarrow>
           Q (row i no) (v\<lparr>db := (db w)\<lparr>funds := funds (db w) @ [row i no],
             audits := audits (db w) @ [aud (row i no)]\<rparr>\<rparr>)"
    and "\<And>e (v :: world). db v = db w \<Longrightarrow> E e v"
  shows "wp (create_numbered row aud) Q E w"
  unfolding create_numbered_def
proof (rule wp_with_unique_no[where I = "\<lambda>v. db v = db w"])
  fix no and v :: world
  assume v: "db v = db w"
  show "wp (bind randomUUID (\<lambda>rowId. bind (insert_fund (row rowId no))
      (\<lambda>created. andThen (recordByActor (aud created) True) (ret created)))) Q
      (\<lambda>e w'. if e = UniqueConstraint ''internalFundNo'' then db w' = db w else E e w') v"
    using assms(2)[of no "uuid_src v (uuid_pos v)" "v\<lparr>uuid_pos := Suc (uuid_pos v)\<rparr>"]
    by (auto simp: wp_insert_fund v assms(1,3))
qed (use assms(3) in auto)

section \<open>The creators keep the invariant\<close>

definition keeps_db :: "(db \<Rightarrow> bool) \<Rightarrow> world \<Rightarrow> world \<Rightarrow> bool" where
  "keeps_db P s t \<longleftrightarrow> (P (db s) \<longrightarrow> P (db t))"

interpretation keeps: tx_guarantee "keeps_db P" for P
  by unfold_locales (auto simp: keeps_db_def)

lemma keeps_wpI:
  "(\<And>w. P (db w) \<Longrightarrow> wp m (\<lambda>_ v. P (db v)) (\<lambda>_ v. P (db v)) w) \<Longrightarrow> steps (keeps_db P) m"
  by (auto simp: steps_def keeps_db_def wp_run)

lemma create_numbered_inv:
  assumes "\<And>i no. f_no (row i no) = no \<and> f_id (row i no) = i \<and> fund_ok (row i no)"
  shows "steps (keeps_db funds_inv) (create_numbered row aud)"
proof (rule keeps_wpI)
  fix w :: world
  assume inv: "funds_inv (db w)"
  show "wp (create_numbered row aud) (\<lambda>_ v. funds_inv (db v)) (\<lambda>_ v. funds_inv (db v)) w"
    by (rule wp_create_numbered) (use assms inv in \<open>auto intro!: funds_inv_insert\<close>)
qed

lemma done_at_ok: "(done_at s t None \<noteq> None) = TERMINAL_STATUSES s"
  by (simp add: done_at_def)

lemma fund_from_transfer_ok: "fund_ok (fund_from_transfer inp itx op t i no)"
  by (rule fund_ok_written) (simp_all add: fund_from_transfer_def Let_def done_at_ok del: not_None_eq)

lemma fund_leg_row_ok: "fund_ok (fund_leg_row x a s op m fw tw t i no)"
  by (rule fund_ok_written) (simp_all add: fund_leg_row_def done_at_ok del: not_None_eq)

lemma swap_leg_row_ok: "fund_ok (swap_leg_row x n k a m fw tw op t i no)"
  by (rule fund_ok_written) (simp_all add: swap_leg_row_def fund0_def)

lemma fee_fund_row_ok: "fund_ok (fee_fund_row inp op t i no)"
  by (rule fund_ok_written) (simp_all add: fee_fund_row_def fund0_def)

lemma keeps_wp:
  "steps (keeps_db P) m \<Longrightarrow> P (db w) \<Longrightarrow> wp m (\<lambda>_ v. P (db v)) (\<lambda>_ v. P (db v)) w"
  by (auto simp: steps_def keeps_db_def wp_run)

lemma keeps_gets: "steps (keeps_db P) (getsDb f)" "steps (keeps_db P) now"
  by (simp_all add: getsDb_def now_def keeps.gets)

lemmas keeps_rules = keeps.inTx keeps.transaction keeps.combinators keeps_gets

lemma createFromInternalTransaction_inv:
  "steps (keeps_db funds_inv) (createFromInternalTransaction inp op tx)"
  unfolding createFromInternalTransaction_def
  by (intro keeps_rules create_numbered_inv)
    (simp add: fund_from_transfer_ok, simp add: fund_from_transfer_def Let_def)

lemma createLeg_inv: "steps (keeps_db funds_inv) (createLeg x fw tw m s op tx)"
  unfolding createLeg_def
  by (intro keeps_rules create_numbered_inv) (simp add: fund_leg_row_ok, simp add: fund_leg_row_def)

lemma createSwapLeg_inv: "steps (keeps_db funds_inv) (createSwapLeg x n k a m fw tw op tx)"
  unfolding createSwapLeg_def
  by (intro keeps_rules create_numbered_inv) (simp add: swap_leg_row_ok, simp add: swap_leg_row_def)

lemma createWithdrawFeeFund_inv: "steps (keeps_db funds_inv) (createWithdrawFeeFund inp op tx)"
  unfolding createWithdrawFeeFund_def
  by (intro keeps_rules create_numbered_inv) (simp add: fee_fund_row_ok, simp add: fee_fund_row_def)

section \<open>The movers keep the invariant\<close>

interpretation frame: guarantee "same f" for f :: "world \<Rightarrow> 'b"
  by (rule guarantee_same)

interpretation unchanged: tx_guarantee "same (\<lambda>w. f (db w))" for f :: "db \<Rightarrow> 'b"
  by unfold_locales (auto simp: same_def)

lemma wp_same:
  assumes "steps (same db) m" "\<And>a v. db v = db w \<Longrightarrow> Q a v" "\<And>e v. db v = db w \<Longrightarrow> E e v"
  shows "wp m Q E w"
proof -
  have "wp m (\<lambda>_ v. db v = db w) (\<lambda>_ v. db v = db w) w"
    using assms(1) by (auto simp: steps_def same_def wp_run)
  then show ?thesis
    by (rule wp_mono) (auto intro: assms)
qed

lemma same_draws: "steps (same db) (randomBelow n)" "steps (same db) (randomDigits k)"
proof -
  show "steps (same db) (randomBelow n)" for n
    by (simp add: steps_wp same_def)
  then show "steps (same db) (randomDigits k)"
    by (induction k) (simp_all add: frame.bind frame.ret)
qed

lemma effectiveRefs_same: "steps (same db) (effectiveRefs item ty dto)"
  unfolding effectiveRefs_def mockTxHash_def mockGasUsed_def mockGasPrice_def Let_def
  by (intro frame.combinators same_draws)

lemma parse_fee_same: "steps (same db) (parse_fee x)"
  unfolding parse_fee_def by (intro frame.combinators)

lemma transition_terminal:
  "getTransitionMap ty s a = Some t \<Longrightarrow> TERMINAL_STATUSES s \<Longrightarrow> TERMINAL_STATUSES t"
  by (cases s) (auto simp: getTransitionMap_def CRYPTO_TRANSITIONS_def FIAT_TRANSITIONS_def
      split: if_splits)

lemma done_at_iff:
  "(c \<noteq> None \<longleftrightarrow> TERMINAL_STATUSES s) \<Longrightarrow> (TERMINAL_STATUSES s \<Longrightarrow> TERMINAL_STATUSES n) \<Longrightarrow>
     (done_at n t c \<noteq> None \<longleftrightarrow> TERMINAL_STATUSES n)"
  by (auto simp: done_at_def)

lemma updated_fund_ok:
  "fund_ok item \<Longrightarrow> (TERMINAL_STATUSES (f_status item) \<Longrightarrow> TERMINAL_STATUSES nxt) \<Longrightarrow>
     fund_ok (updated_fund item nxt dto refs fee op t)"
  using done_at_iff[of "f_completedAt item" "f_status item" nxt t]
  by (intro fund_ok_written) (auto simp: updated_fund_def fund_ok_def)

lemma updated_fund_keys [simp]:
  "f_id (updated_fund item nxt dto refs fee op t) = f_id item"
  "f_no (updated_fund item nxt dto refs fee op t) = f_no item"
  "f_status (updated_fund item nxt dto refs fee op t) = nxt"
  by (simp_all add: updated_fund_def)

lemma in_funds_ok: "funds_inv d \<Longrightarrow> find_fund i d = Some item \<Longrightarrow> fund_ok item \<and> f_id item = i"
  using by_id_SomeD by (fastforce simp: funds_inv_def find_fund_def)

text \<open>Steps that do not touch the leg table.\<close>

lemma keeps_side:
  "steps (keeps_db funds_inv) (recordByActor a c)"
  "steps (keeps_db funds_inv) (adjust x m)"
  by (rule keeps_wpI; simp add: wp_adjust split: option.split)+

lemma applyLegClearedBalance_inv: "steps (keeps_db funds_inv) (applyLegClearedBalance f)"
  unfolding applyLegClearedBalance_def by (intro keeps_rules keeps_side)

lemma transition_fund_inv:
  assumes inv: "funds_inv (db w)" and item: "find_fund (f_id item) (db w) = Some item"
    and terminal: "TERMINAL_STATUSES (f_status item) \<Longrightarrow> TERMINAL_STATUSES nxt"
  shows "wp (transition_fund item nxt dto op) (\<lambda>_ v. funds_inv (db v)) (\<lambda>_ v. funds_inv (db v)) w"
proof -
  have ok: "fund_ok item"
    using in_funds_ok[OF inv item] by simp
  have key: "(f_id item, f_no item) \<in> set (keys (db w))"
    using item by (simp add: find_fund_def by_id_key)
  have put: "funds_inv ((db w)\<lparr>funds := update_rows (\<lambda>x. f_id x = f_id item)
      (\<lambda>_. updated_fund item nxt dto refs fee op t) (funds (db w))\<rparr>)" for refs fee t
    using inv key ok terminal by (intro funds_inv_put) (simp_all add: updated_fund_ok)
  show ?thesis
    using put inv
    unfolding transition_fund_def wp_bind wp_getsDb wp_now Let_def wp_andThen wp_put_fund
    by (intro wp_same[OF effectiveRefs_same] wp_same[OF parse_fee_same])
      (auto intro!: keeps_wp[where P = funds_inv] applyLegClearedBalance_inv)
qed

lemma put_transitioned_inv:
  assumes inv: "funds_inv d" and leg0: "find_fund i d = Some leg"
    and nxt: "getTransitionMap ty (f_status leg) a = Some nxt"
  shows "funds_inv (d\<lparr>funds := update_rows (\<lambda>x. f_id x = i)
      (\<lambda>_. transitioned_swap_leg leg nxt op t) (funds d)\<rparr>)"
proof (rule funds_inv_put[OF inv])
  have leg: "fund_ok leg" "f_id leg = i" "(i, f_no leg) \<in> set (keys d)"
    using in_funds_ok[OF inv leg0] leg0 by (auto simp: find_fund_def by_id_key)
  show "fund_ok (transitioned_swap_leg leg nxt op t)"
    using leg(1) done_at_iff[of "f_completedAt leg" "f_status leg" nxt t] transition_terminal[OF nxt]
    by (intro fund_ok_written) (auto simp: transitioned_swap_leg_def fund_ok_def)
  show "(i, f_no (transitioned_swap_leg leg nxt op t)) \<in> set (keys d)"
    "f_id (transitioned_swap_leg leg nxt op t) = i"
    using leg by (simp_all add: transitioned_swap_leg_def)
qed

lemma transitionSwapLeg_inv: "steps (keeps_db funds_inv) (transitionSwapLeg i a op tx)"
  unfolding transitionSwapLeg_def
  by (intro keeps.inTx keeps_wpI) (auto simp: Let_def put_transitioned_inv split: option.split)

text \<open>A direct status write to a final status.\<close>

lemma put_final_inv:
  assumes inv: "funds_inv d" and f: "(i, f_no r) \<in> set (keys d)" "f_id r = i"
    and r: "f_history r = appendStatusHistory h (fund_status_str (f_status r)) op reason t"
      "TERMINAL_STATUSES (f_status r)" "f_completedAt r \<noteq> None"
  shows "funds_inv (d\<lparr>funds := update_rows (\<lambda>x. f_id x = i) (\<lambda>_. r) (funds d)\<rparr>)"
  using assms by (intro funds_inv_put fund_ok_written[OF r(1)]) simp_all

lemma markLegNeedsReview_inv: "steps (keeps_db funds_inv) (markLegNeedsReview i n op tx)"
  unfolding markLegNeedsReview_def
proof (intro keeps.inTx keeps_wpI)
qed (auto simp: Let_def needs_review_row_def find_fund_def dest: by_id_SomeD by_id_key
      intro!: put_final_inv split: option.split)

lemma setWithdrawFeeFundStatus_inv:
  "TERMINAL_STATUSES s \<Longrightarrow> steps (keeps_db funds_inv) (setWithdrawFeeFundStatus i s reason op tx)"
  unfolding setWithdrawFeeFundStatus_def
  by (intro keeps.inTx keeps_wpI) (auto simp: Let_def fee_fund_set_def done_at_def keys_def
      dest!: find_SomeD intro!: put_final_inv split: option.split)

section \<open>Automatic clearing and the aggregator port\<close>

lemma foldC_wpI:
  assumes "\<And>b x s. x \<in> set xs \<Longrightarrow> I s \<Longrightarrow> wp (f b x) (\<lambda>_. I) (\<lambda>_. I) s" "I s"
  shows "wp (foldC f b xs) (\<lambda>_. I) (\<lambda>_. I) s"
  using assms by (intro wp_foldC[where I = "\<lambda>_. I"]) auto

lemma applyLegClearedBalance_keys:
  "steps (keeps_db (\<lambda>d. funds_inv d \<and> keys d = K)) (applyLegClearedBalance f)"
  unfolding applyLegClearedBalance_def
  by (intro keeps_rules keeps_wpI) (simp_all add: wp_adjust keys_def split: option.split)

lemma autoClear_inv: "steps (keeps_db funds_inv) (autoClearConfirmedFunds itx op)"
proof (rule keeps_wpI)
  fix w :: world
  assume inv: "funds_inv (db w)"
  let ?I = "\<lambda>v. funds_inv (db v) \<and> keys (db v) = keys (db w)"
  let ?body = "\<lambda>events f. bind now (\<lambda>t.
         andThen (put_fund (f_id f) (auto_clear_row f op t))
        (andThen (applyLegClearedBalance f)
        (andThen (recordByActor (depositContext (Some itx)
            ((actor_of op ((audit0 (buildInternalFundStateAction CLEAR) ''INTERNAL_FUND'')
               \<lparr>au_entityId := Some (f_id f),
                au_reason := Some ''Auto clear after internal transaction success'',
                au_metadata := [(''from'', fund_status_str CONFIRMED)]\<rparr>))\<lparr>au_platform := Some ''SYSTEM''\<rparr>)) True)
           (ret (events @ [FundsFlowStatusChanged (f_id f) (Some (t_id itx)) CONFIRMED CLEAR op])))))"
  let ?fs = "filter (\<lambda>f. f_txId f = Some (t_id itx) \<and> f_status f = CONFIRMED) (funds (db w))"
  have step: "wp (?body b f) (\<lambda>_. ?I) (\<lambda>_. ?I) v" if "f \<in> set ?fs" "?I v" for b f v
  proof -
    have key: "(f_id f, f_no f) \<in> set (keys (db v))"
      using that by (auto simp: keys_def)
    have "?I (v\<lparr>db := (db v)\<lparr>funds := update_rows (\<lambda>x. f_id x = f_id f)
        (\<lambda>_. auto_clear_row f op t) (funds (db v))\<rparr>\<rparr>)" for t
      using that key put_final_inv[of "db v" "f_id f" "auto_clear_row f op t"]
        keys_put[of "db v" "f_id f" "auto_clear_row f op t"]
      by (simp add: auto_clear_row_def funds_inv_def)
    then show ?thesis
      by (auto simp: keys_def intro!: wp_mono[OF keeps_wp[OF applyLegClearedBalance_keys[where K = "keys (db w)"]]])
  qed
  have "wp (foldC ?body [] ?fs) (\<lambda>_. ?I) (\<lambda>_. ?I) w"
    using step inv by (intro foldC_wpI) auto
  then show "wp (autoClearConfirmedFunds itx op) (\<lambda>_ v. funds_inv (db v)) (\<lambda>_ v. funds_inv (db v)) w"
    unfolding autoClearConfirmedFunds_def by (auto elim: wp_mono)
qed

end
