(* ===== verification/FundsFlowSteps.thy ===== *)
theory FundsFlowSteps
  imports FundsFlowFacts
begin

text \<open>
  How legs move.  A guarantee that every operation of the funds flow gives: the leg table's invariant is
  kept, no leg disappears or changes its number, asset or withdrawal, and a leg's status moves along its
  transition table, apart from the two direct status writes of the service (parking a leg in NEEDS_REVIEW,
  and the fee leg that follows its withdrawal).  The roll-up service is used through the
  locale \<^emph>\<open>aggregator\<close>, the contract of \<open>FundsFlowAggregatorPort\<close>.
\<close>

section \<open>The guarantee\<close>

definition leg_goes :: "string \<Rightarrow> internal_fund \<Rightarrow> InternalFundStatus \<Rightarrow> bool" where
  "leg_goes assetType f s \<longleftrightarrow> reaches (getTransitionMap assetType) (f_status f) s \<or> s = NEEDS_REVIEW
     \<or> f_withdrawId f \<noteq> None \<and> TERMINAL_STATUSES s"

lemma final_stays_final:
  "reaches (getTransitionMap ty) s t \<Longrightarrow> TERMINAL_STATUSES s \<Longrightarrow> TERMINAL_STATUSES t"
proof (induction rule: reaches.induct)
  case (step s t a u)
  then show ?case
    by (cases t) (auto simp: getTransitionMap_def CRYPTO_TRANSITIONS_def FIAT_TRANSITIONS_def split: if_splits)
qed

lemma review_stays: "reaches (getTransitionMap ty) s t \<Longrightarrow> s = NEEDS_REVIEW \<Longrightarrow> t = NEEDS_REVIEW"
proof (induction rule: reaches.induct)
  case (step s t a u)
  then show ?case
    by (simp add: getTransitionMap_def CRYPTO_TRANSITIONS_def FIAT_TRANSITIONS_def split: if_splits)
qed

lemma leg_goes_trans:
  assumes "leg_goes ty f s" "f_status g = s" "f_withdrawId g = f_withdrawId f" "leg_goes ty g t"
  shows "leg_goes ty f t"
  using assms reaches_trans[of "getTransitionMap ty" s t "f_status f"]
    final_stays_final[of ty s t] review_stays[of ty s t] by (auto simp: leg_goes_def)

definition leg_moved :: "db \<Rightarrow> internal_fund \<Rightarrow> internal_fund \<Rightarrow> bool" where
  "leg_moved d f g \<longleftrightarrow> f_no g = f_no f \<and> f_assetId g = f_assetId f \<and> f_withdrawId g = f_withdrawId f \<and>
     leg_goes (fund_asset_type f d) f (f_status g)"

definition legs_move :: "db \<Rightarrow> db \<Rightarrow> bool" where
  "legs_move d d' \<longleftrightarrow> assets d' = assets d \<and>
     (\<forall>i f. find_fund i d = Some f \<longrightarrow> (\<exists>g. find_fund i d' = Some g \<and> leg_moved d f g))"

definition sound_step :: "world \<Rightarrow> world \<Rightarrow> bool" where
  "sound_step s t \<longleftrightarrow> (funds_inv (db s) \<longrightarrow> funds_inv (db t) \<and> legs_move (db s) (db t))"

lemma asset_type_cong:
  "assets d' = assets d \<Longrightarrow> f_assetId g = f_assetId f \<Longrightarrow> fund_asset_type g d' = fund_asset_type f d"
  by (simp add: fund_asset_type_def find_asset_def)

lemma leg_goes_refl [simp]: "leg_goes ty f (f_status f)"
  by (simp add: leg_goes_def reaches.refl)

lemma leg_goes_step: "getTransitionMap ty (f_status f) a = Some s \<Longrightarrow> leg_goes ty f s"
  by (auto simp: leg_goes_def intro: reaches.step[OF reaches.refl])

lemma legs_move_refl: "legs_move d d"
  by (simp add: legs_move_def leg_moved_def)

lemma leg_moved_trans:
  assumes "assets d' = assets d" "leg_moved d f g" "leg_moved d' g h"
  shows "leg_moved d f h"
proof -
  have "fund_asset_type g d' = fund_asset_type f d"
    using assms by (intro asset_type_cong) (simp_all add: leg_moved_def)
  then show ?thesis
    using assms(2,3) leg_goes_trans[of "fund_asset_type f d" f "f_status g" g "f_status h"]
    by (auto simp: leg_moved_def)
qed

lemma legs_move_trans:
  assumes "legs_move d1 d2" "legs_move d2 d3"
  shows "legs_move d1 d3"
proof -
  have "\<exists>h. find_fund i d3 = Some h \<and> leg_moved d1 f h" if f: "find_fund i d1 = Some f" for i f
  proof -
    obtain g where "find_fund i d2 = Some g" "leg_moved d1 f g"
      using assms(1) f by (auto simp: legs_move_def)
    moreover then obtain h where "find_fund i d3 = Some h" "leg_moved d2 g h"
      using assms(2) by (auto simp: legs_move_def)
    ultimately show ?thesis
      using leg_moved_trans[of d2 d1 f g h] assms(1) by (auto simp: legs_move_def)
  qed
  then show ?thesis
    using assms by (auto simp: legs_move_def)
qed

interpretation sound: tx_guarantee sound_step
  by unfold_locales (auto simp: sound_step_def legs_move_refl intro: legs_move_trans)

lemma sound_wpI:
  "(\<And>w. funds_inv (db w) \<Longrightarrow> wp m (\<lambda>_ v. funds_inv (db v) \<and> legs_move (db w) (db v))
      (\<lambda>_ v. funds_inv (db v) \<and> legs_move (db w) (db v)) w) \<Longrightarrow> steps sound_step m"
  by (auto simp: steps_def sound_step_def wp_run)

lemma sound_wp:
  "steps sound_step m \<Longrightarrow> funds_inv (db v) \<Longrightarrow> legs_move d (db v) \<Longrightarrow>
     wp m (\<lambda>_ v'. funds_inv (db v') \<and> legs_move d (db v')) (\<lambda>_ v'. funds_inv (db v') \<and> legs_move d (db v')) v"
  by (auto simp: steps_def sound_step_def wp_run intro: legs_move_trans)

lemma sound_from_same:
  "steps (same (\<lambda>w. (funds (db w), assets (db w)))) m \<Longrightarrow> steps sound_step m"
  by (auto simp: steps_def same_def sound_step_def legs_move_def leg_moved_def find_fund_def
      cong: funds_inv_cong intro: funds_inv_cong[THEN iffD2])

lemma find_fund_put:
  "f_id r = i \<Longrightarrow> find_fund j (d\<lparr>funds := update_rows (\<lambda>x. f_id x = i) (\<lambda>_. r) (funds d)\<rparr>) =
     (if j = i \<and> find_fund i d \<noteq> None then Some r else find_fund j d)"
proof -
  assume r: "f_id r = i"
  have "find (\<lambda>x. f_id x = j) (update_rows (\<lambda>x. f_id x = i) (\<lambda>_. r) fs) =
      (if j = i \<and> find (\<lambda>x. f_id x = i) fs \<noteq> None then Some r else find (\<lambda>x. f_id x = j) fs)" for fs
    using r by (induction fs) auto
  then show ?thesis
    by (simp add: find_fund_def by_id_def)
qed

lemma legs_move_put:
  assumes "find_fund i d = Some item" "f_id r = i" "leg_moved d item r"
  shows "legs_move d (d\<lparr>funds := update_rows (\<lambda>x. f_id x = i) (\<lambda>_. r) (funds d)\<rparr>)"
  using assms by (auto simp: legs_move_def find_fund_put leg_moved_def)

lemma find_append: "find P (xs @ ys) = (case find P xs of None \<Rightarrow> find P ys | Some x \<Rightarrow> Some x)"
  by (induction xs) auto

lemma legs_move_insert: "legs_move d (d\<lparr>funds := funds d @ [r]\<rparr>)"
  by (auto simp: legs_move_def find_fund_def by_id_def find_append leg_moved_def)

lemma legs_move_simps [simp]:
  "legs_move d (d'\<lparr>audits := x1\<rparr>) = legs_move d d'"
  "legs_move d (d'\<lparr>wallets := x2\<rparr>) = legs_move d d'"
  "legs_move d (d'\<lparr>transfers := x3\<rparr>) = legs_move d d'"
  by (simp_all add: legs_move_def find_fund_def)

lemma sound_gets: "steps sound_step (getsDb f)" "steps sound_step now"
  by (simp_all add: getsDb_def now_def sound.gets)

lemma sound_side:
  "steps sound_step (recordByActor a c)" "steps sound_step (adjust x m)" "steps sound_step (emit e)"
  by (rule sound_wpI; simp add: wp_adjust legs_move_refl split: option.split)+

lemma applyLegClearedBalance_sound: "steps sound_step (applyLegClearedBalance f)"
  unfolding applyLegClearedBalance_def by (intro sound.combinators sound_side)

lemmas sound_rules = sound.inTx sound.transaction sound.combinators sound_gets sound_side
  applyLegClearedBalance_sound

lemma find_in_distinct:
  "distinct (map key xs) \<Longrightarrow> x \<in> set xs \<Longrightarrow> find (\<lambda>r. key r = key x) xs = Some x"
  by (induction xs) (auto simp: image_iff)

lemma find_fund_in: "funds_inv d \<Longrightarrow> f \<in> set (funds d) \<Longrightarrow> find_fund (f_id f) d = Some f"
  unfolding find_fund_def by_id_def by (rule find_in_distinct) (simp_all add: funds_inv_def)

section \<open>The creators\<close>

lemma create_numbered_sound:
  assumes "\<And>i no. f_no (row i no) = no \<and> f_id (row i no) = i \<and> fund_ok (row i no)"
  shows "steps sound_step (create_numbered row aud)"
proof (rule sound_wpI)
  fix w :: world
  assume inv: "funds_inv (db w)"
  show "wp (create_numbered row aud) (\<lambda>_ v. funds_inv (db v) \<and> legs_move (db w) (db v))
      (\<lambda>_ v. funds_inv (db v) \<and> legs_move (db w) (db v)) w"
    by (rule wp_create_numbered)
      (use assms inv in \<open>auto intro!: funds_inv_insert legs_move_insert simp: legs_move_refl\<close>)
qed

lemma fund_rows_ok:
  "f_no (fund_from_transfer inp itx op t i no) = no \<and> f_id (fund_from_transfer inp itx op t i no) = i
     \<and> fund_ok (fund_from_transfer inp itx op t i no)"
  "f_no (fund_leg_row x a s op m fw tw t i no) = no \<and> f_id (fund_leg_row x a s op m fw tw t i no) = i
     \<and> fund_ok (fund_leg_row x a s op m fw tw t i no)"
  "f_no (swap_leg_row y n k a m ofw otw op t i no) = no \<and> f_id (swap_leg_row y n k a m ofw otw op t i no) = i
     \<and> fund_ok (swap_leg_row y n k a m ofw otw op t i no)"
  "f_no (fee_fund_row fi op t i no) = no \<and> f_id (fee_fund_row fi op t i no) = i
     \<and> fund_ok (fee_fund_row fi op t i no)"
  by (simp_all add: fund_from_transfer_ok fund_leg_row_ok swap_leg_row_ok fee_fund_row_ok)
    (simp_all add: fund_from_transfer_def fund_leg_row_def swap_leg_row_def fee_fund_row_def Let_def)

lemma creators_sound:
  "steps sound_step (createFromInternalTransaction inp op tx)"
  "steps sound_step (createLeg x fw tw m s op tx)"
  "steps sound_step (createSwapLeg y n k a m ofw otw op tx)"
  "steps sound_step (createWithdrawFeeFund fi op tx)"
  unfolding createFromInternalTransaction_def createLeg_def createSwapLeg_def createWithdrawFeeFund_def
  by (intro sound_rules create_numbered_sound fund_rows_ok)+

section \<open>The movers\<close>

lemma sound_put:
  assumes inv: "funds_inv d" and item: "find_fund i d = Some item"
    and nxt: "getTransitionMap (fund_asset_type item d) (f_status item) a = Some nxt"
    and r: "f_id r = i" "f_no r = f_no item" "f_assetId r = f_assetId item" "f_withdrawId r = f_withdrawId item" "f_status r = nxt" "fund_ok r"
  shows "funds_inv (d\<lparr>funds := update_rows (\<lambda>x. f_id x = i) (\<lambda>_. r) (funds d)\<rparr>) \<and>
    legs_move d (d\<lparr>funds := update_rows (\<lambda>x. f_id x = i) (\<lambda>_. r) (funds d)\<rparr>)"
proof
  show "funds_inv (d\<lparr>funds := update_rows (\<lambda>x. f_id x = i) (\<lambda>_. r) (funds d)\<rparr>)"
    using inv item r by (intro funds_inv_put) (simp_all add: find_fund_def by_id_key)
  have "leg_moved d item r"
    using r leg_goes_step[OF nxt] by (simp add: leg_moved_def)
  then show "legs_move d (d\<lparr>funds := update_rows (\<lambda>x. f_id x = i) (\<lambda>_. r) (funds d)\<rparr>)"
    by (rule legs_move_put[OF item r(1)])
qed

lemma transition_fund_sound:
  assumes inv: "funds_inv (db w)" and item: "find_fund (f_id item) (db w) = Some item"
    and nxt: "getTransitionMap (fund_asset_type item (db w)) (f_status item) (u_action dto) = Some nxt"
  shows "wp (transition_fund item nxt dto op)
    (\<lambda>_ v. funds_inv (db v) \<and> legs_move (db w) (db v)) (\<lambda>_ v. funds_inv (db v) \<and> legs_move (db w) (db v)) w"
proof -
  have ok: "fund_ok item"
    using in_funds_ok[OF inv item] by simp
  let ?d = "\<lambda>refs fee t. (db w)\<lparr>funds := update_rows (\<lambda>x. f_id x = f_id item)
      (\<lambda>_. updated_fund item nxt dto refs fee op t) (funds (db w))\<rparr>"
  have put: "funds_inv (?d refs fee t) \<and> legs_move (db w) (?d refs fee t)" for refs fee t
    by (rule sound_put[OF inv item nxt])
      (use transition_terminal[OF nxt] in \<open>simp_all add: updated_fund_ok ok, simp_all add: updated_fund_def\<close>)
  show ?thesis
    using put inv
    unfolding transition_fund_def wp_bind wp_getsDb wp_now Let_def wp_andThen wp_put_fund
    by (intro wp_same[OF effectiveRefs_same] wp_same[OF parse_fee_same])
      (auto simp: legs_move_refl intro!: sound_wp[OF applyLegClearedBalance_sound])
qed

lemma put_transitioned_sound:
  assumes inv: "funds_inv d" and leg: "find_fund i d = Some leg"
    and nxt: "getTransitionMap (fund_asset_type leg d) (f_status leg) a = Some nxt"
  shows "funds_inv (d\<lparr>funds := update_rows (\<lambda>x. f_id x = i) (\<lambda>_. transitioned_swap_leg leg nxt op t) (funds d)\<rparr>) \<and>
    legs_move d (d\<lparr>funds := update_rows (\<lambda>x. f_id x = i) (\<lambda>_. transitioned_swap_leg leg nxt op t) (funds d)\<rparr>)"
proof
  have "leg_moved d leg (transitioned_swap_leg leg nxt op t)" "f_id (transitioned_swap_leg leg nxt op t) = i"
    using leg_goes_step[OF nxt] in_funds_ok[OF inv leg]
    by (simp_all add: leg_moved_def transitioned_swap_leg_def)
  then show "legs_move d (d\<lparr>funds := update_rows (\<lambda>x. f_id x = i) (\<lambda>_. transitioned_swap_leg leg nxt op t) (funds d)\<rparr>)"
    by (intro legs_move_put[OF leg])
qed (rule put_transitioned_inv[OF inv leg nxt])

lemma transitionSwapLeg_sound: "steps sound_step (transitionSwapLeg i a op tx)"
  unfolding transitionSwapLeg_def
  by (intro sound.inTx sound_wpI)
    (auto simp: Let_def legs_move_refl put_transitioned_sound split: option.split)

text \<open>The two direct status writes.\<close>

lemma put_final_sound:
  assumes inv: "funds_inv d" and leg: "find_fund i d = Some leg"
    and r: "f_id r = i" "f_no r = f_no leg" "f_assetId r = f_assetId leg" "f_withdrawId r = f_withdrawId leg"
      "f_status r = NEEDS_REVIEW \<or> f_withdrawId leg \<noteq> None" "TERMINAL_STATUSES (f_status r)" "f_completedAt r \<noteq> None"
      "f_history r = appendStatusHistory h (fund_status_str (f_status r)) op reason t"
  shows "funds_inv (d\<lparr>funds := update_rows (\<lambda>x. f_id x = i) (\<lambda>_. r) (funds d)\<rparr>) \<and>
    legs_move d (d\<lparr>funds := update_rows (\<lambda>x. f_id x = i) (\<lambda>_. r) (funds d)\<rparr>)"
proof
  have "(i, f_no r) \<in> set (keys d)"
    using leg r(2) by (auto simp: find_fund_def dest: by_id_key)
  then show "funds_inv (d\<lparr>funds := update_rows (\<lambda>x. f_id x = i) (\<lambda>_. r) (funds d)\<rparr>)"
    using r by (intro put_final_inv[OF inv])
  show "legs_move d (d\<lparr>funds := update_rows (\<lambda>x. f_id x = i) (\<lambda>_. r) (funds d)\<rparr>)"
    using r by (intro legs_move_put[OF leg]) (auto simp: leg_moved_def leg_goes_def)
qed

lemma needs_review_sound:
  "funds_inv d \<Longrightarrow> find_fund i d = Some leg \<Longrightarrow>
     funds_inv (d\<lparr>funds := update_rows (\<lambda>x. f_id x = i) (\<lambda>_. needs_review_row leg n op t) (funds d)\<rparr>) \<and>
     legs_move d (d\<lparr>funds := update_rows (\<lambda>x. f_id x = i) (\<lambda>_. needs_review_row leg n op t) (funds d)\<rparr>)"
  using in_funds_ok[of d i leg] by (intro put_final_sound) (auto simp: needs_review_row_def)

lemma fee_fund_sound:
  assumes "funds_inv d" "find (\<lambda>f. f_withdrawId f = Some k) (funds d) = Some leg" "TERMINAL_STATUSES st"
  shows "funds_inv (d\<lparr>funds := update_rows (\<lambda>x. f_id x = f_id leg) (\<lambda>_. fee_fund_set leg st reason op t) (funds d)\<rparr>) \<and>
     legs_move d (d\<lparr>funds := update_rows (\<lambda>x. f_id x = f_id leg) (\<lambda>_. fee_fund_set leg st reason op t) (funds d)\<rparr>)"
  using find_SomeD[OF assms(2)] assms(3)
  by (intro put_final_sound[OF assms(1) find_fund_in[OF assms(1)]]) (auto simp: fee_fund_set_def done_at_def)

lemma direct_writes_sound:
  "steps sound_step (markLegNeedsReview i n op tx)"
  "TERMINAL_STATUSES st \<Longrightarrow> steps sound_step (setWithdrawFeeFundStatus k st reason op tx)"
  unfolding markLegNeedsReview_def setWithdrawFeeFundStatus_def
  by (intro sound.inTx sound_wpI;
      auto simp: Let_def legs_move_refl needs_review_sound fee_fund_sound split: option.split)+

text \<open>Automatic clearing takes the rows it found CONFIRMED to CLEAR; while it works through them, each is
  still CONFIRMED or already CLEAR.\<close>

definition clearing :: "db \<Rightarrow> internal_fund list \<Rightarrow> db \<Rightarrow> bool" where
  "clearing d0 fs d \<longleftrightarrow> funds_inv d \<and> legs_move d0 d \<and>
     (\<forall>f\<in>set fs. \<exists>g. find_fund (f_id f) d = Some g \<and> f_no g = f_no f \<and> f_assetId g = f_assetId f \<and>
        f_withdrawId g = f_withdrawId f \<and> (f_status g = CONFIRMED \<or> f_status g = CLEAR))"

lemma confirmed_to_clear:
  "s = CONFIRMED \<or> s = CLEAR \<Longrightarrow> reaches (getTransitionMap ty) s CLEAR"
proof (elim disjE)
  assume "s = CONFIRMED"
  then have "getTransitionMap ty s CLEAR_FUND = Some CLEAR"
    by (simp add: getTransitionMap_def CRYPTO_TRANSITIONS_def FIAT_TRANSITIONS_def)
  then show ?thesis
    by (rule reaches.step[OF reaches.refl])
qed (simp add: reaches.refl)

lemma clearing_put:
  assumes c: "clearing d0 fs d" and f: "f \<in> set fs"
  shows "clearing d0 fs (d\<lparr>funds := update_rows (\<lambda>x. f_id x = f_id f) (\<lambda>_. auto_clear_row f op t) (funds d)\<rparr>)"
proof -
  obtain g where g: "find_fund (f_id f) d = Some g" "f_no g = f_no f" "f_assetId g = f_assetId f" "f_withdrawId g = f_withdrawId f"
      "f_status g = CONFIRMED \<or> f_status g = CLEAR"
    using c f by (auto simp: clearing_def)
  have key: "(f_id f, f_no f) \<in> set (keys d)"
    using g(1,2) by (auto simp: find_fund_def dest: by_id_key)
  have "leg_moved d g (auto_clear_row f op t)"
    using g confirmed_to_clear by (simp add: leg_moved_def leg_goes_def auto_clear_row_def)
  then have "legs_move d (d\<lparr>funds := update_rows (\<lambda>x. f_id x = f_id f) (\<lambda>_. auto_clear_row f op t) (funds d)\<rparr>)"
    by (intro legs_move_put[OF g(1)]) (simp_all add: auto_clear_row_def)
  moreover have "funds_inv (d\<lparr>funds := update_rows (\<lambda>x. f_id x = f_id f) (\<lambda>_. auto_clear_row f op t) (funds d)\<rparr>)"
    using c key by (intro put_final_inv) (simp_all add: clearing_def auto_clear_row_def)
  moreover have "find_fund j (d\<lparr>funds := update_rows (\<lambda>x. f_id x = f_id f) (\<lambda>_. auto_clear_row f op t) (funds d)\<rparr>)
      = (if j = f_id f then Some (auto_clear_row f op t) else find_fund j d)" for j
    using g(1) by (subst find_fund_put) (simp_all add: auto_clear_row_def)
  moreover have "\<exists>h. (if f_id f' = f_id f then Some (auto_clear_row f op t) else find_fund (f_id f') d) = Some h
      \<and> f_no h = f_no f' \<and> f_assetId h = f_assetId f' \<and> f_withdrawId h = f_withdrawId f' \<and> (f_status h = CONFIRMED \<or> f_status h = CLEAR)"
    if f': "f' \<in> set fs" for f'
  proof -
    obtain g' where "find_fund (f_id f') d = Some g'" "f_no g' = f_no f'" "f_assetId g' = f_assetId f'" "f_withdrawId g' = f_withdrawId f'"
        "f_status g' = CONFIRMED \<or> f_status g' = CLEAR"
      using c f' by (auto simp: clearing_def)
    then show ?thesis
      using g by (auto simp: auto_clear_row_def)
  qed
  ultimately show ?thesis
    using c by (auto simp: clearing_def intro: legs_move_trans)
qed

lemma clearing_simps [simp]:
  "clearing d0 fs (d\<lparr>audits := x1\<rparr>) = clearing d0 fs d"
  "clearing d0 fs (d\<lparr>wallets := x2\<rparr>) = clearing d0 fs d"
  by (simp_all add: clearing_def find_fund_def)

lemma applyLegClearedBalance_clearing:
  "clearing d0 fs (db v) \<Longrightarrow>
     wp (applyLegClearedBalance f) (\<lambda>_ v. clearing d0 fs (db v)) (\<lambda>_ v. clearing d0 fs (db v)) v"
  by (auto simp: applyLegClearedBalance_def wp_adjust split: option.split)

lemma autoClear_sound: "steps sound_step (autoClearConfirmedFunds itx op)"
proof (rule sound_wpI)
  fix w :: world
  assume inv: "funds_inv (db w)"
  let ?fs = "filter (\<lambda>f. f_txId f = Some (t_id itx) \<and> f_status f = CONFIRMED) (funds (db w))"
  have start: "clearing (db w) ?fs (db w)"
    using inv by (auto simp: clearing_def legs_move_refl find_fund_in)
  have "wp (autoClearConfirmedFunds itx op) (\<lambda>_ v. clearing (db w) ?fs (db v))
      (\<lambda>_ v. clearing (db w) ?fs (db v)) w"
    unfolding autoClearConfirmedFunds_def wp_bind wp_getsDb
    by (rule foldC_wpI)
      (auto simp: start intro!: clearing_put wp_mono[OF applyLegClearedBalance_clearing])
  then show "wp (autoClearConfirmedFunds itx op) (\<lambda>_ v. funds_inv (db v) \<and> legs_move (db w) (db v))
      (\<lambda>_ v. funds_inv (db v) \<and> legs_move (db w) (db v)) w"
    by (rule wp_mono) (auto simp: clearing_def)
qed

section \<open>The aggregator port\<close>

text \<open>What \<open>FundsFlowService\<close> relies on when it calls the port: the roll-up leaves the legs, the wallets
  and the assets alone.\<close>

locale aggregator =
  fixes sync :: "string \<Rightarrow> string \<Rightarrow> bool \<Rightarrow> internal_transaction op"
  assumes sync_frame: "steps (same (\<lambda>w. (funds (db w), assets (db w), wallets (db w)))) (sync i op tx)"
begin

lemma sync_sound: "steps sound_step (sync i op tx)"
  using sync_frame by (intro sound_from_same) (auto simp: steps_def same_def)

lemma settle_transfer_sound: "steps sound_step (settle_transfer sync item updated op)"
  unfolding settle_transfer_def Let_def
  by (intro sound_rules sync_sound autoClear_sound)

lemma updateStatus_body_sound: "steps sound_step (updateStatus_body sync i dto op)"
proof (rule sound_wpI)
  fix w :: world
  assume inv: "funds_inv (db w)"
  let ?Q = "\<lambda>_ v. funds_inv (db v) \<and> legs_move (db w) (db v)"
  have tail: "wp (bind (transition_fund item nxt dto op) (\<lambda>updated. settle_transfer sync item updated op)) ?Q ?Q w"
    if item: "find_fund i (db w) = Some item"
      and nxt: "getTransitionMap (fund_asset_type item (db w)) (f_status item) (u_action dto) = Some nxt"
    for item nxt
  proof -
    have "find_fund (f_id item) (db w) = Some item"
      using in_funds_ok[OF inv item] item by simp
    then show ?thesis
      using wp_mono[OF transition_fund_sound[OF inv _ nxt]] sound_wp[OF settle_transfer_sound] by simp
  qed
  show "wp (updateStatus_body sync i dto op) ?Q ?Q w"
    unfolding updateStatus_body_def
    using tail inv by (auto simp: legs_move_refl split: option.split)
qed

lemma updateStatus_sound: "steps sound_step (updateStatus sync i dto op tx)"
proof -
  have "steps sound_step (emitAll es)" for es
    unfolding emitAll_def by (intro sound_rules)
  then show ?thesis
    unfolding updateStatus_def
    by (auto simp: split_beta intro!: sound_rules updateStatus_body_sound)
qed

end

text \<open>The module binds the port to \<open>InternalTransferService.syncStatusFromFunds\<close>.\<close>

lemma syncStatus_frame:
  "steps (same (\<lambda>w. (funds (db w), assets (db w), wallets (db w)))) (syncStatusFromFunds i op tx)"
  unfolding steps_wp
proof
  fix w :: world
  show "wp (syncStatusFromFunds i op tx) (\<lambda>_. same (\<lambda>w. (funds (db w), assets (db w), wallets (db w))) w)
      (\<lambda>_. same (\<lambda>w. (funds (db w), assets (db w), wallets (db w))) w) w"
    by (cases "by_id t_id i (transfers (db w))")
      (simp_all add: wp_syncStatus Let_def same_def,
        simp add: syncStatusFromFunds_def wp_inTx same_def)
qed

interpretation port: aggregator syncStatusFromFunds
  by unfold_locales (rule syncStatus_frame)

section \<open>Any sequence of operations\<close>

text \<open>One step of the funds flow: any of its operations with any arguments, run to its end, whether it
  returns or throws.  The fee leg of a withdrawal is set to a final status (its callers name CLEAR and
  CANCELLED).\<close>

inductive ff_step :: "world \<Rightarrow> world \<Rightarrow> bool" where
  create: "createFromInternalTransaction inp op tx w = (r, w') \<Longrightarrow> ff_step w w'"
| leg: "createLeg x fw tw m s op tx w = (r, w') \<Longrightarrow> ff_step w w'"
| swap_leg: "createSwapLeg y n k a m ofw otw op tx w = (r, w') \<Longrightarrow> ff_step w w'"
| fee: "createWithdrawFeeFund fi op tx w = (r, w') \<Longrightarrow> ff_step w w'"
| update: "updateStatus syncStatusFromFunds i dto op tx w = (r, w') \<Longrightarrow> ff_step w w'"
| move: "transitionSwapLeg i act op tx w = (r, w') \<Longrightarrow> ff_step w w'"
| park: "markLegNeedsReview i n op tx w = (r, w') \<Longrightarrow> ff_step w w'"
| fee_status: "setWithdrawFeeFundStatus k st reason op tx w = (r', w') \<Longrightarrow> TERMINAL_STATUSES st \<Longrightarrow> ff_step w w'"

inductive_cases ff_stepE: "ff_step w w'"

lemma ff_step_sound: "ff_step w w' \<Longrightarrow> sound_step w w'"
  by (induction rule: ff_step.induct)
    (auto elim!: stepsD[rotated] intro: creators_sound port.updateStatus_sound transitionSwapLeg_sound
      direct_writes_sound)

lemma ff_steps_sound: "ff_step\<^sup>*\<^sup>* w w' \<Longrightarrow> sound_step w w'"
  by (induction rule: rtranclp_induct) (auto intro: sound.R_refl sound.R_trans ff_step_sound)

end
