(* ===== verification/Samples.thy ===== *)
theory Samples
  imports World
begin

text \<open>
  A small concrete world for the witnesses: fixed date and clock, a random source that counts, and a
  TigerBeetle that accepts every request.
\<close>

definition demo_world :: world where
  "demo_world = \<lparr>db = empty_db, audits_out = [], backlog = [], emitted = [], clock = 1000,
     ymd = ''260701'', uuid_src = (\<lambda>n. replicate (Suc n) (CHR ''u'')), uuid_pos = 0,
     rnd_src = (\<lambda>n. n), rnd_pos = 0, tb_reply = (\<lambda>_ _. TB_created), tb_lookup = (\<lambda>_ _. None),
     tb_log = [], tb_acct_reply = (\<lambda>_ _. []), tb_acct_log = [], tbid_src = (\<lambda>n. int n + 1), tbid_pos = 0, sha_id = (\<lambda>s. int (length s))\<rparr>"

definition usdt :: asset where
  "usdt = \<lparr>a_id = ''USDT'', a_type = ''CRYPTO'', a_currency = ''USDT'', a_code = ''USDT-TRON'',
     a_decimals = 6, a_ledger = Some 2\<rparr>"

definition acct :: "nat \<Rightarrow> nat \<Rightarrow> nat \<Rightarrow> string option \<Rightarrow> tb_account" where
  "acct i code ledger owner = \<lparr>r_id = bigintToHex (int i), r_code = code, r_ledger = ledger,
     r_ownerType = (if owner = None then ''SYSTEM'' else ''CUSTOMER''), r_ownerUuid = owner, r_ownerNo = None,
     r_assetCode = (if ledger = 1 then ''AED'' else ''USDT''), r_status = ''ACTIVE'', r_description = None, r_flags = 0\<rparr>"

definition purse :: "string \<Rightarrow> string \<Rightarrow> string \<Rightarrow> string option \<Rightarrow> wallet" where
  "purse i role asset owner = \<lparr>w_id = i, w_ownerType = (if owner = None then ''PLATFORM'' else ''CUSTOMER''),
     w_ownerId = owner, w_ownerNo = None, w_role = role, w_assetId = asset, w_address = None, w_iban = None,
     w_status = ''ACTIVE'', w_balance = 0\<rparr>"

definition trader :: customer where
  "trader = \<lparr>c_id = ''C1'', c_no = ''CU1'', c_onboardingStatus = ''APPROVED'', c_adminStatus = ''ACTIVE'',
     c_complianceStatus = ''CLEAR'', c_restrictions = []\<rparr>"

end
