(* ===== verification/FundsFlowProps.thy ===== *)
theory FundsFlowProps
  imports FundsFlowSteps Samples
begin

text \<open>
  The properties of the funds flow, stated over its operations, with their witnesses: movement along
  the transition tables, the leg table's invariant over any sequence of operations, conservation of the
  mock wallet balances, the choice of a leg's number, the roll-up of a transfer and the legs that have no
  transfer.
\<close>

section \<open>A small concrete world\<close>

definition demo_fund :: internal_fund where
  "demo_fund = fund0\<lparr>f_id := ''F1'', f_no := ''IFD2607010001'', f_txId := Some ''T1'',
     f_status := CLEAR, f_assetId := ''USDT'', f_amount := 5, f_fromWalletId := Some ''W1'',
     f_toWalletId := Some ''W2'', f_completedAt := Some 900,
     f_history := HArray [\<lparr>h_status = ''CLEAR'', h_timestamp = 900, h_operator = ''SYSTEM'', h_note = ''''\<rparr>]\<rparr>"

definition demo_db :: db where
  "demo_db = empty_db\<lparr>assets := [usdt], funds := [demo_fund]\<rparr>"

lemma demo_inv: "funds_inv (db (demo_world\<lparr>db := demo_db\<rparr>))"
  by (simp add: funds_inv_def demo_db_def demo_fund_def fund_ok_def history_ok_def)

lemma demo_find: "find_fund ''F1'' (db (demo_world\<lparr>db := demo_db\<rparr>)) = Some demo_fund"
  by (simp add: find_fund_def by_id_def demo_db_def demo_fund_def)

section \<open>Movement along the tables\<close>

lemma sound_stepD:
  assumes "sound_step w w'" "funds_inv (db w)" "find_fund i (db w) = Some f"
  obtains g where "find_fund i (db w') = Some g" "f_no g = f_no f"
    "leg_goes (fund_asset_type f (db w)) f (f_status g)"
  using assms unfolding sound_step_def legs_move_def leg_moved_def by blast

text \<open>
  C14. Over any sequence of the funds flow's operations, successful or failing, a leg stays in the table
  under its id and keeps its number.  Its status moves only along the transition table of its asset's
  type, with the two exceptions the service writes directly: a leg may be parked in NEEDS_REVIEW, which it
  then never leaves, and the fee leg of a withdrawal may be set to a final status (its callers name CLEAR
  and CANCELLED), after which it stays in a final status.
\<close>

theorem legs_follow_their_table:
  assumes "ff_step\<^sup>*\<^sup>* w w'" "funds_inv (db w)" "find_fund i (db w) = Some f"
  shows "\<exists>g. find_fund i (db w') = Some g \<and> f_no g = f_no f \<and>
    (reaches (getTransitionMap (fund_asset_type f (db w))) (f_status f) (f_status g)
     \<or> f_status g = NEEDS_REVIEW
     \<or> f_withdrawId f \<noteq> None \<and> TERMINAL_STATUSES (f_status g))
    \<and> (f_status f = NEEDS_REVIEW \<and> f_withdrawId f = None \<longrightarrow> f_status g = NEEDS_REVIEW)
    \<and> (f_withdrawId f \<noteq> None \<and> TERMINAL_STATUSES (f_status f) \<longrightarrow> TERMINAL_STATUSES (f_status g))"
proof -
  obtain g where g: "find_fund i (db w') = Some g" "f_no g = f_no f" "leg_goes (fund_asset_type f (db w)) f (f_status g)"
    by (rule sound_stepD[OF ff_steps_sound[OF assms(1)] assms(2,3)])
  show ?thesis
    using g review_stays[of "fund_asset_type f (db w)" "f_status f" "f_status g"]
      final_stays_final[of "fund_asset_type f (db w)" "f_status f" "f_status g"]
    by (auto simp: leg_goes_def)
qed

text \<open>A confirmed leg is cleared and then parked.\<close>

definition open_db :: db where
  "open_db = demo_db\<lparr>funds := [demo_fund\<lparr>f_status := CONFIRMED, f_completedAt := None,
     f_history := HArray [\<lparr>h_status = ''CONFIRMED'', h_timestamp = 900, h_operator = ''SYSTEM'', h_note = ''''\<rparr>]\<rparr>]\<rparr>"

definition cleared_world :: world where
  "cleared_world = snd (transitionSwapLeg ''F1'' CLEAR_FUND ''SYSTEM'' False (demo_world\<lparr>db := open_db\<rparr>))"

lemma open_inv: "funds_inv (db (demo_world\<lparr>db := open_db\<rparr>))"
  by (simp add: funds_inv_def open_db_def demo_db_def demo_fund_def fund_ok_def history_ok_def)

lemma open_find: "find_fund ''F1'' (db (demo_world\<lparr>db := open_db\<rparr>)) = Some (hd (funds open_db))"
  by (simp add: find_fund_def by_id_def open_db_def demo_fund_def)

lemma open_run: "ff_step\<^sup>*\<^sup>* (demo_world\<lparr>db := open_db\<rparr>) (snd (markLegNeedsReview ''F1'' 3 ''SYSTEM'' False cleared_world))"
  unfolding cleared_world_def
  by (rule rtranclp.rtrancl_into_rtrancl[OF r_into_rtranclp], rule ff_step.move, rule surjective_pairing,
      rule ff_step.park, rule surjective_pairing)

theorem legs_follow_their_table_witness:
  "(\<exists>g. find_fund ''F1'' (db (snd (markLegNeedsReview ''F1'' 3 ''SYSTEM'' False cleared_world))) = Some g
      \<and> f_no g = ''IFD2607010001'')
   \<and> map f_status (funds (db cleared_world)) = [CLEAR]
   \<and> map f_status (funds (db (snd (markLegNeedsReview ''F1'' 3 ''SYSTEM'' False cleared_world)))) = [NEEDS_REVIEW]"
proof (intro conjI)
  show "\<exists>g. find_fund ''F1'' (db (snd (markLegNeedsReview ''F1'' 3 ''SYSTEM'' False cleared_world))) = Some g
      \<and> f_no g = ''IFD2607010001''"
    using legs_follow_their_table[OF open_run open_inv open_find] by (auto simp: open_db_def demo_fund_def)
qed code_simp+

text \<open>
  Any sequence of funds-flow operations keeps the leg table sound: ids and numbers stay unique, every
  leg's status history is non-empty and ends in the leg's status, and a leg has a completion time exactly
  when its status is final.
\<close>

theorem leg_table_invariant:
  assumes "ff_step\<^sup>*\<^sup>* w w'" "funds_inv (db w)"
  shows "funds_inv (db w')"
  using ff_steps_sound[OF assms(1)] assms(2) by (simp add: sound_step_def)

theorem leg_table_invariant_witness:
  "funds_inv (db (snd (createSwapLeg ''S1'' 1 None ''USDT'' 7 None None ''SYSTEM'' False
     (demo_world\<lparr>db := demo_db\<rparr>))))"
  by (rule leg_table_invariant[OF r_into_rtranclp demo_inv], rule ff_step.swap_leg,
      rule surjective_pairing)

text \<open>
  A crypto leg in a final status, other than the fee leg of a withdrawal, is never moved again by any
  sequence of funds-flow operations, except that it may be parked.
\<close>

theorem final_crypto_leg_stays:
  assumes "ff_step\<^sup>*\<^sup>* w w'" "funds_inv (db w)" "find_fund i (db w) = Some f"
    and "fund_asset_type f (db w) \<noteq> ''FIAT''" "TERMINAL_STATUSES (f_status f)" "f_withdrawId f = None"
  shows "\<exists>g. find_fund i (db w') = Some g \<and> (f_status g = f_status f \<or> f_status g = NEEDS_REVIEW)"
proof -
  obtain g where "find_fund i (db w') = Some g" "leg_goes (fund_asset_type f (db w)) f (f_status g)"
    by (rule sound_stepD[OF ff_steps_sound[OF assms(1)] assms(2,3)])
  then show ?thesis
    using crypto.final_absorbing assms(4,5,6) by (auto simp: leg_goes_def getTransitionMap_def)
qed

theorem final_crypto_leg_stays_witness:
  "\<exists>g. find_fund ''F1'' (db (snd (transitionSwapLeg ''F1'' CANCEL ''SYSTEM'' False
      (demo_world\<lparr>db := demo_db\<rparr>)))) = Some g \<and> (f_status g = f_status demo_fund \<or> f_status g = NEEDS_REVIEW)"
proof (rule final_crypto_leg_stays[OF r_into_rtranclp demo_inv demo_find])
  show "ff_step (demo_world\<lparr>db := demo_db\<rparr>) (snd (transitionSwapLeg ''F1'' CANCEL ''SYSTEM'' False
      (demo_world\<lparr>db := demo_db\<rparr>)))"
    by (rule ff_step.move, rule surjective_pairing)
qed (simp_all add: demo_fund_def fund0_def fund_asset_type_def find_asset_def by_id_def demo_db_def usdt_def)

text \<open>
  A crypto leg can only be CLEAR after it was signed, broadcast, seen in the mempool, confirmed and
  cleared, in this order, whatever happened in between (reorganisations included).
\<close>

theorem crypto_clear_requires_every_stage:
  assumes "run_actions CRYPTO_TRANSITIONS CREATED as = Some CLEAR"
  shows "subseq [SIGN, BROADCAST, SEEN_IN_MEMPOOL, CONFIRM, CLEAR_FUND] as"
  using crypto_clear_history[OF assms] by simp

theorem crypto_clear_requires_every_stage_witness:
  "subseq [SIGN, BROADCAST, SEEN_IN_MEMPOOL, CONFIRM, CLEAR_FUND]
     [SIGN, BROADCAST, SEEN_IN_MEMPOOL, REORG, SEEN_IN_MEMPOOL, CONFIRM, CLEAR_FUND]"
  by (rule crypto_clear_requires_every_stage) (simp add: CRYPTO_TRANSITIONS_def)

text \<open>
  The life of a crypto leg is bounded: any accepted sequence of actions from CREATED is at most five
  actions long, plus two for every reorganisation in it.
\<close>

theorem crypto_leg_life_is_bounded:
  assumes "run_actions CRYPTO_TRANSITIONS CREATED as = Some s"
  shows "length as \<le> 5 + 2 * length (filter (\<lambda>a. a = REORG) as)"
  using crypto_run_length[OF assms] by simp

theorem crypto_leg_life_is_bounded_witness:
  "length [SIGN, BROADCAST, SEEN_IN_MEMPOOL, REORG, DROP] \<le>
     5 + 2 * length (filter (\<lambda>a. a = REORG) [SIGN, BROADCAST, SEEN_IN_MEMPOOL, REORG, DROP])"
  by (rule crypto_leg_life_is_bounded) (simp add: CRYPTO_TRANSITIONS_def)

text \<open>
  A bank leg reaches CLEAR by exactly one sequence of actions: submit, confirm, clear.
\<close>

theorem fiat_clear_path:
  "run_actions FIAT_TRANSITIONS CREATED as = Some CLEAR \<longleftrightarrow> as = [SUBMIT, CONFIRM, CLEAR_FUND]"
  using fiat_clear_history[of CREATED as] by (auto simp: FIAT_TRANSITIONS_def)

section \<open>The wallets\<close>

definition wallet_sum :: "db \<Rightarrow> rat" where
  "wallet_sum d = sum_list (map w_balance (wallets d))"

definition sided :: "internal_fund \<Rightarrow> bool" where
  "sided f \<longleftrightarrow> (truthy (f_fromWalletId f) \<longleftrightarrow> truthy (f_toWalletId f))"

definition books :: "rat \<Rightarrow> db \<Rightarrow> bool" where
  "books T d \<longleftrightarrow> distinct (map w_id (wallets d)) \<and> (\<forall>f\<in>set (funds d). sided f) \<and> wallet_sum d = T"

lemma update_rows_other: "\<forall>r\<in>set rs. \<not> p r \<Longrightarrow> update_rows p f rs = rs"
  by (simp add: update_rows_def map_idI)

lemma sum_update_rows:
  assumes "distinct (map w_id ws)" "by_id w_id i ws \<noteq> None"
  shows "sum_list (map w_balance (update_rows (\<lambda>x. w_id x = i)
    (\<lambda>x. x\<lparr>w_balance := w_balance x + m\<rparr>) ws)) = sum_list (map w_balance ws) + m"
  using assms
proof (induction ws)
  case (Cons x ws)
  show ?case
  proof (cases "w_id x = i")
    case True
    then have "update_rows (\<lambda>x. w_id x = i) (\<lambda>x. x\<lparr>w_balance := w_balance x + m\<rparr>) ws = ws"
      using Cons.prems(1) by (intro update_rows_other) (auto simp: image_iff)
    then show ?thesis
      using True by simp
  next
    case False
    then show ?thesis
      using Cons by (simp add: by_id_def)
  qed
qed (simp add: by_id_def)

lemma books_adjust:
  assumes "books T d" "by_id w_id i (wallets d) \<noteq> None"
  shows "books (T + m) (d\<lparr>wallets := update_rows (\<lambda>x. w_id x = i)
    (\<lambda>x. x\<lparr>w_balance := w_balance x + m\<rparr>) (wallets d)\<rparr>)"
proof -
  have "map w_id (update_rows (\<lambda>x. w_id x = i) (\<lambda>x. x\<lparr>w_balance := w_balance x + m\<rparr>) (wallets d))
      = map w_id (wallets d)"
    by (rule map_update_rows) simp
  then show ?thesis
    using assms sum_update_rows[of "wallets d" i m] by (simp add: books_def wallet_sum_def)
qed

lemma wp_adjust_books:
  "books T (db w) \<Longrightarrow> wp (adjust i m) (\<lambda>_ v. books (T + (if truthy i then m else 0)) (db v)) (\<lambda>_ _. True) w"
  by (auto simp: wp_adjust books_adjust split: option.split)

lemma cleared_balance_books:
  assumes "sided f"
  shows "maintains (\<lambda>w. books T (db w)) (applyLegClearedBalance f)"
proof (rule maintainsI)
  fix w :: world
  assume T: "books T (db w)"
  have "wp (adjust (f_toWalletId f) (f_amount f)) (\<lambda>_ v. books T (db v)) (\<lambda>_ _. True) v"
    if "books (T + (if truthy (f_fromWalletId f) then - f_amount f else 0)) (db v)" for v
    using wp_adjust_books[OF that] by (rule wp_mono) (use assms in \<open>auto simp: sided_def split: if_splits\<close>)
  then show "wp (applyLegClearedBalance f) (\<lambda>_ v. books T (db v)) (\<lambda>_ _. True) w"
    unfolding applyLegClearedBalance_def wp_andThen
    by (intro wp_mono[OF wp_adjust_books[OF T]]) auto
qed

lemma books_simps [simp]:
  "books T (d\<lparr>audits := x1\<rparr>) = books T d" "books T (d\<lparr>transfers := x2\<rparr>) = books T d"
  by (simp_all add: books_def wallet_sum_def)

lemma books_put:
  "books T d \<Longrightarrow> sided r \<Longrightarrow> books T (d\<lparr>funds := update_rows (\<lambda>x. f_id x = i) (\<lambda>_. r) (funds d)\<rparr>)"
  by (auto simp: books_def wallet_sum_def in_update_rows)

lemma maintains_books_basic:
  "maintains (\<lambda>w. books T (db w)) (recordByActor a c)"
  "maintains (\<lambda>w. books T (db w)) (getsDb g)"
  "maintains (\<lambda>w. books T (db w)) now"
  "sided r \<Longrightarrow> maintains (\<lambda>w. books T (db w)) (put_fund i r)"
  by (rule maintainsI; simp add: books_put)+

lemma maintains_same: "steps (same db) m \<Longrightarrow> maintains (\<lambda>w. P (db w)) m"
  by (rule maintainsI, rule wp_same) auto

lemma transition_fund_books:
  assumes "sided item"
  shows "maintains (\<lambda>w. books T (db w)) (transition_fund item nxt dto op)"
proof -
  have "sided (updated_fund item nxt dto refs fee op t)" for refs fee t
    using assms by (simp add: sided_def updated_fund_def)
  then show ?thesis
    unfolding transition_fund_def Let_def
    by (intro maintains_rules maintains_books_basic cleared_balance_books
        maintains_same[OF effectiveRefs_same] maintains_same[OF parse_fee_same] assms)
qed

lemma autoClear_books: "maintains (\<lambda>w. books T (db w)) (autoClearConfirmedFunds itx op)"
proof (rule maintainsI)
  fix w :: world
  assume T: "books T (db w)"
  have "sided (auto_clear_row f op t)" if "sided f" for f t
    using that by (simp add: sided_def auto_clear_row_def)
  then show "wp (autoClearConfirmedFunds itx op) (\<lambda>_ v. books T (db v)) (\<lambda>_ _. True) w"
    unfolding autoClearConfirmedFunds_def wp_bind wp_getsDb
    by (intro maintains_wp[where P = "\<lambda>w. books T (db w)"] maintains_rules maintains_books_basic
        cleared_balance_books) (use T in \<open>auto simp: books_def\<close>)
qed

lemma syncStatus_books: "maintains (\<lambda>w. books T (db w)) (syncStatusFromFunds i op tx)"
proof (rule maintainsI)
  fix w :: world
  assume "books T (db w)"
  moreover have "wp (syncStatusFromFunds i op tx)
      (\<lambda>_. same (\<lambda>w. (funds (db w), assets (db w), wallets (db w))) w) (\<lambda>_ _. True) w"
    using syncStatus_frame[of i op tx] unfolding steps_wp by (auto elim: wp_mono)
  ultimately show "wp (syncStatusFromFunds i op tx) (\<lambda>_ v. books T (db v)) (\<lambda>_ _. True) w"
    by (auto elim!: wp_mono simp: same_def books_def wallet_sum_def)
qed

lemma updateStatus_body_books:
  "maintains (\<lambda>w. books T (db w)) (updateStatus_body syncStatusFromFunds i dto op)"
proof (rule maintainsI)
  fix w :: world
  assume T: "books T (db w)"
  have settle: "maintains (\<lambda>w. books T (db w)) (settle_transfer syncStatusFromFunds item updated op)"
    for item updated
    unfolding settle_transfer_def Let_def
    by (intro maintains_rules maintains_books_basic syncStatus_books autoClear_books)
  have "sided item" if "find_fund i (db w) = Some item" for item
    using T by_id_SomeD that by (fastforce simp: books_def find_fund_def)
  then show "wp (updateStatus_body syncStatusFromFunds i dto op) (\<lambda>_ v. books T (db v)) (\<lambda>_ _. True) w"
    unfolding updateStatus_body_def
    using wp_mono[OF maintains_wp[OF transition_fund_books]] maintains_wp[OF settle] T
    by (auto split: option.split)
qed

text \<open>
  Moving a leg conserves the sum of the mock wallet balances: when every leg names both wallets or
  neither, a status update that runs in its own transaction leaves the total as it was, whether the leg
  clears, its siblings are cleared automatically, or the update fails half-way.
\<close>

theorem status_update_conserves_balances:
  assumes "updateStatus syncStatusFromFunds i dto op False w = (r, w')"
    and "distinct (map w_id (wallets (db w)))" "\<forall>f\<in>set (funds (db w)). sided f"
  shows "wallet_sum (db w') = wallet_sum (db w)"
proof -
  let ?T = "wallet_sum (db w)"
  have T: "books ?T (db w)"
    using assms(2,3) by (simp add: books_def)
  have emits: "wp (emitAll es) (\<lambda>_ v. books ?T (db v)) (\<lambda>_ v. books ?T (db v)) v" if "books ?T (db v)" for es v
    unfolding emitAll_def by (rule wp_forEach[where I = "\<lambda>v. books ?T (db v)"]) (use that in auto)
  have "wp (updateStatus syncStatusFromFunds i dto op False) (\<lambda>_ v. books ?T (db v)) (\<lambda>_ v. books ?T (db v)) w"
    unfolding updateStatus_def
    by (auto simp: split_beta T intro!: wp_mono[OF maintains_wp[OF updateStatus_body_books T]] wp_mono[OF emits])
  then have "books ?T (db w')"
    using assms(1) by (auto simp: wp_run)
  then show ?thesis
    by (simp add: books_def)
qed

definition demo_wallet :: "string \<Rightarrow> rat \<Rightarrow> wallet" where
  "demo_wallet i b = \<lparr>w_id = i, w_ownerType = ''PLATFORM'', w_ownerId = None, w_ownerNo = None,
     w_role = ''F_OPS'', w_assetId = ''USDT'', w_address = None, w_iban = None, w_status = ''ACTIVE'',
     w_balance = b\<rparr>"

definition clear_dto :: UpdateFundDto where
  "clear_dto = \<lparr>u_action = CLEAR_FUND, u_txHash = None, u_referenceNo = None, u_reason = None,
     u_feeAmount = None, u_providerTxnId = None, u_nonce = None, u_blockNo = None, u_gasUsed = None,
     u_gasPrice = None, u_confirmations = None\<rparr>"

definition clearing_db :: db where
  "clearing_db = empty_db\<lparr>assets := [usdt], wallets := [demo_wallet ''W1'' 20, demo_wallet ''W2'' 0],
     funds := [demo_fund\<lparr>f_status := CONFIRMED, f_completedAt := None\<rparr>]\<rparr>"

theorem status_update_conserves_balances_witness:
  "wallet_sum (db (snd (updateStatus syncStatusFromFunds ''F1'' clear_dto ''SYSTEM'' False
     (demo_world\<lparr>db := clearing_db\<rparr>)))) = 20"
proof -
  have "wallet_sum (db (snd (updateStatus syncStatusFromFunds ''F1'' clear_dto ''SYSTEM'' False
     (demo_world\<lparr>db := clearing_db\<rparr>)))) = wallet_sum (db (demo_world\<lparr>db := clearing_db\<rparr>))"
    by (rule status_update_conserves_balances[OF surjective_pairing])
      (simp_all add: clearing_db_def demo_wallet_def demo_fund_def sided_def empty_db_def)
  then show ?thesis
    by (simp add: wallet_sum_def clearing_db_def demo_wallet_def)
qed

section \<open>Legs without a transfer\<close>

text \<open>
  A leg that hangs on a swap or a withdrawal (it has no internal transfer) cannot be moved through
  \<open>updateStatus\<close>: the call always throws and its transaction leaves the database as it was.
\<close>

theorem parentless_leg_update_fails:
  assumes "find_fund i (db w) = Some f" "f_txId f = None"
  shows "\<exists>e w'. updateStatus syncStatusFromFunds i dto op False w = (Inl e, w') \<and> db w' = db w"
proof -
  have settle: "wp (settle_transfer syncStatusFromFunds f u op) (\<lambda>_ _. False) (\<lambda>_ _. True) v" for u v
    by (simp add: settle_transfer_def assms(2))
  have "wp (transition_fund f nxt dto op) (\<lambda>_ _. True) (\<lambda>_ _. True) v" for nxt v
    by (simp add: wp_run)
  then have "wp (transition_fund f nxt dto op)
      (\<lambda>u. wp (settle_transfer syncStatusFromFunds f u op) (\<lambda>_ _. False) (\<lambda>_ _. True)) (\<lambda>_ _. True) v" for nxt v
    by (rule wp_mono) (simp_all add: settle)
  then have "wp (updateStatus_body syncStatusFromFunds i dto op) (\<lambda>_ _. False) (\<lambda>_ _. True) w"
    by (simp add: updateStatus_body_def assms(1) split: option.split)
  then have "wp (updateStatus syncStatusFromFunds i dto op False) (\<lambda>_ _. False) (\<lambda>_ v. db v = db w) w"
    by (auto simp: updateStatus_def elim!: wp_mono)
  then show ?thesis
    by (auto simp: wp_def split: prod.splits sum.splits)
qed

theorem parentless_leg_update_fails_witness:
  "\<exists>e w'. updateStatus syncStatusFromFunds ''F1'' clear_dto ''SYSTEM'' False
     (demo_world\<lparr>db := empty_db\<lparr>funds := [demo_fund\<lparr>f_txId := None, f_swapId := Some ''S1''\<rparr>]\<rparr>\<rparr>) = (Inl e, w')
     \<and> db w' = empty_db\<lparr>funds := [demo_fund\<lparr>f_txId := None, f_swapId := Some ''S1''\<rparr>]\<rparr>"
  using parentless_leg_update_fails[of "''F1''"
      "demo_world\<lparr>db := empty_db\<lparr>funds := [demo_fund\<lparr>f_txId := None, f_swapId := Some ''S1''\<rparr>]\<rparr>\<rparr>"
      "demo_fund\<lparr>f_txId := None, f_swapId := Some ''S1''\<rparr>" clear_dto "''SYSTEM''"]
  by (simp add: find_fund_def by_id_def demo_fund_def)

section \<open>The roll-up\<close>

lemma rollup_spec:
  assumes "ss \<noteq> []"
  shows "(rollup INTERNAL_FUNDS_PENDING ss = IT_SUCCESS \<longleftrightarrow> (\<forall>s\<in>set ss. s = CONFIRMED \<or> s = CLEAR)) \<and>
    (rollup INTERNAL_FUNDS_PENDING ss = IT_CANCELLED \<longleftrightarrow> (\<forall>s\<in>set ss. s = CANCELLED)) \<and>
    (rollup INTERNAL_FUNDS_PENDING ss = IT_FAILED \<longleftrightarrow>
       (\<exists>s\<in>set ss. s = FAILED \<or> s = TIMEOUT) \<and> (\<forall>s\<in>set ss. \<not> leg_progressing s))"
proof -
  obtain s where "s \<in> set ss"
    using assms by (cases ss) auto
  then show ?thesis
    by (auto simp: rollup_def list_all_iff list_ex_iff)
qed

lemma by_id_put:
  "by_id key i rs \<noteq> None \<Longrightarrow> key r = i \<Longrightarrow> by_id key i (update_rows (\<lambda>x. key x = i) (\<lambda>_. r) rs) = Some r"
  unfolding by_id_def by (induction rs) auto

text \<open>
  Rolling up a pending transfer with legs returns its stored row, which is SUCCESS exactly when every
  leg is confirmed or cleared, CANCELLED exactly when all are cancelled, FAILED exactly when some leg
  failed or timed out and none can still move, and pending otherwise; a row that changed carries the
  sum of the legs' fees and the amount net of it.
\<close>

theorem transfer_rollup:
  assumes "by_id t_id i (transfers (db w)) = Some item" "t_status item = INTERNAL_FUNDS_PENDING"
    and "legs_of i (db w) \<noteq> []" "syncStatusFromFunds i op tx w = (r, w')"
  shows "\<exists>row. r = Inr row \<and> by_id t_id i (transfers (db w')) = Some row \<and>
    (t_status row = IT_SUCCESS \<longleftrightarrow> (\<forall>f\<in>set (legs_of i (db w)). f_status f = CONFIRMED \<or> f_status f = CLEAR)) \<and>
    (t_status row = IT_CANCELLED \<longleftrightarrow> (\<forall>f\<in>set (legs_of i (db w)). f_status f = CANCELLED)) \<and>
    (t_status row = IT_FAILED \<longleftrightarrow>
       (\<exists>f\<in>set (legs_of i (db w)). f_status f = FAILED \<or> f_status f = TIMEOUT) \<and>
       (\<forall>f\<in>set (legs_of i (db w)). \<not> leg_progressing (f_status f))) \<and>
    (t_status row \<noteq> INTERNAL_FUNDS_PENDING \<longrightarrow>
       t_feeAmount row = sum_list (map f_feeAmount (legs_of i (db w))) \<and>
       t_netAmount row = t_amount item - t_feeAmount row)"
proof -
  let ?ss = "map f_status (legs_of i (db w))"
  let ?n = "rollup INTERNAL_FUNDS_PENDING ?ss"
  have key: "t_id item = i"
    using by_id_SomeD[OF assms(1)] by simp
  have "wp (syncStatusFromFunds i op tx)
      (\<lambda>row v. by_id t_id i (transfers (db v)) = Some row \<and> t_status row = ?n \<and>
         (?n \<noteq> INTERNAL_FUNDS_PENDING \<longrightarrow>
            t_feeAmount row = sum_list (map f_feeAmount (legs_of i (db w))) \<and>
            t_netAmount row = t_amount item - t_feeAmount row)) (\<lambda>_ _. False) w"
    using assms(1-3) key
    by (auto simp: wp_syncStatus[OF assms(1)] Let_def rolled_transfer_def by_id_put)
  then obtain row where row: "r = Inr row" "by_id t_id i (transfers (db w')) = Some row"
      "t_status row = ?n" "?n \<noteq> INTERNAL_FUNDS_PENDING \<longrightarrow>
            t_feeAmount row = sum_list (map f_feeAmount (legs_of i (db w))) \<and>
            t_netAmount row = t_amount item - t_feeAmount row"
    using assms(4) by (auto simp: wp_def split: sum.splits)
  then show ?thesis
    using rollup_spec[of ?ss] assms(3) by simp
qed

definition demo_transfer :: internal_transaction where
  "demo_transfer = \<lparr>t_id = ''T1'', t_no = ''ITX2607010001'', t_type = CRYPTO_SETTLE_OUT,
     t_status = INTERNAL_FUNDS_PENDING, t_class = Class_B, t_medium = CHAIN, t_trigger = ''EOD'',
     t_traceId = None, t_sourceType = ''EOD_SETTLEMENT'', t_sourceId = ''B1:USDT'', t_sourceNo = None,
     t_ownerType = ''PLATFORM'', t_ownerId = ''PLATFORM'', t_ownerNo = None, t_assetId = ''USDT'',
     t_amount = 5, t_feeAmount = 0, t_netAmount = 5, t_fromWalletId = Some ''W1'',
     t_toWalletId = Some ''W2'', t_fromAddress = None, t_fromIban = None, t_toAddress = None,
     t_toIban = None, t_referenceNo = None, t_batchId = Some ''B1'', t_grossIn = None,
     t_grossOut = None, t_history = HNull, t_completedAt = None\<rparr>"

definition rollup_db :: db where
  "rollup_db = demo_db\<lparr>transfers := [demo_transfer]\<rparr>"

theorem transfer_rollup_witness:
  "\<exists>row. fst (syncStatusFromFunds ''T1'' ''SYSTEM'' True (demo_world\<lparr>db := rollup_db\<rparr>)) = Inr row \<and>
     t_status row = IT_SUCCESS"
  using transfer_rollup[of "''T1''" "demo_world\<lparr>db := rollup_db\<rparr>" demo_transfer "''SYSTEM''" True,
      OF _ _ _ surjective_pairing]
  by (auto simp: rollup_db_def demo_transfer_def by_id_def legs_of_def demo_db_def demo_fund_def)

section \<open>The number of a new leg\<close>

definition drawn_numbers :: "world \<Rightarrow> nat \<Rightarrow> string list" where
  "drawn_numbers w n = map (\<lambda>j. refno ''IFD'' (ymd w) (rnd_src w (rnd_pos w + j))) [0..<n]"

lemma drawn_numbers_Suc:
  "drawn_numbers w (Suc n) = refno ''IFD'' (ymd w) (rnd_src w (rnd_pos w)) #
     drawn_numbers (w\<lparr>rnd_pos := Suc (rnd_pos w), uuid_pos := k\<rparr>) n"
  unfolding drawn_numbers_def by (simp add: upt_conv_Cons map_Suc_upt[symmetric] del: upt_Suc)

lemma numbered_retry:
  assumes fresh: "\<forall>j. uuid_src w j \<notin> f_id ` set (funds (db w))"
    and row: "\<And>i no. f_no (row i no) = no \<and> f_id (row i no) = i"
  shows "wp (with_unique_no n ''IFD'' ''internalFundNo'' (\<lambda>no. bind randomUUID (\<lambda>rowId.
       bind (insert_fund (row rowId no)) (\<lambda>created.
       andThen (recordByActor (aud created) True) (ret created)))))
    (\<lambda>r v. find (\<lambda>no. no \<notin> f_no ` set (funds (db w))) (drawn_numbers w n) = Some (f_no r) \<and>
       funds (db v) = funds (db w) @ [r])
    (\<lambda>e v. find (\<lambda>no. no \<notin> f_no ` set (funds (db w))) (drawn_numbers w n) = None \<and>
       e = gave_up ''internalFundNo'' \<and> db v = db w) w"
  using fresh
proof (induction n arbitrary: w)
  case 0
  then show ?case
    by (simp add: drawn_numbers_def)
next
  case (Suc n)
  let ?w = "w\<lparr>rnd_pos := Suc (rnd_pos w), uuid_pos := Suc (uuid_pos w)\<rparr>"
  have new: "\<forall>f\<in>set (funds (db w)). f_id f \<noteq> uuid_src w (uuid_pos w)"
    using Suc.prems by (metis image_eqI)
  show ?case
    using Suc.IH[of ?w] Suc.prems new
    by (auto simp: wp_insert_fund row drawn_numbers_Suc[of w n "Suc (uuid_pos w)"] image_iff
        elim!: wp_mono dest: imageI)
qed

text \<open>
  A new swap leg gets the first number, among the ten it may draw, that no leg has yet: with it the
  row is appended; when all ten are taken the call gives up and changes nothing.  (The ids drawn from
  \<open>randomUUID\<close> are taken to be new.)
\<close>

theorem swap_leg_number:
  assumes "\<forall>j. uuid_src w j \<notin> f_id ` set (funds (db w))"
    and "createSwapLeg swapId legSeq k assetId m fw tw op tx w = (r, w')"
  shows "case find (\<lambda>no. no \<notin> f_no ` set (funds (db w))) (drawn_numbers w 10) of
      None \<Rightarrow> r = Inl (gave_up ''internalFundNo'') \<and> db w' = db w
    | Some no \<Rightarrow> \<exists>leg. r = Inr leg \<and> f_no leg = no \<and> funds (db w') = funds (db w) @ [leg]"
proof -
  have "wp (createSwapLeg swapId legSeq k assetId m fw tw op tx)
    (\<lambda>leg v. find (\<lambda>no. no \<notin> f_no ` set (funds (db w))) (drawn_numbers w 10) = Some (f_no leg) \<and>
       funds (db v) = funds (db w) @ [leg])
    (\<lambda>e v. find (\<lambda>no. no \<notin> f_no ` set (funds (db w))) (drawn_numbers w 10) = None \<and>
       e = gave_up ''internalFundNo'' \<and> db v = db w) w"
    unfolding createSwapLeg_def wp_inTx wp_bind wp_now create_numbered_def MAX_NO_GENERATION_RETRIES_def
    by (rule wp_mono[OF numbered_retry[OF assms(1)]]) (simp_all add: swap_leg_row_def)
  then show ?thesis
    using assms(2) by (auto simp: wp_def split: sum.splits)
qed

theorem swap_leg_number_witness:
  "\<exists>leg. fst (createSwapLeg ''S1'' 1 None ''USDT'' 7 None None ''SYSTEM'' False
       (demo_world\<lparr>db := demo_db\<rparr>)) = Inr leg \<and> f_no leg = refno ''IFD'' ''260701'' 0"
proof -
  have "replicate n (CHR ''u'') \<noteq> f_id demo_fund" for n
    by (cases n) (simp_all add: demo_fund_def)
  then have "\<forall>j. uuid_src (demo_world\<lparr>db := demo_db\<rparr>) j \<notin> f_id ` set (funds (db (demo_world\<lparr>db := demo_db\<rparr>)))"
    by (auto simp: demo_world_def demo_db_def simp del: replicate.simps)
  note number = swap_leg_number[OF this surjective_pairing, of "''S1''" 1 None "''USDT''" 7 None None
      "''SYSTEM''" False]
  have "find (\<lambda>no. no \<notin> f_no ` set (funds (db (demo_world\<lparr>db := demo_db\<rparr>))))
      (drawn_numbers (demo_world\<lparr>db := demo_db\<rparr>) 10) = Some (refno ''IFD'' ''260701'' 0)"
    by (simp add: demo_world_def demo_db_def drawn_numbers_def demo_fund_def refno_def upt_rec
        nat_str_def to_str_def digits.simps[of 10 0] pad_start_def digit_char_0)
  with number show ?thesis
    by auto
qed

end
