(* ===== verification/Values.thy ===== *)
theory Values
  imports Money Paths
begin

text \<open>
  The properties of the value conversions and of the transfer whitelist: TigerBeetle ids and units and
  their column forms, the end-of-day cutoff, and which transfers the whitelist lets through with which
  mirror in the ledger.
\<close>

section \<open>Ids, units and the cutoff\<close>

text \<open>
  An id of the ledger (any non-negative BigInt) comes back unchanged from its hexadecimal column form.
\<close>

theorem hex_id_roundtrip:
  assumes "0 \<le> v"
  shows "hexToBigint (bigintToHex v) = Some v"
  using hex_roundtrip[OF assms] .

theorem hex_id_roundtrip_witness: "hexToBigint (bigintToHex 3735928559) = Some 3735928559"
  by (rule hex_id_roundtrip) simp

lemma tb_units_scaled: "tb_units (of_int v / 10 ^ d) d = v"
proof -
  define x :: rat where "x = of_int v / 10 ^ d"
  have "x * 10 ^ d = of_int v" "- x * 10 ^ d = of_int (- v)" "x < 0 \<longleftrightarrow> v < 0"
    by (simp_all add: x_def divide_less_0_iff)
  then show ?thesis
    unfolding tb_units_def x_def[symmetric] by (simp only: floor_of_int) simp
qed

text \<open>
  C15. Units to decimal and back: for every BigInt and every number of decimals the conversion to a Decimal
  succeeds, its value is the integer scaled by the decimals, and converting back gives the same integer.
\<close>

theorem units_decimal_roundtrip:
  "\<exists>x. bigintToDecimal v d = Some x \<and> x = of_int v / 10 ^ d \<and> decimalToTbUnits x d = Some v"
  by (simp add: bigintToDecimal_eq decimalToTbUnits_eq tb_units_scaled)

lemma tb_units_nonneg: "0 \<le> x \<Longrightarrow> of_int (tb_units x d) \<le> x * 10 ^ d \<and> x * 10 ^ d < of_int (tb_units x d) + 1"
  using floor_correct[of "x * 10 ^ d"] by (simp add: tb_units_def not_less)

text \<open>
  Posting never exceeds the amount: the conversion of a Decimal always succeeds, and for a non-negative
  amount the units posted are at most the amount at the asset's decimals and less than one unit below it.
\<close>

theorem units_never_over_post:
  assumes "0 \<le> x"
  shows "\<exists>u. decimalToTbUnits x d = Some u \<and> 0 \<le> u \<and> of_int u \<le> x * 10 ^ d \<and> x * 10 ^ d < of_int u + 1"
proof -
  have "0 \<le> tb_units x d"
    using assms by (simp add: tb_units_def not_less)
  then show ?thesis
    using tb_units_nonneg[OF assms, of d] by (simp add: decimalToTbUnits_eq)
qed

theorem units_never_over_post_witness:
  "\<exists>u. decimalToTbUnits (7 / 3) 2 = Some u \<and> 0 \<le> u \<and> of_int u \<le> (7 / 3 :: rat) * 10 ^ 2
     \<and> (7 / 3 :: rat) * 10 ^ 2 < of_int u + 1"
  by (rule units_never_over_post) simp

text \<open>
  The end-of-day cutoff is the last Dubai midnight: it is a midnight of the UTC+4 clock, not after the
  given time, and less than a day before it; resolving a cutoff again gives the same cutoff.
\<close>

theorem eod_cutoff_is_last_midnight:
  "resolveEodCutoff t \<le> t \<and> t < resolveEodCutoff t + 24 * 60 * 60 * 1000
     \<and> (resolveEodCutoff t + EOD_OFFSET_MS) mod (24 * 60 * 60 * 1000) = 0
     \<and> resolveEodCutoff (resolveEodCutoff t) = resolveEodCutoff t"
proof -
  have "resolveEodCutoff (resolveEodCutoff t) = resolveEodCutoff t"
    by (simp add: resolveEodCutoff_def)
  then show ?thesis
    using eod_cutoff_spec[of t] by simp
qed

section \<open>The whitelist\<close>

lemma fst_need: "fst (need x e s) = Inr a \<longleftrightarrow> x = Some a"
  by (cases x) (simp_all add: need_def throw_def ret_def)

lemma pair_guard:
  "fst (assertWhitelisted f t s) = Inr pol \<longleftrightarrow>
     (\<exists>p. p \<noteq> CRYPTO_SWAP_FEE_COLLECT \<and> pol = TRANSFER_PATH_WHITELIST p \<and> p_from pol = f \<and> p_to pol = t)"
proof
  assume "fst (assertWhitelisted f t s) = Inr pol"
  then have r: "resolvePathPolicy f t = Some pol"
    by (simp add: assertWhitelisted_def fst_need)
  note d = resolvePathPolicyD[OF r]
  have "resolvePathPolicy f t =
      Some (TRANSFER_PATH_WHITELIST (if p_path pol = CRYPTO_SWAP_FEE_COLLECT then FIAT_SWAP_FEE_COLLECT else p_path pol))"
    using resolvePathPolicy_complete[of "p_path pol"] d by metis
  then have "p_path pol \<noteq> CRYPTO_SWAP_FEE_COLLECT"
    using r by (auto split: if_splits)
  then show "\<exists>p. p \<noteq> CRYPTO_SWAP_FEE_COLLECT \<and> pol = TRANSFER_PATH_WHITELIST p \<and> p_from pol = f \<and> p_to pol = t"
    using d by blast
next
  assume "\<exists>p. p \<noteq> CRYPTO_SWAP_FEE_COLLECT \<and> pol = TRANSFER_PATH_WHITELIST p \<and> p_from pol = f \<and> p_to pol = t"
  then show "fst (assertWhitelisted f t s) = Inr pol"
    using resolvePathPolicy_complete by (auto simp: assertWhitelisted_def fst_need)
qed

lemma settle_routes:
  "resolveRoutePolicy [''C_VIBAN'', ''F_SET'', ''F_OPS''] = Some (TRANSFER_PATH_WHITELIST FIAT_SETTLE_OUT)"
  "resolveRoutePolicy [''F_OPS'', ''F_SET'', ''C_VIBAN''] = Some (TRANSFER_PATH_WHITELIST FIAT_SETTLE_IN)"
  by (simp_all add: resolveRoutePolicy_def whitelist_values_def whitelist_keys_def upt_rec_numeral)

lemma resolveRoutePolicy_complete:
  assumes "p_route (TRANSFER_PATH_WHITELIST p) = Some r"
  shows "resolveRoutePolicy r = Some (TRANSFER_PATH_WHITELIST p)"
proof -
  have "(p = FIAT_SETTLE_OUT \<and> r = [''C_VIBAN'', ''F_SET'', ''F_OPS''])
      \<or> (p = FIAT_SETTLE_IN \<and> r = [''F_OPS'', ''F_SET'', ''C_VIBAN''])"
    using assms by (cases p) simp_all
  then show ?thesis
    using settle_routes by metis
qed

lemma route_guard:
  "fst (assertRoute r s) = Inr pol \<longleftrightarrow> (\<exists>p. pol = TRANSFER_PATH_WHITELIST p \<and> p_route pol = Some r)"
proof
  assume "fst (assertRoute r s) = Inr pol"
  then show "\<exists>p. pol = TRANSFER_PATH_WHITELIST p \<and> p_route pol = Some r"
    using resolveRoutePolicyD[of r pol] unfolding assertRoute_def fst_need by blast
next
  assume "\<exists>p. pol = TRANSFER_PATH_WHITELIST p \<and> p_route pol = Some r"
  then show "fst (assertRoute r s) = Inr pol"
    unfolding assertRoute_def fst_need using resolveRoutePolicy_complete by blast
qed


text \<open>
  The ledger mirror of every whitelisted transfer is right: it moves pool to firm exactly when the
  transfer leaves the client wallets, firm to pool exactly when it enters them, and nothing otherwise;
  and the class A transfers are exactly those between two client wallets.
\<close>

theorem whitelist_mirrors_segregation:
  "(case TRANSFER_PATH_WHITELIST p of pol \<Rightarrow>
     p_mirror pol = expected_mirror (p_from pol) (p_to pol)
     \<and> (p_class pol = Class_A \<longleftrightarrow> client_role (p_from pol) \<and> client_role (p_to pol)))"
  using policy_mirror[of p] policy_class[of p] by simp

text \<open>
  The guards let through exactly the table: a pair of roles is accepted with a policy just when that
  policy is the table's entry for these two roles (of the two swap-fee entries, which share their roles,
  the fiat one), and a multi-hop route just when it is the route of the returned entry.
\<close>

theorem guards_let_through_exactly_the_table:
  "(fst (assertWhitelisted f t s) = Inr pol \<longleftrightarrow>
      (\<exists>p. p \<noteq> CRYPTO_SWAP_FEE_COLLECT \<and> pol = TRANSFER_PATH_WHITELIST p \<and> p_from pol = f \<and> p_to pol = t))
   \<and> (fst (assertRoute r s) = Inr pol \<longleftrightarrow>
      (\<exists>p. pol = TRANSFER_PATH_WHITELIST p \<and> p_route pol = Some r))"
  by (simp only: pair_guard route_guard simp_thms)

end
