(* ===== verification/LedgerCodes.thy ===== *)
theory LedgerCodes
  imports World
begin

text \<open>
  The constants of the ledger (src/src/modules/accounting/tigerbeetle/constants): account codes with
  their chart-of-accounts labels, which of them are debit-normal assets, the ledger of a currency and the
  codes of the transfers.
\<close>

datatype TbAccountCode =
    CLIENT_ASSET | FIRM_ASSET | CLIENT_PAYABLE | DEPOSIT_SUSPENSE | FIRM_OPS | FIRM_SET | FIRM_FEE | FIRM_LIQ

fun TB_ACCOUNT_CODES :: "TbAccountCode \<Rightarrow> nat" where
  "TB_ACCOUNT_CODES CLIENT_ASSET = 1"
| "TB_ACCOUNT_CODES FIRM_ASSET = 50"
| "TB_ACCOUNT_CODES CLIENT_PAYABLE = 100"
| "TB_ACCOUNT_CODES DEPOSIT_SUSPENSE = 101"
| "TB_ACCOUNT_CODES FIRM_OPS = 200"
| "TB_ACCOUNT_CODES FIRM_SET = 201"
| "TB_ACCOUNT_CODES FIRM_FEE = 202"
| "TB_ACCOUNT_CODES FIRM_LIQ = 203"

fun coa_label :: "TbAccountCode \<Rightarrow> string" where
  "coa_label CLIENT_ASSET = ''A.CLIENT_ASSET''"
| "coa_label FIRM_ASSET = ''A.FIRM_ASSET''"
| "coa_label CLIENT_PAYABLE = ''L.CLIENT_PAYABLE''"
| "coa_label DEPOSIT_SUSPENSE = ''L.DEPOSIT_SUSPENSE''"
| "coa_label FIRM_OPS = ''E.FIRM_OPS''"
| "coa_label FIRM_SET = ''E.FIRM_SET''"
| "coa_label FIRM_FEE = ''E.FIRM_FEE''"
| "coa_label FIRM_LIQ = ''E.FIRM_LIQ''"

definition account_codes :: "TbAccountCode list" where
  "account_codes =
     [CLIENT_ASSET, FIRM_ASSET, CLIENT_PAYABLE, DEPOSIT_SUSPENSE, FIRM_OPS, FIRM_SET, FIRM_FEE, FIRM_LIQ]"

definition COA_TO_TB_CODE :: "string \<Rightarrow> nat option" where
  "COA_TO_TB_CODE = map_of (map (\<lambda>c. (coa_label c, TB_ACCOUNT_CODES c)) account_codes)"

definition TB_CODE_TO_COA :: "nat \<Rightarrow> string option" where
  "TB_CODE_TO_COA = map_of (map (\<lambda>c. (TB_ACCOUNT_CODES c, coa_label c)) account_codes)"

definition ASSET_TB_CODES :: "nat list" where
  "ASSET_TB_CODES = map TB_ACCOUNT_CODES [CLIENT_ASSET, FIRM_ASSET]"

definition isAssetCode :: "nat \<Rightarrow> bool" where
  "isAssetCode code \<longleftrightarrow> code \<in> set ASSET_TB_CODES"

text \<open>\<open>TB_LEDGERS[currency]\<close>.\<close>

definition TB_LEDGERS :: "string \<Rightarrow> nat option" where
  "TB_LEDGERS = map_of [(''AED'', 1), (''USDT'', 2)]"

datatype TbTransferCode =
    DEPOSIT_ASSET_TO_SUSPENSE | DEPOSIT_SUSPENSE_TO_PAYABLE
  | WITHDRAW_NET_PENDING | WITHDRAW_NET_POST | WITHDRAW_NET_VOID | WITHDRAW_FEE_PENDING
  | WITHDRAW_FEE_POST | WITHDRAW_FEE_VOID | WITHDRAW_FEE_FIRM
  | SWAP_SELL_CLIENT | SWAP_SELL_FIRM | SWAP_BUY_OPS_TO_SET | SWAP_BUY_SET_TO_ASSET | SWAP_BUY_CLIENT
  | SWAP_FEE_CLIENT | SWAP_FEE_FIRM | SWAP_SELL_SET_TO_OPS | SWAP_BUY_OPS_TO_ASSET
  | CAPITAL_INJECTION

fun TB_TRANSFER_CODES :: "TbTransferCode \<Rightarrow> nat" where
  "TB_TRANSFER_CODES DEPOSIT_ASSET_TO_SUSPENSE = 1"
| "TB_TRANSFER_CODES DEPOSIT_SUSPENSE_TO_PAYABLE = 2"
| "TB_TRANSFER_CODES WITHDRAW_NET_PENDING = 10"
| "TB_TRANSFER_CODES WITHDRAW_NET_POST = 11"
| "TB_TRANSFER_CODES WITHDRAW_NET_VOID = 12"
| "TB_TRANSFER_CODES WITHDRAW_FEE_PENDING = 13"
| "TB_TRANSFER_CODES WITHDRAW_FEE_POST = 14"
| "TB_TRANSFER_CODES WITHDRAW_FEE_VOID = 15"
| "TB_TRANSFER_CODES WITHDRAW_FEE_FIRM = 16"
| "TB_TRANSFER_CODES SWAP_SELL_CLIENT = 30"
| "TB_TRANSFER_CODES SWAP_SELL_FIRM = 31"
| "TB_TRANSFER_CODES SWAP_BUY_OPS_TO_SET = 32"
| "TB_TRANSFER_CODES SWAP_BUY_SET_TO_ASSET = 33"
| "TB_TRANSFER_CODES SWAP_BUY_CLIENT = 34"
| "TB_TRANSFER_CODES SWAP_FEE_CLIENT = 35"
| "TB_TRANSFER_CODES SWAP_FEE_FIRM = 36"
| "TB_TRANSFER_CODES SWAP_SELL_SET_TO_OPS = 37"
| "TB_TRANSFER_CODES SWAP_BUY_OPS_TO_ASSET = 38"
| "TB_TRANSFER_CODES CAPITAL_INJECTION = 70"

section \<open>Lemmas\<close>

lemma set_account_codes [simp]: "c \<in> set account_codes"
  by (cases c) (simp_all add: account_codes_def)

lemma COA_roundtrip:
  "COA_TO_TB_CODE (coa_label c) = Some (TB_ACCOUNT_CODES c)"
  "TB_CODE_TO_COA (TB_ACCOUNT_CODES c) = Some (coa_label c)"
  by (cases c; simp add: COA_TO_TB_CODE_def TB_CODE_TO_COA_def account_codes_def)+

lemma isAssetCode_iff: "isAssetCode (TB_ACCOUNT_CODES c) \<longleftrightarrow> c = CLIENT_ASSET \<or> c = FIRM_ASSET"
  by (cases c) (simp_all add: isAssetCode_def ASSET_TB_CODES_def)

end
