(* ===== verification/Evidence.thy ===== *)
theory Evidence
  imports LedgerCodes FundsFlowFacts
begin

text \<open>
  The evidence of the ledger and its projection
  (src/src/modules/accounting/tigerbeetle/tb-evidence.service.ts and
  src/src/modules/clearing-settle/reconciliation/projector/account-flow-projector.service.ts): every
  ledger transfer has one evidence row, projected into an outgoing and an incoming account-flow row; the
  projector refuses a flow whose wallet does not belong to the owner of its ledger account (R2).  The
  account and wallet statements read the rows back.
\<close>

section \<open>Projection\<close>

fun evidence_side :: "tb_evidence \<Rightarrow> string \<Rightarrow> string option \<Rightarrow> string option \<Rightarrow> account_flow list" where
  "evidence_side e dir None ref = []"
| "evidence_side e dir (Some acc) ref =
     (if acc = [] then []
      else [\<lparr>fl_transferId = e_id e, fl_accountId = acc, fl_walletRef = ref, fl_direction = dir,
             fl_amount = e_amount e, fl_crossing = e_crossing e, fl_externalRef = e_externalRef e,
             fl_eventCode = e_eventCode e, fl_sourceType = e_sourceType e, fl_sourceNo = e_sourceNo e,
             fl_transferType = e_transferType e, fl_assetCode = e_assetCode e,
             fl_createdAt = e_createdAt e\<rparr>])"

definition projectEvidence :: "tb_evidence \<Rightarrow> account_flow list" where
  "projectEvidence e =
     evidence_side e ''OUT'' (e_debitAccount e) (e_debitWalletRef e)
     @ evidence_side e ''IN'' (e_creditAccount e) (e_creditWalletRef e)"

text \<open>The R2 guard.\<close>

definition AGGREGATE_TB_CODES :: "nat list" where
  "AGGREGATE_TB_CODES = [1, 50]"

definition firm_side :: "string \<Rightarrow> bool" where
  "firm_side owner \<longleftrightarrow> owner \<in> set [''PLATFORM'', ''SYSTEM'']"

definition find_tb_account :: "string \<Rightarrow> db \<Rightarrow> tb_account option" where
  "find_tb_account i d = by_id r_id i (registry d)"

definition owners_agree :: "wallet \<Rightarrow> tb_account \<Rightarrow> bool" where
  "owners_agree x r \<longleftrightarrow>
     r_code r \<in> set AGGREGATE_TB_CODES
     \<or> firm_side (w_ownerType x) \<and> firm_side (r_ownerType r)
     \<or> w_ownerType x = r_ownerType r \<and> w_ownerNo x = r_ownerNo r"

definition assertWalletRefMatchesTbAccount :: "string option \<Rightarrow> string \<Rightarrow> unit op" where
  "assertWalletRefMatchesTbAccount walletRef accountId =
     (if \<not> truthy walletRef then ret ()
      else bind (getsDb (\<lambda>d. by_id w_id (the walletRef) (wallets d))) (\<lambda>row.
           bind (need row (PlainError ''R2: dangling walletRef'')) (\<lambda>x.
           bind (getsDb (find_tb_account accountId)) (\<lambda>entry.
           case entry of None \<Rightarrow> ret ()
           | Some r \<Rightarrow> guard (owners_agree x r) (PlainError ''R2: owner mismatch'')))))"

definition flow_key :: "account_flow \<Rightarrow> string \<times> string" where
  "flow_key r = (fl_transferId r, fl_accountId r)"

definition upsert_flow :: "account_flow \<Rightarrow> unit op" where
  "upsert_flow r = onDb (\<lambda>d. d\<lparr>flows :=
     (if \<exists>x\<in>set (flows d). flow_key x = flow_key r
      then update_rows (\<lambda>x. flow_key x = flow_key r) (\<lambda>x. r\<lparr>fl_createdAt := fl_createdAt x\<rparr>) (flows d)
      else flows d @ [r])\<rparr>)"

definition persist :: "tb_evidence \<Rightarrow> unit op" where
  "persist e = forEach (projectEvidence e) (\<lambda>row.
     andThen (assertWalletRefMatchesTbAccount (fl_walletRef row) (fl_accountId row)) (upsert_flow row))"

section \<open>Writing evidence\<close>

definition find_evidence :: "string \<Rightarrow> db \<Rightarrow> tb_evidence option" where
  "find_evidence i d = by_id e_id i (evidences d)"

definition insert_evidence :: "tb_evidence \<Rightarrow> unit op" where
  "insert_evidence r = bind (getsDb (find_evidence (e_id r))) (\<lambda>found.
     if found \<noteq> None then throw (UniqueConstraint ''tbTransferId'')
     else onDb (\<lambda>d. d\<lparr>evidences := evidences d @ [r]\<rparr>))"

text \<open>The backlog is written with the service's own client, so it survives a rollback; a second entry
  for the same transfer violates its unique key, which is logged and dropped.\<close>

definition writeToBacklog :: "string \<Rightarrow> unit op" where
  "writeToBacklog i = modify (\<lambda>w. if i \<in> set (backlog w) then w else w\<lparr>backlog := backlog w @ [i]\<rparr>)"

definition writeEvidence :: "(int \<Rightarrow> tb_evidence) \<Rightarrow> unit op" where
  "writeEvidence row = bind now (\<lambda>t. let e = row t in
     handle (andThen (insert_evidence e) (persist e))
       (\<lambda>err. andThen (writeToBacklog (e_id e)) (throw err)))"

text \<open>The two updates re-project the row they changed.\<close>

definition change_evidence :: "string \<Rightarrow> (tb_evidence \<Rightarrow> tb_evidence) \<Rightarrow> unit op" where
  "change_evidence i f = bind (getsDb (find_evidence i)) (\<lambda>row.
     bind (need row RecordNotFound) (\<lambda>e.
       andThen (onDb (\<lambda>d. d\<lparr>evidences := update_rows (\<lambda>x. e_id x = i) f (evidences d)\<rparr>))
         (persist (f e))))"

definition updateTransferType :: "string \<Rightarrow> string \<Rightarrow> string option \<Rightarrow> unit op" where
  "updateTransferType i newType postId = change_evidence i (\<lambda>e.
     e\<lparr>e_transferType := newType, e_pendingId := or_else postId (e_pendingId e)\<rparr>)"

text \<open>The fields of \<open>enrichForPost\<close>: absent (undefined) fields are left alone.\<close>

record enrich_fields =
  ef_eventCode :: "string option"
  ef_memo :: "string option option"
  ef_debitWalletRef :: "string option option"
  ef_creditWalletRef :: "string option option"
  ef_externalRef :: "string option option"
  ef_crossing :: "bool option"

definition no_fields :: enrich_fields where
  "no_fields = \<lparr>ef_eventCode = None, ef_memo = None, ef_debitWalletRef = None, ef_creditWalletRef = None,
     ef_externalRef = None, ef_crossing = None\<rparr>"

definition enriched :: "enrich_fields \<Rightarrow> tb_evidence \<Rightarrow> tb_evidence" where
  "enriched x e =
     e\<lparr>e_eventCode := default_of (e_eventCode e) (ef_eventCode x),
       e_memo := default_of (e_memo e) (ef_memo x),
       e_debitWalletRef := default_of (e_debitWalletRef e) (ef_debitWalletRef x),
       e_creditWalletRef := default_of (e_creditWalletRef e) (ef_creditWalletRef x),
       e_externalRef := default_of (e_externalRef e) (ef_externalRef x),
       e_crossing := default_of (e_crossing e) (ef_crossing x)\<rparr>"

definition enrichForPost :: "string \<Rightarrow> enrich_fields \<Rightarrow> unit op" where
  "enrichForPost i x =
     (if ef_eventCode x = None \<and> ef_memo x = None \<and> ef_debitWalletRef x = None
         \<and> ef_creditWalletRef x = None \<and> ef_externalRef x = None \<and> ef_crossing x = None
      then ret () else change_evidence i (enriched x))"

section \<open>Statements\<close>

text \<open>An id is matched in its padded (32 digits) and its unpadded form.\<close>

definition padId :: "string \<Rightarrow> string" where
  "padId i = (if length i < 32 then pad_start 32 (CHR ''0'') i else i)"

definition id_variants :: "string \<Rightarrow> string list" where
  "id_variants i =
     (let padded = padId i;
          stripped = dropWhile (\<lambda>c. c = CHR ''0'') padded;
          unpadded = (if stripped = [] then padded else stripped)
      in if padded = unpadded then [padded] else [padded, unpadded])"

definition on_side :: "string list \<Rightarrow> string option \<Rightarrow> bool" where
  "on_side ids acc = (case acc of None \<Rightarrow> False | Some i \<Rightarrow> i \<in> set ids)"

record statement_item =
  st_row :: tb_evidence
  st_in :: bool
  st_amount :: rat
  st_running :: rat

text \<open>The running balance of a list of signed amounts.\<close>

fun running :: "rat \<Rightarrow> rat list \<Rightarrow> rat list" where
  "running b [] = []"
| "running b (x # xs) = (b + x) # running (b + x) xs"

definition signed_amount :: "bool \<Rightarrow> rat \<Rightarrow> rat" where
  "signed_amount incoming amount = (if incoming then amount else - amount)"

definition statement_rows :: "string list \<Rightarrow> bool \<Rightarrow> db \<Rightarrow> tb_evidence list" where
  "statement_rows ids crossingOnly d = filter (\<lambda>e. e_transferType e = ''POSTED''
     \<and> (on_side ids (e_creditAccount e) \<or> on_side ids (e_debitAccount e))
     \<and> (crossingOnly \<longrightarrow> e_crossing e)) (evidences d)"

definition evidence_in :: "bool \<Rightarrow> string list \<Rightarrow> tb_evidence \<Rightarrow> bool" where
  "evidence_in isAsset ids e =
     (let isCreditSide = on_side ids (e_creditAccount e) in
      if isAsset then \<not> isCreditSide else isCreditSide)"

definition getAccountStatement :: "string \<Rightarrow> bool \<Rightarrow> db \<Rightarrow> statement_item list \<times> rat" where
  "getAccountStatement accountId crossingOnly d =
     (let isAsset = (case find_tb_account accountId d of None \<Rightarrow> False | Some r \<Rightarrow> isAssetCode (r_code r));
          ids = id_variants accountId;
          rows = statement_rows ids crossingOnly d;
          amounts = map (\<lambda>e. signed_amount (evidence_in isAsset ids e) (e_amount e)) rows
      in (map2 (\<lambda>e b. \<lparr>st_row = e, st_in = evidence_in isAsset ids e, st_amount = e_amount e,
                 st_running = b\<rparr>) rows (running 0 amounts),
          sum_list amounts))"

text \<open>The wallet statement reads the projection: the posted flows of a wallet, without the flows of
  accounts of another owner, each with its account's registry entry.\<close>

record wallet_item =
  wi_flow :: account_flow
  wi_in :: bool
  wi_code :: "nat option"
  wi_running :: rat

definition reg_of :: "db \<Rightarrow> string \<Rightarrow> tb_account option" where
  "reg_of d i = find (\<lambda>r. r_id r = padId i) (registry d)"

definition wallet_keeps :: "db \<Rightarrow> wallet option \<Rightarrow> account_flow \<Rightarrow> bool" where
  "wallet_keeps d row f =
     (case reg_of d (fl_accountId f) of None \<Rightarrow> True
      | Some r \<Rightarrow>
          (case row of None \<Rightarrow> True
           | Some x \<Rightarrow>
               if \<not> truthy (w_ownerNo x) then True
               else \<not> (r_ownerType r = ''CUSTOMER'' \<and> r_ownerNo r \<noteq> w_ownerNo x)
                    \<and> \<not> (w_ownerType x = ''CUSTOMER'' \<and> r_ownerType r = ''SYSTEM'')))"

definition flow_in :: "db \<Rightarrow> account_flow \<Rightarrow> bool" where
  "flow_in d f =
     (let isAsset = (case reg_of d (fl_accountId f) of None \<Rightarrow> False | Some r \<Rightarrow> isAssetCode (r_code r))
      in if isAsset then fl_direction f \<noteq> ''IN'' else fl_direction f = ''IN'')"

definition getWalletStatement :: "string \<Rightarrow> bool \<Rightarrow> db \<Rightarrow> wallet_item list \<times> rat" where
  "getWalletStatement walletRef crossingOnly d =
     (let row = by_id w_id walletRef (wallets d);
          all = filter (\<lambda>f. fl_walletRef f = Some walletRef \<and> fl_transferType f = ''POSTED''
                  \<and> (crossingOnly \<longrightarrow> fl_crossing f)) (flows d);
          kept = filter (wallet_keeps d row) all;
          amounts = map (\<lambda>f. signed_amount (flow_in d f) (fl_amount f)) kept
      in (map2 (\<lambda>f b. \<lparr>wi_flow = f, wi_in = flow_in d f,
                 wi_code = map_option r_code (reg_of d (fl_accountId f)), wi_running = b\<rparr>)
            kept (running 0 amounts),
          sum_list amounts))"

end
