(* ===== verification/Accounting.thy ===== *)
theory Accounting
  imports Evidence
begin

text \<open>
  The accounting service over TigerBeetle
  (src/src/modules/accounting/tigerbeetle/accounting.service.ts) and its account registry
  (tb-account-registry.service.ts): opening accounts, one-phase and two-phase transfers under
  deterministic ids with their evidence, posting and voiding, and the balance queries.  The clients pass
  their transaction's client for the database writes; the requests to TigerBeetle are never taken back.
\<close>

section \<open>Identifiers\<close>

text \<open>\<open>deterministicTransferId\<close>: the 128-bit prefix of the SHA-256 of the business key.\<close>

definition transfer_key :: "string \<Rightarrow> string \<Rightarrow> string \<Rightarrow> nat \<Rightarrow> string" where
  "transfer_key sourceType sourceNo eventCode legIndex =
     sourceType @ '':'' @ sourceNo @ '':'' @ eventCode @ '':'' @ nat_str legIndex"

definition deterministicTransferId :: "string \<Rightarrow> string \<Rightarrow> string \<Rightarrow> nat \<Rightarrow> int op" where
  "deterministicTransferId sourceType sourceNo eventCode legIndex =
     gets (\<lambda>w. sha_id w (transfer_key sourceType sourceNo eventCode legIndex))"

text \<open>\<open>id()\<close> of tigerbeetle-node.\<close>

definition tbId :: "int op" where
  "tbId = (\<lambda>w. (Inr (tbid_src w (tbid_pos w)), w\<lparr>tbid_pos := Suc (tbid_pos w)\<rparr>))"

text \<open>\<open>Number(bigint)\<close>: exact up to 53 bits, above rounded to 53 bits, half to even.\<close>

definition js_number :: "int \<Rightarrow> rat" where
  "js_number n =
     (let m = nat \<bar>n\<bar>; k = length (digits 2 m) - 53 in
      if k = 0 then of_int n
      else (let q = m div 2 ^ k; r = m mod 2 ^ k; half = 2 ^ (k - 1);
                q' = (if half < r \<or> (r = half \<and> odd q) then q + 1 else q)
            in of_int (sgn n) * of_nat q' * 2 ^ k))"

text \<open>\<open>uuidToBigint\<close>.\<close>

definition uuidToBigint :: "string \<Rightarrow> int" where
  "uuidToBigint uuid =
     (let hex = filter (\<lambda>c. c \<noteq> CHR ''-'') uuid
      in if length hex \<noteq> 32 then 0
         else (case parse_digits 16 (map (\<lambda>c. let k = of_char c :: nat in
                  if 65 \<le> k \<and> k \<le> 70 then char_of (k + 32) else c) hex) of
             None \<Rightarrow> 0 | Some ds \<Rightarrow> int (undigits 16 ds)))"

section \<open>The registry\<close>

definition register :: "tb_account \<Rightarrow> unit op" where
  "register r = bind (getsDb registry) (\<lambda>rs.
     if \<exists>x\<in>set rs. r_id x = r_id r then throw (UniqueConstraint ''tbAccountId'')
     else if r_ownerUuid r \<noteq> None \<and> (\<exists>x\<in>set rs. r_code x = r_code r \<and> r_ledger x = r_ledger r
            \<and> r_ownerType x = r_ownerType r \<and> r_ownerUuid x = r_ownerUuid r)
       then throw (UniqueConstraint ''code_ledger_ownerType_ownerUuid'')
     else onDb (\<lambda>d. d\<lparr>registry := registry d @ [r]\<rparr>))"

definition resolve :: "nat \<Rightarrow> nat \<Rightarrow> string \<Rightarrow> string option \<Rightarrow> db \<Rightarrow> tb_account option" where
  "resolve code ledger ownerType ownerUuid d =
     find (\<lambda>r. r_code r = code \<and> r_ledger r = ledger \<and> r_ownerType r = ownerType
        \<and> r_ownerUuid r = ownerUuid \<and> r_status r = ''ACTIVE'') (registry d)"

definition resolveTbAccountId :: "nat \<Rightarrow> nat \<Rightarrow> string \<Rightarrow> string option \<Rightarrow> int op" where
  "resolveTbAccountId code ledger ownerType ownerUuid =
     bind (getsDb (resolve code ledger ownerType ownerUuid)) (\<lambda>entry.
     bind (need entry (NotFoundException ''TB_ACCOUNT_REGISTRY_NOT_FOUND'')) (\<lambda>r.
     need (hexToBigint (r_id r)) (SyntaxError ''BigInt'')))"

section \<open>Opening accounts\<close>

record CreateTbAccountParams =
  ca_code :: nat
  ca_ledger :: nat
  ca_ownerType :: string
  ca_ownerUuid :: "string option"
  ca_ownerNo :: "string option"
  ca_assetCurrency :: string
  ca_description :: "string option"
  ca_flags :: "nat option"

definition account_request :: "int \<Rightarrow> CreateTbAccountParams \<Rightarrow> tb_new_account" where
  "account_request i p =
     \<lparr>na_id = i, na_ledger = ca_ledger p, na_code = ca_code p, na_flags = default_of 0 (ca_flags p),
      na_user_data_128 = (if truthy (ca_ownerUuid p) then uuidToBigint (the (ca_ownerUuid p)) else 0),
      na_user_data_32 = (if ca_ownerType p = ''SYSTEM'' then 0 else if ca_ownerType p = ''CUSTOMER'' then 1 else 2)\<rparr>"

definition registry_row :: "int \<Rightarrow> CreateTbAccountParams \<Rightarrow> tb_account" where
  "registry_row i p =
     \<lparr>r_id = bigintToHex i, r_code = ca_code p, r_ledger = ca_ledger p, r_ownerType = ca_ownerType p,
      r_ownerUuid = ca_ownerUuid p, r_ownerNo = ca_ownerNo p, r_assetCode = ca_assetCurrency p,
      r_status = ''ACTIVE'', r_description = ca_description p, r_flags = default_of 0 (ca_flags p)\<rparr>"

definition real_error :: "tb_status \<Rightarrow> bool" where
  "real_error s \<longleftrightarrow> s \<noteq> TB_created \<and> s \<noteq> TB_exists"

text \<open>A client that cannot reach the cluster rejects the promise instead of returning statuses.\<close>

definition submit_accounts :: "tb_new_account list \<Rightarrow> tb_status list op" where
  "submit_accounts reqs = (\<lambda>w.
     let reply = tb_acct_reply w (tb_acct_log w) reqs;
         w' = w\<lparr>tb_acct_log := tb_acct_log w @ [(reqs, reply)]\<rparr>
     in if TB_unreachable \<in> set reply then (Inl (PlainError ''TigerBeetle''), w') else (Inr reply, w'))"

fun drawIds :: "CreateTbAccountParams list \<Rightarrow> (int \<times> CreateTbAccountParams) list op" where
  "drawIds [] = ret []"
| "drawIds (p # ps) = bind tbId (\<lambda>i. bind (drawIds ps) (\<lambda>rest. ret ((i, p) # rest)))"

definition createAccounts :: "CreateTbAccountParams list \<Rightarrow> unit op" where
  "createAccounts ps =
     bind (drawIds ps) (\<lambda>accounts.
     bind (submit_accounts (map (\<lambda>(i, p). account_request i p) accounts)) (\<lambda>errors.
     andThen (guard (\<not> list_ex real_error errors) (BadRequestException ''TB_ACCOUNT_CREATE_FAILED''))
       (forEach accounts (\<lambda>(i, p). register (registry_row i p)))))"

section \<open>Transfers\<close>

record EvidenceParams =
  ep_sourceType :: string
  ep_sourceNo :: string
  ep_eventCode :: string
  ep_traceId :: string
  ep_debitCode :: string
  ep_creditCode :: string
  ep_assetCurrency :: string
  ep_actorType :: string
  ep_actorId :: string
  ep_memo :: "string option"
  ep_debitWalletRef :: "string option"
  ep_creditWalletRef :: "string option"
  ep_externalRef :: "string option"
  ep_crossing :: bool

text \<open>One request to \<open>createTransfers\<close> with one transfer.\<close>

definition submit :: "tb_transfer \<Rightarrow> tb_status op" where
  "submit t = (\<lambda>w.
     let reply = tb_reply w (tb_log w) t;
         w' = w\<lparr>tb_log := tb_log w @ [(t, reply)]\<rparr>
     in if reply = TB_unreachable then (Inl (PlainError ''TigerBeetle''), w') else (Inr reply, w'))"

definition evidence_row ::
    "string \<Rightarrow> int \<Rightarrow> int \<Rightarrow> int \<Rightarrow> int \<Rightarrow> EvidenceParams \<Rightarrow> int \<Rightarrow> tb_evidence" where
  "evidence_row transferType transferId debit credit amount ep t =
     \<lparr>e_id = bigintToHex transferId, e_sourceType = ep_sourceType ep, e_sourceNo = ep_sourceNo ep,
      e_eventCode = ep_eventCode ep, e_debitCode = ep_debitCode ep, e_creditCode = ep_creditCode ep,
      e_debitAccount = Some (bigintToHex debit), e_creditAccount = Some (bigintToHex credit),
      e_amount = js_number amount, e_assetCode = ep_assetCurrency ep, e_traceId = ep_traceId ep,
      e_actorType = ep_actorType ep, e_actorId = ep_actorId ep, e_memo = ep_memo ep,
      e_pendingId = None, e_transferType = transferType, e_debitWalletRef = ep_debitWalletRef ep,
      e_creditWalletRef = ep_creditWalletRef ep, e_externalRef = ep_externalRef ep,
      e_crossing = ep_crossing ep, e_createdAt = t\<rparr>"

text \<open>The part the one-phase and the two-phase transfer share: submit, refuse a real error, skip the
  evidence of a replay, write it otherwise.\<close>

definition record_transfer ::
    "string \<Rightarrow> string \<Rightarrow> tb_transfer \<Rightarrow> EvidenceParams \<Rightarrow> int op" where
  "record_transfer transferType failure t ep =
     bind (submit t) (\<lambda>status.
     andThen (guard (\<not> real_error status) (BadRequestException failure))
     (if status = TB_exists then ret (tr_id t)
      else andThen (writeEvidence (evidence_row transferType (tr_id t) (tr_debit t) (tr_credit t) (tr_amount t) ep))
             (ret (tr_id t))))"

definition executeTransfer ::
    "int \<Rightarrow> int \<Rightarrow> int \<Rightarrow> nat \<Rightarrow> nat \<Rightarrow> EvidenceParams \<Rightarrow> int op" where
  "executeTransfer debit credit amount ledger code ep =
     bind (deterministicTransferId (ep_sourceType ep) (ep_sourceNo ep) (ep_eventCode ep) 0) (\<lambda>i.
     record_transfer ''POSTED'' ''TB_TRANSFER_FAILED''
       \<lparr>tr_id = i, tr_debit = debit, tr_credit = credit, tr_amount = amount, tr_pending_id = 0,
        tr_timeout = 0, tr_ledger = ledger, tr_code = code, tr_flag = Flag_none\<rparr> ep)"

definition executePendingTransfer ::
    "int \<Rightarrow> int \<Rightarrow> int \<Rightarrow> nat \<Rightarrow> nat \<Rightarrow> nat \<Rightarrow> EvidenceParams \<Rightarrow> nat option \<Rightarrow> int op" where
  "executePendingTransfer debit credit amount ledger code timeout ep legIndex =
     bind (deterministicTransferId (ep_sourceType ep) (ep_sourceNo ep) (ep_eventCode ep)
             (default_of 0 legIndex)) (\<lambda>i.
     record_transfer ''PENDING'' ''TB_PENDING_TRANSFER_FAILED''
       \<lparr>tr_id = i, tr_debit = debit, tr_credit = credit, tr_amount = amount, tr_pending_id = 0,
        tr_timeout = timeout, tr_ledger = ledger, tr_code = code, tr_flag = Flag_pending\<rparr> ep)"

text \<open>Posting and voiding: a second transfer naming the pending one, then the type of the pending
  one's evidence.\<close>

definition closing :: "tb_flag \<Rightarrow> int \<Rightarrow> int \<Rightarrow> int \<Rightarrow> tb_transfer" where
  "closing flag i pendingId amount =
     \<lparr>tr_id = i, tr_debit = 0, tr_credit = 0, tr_amount = amount, tr_pending_id = pendingId,
      tr_timeout = 0, tr_ledger = 0, tr_code = 0, tr_flag = flag\<rparr>"

definition close_pending :: "tb_flag \<Rightarrow> string \<Rightarrow> string \<Rightarrow> int \<Rightarrow> int \<Rightarrow> unit op" where
  "close_pending flag newType failure pendingId amount =
     bind tbId (\<lambda>i.
     bind (submit (closing flag i pendingId amount)) (\<lambda>status.
     andThen (guard (\<not> real_error status) (BadRequestException failure))
       (updateTransferType (bigintToHex pendingId) newType (Some (bigintToHex i)))))"

definition postPendingTransfer :: "int \<Rightarrow> int \<Rightarrow> unit op" where
  "postPendingTransfer pendingId amount =
     close_pending Flag_post ''POSTED'' ''TB_POST_PENDING_FAILED'' pendingId amount"

definition voidPendingTransfer :: "int \<Rightarrow> int \<Rightarrow> unit op" where
  "voidPendingTransfer pendingId amount =
     close_pending Flag_void ''VOIDED'' ''TB_VOID_PENDING_FAILED'' pendingId amount"

definition voidPendingTransferBestEffort :: "int \<Rightarrow> int \<Rightarrow> bool op" where
  "voidPendingTransferBestEffort pendingId amount =
     handle (bind tbId (\<lambda>i. bind (submit (closing Flag_void i pendingId amount)) (\<lambda>status.
       ret (\<not> real_error status)))) (\<lambda>_. ret False)"

section \<open>Balances\<close>

definition lookupBalance :: "int \<Rightarrow> tb_balance op" where
  "lookupBalance i =
     bind (gets (\<lambda>w. tb_lookup w (tb_log w) i)) (\<lambda>found.
       need found (NotFoundException ''TB_ACCOUNT_NOT_FOUND''))"

record CustomerAvailableBalance =
  cb_available :: int
  cb_held :: int
  cb_total :: int

definition getCustomerAvailableBalance :: "string \<Rightarrow> string \<Rightarrow> CustomerAvailableBalance op" where
  "getCustomerAvailableBalance customerUuid assetCurrency =
     bind (need (TB_LEDGERS assetCurrency) (BadRequestException ''Unsupported asset currency'')) (\<lambda>ledger.
     bind (resolveTbAccountId (TB_ACCOUNT_CODES CLIENT_PAYABLE) ledger ''CUSTOMER'' (Some customerUuid)) (\<lambda>i.
     bind (lookupBalance i) (\<lambda>b.
       let total = credits_posted b - debits_posted b in
       ret \<lparr>cb_available = total - debits_pending b, cb_held = debits_pending b, cb_total = total\<rparr>)))"

end
