(* ===== verification/AccountingFacts.thy ===== *)
theory AccountingFacts
  imports Accounting
begin

text \<open>
  What the operations of the ledger side keep: every evidence row is backed by a transfer TigerBeetle
  accepted, every account flow passes the R2 guard, and inside a transaction the flows mirror the
  evidence.  The runs of the ledger are the operations in any order, with database rollbacks anywhere.
\<close>

section \<open>Hexadecimal ids are injective\<close>

lemma digit_char_hex: "d < 16 \<Longrightarrow> digit_char d \<noteq> CHR ''-''"
  using char_digit_char[of d 16] by (auto simp: char_digit_def Let_def)

lemma bigintToHex_inj: "bigintToHex a = bigintToHex b \<Longrightarrow> a = b"
proof -
  have str: "n = m" if "to_str 16 n = to_str 16 m" for n m
  proof -
    have "Some (digits 16 n) = Some (digits 16 m)"
      using that parse_to_str[of 16 n] parse_to_str[of 16 m] by simp
    then show ?thesis
      using undigits_digits by (metis option.inject)
  qed
  have sign: "to_str 16 n \<noteq> CHR ''-'' # xs" for n xs
    using digits_less[of 16 _ n] digits_nonempty[of 16 n]
    by (cases "digits 16 n") (auto simp: to_str_def digit_char_hex)
  assume "bigintToHex a = bigintToHex b"
  then show "a = b"
    using str[of "nat a" "nat b"] str[of "nat (- a)" "nat (- b)"] sign sign[symmetric]
    by (auto simp: bigintToHex_def split: if_splits)
qed

lemma hex_eq_iff [simp]: "bigintToHex a = bigintToHex b \<longleftrightarrow> a = b"
  using bigintToHex_inj by auto

section \<open>Rules for the ledger commands\<close>

lemma wp_submit:
  "wp (submit t) Q E w =
     (let reply = tb_reply w (tb_log w) t; v = w\<lparr>tb_log := tb_log w @ [(t, reply)]\<rparr> in
      if reply = TB_unreachable then E (PlainError ''TigerBeetle'') v else Q reply v)"
  by (simp add: wp_def submit_def Let_def)

lemma wp_tbId [simp]:
  "wp tbId Q E w = Q (tbid_src w (tbid_pos w)) (w\<lparr>tbid_pos := Suc (tbid_pos w)\<rparr>)"
  by (simp add: wp_def tbId_def)

lemma wp_deterministicTransferId [simp]:
  "wp (deterministicTransferId a b c n) Q E w = Q (sha_id w (transfer_key a b c n)) w"
  by (simp add: deterministicTransferId_def)

lemma wp_assertWalletRef:
  "wp (assertWalletRefMatchesTbAccount r acc) Q E w =
     (if \<not> truthy r then Q () w
      else case by_id w_id (the r) (wallets (db w)) of
        None \<Rightarrow> E (PlainError ''R2: dangling walletRef'') w
      | Some x \<Rightarrow> (case find_tb_account acc (db w) of None \<Rightarrow> Q () w
          | Some a \<Rightarrow> if owners_agree x a then Q () w else E (PlainError ''R2: owner mismatch'') w))"
  by (simp add: assertWalletRefMatchesTbAccount_def split: option.split)

lemma wp_upsert_flow [simp]:
  "wp (upsert_flow r) Q E w = Q () (w\<lparr>db := (db w)\<lparr>flows :=
     (if \<exists>x\<in>set (flows (db w)). flow_key x = flow_key r
      then update_rows (\<lambda>x. flow_key x = flow_key r) (\<lambda>x. r\<lparr>fl_createdAt := fl_createdAt x\<rparr>) (flows (db w))
      else flows (db w) @ [r])\<rparr>\<rparr>)"
  by (simp add: upsert_flow_def)

section \<open>Evidence is backed by the ledger\<close>

definition closed_by :: "tb_log \<Rightarrow> tb_flag \<Rightarrow> tb_transfer \<Rightarrow> string option \<Rightarrow> bool" where
  "closed_by lg flag t pendingId \<longleftrightarrow> (\<exists>(p, s)\<in>set lg. \<not> real_error s \<and> tr_flag p = flag
     \<and> tr_pending_id p = tr_id t \<and> pendingId = Some (bigintToHex (tr_id p)))"

definition backs :: "tb_log \<Rightarrow> tb_evidence \<Rightarrow> tb_transfer \<Rightarrow> bool" where
  "backs lg e t \<longleftrightarrow> (t, TB_created) \<in> set lg
     \<and> e_id e = bigintToHex (tr_id t)
     \<and> e_debitAccount e = Some (bigintToHex (tr_debit t))
     \<and> e_creditAccount e = Some (bigintToHex (tr_credit t))
     \<and> e_amount e = js_number (tr_amount t)
     \<and> (e_transferType e = ''POSTED'' \<and> tr_flag t = Flag_none
        \<or> e_transferType e = ''PENDING'' \<and> tr_flag t = Flag_pending
        \<or> e_transferType e = ''POSTED'' \<and> closed_by lg Flag_post t (e_pendingId e)
        \<or> e_transferType e = ''VOIDED'' \<and> closed_by lg Flag_void t (e_pendingId e))"

definition backed :: "tb_log \<Rightarrow> db \<Rightarrow> bool" where
  "backed lg d \<longleftrightarrow> (\<forall>e\<in>set (evidences d). \<exists>t. backs lg e t) \<and> distinct (map e_id (evidences d))"

definition ledger_grows :: "world \<Rightarrow> world \<Rightarrow> bool" where
  "ledger_grows s t \<longleftrightarrow> (\<exists>xs. tb_log t = tb_log s @ xs) \<and> (backed (tb_log s) (db s) \<longrightarrow> backed (tb_log t) (db t))"

lemma closed_by_mono: "closed_by lg flag t p \<Longrightarrow> closed_by (lg @ xs) flag t p"
  unfolding closed_by_def by auto

lemma backs_mono: "backs lg e t \<Longrightarrow> backs (lg @ xs) e t"
  unfolding backs_def by (auto intro: closed_by_mono)

lemma backed_mono: "backed lg d \<Longrightarrow> backed (lg @ xs) d"
  unfolding backed_def by (blast intro: backs_mono)

interpretation grows: tx_guarantee ledger_grows
  by unfold_locales (auto simp: ledger_grows_def intro: backed_mono)

lemma ledger_growsI:
  "evidences (db t) = evidences (db s) \<Longrightarrow> tb_log t = tb_log s @ xs \<Longrightarrow> ledger_grows s t"
  using backed_mono[of "tb_log s" "db s" xs] by (auto simp: ledger_grows_def backed_def)

lemma wp_forEach_same:
  assumes "\<And>x v. x \<in> set xs \<Longrightarrow> I v \<Longrightarrow> wp (f x) (\<lambda>_. I) (\<lambda>_. I) v" "I w"
  shows "wp (forEach xs f) (\<lambda>_. I) (\<lambda>_. I) w"
  using assms by (intro wp_forEach[where I = I]) auto

text \<open>Persisting touches only the flows.\<close>

lemma persist_frame:
  assumes "\<And>v d. g (v\<lparr>db := d\<rparr>) = g v" "\<And>d fs. h (d\<lparr>flows := fs\<rparr>) = h d"
  shows "wp (persist e) (\<lambda>_ v. g v = g w \<and> h (db v) = h (db w)) (\<lambda>_ v. g v = g w \<and> h (db v) = h (db w)) w"
  unfolding persist_def
  by (intro wp_forEach_same) (auto simp: wp_assertWalletRef assms split: option.split)

lemma persist_grows: "steps ledger_grows (persist e)"
proof -
  have "wp (persist e) (\<lambda>_ v. tb_log v = tb_log w \<and> evidences (db v) = evidences (db w))
      (\<lambda>_ v. tb_log v = tb_log w \<and> evidences (db v) = evidences (db w)) w" for w
    by (rule persist_frame) simp_all
  then have "wp (persist e) (\<lambda>_. ledger_grows w) (\<lambda>_. ledger_grows w) w" for w
    by (rule wp_mono) (auto intro: ledger_growsI[where xs = "[]"])
  then show ?thesis
    by (simp add: steps_wp)
qed

lemma grows_persist: "ledger_grows w v \<Longrightarrow> wp (persist e) (\<lambda>_. ledger_grows w) (\<lambda>_. ledger_grows w) v"
  by (rule grows.wp_after[OF persist_grows])

lemma find_evidence_None: "find_evidence i d = None \<longleftrightarrow> (\<forall>e\<in>set (evidences d). e_id e \<noteq> i)"
  by (simp add: find_evidence_def by_id_None)

lemma backed_insert:
  assumes "backed lg d" "find_evidence (e_id e) d = None" "backs lg e t"
  shows "backed lg (d\<lparr>evidences := evidences d @ [e]\<rparr>)"
  using assms by (auto simp: backed_def find_evidence_None)

lemma writeEvidence_grows:
  assumes "\<And>c. backs (tb_log w) (row c) t"
  shows "wp (writeEvidence row) (\<lambda>_. ledger_grows w) (\<lambda>_. ledger_grows w) w"
proof -
  define e where "e = row (clock w)"
  have put: "ledger_grows w (w\<lparr>db := (db w)\<lparr>evidences := evidences (db w) @ [e]\<rparr>\<rparr>)"
    if "find_evidence (e_id e) (db w) = None"
    using backed_insert[OF _ that assms[of "clock w", folded e_def]] by (auto simp: ledger_grows_def)
  have side: "wp (andThen (writeToBacklog i) (throw err)) (\<lambda>_. ledger_grows w) (\<lambda>_. ledger_grows w) v"
    if "ledger_grows w v" for i err v
    using that by (simp add: writeToBacklog_def ledger_grows_def)
  have "wp (andThen (insert_evidence e) (persist e)) (\<lambda>_. ledger_grows w) (\<lambda>_. ledger_grows w) w"
    using grows_persist[OF put, of e] by (simp add: insert_evidence_def grows.R_refl)
  then have "wp (handle (andThen (insert_evidence e) (persist e))
      (\<lambda>err. andThen (writeToBacklog (e_id e)) (throw err))) (\<lambda>_. ledger_grows w) (\<lambda>_. ledger_grows w) w"
    unfolding wp_handle by (rule wp_mono) (auto intro: side simp del: wp_andThen)
  then show ?thesis
    by (simp add: writeEvidence_def Let_def e_def del: wp_handle)
qed

lemma record_transfer_grows:
  assumes "transferType = ''POSTED'' \<and> tr_flag t = Flag_none \<or> transferType = ''PENDING'' \<and> tr_flag t = Flag_pending"
  shows "steps ledger_grows (record_transfer transferType failure t ep)"
proof -
  have "wp (record_transfer transferType failure t ep) (\<lambda>_. ledger_grows w) (\<lambda>_. ledger_grows w) w" for w
  proof -
    define v where "v = w\<lparr>tb_log := tb_log w @ [(t, tb_reply w (tb_log w) t)]\<rparr>"
    have sent: "ledger_grows w v"
      by (auto simp: v_def intro: ledger_growsI)
    have "wp (writeEvidence (evidence_row transferType (tr_id t) (tr_debit t) (tr_credit t) (tr_amount t) ep))
        (\<lambda>_. ledger_grows w) (\<lambda>_. ledger_grows w) v" if "tb_reply w (tb_log w) t = TB_created"
    proof (rule wp_mono[OF writeEvidence_grows])
      show "backs (tb_log v) (evidence_row transferType (tr_id t) (tr_debit t) (tr_credit t) (tr_amount t) ep c) t" for c
        using assms that by (auto simp: backs_def evidence_row_def v_def)
    qed (use grows.R_trans[OF sent] in auto)
    then show ?thesis
      using sent unfolding record_transfer_def
      by (auto simp: wp_submit Let_def v_def real_error_def elim!: wp_mono)
  qed
  then show ?thesis
    by (simp add: steps_wp)
qed

lemma executeTransfer_grows: "steps ledger_grows (executeTransfer d c a l k ep)"
  unfolding executeTransfer_def deterministicTransferId_def
  by (intro grows.bind grows.gets record_transfer_grows) simp

lemma executePendingTransfer_grows: "steps ledger_grows (executePendingTransfer d c a l k tm ep n)"
  unfolding executePendingTransfer_def deterministicTransferId_def
  by (intro grows.bind grows.gets record_transfer_grows) simp

lemma backed_update:
  assumes "backed lg d"
    and "\<And>e t. backs lg e t \<Longrightarrow> e_id e = i \<Longrightarrow> backs lg (f e) t" "\<And>e. e_id (f e) = e_id e"
  shows "backed lg (d\<lparr>evidences := update_rows (\<lambda>x. e_id x = i) f (evidences d)\<rparr>)"
  using assms by (auto simp: backed_def in_update_rows map_update_rows) metis+

lemma change_evidence_grows:
  assumes "\<And>e t. backs (tb_log w) e t \<Longrightarrow> e_id e = i \<Longrightarrow> backs (tb_log w) (f e) t" "\<And>e. e_id (f e) = e_id e"
  shows "wp (change_evidence i f) (\<lambda>_. ledger_grows w) (\<lambda>_. ledger_grows w) w"
proof -
  have "ledger_grows w (w\<lparr>db := (db w)\<lparr>evidences := update_rows (\<lambda>x. e_id x = i) f (evidences (db w))\<rparr>\<rparr>)"
    using backed_update[of "tb_log w" "db w" i f] assms by (auto simp: ledger_grows_def)
  then show ?thesis
    by (auto simp: change_evidence_def grows.R_refl intro!: grows_persist split: option.split)
qed

lemma enrichForPost_grows: "steps ledger_grows (enrichForPost i x)"
proof -
  have "backs lg (enriched x e) t" if "backs lg e t" for lg e t
    using that unfolding backs_def enriched_def by simp
  then have "wp (change_evidence i (enriched x)) (\<lambda>_. ledger_grows w) (\<lambda>_. ledger_grows w) w" for w
    by (intro change_evidence_grows) (simp_all add: enriched_def)
  then have "wp (enrichForPost i x) (\<lambda>_. ledger_grows w) (\<lambda>_. ledger_grows w) w" for w
    unfolding enrichForPost_def wp_if wp_ret by (simp add: grows.R_refl)
  then show ?thesis
    by (simp add: steps_wp)
qed

lemma close_pending_grows:
  assumes "newType = ''POSTED'' \<and> flag = Flag_post \<or> newType = ''VOIDED'' \<and> flag = Flag_void"
  shows "steps ledger_grows (close_pending flag newType failure p amount)"
proof -
  have "wp (close_pending flag newType failure p amount) (\<lambda>_. ledger_grows w) (\<lambda>_. ledger_grows w) w" for w
  proof -
    define i where "i = tbid_src w (tbid_pos w)"
    define u where "u = w\<lparr>tbid_pos := Suc (tbid_pos w)\<rparr>"
    define c where "c = closing flag i p amount"
    define v where "v = u\<lparr>tb_log := tb_log w @ [(c, tb_reply w (tb_log w) c)]\<rparr>"
    have sent: "ledger_grows w v"
      by (auto simp: v_def u_def intro: ledger_growsI)
    have "wp (updateTransferType (bigintToHex p) newType (Some (bigintToHex i)))
        (\<lambda>_. ledger_grows w) (\<lambda>_. ledger_grows w) v" if "\<not> real_error (tb_reply w (tb_log w) c)"
      unfolding updateTransferType_def
    proof (rule wp_mono[OF change_evidence_grows])
      fix e t
      assume "backs (tb_log v) e t" "e_id e = bigintToHex p"
      moreover have "closed_by (tb_log v) flag t (Some (bigintToHex i))" if "tr_id t = p"
        using that \<open>\<not> real_error _\<close> by (auto simp: closed_by_def v_def c_def closing_def)
      moreover have "or_else (Some (bigintToHex i)) x = Some (bigintToHex i)" for x
        using to_str_nonempty by (simp add: or_else_def bigintToHex_def)
      ultimately show "backs (tb_log v) (e\<lparr>e_transferType := newType,
          e_pendingId := or_else (Some (bigintToHex i)) (e_pendingId e)\<rparr>) t"
        using assms by (auto simp: backs_def)
    qed (use grows.R_trans[OF sent] in auto)
    then show ?thesis
      using sent unfolding close_pending_def
      by (auto simp: wp_submit Let_def v_def u_def i_def c_def)
  qed
  then show ?thesis
    by (simp add: steps_wp)
qed

lemma post_void_grows:
  "steps ledger_grows (postPendingTransfer p a)" "steps ledger_grows (voidPendingTransfer p a)"
  unfolding postPendingTransfer_def voidPendingTransfer_def by (rule close_pending_grows, simp)+

lemma bestEffort_grows: "steps ledger_grows (voidPendingTransferBestEffort p a)"
proof -
  have "wp (voidPendingTransferBestEffort p a) (\<lambda>_. ledger_grows w) (\<lambda>_. ledger_grows w) w" for w
    by (auto simp: voidPendingTransferBestEffort_def wp_submit Let_def intro: ledger_growsI)
  then show ?thesis
    by (simp add: steps_wp)
qed

end
