(* ===== verification/TableLife.thy ===== *)
theory TableLife
  imports FundsFlowFacts
begin

text \<open>
  The life of the rows of a table, for the aggregates whose operations share one contract: the primary
  keys stay distinct, every row stays well-formed, no row disappears, and a row only changes along a
  preorder (its identity kept, its status moved along its transition table).  The contract is a guarantee
  that survives rollbacks, so it composes over every operation of the services.
\<close>

definition table_inv :: "('r \<Rightarrow> string) \<Rightarrow> ('r \<Rightarrow> bool) \<Rightarrow> 'r list \<Rightarrow> bool" where
  "table_inv key ok rs \<longleftrightarrow> distinct (map key rs) \<and> (\<forall>r\<in>set rs. ok r)"

definition table_moves :: "('r \<Rightarrow> string) \<Rightarrow> ('r \<Rightarrow> 'r \<Rightarrow> bool) \<Rightarrow> 'r list \<Rightarrow> 'r list \<Rightarrow> bool" where
  "table_moves key rel rs rs' \<longleftrightarrow> (\<forall>r\<in>set rs. \<exists>r'\<in>set rs'. key r' = key r \<and> rel r r')"

definition table_step ::
    "(db \<Rightarrow> 'r list) \<Rightarrow> ('r \<Rightarrow> string) \<Rightarrow> ('r \<Rightarrow> bool) \<Rightarrow> ('r \<Rightarrow> 'r \<Rightarrow> bool) \<Rightarrow> world \<Rightarrow> world \<Rightarrow> bool" where
  "table_step rows key ok rel s t \<longleftrightarrow>
     (table_inv key ok (rows (db s)) \<longrightarrow>
        table_inv key ok (rows (db t)) \<and> table_moves key rel (rows (db s)) (rows (db t)))"

lemma by_id_in: "distinct (map key rs) \<Longrightarrow> r \<in> set rs \<Longrightarrow> by_id key (key r) rs = Some r"
  by (induction rs) (auto simp: by_id_def rev_image_eqI)

lemma by_id_update:
  "distinct (map key rs) \<Longrightarrow> by_id key i rs = Some r \<Longrightarrow> x \<in> set rs \<Longrightarrow> key x = i \<Longrightarrow> x = r"
  using by_id_in[of key rs x] by simp

lemma by_id_append:
  "by_id key i (xs @ ys) = (case by_id key i xs of None \<Rightarrow> by_id key i ys | Some r \<Rightarrow> Some r)"
  unfolding by_id_def by (induction xs) auto

lemma by_id_updated:
  "(\<And>r. key r = i \<Longrightarrow> key (f r) = i) \<Longrightarrow>
     by_id key j (update_rows (\<lambda>x. key x = i) f rs) =
       (if j = i then map_option f (by_id key i rs) else by_id key j rs)"
  unfolding by_id_def by (induction rs) auto

locale table_life =
  fixes rows :: "db \<Rightarrow> 'r list" and key :: "'r \<Rightarrow> string" and ok :: "'r \<Rightarrow> bool"
    and rel :: "'r \<Rightarrow> 'r \<Rightarrow> bool"
  assumes rel_refl: "rel r r"
    and rel_trans: "rel r s \<Longrightarrow> rel s t \<Longrightarrow> rel r t"
begin

lemma moves_refl: "table_moves key rel rs rs"
  using rel_refl by (auto simp: table_moves_def)

lemma moves_trans: "table_moves key rel rs ss \<Longrightarrow> table_moves key rel ss ts \<Longrightarrow> table_moves key rel rs ts"
  unfolding table_moves_def by (metis rel_trans)

lemma step_refl: "table_step rows key ok rel s s"
  by (simp add: table_step_def moves_refl)

lemma step_trans:
  "table_step rows key ok rel s t \<Longrightarrow> table_step rows key ok rel t u \<Longrightarrow> table_step rows key ok rel s u"
  using moves_trans by (auto simp: table_step_def)

lemma step_rollback: "table_step rows key ok rel s t \<Longrightarrow> table_step rows key ok rel s (t\<lparr>db := db s\<rparr>)"
  by (simp add: table_step_def moves_refl)

lemma step_same: "rows (db t) = rows (db s) \<Longrightarrow> table_step rows key ok rel s t"
  by (simp add: table_step_def moves_refl)

lemma steps_same: "steps (same (\<lambda>w. rows (db w))) m \<Longrightarrow> steps (table_step rows key ok rel) m"
  by (auto simp: steps_def same_def intro: step_same)

lemma step_update:
  assumes "rows (db t) = update_rows (\<lambda>x. key x = i) f (rows (db s))"
    and "by_id key i (rows (db s)) = Some r"
    and "ok r \<Longrightarrow> ok (f r) \<and> key (f r) = i \<and> rel r (f r)"
  shows "table_step rows key ok rel s t"
proof (cases "table_inv key ok (rows (db s))")
  case True
  have r: "key r = i" "r \<in> set (rows (db s))"
    using by_id_SomeD[OF assms(2)] by simp_all
  have f: "ok (f r)" "key (f r) = i" "rel r (f r)"
    using assms(3) True r by (simp_all add: table_inv_def)
  have only: "x = r" if "x \<in> set (rows (db s))" "key x = i" for x
    using by_id_update[OF _ assms(2)] True that by (simp add: table_inv_def)
  have "map key (rows (db t)) = map key (rows (db s))"
    unfolding assms(1) update_rows_def using only f(2) by auto
  moreover have "\<forall>x\<in>set (rows (db t)). ok x"
    unfolding assms(1) using True only f(1) by (fastforce simp: in_update_rows table_inv_def)
  moreover have "\<exists>y\<in>set (rows (db t)). key y = key x \<and> rel x y" if x: "x \<in> set (rows (db s))" for x
  proof (cases "key x = i")
    case True
    then show ?thesis
      using only[OF x] f x unfolding assms(1) update_rows_def by force
  next
    case False
    then show ?thesis
      using rel_refl x unfolding assms(1) update_rows_def by force
  qed
  ultimately show ?thesis
    using True by (simp add: table_step_def table_inv_def table_moves_def)
qed (simp add: table_step_def)

lemma step_insert:
  assumes "rows (db t) = rows (db s) @ [r]" "\<not> (\<exists>x\<in>set (rows (db s)). key x = key r)" "ok r"
  shows "table_step rows key ok rel s t"
  using assms rel_refl unfolding table_step_def table_inv_def table_moves_def by auto

end

sublocale table_life \<subseteq> life: tx_guarantee "table_step rows key ok rel"
  by unfold_locales (fact step_refl, fact step_trans, fact step_rollback)

end
