(* ===== verification/FlowFacts.thy ===== *)
theory FlowFacts
  imports AccountingFacts TableLife
begin

text \<open>
  The account flows under the operations of the ledger: R2 (a flow's wallet exists and belongs to the owner
  of its ledger account) and the uniqueness of the flow keys hold after every operation, successful or
  not; and operations that succeed keep the flows equal to the projection of the evidence.
\<close>

section \<open>R2\<close>

definition r2_ok :: "db \<Rightarrow> account_flow \<Rightarrow> bool" where
  "r2_ok d f \<longleftrightarrow> truthy (fl_walletRef f) \<longrightarrow>
     (case by_id w_id (the (fl_walletRef f)) (wallets d) of None \<Rightarrow> False
      | Some x \<Rightarrow> (case find_tb_account (fl_accountId f) d of None \<Rightarrow> True | Some r \<Rightarrow> owners_agree x r))"

definition flows_inv :: "db \<Rightarrow> bool" where
  "flows_inv d \<longleftrightarrow> (\<forall>f\<in>set (flows d). r2_ok d f) \<and> distinct (map flow_key (flows d))"

definition r2_step :: "world \<Rightarrow> world \<Rightarrow> bool" where
  "r2_step s t \<longleftrightarrow> (flows_inv (db s) \<longrightarrow> flows_inv (db t))"

interpretation r2: tx_guarantee r2_step
  by unfold_locales (auto simp: r2_step_def)

lemma r2_ok_cong: "wallets d' = wallets d \<Longrightarrow> registry d' = registry d \<Longrightarrow> r2_ok d' = r2_ok d"
  by (simp add: r2_ok_def find_tb_account_def fun_eq_iff split: option.split)

lemma flows_inv_cong:
  "wallets d' = wallets d \<Longrightarrow> registry d' = registry d \<Longrightarrow> flows d' = flows d \<Longrightarrow> flows_inv d' = flows_inv d"
  unfolding flows_inv_def using r2_ok_cong[of d' d] by simp

lemma r2_stepI:
  "wallets (db t) = wallets (db s) \<Longrightarrow> registry (db t) = registry (db s) \<Longrightarrow> flows (db t) = flows (db s)
     \<Longrightarrow> r2_step s t"
  unfolding r2_step_def using flows_inv_cong[of "db t" "db s"] by simp

lemma map_update_rows_on: "(\<And>r. p r \<Longrightarrow> g (f r) = g r) \<Longrightarrow> map g (update_rows p f rs) = map g rs"
  by (induction rs) auto

lemma r2_ok_created [simp]: "r2_ok d (f\<lparr>fl_createdAt := c\<rparr>) = r2_ok d f"
  by (simp add: r2_ok_def split: option.split)

lemma flow_key_created [simp]: "flow_key (f\<lparr>fl_createdAt := c\<rparr>) = flow_key f"
  by (simp add: flow_key_def)

definition upserted :: "account_flow \<Rightarrow> account_flow list \<Rightarrow> account_flow list" where
  "upserted r fs = (if \<exists>x\<in>set fs. flow_key x = flow_key r
     then update_rows (\<lambda>x. flow_key x = flow_key r) (\<lambda>x. r\<lparr>fl_createdAt := fl_createdAt x\<rparr>) fs else fs @ [r])"

lemma upserted_keys:
  assumes "distinct (map flow_key fs)"
  shows "distinct (map flow_key (upserted r fs))"
proof -
  have "map flow_key (update_rows (\<lambda>x. flow_key x = flow_key r) (\<lambda>x. r\<lparr>fl_createdAt := fl_createdAt x\<rparr>) fs)
      = map flow_key fs"
    by (rule map_update_rows_on) simp
  then show ?thesis
    using assms by (auto simp: upserted_def)
qed

lemma upserted_mem:
  assumes "f \<in> set (upserted r fs)"
  obtains "f \<in> set fs" | c where "f = r\<lparr>fl_createdAt := c\<rparr>"
proof -
  have "f \<in> set fs \<or> f = r \<or> (\<exists>c. f = r\<lparr>fl_createdAt := c\<rparr>)"
    using assms by (auto simp: upserted_def in_update_rows split: if_splits)
  moreover have "r = r\<lparr>fl_createdAt := fl_createdAt r\<rparr>"
    by simp
  ultimately show thesis
    using that by blast
qed

lemma upsert_r2:
  assumes "r2_ok (db w) r"
  shows "r2_step w (w\<lparr>db := (db w)\<lparr>flows := upserted r (flows (db w))\<rparr>\<rparr>)"
proof -
  let ?d = "(db w)\<lparr>flows := upserted r (flows (db w))\<rparr>"
  have same: "r2_ok ?d = r2_ok (db w)"
    by (rule r2_ok_cong) simp_all
  have "r2_ok (db w) f" if "flows_inv (db w)" "f \<in> set (upserted r (flows (db w)))" for f
    using that(2) by (rule upserted_mem) (use that(1) assms in \<open>auto simp: flows_inv_def\<close>)
  then show ?thesis
    using upserted_keys by (auto simp: r2_step_def flows_inv_def same)
qed

lemma persist_r2: "steps r2_step (persist e)"
proof -
  have "steps r2_step (andThen (assertWalletRefMatchesTbAccount (fl_walletRef row) (fl_accountId row)) (upsert_flow row))"
    for row
  proof -
    have "wp (andThen (assertWalletRefMatchesTbAccount (fl_walletRef row) (fl_accountId row)) (upsert_flow row))
        (\<lambda>_. r2_step w) (\<lambda>_. r2_step w) w" for w
      using upsert_r2[of w row, unfolded r2_ok_def upserted_def]
      by (auto simp: wp_assertWalletRef r2.R_refl split: option.splits)
    then show ?thesis
      by (simp add: steps_wp)
  qed
  then show ?thesis
    unfolding persist_def by (rule r2.forEach)
qed

lemma r2_basic:
  "steps r2_step (submit t)" "steps r2_step tbId" "steps r2_step (getsDb f)" "steps r2_step now"
  "steps r2_step (insert_evidence e)" "steps r2_step (writeToBacklog i)"
  "steps r2_step (deterministicTransferId a b c n)"
  by (auto simp: steps_wp wp_submit Let_def r2.R_refl insert_evidence_def writeToBacklog_def intro: r2_stepI)

lemmas r2_rules = r2.combinators r2_basic persist_r2

lemma writeEvidence_r2: "steps r2_step (writeEvidence row)"
  unfolding writeEvidence_def Let_def by (intro r2_rules)

lemma record_transfer_r2: "steps r2_step (record_transfer ty failure t ep)"
  unfolding record_transfer_def by (intro r2_rules writeEvidence_r2)

lemma change_evidence_r2: "steps r2_step (change_evidence i f)"
proof -
  have "steps r2_step (onDb (\<lambda>d. d\<lparr>evidences := g (evidences d)\<rparr>))" for g
    by (auto simp: steps_wp intro: r2_stepI)
  then show ?thesis
    unfolding change_evidence_def by (intro r2_rules) 
qed

lemma ledger_ops_r2:
  "steps r2_step (executeTransfer d c a l k ep)"
  "steps r2_step (executePendingTransfer d c a l k tm ep n)"
  "steps r2_step (postPendingTransfer p a)" "steps r2_step (voidPendingTransfer p a)"
  "steps r2_step (voidPendingTransferBestEffort p a)" "steps r2_step (enrichForPost i x)"
  unfolding executeTransfer_def executePendingTransfer_def postPendingTransfer_def
    voidPendingTransfer_def close_pending_def voidPendingTransferBestEffort_def enrichForPost_def
    updateTransferType_def
  by (intro r2_rules record_transfer_r2 change_evidence_r2)+

section \<open>Opening accounts\<close>

text \<open>The owners of wallets stay; the accounts that are opened are not yet named by any flow (the ids of
  the client library are unique).\<close>

definition owners_kept :: "wallet list \<Rightarrow> wallet list \<Rightarrow> bool" where
  "owners_kept ws ws' \<longleftrightarrow> (\<forall>i x. by_id w_id i ws = Some x \<longrightarrow>
     (\<exists>y. by_id w_id i ws' = Some y \<and> w_ownerType y = w_ownerType x \<and> w_ownerNo y = w_ownerNo x))"

definition unnamed_ids :: "world \<Rightarrow> nat \<Rightarrow> bool" where
  "unnamed_ids w n \<longleftrightarrow> (\<forall>k<n. bigintToHex (tbid_src w (tbid_pos w + k)) \<notin> fl_accountId ` set (flows (db w)))"

lemma owners_kept_refl [simp]: "owners_kept ws ws"
  by (simp add: owners_kept_def)

lemma flows_inv_grow:
  assumes "flows_inv d" "flows d' = flows d" "owners_kept (wallets d) (wallets d')"
    and "registry d' = registry d @ rs" "\<forall>r\<in>set rs. r_id r \<notin> fl_accountId ` set (flows d)"
  shows "flows_inv d'"
proof -
  have "r2_ok d' f" if f: "f \<in> set (flows d)" "r2_ok d f" for f
  proof -
    have "by_id r_id (fl_accountId f) rs = None"
      using assms(5) f(1) by (auto simp: by_id_None)
    then have "find_tb_account (fl_accountId f) d' = find_tb_account (fl_accountId f) d"
      by (simp add: find_tb_account_def assms(4) by_id_append split: option.split)
    then show ?thesis
      using f(2) assms(3) unfolding r2_ok_def owners_kept_def
      by (fastforce simp: owners_agree_def split: option.splits)
  qed
  then show ?thesis
    using assms(1,2) by (simp add: flows_inv_def)
qed

text \<open>What opening accounts changes: rows are added to the registry, under ids drawn by the call.\<close>

definition books_view :: "world \<Rightarrow> tb_evidence list \<times> account_flow list \<times> wallet list \<times> tb_log" where
  "books_view w = (evidences (db w), flows (db w), wallets (db w), tb_log w)"

definition opened :: "string set \<Rightarrow> world \<Rightarrow> world \<Rightarrow> bool" where
  "opened ids s t \<longleftrightarrow> books_view t = books_view s
     \<and> (\<exists>rs. registry (db t) = registry (db s) @ rs \<and> r_id ` set rs \<subseteq> ids)"

lemma opened_same: "books_view t = books_view s \<Longrightarrow> registry (db t) = registry (db s) \<Longrightarrow> opened ids s t"
  unfolding opened_def by (auto intro: exI[of _ "[]"])

interpretation accts: guarantee "opened ids" for ids
proof unfold_locales
  show "opened ids s u" if "opened ids s t" "opened ids t u" for s t u
    using that unfolding opened_def by (elim conjE exE) (simp, blast)
qed (simp add: opened_same)

lemma accts_basic:
  "steps (opened ids) (submit_accounts reqs)" "steps (opened ids) (getsDb f)"
  by (auto simp: steps_def submit_accounts_def Let_def getsDb_def gets_def books_view_def intro: opened_same)

lemma register_opened:
  assumes "r_id r \<in> ids"
  shows "steps (opened ids) (register r)"
proof -
  have "steps (opened ids) (onDb (\<lambda>d. d\<lparr>registry := registry d @ [r]\<rparr>))"
    using assms by (auto simp: steps_wp opened_def books_view_def)
  then show ?thesis
    unfolding register_def by (intro accts.combinators accts_basic)
qed

lemma wp_drawIds: "wp (drawIds ps)
    (\<lambda>as v. map fst as = map (\<lambda>k. tbid_src w (tbid_pos w + k)) [0..<length ps] \<and> books_view v = books_view w
       \<and> registry (db v) = registry (db w))
    (\<lambda>_ _. False) w"
proof (induction ps arbitrary: w)
  case (Cons p ps)
  let ?w = "w\<lparr>tbid_pos := Suc (tbid_pos w)\<rparr>"
  have ids: "map (\<lambda>k. tbid_src w (tbid_pos w + k)) [0..<length (p # ps)]
      = tbid_src w (tbid_pos w) # map (\<lambda>k. tbid_src ?w (tbid_pos ?w + k)) [0..<length ps]"
    by (simp add: upt_conv_Cons map_Suc_upt[symmetric] del: upt_Suc)
  show ?case
    unfolding ids by (simp, rule wp_mono[OF Cons.IH[of ?w]]) (simp_all add: books_view_def)
qed simp

lemma createAccounts_run:
  assumes "createAccounts ps w = (r, w')"
  shows "opened ((\<lambda>k. bigintToHex (tbid_src w (tbid_pos w + k))) ` {..<length ps}) w w'"
proof -
  let ?ids = "(\<lambda>k. bigintToHex (tbid_src w (tbid_pos w + k))) ` {..<length ps}"
  have "wp (createAccounts ps) (\<lambda>_. opened ?ids w) (\<lambda>_. opened ?ids w) w"
    unfolding createAccounts_def wp_bind[of "drawIds ps"]
  proof (rule wp_mono[OF wp_drawIds])
    fix as :: "(int \<times> CreateTbAccountParams) list" and v
    assume as: "map fst as = map (\<lambda>k. tbid_src w (tbid_pos w + k)) [0..<length ps] \<and> books_view v = books_view w
      \<and> registry (db v) = registry (db w)"
    have "fst ` set as = (\<lambda>k. tbid_src w (tbid_pos w + k)) ` {..<length ps}"
      using arg_cong[OF conjunct1[OF as], of set] by (simp add: atLeast0LessThan)
    then have "r_id (registry_row (fst a) (snd a)) \<in> ?ids" if "a \<in> set as" for a
      using imageI[OF that, of fst] by (auto simp: registry_row_def)
    then have "steps (opened ?ids) (forEach as (\<lambda>(i, p). register (registry_row i p)))"
      by (intro accts.forEach) (auto simp: split_beta intro: register_opened)
    then have all: "steps (opened ?ids) (bind (submit_accounts reqs)
        (\<lambda>errors. andThen (guard (p errors) err) (forEach as (\<lambda>(i, p). register (registry_row i p)))))" for reqs p err
      by (intro accts.bind accts_basic(1) accts.andThen accts.guard)
    show "wp (bind (submit_accounts (map (\<lambda>(i, p). account_request i p) as)) (\<lambda>errors.
        andThen (guard (\<not> list_ex real_error errors) (BadRequestException ''TB_ACCOUNT_CREATE_FAILED''))
          (forEach as (\<lambda>(i, p). register (registry_row i p))))) (\<lambda>_. opened ?ids w) (\<lambda>_. opened ?ids w) v"
      by (rule accts.wp_after[OF all opened_same]) (use as in auto)
  qed simp
  then show ?thesis
    using assms by (cases r) (auto simp: wp_def)
qed

section \<open>Runs of the ledger\<close>

text \<open>Any sequence of the ledger's operations, each outcome included, the opening of accounts under ids no
  flow names yet, rollbacks of the database to an earlier point, and changes to the tables the ledger does
  not keep (wallets may be added and change, but not their owners).\<close>

inductive ledger_run :: "world \<Rightarrow> world \<Rightarrow> bool" where
  idle: "ledger_run w w"
| seq: "ledger_run u v \<Longrightarrow> ledger_run v w \<Longrightarrow> ledger_run u w"
| rollback: "ledger_run u v \<Longrightarrow> ledger_run u (v\<lparr>db := db u\<rparr>)"
| open_accounts: "createAccounts ps w = (r', w') \<Longrightarrow> unnamed_ids w (length ps) \<Longrightarrow> ledger_run w w'"
| transfer: "executeTransfer d c a l k ep w = (r, w') \<Longrightarrow> ledger_run w w'"
| pending: "executePendingTransfer d c a l k tm ep n w = (r, w') \<Longrightarrow> ledger_run w w'"
| post: "postPendingTransfer p a w = (r', w') \<Longrightarrow> ledger_run w w'"
| void: "voidPendingTransfer p a w = (r', w') \<Longrightarrow> ledger_run w w'"
| best_effort: "voidPendingTransferBestEffort p a w = (r'', w') \<Longrightarrow> ledger_run w w'"
| enrich: "enrichForPost i x w = (r', w') \<Longrightarrow> ledger_run w w'"
| elsewhere: "evidences (db w') = evidences (db w) \<Longrightarrow> flows (db w') = flows (db w) \<Longrightarrow>
     owners_kept (wallets (db w)) (wallets (db w')) \<Longrightarrow> registry (db w') = registry (db w) \<Longrightarrow>
     tb_log w' = tb_log w \<Longrightarrow> ledger_run w w'"

lemma ledger_run_grows: "ledger_run w w' \<Longrightarrow> ledger_grows w w'"
proof (induction rule: ledger_run.induct)
  case (elsewhere w' w)
  then show ?case
    by (auto intro: ledger_growsI[where xs = "[]"])
next
  case (open_accounts ps w r' w')
  then show ?case
    using createAccounts_run[of ps w r' w'] by (auto simp: opened_def books_view_def intro: ledger_growsI[where xs = "[]"])
qed (auto intro: grows.R_refl grows.R_rollback
    stepsD[OF executeTransfer_grows] stepsD[OF executePendingTransfer_grows] stepsD[OF post_void_grows(1)]
    stepsD[OF post_void_grows(2)] stepsD[OF bestEffort_grows] stepsD[OF enrichForPost_grows]
    dest: grows.R_trans)

lemma ledger_run_r2: "ledger_run w w' \<Longrightarrow> r2_step w w'"
proof (induction rule: ledger_run.induct)
  case (elsewhere w' w)
  then show ?case
    using flows_inv_grow[of "db w" "db w'" "[]"] by (simp add: r2_step_def)
next
  case (open_accounts ps w r' w')
  then obtain rs where rs: "registry (db w') = registry (db w) @ rs" "books_view w' = books_view w"
    "r_id ` set rs \<subseteq> (\<lambda>k. bigintToHex (tbid_src w (tbid_pos w + k))) ` {..<length ps}"
    using createAccounts_run unfolding opened_def by blast
  have "r_id r \<notin> fl_accountId ` set (flows (db w))" if "r \<in> set rs" for r
  proof -
    have "r_id r \<in> (\<lambda>k. bigintToHex (tbid_src w (tbid_pos w + k))) ` {..<length ps}"
      using rs(3) that by (rule subsetD[OF _ imageI])
    then obtain k where "k < length ps" "r_id r = bigintToHex (tbid_src w (tbid_pos w + k))"
      by (elim imageE) simp
    then show ?thesis
      using open_accounts.hyps(2)[unfolded unnamed_ids_def, rule_format, of k] by simp
  qed
  then have "flows_inv (db w) \<longrightarrow> flows_inv (db w')"
    using rs(2) flows_inv_grow[of "db w" "db w'" rs, OF _ _ _ rs(1)] by (simp add: books_view_def)
  then show ?case
    unfolding r2_step_def .
qed (rule r2.R_refl r2.R_rollback ledger_ops_r2[THEN stepsD] r2.R_trans; assumption)+

section \<open>The flows mirror the evidence\<close>

text \<open>The flow table as a map from its keys, up to the creation time, which a re-projection keeps; and
  what projecting all evidence rows from scratch gives, a later row replacing an earlier one with its key.\<close>

definition undated :: "account_flow \<Rightarrow> account_flow" where
  "undated f = f\<lparr>fl_createdAt := 0\<rparr>"

definition flow_table :: "account_flow list \<Rightarrow> string \<times> string \<Rightarrow> account_flow option" where
  "flow_table fs k = map_option undated (find (\<lambda>f. flow_key f = k) fs)"

definition put_flow :: "(string \<times> string \<Rightarrow> account_flow option) \<Rightarrow> account_flow \<Rightarrow> string \<times> string \<Rightarrow> account_flow option"
    where "put_flow m r = m(flow_key r \<mapsto> undated r)"

definition projection :: "tb_evidence list \<Rightarrow> string \<times> string \<Rightarrow> account_flow option" where
  "projection es = foldl put_flow Map.empty (concat (map projectEvidence es))"

definition mirrored :: "db \<Rightarrow> bool" where
  "mirrored d \<longleftrightarrow> distinct (map flow_key (flows d)) \<and> flow_table (flows d) = projection (evidences d)"

subsection \<open>The table after an upsert\<close>

lemma undated_created [simp]: "undated (f\<lparr>fl_createdAt := c\<rparr>) = undated f"
  by (simp add: undated_def)

lemma find_flow_update:
  assumes "\<And>x. flow_key x = k \<Longrightarrow> flow_key (g x) = k"
  shows "find (\<lambda>f. flow_key f = j) (update_rows (\<lambda>x. flow_key x = k) g fs) =
    (if j = k then map_option g (find (\<lambda>f. flow_key f = k) fs) else find (\<lambda>f. flow_key f = j) fs)"
  using assms by (induction fs) auto

lemma find_flow_snoc:
  "find P (fs @ [r]) = (case find P fs of None \<Rightarrow> (if P r then Some r else None) | Some f \<Rightarrow> Some f)"
  by (induction fs) auto

lemma flow_table_upserted: "flow_table (upserted r fs) = put_flow (flow_table fs) r"
proof (cases "\<exists>x\<in>set fs. flow_key x = flow_key r")
  case True
  then obtain x where "find (\<lambda>f. flow_key f = flow_key r) fs = Some x"
    using find_None_iff[of "\<lambda>f. flow_key f = flow_key r" fs] by fastforce
  then show ?thesis
    using True by (auto simp: flow_table_def upserted_def put_flow_def find_flow_update fun_eq_iff)
next
  case False
  then have "find (\<lambda>f. flow_key f = flow_key r) fs = None"
    by (auto simp: find_None_iff)
  then show ?thesis
    using False by (auto simp: flow_table_def upserted_def put_flow_def find_flow_snoc fun_eq_iff split: option.split)
qed

lemma wp_guarded_upsert:
  assumes "Q () (w\<lparr>db := (db w)\<lparr>flows := upserted r (flows (db w))\<rparr>\<rparr>)"
  shows "wp (andThen (assertWalletRefMatchesTbAccount (fl_walletRef r) (fl_accountId r)) (upsert_flow r))
      Q (\<lambda>_ _. True) w"
  using assms by (auto simp: wp_assertWalletRef upserted_def split: option.split)

lemma wp_persist_rows:
  assumes "distinct (map flow_key (flows (db w)))"
  shows "wp (forEach rows (\<lambda>row. andThen (assertWalletRefMatchesTbAccount (fl_walletRef row) (fl_accountId row))
      (upsert_flow row)))
    (\<lambda>_ v. evidences (db v) = evidences (db w) \<and> distinct (map flow_key (flows (db v)))
       \<and> flow_table (flows (db v)) = foldl put_flow (flow_table (flows (db w))) rows)
    (\<lambda>_ _. True) w"
  using assms
proof (induction rows arbitrary: w)
  case (Cons r rs)
  let ?v = "w\<lparr>db := (db w)\<lparr>flows := upserted r (flows (db w))\<rparr>\<rparr>"
  have rest: "wp (forEach rs (\<lambda>row. andThen (assertWalletRefMatchesTbAccount (fl_walletRef row) (fl_accountId row))
      (upsert_flow row)))
    (\<lambda>_ v. evidences (db v) = evidences (db w) \<and> distinct (map flow_key (flows (db v)))
       \<and> flow_table (flows (db v)) = foldl put_flow (flow_table (flows (db w))) (r # rs)) (\<lambda>_ _. True) ?v"
    using Cons.IH[of ?v] upserted_keys[OF Cons.prems] by (simp add: flow_table_upserted)
  show ?case
    unfolding forEach.simps wp_andThen[of "andThen _ _"] by (rule wp_guarded_upsert) (rule rest)
qed simp

subsection \<open>The projection of changed evidence\<close>

lemma put_flows: "foldl put_flow m rows = m ++ foldl put_flow Map.empty rows"
proof (induction rows rule: rev_induct)
  case (snoc r rows)
  then show ?case
    by (simp add: put_flow_def map_add_upd del: fun_upd_apply)
qed simp

text \<open>The rows of one evidence row: their keys carry its id and depend on its accounts only.\<close>

definition projected_rows :: "tb_evidence \<Rightarrow> string \<times> string \<Rightarrow> account_flow option" where
  "projected_rows e = foldl put_flow Map.empty (projectEvidence e)"

lemma dom_put_flows: "dom (foldl put_flow m rows) = dom m \<union> set (map flow_key rows)"
  by (induction rows arbitrary: m) (auto simp: put_flow_def)

lemma side_keys: "set (map flow_key (evidence_side e dir acc ref)) = {(e_id e, i) |i. i \<noteq> [] \<and> acc = Some i}"
  by (cases acc) (auto simp: flow_key_def)

lemma dom_projected_rows:
  "dom (projected_rows e) = {(e_id e, i) |i. i \<noteq> [] \<and> e_debitAccount e = Some i} \<union> {(e_id e, i) |i. i \<noteq> [] \<and> e_creditAccount e = Some i}"
  unfolding projected_rows_def dom_put_flows projectEvidence_def map_append set_append side_keys by simp

lemma projection_append: "projection (es @ [e]) = projection es ++ projected_rows e"
proof -
  have "projection (es @ [e]) = foldl put_flow (projection es) (projectEvidence e)"
    by (simp add: projection_def)
  then show ?thesis
    unfolding projected_rows_def put_flows[of "projection es"] .
qed

lemma projection_lookup:
  assumes "distinct (map e_id es)"
  shows "projection es (i, a) = (case by_id e_id i es of None \<Rightarrow> None | Some e \<Rightarrow> projected_rows e (i, a))"
  using assms
proof (induction es rule: rev_induct)
  case (snoc e es)
  have IH: "projection es (i, a) = (case by_id e_id i es of None \<Rightarrow> None | Some x \<Rightarrow> projected_rows x (i, a))"
    using snoc by simp
  show ?case
  proof (cases "e_id e = i")
    case True
    then have "by_id e_id i es = None"
      using snoc.prems by (auto simp: by_id_None rev_image_eqI)
    moreover then have "by_id e_id i (es @ [e]) = Some e"
      using True by (simp add: by_id_append) (simp add: by_id_def)
    ultimately show ?thesis
      using IH by (simp add: projection_append map_add_def split: option.split)
  next
    case False
    then have "(i, a) \<notin> dom (projected_rows e)"
      by (simp add: dom_projected_rows)
    moreover have "by_id e_id i (es @ [e]) = by_id e_id i es"
      using False by (simp add: by_id_append split: option.split) (simp add: by_id_def)
    ultimately show ?thesis
      using IH by (simp add: projection_append map_add_dom_app_simps)
  qed
qed (simp add: projection_def by_id_def)

text \<open>Changing a row without touching its id or its accounts re-projects exactly its keys.\<close>

lemma projection_update:
  assumes ids: "distinct (map e_id es)" and e: "by_id e_id i es = Some e"
    and f: "\<And>x. e_id (f x) = e_id x" "\<And>x. e_debitAccount (f x) = e_debitAccount x" "\<And>x. e_creditAccount (f x) = e_creditAccount x"
  shows "projection (update_rows (\<lambda>x. e_id x = i) f es) = projection es ++ projected_rows (f e)"
proof (rule ext, clarify)
  fix j a
  have e_id: "e_id e = i"
    using by_id_SomeD[OF e] by simp
  have doms: "dom (projected_rows (f e)) = dom (projected_rows e)"
    by (simp add: dom_projected_rows f)
  have upd: "projection (update_rows (\<lambda>x. e_id x = i) f es) (j, a) =
      (case (if j = i then Some (f e) else by_id e_id j es) of None \<Rightarrow> None | Some x \<Rightarrow> projected_rows x (j, a))"
    using ids e by (subst projection_lookup) (auto simp: map_update_rows f by_id_updated)
  show "projection (update_rows (\<lambda>x. e_id x = i) f es) (j, a) = (projection es ++ projected_rows (f e)) (j, a)"
  proof (cases "j = i")
    case True
    have "projected_rows e (i, a) = None" if "projected_rows (f e) (i, a) = None"
      using doms that by (metis domIff)
    then show ?thesis
      using True projection_lookup[OF ids, of i a] e upd by (auto simp: map_add_def split: option.split)
  next
    case False
    then have "projected_rows (f e) (j, a) = None"
      using dom_projected_rows[of "f e"] e_id f(1) by fastforce
    then show ?thesis
      using False projection_lookup[OF ids, of j a] upd by (simp add: map_add_def)
  qed
qed

subsection \<open>The operations\<close>

definition mirror_inv :: "world \<Rightarrow> bool" where
  "mirror_inv w \<longleftrightarrow> mirrored (db w) \<and> distinct (map e_id (evidences (db w)))"

text \<open>Putting a row into the evidence and persisting it.\<close>

lemma wp_put_persist:
  assumes inv: "mirror_inv w" and ids: "distinct (map e_id es)"
    and es: "projection es = projection (evidences (db w)) ++ projected_rows e"
  shows "wp (persist e) (\<lambda>_. mirror_inv) (\<lambda>_ _. True) (w\<lparr>db := (db w)\<lparr>evidences := es\<rparr>\<rparr>)"
  unfolding persist_def
proof (rule wp_mono[OF wp_persist_rows])
  show "distinct (map flow_key (flows (db (w\<lparr>db := (db w)\<lparr>evidences := es\<rparr>\<rparr>))))"
    using inv by (simp add: mirror_inv_def mirrored_def)
next
  fix a :: unit and v :: world
  assume v: "evidences (db v) = evidences (db (w\<lparr>db := (db w)\<lparr>evidences := es\<rparr>\<rparr>)) \<and> distinct (map flow_key (flows (db v)))
     \<and> flow_table (flows (db v))
       = foldl put_flow (flow_table (flows (db (w\<lparr>db := (db w)\<lparr>evidences := es\<rparr>\<rparr>)))) (projectEvidence e)"
  then show "mirror_inv v"
    using inv ids es put_flows[of "projection (evidences (db w))" "projectEvidence e"]
    by (simp add: mirror_inv_def mirrored_def projected_rows_def)
qed simp

lemma writeEvidence_mirror: "maintains mirror_inv (writeEvidence row)"
proof (rule maintainsI)
  fix w
  assume inv: "mirror_inv w"
  define e where "e = row (clock w)"
  have "wp (persist e) (\<lambda>_. mirror_inv) (\<lambda>_ _. True)
      (w\<lparr>db := (db w)\<lparr>evidences := evidences (db w) @ [e]\<rparr>\<rparr>)" if "find_evidence (e_id e) (db w) = None"
    using inv that by (intro wp_put_persist projection_append) (auto simp: mirror_inv_def find_evidence_None)
  then have "wp (andThen (insert_evidence e) (persist e)) (\<lambda>_. mirror_inv) (\<lambda>_ _. True) w"
    by (simp add: insert_evidence_def)
  then have "wp (handle (andThen (insert_evidence e) (persist e))
      (\<lambda>err. andThen (writeToBacklog (e_id e)) (throw err))) (\<lambda>_. mirror_inv) (\<lambda>_ _. True) w"
    unfolding wp_handle by (rule wp_mono) (auto simp: writeToBacklog_def)
  then show "wp (writeEvidence row) (\<lambda>_. mirror_inv) (\<lambda>_ _. True) w"
    by (simp add: writeEvidence_def Let_def e_def del: wp_handle)
qed

lemma change_evidence_mirror:
  assumes "\<And>e. e_id (f e) = e_id e" "\<And>e. e_debitAccount (f e) = e_debitAccount e"
    "\<And>e. e_creditAccount (f e) = e_creditAccount e"
  shows "maintains mirror_inv (change_evidence i f)"
proof (rule maintainsI)
  fix w
  assume inv: "mirror_inv w"
  have "wp (persist (f e)) (\<lambda>_. mirror_inv) (\<lambda>_ _. True)
      (w\<lparr>db := (db w)\<lparr>evidences := update_rows (\<lambda>x. e_id x = i) f (evidences (db w))\<rparr>\<rparr>)"
    if "find_evidence i (db w) = Some e" for e
    using inv that assms
    by (intro wp_put_persist projection_update) (simp_all add: mirror_inv_def map_update_rows find_evidence_def)
  then show "wp (change_evidence i f) (\<lambda>_. mirror_inv) (\<lambda>_ _. True) w"
    by (simp add: change_evidence_def split: option.split)
qed

lemma maintains_basic:
  "maintains mirror_inv (submit t)" "maintains mirror_inv tbId" "maintains mirror_inv (getsDb f)"
  "maintains mirror_inv (deterministicTransferId a b c n)"
  by (auto simp: maintains_def wp_submit Let_def mirror_inv_def)

lemma record_transfer_mirror: "maintains mirror_inv (record_transfer ty failure t ep)"
  unfolding record_transfer_def
  by (intro maintains_rules maintains_basic writeEvidence_mirror)

lemma updateTransferType_mirror: "maintains mirror_inv (updateTransferType i ty p)"
  unfolding updateTransferType_def by (rule change_evidence_mirror) simp_all

lemma ledger_ops_mirror:
  "maintains mirror_inv (executeTransfer d c a l k ep)"
  "maintains mirror_inv (executePendingTransfer d c a l k tm ep n)"
  "maintains mirror_inv (postPendingTransfer p a)" "maintains mirror_inv (voidPendingTransfer p a)"
  unfolding executeTransfer_def executePendingTransfer_def postPendingTransfer_def voidPendingTransfer_def
    close_pending_def
  by (intro maintains_rules maintains_basic record_transfer_mirror updateTransferType_mirror)+

lemma bestEffort_mirror: "maintains mirror_inv (voidPendingTransferBestEffort p a)"
  by (auto simp: voidPendingTransferBestEffort_def maintains_def wp_submit Let_def mirror_inv_def)

lemma enrichForPost_mirror: "maintains mirror_inv (enrichForPost i x)"
  unfolding enrichForPost_def
  by (intro maintains_rules change_evidence_mirror) (simp_all add: enriched_def)

text \<open>The programs a client can write with the ledger's operations: what comes next may depend on the state
  and on every result, anything that leaves evidence and flows alone may happen in between, and an error may
  be caught for a clean-up that throws it again.\<close>

inductive ledger_program :: "unit op \<Rightarrow> bool" where
  elsewhere: "steps (same (\<lambda>w. (evidences (db w), flows (db w)))) m \<Longrightarrow> ledger_program m"
| then_: "ledger_program m \<Longrightarrow> ledger_program n \<Longrightarrow> ledger_program (andThen m n)"
| look: "(\<And>v. ledger_program (k v)) \<Longrightarrow> ledger_program (\<lambda>w. k w w)"
| transfer: "(\<And>j. ledger_program (k j)) \<Longrightarrow> ledger_program (bind (executeTransfer d c a l t ep) k)"
| pending: "(\<And>j. ledger_program (k j)) \<Longrightarrow> ledger_program (bind (executePendingTransfer d c a l t tm ep n) k)"
| post: "ledger_program (postPendingTransfer p a)"
| void: "ledger_program (voidPendingTransfer p a)"
| best_effort: "(\<And>ok. ledger_program (k ok)) \<Longrightarrow> ledger_program (bind (voidPendingTransferBestEffort p a) k)"
| enrich: "ledger_program (enrichForPost i x)"
| clean_up: "ledger_program m \<Longrightarrow> ledger_program (handle m (\<lambda>e. andThen (c e :: unit op) (throw e)))"

lemma ledger_program_mirror: "ledger_program m \<Longrightarrow> maintains mirror_inv m"
proof (induction rule: ledger_program.induct)
  case (elsewhere m)
  then show ?case
    by (auto simp: maintains_def wp_def steps_def same_def mirror_inv_def mirrored_def split: prod.splits sum.splits)
      (metis snd_conv)+
next
  case (look k)
  then show ?case
    by (simp add: maintains_def wp_def)
next
  case (clean_up m c)
  have "wp (andThen (c e) (throw e)) (\<lambda>_. mirror_inv) (\<lambda>_ _. True) w" for e w
    by (auto simp: wp_def andThen_def bind_def throw_def split: sum.split prod.split)
  then show ?case
    using clean_up.IH unfolding maintains_def wp_handle by (blast intro: wp_mono)
qed (intro maintains_rules ledger_ops_mirror bestEffort_mirror enrichForPost_mirror; assumption?)+

end
