(* ===== verification/LedgerProps.thy ===== *)
theory LedgerProps
  imports FlowFacts Samples
begin

text \<open>
  The properties of the ledger side: evidence backed by accepted transfers, R2 of the account flows, the
  projection, replays, and what the statements compute.
\<close>

section \<open>Evidence and flows\<close>

definition ep :: EvidenceParams where
  "ep = \<lparr>ep_sourceType = ''DEPOSIT'', ep_sourceNo = ''DEP1'', ep_eventCode = ''E1'', ep_traceId = ''T'',
     ep_debitCode = ''1'', ep_creditCode = ''101'', ep_assetCurrency = ''USDT'', ep_actorType = ''SYSTEM'',
     ep_actorId = ''SYSTEM'', ep_memo = None, ep_debitWalletRef = None, ep_creditWalletRef = None,
     ep_externalRef = None, ep_crossing = False\<rparr>"

lemma demo_backed: "backed (tb_log demo_world) (db demo_world)"
  by (simp add: demo_world_def empty_db_def backed_def)

text \<open>
  C1. Every evidence row is backed by the ledger: over any run of the ledger's operations, with database
  rollbacks anywhere and whatever TigerBeetle answers, each row names a transfer TigerBeetle created with
  the same accounts and amount, is POSTED or PENDING as that transfer was requested unless an accepted
  post or void of it is on record, and no two rows name the same transfer.
\<close>

theorem evidence_backed_by_ledger:
  assumes "ledger_run w w'" "backed (tb_log w) (db w)"
  shows "backed (tb_log w') (db w')"
  using ledger_run_grows[OF assms(1)] assms(2) by (simp add: ledger_grows_def)

theorem evidence_backed_by_ledger_witness:
  "backed (tb_log (snd (executeTransfer 1 2 50 2 1 ep demo_world))) (db (snd (executeTransfer 1 2 50 2 1 ep demo_world)))"
  by (rule evidence_backed_by_ledger[OF ledger_run.transfer demo_backed], rule surjective_pairing)

text \<open>
  C9. R2 holds over every run of the ledger's operations, the opening of accounts included: a flow with a
  wallet names an existing wallet, and when the flow's ledger account is in the registry, the wallet's owner
  is the account's owner, or the account is one of the two aggregates, or both are on the firm's side (for
  an account that is not registered the guard is skipped, as in the code); and a transfer has at most one
  flow per account.  Wallets may come and change during the run, but keep their owners, and accounts are
  opened under ids that no flow names yet (the client library draws unique ids).
\<close>

theorem flows_keep_R2:
  assumes "ledger_run w w'" "flows_inv (db w)"
  shows "(\<forall>f\<in>set (flows (db w')). truthy (fl_walletRef f) \<longrightarrow>
      (\<exists>x. by_id w_id (the (fl_walletRef f)) (wallets (db w')) = Some x
        \<and> (\<forall>r. find_tb_account (fl_accountId f) (db w') = Some r \<longrightarrow> owners_agree x r)))
    \<and> distinct (map (\<lambda>f. (fl_transferId f, fl_accountId f)) (flows (db w')))"
proof -
  have "flows_inv (db w')"
    using ledger_run_r2[OF assms(1)] assms(2) by (simp add: r2_step_def)
  then show ?thesis
    unfolding flows_inv_def r2_ok_def flow_key_def by (fastforce split: option.splits)
qed

text \<open>A customer's wallet; accounts are opened for the customer and the platform, then a transfer between
  them is recorded for the wallet.\<close>

definition purse_world :: world where
  "purse_world = demo_world\<lparr>db := empty_db\<lparr>wallets := [purse ''W1'' ''C_DEP'' ''USDT'' (Some ''C1'')]\<rparr>\<rparr>"

definition opening_of :: "nat \<Rightarrow> string \<Rightarrow> string option \<Rightarrow> CreateTbAccountParams" where
  "opening_of code ownerType owner = \<lparr>ca_code = code, ca_ledger = 2, ca_ownerType = ownerType, ca_ownerUuid = owner,
     ca_ownerNo = None, ca_assetCurrency = ''USDT'', ca_description = None, ca_flags = None\<rparr>"

definition opened_world :: world where
  "opened_world = snd (createAccounts [opening_of 100 ''CUSTOMER'' (Some ''C1''), opening_of 1 ''SYSTEM'' None] purse_world)"

definition booked_world :: world where
  "booked_world = snd (executePendingTransfer 1 2 50 2 1 0 (ep\<lparr>ep_debitWalletRef := Some ''W1''\<rparr>) None opened_world)"

lemma booked_run: "ledger_run purse_world booked_world"
proof (rule ledger_run.seq)
  show "ledger_run purse_world opened_world"
    unfolding opened_world_def
    by (rule ledger_run.open_accounts[OF surjective_pairing])
      (simp add: unnamed_ids_def purse_world_def demo_world_def empty_db_def)
  show "ledger_run opened_world booked_world"
    unfolding booked_world_def by (rule ledger_run.pending, rule surjective_pairing)
qed

lemma purse_flows_inv: "flows_inv (db purse_world)"
  by (simp add: purse_world_def empty_db_def flows_inv_def)

lemma booked_flows:
  "map fl_walletRef (flows (db booked_world)) = [Some ''W1'', None]"
  "map (\<lambda>f. find_tb_account (fl_accountId f) (db booked_world) \<noteq> None) (flows (db booked_world)) = [True, True]"
  by code_simp+

theorem flows_keep_R2_witness:
  "\<exists>f x r. f \<in> set (flows (db booked_world)) \<and> fl_walletRef f = Some ''W1''
     \<and> by_id w_id ''W1'' (wallets (db booked_world)) = Some x
     \<and> find_tb_account (fl_accountId f) (db booked_world) = Some r \<and> owners_agree x r"
proof -
  obtain f where f: "f \<in> set (flows (db booked_world))" "fl_walletRef f = Some ''W1''"
    using booked_flows(1) by (cases "flows (db booked_world)") auto
  moreover obtain r where "find_tb_account (fl_accountId f) (db booked_world) = Some r"
    using booked_flows(2) f(1) by (fastforce simp: map_eq_Cons_conv)
  ultimately show ?thesis
    using conjunct1[OF flows_keep_R2[OF booked_run purse_flows_inv]] by fastforce
qed





section \<open>Replays\<close>

definition transfer_of :: "world \<Rightarrow> int \<Rightarrow> int \<Rightarrow> int \<Rightarrow> nat \<Rightarrow> nat \<Rightarrow> EvidenceParams \<Rightarrow> tb_transfer" where
  "transfer_of w debit credit amount ledger code p =
     \<lparr>tr_id = sha_id w (transfer_key (ep_sourceType p) (ep_sourceNo p) (ep_eventCode p) 0),
      tr_debit = debit, tr_credit = credit, tr_amount = amount, tr_pending_id = 0, tr_timeout = 0,
      tr_ledger = ledger, tr_code = code, tr_flag = Flag_none\<rparr>"

lemma executeTransfer_eq:
  "executeTransfer d c a l k p w =
     record_transfer ''POSTED'' ''TB_TRANSFER_FAILED'' (transfer_of w d c a l k p) p w"
  by (simp add: executeTransfer_def deterministicTransferId_def transfer_of_def bind_def gets_def)

lemma record_transfer_exists:
  assumes "tb_reply w (tb_log w) t = TB_exists"
  shows "record_transfer ty failure t p w = (Inr (tr_id t), w\<lparr>tb_log := tb_log w @ [(t, TB_exists)]\<rparr>)"
  using assms by (simp add: record_transfer_def submit_def bind_def andThen_def guard_def ret_def real_error_def)

lemma record_transfer_result:
  "wp (record_transfer ty failure t p) (\<lambda>j _. j = tr_id t) (\<lambda>_ _. True) w"
  by (auto simp: record_transfer_def wp_submit Let_def)

text \<open>The environment of the world never changes.\<close>

definition env :: "world \<Rightarrow> (string \<Rightarrow> int) \<times> (tb_log \<Rightarrow> tb_transfer \<Rightarrow> tb_status)" where
  "env w = (sha_id w, tb_reply w)"

lemma env_basic:
  "steps (same env) (submit t)" "steps (same env) (getsDb f)" "steps (same env) now"
  "steps (same env) (onDb g)" "steps (same env) (writeToBacklog i)" "steps (same env) (upsert_flow r)"
  by (auto simp: steps_wp wp_submit Let_def same_def env_def writeToBacklog_def)

lemma record_transfer_env: "steps (same env) (record_transfer ty failure t p)"
  unfolding record_transfer_def writeEvidence_def Let_def insert_evidence_def persist_def
    assertWalletRefMatchesTbAccount_def
  by (intro frame.combinators env_basic)

lemma writeEvidence_log: "steps (same tb_log) (writeEvidence row)"
proof -
  have "steps (same tb_log) (getsDb f)" "steps (same tb_log) now" "steps (same tb_log) (onDb g)"
    "steps (same tb_log) (writeToBacklog i)" "steps (same tb_log) (upsert_flow r)" for f :: "db \<Rightarrow> 'c" and g i r
    by (auto simp: steps_wp same_def writeToBacklog_def)
  then show ?thesis
    unfolding writeEvidence_def Let_def insert_evidence_def persist_def assertWalletRefMatchesTbAccount_def
    by (intro frame.combinators) (auto simp: steps_wp same_def)
qed

lemma executeTransfer_env: "executeTransfer d c a l k p w = (r, w1) \<Longrightarrow> sha_id w1 = sha_id w \<and> tb_reply w1 = tb_reply w"
  using stepsD[OF record_transfer_env] unfolding executeTransfer_eq by (fastforce simp: same_def env_def)

lemma executeTransfer_id:
  "executeTransfer d c a l k p w = (Inr i, w1) \<Longrightarrow> i = tr_id (transfer_of w d c a l k p)"
  using record_transfer_result[of "''POSTED''" "''TB_TRANSFER_FAILED''" "transfer_of w d c a l k p" p w]
  by (simp add: executeTransfer_eq wp_def)

lemma transfer_of_cong: "sha_id w' = sha_id w \<Longrightarrow> transfer_of w' = transfer_of w"
  by (simp add: transfer_of_def fun_eq_iff)

text \<open>
  A replayed transfer is idempotent: when TigerBeetle has created the transfer of a business key and
  answers a repeated request with exists, running the transfer again under the same key returns the same
  id and changes nothing in the database.
\<close>

theorem replay_is_idempotent:
  assumes "executeTransfer d c a l k p w = (Inr i, w1)"
    and "tb_reply w (tb_log w1) (transfer_of w d c a l k p) = TB_exists"
  shows "fst (executeTransfer d c a l k p w1) = Inr i \<and> db (snd (executeTransfer d c a l k p w1)) = db w1"
  using executeTransfer_env[OF assms(1)] executeTransfer_id[OF assms(1)] assms(2)
    record_transfer_exists[of w1 "transfer_of w d c a l k p"]
  by (simp add: executeTransfer_eq transfer_of_cong[of w1 w])

text \<open>A TigerBeetle that knows the transfers it created.\<close>

definition dedup :: "tb_log \<Rightarrow> tb_transfer \<Rightarrow> tb_status" where
  "dedup lg t = (if list_ex (\<lambda>(x, s). s = TB_created \<and> x = t) lg then TB_exists
     else if list_ex (\<lambda>(x, s). s = TB_created \<and> tr_id x = tr_id t) lg
       then TB_rejected ''exists_with_different_fields''
     else TB_created)"

definition dedup_world :: world where
  "dedup_world = demo_world\<lparr>tb_reply := dedup\<rparr>"

lemma dedup_run:
  "executeTransfer 1 2 50 2 1 ep dedup_world = (Inr 17, snd (executeTransfer 1 2 50 2 1 ep dedup_world))"
  by (rule run_eq) code_simp

lemma dedup_replies:
  "tb_reply dedup_world (tb_log dedup_world) (transfer_of dedup_world 1 2 50 2 1 ep) = TB_created"
  "tb_reply dedup_world (tb_log (snd (executeTransfer 1 2 50 2 1 ep dedup_world)))
     (transfer_of dedup_world 1 2 50 2 1 ep) = TB_exists"
  by code_simp+

theorem replay_is_idempotent_witness:
  "\<exists>w1. fst (executeTransfer 1 2 50 2 1 ep w1) = Inr 17 \<and> db (snd (executeTransfer 1 2 50 2 1 ep w1)) = db w1"
  by (rule exI, rule replay_is_idempotent[OF dedup_run dedup_replies(2)])

text \<open>
  C17. Lost evidence: when the database transaction around a transfer is taken back after TigerBeetle
  created it, the retry is answered with exists and reported as a success, but no evidence row is written,
  so the ledger holds a transfer without evidence.
\<close>

theorem rolled_back_evidence_is_lost:
  assumes "executeTransfer d c a l k p w = (Inr i, w1)"
    and "tb_reply w (tb_log w) (transfer_of w d c a l k p) = TB_created"
    and "tb_reply w (tb_log w1) (transfer_of w d c a l k p) = TB_exists"
    and "find_evidence (bigintToHex i) (db w) = None"
  shows "\<exists>w2. executeTransfer d c a l k p (w1\<lparr>db := db w\<rparr>) = (Inr i, w2)
     \<and> (transfer_of w d c a l k p, TB_created) \<in> set (tb_log w2)
     \<and> find_evidence (bigintToHex i) (db w2) = None"
proof -
  let ?t = "transfer_of w d c a l k p"
  have keep: "wp (writeEvidence row) (\<lambda>_ v. x \<in> set (tb_log v)) (\<lambda>_ _. True) v"
    if "x \<in> set (tb_log v)" for row x v
    using writeEvidence_log[of row] that by (auto simp: steps_wp same_def elim!: wp_mono dest!: spec[of _ v])
  have "wp (record_transfer ''POSTED'' ''TB_TRANSFER_FAILED'' ?t p)
      (\<lambda>_ v. (?t, TB_created) \<in> set (tb_log v)) (\<lambda>_ _. True) w"
    using assms(2) by (auto simp: record_transfer_def wp_submit Let_def intro!: keep)
  then have "(?t, TB_created) \<in> set (tb_log w1)"
    using assms(1) by (simp add: executeTransfer_eq wp_def)
  then show ?thesis
    using executeTransfer_env[OF assms(1)] executeTransfer_id[OF assms(1)] assms(3,4)
      record_transfer_exists[of "w1\<lparr>db := db w\<rparr>" "?t"]
    by (simp add: executeTransfer_eq transfer_of_cong[of w1 w] transfer_of_cong[of "w1\<lparr>db := db w\<rparr>" w])
qed


theorem rolled_back_evidence_is_lost_witness:
  "\<exists>w1 w2. executeTransfer 1 2 50 2 1 ep (w1\<lparr>db := db dedup_world\<rparr>) = (Inr 17, w2)
     \<and> (transfer_of dedup_world 1 2 50 2 1 ep, TB_created) \<in> set (tb_log w2)
     \<and> find_evidence (bigintToHex 17) (db w2) = None"
  by (rule exI, rule rolled_back_evidence_is_lost[OF dedup_run dedup_replies])
    (simp add: dedup_world_def demo_world_def empty_db_def find_evidence_def by_id_def)


section \<open>Statements\<close>

lemma length_running [simp]: "length (running b xs) = length xs"
  by (induction xs arbitrary: b) auto

lemma nth_running: "n < length xs \<Longrightarrow> running b xs ! n = b + sum_list (take (Suc n) xs)"
  by (induction xs arbitrary: b n) (auto simp: nth_Cons' add.assoc)

lemma sum_signed:
  "sum_list (map (\<lambda>e. signed_amount (p e) (g e)) xs)
     = sum_list (map g (filter p xs)) - sum_list (map g (filter (\<lambda>e. \<not> p e) xs))"
  by (induction xs) (simp_all add: signed_amount_def)

definition line_amount :: "statement_item \<Rightarrow> rat" where
  "line_amount x = (if st_in x then st_amount x else - st_amount x)"

definition credits_of :: "string \<Rightarrow> tb_evidence list \<Rightarrow> rat" where
  "credits_of i rows = sum_list (map e_amount (filter (\<lambda>e. on_side (id_variants i) (e_creditAccount e)) rows))"

definition debits_of :: "string \<Rightarrow> tb_evidence list \<Rightarrow> rat" where
  "debits_of i rows = sum_list (map e_amount (filter (\<lambda>e. \<not> on_side (id_variants i) (e_creditAccount e)) rows))"

definition asset_account :: "string \<Rightarrow> db \<Rightarrow> bool" where
  "asset_account i d = (case find_tb_account i d of None \<Rightarrow> False | Some r \<Rightarrow> isAssetCode (r_code r))"

lemma sum_in:
  "sum_list (map (\<lambda>e. signed_amount (evidence_in a (id_variants i) e) (e_amount e)) rows)
     = (if a then debits_of i rows - credits_of i rows else credits_of i rows - debits_of i rows)"
  unfolding sum_signed credits_of_def debits_of_def by (simp add: evidence_in_def)

lemma statement_lines:
  fixes i x d
  defines "rows \<equiv> statement_rows (id_variants i) x d"
    and "amounts \<equiv> map (\<lambda>e. signed_amount (evidence_in (asset_account i d) (id_variants i) e) (e_amount e))
      (statement_rows (id_variants i) x d)"
  shows "snd (getAccountStatement i x d) = sum_list amounts"
    "map st_row (fst (getAccountStatement i x d)) = rows"
    "map line_amount (fst (getAccountStatement i x d)) = amounts"
    "map st_running (fst (getAccountStatement i x d)) = running 0 amounts"
proof -
  have len: "length amounts = length rows"
    by (simp add: amounts_def rows_def)
  have lines: "getAccountStatement i x d = (map2 (\<lambda>e b. \<lparr>st_row = e,
      st_in = evidence_in (asset_account i d) (id_variants i) e, st_amount = e_amount e, st_running = b\<rparr>)
        rows (running 0 amounts), sum_list amounts)"
    by (simp add: getAccountStatement_def Let_def rows_def amounts_def asset_account_def)
  show "snd (getAccountStatement i x d) = sum_list amounts"
    by (simp add: lines)
  show "map st_row (fst (getAccountStatement i x d)) = rows"
    "map st_running (fst (getAccountStatement i x d)) = running 0 amounts"
    using len by (simp_all add: lines split_def comp_def)
  have "map line_amount (fst (getAccountStatement i x d))
      = map (\<lambda>e. signed_amount (evidence_in (asset_account i d) (id_variants i) e) (e_amount e))
          (map st_row (fst (getAccountStatement i x d)))"
    by (simp add: lines split_def line_amount_def signed_amount_def)
  then show "map line_amount (fst (getAccountStatement i x d)) = amounts"
    using len by (simp add: lines split_def comp_def amounts_def rows_def)
qed

text \<open>
  An account statement lists exactly the posted evidence rows of the account, in order; the running
  balance of each line is the sum of the signed amounts up to it, and the closing balance is debits minus
  credits for an asset account, and credits minus debits for every other account.
\<close>

theorem account_statement_balances:
  "case getAccountStatement i crossingOnly d of (items, balance) \<Rightarrow>
     (let rows = statement_rows (id_variants i) crossingOnly d in
        map st_row items = rows
        \<and> (\<forall>n<length items. st_running (items ! n) = sum_list (take (Suc n) (map line_amount items)))
        \<and> balance = (if asset_account i d then debits_of i rows - credits_of i rows
                     else credits_of i rows - debits_of i rows))"
proof -
  obtain items balance where r: "getAccountStatement i crossingOnly d = (items, balance)"
    by fastforce
  note facts = statement_lines[of i crossingOnly d, unfolded r fst_conv snd_conv]
  have "st_running (items ! n) = sum_list (take (Suc n) (map line_amount items))" if "n < length items" for n
    using facts(3,4) that nth_running[of n "map line_amount items" 0]
    by (metis add_0 length_map nth_map)
  then show ?thesis
    using facts(1,2) by (simp add: r sum_in)
qed

text \<open>A statement with a credit of 50 and a debit of 20.\<close>

definition posted :: "string \<Rightarrow> int \<Rightarrow> int \<Rightarrow> int \<Rightarrow> tb_evidence" where
  "posted i d c a = (evidence_row ''POSTED'' 0 d c a ep 1000)\<lparr>e_id := i\<rparr>"

definition statement_db :: db where
  "statement_db = empty_db\<lparr>evidences := [posted ''a'' 1 2 50, posted ''b'' 2 3 20, posted ''c'' 1 3 7]\<rparr>"

theorem account_statement_balances_witness:
  "snd (getAccountStatement (bigintToHex 2) False statement_db) = 30
   \<and> st_running (fst (getAccountStatement (bigintToHex 2) False statement_db) ! 1) = 30"
proof -
  let ?S = "getAccountStatement (bigintToHex 2) False statement_db"
  have bal: "snd ?S = (let rows = statement_rows (id_variants (bigintToHex 2)) False statement_db in
      if asset_account (bigintToHex 2) statement_db then debits_of (bigintToHex 2) rows - credits_of (bigintToHex 2) rows
      else credits_of (bigintToHex 2) rows - debits_of (bigintToHex 2) rows)"
    and run: "\<forall>n<length (fst ?S). st_running (fst ?S ! n) = sum_list (take (Suc n) (map line_amount (fst ?S)))"
    using account_statement_balances[of "bigintToHex 2" False statement_db] by (simp_all add: split_beta Let_def)
  have "(let rows = statement_rows (id_variants (bigintToHex 2)) False statement_db in
      if asset_account (bigintToHex 2) statement_db then debits_of (bigintToHex 2) rows - credits_of (bigintToHex 2) rows
      else credits_of (bigintToHex 2) rows - debits_of (bigintToHex 2) rows) = 30"
    "1 < length (fst ?S)" "sum_list (take (Suc 1) (map line_amount (fst ?S))) = 30"
    by code_simp+
  then show ?thesis
    using bal run by metis
qed

section \<open>Short ids in the wallet statement\<close>

lemma to_str_length: "n < 16 ^ k \<Longrightarrow> 0 < k \<Longrightarrow> length (to_str 16 n) \<le> k"
proof (induction k arbitrary: n)
  case (Suc k)
  have "length (digits 16 n) \<le> Suc k" if "k = 0"
    using Suc.prems that by (subst digits.simps) simp
  moreover have "length (digits 16 n) \<le> Suc k" if "0 < k"
  proof -
    have "n div 16 < 16 ^ k"
      using Suc.prems(1) by (simp add: less_mult_imp_div_less)
    then have "length (digits 16 (n div 16)) \<le> k"
      using Suc.IH[of "n div 16"] that by (simp add: to_str_def)
    then show ?thesis
      by (subst digits.simps) simp
  qed
  ultimately show ?case
    by (auto simp: to_str_def)
qed simp

lemma digits_head: "digits 16 n \<noteq> 0 # d # ds"
proof (induction n arbitrary: d ds rule: less_induct)
  case (less n)
  show ?case
  proof
    assume head: "digits 16 n = 0 # d # ds"
    then have big: "16 \<le> n"
      by (subst (asm) digits.simps) (simp split: if_splits)
    then have app: "digits 16 n = digits 16 (n div 16) @ [n mod 16]"
      by (subst digits.simps) simp
    then obtain ys where "digits 16 (n div 16) = 0 # ys"
      using head by (cases "digits 16 (n div 16)") (auto simp: digits_nonempty)
    then have "digits 16 (n div 16) = [0]"
      using less.IH[of "n div 16"] big by (cases ys) auto
    then have "n div 16 = 0"
      using undigits_digits[of 16 "n div 16"] by simp
    then show False
      using big by simp
  qed
qed

text \<open>The id the registry stores has no leading zero.\<close>

lemma hex_no_zero: "0 \<le> i \<Longrightarrow> bigintToHex i \<noteq> CHR ''0'' # c # cs"
proof
  assume i: "0 \<le> i" and "bigintToHex i = CHR ''0'' # c # cs"
  then have s: "map digit_char (digits 16 (nat i)) = CHR ''0'' # c # cs"
    by (simp add: bigintToHex_def to_str_def)
  then obtain x y zs where d: "digits 16 (nat i) = x # y # zs" "digit_char x = CHR ''0''"
    by (cases "digits 16 (nat i)"; cases "tl (digits 16 (nat i))") auto
  have "x < 16"
    using digits_less[of 16 x "nat i"] d(1) by simp
  then have "x = 0"
    using char_digit_char[of x 16] d(2) by (simp add: char_digit_def Let_def)
  then show False
    using d(1) digits_head by simp
qed

text \<open>
  The wallet statement misses the registry entry of every ledger id below 16 ^ 31 (the ids the client
  library generates today start with a zero digit): the registry stores the id without its leading zeros
  and the statement looks the padded form up, so no entry is found, and the flows of the aggregate
  accounts stay in a customer's statement with the wrong sign.
\<close>

theorem wallet_statement_misses_short_ids:
  assumes "\<forall>r\<in>set (registry d). \<exists>j\<ge>0. r_id r = bigintToHex j"
    and "0 \<le> i" "i < 16 ^ 31" "fl_accountId f = bigintToHex i"
  shows "reg_of d (fl_accountId f) = None \<and> wallet_keeps d row f \<and> flow_in d f = (fl_direction f = ''IN'')"
proof -
  have "nat i < 16 ^ 31"
    using assms(2,3) by (simp add: nat_less_iff)
  then have "length (bigintToHex i) \<le> 31"
    using to_str_length[of "nat i" 31] assms(2) by (simp add: bigintToHex_def)
  then obtain m where m: "32 - length (bigintToHex i) = Suc m" "length (bigintToHex i) < 32"
    by (cases "32 - length (bigintToHex i)") auto
  have "replicate m (CHR ''0'') @ bigintToHex i \<noteq> []"
    using to_str_nonempty[of 16 "nat i"] assms(2) by (simp add: bigintToHex_def)
  then obtain c cs where "replicate m (CHR ''0'') @ bigintToHex i = c # cs"
    by (cases "replicate m (CHR ''0'') @ bigintToHex i") auto
  then have pad: "padId (bigintToHex i) = CHR ''0'' # c # cs"
    using m by (simp add: padId_def pad_start_def)
  have "reg_of d (bigintToHex i) = None"
    unfolding reg_of_def find_None pad using assms(1) hex_no_zero by metis
  then show ?thesis
    by (simp add: assms(4) wallet_keeps_def flow_in_def)
qed

theorem wallet_statement_misses_short_ids_witness:
  "\<exists>r. find_tb_account (fl_accountId r) (empty_db\<lparr>registry := [registry_row 42 \<lparr>ca_code = 1, ca_ledger = 2,
       ca_ownerType = ''SYSTEM'', ca_ownerUuid = None, ca_ownerNo = None, ca_assetCurrency = ''USDT'',
       ca_description = None, ca_flags = None\<rparr>]\<rparr>) \<noteq> None
   \<and> flow_in (empty_db\<lparr>registry := [registry_row 42 \<lparr>ca_code = 1, ca_ledger = 2,
       ca_ownerType = ''SYSTEM'', ca_ownerUuid = None, ca_ownerNo = None, ca_assetCurrency = ''USDT'',
       ca_description = None, ca_flags = None\<rparr>]\<rparr>) r = (fl_direction r = ''IN'')"
proof -
  let ?d = "empty_db\<lparr>registry := [registry_row 42 \<lparr>ca_code = 1, ca_ledger = 2,
       ca_ownerType = ''SYSTEM'', ca_ownerUuid = None, ca_ownerNo = None, ca_assetCurrency = ''USDT'',
       ca_description = None, ca_flags = None\<rparr>]\<rparr>"
  let ?f = "hd (projectEvidence (posted ''a'' 42 2 50))"
  have acc: "fl_accountId ?f = bigintToHex 42"
    using to_str_nonempty by (simp add: posted_def evidence_row_def projectEvidence_def bigintToHex_def)
  have "flow_in ?d ?f = (fl_direction ?f = ''IN'')"
    using wallet_statement_misses_short_ids[of ?d 42 ?f] acc by (auto simp: registry_row_def)
  moreover have "find_tb_account (fl_accountId ?f) ?d \<noteq> None"
    by (simp add: acc find_tb_account_def by_id_def registry_row_def)
  ultimately show ?thesis
    by blast
qed

end
