(* ===== verification/SwapPlan.thy ===== *)
theory SwapPlan
  imports LedgerCodes
begin

text \<open>
  The settlement plan of a swap
  (src/src/modules/funds-layer/constants/swap-leg-plan.constant.ts): four legs in each direction, each
  with the wallet roles it moves money between and the double entries that book it.
\<close>

datatype AmountRef = Ref_from | Ref_grossTo | Ref_fee

datatype LegSide = Side_from | Side_to

record LegAccounting =
  la_code :: TbTransferCode
  la_debit :: TbAccountCode
  la_credit :: TbAccountCode
  la_side :: LegSide
  la_amountRef :: AmountRef
  la_eventCode :: string

record SwapLegSpec =
  sl_legSeq :: nat
  sl_fromRole :: string
  sl_toRole :: string
  sl_side :: LegSide
  sl_accounting :: "LegAccounting list"

definition CRYPTO_TO_FIAT :: "SwapLegSpec list" where
  "CRYPTO_TO_FIAT =
     [\<lparr>sl_legSeq = 1, sl_fromRole = ''C_DEP'', sl_toRole = ''F_OPS'', sl_side = Side_from, sl_accounting =
        [\<lparr>la_code = SWAP_SELL_CLIENT, la_debit = CLIENT_PAYABLE, la_credit = CLIENT_ASSET,
          la_side = Side_from, la_amountRef = Ref_from, la_eventCode = ''SWAP_SELL_CLIENT''\<rparr>,
         \<lparr>la_code = SWAP_SELL_FIRM, la_debit = FIRM_ASSET, la_credit = FIRM_OPS,
          la_side = Side_from, la_amountRef = Ref_from, la_eventCode = ''SWAP_SELL_FIRM''\<rparr>]\<rparr>,
      \<lparr>sl_legSeq = 2, sl_fromRole = ''F_OPS'', sl_toRole = ''F_SET'', sl_side = Side_to, sl_accounting =
        [\<lparr>la_code = SWAP_BUY_OPS_TO_SET, la_debit = FIRM_OPS, la_credit = FIRM_SET,
          la_side = Side_to, la_amountRef = Ref_grossTo, la_eventCode = ''SWAP_BUY_OPS_TO_SET''\<rparr>]\<rparr>,
      \<lparr>sl_legSeq = 3, sl_fromRole = ''F_SET'', sl_toRole = ''C_VIBAN'', sl_side = Side_to, sl_accounting =
        [\<lparr>la_code = SWAP_BUY_SET_TO_ASSET, la_debit = FIRM_SET, la_credit = FIRM_ASSET,
          la_side = Side_to, la_amountRef = Ref_grossTo, la_eventCode = ''SWAP_BUY_SET_TO_ASSET''\<rparr>,
         \<lparr>la_code = SWAP_BUY_CLIENT, la_debit = CLIENT_ASSET, la_credit = CLIENT_PAYABLE,
          la_side = Side_to, la_amountRef = Ref_grossTo, la_eventCode = ''SWAP_BUY_CLIENT''\<rparr>]\<rparr>,
      \<lparr>sl_legSeq = 4, sl_fromRole = ''C_VIBAN'', sl_toRole = ''F_FEE'', sl_side = Side_to, sl_accounting =
        [\<lparr>la_code = SWAP_FEE_CLIENT, la_debit = CLIENT_PAYABLE, la_credit = CLIENT_ASSET,
          la_side = Side_to, la_amountRef = Ref_fee, la_eventCode = ''SWAP_FEE_CLIENT''\<rparr>,
         \<lparr>la_code = SWAP_FEE_FIRM, la_debit = FIRM_ASSET, la_credit = FIRM_FEE,
          la_side = Side_to, la_amountRef = Ref_fee, la_eventCode = ''SWAP_FEE_FIRM''\<rparr>]\<rparr>]"

definition FIAT_TO_CRYPTO :: "SwapLegSpec list" where
  "FIAT_TO_CRYPTO =
     [\<lparr>sl_legSeq = 1, sl_fromRole = ''C_VIBAN'', sl_toRole = ''F_SET'', sl_side = Side_from, sl_accounting =
        [\<lparr>la_code = SWAP_SELL_CLIENT, la_debit = CLIENT_PAYABLE, la_credit = CLIENT_ASSET,
          la_side = Side_from, la_amountRef = Ref_from, la_eventCode = ''SWAP_SELL_CLIENT''\<rparr>,
         \<lparr>la_code = SWAP_SELL_FIRM, la_debit = FIRM_ASSET, la_credit = FIRM_SET,
          la_side = Side_from, la_amountRef = Ref_from, la_eventCode = ''SWAP_SELL_FIRM''\<rparr>]\<rparr>,
      \<lparr>sl_legSeq = 2, sl_fromRole = ''F_SET'', sl_toRole = ''F_OPS'', sl_side = Side_from, sl_accounting =
        [\<lparr>la_code = SWAP_SELL_SET_TO_OPS, la_debit = FIRM_SET, la_credit = FIRM_OPS,
          la_side = Side_from, la_amountRef = Ref_from, la_eventCode = ''SWAP_SELL_SET_TO_OPS''\<rparr>]\<rparr>,
      \<lparr>sl_legSeq = 3, sl_fromRole = ''F_OPS'', sl_toRole = ''C_DEP'', sl_side = Side_to, sl_accounting =
        [\<lparr>la_code = SWAP_BUY_OPS_TO_ASSET, la_debit = FIRM_OPS, la_credit = FIRM_ASSET,
          la_side = Side_to, la_amountRef = Ref_grossTo, la_eventCode = ''SWAP_BUY_OPS_TO_ASSET''\<rparr>,
         \<lparr>la_code = SWAP_BUY_CLIENT, la_debit = CLIENT_ASSET, la_credit = CLIENT_PAYABLE,
          la_side = Side_to, la_amountRef = Ref_grossTo, la_eventCode = ''SWAP_BUY_CLIENT''\<rparr>]\<rparr>,
      \<lparr>sl_legSeq = 4, sl_fromRole = ''C_DEP'', sl_toRole = ''F_FEE'', sl_side = Side_to, sl_accounting =
        [\<lparr>la_code = SWAP_FEE_CLIENT, la_debit = CLIENT_PAYABLE, la_credit = CLIENT_ASSET,
          la_side = Side_to, la_amountRef = Ref_fee, la_eventCode = ''SWAP_FEE_CLIENT''\<rparr>,
         \<lparr>la_code = SWAP_FEE_FIRM, la_debit = FIRM_ASSET, la_credit = FIRM_FEE,
          la_side = Side_to, la_amountRef = Ref_fee, la_eventCode = ''SWAP_FEE_FIRM''\<rparr>]\<rparr>]"

definition buildSwapLegPlan :: "bool \<Rightarrow> SwapLegSpec list" where
  "buildSwapLegPlan fromIsFiat = (if fromIsFiat then FIAT_TO_CRYPTO else CRYPTO_TO_FIAT)"

definition find_spec :: "nat \<Rightarrow> SwapLegSpec list \<Rightarrow> SwapLegSpec option" where
  "find_spec legSeq specs = find (\<lambda>s. sl_legSeq s = legSeq) specs"

section \<open>What an entry does to the balances\<close>

text \<open>The movement of an account's balance on one side's ledger: a debit raises an asset account and
  lowers the others, a credit the other way round.\<close>

definition entry_delta :: "(AmountRef \<Rightarrow> rat) \<Rightarrow> LegSide \<Rightarrow> TbAccountCode \<Rightarrow> LegAccounting \<Rightarrow> rat" where
  "entry_delta amt side acc a =
     (if la_side a \<noteq> side then 0
      else (let sgn = (if isAssetCode (TB_ACCOUNT_CODES acc) then 1 else - 1) in
        (if la_debit a = acc then sgn * amt (la_amountRef a) else 0)
        - (if la_credit a = acc then sgn * amt (la_amountRef a) else 0)))"

definition leg_delta :: "(AmountRef \<Rightarrow> rat) \<Rightarrow> LegSide \<Rightarrow> TbAccountCode \<Rightarrow> SwapLegSpec \<Rightarrow> rat" where
  "leg_delta amt side acc spec = sum_list (map (entry_delta amt side acc) (sl_accounting spec))"

definition plan_delta :: "(AmountRef \<Rightarrow> rat) \<Rightarrow> LegSide \<Rightarrow> TbAccountCode \<Rightarrow> SwapLegSpec list \<Rightarrow> rat" where
  "plan_delta amt side acc specs = sum_list (map (leg_delta amt side acc) specs)"

text \<open>The ledger account that stands for a wallet role.\<close>

definition role_account :: "string \<Rightarrow> TbAccountCode option" where
  "role_account r = map_of [(''C_DEP'', CLIENT_PAYABLE), (''C_VIBAN'', CLIENT_PAYABLE), (''F_OPS'', FIRM_OPS),
     (''F_SET'', FIRM_SET), (''F_FEE'', FIRM_FEE)] r"

text \<open>What the movement of a leg's amount between its two roles should do to an account.\<close>

definition wallet_move :: "(AmountRef \<Rightarrow> rat) \<Rightarrow> LegSide \<Rightarrow> TbAccountCode \<Rightarrow> SwapLegSpec \<Rightarrow> rat" where
  "wallet_move amt side acc spec =
     (let a = (case sl_accounting spec of [] \<Rightarrow> 0 | x # _ \<Rightarrow> amt (la_amountRef x)) in
      if sl_side spec \<noteq> side then 0
      else (if role_account (sl_toRole spec) = Some acc then a else 0)
           - (if role_account (sl_fromRole spec) = Some acc then a else 0))"

fun role_chain :: "SwapLegSpec list \<Rightarrow> bool" where
  "role_chain (s # t # rest) \<longleftrightarrow> sl_toRole s = sl_fromRole t \<and> role_chain (t # rest)"
| "role_chain _ \<longleftrightarrow> True"

lemmas plan_defs = buildSwapLegPlan_def CRYPTO_TO_FIAT_def FIAT_TO_CRYPTO_def

lemma all_specs:
  "(\<forall>s\<in>set (buildSwapLegPlan b). P s) \<longleftrightarrow>
     (if b then list_all P FIAT_TO_CRYPTO else list_all P CRYPTO_TO_FIAT)"
  by (simp add: buildSwapLegPlan_def list_all_iff)

section \<open>The plan's properties\<close>

definition balanced_leg :: "(AmountRef \<Rightarrow> rat) \<Rightarrow> SwapLegSpec \<Rightarrow> bool" where
  "balanced_leg amt s \<longleftrightarrow> (\<forall>side acc.
     leg_delta amt side CLIENT_ASSET s = leg_delta amt side CLIENT_PAYABLE s
     \<and> leg_delta amt side FIRM_ASSET s
         = leg_delta amt side FIRM_OPS s + leg_delta amt side FIRM_SET s + leg_delta amt side FIRM_FEE s
     \<and> (\<not> isAssetCode (TB_ACCOUNT_CODES acc) \<longrightarrow> leg_delta amt side acc s = wallet_move amt side acc s))"

lemma balanced_leg_cases:
  assumes "\<And>side. leg_delta amt side CLIENT_ASSET s = leg_delta amt side CLIENT_PAYABLE s"
    "\<And>side. leg_delta amt side FIRM_ASSET s
         = leg_delta amt side FIRM_OPS s + leg_delta amt side FIRM_SET s + leg_delta amt side FIRM_FEE s"
    "\<And>side acc. acc \<in> {CLIENT_PAYABLE, DEPOSIT_SUSPENSE, FIRM_OPS, FIRM_SET, FIRM_FEE, FIRM_LIQ} \<Longrightarrow>
       leg_delta amt side acc s = wallet_move amt side acc s"
  shows "balanced_leg amt s"
proof -
  have "acc \<in> {CLIENT_PAYABLE, DEPOSIT_SUSPENSE, FIRM_OPS, FIRM_SET, FIRM_FEE, FIRM_LIQ}"
    if "\<not> isAssetCode (TB_ACCOUNT_CODES acc)" for acc
    using that by (cases acc) (simp_all add: isAssetCode_iff[of CLIENT_ASSET, simplified] isAssetCode_iff[of FIRM_ASSET, simplified])
  then show ?thesis
    using assms by (simp add: balanced_leg_def)
qed

lemma asset_codes [simp]:
  "isAssetCode (Suc 0)" "isAssetCode 50" "\<not> isAssetCode 100" "\<not> isAssetCode 101" "\<not> isAssetCode 200"
  "\<not> isAssetCode 201" "\<not> isAssetCode 202" "\<not> isAssetCode 203"
  by (simp_all add: isAssetCode_def ASSET_TB_CODES_def)

lemmas delta_defs = leg_delta_def entry_delta_def wallet_move_def role_account_def Let_def

lemma legs_balanced: "list_all (balanced_leg amt) CRYPTO_TO_FIAT" "list_all (balanced_leg amt) FIAT_TO_CRYPTO"
  unfolding CRYPTO_TO_FIAT_def FIAT_TO_CRYPTO_def list.pred_inject
  by (intro conjI TrueI balanced_leg_cases; auto simp: delta_defs)+

text \<open>
  C23. Real-time one-to-one: in both directions every leg of a swap, booked by its entries, keeps the
  client assets equal to the client payables and the firm assets equal to the firm's equity on each
  currency's ledger, and moves the account of every wallet role (and no other) by exactly what the leg
  moves between its wallets; the legs follow each other from role to role.
\<close>

theorem swap_legs_keep_books_one_to_one:
  assumes "s \<in> set (buildSwapLegPlan fromIsFiat)"
  shows "leg_delta amt side CLIENT_ASSET s = leg_delta amt side CLIENT_PAYABLE s
      \<and> leg_delta amt side FIRM_ASSET s
          = leg_delta amt side FIRM_OPS s + leg_delta amt side FIRM_SET s + leg_delta amt side FIRM_FEE s
      \<and> (\<not> isAssetCode (TB_ACCOUNT_CODES acc) \<longrightarrow> leg_delta amt side acc s = wallet_move amt side acc s)
      \<and> role_chain (buildSwapLegPlan fromIsFiat)"
proof -
  have "balanced_leg amt s"
    using assms legs_balanced[of amt] by (auto simp: buildSwapLegPlan_def list_all_iff split: if_splits)
  moreover have "role_chain (buildSwapLegPlan fromIsFiat)"
    by (simp add: plan_defs)
  ultimately show ?thesis
    by (simp add: balanced_leg_def)
qed

theorem swap_legs_keep_books_one_to_one_witness:
  "leg_delta (\<lambda>r. 7) Side_from FIRM_SET (hd FIAT_TO_CRYPTO) = wallet_move (\<lambda>r. 7) Side_from FIRM_SET (hd FIAT_TO_CRYPTO)"
  using swap_legs_keep_books_one_to_one[of "hd FIAT_TO_CRYPTO" True "\<lambda>r. 7" Side_from FIRM_SET]
  by (simp add: buildSwapLegPlan_def FIAT_TO_CRYPTO_def)

definition swap_result :: "(AmountRef \<Rightarrow> rat) \<Rightarrow> LegSide \<Rightarrow> TbAccountCode \<Rightarrow> rat" where
  "swap_result amt side acc =
     (case side of
        Side_from \<Rightarrow> (if acc \<in> {CLIENT_ASSET, CLIENT_PAYABLE} then - amt Ref_from
                      else if acc \<in> {FIRM_ASSET, FIRM_OPS} then amt Ref_from else 0)
      | Side_to \<Rightarrow> (if acc \<in> {CLIENT_ASSET, CLIENT_PAYABLE} then amt Ref_grossTo - amt Ref_fee
                    else if acc = FIRM_ASSET then amt Ref_fee - amt Ref_grossTo
                    else if acc = FIRM_OPS then - amt Ref_grossTo
                    else if acc = FIRM_FEE then amt Ref_fee else 0))"

lemma plan_results:
  "plan_delta amt side acc CRYPTO_TO_FIAT = swap_result amt side acc"
  "plan_delta amt side acc FIAT_TO_CRYPTO = swap_result amt side acc"
  unfolding CRYPTO_TO_FIAT_def FIAT_TO_CRYPTO_def plan_delta_def
  by (cases side; cases acc; simp add: swap_result_def delta_defs)+

text \<open>
  The net effect of a completed swap, in both directions: on the sold currency the client's books fall
  by the amount sold and the firm's operating account gains it; on the bought currency the client gains
  the gross amount less the fee, the operating account pays the gross amount, the fee account gains the
  fee, and the settlement account is back where it was.
\<close>

theorem swap_net_effect:
  "plan_delta amt side acc (buildSwapLegPlan fromIsFiat) = swap_result amt side acc
   \<and> distinct (map la_eventCode (concat (map sl_accounting (buildSwapLegPlan fromIsFiat))))
   \<and> map sl_legSeq (buildSwapLegPlan fromIsFiat) = [1, 2, 3, 4]"
proof -
  have "distinct (map la_eventCode (concat (map sl_accounting (buildSwapLegPlan fromIsFiat))))"
    "map sl_legSeq (buildSwapLegPlan fromIsFiat) = [1, 2, 3, 4]"
    by (simp_all add: plan_defs)
  then show ?thesis
    using plan_results by (simp add: buildSwapLegPlan_def)
qed

end
