(* ===== verification/SwapAccounting.thy ===== *)
theory SwapAccounting
  imports SwapPlan Accounting
begin

text \<open>
  Booking the legs of a swap
  (src/src/modules/trading/swap-transactions/swap-leg-accounting.ts): the settlement context, the wallets
  and ledger accounts of an entry, and the three operations on a leg's pending transfers.
\<close>

record SwapSettleCtx =
  cx_swapId :: string
  cx_swapNo :: string
  cx_ownerId :: string
  cx_fromIsFiat :: bool
  cx_fromAssetId :: string
  cx_toAssetId :: string
  cx_fromLedger :: nat
  cx_toLedger :: nat
  cx_fromCurrency :: string
  cx_toCurrency :: string
  cx_fromAmount :: rat
  cx_grossToAmount :: rat
  cx_feeAmount :: rat
  cx_fromDecimals :: nat
  cx_toDecimals :: nat
  cx_attempt :: "nat option"

fun amountDecimal :: "AmountRef \<Rightarrow> SwapSettleCtx \<Rightarrow> rat" where
  "amountDecimal Ref_from ctx = cx_fromAmount ctx"
| "amountDecimal Ref_grossTo ctx = cx_grossToAmount ctx"
| "amountDecimal Ref_fee ctx = cx_feeAmount ctx"

definition amountBigint :: "AmountRef \<Rightarrow> SwapSettleCtx \<Rightarrow> int op" where
  "amountBigint ref ctx =
     need (decimalToBigint_fixed (amountDecimal ref ctx)
             (if ref = Ref_from then cx_fromDecimals ctx else cx_toDecimals ctx))
       (SyntaxError ''BigInt'')"

definition ledgerFor :: "LegSide \<Rightarrow> SwapSettleCtx \<Rightarrow> nat" where
  "ledgerFor side ctx = (if side = Side_from then cx_fromLedger ctx else cx_toLedger ctx)"

definition currencyFor :: "LegSide \<Rightarrow> SwapSettleCtx \<Rightarrow> string" where
  "currencyFor side ctx = (if side = Side_from then cx_fromCurrency ctx else cx_toCurrency ctx)"

definition leg_asset :: "SwapLegSpec \<Rightarrow> SwapSettleCtx \<Rightarrow> string" where
  "leg_asset spec ctx = (if sl_side spec = Side_from then cx_fromAssetId ctx else cx_toAssetId ctx)"

definition legPrimaryAmountDecimal :: "SwapLegSpec \<Rightarrow> SwapSettleCtx \<Rightarrow> rat op" where
  "legPrimaryAmountDecimal spec ctx =
     (case sl_accounting spec of [] \<Rightarrow> throw (TypeError ''amountRef of undefined'')
      | a # _ \<Rightarrow> ret (amountDecimal (la_amountRef a) ctx))"

definition resolveAcct :: "TbAccountCode \<Rightarrow> nat \<Rightarrow> string \<Rightarrow> int op" where
  "resolveAcct code ledger ownerId =
     (if code = CLIENT_PAYABLE
      then resolveTbAccountId (TB_ACCOUNT_CODES code) ledger ''CUSTOMER'' (Some ownerId)
      else resolveTbAccountId (TB_ACCOUNT_CODES code) ledger ''SYSTEM'' None)"

text \<open>\<open>resolveWallet\<close> is best effort: a wallet that cannot be resolved is null.\<close>

definition resolveLegWallet :: "string \<Rightarrow> string \<Rightarrow> string \<Rightarrow> string option op" where
  "resolveLegWallet assetId role ownerId =
     handle (if role \<in> set [''C_DEP'', ''C_VIBAN'']
             then bind (resolveCustomerWallet assetId role ownerId) (\<lambda>x. ret (Some (w_id x)))
             else bind (resolveWallet assetId role) (\<lambda>x. ret (Some (w_id x))))
       (\<lambda>_. ret None)"

fun equityRoleMap :: "TbAccountCode \<Rightarrow> string option" where
  "equityRoleMap FIRM_OPS = Some ''F_OPS''"
| "equityRoleMap FIRM_SET = Some ''F_SET''"
| "equityRoleMap FIRM_FEE = Some ''F_FEE''"
| "equityRoleMap _ = None"

definition customer_role :: "string \<Rightarrow> bool" where
  "customer_role r \<longleftrightarrow> take 2 r = ''C_''"

definition walletRefForCode ::
    "TbAccountCode \<Rightarrow> TbAccountCode \<Rightarrow> SwapLegSpec \<Rightarrow> SwapSettleCtx \<Rightarrow> string option op" where
  "walletRefForCode code counterpart spec ctx =
     (let assetId = leg_asset spec ctx in
      if code = CLIENT_PAYABLE \<or> code = CLIENT_ASSET then
        (if customer_role (sl_fromRole spec) then resolveLegWallet assetId (sl_fromRole spec) (cx_ownerId ctx)
         else if customer_role (sl_toRole spec) then resolveLegWallet assetId (sl_toRole spec) (cx_ownerId ctx)
         else ret None)
      else case equityRoleMap code of
        Some role \<Rightarrow> resolveLegWallet assetId role (cx_ownerId ctx)
      | None \<Rightarrow>
          (if code = FIRM_ASSET
           then (case equityRoleMap counterpart of
                   Some role \<Rightarrow> resolveLegWallet assetId role (cx_ownerId ctx) | None \<Rightarrow> ret None)
           else ret None))"

definition resolveLegWallets :: "SwapLegSpec \<Rightarrow> SwapSettleCtx \<Rightarrow> (string option \<times> string option) op" where
  "resolveLegWallets spec ctx =
     bind (resolveLegWallet (leg_asset spec ctx) (sl_fromRole spec) (cx_ownerId ctx)) (\<lambda>fw.
     bind (resolveLegWallet (leg_asset spec ctx) (sl_toRole spec) (cx_ownerId ctx)) (\<lambda>tw.
       ret (fw, tw)))"

text \<open>The evidence of an entry.\<close>

definition swap_evidence ::
    "SwapSettleCtx \<Rightarrow> LegAccounting \<Rightarrow> string option \<Rightarrow> string option \<Rightarrow> string \<Rightarrow> EvidenceParams" where
  "swap_evidence ctx a debitRef creditRef externalRef =
     \<lparr>ep_sourceType = ''SWAP'', ep_sourceNo = cx_swapNo ctx, ep_eventCode = la_eventCode a,
      ep_traceId = cx_swapNo ctx, ep_debitCode = coa_label (la_debit a),
      ep_creditCode = coa_label (la_credit a), ep_assetCurrency = currencyFor (la_side a) ctx,
      ep_actorType = ''SYSTEM'', ep_actorId = ''SWAP_SETTLEMENT'',
      ep_memo = Some (''swap leg '' @ la_eventCode a), ep_debitWalletRef = debitRef,
      ep_creditWalletRef = creditRef, ep_externalRef = Some externalRef, ep_crossing = True\<rparr>"

definition attempt_of :: "SwapSettleCtx \<Rightarrow> nat" where
  "attempt_of ctx = default_of 1 (cx_attempt ctx)"

definition swap_ref :: "SwapSettleCtx \<Rightarrow> SwapLegSpec \<Rightarrow> string" where
  "swap_ref ctx spec =
     cx_swapNo ctx @ '':'' @ nat_str (sl_legSeq spec) @ '':'' @ nat_str (attempt_of ctx) @ '':pending''"

definition book_entry :: "SwapSettleCtx \<Rightarrow> SwapLegSpec \<Rightarrow> LegAccounting \<Rightarrow> int \<Rightarrow> unit op" where
  "book_entry ctx spec a amt =
     (let ledger = ledgerFor (la_side a) ctx in
      bind (resolveAcct (la_debit a) ledger (cx_ownerId ctx)) (\<lambda>debitId.
      bind (resolveAcct (la_credit a) ledger (cx_ownerId ctx)) (\<lambda>creditId.
      bind (walletRefForCode (la_debit a) (la_credit a) spec ctx) (\<lambda>debitRef.
      bind (walletRefForCode (la_credit a) (la_debit a) spec ctx) (\<lambda>creditRef.
      bind (executePendingTransfer debitId creditId amt ledger (TB_TRANSFER_CODES (la_code a)) 0
              (swap_evidence ctx a debitRef creditRef (swap_ref ctx spec)) (Some (attempt_of ctx)))
        (\<lambda>_. ret ()))))))"

text \<open>The loop of the three operations: entries whose amount is not positive are skipped.\<close>

definition each_entry ::
    "SwapSettleCtx \<Rightarrow> SwapLegSpec \<Rightarrow> (LegAccounting \<Rightarrow> int \<Rightarrow> unit op) \<Rightarrow> unit op" where
  "each_entry ctx spec body = forEach (sl_accounting spec) (\<lambda>a.
     bind (amountBigint (la_amountRef a) ctx) (\<lambda>amt. if amt \<le> 0 then ret () else body a amt))"

definition initiateLegPending :: "SwapSettleCtx \<Rightarrow> SwapLegSpec \<Rightarrow> unit op" where
  "initiateLegPending ctx spec = each_entry ctx spec (book_entry ctx spec)"

definition entry_id :: "SwapSettleCtx \<Rightarrow> LegAccounting \<Rightarrow> int op" where
  "entry_id ctx a = deterministicTransferId ''SWAP'' (cx_swapNo ctx) (la_eventCode a) (attempt_of ctx)"

definition postLeg :: "SwapSettleCtx \<Rightarrow> SwapLegSpec \<Rightarrow> unit op" where
  "postLeg ctx spec = each_entry ctx spec (\<lambda>a amt.
     bind (entry_id ctx a) (\<lambda>pendingId. postPendingTransfer pendingId amt))"

definition voidLeg :: "SwapSettleCtx \<Rightarrow> SwapLegSpec \<Rightarrow> unit op" where
  "voidLeg ctx spec = each_entry ctx spec (\<lambda>a amt.
     bind (entry_id ctx a) (\<lambda>pendingId. voidPendingTransfer pendingId amt))"

text \<open>The context rebuilt from the swap's row.\<close>

definition asset_currency :: "asset option \<Rightarrow> string" where
  "asset_currency a = (case a of None \<Rightarrow> '''' | Some x \<Rightarrow> a_currency x)"

definition asset_decimals :: "asset option \<Rightarrow> nat" where
  "asset_decimals a = (case a of None \<Rightarrow> 8 | Some x \<Rightarrow> a_decimals x)"

definition asset_is_fiat :: "asset option \<Rightarrow> bool" where
  "asset_is_fiat a = (case a of None \<Rightarrow> False | Some x \<Rightarrow> a_type x = ''FIAT'')"

definition ctxFromSwap :: "swap \<Rightarrow> SwapSettleCtx op" where
  "ctxFromSwap s =
     bind (getsDb (find_asset (sw_fromAssetId s))) (\<lambda>fromAsset.
     bind (getsDb (find_asset (sw_toAssetId s))) (\<lambda>toAsset.
     bind (need (TB_LEDGERS (asset_currency fromAsset)) (BadRequestException ''SWAP_UNRESOLVABLE_LEDGER'')) (\<lambda>fl.
     bind (need (TB_LEDGERS (asset_currency toAsset)) (BadRequestException ''SWAP_UNRESOLVABLE_LEDGER'')) (\<lambda>tl.
       ret \<lparr>cx_swapId = sw_id s, cx_swapNo = sw_no s, cx_ownerId = sw_ownerId s,
            cx_fromIsFiat = asset_is_fiat fromAsset, cx_fromAssetId = sw_fromAssetId s,
            cx_toAssetId = sw_toAssetId s, cx_fromLedger = fl, cx_toLedger = tl,
            cx_fromCurrency = asset_currency fromAsset, cx_toCurrency = asset_currency toAsset,
            cx_fromAmount = sw_fromAmount s, cx_grossToAmount = sw_toAmount s,
            cx_feeAmount = default_of 0 (sw_feeAmount s), cx_fromDecimals = asset_decimals fromAsset,
            cx_toDecimals = asset_decimals toAsset, cx_attempt = Some 1\<rparr>))))"

end
