(* ===== verification/SwapTransactions.thy ===== *)
theory SwapTransactions
  imports FundsFlow
begin

text \<open>
  The swap aggregate (src/src/modules/trading/swap-transactions/swap-transactions.service.ts) and its
  quotes (src/src/modules/trading/swap-fee-level/swap-quote.service.ts): the swap row, its active legs and
  the projections kept on the row, and the life of a quote.
\<close>

section \<open>The swap row\<close>

text \<open>\<open>findUniqueOrThrow\<close> is P2025 on a missing row.\<close>

definition findByNoInternal :: "string \<Rightarrow> swap op" where
  "findByNoInternal swapNo =
     bind (getsDb (\<lambda>d. find (\<lambda>s. sw_no s = swapNo) (swaps d))) (\<lambda>row. need row RecordNotFound)"

definition update_swap :: "string \<Rightarrow> (swap \<Rightarrow> swap) \<Rightarrow> swap op" where
  "update_swap swapId f =
     bind (getsDb (\<lambda>d. by_id sw_id swapId (swaps d))) (\<lambda>row.
     bind (need row RecordNotFound) (\<lambda>s.
     andThen (onDb (\<lambda>d. d\<lparr>swaps := update_rows (\<lambda>x. sw_id x = swapId) f (swaps d)\<rparr>)) (ret (f s))))"

definition markStatus :: "string \<Rightarrow> string \<Rightarrow> swap op" where
  "markStatus swapId status =
     bind now (\<lambda>t. update_swap swapId (\<lambda>s.
       s\<lparr>sw_status := status,
         sw_completedAt := (if status = ''SUCCESS'' then Some t else sw_completedAt s),
         sw_history := appendStatusHistory (sw_history s) status ''SYSTEM''
           (''Swap settlement status to '' @ status) t\<rparr>))"

section \<open>Active legs and projections\<close>

text \<open>The legs of a swap by sequence number, then latest attempt first; a null sequence number sorts
  first and counts as 0.  The first row of every sequence number is the active one.\<close>

definition seq_of :: "internal_fund \<Rightarrow> nat" where
  "seq_of f = default_of 0 (f_legSeq f)"

definition seq_order :: "internal_fund \<Rightarrow> nat" where
  "seq_order f = (case f_legSeq f of None \<Rightarrow> 0 | Some n \<Rightarrow> Suc n)"

definition swap_legs :: "string \<Rightarrow> db \<Rightarrow> internal_fund list" where
  "swap_legs swapId d =
     sort_key seq_order (sort_key (\<lambda>f. - int (f_attempt f)) (filter (\<lambda>f. f_swapId f = Some swapId) (funds d)))"

fun first_per_seq :: "nat list \<Rightarrow> internal_fund list \<Rightarrow> internal_fund list" where
  "first_per_seq seen [] = []"
| "first_per_seq seen (r # rs) =
     (if seq_of r \<in> set seen then first_per_seq seen rs
      else r # first_per_seq (seq_of r # seen) rs)"

definition activeLegsBySeq :: "string \<Rightarrow> db \<Rightarrow> internal_fund list" where
  "activeLegsBySeq swapId d = first_per_seq [] (swap_legs swapId d)"

definition working_leg :: "internal_fund list \<Rightarrow> internal_fund option" where
  "working_leg active =
     (case sort_key seq_of (filter (\<lambda>l. f_status l \<noteq> CLEAR) active) of [] \<Rightarrow> None | l # _ \<Rightarrow> Some l)"

definition recomputeProjections :: "string \<Rightarrow> (nat \<Rightarrow> string) \<Rightarrow> unit op" where
  "recomputeProjections swapId stageOf =
     bind (getsDb (activeLegsBySeq swapId)) (\<lambda>active.
     bind (update_swap swapId (\<lambda>s.
       s\<lparr>sw_stage := map_option (\<lambda>l. stageOf (seq_of l)) (working_leg active),
         sw_needsReview := list_ex (\<lambda>l. f_status l = NEEDS_REVIEW) active\<rparr>)) (\<lambda>_. ret ()))"

section \<open>Creating a swap\<close>

definition insert_swap :: "swap \<Rightarrow> swap op" where
  "insert_swap r =
     bind (getsDb swaps) (\<lambda>rs.
       if \<exists>x\<in>set rs. sw_no x = sw_no r then throw (UniqueConstraint ''swapNo'')
       else if sw_quoteId r \<noteq> None \<and> (\<exists>x\<in>set rs. sw_quoteId x = sw_quoteId r)
         then throw (UniqueConstraint ''quote_id'')
       else if \<exists>x\<in>set rs. sw_id x = sw_id r then throw (UniqueConstraint ''id'')
       else andThen (onDb (\<lambda>d. d\<lparr>swaps := swaps d @ [r]\<rparr>)) (ret r))"

definition swap_row ::
    "string \<Rightarrow> swap_quote \<Rightarrow> string \<Rightarrow> rat \<Rightarrow> rat \<Rightarrow> string \<Rightarrow> string \<Rightarrow> int \<Rightarrow> string \<Rightarrow> swap" where
  "swap_row swapNo q ownerId netToAmount spread feeCurrency traceId t rowId =
     \<lparr>sw_id = rowId, sw_no = swapNo, sw_quoteId = Some (q_id q), sw_quoteNo = q_no q,
      sw_ownerType = ''CUSTOMER'', sw_ownerId = ownerId, sw_ownerNo = q_ownerNo q,
      sw_status = ''PROCESSING'', sw_stage = None, sw_needsReview = False,
      sw_fromAssetId = q_fromAssetId q, sw_fromAssetCode = Some (q_fromAssetCode q),
      sw_fromAmount = q_amountIn q, sw_toAssetId = q_toAssetId q,
      sw_toAssetCode = Some (q_toAssetCode q), sw_toAmount = q_amountOut q,
      sw_netToAmount = Some netToAmount, sw_feeAmount = Some (q_feeTotal q),
      sw_feeCurrency = Some feeCurrency, sw_feeBreakdown = q_feeBreakdown q,
      sw_exchangeRate = q_rateAllIn q, sw_spreadAmount = Some spread, sw_traceId = Some traceId,
      sw_completedAt = None,
      sw_history = appendStatusHistory HNull ''PROCESSING'' ownerId
        ''Swap created; processing (legs pending)'' t\<rparr>"

section \<open>Quotes\<close>

definition find_quote :: "string \<Rightarrow> db \<Rightarrow> swap_quote option" where
  "find_quote i d = by_id q_id i (quotes d)"

definition put_quote :: "string \<Rightarrow> (swap_quote \<Rightarrow> swap_quote) \<Rightarrow> unit op" where
  "put_quote i f = onDb (\<lambda>d. d\<lparr>quotes := update_rows (\<lambda>q. q_id q = i) f (quotes d)\<rparr>)"

definition owned_quote :: "string \<Rightarrow> string \<Rightarrow> string \<Rightarrow> swap_quote op" where
  "owned_quote quoteId ownerType ownerId =
     bind (getsDb (find_quote quoteId)) (\<lambda>row.
     bind (need row (NotFoundException ''Quote not found'')) (\<lambda>q.
     andThen (guard (q_ownerType q = ownerType \<and> q_ownerId q = ownerId)
         (BadRequestException ''Quote does not belong to this owner''))
    (andThen (guard (q_status q = ''ACTIVE'') (BadRequestException ''Quote is not ACTIVE''))
       (ret q))))"

definition markExpired :: "string \<Rightarrow> unit op" where
  "markExpired quoteId = put_quote quoteId (\<lambda>q. q\<lparr>q_status := ''EXPIRED''\<rparr>)"

definition getActiveQuoteOrThrow :: "string \<Rightarrow> string \<Rightarrow> string \<Rightarrow> int \<Rightarrow> swap_quote op" where
  "getActiveQuoteOrThrow quoteId ownerType ownerId t =
     bind (owned_quote quoteId ownerType ownerId) (\<lambda>q.
       if q_expiresAt q < t
       then andThen (markExpired quoteId) (throw (BadRequestException ''Quote has expired''))
       else ret q)"

definition quote_actor :: "string \<Rightarrow> string" where
  "quote_actor ownerType =
     (if ownerType = ''CUSTOMER'' then ''CUSTOMER'' else if ownerType = ''ADMIN'' then ''ADMIN'' else ''SYSTEM'')"

definition quote_audit :: "string \<Rightarrow> swap_quote \<Rightarrow> string \<Rightarrow> string \<Rightarrow> string \<Rightarrow> audit" where
  "quote_audit action q reason ownerType ownerId =
     (audit0 action ''SWAP_QUOTE'')
       \<lparr>au_entityId := Some (q_id q), au_entityNo := q_no q, au_ownerType := Some (q_ownerType q),
        au_ownerId := Some (q_ownerId q), au_ownerNo := q_ownerNo q, au_reason := Some reason,
        au_actorType := quote_actor ownerType, au_actorId := ownerId, au_actorRole := quote_actor ownerType\<rparr>"

definition consumeQuote :: "string \<Rightarrow> string \<Rightarrow> string \<Rightarrow> rat \<Rightarrow> bool \<Rightarrow> swap_quote op" where
  "consumeQuote quoteId ownerType ownerId amount withClient =
     bind now (\<lambda>t.
     bind (getActiveQuoteOrThrow quoteId ownerType ownerId t) (\<lambda>q.
     andThen (guard (q_amountIn q = amount) (BadRequestException ''Quote amount does not match input amount''))
       (let f = (\<lambda>q. q\<lparr>q_status := ''USED'', q_usedAt := Some t\<rparr>) in
        andThen (put_quote quoteId f)
       (andThen (recordByActor (quote_audit ''SWAP_QUOTE_USED'' (f q) ''Swap quote consumed'' ownerType ownerId) withClient)
          (ret (f q))))))"

definition cancelQuote :: "string \<Rightarrow> string \<Rightarrow> string \<Rightarrow> bool \<Rightarrow> swap_quote op" where
  "cancelQuote quoteId ownerType ownerId withClient =
     bind (owned_quote quoteId ownerType ownerId) (\<lambda>q.
     bind now (\<lambda>t.
       let f = (\<lambda>q. q\<lparr>q_status := ''CANCELLED'', q_cancelledAt := Some t\<rparr>) in
       andThen (put_quote quoteId f)
      (andThen (recordByActor (quote_audit ''SWAP_QUOTE_CANCELLED'' (f q) ''Swap quote cancelled'' ownerType ownerId) withClient)
         (ret (f q)))))"

end
