(* ===== verification/SwapWorkflow.thy ===== *)
theory SwapWorkflow
  imports SwapAccounting SwapTransactions
begin

text \<open>
  The swap workflow (src/src/modules/trading/swap-transactions/swap-workflow.service.ts) and the customer
  gate (src/src/modules/trading/shared/customer-transaction-guard.ts): executing a quote, building and
  starting a leg, advancing a leg with its self-heal after a failure, and resuming a stuck leg.  The
  onboarding gate of \<open>executeSwap\<close> is an argument.
\<close>

section \<open>Gates\<close>

definition ensureCustomerCanTransact :: "customer option \<Rightarrow> string option \<Rightarrow> unit op" where
  "ensureCustomerCanTransact row capability =
     bind (need row (ForbiddenException ''Customer not found'')) (\<lambda>c.
     andThen (guard (c_onboardingStatus c = ''APPROVED'') (ForbiddenException ''Customer onboarding not approved''))
    (andThen (guard (c_complianceStatus c \<noteq> ''FROZEN'') (ForbiddenException ''Account is frozen''))
    (andThen (guard (c_adminStatus c = ''ACTIVE'') (ForbiddenException ''Account is not active''))
       (if truthy capability
        then guard (\<not> list_ex (\<lambda>r. Some r = capability \<or> r = ''ALL'') (c_restrictions c))
               (ForbiddenException ''Operation is currently restricted'')
        else ret ()))))"

text \<open>The R1 rule of a leg's wallets.\<close>

definition InvalidInternalFundError :: "string \<Rightarrow> error" where
  "InvalidInternalFundError what = BadRequestException (''INVALID_INTERNAL_FUND: '' @ what)"

definition assertInternalFundLegRules :: "SwapLegSpec \<Rightarrow> string option \<Rightarrow> string option \<Rightarrow> unit op" where
  "assertInternalFundLegRules spec fromW toW =
     (let fromIsCustomer = customer_role (sl_fromRole spec);
          toIsCustomer = customer_role (sl_toRole spec)
      in if fromIsCustomer \<or> toIsCustomer
         then andThen
           (guard (truthy (if fromIsCustomer then fromW else toW)) (InvalidInternalFundError ''customer wallet did not resolve''))
           (guard (truthy (if fromIsCustomer then toW else fromW)) (InvalidInternalFundError ''firm wallet did not resolve''))
         else guard (truthy fromW \<and> truthy toW) (InvalidInternalFundError ''firm-only leg requires both wallets''))"

definition MAX_LEG_ATTEMPTS :: nat where
  "MAX_LEG_ATTEMPTS = 3"

definition stageOf :: "nat \<Rightarrow> string" where
  "stageOf legSeq =
     (if legSeq = 1 then ''SELL'' else if legSeq = 2 then ''SETTLE'' else if legSeq = 3 then ''BUY''
      else if legSeq = 4 then ''FEE'' else ''UNKNOWN'')"

definition legStartAction :: "SwapLegSpec \<Rightarrow> SwapSettleCtx \<Rightarrow> InternalFundAction" where
  "legStartAction spec ctx =
     (let sideIsFiat = (sl_side spec = Side_from \<and> cx_fromIsFiat ctx)
            \<or> (sl_side spec = Side_to \<and> \<not> cx_fromIsFiat ctx)
      in if sideIsFiat then SUBMIT else SIGN)"

definition swap_audit :: "string \<Rightarrow> swap \<Rightarrow> string \<Rightarrow> (string \<times> string) list \<Rightarrow> audit" where
  "swap_audit action s reason metadata =
     (audit0 action ''SWAP_TRANSACTION'')
       \<lparr>au_entityId := Some (sw_id s), au_entityNo := Some (sw_no s),
        au_traceId := nullish (sw_traceId s) (Some (sw_no s)), au_workflowType := Some ''SWAP'',
        au_ownerType := Some (sw_ownerType s), au_ownerId := Some (sw_ownerId s),
        au_reason := Some reason, au_metadata := metadata, au_platform := Some ''SYSTEM''\<rparr>"

section \<open>Building and starting a leg\<close>

definition createAndStartLeg ::
    "swap \<Rightarrow> SwapLegSpec \<Rightarrow> SwapSettleCtx \<Rightarrow> nat \<Rightarrow> nat \<Rightarrow> string \<Rightarrow> internal_fund op" where
  "createAndStartLeg s spec ctx legSeq attempt operatorId =
     bind (legPrimaryAmountDecimal spec ctx) (\<lambda>amount.
     bind (resolveLegWallets spec ctx) (\<lambda>(fromW, toW).
     andThen (assertInternalFundLegRules spec fromW toW)
    (bind (createSwapLeg (sw_id s) legSeq (Some attempt) (leg_asset spec ctx) amount fromW toW operatorId True) (\<lambda>leg.
     andThen (initiateLegPending (ctx\<lparr>cx_attempt := Some attempt\<rparr>) spec)
    (bind (transitionSwapLeg (f_id leg) (legStartAction spec ctx) operatorId True) (\<lambda>_.
     andThen (recomputeProjections (sw_id s) stageOf)
       (ret leg)))))))"

section \<open>Advancing a leg\<close>

definition retry_audit :: "swap \<Rightarrow> nat \<Rightarrow> nat \<Rightarrow> InternalFundStatus \<Rightarrow> audit" where
  "retry_audit s legSeq failedAttempt nextStatus =
     swap_audit ''SWAP_LEG_RETRIED'' s
       (''Swap leg '' @ nat_str legSeq @ '' failed (attempt '' @ nat_str failedAttempt @ ''/''
          @ nat_str MAX_LEG_ATTEMPTS @ ''); retry attempt '' @ nat_str (failedAttempt + 1) @ '' created'')
       [(''legSeq'', nat_str legSeq), (''failedAttempt'', nat_str failedAttempt),
        (''nextAttempt'', nat_str (failedAttempt + 1)), (''failedStatus'', fund_status_str nextStatus)]"

definition stuck_audit :: "swap \<Rightarrow> nat \<Rightarrow> nat \<Rightarrow> InternalFundStatus \<Rightarrow> audit" where
  "stuck_audit s legSeq failedAttempt nextStatus =
     swap_audit ''SWAP_LEG_STUCK'' s
       (''Swap leg '' @ nat_str legSeq @ '' stuck after '' @ nat_str failedAttempt
          @ '' failed attempts; awaiting manual resume'')
       [(''legSeq'', nat_str legSeq), (''attempts'', nat_str failedAttempt),
        (''lastFailedStatus'', fund_status_str nextStatus)]"

definition onLegFailedSelfHeal ::
    "swap \<Rightarrow> SwapLegSpec \<Rightarrow> nat \<Rightarrow> SwapSettleCtx \<Rightarrow> internal_fund \<Rightarrow> InternalFundStatus \<Rightarrow> unit op" where
  "onLegFailedSelfHeal s spec legSeq ctx target nextStatus =
     (let failedAttempt = f_attempt target in
      andThen (voidLeg (ctx\<lparr>cx_attempt := Some failedAttempt\<rparr>) spec)
      (if failedAttempt < MAX_LEG_ATTEMPTS
       then bind (createAndStartLeg s spec ctx legSeq (failedAttempt + 1) ''SYSTEM'') (\<lambda>_.
              recordSystem (retry_audit s legSeq failedAttempt nextStatus) True)
       else bind (markLegNeedsReview (f_id target) failedAttempt ''SYSTEM'' True) (\<lambda>_.
              andThen (recordSystem (stuck_audit s legSeq failedAttempt nextStatus) True)
                (recomputeProjections (sw_id s) stageOf))))"

definition onLegCleared ::
    "swap \<Rightarrow> SwapLegSpec \<Rightarrow> nat \<Rightarrow> SwapLegSpec list \<Rightarrow> SwapSettleCtx \<Rightarrow> internal_fund \<Rightarrow> event option op" where
  "onLegCleared s spec legSeq allSpecs ctx target =
     andThen (postLeg (ctx\<lparr>cx_attempt := Some (f_attempt target)\<rparr>) spec)
    (andThen (recordSystem (swap_audit ''SWAP_LEG_POSTED'' s (''Swap leg '' @ nat_str legSeq @ '' posted'')
        [(''legSeq'', nat_str legSeq), (''attempt'', nat_str (f_attempt target))]) True)
     (case find_spec (legSeq + 1) allSpecs of
        None \<Rightarrow>
          bind (markStatus (sw_id s) ''SUCCESS'') (\<lambda>_.
          andThen (recordSystem (swap_audit ''SWAP_SUCCEEDED'' s ''Swap settlement completed: all legs cleared'' []) True)
         (andThen (recomputeProjections (sw_id s) stageOf)
            (ret (Some (SwapSucceeded (sw_id s) (sw_no s) (sw_ownerId s))))))
      | Some nextSpec \<Rightarrow>
          bind (createAndStartLeg s nextSpec ctx (legSeq + 1) 1 ''SYSTEM'') (\<lambda>_. ret None)))"

fun leg_terminal_fail :: "InternalFundStatus \<Rightarrow> bool" where
  "leg_terminal_fail s = (s \<in> set [FAILED, TIMEOUT, RETURNED])"

definition active_target :: "swap \<Rightarrow> nat \<Rightarrow> (internal_fund list \<times> internal_fund) op" where
  "active_target s legSeq =
     bind (getsDb (activeLegsBySeq (sw_id s))) (\<lambda>active.
     bind (need (find (\<lambda>l. f_legSeq l = Some legSeq) active) (NotFoundException ''Leg not found'')) (\<lambda>target.
       ret (active, target)))"

definition leg_spec :: "swap \<Rightarrow> nat \<Rightarrow> (SwapSettleCtx \<times> SwapLegSpec list \<times> SwapLegSpec) op" where
  "leg_spec s legSeq =
     bind (ctxFromSwap s) (\<lambda>ctx.
       let allSpecs = buildSwapLegPlan (cx_fromIsFiat ctx) in
       bind (need (find_spec legSeq allSpecs) (PlainError ''Spec not found for legSeq'')) (\<lambda>spec.
         ret (ctx, allSpecs, spec)))"

definition prior_not_clear :: "nat \<Rightarrow> internal_fund list \<Rightarrow> bool" where
  "prior_not_clear legSeq active = list_ex (\<lambda>l. seq_of l < legSeq \<and> f_status l \<noteq> CLEAR) active"

text \<open>The part of \<open>advanceLeg\<close> after its guards.\<close>

definition advance_target ::
    "swap \<Rightarrow> nat \<Rightarrow> InternalFundAction \<Rightarrow> string \<Rightarrow> internal_fund
       \<Rightarrow> ((string \<times> nat \<times> InternalFundStatus) \<times> event option) op" where
  "advance_target s legSeq action operatorId target =
     bind (leg_spec s legSeq) (\<lambda>(ctx, allSpecs, spec).
     andThen (whenM (f_status target = CREATED) (initiateLegPending ctx spec))
    (bind (transitionSwapLeg (f_id target) action operatorId True) (\<lambda>(leg, old, nextStatus).
     bind (if nextStatus = CLEAR then onLegCleared s spec legSeq allSpecs ctx target
           else if leg_terminal_fail nextStatus
             then bind (onLegFailedSelfHeal s spec legSeq ctx target nextStatus) (\<lambda>_. ret None)
           else ret None) (\<lambda>emitInfo.
       ret ((sw_id s, legSeq, nextStatus), emitInfo)))))"

definition advanceLeg_body ::
    "string \<Rightarrow> nat \<Rightarrow> InternalFundAction \<Rightarrow> string \<Rightarrow> ((string \<times> nat \<times> InternalFundStatus) \<times> event option) op" where
  "advanceLeg_body swapNo legSeq action operatorId =
     bind (findByNoInternal swapNo) (\<lambda>s.
     andThen (guard (sw_status s = ''PROCESSING'') (BadRequestException ''Swap is not in PROCESSING status''))
    (bind (active_target s legSeq) (\<lambda>(active, target).
     andThen (guard (\<not> prior_not_clear legSeq active)
         (BadRequestException ''SWAP_SEQUENCE_VIOLATION''))
       (advance_target s legSeq action operatorId target))))"

definition advanceLeg ::
    "string \<Rightarrow> nat \<Rightarrow> InternalFundAction \<Rightarrow> string \<Rightarrow> (string \<times> nat \<times> InternalFundStatus) op" where
  "advanceLeg swapNo legSeq action operatorId =
     bind (transaction (advanceLeg_body swapNo legSeq action operatorId)) (\<lambda>(result, emitInfo).
       case emitInfo of None \<Rightarrow> ret result | Some e \<Rightarrow> andThen (emit e) (ret result))"

definition resumeLeg :: "string \<Rightarrow> nat \<Rightarrow> string \<Rightarrow> (string \<times> nat \<times> nat) op" where
  "resumeLeg swapNo legSeq operatorId = transaction (
     bind (findByNoInternal swapNo) (\<lambda>s.
     andThen (guard (sw_status s = ''PROCESSING'') (BadRequestException ''SWAP_NOT_PROCESSING''))
    (bind (active_target s legSeq) (\<lambda>(active, target).
     andThen (guard (f_status target = NEEDS_REVIEW) (BadRequestException ''SWAP_LEG_NOT_STUCK''))
    (bind (leg_spec s legSeq) (\<lambda>(ctx, allSpecs, spec).
       let resumedAttempt = f_attempt target + 1 in
       bind (createAndStartLeg s spec ctx legSeq resumedAttempt operatorId) (\<lambda>_.
       andThen (recordSystem (swap_audit ''SWAP_LEG_RESUMED'' s
           (''Swap leg '' @ nat_str legSeq @ '' manually resumed by '' @ operatorId @ '' (attempt ''
              @ nat_str resumedAttempt @ '')'')
           [(''legSeq'', nat_str legSeq), (''resumedAttempt'', nat_str resumedAttempt),
            (''fromAttempt'', nat_str (f_attempt target))]) True)
         (ret (sw_id s, legSeq, resumedAttempt)))))))))"

section \<open>Executing a quote\<close>

definition resolveLedger :: "string \<Rightarrow> nat op" where
  "resolveLedger currency =
     need (TB_LEDGERS currency) (BadRequestException ''Unsupported asset currency for TB accounting'')"

definition round_half_up :: "nat \<Rightarrow> rat \<Rightarrow> rat" where
  "round_half_up d v = sgn v * of_int \<lfloor>\<bar>v\<bar> * 10 ^ d + 1 / 2\<rfloor> / 10 ^ d"

definition error_message :: "error \<Rightarrow> string" where
  "error_message e = (case e of
     NotFoundException s \<Rightarrow> s | BadRequestException s \<Rightarrow> s | ForbiddenException s \<Rightarrow> s
   | ConflictException s \<Rightarrow> s | InternalServerErrorException s \<Rightarrow> s
   | UniqueConstraint s \<Rightarrow> ''Unique constraint failed: '' @ s | RecordNotFound \<Rightarrow> ''Record not found''
   | TypeError s \<Rightarrow> s | SyntaxError s \<Rightarrow> s | PlainError s \<Rightarrow> s)"

text \<open>The audit of a failed execution is written without the transaction's client, so it outlives the
  rollback; it carries the trace id when the quote had been read.\<close>

definition audit_swap_failed :: "string \<Rightarrow> string \<Rightarrow> string option \<Rightarrow> error \<Rightarrow> 'a op" where
  "audit_swap_failed ownerId swapNo traceId e =
     andThen (recordSystem ((audit0 ''SWAP_FAILED'' ''SWAP_TRANSACTION'')
         \<lparr>au_entityNo := Some swapNo, au_ownerType := Some ''CUSTOMER'', au_ownerId := Some ownerId,
          au_workflowType := Some ''SWAP'', au_reason := Some (error_message e),
          au_platform := Some ''SYSTEM'', au_traceId := traceId\<rparr>) False)
       (throw e)"

definition asset_or_code :: "asset option \<Rightarrow> string \<Rightarrow> string" where
  "asset_or_code a code = (let c = asset_currency a in if c = '''' then code else c)"

definition swap_created_audit :: "swap \<Rightarrow> swap_quote \<Rightarrow> string \<Rightarrow> audit" where
  "swap_created_audit s q ownerId =
     (audit0 ''SWAP_CREATED'' ''SWAP_TRANSACTION'')
       \<lparr>au_entityId := Some (sw_id s), au_entityNo := Some (sw_no s), au_traceId := sw_traceId s,
        au_workflowType := Some ''SWAP'', au_ownerType := Some (sw_ownerType s),
        au_ownerId := Some (sw_ownerId s), au_ownerNo := sw_ownerNo s,
        au_reason := Some (''Swap executed from quote '' @ default_of (q_id q) (or_else (q_no q) None)),
        au_platform := Some ''CUSTOMER_API'', au_actorType := ''CUSTOMER'', au_actorId := ownerId,
        au_actorRole := ''CUSTOMER''\<rparr>"

definition execute_quote :: "string \<Rightarrow> string \<Rightarrow> swap_quote \<Rightarrow> string \<Rightarrow> swap op" where
  "execute_quote ownerId swapNo q traceId =
     bind (if truthy (q_amountOutNet q)
           then need (new_Decimal (the (q_amountOutNet q))) (PlainError ''DecimalError'')
           else ret (q_amountOut q)) (\<lambda>netToAmount.
     bind (consumeQuote (q_id q) ''CUSTOMER'' ownerId (q_amountIn q) True) (\<lambda>_.
     bind (getsDb (find_asset (q_fromAssetId q))) (\<lambda>fromAsset.
     bind (getsDb (find_asset (q_toAssetId q))) (\<lambda>toAsset.
       let fromCurrency = asset_or_code fromAsset (q_fromAssetCode q);
           toCurrency = asset_or_code toAsset (q_toAssetCode q);
           fromDecimals = asset_decimals fromAsset; toDecimals = asset_decimals toAsset
       in
     bind (resolveLedger fromCurrency) (\<lambda>fromLedger.
     bind (resolveLedger toCurrency) (\<lambda>toLedger.
     bind now (\<lambda>t.
     bind randomUUID (\<lambda>rowId.
       let spread = round_half_up toDecimals (q_amountIn q * q_marketRate q) - q_amountOut q;
           feeCurrency = (if q_feeCurrency q = '''' then q_toAssetCode q else q_feeCurrency q)
       in
     bind (insert_swap (swap_row swapNo q ownerId netToAmount spread feeCurrency traceId t rowId)) (\<lambda>s.
     andThen (recordByActor (swap_created_audit s q ownerId) True)
      (let ctx = \<lparr>cx_swapId = sw_id s, cx_swapNo = swapNo, cx_ownerId = ownerId,
             cx_fromIsFiat = asset_is_fiat fromAsset, cx_fromAssetId = q_fromAssetId q,
             cx_toAssetId = q_toAssetId q, cx_fromLedger = fromLedger, cx_toLedger = toLedger,
             cx_fromCurrency = fromCurrency, cx_toCurrency = toCurrency, cx_fromAmount = q_amountIn q,
             cx_grossToAmount = q_amountOut q, cx_feeAmount = q_feeTotal q,
             cx_fromDecimals = fromDecimals, cx_toDecimals = toDecimals, cx_attempt = None\<rparr> in
       bind (createAndStartLeg s (hd (buildSwapLegPlan (cx_fromIsFiat ctx))) ctx 1 1 ''SYSTEM'') (\<lambda>_.
         ret s)))))))))))"

definition swap_detail :: "string \<Rightarrow> (swap \<times> internal_fund list) op" where
  "swap_detail i =
     bind (getsDb (\<lambda>d. by_id sw_id i (swaps d))) (\<lambda>row.
     bind (need row (NotFoundException ''Swap transaction not found'')) (\<lambda>s.
     bind (getsDb (\<lambda>d. sort_key seq_order (sort_key f_attempt (filter (\<lambda>f. f_swapId f = Some i) (funds d)))))
       (\<lambda>legs. ret (s, legs))))"

definition executeSwap ::
    "(string \<Rightarrow> string \<Rightarrow> unit op) \<Rightarrow> string \<Rightarrow> string \<Rightarrow> (swap \<times> internal_fund list) op" where
  "executeSwap assertTradingEligibility ownerId quoteId =
     bind (getsDb (\<lambda>d. by_id c_id ownerId (customers d))) (\<lambda>c.
     andThen (ensureCustomerCanTransact c None)
    (andThen (assertTradingEligibility ownerId ''SWAP'')
    (bind now (\<lambda>t.
     bind (generateReferenceNo ''SWP'') (\<lambda>swapNo.
     bind (transaction (
       bind (handle (getActiveQuoteOrThrow quoteId ''CUSTOMER'' ownerId t)
               (audit_swap_failed ownerId swapNo None)) (\<lambda>q.
       bind (case q_traceId q of None \<Rightarrow> randomUUID | Some x \<Rightarrow> ret x) (\<lambda>traceId.
         handle (execute_quote ownerId swapNo q traceId)
           (audit_swap_failed ownerId swapNo (Some traceId)))))) (\<lambda>s.
     swap_detail (sw_id s)))))))"

end
