(* ===== verification/SwapFacts.thy ===== *)
theory SwapFacts
  imports SwapWorkflow FlowFacts
begin

text \<open>
  Lemmas on the swap workflow: the ledger operations leave every other table alone, the booking and the
  posting of a leg name the same pending transfers, what advancing and resuming a leg require, and the
  effect of the leg operations on the legs of a swap.
\<close>

section \<open>Frames\<close>

text \<open>Everything of the database but the evidence, its projection and the audit rows.\<close>

definition core :: "world \<Rightarrow> db" where
  "core w = (db w)\<lparr>evidences := [], flows := [], audits := []\<rparr>"

lemma core_basic:
  "steps (same core) (submit t)" "steps (same core) tbId" "steps (same core) (getsDb f)"
  "steps (same core) now" "steps (same core) (insert_evidence e)" "steps (same core) (writeToBacklog i)"
  "steps (same core) (upsert_flow r)" "steps (same core) (deterministicTransferId a b c n)"
  "steps (same core) (recordByActor x withClient)"
  "steps (same core) (onDb (\<lambda>d. d\<lparr>evidences := g (evidences d)\<rparr>))"
  by (auto simp: steps_wp wp_submit Let_def same_def core_def writeToBacklog_def insert_evidence_def)

lemma persist_core: "steps (same core) (persist e)"
  unfolding persist_def assertWalletRefMatchesTbAccount_def by (intro frame.combinators core_basic)

lemma record_transfer_core: "steps (same core) (record_transfer ty failure t p)"
  unfolding record_transfer_def writeEvidence_def Let_def
  by (intro frame.combinators core_basic persist_core)

lemma change_evidence_core: "steps (same core) (change_evidence i f)"
  unfolding change_evidence_def by (intro frame.combinators core_basic persist_core)

lemma ledger_ops_core:
  "steps (same core) (executeTransfer d c a l k ep)"
  "steps (same core) (executePendingTransfer d c a l k tm ep n)"
  "steps (same core) (postPendingTransfer p a)" "steps (same core) (voidPendingTransfer p a)"
  "steps (same core) (enrichForPost i x)"
  unfolding executeTransfer_def executePendingTransfer_def postPendingTransfer_def
    voidPendingTransfer_def close_pending_def enrichForPost_def updateTransferType_def
  by (intro frame.combinators core_basic record_transfer_core change_evidence_core)+

lemma resolve_core:
  "steps (same core) (resolveTbAccountId code l ty o')" "steps (same core) (resolveWallet a r)"
  "steps (same core) (resolveCustomerWallet a r i)"
  unfolding resolveTbAccountId_def resolveWallet_def resolveCustomerWallet_def
  by (intro frame.combinators core_basic)+

lemma amountBigint_ok: "amountBigint ref ctx = ret (nearest_units (amountDecimal ref ctx)
    (if ref = Ref_from then cx_fromDecimals ctx else cx_toDecimals ctx))"
  by (simp add: amountBigint_def decimalToBigint_fixed_eq need_def)

lemma book_entry_core: "steps (same core) (book_entry ctx spec a amt)"
  unfolding book_entry_def Let_def resolveAcct_def walletRefForCode_def resolveLegWallet_def
  by (intro frame.combinators core_basic resolve_core ledger_ops_core)

lemma leg_ops_core:
  "steps (same core) (initiateLegPending ctx spec)" "steps (same core) (postLeg ctx spec)"
  "steps (same core) (voidLeg ctx spec)"
  unfolding initiateLegPending_def postLeg_def voidLeg_def each_entry_def amountBigint_ok entry_id_def
  by (intro frame.combinators core_basic book_entry_core ledger_ops_core)+

lemma wp_same_core:
  assumes "steps (same core) m" "\<And>a v. core v = core w \<Longrightarrow> Q a v" "\<And>e v. core v = core w \<Longrightarrow> E e v"
  shows "wp m Q E w"
proof -
  have "wp m (\<lambda>_ v. core v = core w) (\<lambda>_ v. core v = core w) w"
    using assms(1) by (auto simp: steps_def same_def wp_run)
  then show ?thesis
    by (rule wp_mono) (auto intro: assms)
qed

section \<open>Booking and posting name the same transfers\<close>

definition entry_amount :: "SwapSettleCtx \<Rightarrow> LegAccounting \<Rightarrow> int" where
  "entry_amount ctx a = nearest_units (amountDecimal (la_amountRef a) ctx)
     (if la_amountRef a = Ref_from then cx_fromDecimals ctx else cx_toDecimals ctx)"

text \<open>The entries a leg books: those with a positive number of units.\<close>

definition booked_entries :: "SwapSettleCtx \<Rightarrow> SwapLegSpec \<Rightarrow> LegAccounting list" where
  "booked_entries ctx spec = filter (\<lambda>a. 0 < entry_amount ctx a) (sl_accounting spec)"

definition entry_key :: "SwapSettleCtx \<Rightarrow> LegAccounting \<Rightarrow> string" where
  "entry_key ctx a = transfer_key ''SWAP'' (cx_swapNo ctx) (la_eventCode a) (attempt_of ctx)"

definition books_entry :: "(string \<Rightarrow> int) \<Rightarrow> SwapSettleCtx \<Rightarrow> (tb_transfer \<times> tb_status) \<Rightarrow> LegAccounting \<Rightarrow> bool" where
  "books_entry sha ctx = (\<lambda>(t, s) a. \<not> real_error s \<and> tr_id t = sha (entry_key ctx a)
     \<and> tr_amount t = entry_amount ctx a \<and> tr_ledger t = ledgerFor (la_side a) ctx
     \<and> tr_code t = TB_TRANSFER_CODES (la_code a) \<and> tr_flag t = Flag_pending)"

definition closes_entry :: "tb_flag \<Rightarrow> (string \<Rightarrow> int) \<Rightarrow> SwapSettleCtx \<Rightarrow> (tb_transfer \<times> tb_status) \<Rightarrow> LegAccounting \<Rightarrow> bool" where
  "closes_entry flag sha ctx = (\<lambda>(t, s) a. \<not> real_error s \<and> tr_pending_id t = sha (entry_key ctx a)
     \<and> tr_amount t = entry_amount ctx a \<and> tr_flag t = flag)"

definition sends :: "((tb_transfer \<times> tb_status) \<Rightarrow> 'e \<Rightarrow> bool) \<Rightarrow> 'e list \<Rightarrow> world \<Rightarrow> world \<Rightarrow> bool" where
  "sends Q es w v \<longleftrightarrow> sha_id v = sha_id w \<and> (\<exists>zs. tb_log v = tb_log w @ zs \<and> list_all2 Q zs es)"

lemma sends_Nil: "sends Q [] w w"
  by (simp add: sends_def)

lemma sends_append: "sends Q xs u v \<Longrightarrow> sends Q ys v w \<Longrightarrow> sends Q (xs @ ys) u w"
  unfolding sends_def by (metis append.assoc list_all2_appendI)

lemma wp_forEach_sends:
  assumes "\<And>x v. x \<in> set xs \<Longrightarrow> sha_id v = sha_id w \<Longrightarrow> wp (f x) (\<lambda>_. sends Q (g x) v) (\<lambda>_ _. True) v"
  shows "wp (forEach xs f) (\<lambda>_. sends Q (concat (map g xs)) w) (\<lambda>_ _. True) w"
  using assms
proof (induction xs arbitrary: w)
  case (Cons x xs)
  have "wp (forEach xs f) (\<lambda>_. sends Q (g x @ concat (map g xs)) w) (\<lambda>_ _. True) v" if "sends Q (g x) w v" for v
  proof (rule wp_mono[OF Cons.IH[of v]])
    show "wp (f y) (\<lambda>_. sends Q (g y) u) (\<lambda>_ _. True) u" if "y \<in> set xs" "sha_id u = sha_id v" for y u
      using Cons.prems[of y u] that \<open>sends Q (g x) w v\<close> unfolding sends_def[of _ _ w v] by simp
  qed (use sends_append[OF that] in auto)
  then show ?case
    using Cons.prems[of x w] by (auto elim!: wp_mono)
qed (simp add: sends_Nil)

text \<open>Commands that send nothing.\<close>

lemma sends_same: "steps (same (\<lambda>w. (sha_id w, tb_log w))) m \<Longrightarrow> wp m (\<lambda>_. sends Q [] w) (\<lambda>_. sends Q [] w) w"
  by (auto simp: steps_wp same_def sends_def elim!: wp_mono dest!: spec[of _ w])

lemma quiet_basic:
  "steps (same (\<lambda>w. (sha_id w, tb_log w))) tbId" "steps (same (\<lambda>w. (sha_id w, tb_log w))) (getsDb f)"
  "steps (same (\<lambda>w. (sha_id w, tb_log w))) now" "steps (same (\<lambda>w. (sha_id w, tb_log w))) (onDb h)"
  "steps (same (\<lambda>w. (sha_id w, tb_log w))) (writeToBacklog i)"
  "steps (same (\<lambda>w. (sha_id w, tb_log w))) (upsert_flow r)"
  "steps (same (\<lambda>w. (sha_id w, tb_log w))) (deterministicTransferId a b c n)"
  by (auto simp: steps_wp same_def writeToBacklog_def)

lemma quiet_persist: "steps (same (\<lambda>w. (sha_id w, tb_log w))) (persist e)"
  unfolding persist_def assertWalletRefMatchesTbAccount_def by (intro frame.combinators quiet_basic)

lemma quiet_writes:
  "steps (same (\<lambda>w. (sha_id w, tb_log w))) (writeEvidence row)"
  "steps (same (\<lambda>w. (sha_id w, tb_log w))) (change_evidence i f)"
  unfolding writeEvidence_def change_evidence_def Let_def insert_evidence_def
  by (intro frame.combinators quiet_basic quiet_persist)+

lemma quiet_after:
  assumes "steps (same (\<lambda>w. (sha_id w, tb_log w))) m" "sends Q es w v"
  shows "wp m (\<lambda>_. sends Q es w) (\<lambda>_ _. True) v"
  using assms by (auto simp: steps_wp same_def sends_def elim!: wp_mono dest!: spec[of _ v])

lemma wp_record_transfer_sends:
  assumes "\<And>s. \<not> real_error s \<Longrightarrow> Q (t, s) a"
  shows "wp (record_transfer ty failure t p) (\<lambda>_. sends Q [a] w) (\<lambda>_ _. True) w"
proof -
  have sent: "sends Q [a] w (w\<lparr>tb_log := tb_log w @ [(t, tb_reply w (tb_log w) t)]\<rparr>)"
    if "\<not> real_error (tb_reply w (tb_log w) t)"
    using that assms by (simp add: sends_def)
  show ?thesis
    using sent by (auto simp: record_transfer_def wp_submit Let_def intro!: quiet_after quiet_writes)
qed

lemma wp_close_pending_sends:
  assumes "\<And>i s. \<not> real_error s \<Longrightarrow> Q (closing flag i p amt, s) a"
  shows "wp (close_pending flag ty failure p amt) (\<lambda>_. sends Q [a] w) (\<lambda>_ _. True) w"
proof -
  have "wp (updateTransferType i ty (Some j)) (\<lambda>_. sends Q [a] w) (\<lambda>_ _. True)
      (w\<lparr>tbid_pos := n, tb_log := tb_log w @ [(closing flag k p amt, s)]\<rparr>)"
    if "\<not> real_error s" for i j k n s
    unfolding updateTransferType_def
    using that assms by (intro quiet_after quiet_writes) (simp add: sends_def)
  then show ?thesis
    by (auto simp: close_pending_def wp_submit Let_def)
qed

lemma filter_concat: "filter P xs = concat (map (\<lambda>x. if P x then [x] else []) xs)"
  by (induction xs) auto

lemma resolve_quiet:
  "steps (same (\<lambda>w. (sha_id w, tb_log w))) (resolveAcct c l i)"
  "steps (same (\<lambda>w. (sha_id w, tb_log w))) (walletRefForCode c k spec ctx)"
  unfolding resolveAcct_def walletRefForCode_def Let_def resolveLegWallet_def resolveTbAccountId_def
    resolveWallet_def resolveCustomerWallet_def
  by (intro frame.combinators quiet_basic)+

lemma wp_quiet:
  assumes "steps (same (\<lambda>w. (sha_id w, tb_log w))) m"
    "\<And>a v. sha_id v = sha_id w \<Longrightarrow> tb_log v = tb_log w \<Longrightarrow> Q a v" "\<And>e v. E e v"
  shows "wp m Q E w"
  using assms by (auto simp: steps_wp same_def elim!: wp_mono dest!: spec[of _ w])

lemma sends_cong: "sha_id v = sha_id w \<Longrightarrow> tb_log v = tb_log w \<Longrightarrow> sends Q es v = sends Q es w"
  by (simp add: sends_def fun_eq_iff)

lemma wp_book_entry:
  "wp (book_entry ctx spec a (entry_amount ctx a)) (\<lambda>_. sends (books_entry (sha_id w) ctx) [a] w) (\<lambda>_ _. True) w"
proof -
  have "wp (executePendingTransfer d c (entry_amount ctx a) (ledgerFor (la_side a) ctx)
        (TB_TRANSFER_CODES (la_code a)) 0 (swap_evidence ctx a dr cr (swap_ref ctx spec)) (Some (attempt_of ctx)))
      (\<lambda>_. sends (books_entry (sha_id w) ctx) [a] w) (\<lambda>_ _. True) v"
    if "sha_id v = sha_id w" "tb_log v = tb_log w" for d c dr cr v
    unfolding sends_cong[OF that, symmetric] executePendingTransfer_def wp_bind wp_deterministicTransferId
    by (rule wp_record_transfer_sends)
      (simp add: books_entry_def entry_key_def swap_evidence_def that default_of_def)
  then show ?thesis
    unfolding book_entry_def Let_def wp_bind
    by (intro wp_quiet[OF resolve_quiet(1)] wp_quiet[OF resolve_quiet(2)]) (auto elim!: wp_mono simp: )
qed

lemma wp_each_entry:
  assumes "\<And>a v. a \<in> set (sl_accounting spec) \<Longrightarrow> sha_id v = sha_id w \<Longrightarrow>
      wp (body a (entry_amount ctx a)) (\<lambda>_. sends Q [a] v) (\<lambda>_ _. True) v"
  shows "wp (each_entry ctx spec body) (\<lambda>_. sends Q (booked_entries ctx spec) w) (\<lambda>_ _. True) w"
  unfolding each_entry_def booked_entries_def filter_concat
proof (rule wp_forEach_sends)
  fix a and v :: world
  assume "a \<in> set (sl_accounting spec)" "sha_id v = sha_id w"
  then show "wp (bind (amountBigint (la_amountRef a) ctx) (\<lambda>amt. if amt \<le> 0 then ret () else body a amt))
      (\<lambda>_. sends Q (if 0 < entry_amount ctx a then [a] else []) v) (\<lambda>_ _. True) v"
    using assms by (simp add: amountBigint_ok entry_amount_def sends_Nil)
qed

lemma wp_initiateLegPending:
  "wp (initiateLegPending ctx spec) (\<lambda>_. sends (books_entry (sha_id w) ctx) (booked_entries ctx spec) w)
     (\<lambda>_ _. True) w"
  unfolding initiateLegPending_def
proof (rule wp_each_entry)
  fix a and v :: world
  assume "sha_id v = sha_id w"
  then show "wp (book_entry ctx spec a (entry_amount ctx a)) (\<lambda>_. sends (books_entry (sha_id w) ctx) [a] v)
      (\<lambda>_ _. True) v"
    using wp_book_entry[of ctx spec a v] by simp
qed

lemma wp_close_leg:
  assumes "\<And>p amt. f p amt = close_pending flag ty failure p amt"
  shows "wp (each_entry ctx spec (\<lambda>a amt. bind (entry_id ctx a) (\<lambda>p. f p amt)))
    (\<lambda>_. sends (closes_entry flag (sha_id w) ctx) (booked_entries ctx spec) w) (\<lambda>_ _. True) w"
proof (rule wp_each_entry)
  fix a and v :: world
  assume "sha_id v = sha_id w"
  then show "wp (bind (entry_id ctx a) (\<lambda>p. f p (entry_amount ctx a)))
      (\<lambda>_. sends (closes_entry flag (sha_id w) ctx) [a] v) (\<lambda>_ _. True) v"
    unfolding entry_id_def wp_bind wp_deterministicTransferId assms
    by (intro wp_close_pending_sends) (simp add: closes_entry_def closing_def entry_key_def)
qed

lemma wp_postLeg: "wp (postLeg ctx spec)
    (\<lambda>_. sends (closes_entry Flag_post (sha_id w) ctx) (booked_entries ctx spec) w) (\<lambda>_ _. True) w"
  unfolding postLeg_def by (rule wp_close_leg) (simp add: postPendingTransfer_def)

lemma wp_voidLeg: "wp (voidLeg ctx spec)
    (\<lambda>_. sends (closes_entry Flag_void (sha_id w) ctx) (booked_entries ctx spec) w) (\<lambda>_ _. True) w"
  unfolding voidLeg_def by (rule wp_close_leg) (simp add: voidPendingTransfer_def)

end
