(* ===== verification/SwapRuns.thy ===== *)
theory SwapRuns
  imports SwapFacts
begin

text \<open>
  The swap workflow as runs: its operations are runs of the ledger followed by changes to other tables, so
  the ledger's invariants go through them; what the leg operations do to the legs; and the runs of the
  workflow themselves.
\<close>

section \<open>The ledger's invariants through the workflow\<close>

definition ledger_view :: "world \<Rightarrow> tb_log \<times> tb_evidence list \<times> account_flow list \<times> wallet list \<times> tb_account list" where
  "ledger_view w = (tb_log w, evidences (db w), flows (db w), wallets (db w), registry (db w))"

text \<open>Both invariants of the ledger at once.\<close>

definition books_sound :: "world \<Rightarrow> world \<Rightarrow> bool" where
  "books_sound s t \<longleftrightarrow> ledger_grows s t \<and> r2_step s t"

interpretation sound_books: tx_guarantee books_sound
proof
  show "books_sound s s" for s
    by (simp add: books_sound_def grows.R_refl r2.R_refl)
  show "books_sound s u" if "books_sound s t" "books_sound t u" for s t u
    using that grows.R_trans r2.R_trans unfolding books_sound_def by blast
  show "books_sound s (t\<lparr>db := db s\<rparr>)" if "books_sound s t" for s t
    using that grows.R_rollback r2.R_rollback unfolding books_sound_def by blast
qed

lemma books_sound_steps: "steps ledger_grows m \<Longrightarrow> steps r2_step m \<Longrightarrow> steps books_sound m"
  by (simp add: steps_def books_sound_def)

lemma books_sound_view: "steps (same ledger_view) m \<Longrightarrow> steps books_sound m"
  by (auto simp: steps_def same_def ledger_view_def books_sound_def intro: ledger_growsI[where xs = "[]"] r2_stepI)

lemma view_basic:
  "steps (same ledger_view) (getsDb f)" "steps (same ledger_view) now" "steps (same ledger_view) randomUUID"
  "steps (same ledger_view) (generateReferenceNo p)" "steps (same ledger_view) (recordByActor x withClient)"
  "steps (same ledger_view) (recordSystem x withClient)" "steps (same ledger_view) (insert_fund r)"
  "steps (same ledger_view) (put_fund i r)" "steps (same ledger_view) (put_quote q h)"
  "steps (same ledger_view) (onDb (\<lambda>d. d\<lparr>swaps := k (swaps d)\<rparr>))" "steps (same ledger_view) (emit e)"
  by (auto simp: steps_wp same_def ledger_view_def wp_insert_fund put_fund_def put_quote_def)

lemma view_with_unique_no:
  "(\<And>no. steps (same ledger_view) (body no)) \<Longrightarrow> steps (same ledger_view) (with_unique_no n p col body)"
proof (induction n)
  case (Suc n)
  show ?case
    unfolding with_unique_no.simps by (intro frame.combinators view_basic Suc)
qed (simp add: frame.throw)

lemma view_ops:
  "steps (same ledger_view) (createSwapLeg s n k a m fw tw op True)"
  "steps (same ledger_view) (transitionSwapLeg i act op True)"
  "steps (same ledger_view) (markLegNeedsReview i att op True)"
  "steps (same ledger_view) (update_swap sid h)"
  "steps (same ledger_view) (recomputeProjections sid stage)"
  "steps (same ledger_view) (markStatus sid st)"
  unfolding createSwapLeg_def create_numbered_def transitionSwapLeg_def markLegNeedsReview_def inTx_def
    if_True Let_def recomputeProjections_def markStatus_def update_swap_def
  by (intro frame.combinators view_basic view_with_unique_no)+

lemma book_entry_books: "steps books_sound (book_entry ctx spec a amt)"
proof -
  have "steps (same ledger_view) (resolveAcct c l i)" "steps (same ledger_view) (walletRefForCode c k spec ctx)" for c k l i
    unfolding resolveAcct_def walletRefForCode_def Let_def resolveLegWallet_def resolveTbAccountId_def
      resolveWallet_def resolveCustomerWallet_def
    by (intro frame.combinators view_basic)+
  then show ?thesis
    unfolding book_entry_def Let_def
    by (intro sound_books.combinators books_sound_view[of "resolveAcct _ _ _"]
        books_sound_view[of "walletRefForCode _ _ _ _"]
        books_sound_steps[OF executePendingTransfer_grows ledger_ops_r2(2)])
qed

lemma leg_ops_books:
  "steps books_sound (initiateLegPending ctx spec)" "steps books_sound (postLeg ctx spec)"
  "steps books_sound (voidLeg ctx spec)"
  unfolding initiateLegPending_def postLeg_def voidLeg_def each_entry_def amountBigint_ok entry_id_def
    deterministicTransferId_def
  by (intro sound_books.combinators book_entry_books books_sound_steps[OF post_void_grows(1) ledger_ops_r2(3)]
      books_sound_steps[OF post_void_grows(2) ledger_ops_r2(4)])+

lemmas view_books = view_basic[THEN books_sound_view] view_ops[THEN books_sound_view]

lemma primary_view: "steps (same ledger_view) (legPrimaryAmountDecimal spec ctx)"
  by (cases "sl_accounting spec") (simp_all add: legPrimaryAmountDecimal_def frame.ret frame.throw)

lemma wallets_view: "steps (same ledger_view) (resolveLegWallets spec ctx)"
  unfolding resolveLegWallets_def resolveLegWallet_def resolveWallet_def resolveCustomerWallet_def
  by (intro frame.combinators view_basic)

lemma split_books:
  "(\<And>a b. steps books_sound (f a b)) \<Longrightarrow> steps books_sound (case p of (a, b) \<Rightarrow> f a b)"
  "(\<And>a b c. steps books_sound (g a b c)) \<Longrightarrow> steps books_sound (case q of (a, b, c) \<Rightarrow> g a b c)"
  by (simp_all split: prod.split)

lemma createAndStartLeg_books: "steps books_sound (createAndStartLeg s spec ctx n k op)"
  unfolding createAndStartLeg_def assertInternalFundLegRules_def Let_def
  by (intro sound_books.combinators split_books view_books leg_ops_books primary_view[THEN books_sound_view]
      wallets_view[THEN books_sound_view])

lemma ctxFromSwap_view: "steps (same ledger_view) (ctxFromSwap s)"
  unfolding ctxFromSwap_def by (intro frame.combinators view_basic)

lemma self_heal_books: "steps books_sound (onLegFailedSelfHeal s spec n ctx target st)"
  unfolding onLegFailedSelfHeal_def Let_def
  by (intro sound_books.combinators view_books leg_ops_books createAndStartLeg_books)

lemma cleared_books: "steps books_sound (onLegCleared s spec n specs ctx target)"
  unfolding onLegCleared_def
  by (intro sound_books.combinators view_books leg_ops_books createAndStartLeg_books)

lemma leg_lookup_books:
  "steps books_sound (findByNoInternal no)" "steps books_sound (active_target s n)"
  "steps books_sound (leg_spec s n)"
  unfolding findByNoInternal_def active_target_def leg_spec_def Let_def
  by (intro sound_books.combinators view_books ctxFromSwap_view[THEN books_sound_view])+

lemma advanceLeg_books: "steps books_sound (advanceLeg no n act op)"
  unfolding advanceLeg_def advanceLeg_body_def advance_target_def
  by (intro sound_books.combinators sound_books.transaction split_books leg_lookup_books view_books
      leg_ops_books cleared_books self_heal_books)

lemma resumeLeg_books: "steps books_sound (resumeLeg no n op)"
  unfolding resumeLeg_def Let_def
  by (intro sound_books.combinators sound_books.transaction split_books leg_lookup_books view_books
      createAndStartLeg_books)

end
