(* ===== verification/SwapEffects.thy ===== *)
theory SwapEffects
  imports SwapRuns FundsFlowSteps
begin

text \<open>
  What the swap workflow's operations do to the legs and to the swap's status: starting a leg appends one
  row, a cleared leg starts the next one or completes the swap, and a failed one is retried or parked.
\<close>

section \<open>Commands that only read\<close>

definition reads :: "'a op \<Rightarrow> bool" where
  "reads m \<longleftrightarrow> steps (same (\<lambda>w. w)) m"

lemma wp_reads: "reads m \<Longrightarrow> (\<And>a. Q a w) \<Longrightarrow> (\<And>e. E e w) \<Longrightarrow> wp m Q E w"
  unfolding reads_def steps_wp same_def by (auto elim!: wp_mono dest!: spec[of _ w])

lemma reads_ops:
  "reads (legPrimaryAmountDecimal spec ctx)" "reads (resolveLegWallets spec ctx)"
  "reads (assertInternalFundLegRules spec fw tw)" "reads (ctxFromSwap s)"
proof -
  have basic: "steps (same (\<lambda>w :: world. w)) (getsDb f)" for f :: "db \<Rightarrow> 'c"
    by (simp add: steps_wp same_def)
  show "reads (legPrimaryAmountDecimal spec ctx)"
    by (cases "sl_accounting spec") (simp_all add: reads_def legPrimaryAmountDecimal_def frame.ret frame.throw)
  show "reads (resolveLegWallets spec ctx)"
    unfolding reads_def resolveLegWallets_def resolveLegWallet_def resolveWallet_def resolveCustomerWallet_def
    by (intro frame.combinators basic)
  show "reads (assertInternalFundLegRules spec fw tw)"
    unfolding reads_def assertInternalFundLegRules_def Let_def by (intro frame.combinators)
  show "reads (ctxFromSwap s)"
    unfolding reads_def ctxFromSwap_def by (intro frame.combinators basic)
qed

section \<open>What is left alone\<close>

text \<open>The database without the ledger tables, the legs and the swaps; and the swaps' statuses.\<close>

definition side :: "world \<Rightarrow> db" where
  "side w = (db w)\<lparr>evidences := [], flows := [], audits := [], funds := [], swaps := []\<rparr>"

definition swap_view :: "world \<Rightarrow> (string \<times> string \<times> string) list" where
  "swap_view w = map (\<lambda>s. (sw_id s, sw_no s, sw_status s)) (swaps (db w))"

definition around :: "world \<Rightarrow> db \<times> (string \<times> string \<times> string) list" where
  "around w = (side w, swap_view w)"

lemma core_around: "core v = core w \<Longrightarrow> around v = around w \<and> funds (db v) = funds (db w) \<and> assets (db v) = assets (db w)"
proof -
  assume eq: "core v = core w"
  have parts: "side u = (core u)\<lparr>funds := [], swaps := []\<rparr>" "swaps (db u) = swaps (core u)"
    "funds (db u) = funds (core u)" "assets (db u) = assets (core u)" for u
    by (simp_all add: core_def side_def)
  show ?thesis
    unfolding around_def swap_view_def parts eq by simp
qed

lemma wp_recomputeProjections:
  assumes "\<And>v. around v = around w \<Longrightarrow> funds (db v) = funds (db w) \<Longrightarrow> Q () v"
  shows "wp (recomputeProjections sid st) Q (\<lambda>_ _. True) w"
  by (auto simp: recomputeProjections_def update_swap_def around_def side_def swap_view_def
      map_update_rows split: option.split intro!: assms)

section \<open>Starting a leg\<close>

definition started :: "string \<Rightarrow> nat \<Rightarrow> nat \<Rightarrow> internal_fund \<Rightarrow> bool" where
  "started sid n k f \<longleftrightarrow> f_swapId f = Some sid \<and> f_legSeq f = Some n \<and> f_attempt f = k
     \<and> (f_status f = SIGNING \<or> f_status f = CONFIRMING)"

definition appends :: "(internal_fund \<Rightarrow> bool) \<Rightarrow> internal_fund list \<Rightarrow> internal_fund list \<Rightarrow> bool" where
  "appends P fs gs \<longleftrightarrow> (\<exists>new. gs = fs @ [new] \<and> P new \<and> f_id new \<notin> f_id ` set fs)"

lemma start_status:
  "getTransitionMap ty CREATED (legStartAction spec ctx) = Some nxt \<Longrightarrow> nxt = SIGNING \<or> nxt = CONFIRMING"
  by (auto simp: getTransitionMap_def legStartAction_def Let_def CRYPTO_TRANSITIONS_def FIAT_TRANSITIONS_def
      split: if_splits)

lemma find_fund_last:
  "\<forall>f\<in>set fs. f_id f \<noteq> f_id r \<Longrightarrow> funds d = fs @ [r] \<Longrightarrow> find_fund (f_id r) d = Some r"
  by (simp add: find_fund_def by_id_def find_append find_None[THEN iffD2])

lemma update_rows_none: "\<forall>x\<in>set rs. \<not> p x \<Longrightarrow> update_rows p f rs = rs"
  by (simp add: update_rows_def map_idI)

lemma update_rows_append: "update_rows p f (xs @ ys) = update_rows p f xs @ update_rows p f ys"
  by (simp add: update_rows_def)

lemma wp_start_last:
  assumes fs: "funds (db w) = fs @ [r]" "\<forall>f\<in>set fs. f_id f \<noteq> f_id r" and r: "f_status r = CREATED"
    and Q: "\<And>v new. funds (db v) = fs @ [new] \<Longrightarrow> around v = around w \<Longrightarrow> f_id new = f_id r \<Longrightarrow>
      f_swapId new = f_swapId r \<Longrightarrow> f_legSeq new = f_legSeq r \<Longrightarrow> f_attempt new = f_attempt r \<Longrightarrow>
      f_status new = SIGNING \<or> f_status new = CONFIRMING \<Longrightarrow> Q () v"
  shows "wp (transitionSwapLeg (f_id r) (legStartAction spec ctx) op True) (\<lambda>_. Q ()) (\<lambda>_ _. True) w"
proof -
  have "Q () (w\<lparr>db := (db w)\<lparr>funds := fs @ [transitioned_swap_leg r nxt op t], audits := au\<rparr>\<rparr>)"
    if "getTransitionMap (fund_asset_type r (db w)) CREATED (legStartAction spec ctx) = Some nxt" for nxt t au
    using start_status[OF that]
    by (intro Q[of _ "transitioned_swap_leg r nxt op t"])
      (simp_all add: transitioned_swap_leg_def around_def side_def swap_view_def)
  then show ?thesis
    using find_fund_last[OF fs(2,1)] fs r
    by (auto simp: transitionSwapLeg_def inTx_def Let_def update_rows_append update_rows_none split: option.split)
qed

lemma wp_createAndStartLeg:
  "wp (createAndStartLeg s spec ctx n k op)
     (\<lambda>_ v. appends (started (sw_id s) n k) (funds (db w)) (funds (db v)) \<and> around v = around w) (\<lambda>_ _. True) w"
proof -
  let ?Q = "\<lambda>v. appends (started (sw_id s) n k) (funds (db w)) (funds (db v)) \<and> around v = around w"
  have tail: "wp (andThen (initiateLegPending c spec)
      (bind (transitionSwapLeg (f_id r) (legStartAction spec ctx) op True) (\<lambda>_.
        andThen (recomputeProjections (sw_id s) stageOf) (ret r)))) (\<lambda>_. ?Q) (\<lambda>_ _. True) v"
    if v: "funds (db v) = funds (db w) @ [r]" "around v = around w"
      and r: "r = swap_leg_row (sw_id s) n (Some k) a amt fw tw op t i no" "\<forall>f\<in>set (funds (db w)). f_id f \<noteq> i"
    for v r c a amt fw tw t i no
  proof -
    have row: "f_id r = i" "f_status r = CREATED" "f_swapId r = Some (sw_id s)" "f_legSeq r = Some n" "f_attempt r = k"
      using r by (simp_all add: swap_leg_row_def default_of_def)
    have fresh: "i \<notin> f_id ` set (funds (db w))"
      using r(2) by auto
    show ?thesis
      unfolding wp_andThen wp_bind
    proof (rule wp_same_core[OF leg_ops_core(1)])
      fix u :: world
      assume "core u = core v"
      then have u: "funds (db u) = funds (db w) @ [r]" "around u = around w"
        using core_around[of u v] v by simp_all
      show "wp (transitionSwapLeg (f_id r) (legStartAction spec ctx) op True)
          (\<lambda>_. wp (recomputeProjections (sw_id s) stageOf) (\<lambda>_. wp (ret r) (\<lambda>_. ?Q) (\<lambda>_ _. True)) (\<lambda>_ _. True))
          (\<lambda>_ _. True) u"
        by (rule wp_start_last[OF u(1) _ row(2)])
          (use u r(2) fresh row in \<open>auto intro!: wp_recomputeProjections simp: appends_def started_def\<close>)
    qed auto
  qed
  have main: "wp (bind (createSwapLeg (sw_id s) n (Some k) a amt fw tw op True) (\<lambda>leg.
      andThen (initiateLegPending c spec)
      (bind (transitionSwapLeg (f_id leg) (legStartAction spec ctx) op True) (\<lambda>_.
        andThen (recomputeProjections (sw_id s) stageOf) (ret leg))))) (\<lambda>_. ?Q) (\<lambda>_ _. True) w"
    for a amt fw tw c
    unfolding createSwapLeg_def inTx_def if_True
  proof (subst wp_bind, subst wp_bind, subst wp_now, rule wp_create_numbered)
    fix i no and v :: world
    let ?r = "swap_leg_row (sw_id s) n (Some k) a amt fw tw op (clock w) i no"
    assume "\<forall>f\<in>set (funds (db w)). f_no f \<noteq> no \<and> f_id f \<noteq> i" "db v = db w"
    then show "wp (andThen (initiateLegPending c spec)
      (bind (transitionSwapLeg (f_id ?r) (legStartAction spec ctx) op True) (\<lambda>_.
        andThen (recomputeProjections (sw_id s) stageOf) (ret ?r)))) (\<lambda>_. ?Q) (\<lambda>_ _. True)
      (v\<lparr>db := (db w)\<lparr>funds := funds (db w) @ [?r], audits := audits (db w) @ [fund_audit ''CREATED'' ?r
        (''Swap leg '' @ nat_str n @ '' created'') op]\<rparr>\<rparr>)"
      by (intro tail) (auto simp: around_def side_def swap_view_def)
  qed (simp_all add: swap_leg_row_def)
  show ?thesis
    unfolding createAndStartLeg_def wp_bind[of "legPrimaryAmountDecimal _ _"] wp_bind[of "resolveLegWallets _ _"]
    by (intro wp_reads[OF reads_ops(1)] wp_reads[OF reads_ops(2)])
      (auto simp del: wp_bind simp: main intro!: wp_reads[OF reads_ops(3)] split: prod.split)
qed

section \<open>Ending a leg\<close>

definition with_row :: "internal_fund \<Rightarrow> internal_fund list \<Rightarrow> internal_fund list" where
  "with_row r fs = update_rows (\<lambda>x. f_id x = f_id r) (\<lambda>_. r) fs"

definition same_leg :: "internal_fund \<Rightarrow> internal_fund \<Rightarrow> bool" where
  "same_leg f g \<longleftrightarrow> f_id g = f_id f \<and> f_no g = f_no f \<and> f_swapId g = f_swapId f \<and> f_legSeq g = f_legSeq f
     \<and> f_attempt g = f_attempt f \<and> f_assetId g = f_assetId f \<and> f_amount g = f_amount f"

definition parks :: "internal_fund \<Rightarrow> internal_fund list \<Rightarrow> internal_fund list \<Rightarrow> bool" where
  "parks leg fs gs \<longleftrightarrow> (\<exists>r. same_leg leg r \<and> f_status r = NEEDS_REVIEW \<and> gs = with_row r fs)"

lemma around_simps [simp]:
  "around (w\<lparr>db := d\<lparr>audits := a1\<rparr>\<rparr>) = around (w\<lparr>db := d\<rparr>)"
  "around (w\<lparr>db := d\<lparr>funds := a2\<rparr>\<rparr>) = around (w\<lparr>db := d\<rparr>)"
  "around (w\<lparr>db := db w\<rparr>) = around w"
  "side (w\<lparr>db := d\<lparr>audits := a1\<rparr>\<rparr>) = side (w\<lparr>db := d\<rparr>)" "side (w\<lparr>db := db w\<rparr>) = side w"
  "swap_view (w\<lparr>db := d\<lparr>audits := a1\<rparr>\<rparr>) = swap_view (w\<lparr>db := d\<rparr>)" "swap_view (w\<lparr>db := db w\<rparr>) = swap_view w"
  by (simp_all add: around_def side_def swap_view_def)

lemma wp_markLegNeedsReview:
  assumes "find_fund i (db w) = Some leg" "f_id leg = i"
  shows "wp (markLegNeedsReview i att op True) (\<lambda>_ v. parks leg (funds (db w)) (funds (db v)) \<and> around v = around w) (\<lambda>_ _. True) w"
proof -
  have "parks leg (funds (db w)) (update_rows (\<lambda>x. f_id x = i) (\<lambda>_. r) (funds (db w)))"
    if "r = needs_review_row leg att op (clock w)" for r
    unfolding parks_def
    by (rule exI[of _ r]) (simp add: that with_row_def needs_review_row_def same_leg_def assms)
  then show ?thesis
    using assms by (simp add: markLegNeedsReview_def inTx_def Let_def)
qed

lemma find_fund_core: "core v = core w \<Longrightarrow> find_fund i (db v) = find_fund i (db w)"
  using core_around[of v w] by (simp add: find_fund_def)

definition heals :: "string \<Rightarrow> nat \<Rightarrow> nat \<Rightarrow> internal_fund \<Rightarrow> internal_fund list \<Rightarrow> internal_fund list \<Rightarrow> bool" where
  "heals sid n k leg fs gs \<longleftrightarrow>
     (if k < MAX_LEG_ATTEMPTS then appends (started sid n (k + 1)) fs gs else parks leg fs gs)"

lemma wp_selfHeal:
  assumes leg: "find_fund (f_id target) (db w) = Some leg" "f_id leg = f_id target"
  shows "wp (onLegFailedSelfHeal s spec n ctx target st)
    (\<lambda>_ v. heals (sw_id s) n (f_attempt target) leg (funds (db w)) (funds (db v)) \<and> around v = around w) (\<lambda>_ _. True) w"
  unfolding onLegFailedSelfHeal_def Let_def wp_andThen[of "voidLeg _ _"]
proof (rule wp_same_core[OF leg_ops_core(3)])
  fix u :: world
  assume "core u = core w"
  then have u: "funds (db u) = funds (db w)" "around u = around w" "find_fund (f_id target) (db u) = Some leg"
    using core_around[of u w] find_fund_core[of u w] leg by simp_all
  show "wp (if f_attempt target < MAX_LEG_ATTEMPTS
       then bind (createAndStartLeg s spec ctx n (f_attempt target + 1) ''SYSTEM'') (\<lambda>_.
              recordSystem (retry_audit s n (f_attempt target) st) True)
       else bind (markLegNeedsReview (f_id target) (f_attempt target) ''SYSTEM'' True) (\<lambda>_.
              andThen (recordSystem (stuck_audit s n (f_attempt target) st) True)
                (recomputeProjections (sw_id s) stageOf)))
      (\<lambda>_ v. heals (sw_id s) n (f_attempt target) leg (funds (db w)) (funds (db v)) \<and> around v = around w) (\<lambda>_ _. True) u"
    using u
    by (auto intro!: wp_mono[OF wp_createAndStartLeg] wp_mono[OF wp_markLegNeedsReview[OF u(3) leg(2)]]
        wp_recomputeProjections simp: heals_def)
qed auto

section \<open>Completing a leg\<close>

definition set_status :: "string \<Rightarrow> string \<Rightarrow> (string \<times> string \<times> string) list \<Rightarrow> (string \<times> string \<times> string) list" where
  "set_status i st xs = map (\<lambda>(j, no, old). (j, no, if j = i then st else old)) xs"

definition completes :: "swap \<Rightarrow> nat \<Rightarrow> SwapLegSpec list \<Rightarrow> event option \<Rightarrow> world \<Rightarrow> world \<Rightarrow> bool" where
  "completes s n specs ev w v \<longleftrightarrow>
     side v = side w \<and>
     (if find_spec (n + 1) specs = None
      then ev = Some (SwapSucceeded (sw_id s) (sw_no s) (sw_ownerId s)) \<and> funds (db v) = funds (db w)
        \<and> swap_view v = set_status (sw_id s) ''SUCCESS'' (swap_view w)
      else ev = None \<and> appends (started (sw_id s) (n + 1) 1) (funds (db w)) (funds (db v)) \<and> swap_view v = swap_view w)"

lemma swap_view_mark:
  "(\<And>s. sw_id (f s) = sw_id s \<and> sw_no (f s) = sw_no s \<and> sw_status (f s) = st) \<Longrightarrow>
   swap_view (w\<lparr>db := (db w)\<lparr>swaps := update_rows (\<lambda>x. sw_id x = i) f (swaps (db w))\<rparr>\<rparr>)
     = set_status i st (swap_view w)"
  by (simp add: swap_view_def set_status_def update_rows_def)

lemma wp_markStatus:
  assumes "\<And>a v. side v = side w \<Longrightarrow> funds (db v) = funds (db w) \<Longrightarrow> swap_view v = set_status i st (swap_view w) \<Longrightarrow> Q a v"
  shows "wp (markStatus i st) Q (\<lambda>_ _. True) w"
  unfolding markStatus_def update_swap_def
  by (auto intro!: assms swap_view_mark simp: side_def split: option.split)

lemma wp_onLegCleared:
  "wp (onLegCleared s spec n specs ctx target) (\<lambda>ev v. completes s n specs ev w v) (\<lambda>_ _. True) w"
  unfolding onLegCleared_def wp_andThen[of "postLeg _ _"]
proof (rule wp_same_core[OF leg_ops_core(2)])
  fix u :: world
  assume "core u = core w"
  then have u: "funds (db u) = funds (db w)" "around u = around w"
    using core_around[of u w] by simp_all
  show "wp (andThen (recordSystem (swap_audit ''SWAP_LEG_POSTED'' s (''Swap leg '' @ nat_str n @ '' posted'')
        [(''legSeq'', nat_str n), (''attempt'', nat_str (f_attempt target))]) True)
     (case find_spec (n + 1) specs of
        None \<Rightarrow>
          bind (markStatus (sw_id s) ''SUCCESS'') (\<lambda>_.
          andThen (recordSystem (swap_audit ''SWAP_SUCCEEDED'' s ''Swap settlement completed: all legs cleared'' []) True)
         (andThen (recomputeProjections (sw_id s) stageOf)
            (ret (Some (SwapSucceeded (sw_id s) (sw_no s) (sw_ownerId s))))))
      | Some nextSpec \<Rightarrow> bind (createAndStartLeg s nextSpec ctx (n + 1) 1 ''SYSTEM'') (\<lambda>_. ret None)))
      (\<lambda>ev v. completes s n specs ev w v) (\<lambda>_ _. True) u"
    using u
    by (auto simp: completes_def around_def intro!: wp_mono[OF wp_createAndStartLeg]
        wp_markStatus wp_recomputeProjections split: option.split)
qed auto

section \<open>Advancing a leg\<close>

lemma first_per_seq_subset: "l \<in> set (first_per_seq seen rs) \<Longrightarrow> l \<in> set rs"
  by (induction rs arbitrary: seen) (auto split: if_splits)

lemma active_in: "l \<in> set (activeLegsBySeq i d) \<Longrightarrow> l \<in> set (funds d) \<and> f_swapId l = Some i"
  by (auto simp: activeLegsBySeq_def swap_legs_def dest!: first_per_seq_subset)

lemma plan_next:
  "find_spec n (buildSwapLegPlan b) = Some spec \<Longrightarrow> (find_spec (n + 1) (buildSwapLegPlan b) = None) = (n = 4)"
  by (auto simp: find_spec_def plan_defs split: if_splits)

definition leg_outcome ::
    "swap \<Rightarrow> nat \<Rightarrow> internal_fund \<Rightarrow> InternalFundStatus \<Rightarrow> event option \<Rightarrow> world \<Rightarrow> world \<Rightarrow> bool" where
  "leg_outcome s n target st ev w v \<longleftrightarrow> side v = side w \<and>
     (\<exists>moved. same_leg target moved \<and> f_status moved = st \<and>
       (if st = CLEAR then
          (if n = 4
           then ev = Some (SwapSucceeded (sw_id s) (sw_no s) (sw_ownerId s))
             \<and> funds (db v) = with_row moved (funds (db w))
             \<and> swap_view v = set_status (sw_id s) ''SUCCESS'' (swap_view w)
           else ev = None \<and> swap_view v = swap_view w
             \<and> appends (started (sw_id s) (n + 1) 1) (with_row moved (funds (db w))) (funds (db v)))
        else ev = None \<and> swap_view v = swap_view w \<and>
          (if leg_terminal_fail st
           then heals (sw_id s) n (f_attempt target) moved (with_row moved (funds (db w))) (funds (db v))
           else funds (db v) = with_row moved (funds (db w)))))"

lemma leg_outcome_cong:
  "around u = around w \<Longrightarrow> funds (db u) = funds (db w) \<Longrightarrow> leg_outcome s n target st ev u v = leg_outcome s n target st ev w v"
  by (simp add: leg_outcome_def around_def)

text \<open>Moving the target and what follows it.\<close>

lemma wp_transitionSwapLeg:
  assumes leg: "find_fund i (db w) = Some leg" "f_id leg = i"
    and Q: "\<And>moved nxt v. getTransitionMap (fund_asset_type leg (db w)) (f_status leg) act = Some nxt \<Longrightarrow>
      same_leg leg moved \<Longrightarrow> f_status moved = nxt \<Longrightarrow> around v = around w \<Longrightarrow>
      funds (db v) = with_row moved (funds (db w)) \<Longrightarrow> find_fund i (db v) = Some moved \<Longrightarrow>
      Q (moved, f_status leg, nxt) v"
  shows "wp (transitionSwapLeg i act op True) Q (\<lambda>_ _. True) w"
proof -
  let ?r = "\<lambda>nxt. transitioned_swap_leg leg nxt op (clock w)"
  have r: "same_leg leg (?r nxt)" "f_status (?r nxt) = nxt" "f_id (?r nxt) = i" for nxt
    using leg(2) by (simp_all add: same_leg_def transitioned_swap_leg_def)
  have "find_fund i (d\<lparr>audits := a\<rparr>) = find_fund i d" for d a
    by (simp add: find_fund_def)
  then have "find_fund i ((db w)\<lparr>funds := update_rows (\<lambda>x. f_id x = i) (\<lambda>_. ?r nxt) (funds (db w)), audits := a\<rparr>)
      = Some (?r nxt)" for nxt a
    using find_fund_put[OF r(3)[of nxt], of i "db w"] leg(1) by simp
  then show ?thesis
    using leg by (auto simp: transitionSwapLeg_def inTx_def Let_def r with_row_def split: option.split intro!: Q)
qed

lemma wp_after_move:
  assumes w: "find_fund (f_id target) (db w) = Some target"
    and spec: "find_spec n specs = Some spec" "specs = buildSwapLegPlan b"
  shows "wp (bind (transitionSwapLeg (f_id target) act op True) (\<lambda>(leg, old, nextStatus).
      bind (if nextStatus = CLEAR then onLegCleared s spec n specs ctx target
            else if leg_terminal_fail nextStatus
              then bind (onLegFailedSelfHeal s spec n ctx target nextStatus) (\<lambda>_. ret None)
            else ret None) (\<lambda>emitInfo. ret ((sw_id s, n, nextStatus), emitInfo))))
    (\<lambda>((sid, k, st), ev) v. sid = sw_id s \<and> k = n
        \<and> getTransitionMap (fund_asset_type target (db w)) (f_status target) act = Some st
        \<and> leg_outcome s n target st ev w v) (\<lambda>_ _. True) w" (is "wp _ ?Q _ _")
  unfolding wp_bind[of "transitionSwapLeg _ _ _ _"]
proof (rule wp_transitionSwapLeg[OF w HOL.refl])
  fix moved nxt and v :: world
  assume nxt: "getTransitionMap (fund_asset_type target (db w)) (f_status target) act = Some nxt"
    and moved: "same_leg target moved" "f_status moved = nxt" "around v = around w"
    "funds (db v) = with_row moved (funds (db w))" "find_fund (f_id target) (db v) = Some moved"
  have id: "f_id moved = f_id target"
    using moved(1) by (simp add: same_leg_def)
  show "wp (case (moved, f_status target, nxt) of (leg, old, nextStatus) \<Rightarrow>
      bind (if nextStatus = CLEAR then onLegCleared s spec n specs ctx target
            else if leg_terminal_fail nextStatus
              then bind (onLegFailedSelfHeal s spec n ctx target nextStatus) (\<lambda>_. ret None)
            else ret None) (\<lambda>emitInfo. ret ((sw_id s, n, nextStatus), emitInfo))) ?Q (\<lambda>_ _. True) v"
  proof (cases "nxt = CLEAR")
    case True
    then show ?thesis
      using nxt moved plan_next[of n b spec] spec
      by (auto intro!: wp_mono[OF wp_onLegCleared] exI[of _ moved]
          simp: leg_outcome_def completes_def around_def split: if_splits)
  next
    case False
    then show ?thesis
      using nxt moved id
      by (auto intro!: wp_mono[OF wp_selfHeal[OF moved(5) id]] exI[of _ moved] simp: leg_outcome_def around_def)
  qed
qed

definition swap_of :: "string \<Rightarrow> db \<Rightarrow> swap option" where
  "swap_of no d = find (\<lambda>s. sw_no s = no) (swaps d)"

definition active_leg :: "string \<Rightarrow> nat \<Rightarrow> db \<Rightarrow> internal_fund option" where
  "active_leg sid n d = find (\<lambda>l. f_legSeq l = Some n) (activeLegsBySeq sid d)"

definition may_advance :: "string \<Rightarrow> nat \<Rightarrow> swap \<Rightarrow> internal_fund \<Rightarrow> db \<Rightarrow> bool" where
  "may_advance no n s target d \<longleftrightarrow> swap_of no d = Some s \<and> sw_status s = ''PROCESSING''
     \<and> active_leg (sw_id s) n d = Some target \<and> \<not> prior_not_clear n (activeLegsBySeq (sw_id s) d)"

lemma active_leg_row:
  "funds_inv d \<Longrightarrow> active_leg sid n d = Some target \<Longrightarrow> find_fund (f_id target) d = Some target"
  by (auto simp: active_leg_def dest!: find_SomeD active_in intro: find_fund_in)

lemma wp_leg_spec:
  assumes "\<And>ctx b spec. find_spec n (buildSwapLegPlan b) = Some spec \<Longrightarrow> Q (ctx, buildSwapLegPlan b, spec) w"
  shows "wp (leg_spec s n) Q (\<lambda>_ _. True) w"
  unfolding leg_spec_def wp_bind[of "ctxFromSwap s"] Let_def
  by (rule wp_reads[OF reads_ops(4)]) (auto intro!: assms split: option.split)

lemma wp_advanceLeg_body:
  assumes inv: "funds_inv (db w)"
  shows "wp (advanceLeg_body no n act op)
    (\<lambda>((sid, k, st), ev) v. \<exists>s target. may_advance no n s target (db w) \<and> sid = sw_id s \<and> k = n
        \<and> getTransitionMap (fund_asset_type target (db w)) (f_status target) act = Some st
        \<and> leg_outcome s n target st ev w v) (\<lambda>_ _. True) w" (is "wp _ ?Q ?E _")
proof -
  have rest: "wp (advance_target s n act op target) ?Q ?E w"
    if guards: "may_advance no n s target (db w)" for s target
    unfolding advance_target_def wp_bind[of "leg_spec s n"]
  proof (rule wp_leg_spec, unfold prod.case wp_andThen)
    fix ctx b spec
    assume spec: "find_spec n (buildSwapLegPlan b) = Some spec"
    have row: "find_fund (f_id target) (db w) = Some target"
      using guards by (auto intro: active_leg_row[OF inv] simp: may_advance_def)
    let ?move = "bind (transitionSwapLeg (f_id target) act op True) (\<lambda>(leg, old, nextStatus).
       bind (if nextStatus = CLEAR then onLegCleared s spec n (buildSwapLegPlan b) ctx target
           else if leg_terminal_fail nextStatus
             then bind (onLegFailedSelfHeal s spec n ctx target nextStatus) (\<lambda>_. ret None)
           else ret None) (\<lambda>emitInfo. ret ((sw_id s, n, nextStatus), emitInfo)))"
    have move: "wp ?move ?Q ?E u" if "core u = core w" for u
    proof -
      have u: "around u = around w" "funds (db u) = funds (db w)"
          "fund_asset_type target (db u) = fund_asset_type target (db w)"
          "find_fund (f_id target) (db u) = Some target"
        using core_around[OF that] find_fund_core[OF that] row by (simp_all add: fund_asset_type_def find_asset_def)
      show ?thesis
        by (rule wp_mono[OF wp_after_move[OF u(4) spec HOL.refl]])
          (use guards u in \<open>auto simp: leg_outcome_cong[OF u(1,2)]\<close>)
    qed
    show "wp (whenM (f_status target = CREATED) (initiateLegPending ctx spec)) (\<lambda>_. wp ?move ?Q ?E) ?E w"
    proof -
      have "wp (initiateLegPending ctx spec) (\<lambda>_. wp ?move ?Q ?E) ?E w"
        by (rule wp_same_core[OF leg_ops_core(1)]) (simp_all only: move)
      then show ?thesis
        unfolding wp_whenM using move[OF HOL.refl] by (simp only: if_split) simp
    qed
  qed
  show ?thesis
    unfolding advanceLeg_body_def findByNoInternal_def active_target_def
    using rest by (auto simp: may_advance_def swap_of_def active_leg_def split: option.split)
qed

section \<open>The active legs after a leg's row changed\<close>

definition same_keys :: "internal_fund \<Rightarrow> internal_fund \<Rightarrow> bool" where
  "same_keys f g \<longleftrightarrow> f_swapId g = f_swapId f \<and> f_legSeq g = f_legSeq f \<and> f_attempt g = f_attempt f"

lemma insort_key_map: "k (g x) = k x \<Longrightarrow> \<forall>y\<in>set ys. k (g y) = k y \<Longrightarrow> insort_key k (g x) (map g ys) = map g (insort_key k x ys)"
  by (induction ys) auto

lemma sort_key_map: "\<forall>x\<in>set xs. k (g x) = k x \<Longrightarrow> sort_key k (map g xs) = map g (sort_key k xs)"
proof (induction xs)
  case (Cons x xs)
  then show ?case
    using insort_key_map[of k g x "sort_key k xs"] by simp
qed simp

lemma first_per_seq_map:
  "\<forall>x\<in>set rs. f_legSeq (g x) = f_legSeq x \<Longrightarrow> first_per_seq seen (map g rs) = map g (first_per_seq seen rs)"
  by (induction rs arbitrary: seen) (auto simp: seq_of_def)

lemma filter_map_keys:
  "\<forall>x\<in>set xs. P (g x) = P x \<Longrightarrow> filter P (map g xs) = map g (filter P xs)"
  by (induction xs) auto

lemma active_legs_map:
  assumes "\<forall>x\<in>set (funds d). same_keys x (g x)" "funds d' = map g (funds d)"
  shows "activeLegsBySeq sid d' = map g (activeLegsBySeq sid d)"
proof -
  let ?ls = "filter (\<lambda>f. f_swapId f = Some sid) (funds d)"
  have f: "filter (\<lambda>f. f_swapId f = Some sid) (funds d') = map g ?ls"
    unfolding assms(2) by (rule filter_map_keys) (use assms(1) in \<open>auto simp: same_keys_def\<close>)
  have s1: "sort_key (\<lambda>f. - int (f_attempt f)) (map g ?ls) = map g (sort_key (\<lambda>f. - int (f_attempt f)) ?ls)"
    by (rule sort_key_map) (use assms(1) in \<open>auto simp: same_keys_def\<close>)
  have s2: "sort_key seq_order (map g (sort_key (\<lambda>f. - int (f_attempt f)) ?ls)) = map g (swap_legs sid d)"
    unfolding swap_legs_def by (rule sort_key_map) (use assms(1) in \<open>auto simp: same_keys_def seq_order_def\<close>)
  show ?thesis
    unfolding activeLegsBySeq_def swap_legs_def f s1 s2
    by (rule first_per_seq_map) (use assms(1) in \<open>auto simp: same_keys_def swap_legs_def\<close>)
qed

lemma active_legs_with_row:
  assumes inv: "funds_inv d" and t: "target \<in> set (funds d)" "same_leg target r"
    and d': "funds d' = with_row r (funds d)"
  shows "activeLegsBySeq sid d' = with_row r (activeLegsBySeq sid d)"
proof -
  have "x = target" if "x \<in> set (funds d)" "f_id x = f_id r" for x
    using that t inv by (auto simp: funds_inv_def same_leg_def distinct_map inj_on_def)
  then show ?thesis
    using d' t(2) unfolding with_row_def update_rows_def
    by (intro active_legs_map) (auto simp: same_keys_def same_leg_def)
qed

lemma active_leg_with_row:
  assumes inv: "funds_inv d" and t: "active_leg sid n d = Some target" "same_leg target r"
    and d': "funds d' = with_row r (funds d)"
  shows "active_leg sid n d' = Some r"
proof -
  have fd: "target \<in> set (funds d)" "find (\<lambda>l. f_legSeq l = Some n) (activeLegsBySeq sid d) = Some target"
    using t(1) by (auto simp: active_leg_def dest: find_SomeD active_in)
  have sub: "set (activeLegsBySeq sid d) \<subseteq> set (funds d)"
    using active_in by blast
  have "find (\<lambda>l. f_legSeq l = Some n) (with_row r ls) = Some r"
    if "find (\<lambda>l. f_legSeq l = Some n) ls = Some target" "set ls \<subseteq> set (funds d)" for ls
    using that
  proof (induction ls)
    case (Cons l ls)
    have "f_id l = f_id target \<Longrightarrow> l = target"
      using Cons.prems(2) fd(1) inv by (auto simp: funds_inv_def distinct_map inj_on_def)
    then show ?case
      using Cons t(2) by (auto simp: with_row_def same_leg_def split: if_splits)
  qed simp
  then show ?thesis
    using active_legs_with_row[OF inv fd(1) t(2) d'] fd(2) sub by (simp add: active_leg_def)
qed

section \<open>The leg table through the workflow\<close>

lemma keeps_core: "steps (same core) m \<Longrightarrow> steps (keeps_db funds_inv) m"
  unfolding steps_def same_def keeps_db_def using core_around funds_inv_cong by metis

lemma keeps_funds: "steps (same (\<lambda>w. funds (db w))) m \<Longrightarrow> steps (keeps_db funds_inv) m"
  by (auto simp: steps_def same_def keeps_db_def cong: funds_inv_cong intro: funds_inv_cong[THEN iffD2])

lemma keeps_reads: "reads m \<Longrightarrow> steps (keeps_db funds_inv) m"
  by (auto simp: reads_def steps_def same_def keeps_db_def)

lemma keeps_simple:
  "steps (keeps_db funds_inv) (recomputeProjections sid st)" "steps (keeps_db funds_inv) (markStatus sid x)"
  "steps (keeps_db funds_inv) (findByNoInternal no)" "steps (keeps_db funds_inv) (recordSystem a c)"
  "steps (keeps_db funds_inv) (emit e)"
  by (rule keeps_funds; simp add: steps_wp same_def recomputeProjections_def markStatus_def update_swap_def
    findByNoInternal_def split: option.split)+

lemmas keeps_parts = keeps_simple keeps_core[OF leg_ops_core(1)] keeps_core[OF leg_ops_core(2)]
  keeps_core[OF leg_ops_core(3)] reads_ops[THEN keeps_reads] createSwapLeg_inv transitionSwapLeg_inv
  markLegNeedsReview_inv

lemma split_keeps:
  "(\<And>a b. steps (keeps_db P) (f a b)) \<Longrightarrow> steps (keeps_db P) (case p of (a, b) \<Rightarrow> f a b)"
  "(\<And>a b c. steps (keeps_db P) (g a b c)) \<Longrightarrow> steps (keeps_db P) (case q of (a, b, c) \<Rightarrow> g a b c)"
  by (simp_all split: prod.split)

lemma createAndStartLeg_inv: "steps (keeps_db funds_inv) (createAndStartLeg s spec ctx n k op)"
  unfolding createAndStartLeg_def by (intro keeps_rules keeps_parts split_keeps)

lemma active_target_inv: "steps (keeps_db funds_inv) (active_target s n)" "steps (keeps_db funds_inv) (leg_spec s n)"
  unfolding active_target_def leg_spec_def Let_def by (intro keeps_rules keeps_parts split_keeps)+

lemma advanceLeg_inv: "steps (keeps_db funds_inv) (advanceLeg no n act op)"
  unfolding advanceLeg_def advanceLeg_body_def advance_target_def onLegCleared_def onLegFailedSelfHeal_def Let_def
  by (intro keeps_rules keeps_parts split_keeps createAndStartLeg_inv active_target_inv)

lemma resumeLeg_inv: "steps (keeps_db funds_inv) (resumeLeg no n op)"
  unfolding resumeLeg_def Let_def
  by (intro keeps_rules keeps_parts split_keeps createAndStartLeg_inv active_target_inv)

end
