(* ===== verification/SwapProps.thy ===== *)
theory SwapProps
  imports SwapEffects Samples
begin

text \<open>
  The properties of the swap workflow, with their witnesses: executing a quote, advancing a leg, the bound
  on the retries of a failed leg, completion, the transfers a leg posts, and the ledger's invariants
  through the workflow.
\<close>

section \<open>A small concrete world\<close>

definition aed :: asset where
  "aed = \<lparr>a_id = ''AED'', a_type = ''FIAT'', a_currency = ''AED'', a_code = ''AED'',
     a_decimals = 2, a_ledger = Some 1\<rparr>"

definition wit_swap :: swap where
  "wit_swap = \<lparr>sw_id = ''S1'', sw_no = ''SW1'', sw_quoteId = Some ''Q1'', sw_quoteNo = None, sw_ownerType = ''CUSTOMER'',
     sw_ownerId = ''C1'', sw_ownerNo = None, sw_status = ''PROCESSING'', sw_stage = None, sw_needsReview = False,
     sw_fromAssetId = ''USDT'', sw_fromAssetCode = None, sw_fromAmount = 0, sw_toAssetId = ''AED'', sw_toAssetCode = None,
     sw_toAmount = 0, sw_netToAmount = None, sw_feeAmount = None, sw_feeCurrency = None, sw_feeBreakdown = None,
     sw_exchangeRate = 1, sw_spreadAmount = None, sw_traceId = None, sw_completedAt = None, sw_history = HNull\<rparr>"

definition wit_leg :: "nat \<Rightarrow> nat \<Rightarrow> InternalFundStatus \<Rightarrow> string \<Rightarrow> internal_fund" where
  "wit_leg n k st a = fund0\<lparr>f_id := ''L'' @ nat_str n, f_no := ''N'' @ nat_str n, f_swapId := Some ''S1'', f_legSeq := Some n, f_attempt := k,
     f_status := st, f_assetId := a, f_completedAt := (if TERMINAL_STATUSES st then Some 1 else None),
     f_history := HArray [\<lparr>h_status = fund_status_str st, h_timestamp = 0, h_operator = '''', h_note = ''''\<rparr>]\<rparr>"

definition wit_world :: "internal_fund list \<Rightarrow> world" where
  "wit_world fs = demo_world\<lparr>db := empty_db\<lparr>assets := [usdt, aed], swaps := [wit_swap], funds := fs\<rparr>\<rparr>"



definition wit_ctx :: SwapSettleCtx where
  "wit_ctx = \<lparr>cx_swapId = ''S1'', cx_swapNo = ''SW1'', cx_ownerId = ''C1'', cx_fromIsFiat = False,
     cx_fromAssetId = ''USDT'', cx_toAssetId = ''AED'', cx_fromLedger = 2, cx_toLedger = 1, cx_fromCurrency = ''USDT'',
     cx_toCurrency = ''AED'', cx_fromAmount = 0, cx_grossToAmount = 2, cx_feeAmount = 0, cx_fromDecimals = 6,
     cx_toDecimals = 0, cx_attempt = Some 1\<rparr>"

definition book_world :: world where
  "book_world = demo_world\<lparr>db := empty_db\<lparr>assets := [usdt, aed], registry := [acct 4 200 1 None, acct 5 201 1 None]\<rparr>\<rparr>"


definition sell_quote :: swap_quote where
  "sell_quote = \<lparr>q_id = ''Q1'', q_no = Some ''SWQ1'', q_status = ''ACTIVE'', q_ownerType = ''CUSTOMER'',
     q_ownerId = ''C1'', q_ownerNo = None, q_fromAssetId = ''USDT'', q_fromAssetCode = ''USDT-TRON'',
     q_toAssetId = ''AED'', q_toAssetCode = ''AED'', q_amountIn = 0, q_amountOut = 0, q_rateAllIn = 1,
     q_marketRate = 1, q_feeTotal = 0, q_feeCurrency = ''AED'', q_feeBreakdown = None,
     q_amountOutNet = None, q_expiresAt = 2000, q_usedAt = None, q_cancelledAt = None,
     q_traceId = Some ''T''\<rparr>"



definition quote_world :: world where
  "quote_world = demo_world\<lparr>db := empty_db\<lparr>assets := [usdt, aed], quotes := [sell_quote], customers := [trader],
     wallets := [purse ''CD'' ''C_DEP'' ''USDT'' (Some ''C1''), purse ''FO'' ''F_OPS'' ''USDT'' None]\<rparr>\<rparr>"

lemma wit_funds: "funds_inv (db (wit_world [wit_leg n k st a]))"
  by (simp add: wit_world_def wit_leg_def funds_inv_def fund_ok_def history_ok_def)

section \<open>Executing a quote\<close>

definition used_at :: "int \<Rightarrow> swap_quote \<Rightarrow> swap_quote" where
  "used_at t q = q\<lparr>q_status := ''USED'', q_usedAt := Some t\<rparr>"

definition executed :: "swap_quote \<Rightarrow> swap \<Rightarrow> world \<Rightarrow> world \<Rightarrow> bool" where
  "executed q s w v \<longleftrightarrow>
     quotes (db v) = update_rows (\<lambda>x. q_id x = q_id q) (used_at (clock w)) (quotes (db w))
     \<and> sw_id s \<notin> fst ` set (swap_view w) \<and> swap_view v = swap_view w @ [(sw_id s, sw_no s, ''PROCESSING'')]
     \<and> appends (started (sw_id s) 1 1) (funds (db w)) (funds (db v))"

lemma owned_quote_row:
  "find_quote i (db w) = Some q \<Longrightarrow> q_id q = i"
  by (auto simp: find_quote_def dest: by_id_SomeD)

lemma wp_getActiveQuote:
  assumes "\<And>q. find_quote i (db w) = Some q \<Longrightarrow> q_ownerType q = ty \<Longrightarrow> q_ownerId q = own \<Longrightarrow>
      q_status q = ''ACTIVE'' \<Longrightarrow> t \<le> q_expiresAt q \<Longrightarrow> Q q w"
  shows "wp (getActiveQuoteOrThrow i ty own t) Q (\<lambda>_ _. True) w"
  by (auto simp: getActiveQuoteOrThrow_def owned_quote_def markExpired_def put_quote_def intro!: assms split: option.split)

lemma wp_consumeQuote:
  assumes "\<And>q au. find_quote i (db w) = Some q \<Longrightarrow> Q (used_at (clock w) q)
      (w\<lparr>db := (db w)\<lparr>quotes := update_rows (\<lambda>x. q_id x = i) (used_at (clock w)) (quotes (db w)), audits := au\<rparr>\<rparr>)"
  shows "wp (consumeQuote i ty own amt True) Q (\<lambda>_ _. True) w"
  unfolding consumeQuote_def wp_bind wp_now
  by (rule wp_getActiveQuote) (auto simp: Let_def put_quote_def used_at_def[symmetric] intro!: assms)

lemma wp_execute_quote:
  "wp (execute_quote own no q tr) (\<lambda>s v. executed q s w v \<and> sw_no s = no \<and> sw_quoteId s = Some (q_id q)) (\<lambda>_ _. True) w"
  (is "wp _ ?Q _ _")
proof -
  have start: "wp (createAndStartLeg s spec ctx (Suc 0) (Suc 0) op) (\<lambda>_. ?Q s) (\<lambda>_ _. True) u"
    if "quotes (db u) = update_rows (\<lambda>x. q_id x = q_id q) (used_at (clock w)) (quotes (db w))"
      "swap_view u = swap_view w @ [(sw_id s, sw_no s, ''PROCESSING'')]" "sw_id s \<notin> fst ` set (swap_view w)" "funds (db u) = funds (db w)"
      "sw_no s = no" "sw_quoteId s = Some (q_id q)" for s spec ctx op u
  proof -
    have "quotes (db v) = quotes (db u)" if "side v = side u" for v
      using arg_cong[OF that, of quotes] by (simp add: side_def)
    then show ?thesis
      using that by (intro wp_mono[OF wp_createAndStartLeg]) (auto simp: executed_def around_def)
  qed
  have ins: "wp (bind (insert_swap r) (\<lambda>s. andThen (recordByActor (au s) True)
      (bind (createAndStartLeg s spec (ctx s) (Suc 0) (Suc 0) op) (\<lambda>_. ret s)))) ?Q (\<lambda>_ _. True) u"
    if "quotes (db u) = update_rows (\<lambda>x. q_id x = q_id q) (used_at (clock w)) (quotes (db w))"
      "swaps (db u) = swaps (db w)" "funds (db u) = funds (db w)"
      "sw_no r = no" "sw_quoteId r = Some (q_id q)" "sw_status r = ''PROCESSING''" for r au spec ctx op u
    using that by (force simp: insert_swap_def swap_view_def image_iff intro!: wp_mono[OF start])
  show ?thesis
    unfolding execute_quote_def wp_bind[of "if _ then _ else _"] wp_bind[of "consumeQuote _ _ _ _ _"] Let_def
      wp_bind[of "getsDb _"] wp_getsDb wp_bind[of "resolveLedger _"] wp_bind[of now] wp_now
      wp_bind[of randomUUID] wp_randomUUID
    by (auto simp del: wp_bind wp_andThen simp: resolveLedger_def swap_row_def
        intro!: ins wp_consumeQuote split: option.split)
qed

definition trade :: "world \<Rightarrow> swap_quote list \<times> swap list \<times> internal_fund list" where
  "trade w = (quotes (db w), swaps (db w), funds (db w))"

lemma wp_trade:
  assumes "steps (same trade) m" "\<And>a v. trade v = trade w \<Longrightarrow> Q a v" "\<And>e v. trade v = trade w \<Longrightarrow> E e v"
  shows "wp m Q E w"
  using assms by (auto simp: steps_wp same_def elim!: wp_mono dest!: spec[of _ w])

text \<open>A successful execution, seen from the trading tables.\<close>

definition execution :: "string \<Rightarrow> string \<Rightarrow> swap \<Rightarrow> world \<Rightarrow> world \<Rightarrow> bool" where
  "execution own qid s w v \<longleftrightarrow>
     (\<exists>q t. find_quote qid (db w) = Some q \<and> q_ownerType q = ''CUSTOMER'' \<and> q_ownerId q = own
        \<and> q_status q = ''ACTIVE''
        \<and> quotes (db v) = update_rows (\<lambda>x. q_id x = qid) (used_at t) (quotes (db w))
        \<and> sw_id s \<notin> fst ` set (swap_view w) \<and> swap_view v = swap_view w @ [(sw_id s, sw_no s, ''PROCESSING'')]
        \<and> appends (started (sw_id s) 1 1) (funds (db w)) (funds (db v)))"

lemma execution_cong: "trade u = trade w \<Longrightarrow> execution own qid s u v \<Longrightarrow> execution own qid s w v"
  by (simp add: execution_def trade_def find_quote_def swap_view_def)

lemma wp_swap_detail:
  assumes "execution own qid s w v"
  shows "wp (swap_detail (sw_id s)) (\<lambda>(s', legs) v'. execution own qid s' w v' \<and> sw_no s' = sw_no s) (\<lambda>_ _. False) v"
proof -
  have view: "swap_view v = swap_view w @ [(sw_id s, sw_no s, ''PROCESSING'')]" "sw_id s \<notin> fst ` set (swap_view w)"
    using assms by (auto simp: execution_def)
  have "sw_id s \<in> fst ` set (swap_view v)"
    by (simp add: view)
  then have some: "by_id sw_id (sw_id s) (swaps (db v)) \<noteq> None"
    by (auto simp: by_id_None swap_view_def)
  then obtain x where row: "by_id sw_id (sw_id s) (swaps (db v)) = Some x"
    by blast
  then have x: "sw_id x = sw_id s" "(sw_id x, sw_no x, sw_status x) \<in> set (swap_view v)"
    using by_id_SomeD[OF row] unfolding swap_view_def set_map by (auto intro!: image_eqI[of _ _ x])
  then have no: "sw_no x = sw_no s"
    using view by (auto simp: image_iff)
  have "execution own qid x w v = execution own qid s w v"
    unfolding execution_def x(1) no ..
  then show ?thesis
    using assms by (simp add: swap_detail_def row no)
qed

lemma wp_execution_body:
  "wp (bind (handle (getActiveQuoteOrThrow qid ''CUSTOMER'' own t) (audit_swap_failed own no None)) (\<lambda>q.
       bind (case q_traceId q of None \<Rightarrow> randomUUID | Some x \<Rightarrow> ret x) (\<lambda>tr.
         handle (execute_quote own no q tr) (audit_swap_failed own no (Some tr)))))
     (\<lambda>s v. execution own qid s w v) (\<lambda>_ _. True) w"
proof -
  have run: "wp (handle (execute_quote (q_ownerId q) no q tr) (audit_swap_failed (q_ownerId q) no (Some tr)))
      (\<lambda>s v. execution (q_ownerId q) qid s w v) (\<lambda>_ _. True) u"
    if "find_quote qid (db w) = Some q" "q_ownerType q = ''CUSTOMER''" "q_status q = ''ACTIVE''"
      "db u = db w" for q tr u
  proof -
    have "executed q s u v \<Longrightarrow> execution (q_ownerId q) qid s w v" for s v
      using that owned_quote_row[OF that(1)] by (auto simp: executed_def execution_def swap_view_def)
    then show ?thesis
      by (simp add: audit_swap_failed_def) (auto intro!: wp_mono[OF wp_execute_quote])
  qed
  show ?thesis
    unfolding wp_bind[of "handle (getActiveQuoteOrThrow _ _ _ _) _"] wp_handle[of "getActiveQuoteOrThrow _ _ _ _"]
    by (rule wp_mono[OF wp_getActiveQuote[where Q = "\<lambda>q v. v = w \<and> find_quote qid (db w) = Some q
        \<and> q_ownerType q = ''CUSTOMER'' \<and> q_ownerId q = own \<and> q_status q = ''ACTIVE''"]])
      (auto simp del: wp_handle intro!: run simp: audit_swap_failed_def[of own no None] split: option.split)
qed

lemma wp_executeSwap:
  assumes gate: "\<And>x a. steps (same trade) (elig x a)"
  shows "wp (executeSwap elig own qid) (\<lambda>(s, legs) v. execution own qid s w v) (\<lambda>_ v. trade v = trade w) w"
proof -
  let ?Q = "\<lambda>(s, legs) v. execution own qid s w v" and ?E = "\<lambda>_ v. trade v = trade w"
  have tx: "wp (bind (transaction (
       bind (handle (getActiveQuoteOrThrow qid ''CUSTOMER'' own t) (audit_swap_failed own no None)) (\<lambda>q.
       bind (case q_traceId q of None \<Rightarrow> randomUUID | Some x \<Rightarrow> ret x) (\<lambda>tr.
         handle (execute_quote own no q tr) (audit_swap_failed own no (Some tr)))))) (\<lambda>s. swap_detail (sw_id s)))
       ?Q ?E u" if u: "trade u = trade w" for t no u
    unfolding wp_bind[of "transaction _"] wp_transaction
  proof (rule wp_mono[OF wp_execution_body])
    fix s v
    assume "execution own qid s u v"
    then show "wp (swap_detail (sw_id s)) ?Q ?E v"
      by (intro wp_mono[OF wp_swap_detail[OF execution_cong[OF u]]]) auto
  qed (use u in \<open>simp add: trade_def\<close>)
  have check: "steps (same trade) (ensureCustomerCanTransact c x)" for c x
    unfolding ensureCustomerCanTransact_def by (intro frame.combinators)
  show ?thesis
    unfolding executeSwap_def wp_bind[of "getsDb _"] wp_getsDb wp_andThen
  proof (rule wp_trade[OF check], rule wp_trade[OF gate])
    fix u v :: world
    assume "trade u = trade w" "trade v = trade u"
    then show "wp (bind now (\<lambda>t. bind (generateReferenceNo ''SWP'') (\<lambda>swapNo. bind (transaction (
       bind (handle (getActiveQuoteOrThrow qid ''CUSTOMER'' own t) (audit_swap_failed own swapNo None)) (\<lambda>q.
       bind (case q_traceId q of None \<Rightarrow> randomUUID | Some x \<Rightarrow> ret x) (\<lambda>traceId.
         handle (execute_quote own swapNo q traceId) (audit_swap_failed own swapNo (Some traceId))))))
           (\<lambda>s. swap_detail (sw_id s))))) ?Q ?E v"
      unfolding wp_bind[of now] wp_now wp_bind[of "generateReferenceNo _"] wp_generateReferenceNo
      by (intro tx) (simp add: trade_def)
  qed auto
qed

text \<open>The onboarding gate may write to the customer's row, not to the trading tables or the ledger.\<close>

definition gate_ok :: "(string \<Rightarrow> string \<Rightarrow> unit op) \<Rightarrow> bool" where
  "gate_ok elig \<longleftrightarrow> (\<forall>x a. steps (same trade) (elig x a) \<and> steps (same ledger_view) (elig x a))"

lemma gate_open: "gate_ok (\<lambda>_ _. ret ())"
  by (simp add: gate_ok_def frame.ret)

lemma quote_execution_facts:
  assumes "gate_ok elig"
  shows "case executeSwap elig own qid w of
      (Inl e, w') \<Rightarrow> trade w' = trade w
    | (Inr (s, legs), w') \<Rightarrow> execution own qid s w w'"
proof -
  have "wp (executeSwap elig own qid) (\<lambda>(s, legs) v. execution own qid s w v) (\<lambda>_ v. trade v = trade w) w"
    using assms by (intro wp_executeSwap) (simp add: gate_ok_def)
  then show ?thesis
    by (cases "executeSwap elig own qid w"; cases "fst (executeSwap elig own qid w)") (auto simp: wp_def)
qed

text \<open>
  C6. Executing a quote is all or nothing: a failed execution leaves the quotes, the swaps and the legs as
  they were; a successful one found the quote active and owned by the customer, marks it used, and adds
  exactly one swap in PROCESSING with exactly one leg, the first, at its first attempt and already
  started.
\<close>

theorem quote_execution_all_or_nothing:
  assumes "gate_ok elig"
  shows "case executeSwap elig own qid w of
      (Inl e, w') \<Rightarrow> trade w' = trade w
    | (Inr (s, legs), w') \<Rightarrow> execution own qid s w w'"
  using quote_execution_facts[OF assms] .

theorem quote_execution_all_or_nothing_witness:
  "case executeSwap (\<lambda>_ _. ret ()) ''C1'' ''Q1'' quote_world of
      (Inl e, w') \<Rightarrow> trade w' = trade quote_world
    | (Inr (s, legs), w') \<Rightarrow> execution ''C1'' ''Q1'' s quote_world w'"
  by (rule quote_execution_all_or_nothing[OF gate_open])

lemma used_after_execution:
  assumes "execution own qid s w w1" "find_quote qid (db w1) = Some q"
  shows "q_status q = ''USED''"
proof -
  obtain t where used: "quotes (db w1) = update_rows (\<lambda>q. q_id q = qid) (used_at t) (quotes (db w))"
    using assms(1) unfolding execution_def by blast
  have q: "q_id q = qid" "q \<in> set (quotes (db w1))"
    using by_id_SomeD[OF assms(2)[unfolded find_quote_def]] by simp_all
  then obtain r where "q = (if q_id r = qid then used_at t r else r)"
    unfolding used in_update_rows by blast
  then show ?thesis
    using q(1) by (simp add: used_at_def split: if_splits)
qed

text \<open>
  C18. A quote is executed at most once: after a successful execution every further execution of the same
  quote, by whatever owner, fails and leaves the trading tables alone.
\<close>

theorem quote_executes_at_most_once:
  assumes "gate_ok elig" "gate_ok elig'"
  shows "case executeSwap elig own qid w of
      (Inl e, w1) \<Rightarrow> trade w1 = trade w
    | (Inr x, w1) \<Rightarrow> (case executeSwap elig' own' qid w1 of (r, w2) \<Rightarrow> (\<exists>e. r = Inl e) \<and> trade w2 = trade w1)"
proof (cases "executeSwap elig own qid w")
  case (Pair r1 w1)
  note first = quote_execution_facts[OF assms(1), where own = own and qid = qid and w = w, unfolded Pair prod.case]
  show ?thesis
  proof (cases r1)
    case (Inr x)
    then obtain s where "execution own qid s w w1"
      using first by (cases x) auto
    then have used: "q_status q = ''USED''" if "find_quote qid (db w1) = Some q" for q
      using that by (rule used_after_execution)
    have no: "\<not> execution own' qid s' w1 w2" for s' w2
    proof
      assume "execution own' qid s' w1 w2"
      then obtain q where "find_quote qid (db w1) = Some q" "q_status q = ''ACTIVE''"
        unfolding execution_def by blast
      then show False
        using used by fastforce
    qed
    then show ?thesis
      using quote_execution_facts[OF assms(2), where own = own' and qid = qid and w = w1]
      by (simp add: Pair Inr split: prod.splits sum.splits)
  qed (use first Pair in simp)
qed

theorem quote_executes_at_most_once_witness:
  "case executeSwap (\<lambda>_ _. ret ()) ''C1'' ''Q1'' quote_world of
      (Inl e, w1) \<Rightarrow> trade w1 = trade quote_world
    | (Inr x, w1) \<Rightarrow> (case executeSwap (\<lambda>_ _. ret ()) ''C2'' ''Q1'' w1 of (r, w2) \<Rightarrow> (\<exists>e. r = Inl e) \<and> trade w2 = trade w1)"
  by (rule quote_executes_at_most_once[OF gate_open gate_open])

section \<open>Advancing a leg\<close>

text \<open>What an advance that returned found and did.\<close>

definition advanced ::
    "string \<Rightarrow> nat \<Rightarrow> InternalFundAction \<Rightarrow> world \<Rightarrow> string \<times> nat \<times> InternalFundStatus \<Rightarrow> world \<Rightarrow> bool" where
  "advanced no n act w = (\<lambda>(sid, k, st) v. \<exists>s target ev. may_advance no n s target (db w) \<and> sid = sw_id s \<and> k = n
      \<and> getTransitionMap (fund_asset_type target (db w)) (f_status target) act = Some st
      \<and> leg_outcome s n target st ev w v)"

lemma leg_outcome_emit: "leg_outcome s n target st ev w v \<Longrightarrow> leg_outcome s n target st ev w (v\<lparr>emitted := x\<rparr>)"
proof -
  have "side (v\<lparr>emitted := x\<rparr>) = side v" "swap_view (v\<lparr>emitted := x\<rparr>) = swap_view v" "db (v\<lparr>emitted := x\<rparr>) = db v"
    by (simp_all add: side_def swap_view_def)
  then show "leg_outcome s n target st ev w v \<Longrightarrow> leg_outcome s n target st ev w (v\<lparr>emitted := x\<rparr>)"
    unfolding leg_outcome_def by (simp only:)
qed

lemma advanceLeg_facts:
  assumes inv: "funds_inv (db w)"
  shows "case advanceLeg no n act op w of (Inl e, w') \<Rightarrow> db w' = db w | (Inr r, w') \<Rightarrow> advanced no n act w r w'"
proof -
  have "wp (advanceLeg no n act op) (advanced no n act w) (\<lambda>_ v. db v = db w) w"
    unfolding advanceLeg_def wp_bind[of "transaction _"] wp_transaction
  proof (rule wp_mono[OF wp_advanceLeg_body[OF inv]], goal_cases)
    case (1 a v)
    then show ?case
      unfolding advanced_def by (auto split: option.split prod.splits) (blast intro: leg_outcome_emit)+
  qed simp
  then show ?thesis
    by (cases "advanceLeg no n act op w"; cases "fst (advanceLeg no n act op w)") (auto simp: wp_def)
qed

text \<open>
  C7. A leg moves only in its turn: an advance that returns found the swap in PROCESSING, the leg active
  under its sequence number, every active leg before it CLEAR and the action in the leg's table, and
  reports the status the table gives; an advance that throws leaves the whole database as it was.
\<close>

theorem legs_advance_in_sequence:
  assumes "funds_inv (db w)"
  shows "case advanceLeg no n act op w of
      (Inl e, w') \<Rightarrow> db w' = db w
    | (Inr (sid, k, st), w') \<Rightarrow> k = n \<and> (\<exists>s target. swap_of no (db w) = Some s \<and> sw_id s = sid
        \<and> sw_status s = ''PROCESSING'' \<and> active_leg sid n (db w) = Some target
        \<and> (\<forall>l\<in>set (activeLegsBySeq sid (db w)). seq_of l < n \<longrightarrow> f_status l = CLEAR)
        \<and> getTransitionMap (fund_asset_type target (db w)) (f_status target) act = Some st)"
proof (cases "advanceLeg no n act op w")
  case (Pair r w')
  show ?thesis
    using advanceLeg_facts[OF assms, of no n act op]
    by (cases r) (auto simp: Pair advanced_def may_advance_def prior_not_clear_def list_ex_iff)
qed

lemma wit_broadcast:
  "advanceLeg ''SW1'' 1 BROADCAST ''OP'' (wit_world [wit_leg 1 1 SIGNING ''USDT'']) =
     (Inr (''S1'', 1, BROADCASTED), snd (advanceLeg ''SW1'' 1 BROADCAST ''OP'' (wit_world [wit_leg 1 1 SIGNING ''USDT''])))"
  by (rule run_eq) code_simp

theorem legs_advance_in_sequence_witness:
  "\<exists>s target. swap_of ''SW1'' (db (wit_world [wit_leg 1 1 SIGNING ''USDT''])) = Some s \<and> sw_id s = ''S1''
     \<and> active_leg ''S1'' 1 (db (wit_world [wit_leg 1 1 SIGNING ''USDT''])) = Some target
     \<and> getTransitionMap (fund_asset_type target (db (wit_world [wit_leg 1 1 SIGNING ''USDT'']))) (f_status target) BROADCAST
         = Some BROADCASTED"
  using legs_advance_in_sequence[where w = "wit_world [wit_leg 1 1 SIGNING ''USDT'']" and no = "''SW1''" and n = 1
      and act = BROADCAST and op = "''OP''", OF wit_funds]
  by (subst (asm) wit_broadcast) auto

section \<open>Failed legs\<close>

lemma advanceLeg_returned:
  assumes "funds_inv (db w)" "advanceLeg no n act op w = (Inr (sid, k, st), w')"
  obtains s target ev moved where "swap_of no (db w) = Some s" "sw_id s = sid" "sw_status s = ''PROCESSING''"
    "active_leg sid n (db w) = Some target" "\<not> prior_not_clear n (activeLegsBySeq sid (db w))" "k = n"
    "getTransitionMap (fund_asset_type target (db w)) (f_status target) act = Some st"
    "leg_outcome s n target st ev w w'"
  using advanceLeg_facts[OF assms(1), of no n act op] assms(2) that
  by (auto simp: advanced_def may_advance_def)

lemma with_row_twice: "f_id r = f_id m \<Longrightarrow> with_row r (with_row m fs) = with_row r fs"
  by (simp add: with_row_def update_rows_def)

text \<open>
  C19. A failed leg heals itself a bounded number of times: when an advance takes a leg to FAILED, TIMEOUT
  or RETURNED, then below the third attempt exactly one new leg is added under the same sequence number,
  with the next attempt and already started; from the third on no leg is added and the leg itself is
  parked in NEEDS_REVIEW.  The swap's status does not change.
\<close>

theorem failed_leg_retried_at_most_three_times:
  assumes "funds_inv (db w)" "advanceLeg no n act op w = (Inr (sid, k, st), w')" "st \<in> {FAILED, TIMEOUT, RETURNED}"
  shows "swap_view w' = swap_view w \<and> (\<exists>target moved. active_leg sid n (db w) = Some target \<and> same_leg target moved \<and>
      (if f_attempt target < 3
       then f_status moved = st \<and> (\<exists>new. funds (db w') = with_row moved (funds (db w)) @ [new]
              \<and> started sid n (f_attempt target + 1) new)
       else f_status moved = NEEDS_REVIEW \<and> funds (db w') = with_row moved (funds (db w))))"
proof -
  obtain s target ev where t: "sw_id s = sid" "active_leg sid n (db w) = Some target" "leg_outcome s n target st ev w w'"
    using advanceLeg_returned[OF assms(1,2)] by metis
  obtain moved where m: "same_leg target moved" "f_status moved = st" "swap_view w' = swap_view w"
      "heals sid n (f_attempt target) moved (with_row moved (funds (db w))) (funds (db w'))"
    using t assms(3) unfolding leg_outcome_def by (auto split: if_splits)
  show ?thesis
  proof (cases "f_attempt target < 3")
    case True
    then show ?thesis
      using t m by (auto simp: heals_def MAX_LEG_ATTEMPTS_def appends_def)
  next
    case False
    then obtain r where "same_leg moved r" "f_status r = NEEDS_REVIEW" "funds (db w') = with_row r (funds (db w))"
      using m by (auto simp: heals_def MAX_LEG_ATTEMPTS_def parks_def with_row_twice same_leg_def)
    then show ?thesis
      using False t m by (auto simp: same_leg_def)
  qed
qed

lemma wit_third_failure:
  "advanceLeg ''SW1'' 1 SIGN_FAIL ''OP'' (wit_world [wit_leg 1 3 SIGNING ''USDT'']) =
     (Inr (''S1'', 1, FAILED), snd (advanceLeg ''SW1'' 1 SIGN_FAIL ''OP'' (wit_world [wit_leg 1 3 SIGNING ''USDT''])))"
  by (rule run_eq) code_simp

lemma wit_third: "active_leg ''S1'' 1 (db (wit_world [wit_leg 1 3 SIGNING ''USDT''])) = Some (wit_leg 1 3 SIGNING ''USDT'')"
  by code_simp

theorem failed_leg_retried_at_most_three_times_witness:
  "\<exists>moved. f_status moved = NEEDS_REVIEW
     \<and> funds (db (snd (advanceLeg ''SW1'' 1 SIGN_FAIL ''OP'' (wit_world [wit_leg 1 3 SIGNING ''USDT'']))))
       = with_row moved (funds (db (wit_world [wit_leg 1 3 SIGNING ''USDT''])))"
  using failed_leg_retried_at_most_three_times[OF wit_funds wit_third_failure] wit_third
  by (auto simp: wit_leg_def)

section \<open>Completion\<close>

lemma first_per_seq_distinct:
  "distinct (map seq_of (first_per_seq seen rs)) \<and> (\<forall>r\<in>set (first_per_seq seen rs). seq_of r \<notin> set seen)"
  by (induction rs arbitrary: seen) force+

lemma one_active:
  "l \<in> set (activeLegsBySeq sid d) \<Longrightarrow> m \<in> set (activeLegsBySeq sid d) \<Longrightarrow> seq_of l = seq_of m \<Longrightarrow> l = m"
  using first_per_seq_distinct[of "[]" "swap_legs sid d"] by (auto simp: activeLegsBySeq_def distinct_map inj_on_def)

text \<open>
  C20. A swap completes with its last leg and only then: an advance changes a swap's status exactly when it
  takes leg 4 to CLEAR, and then to SUCCESS, with every active leg CLEAR; when it takes an earlier leg to
  CLEAR it adds exactly the next leg, at its first attempt and already started.
\<close>

theorem swap_completes_with_last_leg:
  assumes "funds_inv (db w)" "advanceLeg no n act op w = (Inr (sid, k, st), w')"
  shows "swap_view w' = (if n = 4 \<and> st = CLEAR then set_status sid ''SUCCESS'' (swap_view w) else swap_view w)
    \<and> (n = 4 \<and> st = CLEAR \<longrightarrow> (\<forall>l\<in>set (activeLegsBySeq sid (db w')). seq_of l \<le> 4 \<longrightarrow> f_status l = CLEAR))
    \<and> (n \<noteq> 4 \<and> st = CLEAR \<longrightarrow> (\<exists>target moved new. active_leg sid n (db w) = Some target \<and> same_leg target moved
        \<and> f_status moved = CLEAR \<and> funds (db w') = with_row moved (funds (db w)) @ [new] \<and> started sid (n + 1) 1 new))"
proof -
  obtain s target ev where t: "sw_id s = sid" "active_leg sid n (db w) = Some target" "leg_outcome s n target st ev w w'"
      "\<not> prior_not_clear n (activeLegsBySeq sid (db w))"
    using advanceLeg_returned[OF assms] by metis
  show ?thesis
  proof (cases "n = 4 \<and> st = CLEAR")
    case True
    then obtain moved where m: "same_leg target moved" "f_status moved = CLEAR" "funds (db w') = with_row moved (funds (db w))"
        "swap_view w' = set_status sid ''SUCCESS'' (swap_view w)"
      using t by (auto simp: leg_outcome_def)
    have row: "target \<in> set (activeLegsBySeq sid (db w))" "f_legSeq target = Some n"
      using t(2) by (auto simp: active_leg_def dest: find_SomeD)
    have legs: "activeLegsBySeq sid (db w') = with_row moved (activeLegsBySeq sid (db w))"
      by (rule active_legs_with_row[OF assms(1) _ m(1,3)]) (use row(1) active_in in blast)
    have "f_status l = CLEAR" if "l \<in> set (activeLegsBySeq sid (db w'))" "seq_of l \<le> 4" for l
    proof (cases "l = moved")
      case False
      then have l: "l \<in> set (activeLegsBySeq sid (db w))" "f_id l \<noteq> f_id target"
        using that(1) m(1) unfolding legs with_row_def in_update_rows by (auto simp: same_leg_def split: if_splits)
      have "seq_of target = 4"
        using row(2) True by (simp add: seq_of_def default_of_def)
      then have "seq_of l < 4"
        using one_active[OF l(1) row(1)] l(2) that(2) by fastforce
      then show ?thesis
        using t(4) l(1) True by (auto simp: prior_not_clear_def list_ex_iff)
    qed (simp add: m(2))
    then show ?thesis
      using True m by simp
  next
    case False
    then show ?thesis
      using t by (cases "st = CLEAR"; cases "n = 4") (auto simp: leg_outcome_def appends_def)
  qed
qed

lemma wit_last_clear:
  "advanceLeg ''SW1'' 4 CLEAR_FUND ''OP'' (wit_world [wit_leg 4 1 CONFIRMED ''AED'']) =
     (Inr (''S1'', 4, CLEAR), snd (advanceLeg ''SW1'' 4 CLEAR_FUND ''OP'' (wit_world [wit_leg 4 1 CONFIRMED ''AED''])))"
  by (rule run_eq) code_simp

theorem swap_completes_with_last_leg_witness:
  "swap_view (snd (advanceLeg ''SW1'' 4 CLEAR_FUND ''OP'' (wit_world [wit_leg 4 1 CONFIRMED ''AED'']))) = [(''S1'', ''SW1'', ''SUCCESS'')]"
  using swap_completes_with_last_leg[OF wit_funds wit_last_clear]
  by (simp add: set_status_def swap_view_def wit_world_def wit_swap_def)

section \<open>Cancelled legs\<close>

lemma swap_of_view: "map_option (\<lambda>s. (sw_id s, sw_no s, sw_status s)) (swap_of no (db w)) = find (\<lambda>(i, n, st). n = no) (swap_view w)"
proof -
  have "map_option (\<lambda>s. (sw_id s, sw_no s, sw_status s)) (find (\<lambda>s. sw_no s = no) ss)
      = find (\<lambda>(i, n, st). n = no) (map (\<lambda>s. (sw_id s, sw_no s, sw_status s)) ss)" for ss
    by (induction ss) auto
  then show ?thesis
    by (simp add: swap_of_def swap_view_def)
qed

lemma resume_needs_review:
  assumes "\<And>s. swap_of no (db w) = Some s \<Longrightarrow> \<exists>t. active_leg (sw_id s) n (db w) = Some t \<and> f_status t \<noteq> NEEDS_REVIEW"
  shows "wp (resumeLeg no n op) (\<lambda>_ _. False) (\<lambda>_ v. db v = db w) w"
proof (cases "swap_of no (db w)")
  case (Some s)
  then obtain t where "active_leg (sw_id s) n (db w) = Some t" "f_status t \<noteq> NEEDS_REVIEW"
    using assms by blast
  then show ?thesis
    using Some by (simp add: resumeLeg_def findByNoInternal_def active_target_def swap_of_def active_leg_def)
qed (simp add: resumeLeg_def findByNoInternal_def swap_of_def)

text \<open>
  C21. A cancelled leg stops its swap for good: once an advance has taken a leg to CANCELLED, every later
  advance of this leg or of a leg behind it fails, whatever the action, and so does resuming the leg; the
  database stays as it is and the swap stays in PROCESSING.
\<close>

theorem cancelled_leg_wedges_swap:
  assumes inv: "funds_inv (db w)" and run: "advanceLeg no n act op w = (Inr (sid, k, CANCELLED), w')" and m: "n \<le> m"
  shows "(\<exists>e v. advanceLeg no m act' op' w' = (Inl e, v) \<and> db v = db w')
    \<and> (\<exists>e v. resumeLeg no n op' w' = (Inl e, v) \<and> db v = db w')
    \<and> (\<exists>s. swap_of no (db w') = Some s \<and> sw_status s = ''PROCESSING'')"
proof -
  obtain s target ev where t: "swap_of no (db w) = Some s" "sw_id s = sid" "sw_status s = ''PROCESSING''"
      "active_leg sid n (db w) = Some target" "leg_outcome s n target CANCELLED ev w w'"
    using advanceLeg_returned[OF inv run] by metis
  obtain moved where mv: "same_leg target moved" "f_status moved = CANCELLED" "swap_view w' = swap_view w"
      "funds (db w') = with_row moved (funds (db w))"
    using t(5) by (auto simp: leg_outcome_def)
  have view: "find (\<lambda>(i, n, st). n = no) (swap_view w') = Some (sid, sw_no s, ''PROCESSING'')"
    using swap_of_view[of no w] t(1-3) mv(3) by simp
  then obtain s' where s': "swap_of no (db w') = Some s'" "sw_id s' = sid" "sw_status s' = ''PROCESSING''"
    using swap_of_view[of no w'] by (cases "swap_of no (db w')") auto
  have active: "active_leg sid n (db w') = Some moved"
    by (rule active_leg_with_row[OF inv t(4) mv(1,4)])
  have inv': "funds_inv (db w')"
    using stepsD[OF advanceLeg_inv run] inv by (simp add: keeps_db_def)
  have dead: "getTransitionMap ty CANCELLED act' = None" for ty
    by (simp add: getTransitionMap_def CRYPTO_TRANSITIONS_def FIAT_TRANSITIONS_def)
  have behind: "prior_not_clear m (activeLegsBySeq sid (db w'))" if "n \<noteq> m"
    using active that m mv(2) by (auto simp: prior_not_clear_def list_ex_iff active_leg_def seq_of_def default_of_def
        dest!: find_SomeD intro!: bexI[of _ moved])
  have "\<not> advanced no m act' w' x v" for x v
    using s' active dead mv(2) behind by (cases "n = m") (auto simp: advanced_def may_advance_def)
  then have adv: "\<exists>e v. advanceLeg no m act' op' w' = (Inl e, v) \<and> db v = db w'"
    using advanceLeg_facts[OF inv', of no m act' op'] by (auto split: prod.splits sum.splits)
  have "wp (resumeLeg no n op') (\<lambda>_ _. False) (\<lambda>_ v. db v = db w') w'"
    by (rule resume_needs_review) (use s' active mv(2) in auto)
  then have "\<exists>e v. resumeLeg no n op' w' = (Inl e, v) \<and> db v = db w'"
    by (cases "resumeLeg no n op' w'"; cases "fst (resumeLeg no n op' w')") (auto simp: wp_def)
  then show ?thesis
    using adv s' by blast
qed

lemma wit_cancel:
  "advanceLeg ''SW1'' 1 CANCEL ''OP'' (wit_world [wit_leg 1 1 SIGNING ''USDT'']) =
     (Inr (''S1'', 1, CANCELLED), snd (advanceLeg ''SW1'' 1 CANCEL ''OP'' (wit_world [wit_leg 1 1 SIGNING ''USDT''])))"
  by (rule run_eq) code_simp

theorem cancelled_leg_wedges_swap_witness:
  "\<exists>w' e v. advanceLeg ''SW1'' 1 BROADCAST ''OP'' w' = (Inl e, v) \<and> db v = db w'"
  using cancelled_leg_wedges_swap[OF wit_funds wit_cancel order.refl, of BROADCAST "''OP''"] by blast

section \<open>What a leg posts\<close>

text \<open>
  C22. A leg posts, or voids, exactly what it booked: when booking a leg has returned, and later posting or
  voiding it under the same context returns, then the two sent as many requests, one for each entry of a
  positive amount, none of them refused, and the later ones name the pending transfers of the earlier ones
  with their amounts, one by one and in the same order.
\<close>

theorem swap_leg_closes_what_it_booked:
  assumes book: "initiateLegPending ctx spec w = (Inr (), w1)"
    and close: "postLeg ctx spec v = (Inr (), v1) \<and> flag = Flag_post \<or> voidLeg ctx spec v = (Inr (), v1) \<and> flag = Flag_void"
    and sha: "sha_id v = sha_id w"
  shows "\<exists>ps cs. tb_log w1 = tb_log w @ ps \<and> tb_log v1 = tb_log v @ cs
    \<and> map (tr_amount \<circ> fst) ps = filter (\<lambda>a. 0 < a) (map (entry_amount ctx) (sl_accounting spec))
    \<and> list_all2 (\<lambda>(p, r) (c, r'). tr_pending_id c = tr_id p \<and> tr_amount c = tr_amount p \<and> tr_flag p = Flag_pending
         \<and> tr_flag c = flag \<and> \<not> real_error r \<and> \<not> real_error r') ps cs"
proof -
  obtain ps where ps: "tb_log w1 = tb_log w @ ps" "list_all2 (books_entry (sha_id w) ctx) ps (booked_entries ctx spec)"
    using wp_result(1)[OF book wp_initiateLegPending] by (auto simp: sends_def)
  obtain cs where cs: "tb_log v1 = tb_log v @ cs" "list_all2 (closes_entry flag (sha_id w) ctx) cs (booked_entries ctx spec)"
    using close wp_result(1)[OF _ wp_postLeg] wp_result(1)[OF _ wp_voidLeg] by (fastforce simp: sends_def sha)
  have amounts: "map (tr_amount \<circ> fst) ps = map (entry_amount ctx) (booked_entries ctx spec)"
    using ps(2) by (induction rule: list_all2_induct) (auto simp: books_entry_def)
  have "list_all2 (\<lambda>a c. closes_entry flag (sha_id w) ctx c a) (booked_entries ctx spec) cs"
    using cs(2) by (simp add: list_all2_conv_all_nth)
  then have "list_all2 (\<lambda>(p, r) (c, r'). tr_pending_id c = tr_id p \<and> tr_amount c = tr_amount p \<and> tr_flag p = Flag_pending
         \<and> tr_flag c = flag \<and> \<not> real_error r \<and> \<not> real_error r') ps cs"
    by (intro list_all2_trans[OF _ ps(2)]) (auto simp: books_entry_def closes_entry_def)
  then show ?thesis
    using ps(1) cs(1) amounts by (auto simp: booked_entries_def filter_map comp_def)
qed

lemma wit_booking:
  "initiateLegPending wit_ctx (CRYPTO_TO_FIAT ! 1) book_world
     = (Inr (), snd (initiateLegPending wit_ctx (CRYPTO_TO_FIAT ! 1) book_world))"
  by (rule run_eq) code_simp

lemma wit_posting:
  "postLeg wit_ctx (CRYPTO_TO_FIAT ! 1) (snd (initiateLegPending wit_ctx (CRYPTO_TO_FIAT ! 1) book_world))
     = (Inr (), snd (postLeg wit_ctx (CRYPTO_TO_FIAT ! 1) (snd (initiateLegPending wit_ctx (CRYPTO_TO_FIAT ! 1) book_world))))"
  by (rule run_eq) code_simp

lemma wit_sha: "sha_id (snd (initiateLegPending wit_ctx (CRYPTO_TO_FIAT ! 1) book_world)) = sha_id book_world"
  using wp_result(1)[OF wit_booking wp_initiateLegPending] by (simp add: sends_def)

theorem swap_leg_closes_what_it_booked_witness:
  "\<exists>ps. map (tr_amount \<circ> fst) ps = filter (\<lambda>a. 0 < a) (map (entry_amount wit_ctx) (sl_accounting (CRYPTO_TO_FIAT ! 1)))
     \<and> tb_log (snd (initiateLegPending wit_ctx (CRYPTO_TO_FIAT ! 1) book_world)) = ps"
  using swap_leg_closes_what_it_booked[OF wit_booking disjI1[OF conjI[OF wit_posting HOL.refl]] wit_sha]
  by (auto simp: book_world_def demo_world_def)

section \<open>Runs of the workflow\<close>

inductive swap_step :: "world \<Rightarrow> world \<Rightarrow> bool" where
  execute: "gate_ok elig \<Longrightarrow> executeSwap elig own qid w = (r, w') \<Longrightarrow> swap_step w w'"
| advance: "advanceLeg no n act op w = (r1, w') \<Longrightarrow> swap_step w w'"
| resume: "resumeLeg no n op w = (r2, w') \<Longrightarrow> swap_step w w'"

lemma insert_swap_view: "steps (same ledger_view) (insert_swap r)" "steps (same (\<lambda>w. funds (db w))) (insert_swap r)"
  by (auto simp: insert_swap_def steps_wp same_def ledger_view_def)

lemma quote_views:
  "steps (same ledger_view) (consumeQuote i ty own amt True)" "steps (same (\<lambda>w. funds (db w))) (consumeQuote i ty own amt True)"
  "steps (same ledger_view) (getActiveQuoteOrThrow i ty own t)" "steps (same (\<lambda>w. funds (db w))) (getActiveQuoteOrThrow i ty own t)"
proof -
  show g: "steps (same ledger_view) (getActiveQuoteOrThrow i ty own t)" "steps (same (\<lambda>w. funds (db w))) (getActiveQuoteOrThrow i ty own t)" for t
    by (auto simp: steps_wp same_def ledger_view_def getActiveQuoteOrThrow_def owned_quote_def markExpired_def
        put_quote_def split: option.split)
  have basic: "steps (same (\<lambda>w. funds (db w))) now" "steps (same (\<lambda>w. funds (db w))) (put_quote q h)"
    "steps (same (\<lambda>w. funds (db w))) (recordByActor x True)" for q h x
    by (simp_all add: steps_wp same_def put_quote_def)
  show "steps (same ledger_view) (consumeQuote i ty own amt True)" "steps (same (\<lambda>w. funds (db w))) (consumeQuote i ty own amt True)"
    unfolding consumeQuote_def Let_def by (intro frame.combinators view_basic basic g)+
qed

lemma execute_quote_ops:
  "steps books_sound (execute_quote own no q tr)" "steps (keeps_db funds_inv) (execute_quote own no q tr)"
proof -
  have reads: "steps (same f) (resolveLedger c)" for c and f :: "world \<Rightarrow> 'c"
    unfolding resolveLedger_def by (intro frame.combinators)
  have uuid: "steps (keeps_db funds_inv) randomUUID"
    by (rule keeps_funds) (simp add: steps_wp same_def)
  show "steps books_sound (execute_quote own no q tr)"
    unfolding execute_quote_def Let_def
    by (intro sound_books.combinators view_books createAndStartLeg_books insert_swap_view(1)[THEN books_sound_view]
        quote_views(1)[THEN books_sound_view] reads[THEN books_sound_view])
  show "steps (keeps_db funds_inv) (execute_quote own no q tr)"
    unfolding execute_quote_def Let_def
    by (intro keeps_rules keeps_side uuid createAndStartLeg_inv insert_swap_view(2)[THEN keeps_funds]
        quote_views(2)[THEN keeps_funds] reads[THEN keeps_funds])
qed

lemma executeSwap_ops:
  assumes "gate_ok elig"
  shows "steps books_sound (executeSwap elig own qid)" "steps (keeps_db funds_inv) (executeSwap elig own qid)"
proof -
  have gate: "steps (same ledger_view) (elig x a)" "steps (same (\<lambda>w. funds (db w))) (elig x a)" for x a
    using assms by (auto simp: gate_ok_def steps_def same_def trade_def)
  have check: "steps (same f) (ensureCustomerCanTransact c x)" for c x and f :: "world \<Rightarrow> 'c"
    unfolding ensureCustomerCanTransact_def by (intro frame.combinators)
  have side: "steps (same (\<lambda>w. funds (db w))) randomUUID" "steps (same (\<lambda>w. funds (db w))) (generateReferenceNo p)"
      "steps (same (\<lambda>w. funds (db w))) (recordSystem x c)" for p x c
    by (simp_all add: steps_wp same_def)
  show "steps books_sound (executeSwap elig own qid)"
    unfolding executeSwap_def audit_swap_failed_def swap_detail_def
    by (intro sound_books.combinators sound_books.transaction view_books execute_quote_ops(1)
        gate(1)[THEN books_sound_view] check[THEN books_sound_view] quote_views(3)[THEN books_sound_view])
  show "steps (keeps_db funds_inv) (executeSwap elig own qid)"
    unfolding executeSwap_def audit_swap_failed_def swap_detail_def
    by (intro keeps_rules execute_quote_ops(2) gate(2)[THEN keeps_funds] check[THEN keeps_funds]
        quote_views(4)[THEN keeps_funds] side[THEN keeps_funds])
qed

lemma swap_step_keeps: "swap_step w w' \<Longrightarrow> books_sound w w' \<and> keeps_db funds_inv w w'"
  by (induction rule: swap_step.induct)
    (auto dest: stepsD[OF advanceLeg_books] stepsD[OF advanceLeg_inv] stepsD[OF resumeLeg_books]
      stepsD[OF resumeLeg_inv] stepsD[OF executeSwap_ops(1)] stepsD[OF executeSwap_ops(2)])

lemma swap_steps_keep: "swap_step\<^sup>*\<^sup>* w w' \<Longrightarrow> books_sound w w' \<and> keeps_db funds_inv w w'"
  by (induction rule: rtranclp_induct)
    (auto intro: sound_books.R_refl sound_books.R_trans keeps.R_refl keeps.R_trans dest!: swap_step_keeps)

text \<open>
  The books stay sound through any run of the swap workflow: after any sequence of executions, advances
  and resumptions, returned or failed, every evidence row is still backed by an accepted transfer of the
  ledger, R2 still holds of the account flows, and the leg table is still sound.
\<close>

theorem swap_runs_keep_books:
  assumes "swap_step\<^sup>*\<^sup>* w w'" "backed (tb_log w) (db w)" "flows_inv (db w)" "funds_inv (db w)"
  shows "backed (tb_log w') (db w') \<and> flows_inv (db w') \<and> funds_inv (db w')"
  using swap_steps_keep[OF assms(1)] assms(2-)
  by (auto simp: books_sound_def ledger_grows_def r2_step_def keeps_db_def)

theorem swap_runs_keep_books_witness:
  "backed (tb_log (snd (resumeLeg ''SW1'' 1 ''OP'' demo_world))) (db (snd (resumeLeg ''SW1'' 1 ''OP'' demo_world)))"
proof -
  have "swap_step\<^sup>*\<^sup>* demo_world (snd (resumeLeg ''SW1'' 1 ''OP'' demo_world))"
    by (rule r_into_rtranclp, rule swap_step.resume, rule surjective_pairing)
  moreover have "backed (tb_log demo_world) (db demo_world)" "flows_inv (db demo_world)" "funds_inv (db demo_world)"
    by (simp_all add: demo_world_def empty_db_def backed_def flows_inv_def funds_inv_def)
  ultimately show ?thesis
    using swap_runs_keep_books by blast
qed

end
