(* ===== verification/Grouping.thy ===== *)
theory Grouping
  imports Prelude
begin

text \<open>
  The two collection idioms of the settlement and reconciliation services: \<open>Array.from(new Set(xs))\<close>, and
  the loop that groups rows in a \<open>Map\<close> whose entries keep the order of their first row.  The equations
  say what such a loop builds: one group per key, folded over exactly the rows of that key.
\<close>

section \<open>Sets of JavaScript\<close>

text \<open>A \<open>Set\<close> lists its elements in the order of their first insertion.\<close>

definition js_set :: "'a list \<Rightarrow> 'a list" where
  "js_set xs = rev (remdups (rev xs))"

lemma set_js_set [simp]: "set (js_set xs) = set xs"
  by (simp add: js_set_def)

lemma distinct_js_set [simp]: "distinct (js_set xs)"
  by (simp add: js_set_def)

lemma js_set_Nil [simp]: "js_set [] = []"
  by (simp add: js_set_def)

lemma js_set_snoc [simp]: "js_set (xs @ [x]) = (if x \<in> set xs then js_set xs else js_set xs @ [x])"
  by (simp add: js_set_def)

lemma length_js_set: "length (js_set xs) = card (set xs)"
  by (metis distinct_card distinct_js_set set_js_set)

lemma js_set_eq_Nil [simp]: "js_set xs = [] \<longleftrightarrow> xs = []"
  by (simp add: js_set_def)

section \<open>Grouping into a Map\<close>

text \<open>\<open>get\<close>, and \<open>set\<close> when there is no entry yet, of a \<open>Map\<close> whose entries are mutated in place.\<close>

fun upsert :: "('g \<Rightarrow> 'k) \<Rightarrow> 'k \<Rightarrow> 'g \<Rightarrow> ('g \<Rightarrow> 'g) \<Rightarrow> 'g list \<Rightarrow> 'g list" where
  "upsert key k fresh upd [] = [fresh]"
| "upsert key k fresh upd (g # gs) =
     (if key g = k then upd g # gs else g # upsert key k fresh upd gs)"

definition group_rows :: "('g \<Rightarrow> 'k) \<Rightarrow> ('r \<Rightarrow> 'k) \<Rightarrow> ('r \<Rightarrow> 'g) \<Rightarrow> ('g \<Rightarrow> 'r \<Rightarrow> 'g) \<Rightarrow> 'r list \<Rightarrow> 'g list" where
  "group_rows key rk fresh add rs = foldl (\<lambda>gs r. upsert key (rk r) (fresh r) (\<lambda>g. add g r) gs) [] rs"

definition folded :: "('r \<Rightarrow> 'g) \<Rightarrow> ('g \<Rightarrow> 'r \<Rightarrow> 'g) \<Rightarrow> 'r list \<Rightarrow> 'g" where
  "folded fresh add rs = foldl add (fresh (hd rs)) (tl rs)"

lemma folded_snoc: "rs \<noteq> [] \<Longrightarrow> folded fresh add (rs @ [r]) = add (folded fresh add rs) r"
  by (cases rs) (simp_all add: folded_def)

lemma folded_single [simp]: "folded fresh add [r] = fresh r"
  by (simp add: folded_def)

lemma upsert_map:
  assumes "\<And>k. k \<in> set ks \<Longrightarrow> key (g k) = k" "distinct ks"
  shows "upsert key k fresh upd (map g ks) =
    (if k \<in> set ks then map (\<lambda>j. if j = k then upd (g j) else g j) ks else map g ks @ [fresh])"
  using assms
proof (induction ks)
  case (Cons j ks)
  have "map (\<lambda>i. if i = j then upd (g i) else g i) ks = map g ks"
    using Cons.prems by auto
  then show ?case
    using Cons by (auto simp: Cons.prems(1)[of j])
qed simp

lemma key_folded:
  assumes "\<And>r. key (fresh r) = rk r" "\<And>g r. key (add g r) = key g" "rs \<noteq> []"
  shows "key (folded fresh add rs) = rk (hd rs)"
proof -
  have "key (foldl add g xs) = key g" for g xs
    by (induction xs arbitrary: g) (simp_all add: assms(2))
  then show ?thesis
    by (simp add: folded_def assms(1))
qed

abbreviation rows_of :: "('r \<Rightarrow> 'k) \<Rightarrow> 'k \<Rightarrow> 'r list \<Rightarrow> 'r list" where
  "rows_of rk k rs \<equiv> filter (\<lambda>r. rk r = k) rs"

theorem group_rows_spec:
  assumes "\<And>r. key (fresh r) = rk r" "\<And>g r. key (add g r) = key g"
  shows "group_rows key rk fresh add rs =
    map (\<lambda>k. folded fresh add (rows_of rk k rs)) (js_set (map rk rs))"
proof (induction rs rule: rev_induct)
  case (snoc r rs)
  let ?g = "\<lambda>k. folded fresh add (rows_of rk k rs)"
  have ne: "rows_of rk k rs \<noteq> []" if "k \<in> rk ` set rs" for k
    using that by (auto simp: filter_empty_conv)
  have hd: "rk (hd (rows_of rk k rs)) = k" if "k \<in> rk ` set rs" for k
    using ne[OF that] hd_in_set[of "rows_of rk k rs"] by simp
  have key: "key (?g k) = k" if "k \<in> set (js_set (map rk rs))" for k
    using that ne[of k] hd[of k] key_folded[of key fresh rk add "rows_of rk k rs"] assms by simp
  have other: "rows_of rk k (rs @ [r]) = rows_of rk k rs" if "k \<noteq> rk r" for k
    using that by simp
  have "group_rows key rk fresh add (rs @ [r]) =
      upsert key (rk r) (fresh r) (\<lambda>g. add g r) (map ?g (js_set (map rk rs)))"
    using snoc by (simp add: group_rows_def)
  also have "\<dots> = map (\<lambda>k. folded fresh add (rows_of rk k (rs @ [r]))) (js_set (map rk (rs @ [r])))"
  proof (cases "rk r \<in> rk ` set rs")
    case True
    then show ?thesis
      using upsert_map[of "js_set (map rk rs)" key ?g] key
      by (auto simp: folded_snoc[OF ne])
  next
    case False
    then have "rows_of rk (rk r) rs = []"
      unfolding filter_empty_conv by (metis imageI)
    then show ?thesis
      using False upsert_map[of "js_set (map rk rs)" key ?g] key by (auto intro: other)
  qed
  finally show ?case .
qed (simp add: group_rows_def)

text \<open>Every row lands in exactly one group, so sums over the rows are sums over the groups.\<close>

lemma sum_list_by_key:
  assumes "distinct ks" "rk ` set rs \<subseteq> set ks"
  shows "(\<Sum>k\<leftarrow>ks. \<Sum>r\<leftarrow>rows_of rk k rs. f r) = (\<Sum>r\<leftarrow>rs. f r :: 'c :: comm_monoid_add)"
  using assms(2)
proof (induction rs)
  case (Cons r rs)
  have "(\<Sum>k\<leftarrow>ks. \<Sum>x\<leftarrow>rows_of rk k (r # rs). f x) =
      (\<Sum>k\<leftarrow>ks. (if k = rk r then f r else 0) + (\<Sum>x\<leftarrow>rows_of rk k rs. f x))"
    by (intro arg_cong[where f = sum_list] map_cong) auto
  also have "\<dots> = (\<Sum>k\<leftarrow>ks. if k = rk r then f r else 0) + (\<Sum>x\<leftarrow>rs. f x)"
    using Cons by (simp add: sum_list_addf)
  also have "(\<Sum>k\<leftarrow>ks. if k = rk r then f r else 0) = f r"
    using Cons.prems assms(1) by (simp add: sum_list_distinct_conv_sum_set)
  finally show ?case
    by simp
qed simp

lemma concat_by_key_mset:
  "(\<Sum>k\<leftarrow>js_set (map rk rs). \<Sum>r\<leftarrow>rows_of rk k rs. f r) = (\<Sum>r\<leftarrow>rs. f r :: 'c :: comm_monoid_add)"
  by (rule sum_list_by_key) simp_all

end
