(* ===== verification/Settlement.thy ===== *)
theory Settlement
  imports FundsFlow Grouping
begin

text \<open>
  Settlement batches and the ledger of open amounts they close (src/src/modules/funds-layer/domain/
  settlement-batch.service.ts and outstanding-consumer.service.ts).  An outstanding is OPEN until a
  settlement locks it to a batch, with or without a transfer, and SETTLED when the transfer's leg has
  cleared or the asset netted to zero; the batch is re-aggregated after every settlement.  Both services
  write their audit rows without the transaction's client.
\<close>

section \<open>Batches\<close>

definition insert_batch :: "settlement_batch \<Rightarrow> settlement_batch op" where
  "insert_batch r =
     bind (getsDb batches) (\<lambda>bs.
       if \<exists>b\<in>set bs. b_no b = b_no r then throw (UniqueConstraint ''batchNo'')
       else if b_requestId r \<noteq> None \<and> (\<exists>b\<in>set bs. b_requestId b = b_requestId r)
         then throw (UniqueConstraint ''requestId'')
       else if \<exists>b\<in>set bs. b_id b = b_id r then throw (UniqueConstraint ''id'')
       else andThen (onDb (\<lambda>d. d\<lparr>batches := batches d @ [r]\<rparr>)) (ret r))"

record CreateBatchInput =
  cb_cutoffAt :: int
  cb_requestId :: "string option"
  cb_settlementType :: "string option"
  cb_category :: "string option"

definition batch_row :: "CreateBatchInput \<Rightarrow> string \<Rightarrow> string \<Rightarrow> string \<Rightarrow> settlement_batch" where
  "batch_row inp batchNo traceId rowId =
     \<lparr>b_id = rowId, b_no = batchNo, b_type = default_of ''CRYPTO_PRINCIPAL'' (cb_settlementType inp),
      b_category = default_of ''PRINCIPAL'' (cb_category inp), b_cutoffAt = cb_cutoffAt inp,
      b_status = ''CREATED'', b_requestId = cb_requestId inp, b_traceId = Some traceId,
      b_totalAssets = 0, b_settledAssets = 0, b_totalOutstandings = 0, b_settledOutstandings = 0,
      b_totalFees = 0, b_settledFees = 0, b_completedAt = None\<rparr>"

definition batch_audit :: "string \<Rightarrow> string \<Rightarrow> string option \<Rightarrow> string option \<Rightarrow> string \<Rightarrow> audit" where
  "batch_audit action i no trace reason =
     (audit0 action ''SETTLEMENT_BATCH'')
       \<lparr>au_entityId := Some i, au_entityNo := no, au_workflowType := Some ''SETTLEMENT'',
        au_reason := Some reason, au_platform := Some ''SYSTEM'', au_traceId := trace\<rparr>"

definition createBatch :: "CreateBatchInput \<Rightarrow> bool \<Rightarrow> settlement_batch op" where
  "createBatch inp tx =
     bind (inTx tx (with_unique_no MAX_NO_GENERATION_RETRIES ''OSB'' ''batchNo'' (\<lambda>no.
         bind randomUUID (\<lambda>traceId. bind randomUUID (\<lambda>rowId.
           insert_batch (batch_row inp no traceId rowId)))))) (\<lambda>b.
     andThen (recordSystem (batch_audit ''BATCH_CREATED'' (b_id b) (Some (b_no b)) (b_traceId b)
         (''Batch created: '' @ b_category b @ ''/'' @ b_type b)) False)
       (ret b))"

section \<open>Re-aggregating a batch\<close>

definition batch_transfers :: "string \<Rightarrow> db \<Rightarrow> internal_transaction list" where
  "batch_transfers i d = filter (\<lambda>t. t_batchId t = Some i) (transfers d)"

definition batch_outstandings :: "string \<Rightarrow> db \<Rightarrow> outstanding list" where
  "batch_outstandings i d = filter (\<lambda>x. o_batchId x = Some i) (outstandings d)"

definition batch_accruals :: "string \<Rightarrow> db \<Rightarrow> fee_accrual list" where
  "batch_accruals i d = filter (\<lambda>a. fa_batchId a = Some i) (accruals d)"

definition count_of :: "('r \<Rightarrow> bool) \<Rightarrow> 'r list \<Rightarrow> nat" where
  "count_of p rs = length (filter p rs)"

definition all_done :: "settlement_batch \<Rightarrow> bool" where
  "all_done b \<longleftrightarrow> 0 < b_totalAssets b \<and> b_settledAssets b = b_totalAssets b
     \<and> b_settledOutstandings b = b_totalOutstandings b \<and> b_settledFees b = b_totalFees b"

text \<open>Assets without a transfer count as settled; \<open>!settledByTransferId\<close> holds of null and of the empty
  string.\<close>

definition recounted ::
    "internal_transaction list \<Rightarrow> outstanding list \<Rightarrow> fee_accrual list \<Rightarrow> settlement_batch \<Rightarrow> settlement_batch"
    where
  "recounted ts os fs b =
     (let nettedZeroAssets = js_set (map o_assetId (filter (\<lambda>x. \<not> truthy (o_transferId x)) os));
          transferAssets = js_set (map t_assetId ts)
      in b\<lparr>b_totalAssets := length transferAssets + length nettedZeroAssets,
           b_settledAssets := count_of (\<lambda>t. t_status t = IT_SUCCESS) ts + length nettedZeroAssets,
           b_totalOutstandings := length os,
           b_settledOutstandings := count_of (\<lambda>x. o_status x = ''SETTLED'') os,
           b_totalFees := length fs,
           b_settledFees := count_of (\<lambda>a. fa_status a = ''SETTLED'') fs\<rparr>)"

definition recomputed :: "string \<Rightarrow> db \<Rightarrow> int \<Rightarrow> settlement_batch \<Rightarrow> settlement_batch" where
  "recomputed i d t b =
     (let c = recounted (batch_transfers i d) (batch_outstandings i d) (batch_accruals i d) b
      in c\<lparr>b_status := (if all_done c then ''SUCCESS'' else ''PROCESSING''),
           b_completedAt := (if all_done c then Some t else None)\<rparr>)"

definition find_batch :: "string \<Rightarrow> db \<Rightarrow> settlement_batch option" where
  "find_batch i d = by_id b_id i (batches d)"

definition put_batch :: "string \<Rightarrow> settlement_batch \<Rightarrow> unit op" where
  "put_batch i r = onDb (\<lambda>d. d\<lparr>batches := update_rows (\<lambda>b. b_id b = i) (\<lambda>_. r) (batches d)\<rparr>)"

definition recomputeBatch :: "string \<Rightarrow> bool \<Rightarrow> settlement_batch op" where
  "recomputeBatch i tx = inTx tx (
     bind (getsDb (\<lambda>d. d)) (\<lambda>d.
     bind now (\<lambda>t.
     bind (need (find_batch i d) RecordNotFound) (\<lambda>existing.
     let result = recomputed i d t existing in
     andThen (put_batch i result)
    (andThen (whenM (all_done result \<and> b_status existing \<noteq> ''SUCCESS'')
        (recordSystem (batch_audit ''BATCH_SUCCEEDED'' i (Some (b_no existing)) (b_traceId existing)
          (''Batch reached SUCCESS via recompute ('' @ nat_str (b_totalOutstandings result)
             @ '' outstanding + '' @ nat_str (b_totalFees result) @ '' fee accruals)'')) False))
      (ret result))))))"

record CryptoDirection =
  dir_path :: TransferPath
  dir_fromRole :: string
  dir_toRole :: string
  dir_amount :: rat

definition resolveCryptoDirection :: "rat \<Rightarrow> CryptoDirection option" where
  "resolveCryptoDirection net =
     (if net = 0 then None
      else if 0 < net then Some \<lparr>dir_path = CRYPTO_SETTLE_IN, dir_fromRole = ''F_OPS'',
        dir_toRole = ''C_MAIN'', dir_amount = net\<rparr>
      else Some \<lparr>dir_path = CRYPTO_SETTLE_OUT, dir_fromRole = ''C_MAIN'', dir_toRole = ''F_OPS'',
        dir_amount = \<bar>net\<bar>\<rparr>)"

section \<open>Open amounts by asset\<close>

record CryptoOutstandingGroup =
  g_assetId :: string
  g_assetCode :: "string option"
  g_decimals :: nat
  g_inAmount :: rat
  g_outAmount :: rat
  g_net :: rat
  g_outstandingIds :: "string list"

definition asset_type_of :: "string \<Rightarrow> db \<Rightarrow> string option" where
  "asset_type_of i d = map_option a_type (find_asset i d)"

definition open_crypto :: "int \<Rightarrow> db \<Rightarrow> outstanding \<Rightarrow> bool" where
  "open_crypto cutoff d x \<longleftrightarrow> o_status x = ''OPEN'' \<and> asset_type_of (o_assetId x) d = Some ''CRYPTO''
     \<and> o_batchId x = None \<and> o_createdAt x < cutoff"

definition add_outstanding :: "CryptoOutstandingGroup \<Rightarrow> outstanding \<Rightarrow> CryptoOutstandingGroup" where
  "add_outstanding g row =
     g\<lparr>g_inAmount := (if o_direction row = ''IN'' then g_inAmount g + o_amount row else g_inAmount g),
       g_outAmount := (if o_direction row = ''OUT'' then g_outAmount g + o_amount row else g_outAmount g),
       g_outstandingIds := g_outstandingIds g @ [o_id row]\<rparr>"

definition fresh_group :: "db \<Rightarrow> outstanding \<Rightarrow> CryptoOutstandingGroup" where
  "fresh_group d row =
     \<lparr>g_assetId = o_assetId row, g_assetCode = o_assetCode row,
      g_decimals = (case find_asset (o_assetId row) d of None \<Rightarrow> 0 | Some a \<Rightarrow> a_decimals a),
      g_inAmount = 0, g_outAmount = 0, g_net = 0, g_outstandingIds = []\<rparr>"

definition net_group :: "CryptoOutstandingGroup \<Rightarrow> CryptoOutstandingGroup" where
  "net_group g = g\<lparr>g_net := g_inAmount g - g_outAmount g\<rparr>"

definition findOpenCryptoByAsset :: "int \<Rightarrow> db \<Rightarrow> CryptoOutstandingGroup list" where
  "findOpenCryptoByAsset cutoff d =
     map net_group (group_rows g_assetId o_assetId (\<lambda>r. add_outstanding (fresh_group d r) r)
       add_outstanding (filter (open_crypto cutoff d) (outstandings d)))"

definition findOpenFiatBySwap :: "string \<Rightarrow> db \<Rightarrow> outstanding list" where
  "findOpenFiatBySwap swapId d =
     filter (\<lambda>x. o_swapId x = Some swapId \<and> o_status x = ''OPEN'' \<and> o_batchId x = None
       \<and> asset_type_of (o_assetId x) d = Some ''FIAT'') (outstandings d)"

section \<open>Locking and settling\<close>

text \<open>\<open>updateMany({ where, data })\<close> returns the number of rows it changed.\<close>

definition updateOutstandings :: "(outstanding \<Rightarrow> bool) \<Rightarrow> (outstanding \<Rightarrow> outstanding) \<Rightarrow> nat op" where
  "updateOutstandings p f =
     bind (getsDb (\<lambda>d. count_of p (outstandings d))) (\<lambda>n.
     andThen (onDb (\<lambda>d. d\<lparr>outstandings := update_rows p f (outstandings d)\<rparr>)) (ret n))"

definition origin_metadata :: "string option \<Rightarrow> (string \<times> string) list" where
  "origin_metadata origin = [(''originTraceId'', default_of ''null'' origin)]"

definition settlement_row_audit ::
    "string \<Rightarrow> string \<Rightarrow> string \<Rightarrow> string option \<Rightarrow> string \<Rightarrow> string option \<Rightarrow> string option \<Rightarrow> audit" where
  "settlement_row_audit action entity i no reason trace origin =
     (audit0 action entity)
       \<lparr>au_entityId := Some i, au_entityNo := no, au_workflowType := Some ''SETTLEMENT'',
        au_reason := Some reason, au_platform := Some ''SYSTEM'', au_traceId := trace,
        au_metadata := origin_metadata origin\<rparr>"

definition batch_trace_of :: "string \<Rightarrow> string option op" where
  "batch_trace_of i = getsDb (\<lambda>d. case find_batch i d of None \<Rightarrow> None | Some b \<Rightarrow> b_traceId b)"

definition audit_outstandings ::
    "string \<Rightarrow> string \<Rightarrow> (outstanding \<Rightarrow> string option) \<Rightarrow> outstanding list \<Rightarrow> unit op" where
  "audit_outstandings action reason trace rows =
     forEach rows (\<lambda>x. recordSystem (settlement_row_audit action ''OUTSTANDING'' (o_id x) (o_no x) reason
       (trace x) (o_originTraceId x)) False)"

definition lockable :: "string list \<Rightarrow> outstanding \<Rightarrow> bool" where
  "lockable ids x \<longleftrightarrow> o_id x \<in> set ids \<and> o_status x = ''OPEN''"

definition lockToTransfer :: "string list \<Rightarrow> string \<Rightarrow> string \<Rightarrow> nat op" where
  "lockToTransfer ids batchId transferId =
     bind (getsDb (\<lambda>d. filter (lockable ids) (outstandings d))) (\<lambda>rows.
     bind now (\<lambda>t.
     bind (updateOutstandings (lockable ids)
       (\<lambda>x. x\<lparr>o_status := ''LOCKED'', o_batchId := Some batchId, o_transferId := Some transferId,
              o_lockedAt := Some t\<rparr>)) (\<lambda>count.
     andThen (whenM (rows \<noteq> []) (bind (batch_trace_of batchId) (\<lambda>trace.
         audit_outstandings ''LOCKED'' (''Locked to transfer '' @ transferId) (\<lambda>_. trace) rows)))
       (ret count))))"

definition lockToBatch :: "string list \<Rightarrow> string \<Rightarrow> nat op" where
  "lockToBatch ids batchId =
     bind now (\<lambda>t. updateOutstandings (lockable ids)
       (\<lambda>x. x\<lparr>o_status := ''LOCKED'', o_batchId := Some batchId, o_lockedAt := Some t\<rparr>))"

definition batch_ids_of :: "string option list \<Rightarrow> string list" where
  "batch_ids_of is = js_set (map the (filter truthy is))"

text \<open>The trace id of a batch as the \<open>Map\<close> of the found batches gives it.\<close>

definition row_trace :: "db \<Rightarrow> string option \<Rightarrow> string option" where
  "row_trace d batchId =
     (if truthy batchId then (case find_batch (the batchId) d of None \<Rightarrow> None | Some b \<Rightarrow> b_traceId b)
      else None)"

definition locked_to :: "string \<Rightarrow> outstanding \<Rightarrow> bool" where
  "locked_to transferId x \<longleftrightarrow> o_transferId x = Some transferId \<and> o_status x = ''LOCKED''"

definition settle :: "string \<Rightarrow> string \<Rightarrow> nat op" where
  "settle transferId fundId =
     bind (getsDb (\<lambda>d. filter (locked_to transferId) (outstandings d))) (\<lambda>rows.
     bind now (\<lambda>t.
     bind (updateOutstandings (locked_to transferId)
       (\<lambda>x. x\<lparr>o_status := ''SETTLED'', o_closedByFundId := Some fundId, o_closedAt := Some t\<rparr>)) (\<lambda>count.
     andThen (bind (getsDb (\<lambda>d. d)) (\<lambda>d.
         audit_outstandings ''SETTLED'' (''Settled by transfer '' @ transferId @ '' / fund '' @ fundId)
           (\<lambda>x. row_trace d (o_batchId x)) rows))
    (andThen (forEach (batch_ids_of (map o_batchId rows)) (\<lambda>i. bind (recomputeBatch i True) (\<lambda>_. ret ())))
       (ret count)))))"

definition netted :: "string \<Rightarrow> string \<Rightarrow> outstanding \<Rightarrow> bool" where
  "netted batchId assetId x \<longleftrightarrow> o_batchId x = Some batchId \<and> o_assetId x = assetId
     \<and> o_transferId x = None \<and> o_status x = ''LOCKED''"

definition markSettledNettedZero :: "string \<Rightarrow> string \<Rightarrow> nat op" where
  "markSettledNettedZero batchId assetId =
     bind (getsDb (\<lambda>d. filter (netted batchId assetId) (outstandings d))) (\<lambda>rows.
     bind now (\<lambda>t.
     bind (updateOutstandings (netted batchId assetId)
       (\<lambda>x. x\<lparr>o_status := ''SETTLED'', o_closedAt := Some t\<rparr>)) (\<lambda>count.
     andThen (whenM (rows \<noteq> []) (bind (batch_trace_of batchId) (\<lambda>trace.
         audit_outstandings ''SETTLED'' (''Settled (netted-zero) in batch '' @ batchId @ '' asset '' @ assetId)
           (\<lambda>_. trace) rows)))
    (andThen (whenM (rows \<noteq> []) (bind (recomputeBatch batchId True) (\<lambda>_. ret ())))
       (ret count)))))"

end
