(* ===== verification/FeeAccruals.thy ===== *)
theory FeeAccruals
  imports Settlement
begin

text \<open>
  Fee accruals (src/src/modules/funds-layer/domain/fee-accrual.service.ts): the fee and the spread of a
  swap and the fee of a withdrawal are accrued once per source and kind; a settlement nets the accruals
  of an asset into one transfer of its own batch and locks them, and the cleared leg of that transfer
  settles them.  Every caller passes the plain client, so the operations run outside a transaction of
  their own and each nested service call commits by itself.
\<close>

section \<open>Accruing\<close>

record AccrualInput =
  ac_sourceType :: string
  ac_sourceId :: string
  ac_sourceNo :: "string option"
  ac_ownerType :: string
  ac_ownerId :: string
  ac_ownerNo :: "string option"
  ac_feeKind :: string
  ac_category :: string
  ac_assetId :: string
  ac_assetCode :: "string option"
  ac_amount :: rat
  ac_originTraceId :: "string option"

definition same_source :: "AccrualInput \<Rightarrow> fee_accrual \<Rightarrow> bool" where
  "same_source inp a \<longleftrightarrow> fa_sourceType a = ac_sourceType inp \<and> fa_sourceId a = ac_sourceId inp
     \<and> fa_feeKind a = ac_feeKind inp"

definition existing_accrual :: "AccrualInput \<Rightarrow> fee_accrual option op" where
  "existing_accrual inp = getsDb (\<lambda>d. find (same_source inp) (accruals d))"

definition accrual_row :: "AccrualInput \<Rightarrow> string \<Rightarrow> string \<Rightarrow> int \<Rightarrow> fee_accrual" where
  "accrual_row inp no rowId t =
     \<lparr>fa_id = rowId, fa_no = no, fa_sourceType = ac_sourceType inp, fa_sourceId = ac_sourceId inp,
      fa_sourceNo = ac_sourceNo inp, fa_ownerType = ac_ownerType inp, fa_ownerId = ac_ownerId inp,
      fa_ownerNo = ac_ownerNo inp, fa_feeKind = ac_feeKind inp, fa_category = ac_category inp,
      fa_assetId = ac_assetId inp, fa_assetCode = ac_assetCode inp, fa_amount = ac_amount inp,
      fa_status = ''ACCRUED'', fa_batchId = None, fa_transferId = None, fa_lockedAt = None,
      fa_closedByFundId = None, fa_closedAt = None, fa_originTraceId = ac_originTraceId inp,
      fa_createdAt = t\<rparr>"

definition insert_accrual :: "fee_accrual \<Rightarrow> fee_accrual op" where
  "insert_accrual r =
     bind (getsDb accruals) (\<lambda>rs.
       if \<exists>a\<in>set rs. fa_no a = fa_no r then throw (UniqueConstraint ''feeAccrualNo'')
       else if \<exists>a\<in>set rs. fa_sourceType a = fa_sourceType r \<and> fa_sourceId a = fa_sourceId r
              \<and> fa_feeKind a = fa_feeKind r
         then throw (UniqueConstraint ''sourceType_sourceId_feeKind'')
       else if \<exists>a\<in>set rs. fa_id a = fa_id r then throw (UniqueConstraint ''id'')
       else andThen (onDb (\<lambda>d. d\<lparr>accruals := accruals d @ [r]\<rparr>)) (ret r))"

fun is_unique_violation :: "error \<Rightarrow> bool" where
  "is_unique_violation (UniqueConstraint c) = True"
| "is_unique_violation e = False"

definition accrual_audit :: "AccrualInput \<Rightarrow> fee_accrual \<Rightarrow> audit" where
  "accrual_audit inp a =
     (audit0 ''CREATED'' ''FEE_ACCRUAL'')
       \<lparr>au_entityId := Some (fa_id a), au_entityNo := Some (fa_no a), au_workflowType := Some ''SWAP'',
        au_reason := Some (ac_feeKind inp @ '' accrual for '' @ ac_sourceType inp @ ''/''
          @ default_of (ac_sourceId inp) (ac_sourceNo inp)),
        au_platform := Some ''SYSTEM'', au_traceId := ac_originTraceId inp\<rparr>"

text \<open>The loop of \<open>createAccrual\<close>, with the number of attempts left after this one.\<close>

fun try_accrual :: "nat \<Rightarrow> AccrualInput \<Rightarrow> fee_accrual op" where
  "try_accrual left inp =
     handle
       (bind (generateReferenceNo ''FAC'') (\<lambda>no. bind randomUUID (\<lambda>rowId. bind now (\<lambda>t.
        bind (insert_accrual (accrual_row inp no rowId t)) (\<lambda>created.
          andThen (recordSystem (accrual_audit inp created) False) (ret created))))))
       (\<lambda>e. if \<not> is_unique_violation e then throw e
         else bind (existing_accrual inp) (\<lambda>raced.
           case raced of Some a \<Rightarrow> ret a
           | None \<Rightarrow> (case left of 0 \<Rightarrow> throw e | Suc n \<Rightarrow> try_accrual n inp)))"

declare try_accrual.simps [simp del]

definition createAccrual :: "AccrualInput \<Rightarrow> fee_accrual op" where
  "createAccrual inp =
     bind (existing_accrual inp) (\<lambda>existing.
       case existing of Some a \<Rightarrow> ret a | None \<Rightarrow> try_accrual 8 inp)"

definition swap_accrual :: "swap \<Rightarrow> string option \<Rightarrow> string \<Rightarrow> rat \<Rightarrow> AccrualInput" where
  "swap_accrual s code kind amount =
     \<lparr>ac_sourceType = ''SWAP'', ac_sourceId = sw_id s, ac_sourceNo = Some (sw_no s),
      ac_ownerType = sw_ownerType s, ac_ownerId = sw_ownerId s, ac_ownerNo = sw_ownerNo s,
      ac_feeKind = kind, ac_category = ''SWAP_FEE'', ac_assetId = sw_toAssetId s, ac_assetCode = code,
      ac_amount = amount, ac_originTraceId = sw_traceId s\<rparr>"

definition asset_code_of :: "string \<Rightarrow> db \<Rightarrow> string option" where
  "asset_code_of i d = map_option a_code (find_asset i d)"

definition accrue :: "AccrualInput \<Rightarrow> unit op" where
  "accrue inp = whenM (0 < ac_amount inp) (bind (createAccrual inp) (\<lambda>_. ret ()))"

definition accrueForSwap :: "string \<Rightarrow> unit op" where
  "accrueForSwap swapId =
     bind (getsDb (\<lambda>d. by_id sw_id swapId (swaps d))) (\<lambda>row.
       case row of None \<Rightarrow> ret ()
       | Some s \<Rightarrow> bind (getsDb (asset_code_of (sw_toAssetId s))) (\<lambda>code.
           andThen (accrue (swap_accrual s code ''SERVICE_FEE'' (default_of 0 (sw_feeAmount s))))
             (accrue (swap_accrual s code ''SPREAD'' (default_of 0 (sw_spreadAmount s))))))"

definition withdraw_accrual :: "withdraw \<Rightarrow> string option \<Rightarrow> AccrualInput" where
  "withdraw_accrual r code =
     \<lparr>ac_sourceType = ''WITHDRAW'', ac_sourceId = wd_id r, ac_sourceNo = Some (wd_no r),
      ac_ownerType = wd_ownerType r, ac_ownerId = wd_ownerId r, ac_ownerNo = wd_ownerNo r,
      ac_feeKind = ''WITHDRAW_FEE'', ac_category = ''WITHDRAW_FEE'', ac_assetId = wd_assetId r,
      ac_assetCode = code, ac_amount = wd_feeAmount r, ac_originTraceId = wd_traceId r\<rparr>"

definition accrueForWithdraw :: "string \<Rightarrow> unit op" where
  "accrueForWithdraw withdrawId =
     bind (getsDb (\<lambda>d. by_id wd_id withdrawId (withdraws d))) (\<lambda>row.
       case row of None \<Rightarrow> ret ()
       | Some r \<Rightarrow> bind (getsDb (asset_code_of (wd_assetId r))) (\<lambda>code. accrue (withdraw_accrual r code)))"

section \<open>Settling\<close>

record fee_group =
  fg_assetId :: string
  fg_rows :: "fee_accrual list"

definition fee_groups :: "fee_accrual list \<Rightarrow> fee_group list" where
  "fee_groups rows =
     group_rows fg_assetId fa_assetId (\<lambda>a. \<lparr>fg_assetId = fa_assetId a, fg_rows = [a]\<rparr>)
       (\<lambda>g a. g\<lparr>fg_rows := fg_rows g @ [a]\<rparr>) rows"

text \<open>The path and the paying wallet's role of a category on a rail.\<close>

definition fee_path :: "string \<Rightarrow> bool \<Rightarrow> TransferPath \<times> string" where
  "fee_path category isCrypto =
     (if category = ''SWAP_FEE''
      then (if isCrypto then CRYPTO_SWAP_FEE_COLLECT else FIAT_SWAP_FEE_COLLECT, ''F_OPS'')
      else (if isCrypto then CRYPTO_WITHDRAW_FEE_COLLECT else FIAT_WITHDRAW_FEE_COLLECT,
            if isCrypto then ''C_MAIN'' else ''C_VIBAN''))"

definition fee_transfer_input ::
    "TransferPathPolicy \<Rightarrow> string \<Rightarrow> string \<Rightarrow> settlement_batch \<Rightarrow> string \<Rightarrow> fee_accrual \<Rightarrow> rat \<Rightarrow> wallet \<Rightarrow> wallet
       \<Rightarrow> CreateTransferInput" where
  "fee_transfer_input policy settlementType category b assetId payer amount fromW toW =
     \<lparr>ct_path = p_path policy, ct_class = p_class policy, ct_medium = p_medium policy,
      ct_trigger = settlementType,
      ct_sourceType = (if category = ''SWAP_FEE'' then ''SWAP_FEE_SETTLEMENT'' else ''WITHDRAW_FEE_SETTLEMENT''),
      ct_sourceId = b_id b @ '':'' @ assetId, ct_sourceNo = Some (b_no b), ct_ownerType = fa_ownerType payer,
      ct_ownerId = fa_ownerId payer, ct_ownerNo = fa_ownerNo payer, ct_assetId = assetId,
      ct_amount = amount, ct_feeAmount = 0, ct_netAmount = amount, ct_fromWalletId = w_id fromW,
      ct_toWalletId = w_id toW, ct_batchId = Some (b_id b), ct_grossIn = None, ct_grossOut = None\<rparr>"

definition updateAccruals :: "(fee_accrual \<Rightarrow> bool) \<Rightarrow> (fee_accrual \<Rightarrow> fee_accrual) \<Rightarrow> nat op" where
  "updateAccruals p f =
     bind (getsDb (\<lambda>d. count_of p (accruals d))) (\<lambda>n.
     andThen (onDb (\<lambda>d. d\<lparr>accruals := update_rows p f (accruals d)\<rparr>)) (ret n))"

definition audit_accruals ::
    "string \<Rightarrow> string \<Rightarrow> (fee_accrual \<Rightarrow> string option) \<Rightarrow> fee_accrual list \<Rightarrow> unit op" where
  "audit_accruals action reason trace rows =
     forEach rows (\<lambda>a. recordSystem (settlement_row_audit action ''FEE_ACCRUAL'' (fa_id a) (Some (fa_no a))
       reason (trace a) (fa_originTraceId a)) False)"

definition settle_group :: "string \<Rightarrow> string \<Rightarrow> fee_group \<Rightarrow> unit op" where
  "settle_group category settlementType g =
     (let assetId = fg_assetId g; payer = hd (fg_rows g); amount = sum_list (map fa_amount (fg_rows g)) in
      if amount \<le> 0 then ret ()
      else bind (getsDb (asset_type_of assetId)) (\<lambda>ty.
        let (path, fromRole) = fee_path category (ty = Some ''CRYPTO'');
            policy = TRANSFER_PATH_WHITELIST path in
        bind (resolveWallet assetId ''F_FEE'') (\<lambda>toW.
        bind (if fromRole = ''C_VIBAN'' then resolveCustomerWallet assetId ''C_VIBAN'' (fa_ownerId payer)
              else resolveWallet assetId fromRole) (\<lambda>fromW.
        bind now (\<lambda>t.
        bind (createBatch \<lparr>cb_cutoffAt = t, cb_requestId = None, cb_settlementType = Some settlementType,
            cb_category = Some category\<rparr> False) (\<lambda>b.
        bind (createTransfer (fee_transfer_input policy settlementType category b assetId payer amount fromW toW)
            ''SYSTEM'' False) (\<lambda>transfer.
        bind (createLeg (t_id transfer) (w_id fromW) (w_id toW) amount None ''SYSTEM'' False) (\<lambda>_.
        bind (updateAccruals (\<lambda>a. fa_id a \<in> set (map fa_id (fg_rows g)))
          (\<lambda>a. a\<lparr>fa_status := ''LOCKED'', fa_transferId := Some (t_id transfer), fa_batchId := Some (b_id b),
                 fa_lockedAt := Some t\<rparr>)) (\<lambda>_.
        andThen (audit_accruals ''LOCKED''
            (''Locked to transfer '' @ t_id transfer @ '' via batch '' @ b_no b) (\<lambda>_. b_traceId b) (fg_rows g))
          (bind (recomputeBatch (b_id b) True) (\<lambda>_. ret ())))))))))))"

definition settleAccruals :: "fee_accrual list \<Rightarrow> string \<Rightarrow> string \<Rightarrow> unit op" where
  "settleAccruals rows category settlementType =
     forEach (fee_groups rows) (settle_group category settlementType)"

definition accrual_locked_to :: "string \<Rightarrow> fee_accrual \<Rightarrow> bool" where
  "accrual_locked_to transferId a \<longleftrightarrow> fa_transferId a = Some transferId \<and> fa_status a = ''LOCKED''"

definition settleByTransfer :: "string \<Rightarrow> string \<Rightarrow> nat op" where
  "settleByTransfer transferId fundId =
     bind (getsDb (\<lambda>d. filter (accrual_locked_to transferId) (accruals d))) (\<lambda>rows.
     bind now (\<lambda>t.
     bind (updateAccruals (accrual_locked_to transferId)
       (\<lambda>a. a\<lparr>fa_status := ''SETTLED'', fa_closedByFundId := Some fundId, fa_closedAt := Some t\<rparr>)) (\<lambda>count.
     bind (getsDb (\<lambda>d. by_id t_id transferId (transfers d))) (\<lambda>transfer.
     andThen (case transfer of None \<Rightarrow> ret ()
         | Some x \<Rightarrow> if truthy (t_batchId x) then bind (recomputeBatch (the (t_batchId x)) True) (\<lambda>_. ret ())
                    else ret ())
    (andThen (bind (getsDb (\<lambda>d. d)) (\<lambda>d.
         audit_accruals ''SETTLED'' (''Settled by transfer '' @ transferId @ '' / fund '' @ fundId)
           (\<lambda>a. row_trace d (fa_batchId a)) rows))
       (ret count))))))"

record fee_item =
  fi_feeKind :: string
  fi_category :: string
  fi_status :: string
  fi_transferNo :: "string option"
  fi_batchNo :: "string option"

definition fee_item_of :: "db \<Rightarrow> fee_accrual \<Rightarrow> fee_item" where
  "fee_item_of d a =
     \<lparr>fi_feeKind = fa_feeKind a, fi_category = fa_category a, fi_status = fa_status a,
      fi_transferNo = Option.bind (fa_transferId a) (\<lambda>i. map_option t_no (by_id t_id i (transfers d))),
      fi_batchNo = Option.bind (fa_batchId a) (\<lambda>i. map_option b_no (find_batch i d))\<rparr>"

definition getFeeCollectionStatus :: "string \<Rightarrow> db \<Rightarrow> bool \<times> fee_item list" where
  "getFeeCollectionStatus orderNo d =
     (let rows = filter (\<lambda>a. fa_sourceNo a = Some orderNo) (accruals d) in
      (rows \<noteq> [] \<and> list_all (\<lambda>a. fa_status a = ''SETTLED'') rows, map (fee_item_of d) rows))"

end
