(* ===== verification/SettlementWorkflow.thy ===== *)
theory SettlementWorkflow
  imports FeeAccruals
begin

text \<open>
  The workflows over internal transfers (src/src/modules/funds-layer/workflow): initiating a whitelisted
  transfer (internal-transfer-workflow.service.ts), the two hot-wallet transfers of a withdrawal
  (fund-transfer-workflow.service.ts), the end-of-day and the manual settlement
  (eod-settlement-workflow.service.ts) and the sweep of deposit wallets
  (deposit-aggregation-workflow.service.ts over domain/deposit-aggregation-source.service.ts).  Amounts
  passed as strings are the decimals they print; reading such a string back gives the decimal again.
\<close>

section \<open>Initiating a transfer\<close>

record InitiateTransferInput =
  it_fromRole :: string
  it_toRole :: string
  it_sourceType :: string
  it_sourceId :: string
  it_sourceNo :: "string option"
  it_ownerType :: string
  it_ownerId :: string
  it_ownerNo :: "string option"
  it_assetId :: string
  it_amount :: rat
  it_fromWalletId :: string
  it_toWalletId :: string
  it_trigger :: string
  it_note :: "string option"
  it_batchId :: "string option"
  it_grossIn :: "rat option"
  it_grossOut :: "rat option"

definition initiate_input :: "InitiateTransferInput \<Rightarrow> TransferPathPolicy \<Rightarrow> CreateTransferInput" where
  "initiate_input inp policy =
     \<lparr>ct_path = p_path policy, ct_class = p_class policy, ct_medium = p_medium policy,
      ct_trigger = it_trigger inp, ct_sourceType = it_sourceType inp, ct_sourceId = it_sourceId inp,
      ct_sourceNo = it_sourceNo inp, ct_ownerType = it_ownerType inp, ct_ownerId = it_ownerId inp,
      ct_ownerNo = it_ownerNo inp, ct_assetId = it_assetId inp, ct_amount = it_amount inp,
      ct_feeAmount = 0, ct_netAmount = it_amount inp, ct_fromWalletId = it_fromWalletId inp,
      ct_toWalletId = it_toWalletId inp, ct_batchId = it_batchId inp, ct_grossIn = it_grossIn inp,
      ct_grossOut = it_grossOut inp\<rparr>"

definition from_transfer :: "string \<Rightarrow> CreateFromInput" where
  "from_transfer i =
     \<lparr>cf_txId = i, cf_status = None, cf_amount = None, cf_feeAmount = None, cf_netAmount = None,
      cf_fromWalletId = None, cf_fromAddress = None, cf_fromIban = None, cf_toWalletId = None,
      cf_toAddress = None, cf_toIban = None, cf_referenceNo = None\<rparr>"

definition rejected_audit :: "string \<Rightarrow> string \<Rightarrow> audit" where
  "rejected_audit fromRole toRole =
     (audit0 ''TRANSFER_WHITELIST_REJECTED'' ''INTERNAL_TRANSFER'')
       \<lparr>au_workflowType := Some ''INTERNAL_TRANSFER'',
        au_reason := Some (''Rejected non-whitelisted internal transfer path from='' @ fromRole
          @ '' to='' @ toRole),
        au_metadata := [(''fromRole'', fromRole), (''toRole'', toRole)], au_platform := Some ''SYSTEM''\<rparr>"

definition requested_audit ::
    "InitiateTransferInput \<Rightarrow> TransferPathPolicy \<Rightarrow> internal_transaction \<Rightarrow> string \<Rightarrow> audit" where
  "requested_audit inp policy transfer operatorId =
     actor_of operatorId ((audit0 ''REQUESTED'' ''INTERNAL_TRANSFER'')
       \<lparr>au_entityId := Some (t_id transfer), au_entityNo := or_else (Some (t_no transfer)) None,
        au_ownerType := Some (it_ownerType inp), au_ownerId := Some (it_ownerId inp),
        au_ownerNo := or_else (it_ownerNo inp) None, au_workflowType := Some ''INTERNAL_TRANSFER'',
        au_traceId := or_else (t_traceId transfer) None,
        au_reason := Some (default_of (''Internal transfer requested on path ''
          @ transfer_path_str (p_path policy)) (it_note inp))\<rparr>)"

definition initiate_body ::
    "InitiateTransferInput \<Rightarrow> TransferPathPolicy \<Rightarrow> string \<Rightarrow> internal_transaction op" where
  "initiate_body inp policy operatorId =
     bind (createTransfer (initiate_input inp policy) operatorId True) (\<lambda>transfer.
     andThen (recordByActor (requested_audit inp policy transfer operatorId) True)
       (bind (createFromInternalTransaction (from_transfer (t_id transfer)) operatorId True)
         (\<lambda>_. ret transfer)))"

definition initiate :: "InitiateTransferInput \<Rightarrow> string \<Rightarrow> internal_transaction op" where
  "initiate inp operatorId =
     bind (handle (assertWhitelisted (it_fromRole inp) (it_toRole inp))
       (\<lambda>e. andThen (recordSystem (rejected_audit (it_fromRole inp) (it_toRole inp)) False) (throw e)))
     (\<lambda>policy. transaction (initiate_body inp policy operatorId))"

section \<open>The hot wallet of withdrawals\<close>

definition withdraw_transfer ::
    "string \<Rightarrow> string \<Rightarrow> string \<Rightarrow> string \<Rightarrow> string \<Rightarrow> string \<Rightarrow> rat \<Rightarrow> string \<Rightarrow> string \<Rightarrow> string option
       \<Rightarrow> InitiateTransferInput" where
  "withdraw_transfer fromRole toRole sourceType withdrawId withdrawNo assetId amount fromW toW note =
     \<lparr>it_fromRole = fromRole, it_toRole = toRole, it_sourceType = sourceType, it_sourceId = withdrawId,
      it_sourceNo = Some withdrawNo, it_ownerType = ''PLATFORM'', it_ownerId = ''PLATFORM'',
      it_ownerNo = None, it_assetId = assetId, it_amount = amount, it_fromWalletId = fromW,
      it_toWalletId = toW, it_trigger = ''WITHDRAW'', it_note = note, it_batchId = None,
      it_grossIn = None, it_grossOut = None\<rparr>"

definition fundOut :: "string \<Rightarrow> string \<Rightarrow> string \<Rightarrow> rat \<Rightarrow> string \<Rightarrow> internal_transaction op" where
  "fundOut withdrawId withdrawNo assetId netAmount operatorId =
     bind (resolveWallet assetId ''C_MAIN'') (\<lambda>main.
     bind (resolveWallet assetId ''C_OUT'') (\<lambda>out.
       initiate (withdraw_transfer ''C_MAIN'' ''C_OUT'' ''WITHDRAW'' withdrawId withdrawNo assetId netAmount
         (w_id main) (w_id out) None) operatorId))"

definition fundReturn ::
    "string \<Rightarrow> string \<Rightarrow> string \<Rightarrow> rat \<Rightarrow> string option \<Rightarrow> string \<Rightarrow> internal_transaction op" where
  "fundReturn withdrawId withdrawNo assetId amount reason operatorId =
     bind (resolveWallet assetId ''C_MAIN'') (\<lambda>main.
     bind (resolveWallet assetId ''C_OUT'') (\<lambda>out.
       initiate (withdraw_transfer ''C_OUT'' ''C_MAIN'' ''WITHDRAW_RETURN'' withdrawId withdrawNo assetId amount
         (w_id out) (w_id main) reason) operatorId))"

section \<open>Settling the open amounts\<close>

definition open_fees :: "string \<Rightarrow> string \<Rightarrow> int \<Rightarrow> db \<Rightarrow> fee_accrual list" where
  "open_fees assetId category cutoff d =
     filter (\<lambda>a. fa_assetId a = assetId \<and> fa_category a = category \<and> fa_status a = ''ACCRUED''
       \<and> fa_createdAt a < cutoff) (accruals d)"

definition fee_assets :: "int \<Rightarrow> db \<Rightarrow> string list" where
  "fee_assets cutoff d =
     js_set (map fa_assetId (filter (\<lambda>a. fa_status a = ''ACCRUED''
       \<and> asset_type_of (fa_assetId a) d = Some ''CRYPTO'' \<and> fa_createdAt a < cutoff) (accruals d)))"

definition runFeePass :: "int \<Rightarrow> unit op" where
  "runFeePass cutoff =
     bind (getsDb (fee_assets cutoff)) (\<lambda>assetIds. forEach assetIds (\<lambda>assetId.
       bind (getsDb (open_fees assetId ''SWAP_FEE'' cutoff)) (\<lambda>swapFees.
       andThen (whenM (swapFees \<noteq> []) (settleAccruals swapFees ''SWAP_FEE'' ''CRYPTO_SWAP''))
      (bind (getsDb (open_fees assetId ''WITHDRAW_FEE'' cutoff)) (\<lambda>wdFees.
         whenM (wdFees \<noteq> []) (settleAccruals wdFees ''WITHDRAW_FEE'' ''CRYPTO_WITHDRAW''))))))"

definition settlement_transfer ::
    "CryptoDirection \<Rightarrow> settlement_batch \<Rightarrow> CryptoOutstandingGroup \<Rightarrow> wallet \<Rightarrow> wallet \<Rightarrow> string
       \<Rightarrow> InitiateTransferInput" where
  "settlement_transfer dir b g fromW toW trigger =
     \<lparr>it_fromRole = dir_fromRole dir, it_toRole = dir_toRole dir, it_sourceType = ''EOD_SETTLEMENT'',
      it_sourceId = b_id b @ '':'' @ g_assetId g, it_sourceNo = Some (b_no b), it_ownerType = ''PLATFORM'',
      it_ownerId = ''PLATFORM'', it_ownerNo = None, it_assetId = g_assetId g, it_amount = dir_amount dir,
      it_fromWalletId = w_id fromW, it_toWalletId = w_id toW, it_trigger = trigger, it_note = None,
      it_batchId = Some (b_id b), it_grossIn = Some (g_inAmount g), it_grossOut = Some (g_outAmount g)\<rparr>"

definition find_source :: "string \<Rightarrow> string \<Rightarrow> db \<Rightarrow> internal_transaction option" where
  "find_source sourceType sourceId d =
     find (\<lambda>t. t_sourceType t = sourceType \<and> t_sourceId t = sourceId) (transfers d)"

record run_counts =
  rc_settledZero :: nat
  rc_spawned :: nat

definition settle_asset ::
    "settlement_batch \<Rightarrow> string \<Rightarrow> string \<Rightarrow> run_counts \<Rightarrow> CryptoOutstandingGroup \<Rightarrow> run_counts op" where
  "settle_asset b trigger operatorId n g =
     (case resolveCryptoDirection (g_net g) of
        None \<Rightarrow>
          bind (lockToBatch (g_outstandingIds g) (b_id b)) (\<lambda>_.
          bind (markSettledNettedZero (b_id b) (g_assetId g)) (\<lambda>_.
            ret (n\<lparr>rc_settledZero := Suc (rc_settledZero n)\<rparr>)))
      | Some dir \<Rightarrow>
          bind (resolveWallet (g_assetId g) (dir_fromRole dir)) (\<lambda>fromW.
          bind (resolveWallet (g_assetId g) (dir_toRole dir)) (\<lambda>toW.
          bind (getsDb (find_source ''EOD_SETTLEMENT'' (b_id b @ '':'' @ g_assetId g))) (\<lambda>existing.
          bind (case existing of Some x \<Rightarrow> ret x
                | None \<Rightarrow> initiate (settlement_transfer dir b g fromW toW trigger) operatorId) (\<lambda>transfer.
          bind (lockToTransfer (g_outstandingIds g) (b_id b) (t_id transfer)) (\<lambda>_.
            ret (n\<lparr>rc_spawned := Suc (rc_spawned n)\<rparr>)))))))"

text \<open>\<open>RunEodSettlementResult\<close>.\<close>

record run_result =
  rr_batchNo :: "string option"
  rr_assetCount :: nat
  rr_settledZero :: nat
  rr_spawned :: nat

definition batch_input :: "int \<Rightarrow> CreateBatchInput" where
  "batch_input cutoff = \<lparr>cb_cutoffAt = cutoff, cb_requestId = None,
     cb_settlementType = Some ''CRYPTO_PRINCIPAL'', cb_category = None\<rparr>"

text \<open>What both runs share; \<^emph>\<open>finish\<close> is what the end-of-day run does after its fee pass.\<close>

definition run_settlement :: "string \<Rightarrow> (string \<Rightarrow> unit op) \<Rightarrow> string \<Rightarrow> int \<Rightarrow> run_result op" where
  "run_settlement trigger finish operatorId cutoff =
     bind (getsDb (findOpenCryptoByAsset cutoff)) (\<lambda>groups.
     if groups = [] then
       andThen (runFeePass cutoff)
         (ret \<lparr>rr_batchNo = None, rr_assetCount = 0, rr_settledZero = 0, rr_spawned = 0\<rparr>)
     else
       bind (createBatch (batch_input cutoff) False) (\<lambda>b.
       bind (foldC (settle_asset b trigger operatorId) \<lparr>rc_settledZero = 0, rc_spawned = 0\<rparr> groups) (\<lambda>n.
       bind (recomputeBatch (b_id b) False) (\<lambda>_.
       andThen (runFeePass cutoff)
      (andThen (finish (b_no b))
         (ret \<lparr>rr_batchNo = Some (b_no b), rr_assetCount = length groups,
           rr_settledZero = rc_settledZero n, rr_spawned = rc_spawned n\<rparr>))))))"

text \<open>\<open>FxEodService.runReval\<close> of accounting/fx-eod.service.ts.\<close>

definition DEPRECATED :: string where
  "DEPRECATED = ''deprecated: replaced by real-time 1:1 model (Phase A); slated for removal in Phase C''"

definition runReval :: "string \<Rightarrow> unit op" where
  "runReval batchNo = throw (PlainError DEPRECATED)"

definition runEodSettlement :: "string \<Rightarrow> int option \<Rightarrow> run_result op" where
  "runEodSettlement operatorId cutoffArg =
     bind now (\<lambda>t. run_settlement ''EOD'' runReval operatorId (default_of (resolveEodCutoff t) cutoffArg))"

definition runManualCryptoSettlement :: "string \<Rightarrow> int option \<Rightarrow> run_result op" where
  "runManualCryptoSettlement operatorId cutoffArg =
     bind now (\<lambda>t. run_settlement ''MANUAL_SETTLE'' (\<lambda>_. ret ()) operatorId (default_of t cutoffArg))"

definition isBatchFullySettled :: "string \<Rightarrow> db \<Rightarrow> bool" where
  "isBatchFullySettled batchId d \<longleftrightarrow>
     count_of (\<lambda>x. o_batchId x = Some batchId \<and> o_status x \<noteq> ''SETTLED'') (outstandings d) = 0"

section \<open>Sweeping the deposit wallets\<close>

record AggregationCandidate =
  gc_toWalletId :: string
  gc_assetId :: string
  gc_ownerId :: string
  gc_ownerType :: string
  gc_depositIds :: "string list"
  gc_anchorDepositId :: string
  gc_totalAmount :: rat

definition sweepable :: "db \<Rightarrow> deposit \<Rightarrow> bool" where
  "sweepable d x \<longleftrightarrow> d_status x = D_SUCCESS \<and> d_aggregatedAt x = None
     \<and> asset_type_of (d_assetId x) d = Some ''CRYPTO''"

definition findAggregationCandidates :: "db \<Rightarrow> AggregationCandidate list" where
  "findAggregationCandidates d =
     group_rows gc_toWalletId d_toWalletId
       (\<lambda>x. \<lparr>gc_toWalletId = d_toWalletId x, gc_assetId = d_assetId x, gc_ownerId = d_ownerId x,
          gc_ownerType = d_ownerType x, gc_depositIds = [d_id x], gc_anchorDepositId = d_id x,
          gc_totalAmount = d_amount x\<rparr>)
       (\<lambda>g x. g\<lparr>gc_depositIds := gc_depositIds g @ [d_id x],
          gc_totalAmount := gc_totalAmount g + d_amount x\<rparr>)
       (sort_key d_createdAt (filter (sweepable d) (deposits d)))"

definition markAggregated :: "string list \<Rightarrow> string \<Rightarrow> nat op" where
  "markAggregated ids transferId =
     (let p = (\<lambda>x. d_id x \<in> set ids \<and> d_aggregatedAt x = None) in
      bind now (\<lambda>t. bind (getsDb (\<lambda>d. count_of p (deposits d))) (\<lambda>n.
      andThen (onDb (\<lambda>d. d\<lparr>deposits := update_rows p
          (\<lambda>x. x\<lparr>d_aggregatedAt := Some t, d_aggregatedTransferId := Some transferId\<rparr>) (deposits d)\<rparr>))
        (ret n))))"

definition sweep_transfer :: "AggregationCandidate \<Rightarrow> wallet \<Rightarrow> InitiateTransferInput" where
  "sweep_transfer c main =
     \<lparr>it_fromRole = ''C_DEP'', it_toRole = ''C_MAIN'', it_sourceType = ''DEPOSIT_AGGREGATION'',
      it_sourceId = gc_toWalletId c @ '':'' @ gc_anchorDepositId c, it_sourceNo = None,
      it_ownerType = ''PLATFORM'', it_ownerId = ''PLATFORM'', it_ownerNo = None,
      it_assetId = gc_assetId c, it_amount = gc_totalAmount c, it_fromWalletId = gc_toWalletId c,
      it_toWalletId = w_id main, it_trigger = ''CRON'', it_note = None, it_batchId = None,
      it_grossIn = None, it_grossOut = None\<rparr>"

definition aggregateOne :: "AggregationCandidate \<Rightarrow> string \<Rightarrow> bool op" where
  "aggregateOne c operatorId =
     (if gc_totalAmount c < DUST_THRESHOLD then ret False
      else if gc_totalAmount c < AGGREGATION_THRESHOLD then ret False
      else bind (getsDb (find_source ''DEPOSIT_AGGREGATION''
             (gc_toWalletId c @ '':'' @ gc_anchorDepositId c))) (\<lambda>existing.
        bind (case existing of Some x \<Rightarrow> ret x
              | None \<Rightarrow> bind (resolveWallet (gc_assetId c) ''C_MAIN'') (\<lambda>main.
                  initiate (sweep_transfer c main) operatorId)) (\<lambda>transfer.
        bind (markAggregated (gc_depositIds c) (t_id transfer)) (\<lambda>_. ret True))))"

definition runSweep :: "string \<Rightarrow> (nat \<times> nat) op" where
  "runSweep operatorId =
     bind (getsDb findAggregationCandidates) (\<lambda>cs.
     foldC (\<lambda>n c.
       handle (bind (aggregateOne c operatorId) (\<lambda>done.
           ret (if done then (Suc (fst n), snd n) else (fst n, Suc (snd n)))))
         (\<lambda>_. ret (fst n, Suc (snd n)))) (0, 0) cs)"

end
