(* ===== verification/SettlementFacts.thy ===== *)
theory SettlementFacts
  imports SettlementWorkflow FundsFlowFacts
begin

text \<open>
  What the settlement services keep and do: the life of an outstanding, which tables an operation leaves
  alone, the transfer an initiated settlement adds, and the state of the open amounts after a run.
\<close>

section \<open>Frames\<close>

text \<open>The tables of the settlement, and the transfers beside them.\<close>

definition books :: "db \<Rightarrow> outstanding list \<times> settlement_batch list \<times> fee_accrual list \<times> asset list" where
  "books d = (outstandings d, batches d, accruals d, assets d)"

lemma plain_books:
  "steps (same (\<lambda>w. books (db w))) (getsDb f)" "steps (same (\<lambda>w. books (db w))) now"
  "steps (same (\<lambda>w. books (db w))) randomUUID" "steps (same (\<lambda>w. books (db w))) (generateReferenceNo p)"
  "steps (same (\<lambda>w. books (db w))) (recordByActor a c)" "steps (same (\<lambda>w. books (db w))) (recordSystem a c)"
  "steps (same (\<lambda>w. books (db w))) (insert_transfer t)" "steps (same (\<lambda>w. books (db w))) (insert_fund r)"
  by (auto simp: steps_wp same_def books_def wp_insert_transfer wp_insert_fund)

lemma creators_books:
  "steps (same (\<lambda>w. books (db w))) (createTransfer inp op tx)"
  "steps (same (\<lambda>w. books (db w))) (createFromInternalTransaction cf op tx)"
  "steps (same (\<lambda>w. books (db w))) (createLeg x fw tw m st op tx)"
  unfolding createTransfer_def batch_trace_def createFromInternalTransaction_def createLeg_def create_numbered_def
  by (intro unchanged.inTx frame.combinators unchanged.with_unique_no plain_books)+

section \<open>The life of an outstanding\<close>

definition claim :: "outstanding \<Rightarrow> string \<times> string option \<times> string \<times> string \<times> string option \<times> rat \<times> string option
    \<times> string option \<times> int" where
  "claim x = (o_id x, o_no x, o_direction x, o_assetId x, o_assetCode x, o_amount x, o_swapId x,
     o_originTraceId x, o_createdAt x)"

definition link :: "outstanding \<Rightarrow> string option \<times> string option \<times> int option" where
  "link x = (o_batchId x, o_transferId x, o_lockedAt x)"

definition life :: "outstanding \<Rightarrow> outstanding \<Rightarrow> bool" where
  "life x y \<longleftrightarrow> y = x \<or> claim y = claim x \<and>
     (o_status x = ''OPEN'' \<and> o_status y \<in> {''LOCKED'', ''SETTLED''} \<and> o_batchId y \<noteq> None \<or>
      o_status x = ''LOCKED'' \<and> o_status y = ''SETTLED'' \<and> link y = link x \<and> o_closedAt y \<noteq> None)"

lemma life_refl [simp]: "life x x"
  by (simp add: life_def)

lemma life_trans: "life x y \<Longrightarrow> life y z \<Longrightarrow> life x z"
  by (auto simp: life_def link_def)

definition outs_live :: "world \<Rightarrow> world \<Rightarrow> bool" where
  "outs_live s t \<longleftrightarrow> list_all2 life (outstandings (db s)) (outstandings (db t))"

interpretation live: tx_guarantee outs_live
proof
  show "outs_live s u" if "outs_live s t" "outs_live t u" for s t u
    using list_all2_trans[of life life life] life_trans that unfolding outs_live_def by metis
qed (simp_all add: outs_live_def list_all2_refl)

lemma live_books: "steps (same (\<lambda>w. books (db w))) m \<Longrightarrow> steps outs_live m"
  by (auto simp: steps_def same_def books_def outs_live_def list_all2_refl)

lemma updateOutstandings_live:
  "(\<And>x. p x \<Longrightarrow> life x (f x)) \<Longrightarrow> steps outs_live (updateOutstandings p f)"
  by (auto simp: steps_wp updateOutstandings_def outs_live_def update_rows_def list_all2_map2 list_all2_refl)

definition outs_same :: "world \<Rightarrow> world \<Rightarrow> bool" where
  "outs_same = same (\<lambda>w. outstandings (db w))"

lemma recompute_outs: "steps (same (\<lambda>w. (outstandings (db w), accruals (db w), assets (db w)))) (recomputeBatch i tx)"
  unfolding recomputeBatch_def
  by (rule unchanged.inTx)
    (auto simp: steps_wp same_def put_batch_def Let_def split: option.split)

lemma live_outs: "steps (same (\<lambda>w. (outstandings (db w), accruals (db w), assets (db w)))) m \<Longrightarrow> steps outs_live m"
  by (auto simp: steps_def same_def outs_live_def list_all2_refl)

lemma createBatch_outs: "steps (same (\<lambda>w. (outstandings (db w), accruals (db w), assets (db w)))) (createBatch inp tx)"
proof -
  have "steps (same (\<lambda>w. (outstandings (db w), accruals (db w), assets (db w)))) (insert_batch r)"
    "steps (same (\<lambda>w. (outstandings (db w), accruals (db w), assets (db w)))) randomUUID"
    "steps (same (\<lambda>w. (outstandings (db w), accruals (db w), assets (db w)))) (generateReferenceNo p)"
    "steps (same (\<lambda>w. (outstandings (db w), accruals (db w), assets (db w)))) (recordSystem a c)" for r p a c
    by (auto simp: steps_wp same_def insert_batch_def)
  then show ?thesis
    unfolding createBatch_def
    by (intro unchanged.inTx frame.combinators unchanged.with_unique_no)
qed

lemma initiate_books: "steps (same (\<lambda>w. books (db w))) (initiate inp op)"
  unfolding initiate_def initiate_body_def assertWhitelisted_def
  by (intro unchanged.transaction frame.combinators plain_books creators_books)

lemma resolve_books:
  "steps (same (\<lambda>w. books (db w))) (resolveWallet a r)"
  "steps (same (\<lambda>w. books (db w))) (resolveCustomerWallet a r i)"
  unfolding resolveWallet_def resolveCustomerWallet_def by (intro frame.combinators plain_books)+

lemmas live_rules = live.combinators live.transaction live.inTx plain_books[THEN live_books]
  resolve_books[THEN live_books] initiate_books[THEN live_books] creators_books[THEN live_books]
  recompute_outs[THEN live_outs] createBatch_outs[THEN live_outs]

lemma audits_live:
  "steps outs_live (audit_outstandings a r tr xs)" "steps outs_live (audit_accruals a r tr' ys)"
  "steps outs_live (batch_trace_of i)"
  unfolding audit_outstandings_def audit_accruals_def batch_trace_of_def by (intro live_rules)+

lemma consumer_live:
  "steps outs_live (lockToTransfer ids b t)" "steps outs_live (lockToBatch ids b)"
  "steps outs_live (settle t f)" "steps outs_live (markSettledNettedZero b a)"
  unfolding lockToTransfer_def lockToBatch_def settle_def markSettledNettedZero_def
  by (intro live_rules audits_live updateOutstandings_live;
      auto simp: life_def claim_def link_def lockable_def locked_to_def netted_def)+

end
