(* ===== verification/SettlementRuns.thy ===== *)
theory SettlementRuns
  imports SettlementFacts
begin

text \<open>
  The settlement runs: fees and the two workflows keep the life of the outstandings, and what a run that
  returns leaves of the amounts that were open when it started.
\<close>

section \<open>Every operation keeps the life of the outstandings\<close>

lemma live_side:
  "steps outs_live (updateAccruals p h)" "steps outs_live (insert_accrual r)"
  "steps outs_live (markAggregated ids t)"
  by (auto simp: steps_wp updateAccruals_def insert_accrual_def markAggregated_def outs_live_def
      list_all2_refl Let_def)

lemma split_live:
  "(\<And>a b. steps outs_live (f a b)) \<Longrightarrow> steps outs_live (case p of (a, b) \<Rightarrow> f a b)"
  by (simp split: prod.split)

lemma settle_fees_live: "steps outs_live (settleAccruals rows c st)" "steps outs_live (settleByTransfer t f)"
  unfolding settleAccruals_def settle_group_def settleByTransfer_def Let_def
  by (intro live_rules live_side audits_live split_live)+

lemma try_accrual_live: "steps outs_live (try_accrual n inp)"
proof (induction n)
  case 0
  show ?case
    unfolding try_accrual.simps[of 0] existing_accrual_def nat.case by (intro live_rules live_side)
next
  case (Suc n)
  show ?case
    unfolding try_accrual.simps[of "Suc n"] existing_accrual_def nat.case by (intro live_rules live_side Suc)
qed

lemma accrue_live: "steps outs_live (accrueForSwap i)" "steps outs_live (accrueForWithdraw i)"
  unfolding accrueForSwap_def accrueForWithdraw_def accrue_def createAccrual_def existing_accrual_def
  by (intro live_rules try_accrual_live)+

lemma runFeePass_live: "steps outs_live (runFeePass c)"
  unfolding runFeePass_def by (intro live_rules settle_fees_live)

lemma settle_asset_live: "steps outs_live (settle_asset b tr op n g)"
  unfolding settle_asset_def by (intro live_rules consumer_live)

lemma run_settlement_live:
  "(\<And>i. steps outs_live (finish i)) \<Longrightarrow> steps outs_live (run_settlement tr finish op c)"
  unfolding run_settlement_def by (intro live_rules runFeePass_live settle_asset_live)

lemma workflows_live:
  "steps outs_live (runEodSettlement op c)" "steps outs_live (runManualCryptoSettlement op c)"
  "steps outs_live (fundOut wi wn a m op)" "steps outs_live (fundReturn wi wn a m r op)"
  unfolding runEodSettlement_def runManualCryptoSettlement_def runReval_def fundOut_def fundReturn_def
  by (intro live_rules run_settlement_live)+

lemma runSweep_live: "steps outs_live (runSweep op)"
  unfolding runSweep_def aggregateOne_def by (intro live_rules live_side split_live)

section \<open>Transfers are only added\<close>

definition transfers_grow :: "world \<Rightarrow> world \<Rightarrow> bool" where
  "transfers_grow s t \<longleftrightarrow> set (transfers (db s)) \<subseteq> set (transfers (db t))"

interpretation grow: tx_guarantee transfers_grow
  by unfold_locales (auto simp: transfers_grow_def)

lemma grow_plain:
  "steps transfers_grow (getsDb f)" "steps transfers_grow now" "steps transfers_grow randomUUID"
  "steps transfers_grow (generateReferenceNo p)" "steps transfers_grow (recordByActor a c)"
  "steps transfers_grow (recordSystem a c)" "steps transfers_grow (insert_transfer x)"
  "steps transfers_grow (insert_fund r)" "steps transfers_grow (insert_batch b)"
  "steps transfers_grow (put_batch i b)" "steps transfers_grow (updateAccruals pa ha)"
  by (auto simp: steps_wp transfers_grow_def wp_insert_transfer wp_insert_fund insert_batch_def put_batch_def
      updateAccruals_def)

lemma grow_ops:
  "steps transfers_grow (createTransfer inp op tx)" "steps transfers_grow (createLeg x fw tw m st op tx)"
  "steps transfers_grow (createBatch bi tx)" "steps transfers_grow (recomputeBatch i tx)"
  "steps transfers_grow (resolveWallet a r)" "steps transfers_grow (resolveCustomerWallet a r o')"
  unfolding createTransfer_def batch_trace_def createLeg_def create_numbered_def createBatch_def
    recomputeBatch_def resolveWallet_def resolveCustomerWallet_def Let_def
  by (intro grow.inTx grow.combinators grow.with_unique_no grow_plain)+

lemma split_grow:
  "(\<And>a b. steps transfers_grow (f a b)) \<Longrightarrow> steps transfers_grow (case p of (a, b) \<Rightarrow> f a b)"
  by (simp split: prod.split)

lemma runFeePass_grow: "steps transfers_grow (runFeePass c)"
  unfolding runFeePass_def settleAccruals_def settle_group_def audit_accruals_def Let_def
  by (intro grow.combinators grow_plain grow_ops split_grow)

text \<open>The fee pass does not look at the outstandings.\<close>

lemma outs_plain:
  "steps (same (\<lambda>w. outstandings (db w))) (getsDb f)" "steps (same (\<lambda>w. outstandings (db w))) now"
  "steps (same (\<lambda>w. outstandings (db w))) (recordSystem a c)"
  "steps (same (\<lambda>w. outstandings (db w))) (updateAccruals p h)"
  by (auto simp: steps_wp same_def updateAccruals_def)

lemma outs_of:
  "steps (same (\<lambda>w. books (db w))) m \<Longrightarrow> steps (same (\<lambda>w. outstandings (db w))) m"
  "steps (same (\<lambda>w. (outstandings (db w), accruals (db w), assets (db w)))) m \<Longrightarrow>
     steps (same (\<lambda>w. outstandings (db w))) m"
  by (simp_all add: steps_def same_def books_def)

lemma split_outs:
  "(\<And>a b. steps (same (\<lambda>w. outstandings (db w))) (f a b)) \<Longrightarrow>
     steps (same (\<lambda>w. outstandings (db w))) (case p of (a, b) \<Rightarrow> f a b)"
  by (simp split: prod.split)

lemma runFeePass_outs: "steps (same (\<lambda>w. outstandings (db w))) (runFeePass c)"
  unfolding runFeePass_def settleAccruals_def settle_group_def audit_accruals_def Let_def
  by (intro frame.combinators outs_plain split_outs resolve_books[THEN outs_of(1)] creators_books[THEN outs_of(1)]
      recompute_outs[THEN outs_of(2)] createBatch_outs[THEN outs_of(2)])

end
