(* ===== verification/SettlementEffects.thy ===== *)
theory SettlementEffects
  imports SettlementRuns
begin

text \<open>
  The effect of a settlement run on the open amounts, asset by asset: the groups netted, the transfer an
  initiated settlement adds, and the rows a group locks or settles.
\<close>

section \<open>The groups\<close>

definition open_rows :: "int \<Rightarrow> db \<Rightarrow> outstanding list" where
  "open_rows cutoff d = filter (open_crypto cutoff d) (outstandings d)"

definition in_sum :: "outstanding list \<Rightarrow> rat" where
  "in_sum rows = (\<Sum>x\<leftarrow>filter (\<lambda>x. o_direction x = ''IN'') rows. o_amount x)"

definition out_sum :: "outstanding list \<Rightarrow> rat" where
  "out_sum rows = (\<Sum>x\<leftarrow>filter (\<lambda>x. o_direction x = ''OUT'') rows. o_amount x)"

definition group_spec :: "int \<Rightarrow> db \<Rightarrow> string \<Rightarrow> CryptoOutstandingGroup" where
  "group_spec cutoff d a =
     (let rows = rows_of o_assetId a (open_rows cutoff d); asset = find_asset a d in
      \<lparr>g_assetId = a, g_assetCode = o_assetCode (hd rows), g_decimals = (case asset of None \<Rightarrow> 0 | Some x \<Rightarrow> a_decimals x),
       g_inAmount = in_sum rows, g_outAmount = out_sum rows, g_net = in_sum rows - out_sum rows,
       g_outstandingIds = map o_id rows\<rparr>)"

lemma add_outstandings:
  "foldl add_outstanding g rows =
     g\<lparr>g_inAmount := g_inAmount g + in_sum rows, g_outAmount := g_outAmount g + out_sum rows,
       g_outstandingIds := g_outstandingIds g @ map o_id rows\<rparr>"
proof (induction rows arbitrary: g)
  case (Cons r rows)
  show ?case
    by (simp add: Cons.IH) (simp add: add_outstanding_def in_sum_def out_sum_def)
qed (simp add: in_sum_def out_sum_def)

lemma groups_spec: "findOpenCryptoByAsset cutoff d =
  map (group_spec cutoff d) (js_set (map o_assetId (open_rows cutoff d)))"
proof -
  let ?fresh = "\<lambda>r. add_outstanding (fresh_group d r) r"
  have "net_group (folded ?fresh add_outstanding (rows_of o_assetId a rows)) = group_spec cutoff d a"
    if rows: "rows = open_rows cutoff d" and a: "a \<in> o_assetId ` set rows" for a rows
  proof -
    obtain r rs where r: "rows_of o_assetId a rows = r # rs"
      using a by (cases "rows_of o_assetId a rows") (auto simp: filter_empty_conv)
    then have "o_assetId r = a"
      by (auto dest!: filter_eq_ConsD)
    then show ?thesis
      using r unfolding rows group_spec_def Let_def folded_def
      by (simp add: add_outstandings flip: foldl_Cons)
        (simp add: net_group_def fresh_group_def)
  qed
  then show ?thesis
    unfolding findOpenCryptoByAsset_def open_rows_def[symmetric]
    by (subst group_rows_spec) (auto simp: add_outstanding_def fresh_group_def)
qed

section \<open>Initiating\<close>

text \<open>The transfer a request adds: its source, amount, asset, batch and path.\<close>

definition requested :: "InitiateTransferInput \<Rightarrow> internal_transaction \<Rightarrow> bool" where
  "requested inp t \<longleftrightarrow> t_sourceType t = it_sourceType inp \<and> t_sourceId t = it_sourceId inp
     \<and> t_amount t = it_amount inp \<and> t_assetId t = it_assetId inp \<and> t_batchId t = it_batchId inp
     \<and> t_status t = INTERNAL_FUNDS_PENDING
     \<and> Some (TRANSFER_PATH_WHITELIST (t_type t)) = resolvePathPolicy (it_fromRole inp) (it_toRole inp)"

definition adds_transfer :: "internal_transaction \<Rightarrow> world \<Rightarrow> world \<Rightarrow> bool" where
  "adds_transfer t w v \<longleftrightarrow> books (db v) = books (db w) \<and> transfers (db v) = transfers (db w) @ [t]"

lemma wp_createTransfer:
  assumes "\<And>no i tr h v. adds_transfer (transfer_row inp i no tr h) w v \<Longrightarrow> Q (transfer_row inp i no tr h) v"
  shows "wp (createTransfer inp op True) Q (\<lambda>_ _. True) w"
proof -
  have "wp (with_unique_no n ''ITX'' ''internalTxNo'' (\<lambda>no. bind randomUUID (\<lambda>rowId.
      insert_transfer (transfer_row inp rowId no tr h)))) Q (\<lambda>_ _. True) v" if "db v = db w" for n tr h v
    by (rule wp_with_unique_no[where I = "\<lambda>v. db v = db w"])
      (auto simp: that wp_insert_transfer adds_transfer_def books_def intro!: assms)
  then show ?thesis
    by (auto simp: createTransfer_def inTx_def batch_trace_def split: option.split)
qed

lemma wp_keeps:
  assumes "steps (same f) m" "\<And>a v. f v = f w \<Longrightarrow> Q a v"
  shows "wp m Q (\<lambda>_ _. True) w"
proof -
  have "wp m (\<lambda>_ v. f v = f w) (\<lambda>_ v. f v = f w) w"
    using assms(1) by (auto simp: steps_def same_def wp_run)
  then show ?thesis
    by (rule wp_mono) (auto intro: assms(2))
qed

lemma from_transfer_books:
  "steps (same (\<lambda>w. (books (db w), transfers (db w)))) (createFromInternalTransaction cf op True)"
  unfolding createFromInternalTransaction_def create_numbered_def
  by (intro unchanged.inTx frame.combinators unchanged.with_unique_no)
    (auto simp: steps_wp same_def books_def wp_insert_fund)

lemma wp_initiate:
  assumes "\<And>t v. adds_transfer t w v \<Longrightarrow> requested inp t \<Longrightarrow> Q t v"
  shows "wp (initiate inp op) Q (\<lambda>_ _. True) w"
proof -
  have row: "requested inp (transfer_row (initiate_input inp p) i no tr h)"
    if "resolvePathPolicy (it_fromRole inp) (it_toRole inp) = Some p" for p i no tr h
    using that resolvePathPolicyD[OF that] by (simp add: requested_def transfer_row_def initiate_input_def)
  have "wp (initiate_body inp p op) Q (\<lambda>_ _. True) w"
    if p: "resolvePathPolicy (it_fromRole inp) (it_toRole inp) = Some p" for p
    unfolding initiate_body_def wp_bind wp_andThen wp_recordByActor if_True
  proof (rule wp_createTransfer)
    fix no i tr h and v :: world
    let ?t = "transfer_row (initiate_input inp p) i no tr h"
    assume v: "adds_transfer ?t w v"
    show "wp (createFromInternalTransaction (from_transfer (t_id ?t)) op True) (\<lambda>a. wp (ret ?t) Q (\<lambda>_ _. True))
        (\<lambda>_ _. True) (v\<lparr>db := (db v)\<lparr>audits := audits (db v) @ [requested_audit inp p ?t op]\<rparr>\<rparr>)"
      by (rule wp_keeps[OF from_transfer_books])
        (use v in \<open>auto simp: adds_transfer_def books_def intro!: assms row[OF p]\<close>)
  qed
  then show ?thesis
    by (auto simp: initiate_def assertWhitelisted_def split: option.split)
qed

section \<open>Settling one asset\<close>

definition net_of :: "int \<Rightarrow> db \<Rightarrow> string \<Rightarrow> rat" where
  "net_of cutoff d a = g_net (group_spec cutoff d a)"

text \<open>The transfer that settles an asset: found by its source, and when this run created it, over the
  absolute net amount in the direction of its sign.\<close>

definition eod_source :: "string \<Rightarrow> string \<Rightarrow> db \<Rightarrow> internal_transaction option" where
  "eod_source i a d = find_source ''EOD_SETTLEMENT'' (i @ '':'' @ a) d"

definition settles :: "int \<Rightarrow> db \<Rightarrow> string \<Rightarrow> string \<Rightarrow> internal_transaction \<Rightarrow> bool" where
  "settles cutoff d0 i a t \<longleftrightarrow> t_sourceType t = ''EOD_SETTLEMENT'' \<and> t_sourceId t = i @ '':'' @ a
     \<and> (eod_source i a d0 = None \<longrightarrow> t_assetId t = a \<and> t_batchId t = Some i \<and> t_amount t = \<bar>net_of cutoff d0 a\<bar>
        \<and> t_type t = (if 0 < net_of cutoff d0 a then CRYPTO_SETTLE_IN else CRYPTO_SETTLE_OUT))"

text \<open>A row the run has dealt with.\<close>

definition closed_row :: "int \<Rightarrow> db \<Rightarrow> string \<Rightarrow> db \<Rightarrow> outstanding \<Rightarrow> outstanding \<Rightarrow> bool" where
  "closed_row cutoff d0 i d x y \<longleftrightarrow> claim y = claim x \<and> o_batchId y = Some i \<and>
     (if net_of cutoff d0 (o_assetId x) = 0 then o_status y = ''SETTLED'' \<and> o_transferId y = None
      else o_status y = ''LOCKED'' \<and>
        (\<exists>t\<in>set (transfers d). o_transferId y = Some (t_id t) \<and> settles cutoff d0 i (o_assetId x) t))"

definition row_state :: "int \<Rightarrow> db \<Rightarrow> string \<Rightarrow> string list \<Rightarrow> db \<Rightarrow> outstanding \<Rightarrow> outstanding \<Rightarrow> bool" where
  "row_state cutoff d0 i done d x y \<longleftrightarrow>
     (if open_crypto cutoff d0 x
      then (if o_assetId x \<in> set done then closed_row cutoff d0 i d x y else y = x)
      else life x y)"

definition progress :: "int \<Rightarrow> db \<Rightarrow> string \<Rightarrow> string list \<Rightarrow> db \<Rightarrow> bool" where
  "progress cutoff d0 i done d \<longleftrightarrow>
     list_all2 (row_state cutoff d0 i done d) (outstandings d0) (outstandings d)
     \<and> (\<forall>a. a \<notin> set done \<longrightarrow> eod_source i a d = eod_source i a d0)"

text \<open>Primary keys are unique and an open row has no transfer yet.\<close>

definition outs_ok :: "db \<Rightarrow> bool" where
  "outs_ok d \<longleftrightarrow> distinct (map o_id (outstandings d)) \<and>
     (\<forall>x\<in>set (outstandings d). o_status x = ''OPEN'' \<longrightarrow> o_transferId x = None)"

lemma row_state_claim: "row_state c d0 i ds d x y \<Longrightarrow> claim y = claim x"
  by (auto simp: row_state_def closed_row_def life_def split: if_splits)

lemma lockable_iff:
  assumes "outs_ok d0" "x \<in> set (outstandings d0)" "row_state c d0 i ds d x y" "a \<notin> set ds"
  shows "lockable (g_outstandingIds (group_spec c d0 a)) y \<longleftrightarrow> open_crypto c d0 x \<and> o_assetId x = a"
proof -
  have same: "o_id y = o_id x"
    using row_state_claim[OF assms(3)] by (simp add: claim_def)
  have "o_id x \<in> set (g_outstandingIds (group_spec c d0 a)) \<longleftrightarrow> open_crypto c d0 x \<and> o_assetId x = a"
    using assms(1,2)
    by (auto simp: group_spec_def open_rows_def outs_ok_def Let_def distinct_map inj_on_def)
  moreover have "o_status y = ''OPEN''" if "open_crypto c d0 x" "o_assetId x = a"
    using assms(3,4) that by (auto simp: row_state_def open_crypto_def)
  ultimately show ?thesis
    by (auto simp: lockable_def same)
qed

lemma closed_row_mono:
  "closed_row c d0 i d x y \<Longrightarrow> set (transfers d) \<subseteq> set (transfers d') \<Longrightarrow> closed_row c d0 i d' x y"
  unfolding closed_row_def by (meson subsetD)

lemma lock_rows:
  assumes ok: "outs_ok d0"
    and rows: "list_all2 (row_state c d0 i ds d) (outstandings d0) (outstandings d)" "a \<notin> set ds"
    and f: "\<And>x. open_crypto c d0 x \<Longrightarrow> x \<in> set (outstandings d0) \<Longrightarrow> o_assetId x = a \<Longrightarrow> closed_row c d0 i d' x (f x)"
    and grow: "set (transfers d) \<subseteq> set (transfers d')"
  shows "list_all2 (row_state c d0 i (ds @ [a]) d') (outstandings d0)
    (update_rows (lockable (g_outstandingIds (group_spec c d0 a))) f (outstandings d))"
  unfolding update_rows_def list_all2_map2
proof (rule list.rel_mono_strong[OF rows(1)])
  fix x y
  assume x: "x \<in> set (outstandings d0)" and xy: "row_state c d0 i ds d x y"
  show "row_state c d0 i (ds @ [a]) d' x
      (if lockable (g_outstandingIds (group_spec c d0 a)) y then f y else y)"
  proof (cases "open_crypto c d0 x \<and> o_assetId x = a")
    case True
    then show ?thesis
      using lockable_iff[OF ok x xy rows(2)] xy rows(2) f[of x] x by (simp add: row_state_def)
  next
    case False
    then show ?thesis
      using lockable_iff[OF ok x xy rows(2)] xy closed_row_mono[OF _ grow]
      by (auto simp: row_state_def split: if_splits)
  qed
qed

text \<open>Locking and then settling the rows of an asset that nets to zero.\<close>

lemma net_rows:
  assumes ok: "outs_ok d0"
    and rows: "list_all2 (row_state c d0 i ds d) (outstandings d0) (outstandings d)" "a \<notin> set ds"
    and zero: "net_of c d0 a = 0" and grow: "set (transfers d) \<subseteq> set (transfers d')"
    and f: "f = (\<lambda>x. x\<lparr>o_status := ''LOCKED'', o_batchId := Some i, o_lockedAt := Some t\<rparr>)"
    and g: "g = (\<lambda>x. x\<lparr>o_status := ''SETTLED'', o_closedAt := Some t'\<rparr>)"
  shows "list_all2 (row_state c d0 i (ds @ [a]) d') (outstandings d0)
    (update_rows (netted i a) g
      (update_rows (lockable (g_outstandingIds (group_spec c d0 a))) f (outstandings d)))"
  unfolding update_rows_def list_all2_map2
proof (rule list.rel_mono_strong[OF rows(1)])
  fix x y
  assume x: "x \<in> set (outstandings d0)" and xy: "row_state c d0 i ds d x y"
  let ?y = "if lockable (g_outstandingIds (group_spec c d0 a)) y then f y else y"
  show "row_state c d0 i (ds @ [a]) d' x (if netted i a ?y then g ?y else ?y)"
  proof (cases "open_crypto c d0 x \<and> o_assetId x = a")
    case True
    then show ?thesis
      using lockable_iff[OF ok x xy rows(2)] xy rows(2) x ok zero
      by (auto simp: row_state_def closed_row_def f g netted_def outs_ok_def open_crypto_def claim_def)
  next
    case False
    then have y: "?y = y"
      using lockable_iff[OF ok x xy rows(2)] by auto
    have open_x: "\<not> netted i a y" if "open_crypto c d0 x"
      using xy that by (auto simp: row_state_def closed_row_def netted_def open_crypto_def split: if_splits)
    have shut: "life x (g y)" if "\<not> open_crypto c d0 x" "netted i a y"
    proof (rule life_trans)
      show "life x y"
        using xy that by (simp add: row_state_def)
      show "life y (g y)"
        using that by (simp add: g netted_def life_def claim_def link_def)
    qed
    show ?thesis
    proof (cases "open_crypto c d0 x")
      case True
      then show ?thesis
        using open_x[OF True] False xy closed_row_mono[OF _ grow] unfolding y
        by (auto simp: row_state_def split: if_splits)
    next
      case False
      then show ?thesis
        using shut[OF False] xy unfolding y by (simp add: row_state_def)
    qed
  qed
qed

section \<open>The operations of one asset\<close>

lemma rest_of_recompute: "steps (same (\<lambda>w. (db w)\<lparr>batches := []\<rparr>)) (recomputeBatch i tx)"
  unfolding recomputeBatch_def
  by (rule unchanged.inTx) (auto simp: steps_wp same_def put_batch_def Let_def split: option.split)

lemma rest_eq:
  "d\<lparr>batches := []\<rparr> = d'\<lparr>batches := []\<rparr> \<Longrightarrow> outstandings d = outstandings d' \<and> transfers d = transfers d'
     \<and> accruals d = accruals d'"
  by (metis db.select_convs(4,7,8) db.surjective db.update_convs(6))

lemma audits_db: "steps (same db) (audit_outstandings a r tr xs)" "steps (same db) (batch_trace_of i)"
proof -
  have basic: "steps (same db) (recordSystem x False)" "steps (same db) (getsDb f)" for x and f :: "db \<Rightarrow> 'z"
    by (auto simp: steps_wp same_def)
  then show "steps (same db) (audit_outstandings a r tr xs)" "steps (same db) (batch_trace_of i)"
    unfolding audit_outstandings_def batch_trace_of_def by (auto intro!: frame.combinators basic)
qed

lemma lock_audit_db:
  "steps (same db) (whenM c (bind (batch_trace_of i) (\<lambda>trace. audit_outstandings a r (\<lambda>_. trace) xs)))"
  by (intro frame.combinators audits_db)

definition with_outs :: "(outstanding list \<Rightarrow> outstanding list) \<Rightarrow> db \<Rightarrow> db" where
  "with_outs f d = d\<lparr>outstandings := f (outstandings d)\<rparr>"

lemma wp_lockToTransfer:
  assumes "\<And>n v. db v = with_outs (update_rows (lockable ids) (\<lambda>x. x\<lparr>o_status := ''LOCKED'',
      o_batchId := Some b, o_transferId := Some t, o_lockedAt := Some (clock w)\<rparr>)) (db w) \<Longrightarrow> Q n v"
  shows "wp (lockToTransfer ids b t) Q (\<lambda>_ _. True) w"
  unfolding lockToTransfer_def updateOutstandings_def wp_bind wp_getsDb wp_now wp_andThen wp_onDb wp_ret
  by (rule wp_keeps[OF lock_audit_db]) (auto simp: with_outs_def intro!: assms)

definition settled_at :: "int \<Rightarrow> outstanding \<Rightarrow> outstanding" where
  "settled_at t x = x\<lparr>o_status := ''SETTLED'', o_closedAt := Some t\<rparr>"

lemma wp_markSettledNettedZero:
  assumes "\<And>n v. (db v)\<lparr>batches := []\<rparr> =
      (with_outs (update_rows (netted b a) (settled_at (clock w))) (db w))\<lparr>batches := []\<rparr> \<Longrightarrow> Q n v"
  shows "wp (markSettledNettedZero b a) Q (\<lambda>_ _. True) w"
proof -
  have rest: "steps (same (\<lambda>w. (db w)\<lparr>batches := []\<rparr>)) (whenM c (bind (recomputeBatch b True) (\<lambda>_. ret ())))" for c
    by (intro frame.combinators rest_of_recompute)
  have audits: "steps (same (\<lambda>w. (db w)\<lparr>batches := []\<rparr>))
      (whenM c (bind (batch_trace_of i) (\<lambda>trace. audit_outstandings x r (\<lambda>_. trace) xs)))" for c i x r xs
    using lock_audit_db[of c i x r xs] by (simp add: steps_def same_def)
  show ?thesis
    unfolding markSettledNettedZero_def updateOutstandings_def wp_bind wp_getsDb wp_now wp_andThen wp_onDb wp_ret
    by (rule wp_keeps[OF audits], rule wp_keeps[OF rest])
      (auto simp: with_outs_def settled_at_def[abs_def] intro!: assms)
qed

lemma wp_lockToBatch:
  "wp (lockToBatch ids b) Q E w = Q (count_of (lockable ids) (outstandings (db w)))
     (w\<lparr>db := with_outs (update_rows (lockable ids) (\<lambda>x. x\<lparr>o_status := ''LOCKED'',
        o_batchId := Some b, o_lockedAt := Some (clock w)\<rparr>)) (db w)\<rparr>)"
  by (simp add: lockToBatch_def updateOutstandings_def with_outs_def)

definition counted :: "int \<Rightarrow> db \<Rightarrow> string list \<Rightarrow> run_counts \<Rightarrow> bool" where
  "counted c d0 ds n \<longleftrightarrow> rc_settledZero n = count_of (\<lambda>a. net_of c d0 a = 0) ds
     \<and> rc_spawned n = count_of (\<lambda>a. net_of c d0 a \<noteq> 0) ds"

lemma counted_snoc:
  "counted c d0 ds n \<Longrightarrow> net_of c d0 a = 0 \<Longrightarrow> counted c d0 (ds @ [a]) (n\<lparr>rc_settledZero := Suc (rc_settledZero n)\<rparr>)"
  "counted c d0 ds n \<Longrightarrow> net_of c d0 a \<noteq> 0 \<Longrightarrow> counted c d0 (ds @ [a]) (n\<lparr>rc_spawned := Suc (rc_spawned n)\<rparr>)"
  by (simp_all add: counted_def count_of_def)

text \<open>The transfer of an asset, found or created.\<close>

lemma find_snoc: "find P (xs @ [x]) = (case find P xs of Some y \<Rightarrow> Some y | None \<Rightarrow> if P x then Some x else None)"
  by (induction xs) auto

lemma eod_source_add:
  "transfers d' = transfers d @ [t] \<Longrightarrow> t_sourceId t = i @ '':'' @ b \<Longrightarrow> a \<noteq> b \<Longrightarrow>
     eod_source i a d' = eod_source i a d"
  by (auto simp: eod_source_def find_source_def find_snoc split: option.split)

lemma eod_source_cong: "transfers d' = transfers d \<Longrightarrow> eod_source i a d' = eod_source i a d"
  by (simp add: eod_source_def find_source_def)

lemma settle_paths:
  "resolvePathPolicy ''F_OPS'' ''C_MAIN'' = Some (TRANSFER_PATH_WHITELIST CRYPTO_SETTLE_IN)"
  "resolvePathPolicy ''C_MAIN'' ''F_OPS'' = Some (TRANSFER_PATH_WHITELIST CRYPTO_SETTLE_OUT)"
  using resolvePathPolicy_complete[of CRYPTO_SETTLE_IN] resolvePathPolicy_complete[of CRYPTO_SETTLE_OUT]
  by simp_all

lemma whitelist_inj: "TRANSFER_PATH_WHITELIST p = TRANSFER_PATH_WHITELIST q \<longleftrightarrow> p = q"
  by (metis policy_key)

lemma requested_settles:
  assumes "resolveCryptoDirection (net_of c d0 a) = Some dir"
    and "requested (settlement_transfer dir b (group_spec c d0 a) fw tw tr) t"
  shows "settles c d0 (b_id b) a t \<and> t_sourceId t = b_id b @ '':'' @ a"
  using assms
  by (auto simp: settles_def requested_def settlement_transfer_def group_spec_def Let_def
      resolveCryptoDirection_def settle_paths whitelist_inj simp del: TRANSFER_PATH_WHITELIST.simps
      split: if_splits)

text \<open>The state in which the rows of a non-zero asset are locked.\<close>

definition transfer_ready :: "int \<Rightarrow> db \<Rightarrow> string \<Rightarrow> string \<Rightarrow> internal_transaction \<Rightarrow> db \<Rightarrow> db \<Rightarrow> bool" where
  "transfer_ready c d0 i a t d d' \<longleftrightarrow> outstandings d' = outstandings d \<and> set (transfers d) \<subseteq> set (transfers d')
     \<and> t \<in> set (transfers d') \<and> settles c d0 i a t \<and> (\<forall>a'. a' \<noteq> a \<longrightarrow> eod_source i a' d' = eod_source i a' d)"

lemma ready_existing:
  assumes "progress c d0 i ds d" "a \<notin> set ds" "eod_source i a d = Some t"
  shows "transfer_ready c d0 i a t d d"
proof -
  have "t_sourceType t = ''EOD_SETTLEMENT'' \<and> t_sourceId t = i @ '':'' @ a \<and> t \<in> set (transfers d)"
    using assms(3) unfolding eod_source_def find_source_def by (auto dest: find_SomeD)
  moreover have "eod_source i a d0 \<noteq> None"
    using assms by (auto simp: progress_def)
  ultimately show ?thesis
    by (auto simp: transfer_ready_def settles_def)
qed

lemma ready_created:
  "adds_transfer t w v \<Longrightarrow> settles c d0 i a t \<and> t_sourceId t = i @ '':'' @ a \<Longrightarrow>
     transfer_ready c d0 i a t (db w) (db v)"
  by (auto simp: transfer_ready_def adds_transfer_def books_def intro: eod_source_add)

lemma progress_locked:
  assumes ok: "outs_ok d0" and pr: "progress c d0 i ds d" "a \<notin> set ds"
    and ready: "transfer_ready c d0 i a t d d'" and nz: "net_of c d0 a \<noteq> 0"
    and d'': "d'' = with_outs (update_rows (lockable (g_outstandingIds (group_spec c d0 a)))
      (\<lambda>x. x\<lparr>o_status := ''LOCKED'', o_batchId := Some i, o_transferId := Some (t_id t), o_lockedAt := Some now'\<rparr>)) d'"
  shows "progress c d0 i (ds @ [a]) d''"
proof -
  let ?f = "\<lambda>x. x\<lparr>o_status := ''LOCKED'', o_batchId := Some i, o_transferId := Some (t_id t), o_lockedAt := Some now'\<rparr>"
  have "transfers d'' = transfers d'"
    by (simp add: d'' with_outs_def)
  then have "closed_row c d0 i d'' x (?f x)" if "o_assetId x = a" for x
    using that ready nz by (auto simp: closed_row_def claim_def transfer_ready_def)
  then have "list_all2 (row_state c d0 i (ds @ [a]) d'') (outstandings d0)
      (update_rows (lockable (g_outstandingIds (group_spec c d0 a))) ?f (outstandings d))"
    using pr ready \<open>transfers d'' = transfers d'\<close>
    by (intro lock_rows[OF ok, where d = d]) (auto simp: progress_def transfer_ready_def)
  then show ?thesis
    using pr ready eod_source_cong[OF \<open>transfers d'' = transfers d'\<close>]
    by (auto simp: progress_def transfer_ready_def d'' with_outs_def)
qed

lemma progress_netted:
  assumes ok: "outs_ok d0" and pr: "progress c d0 i ds d" "a \<notin> set ds" and zero: "net_of c d0 a = 0"
    and d': "d' \<lparr>batches := []\<rparr> = (with_outs (update_rows (netted i a) (settled_at t'))
      (with_outs (update_rows (lockable (g_outstandingIds (group_spec c d0 a)))
        (\<lambda>x. x\<lparr>o_status := ''LOCKED'', o_batchId := Some i, o_lockedAt := Some t\<rparr>)) d))\<lparr>batches := []\<rparr>"
  shows "progress c d0 i (ds @ [a]) d'"
proof -
  have eqs: "transfers d' = transfers d" "outstandings d' = update_rows (netted i a) (settled_at t')
      (update_rows (lockable (g_outstandingIds (group_spec c d0 a)))
        (\<lambda>x. x\<lparr>o_status := ''LOCKED'', o_batchId := Some i, o_lockedAt := Some t\<rparr>) (outstandings d))"
    using rest_eq[OF d'] by (simp_all add: with_outs_def)
  have "list_all2 (row_state c d0 i (ds @ [a]) d') (outstandings d0) (outstandings d')"
    unfolding eqs(2) using pr eqs(1)
    by (intro net_rows[OF ok _ _ zero _ HOL.refl, where d = d and t' = t'])
      (auto simp: progress_def settled_at_def[abs_def])
  then show ?thesis
    using pr eod_source_cong[OF eqs(1)] by (auto simp: progress_def)
qed

lemma wp_bind_resolve:
  "(\<And>x. wp (f x) Q (\<lambda>_ _. True) w) \<Longrightarrow> wp (bind (resolveWallet a r) f) Q (\<lambda>_ _. True) w"
  by (simp add: wp_resolveWallet split: option.split)

lemma wp_settle_asset:
  assumes ok: "outs_ok d0" and pr: "progress c d0 (b_id b) ds (db w)" and new: "a \<notin> set ds"
    and n: "counted c d0 ds n"
  shows "wp (settle_asset b tr op n (group_spec c d0 a))
    (\<lambda>m v. progress c d0 (b_id b) (ds @ [a]) (db v) \<and> counted c d0 (ds @ [a]) m) (\<lambda>_ _. True) w"
proof (cases "resolveCryptoDirection (net_of c d0 a)")
  case None
  then have zero: "net_of c d0 a = 0"
    by (simp add: resolveCryptoDirection_def split: if_splits)
  have id: "g_assetId (group_spec c d0 a) = a"
    by (simp add: group_spec_def Let_def)
  show ?thesis
    using None unfolding settle_asset_def net_of_def[symmetric]
    by (simp add: wp_lockToBatch id)
      (rule wp_markSettledNettedZero,
        auto intro!: progress_netted[OF ok pr new zero] counted_snoc(1)[OF n zero])
next
  case (Some dir)
  then have nz: "net_of c d0 a \<noteq> 0"
    by (auto simp: resolveCryptoDirection_def split: if_splits)
  have id: "g_assetId (group_spec c d0 a) = a"
    by (simp add: group_spec_def Let_def)
  have lock: "wp (lockToTransfer (g_outstandingIds (group_spec c d0 a)) (b_id b) (t_id t))
      (\<lambda>_ v. progress c d0 (b_id b) (ds @ [a]) (db v) \<and>
        counted c d0 (ds @ [a]) (n\<lparr>rc_spawned := Suc (rc_spawned n)\<rparr>)) (\<lambda>_ _. True) u"
    if "transfer_ready c d0 (b_id b) a t (db w) (db u)" for t u
    by (rule wp_lockToTransfer) (auto intro!: progress_locked[OF ok pr new that nz] counted_snoc(2)[OF n nz])
  have found: "wp (case find_source ''EOD_SETTLEMENT'' (b_id b @ '':'' @ a) (db w) of Some x \<Rightarrow> ret x
      | None \<Rightarrow> initiate (settlement_transfer dir b (group_spec c d0 a) fw tw tr) op)
      (\<lambda>t u. transfer_ready c d0 (b_id b) a t (db w) (db u)) (\<lambda>_ _. True) w" for fw tw
  proof (cases "eod_source (b_id b) a (db w)")
    case None
    then show ?thesis
      using ready_created requested_settles[OF Some]
      by (auto simp: eod_source_def intro!: wp_initiate)
  next
    case (Some t)
    then show ?thesis
      using ready_existing[OF pr new Some] by (simp add: eod_source_def)
  qed
  have "wp (bind (case find_source ''EOD_SETTLEMENT'' (b_id b @ '':'' @ a) (db w) of Some x \<Rightarrow> ret x
      | None \<Rightarrow> initiate (settlement_transfer dir b (group_spec c d0 a) fw tw tr) op) (\<lambda>transfer.
      bind (lockToTransfer (g_outstandingIds (group_spec c d0 a)) (b_id b) (t_id transfer)) (\<lambda>_.
        ret (n\<lparr>rc_spawned := Suc (rc_spawned n)\<rparr>))))
      (\<lambda>m v. progress c d0 (b_id b) (ds @ [a]) (db v) \<and> counted c d0 (ds @ [a]) m) (\<lambda>_ _. True) w" for fw tw
    unfolding wp_bind wp_ret by (rule wp_mono[OF found]) (auto intro: lock)
  then show ?thesis
    unfolding settle_asset_def net_of_def[symmetric] Some option.case id
    by (intro wp_bind_resolve) (simp only: wp_bind wp_getsDb)
qed

section \<open>A whole run\<close>

text \<open>What a run that returns makes of the rows that were open: \<^emph>\<open>closed_row\<close> for one batch.\<close>

definition run_closes :: "int \<Rightarrow> db \<Rightarrow> db \<Rightarrow> bool" where
  "run_closes cutoff d d' \<longleftrightarrow>
     (\<exists>i. list_all2 (\<lambda>x y. if open_crypto cutoff d x then closed_row cutoff d i d' x y else life x y)
        (outstandings d) (outstandings d'))"

definition open_assets :: "int \<Rightarrow> db \<Rightarrow> string list" where
  "open_assets cutoff d = js_set (map o_assetId (open_rows cutoff d))"

lemma open_asset_in: "x \<in> set (outstandings d) \<Longrightarrow> open_crypto c d x \<Longrightarrow> o_assetId x \<in> set (open_assets c d)"
  by (simp add: open_assets_def open_rows_def)

lemma progress_closes:
  assumes "progress c d0 i (open_assets c d0) d" "outstandings d' = outstandings d"
    and "set (transfers d) \<subseteq> set (transfers d')"
  shows "run_closes c d0 d'"
proof -
  have "list_all2 (row_state c d0 i (open_assets c d0) d) (outstandings d0) (outstandings d')"
    using assms by (simp add: progress_def)
  then have "list_all2 (\<lambda>x y. if open_crypto c d0 x then closed_row c d0 i d' x y else life x y)
      (outstandings d0) (outstandings d')"
  proof (rule list.rel_mono_strong)
    fix x y
    assume "x \<in> set (outstandings d0)" "row_state c d0 i (open_assets c d0) d x y"
    then show "if open_crypto c d0 x then closed_row c d0 i d' x y else life x y"
      using open_asset_in[of x d0 c] closed_row_mono[OF _ assms(3)] by (simp add: row_state_def)
  qed
  then show ?thesis
    unfolding run_closes_def by (rule exI)
qed

lemma progress_start:
  "outstandings d = outstandings d0 \<Longrightarrow> transfers d = transfers d0 \<Longrightarrow> progress c d0 i [] d"
  by (auto simp: progress_def row_state_def list_all2_same intro: eod_source_cong)

lemma rest_of_createBatch: "steps (same (\<lambda>w. (db w)\<lparr>batches := []\<rparr>)) (createBatch inp tx)"
proof -
  have "steps (same (\<lambda>w. (db w)\<lparr>batches := []\<rparr>)) (insert_batch r)"
    "steps (same (\<lambda>w. (db w)\<lparr>batches := []\<rparr>)) randomUUID"
    "steps (same (\<lambda>w. (db w)\<lparr>batches := []\<rparr>)) (generateReferenceNo p)"
    "steps (same (\<lambda>w. (db w)\<lparr>batches := []\<rparr>)) (recordSystem a False)" for r p a
    by (auto simp: steps_wp same_def insert_batch_def)
  then show ?thesis
    unfolding createBatch_def by (intro unchanged.inTx frame.combinators unchanged.with_unique_no)
qed

lemma wp_settle_assets:
  assumes ok: "outs_ok d0" and d: "outstandings (db w) = outstandings d0" "transfers (db w) = transfers d0"
  shows "wp (foldC (settle_asset b tr op) \<lparr>rc_settledZero = 0, rc_spawned = 0\<rparr> (findOpenCryptoByAsset c d0))
    (\<lambda>n v. progress c d0 (b_id b) (open_assets c d0) (db v) \<and> counted c d0 (open_assets c d0) n)
    (\<lambda>_ _. True) w"
proof (rule wp_foldC_prefix[where pre = "[]" and xs = "findOpenCryptoByAsset c d0"
      and I = "\<lambda>gs n v. progress c d0 (b_id b) (map g_assetId gs) (db v) \<and> counted c d0 (map g_assetId gs) n"])
  have id: "g_assetId (group_spec c d0 a) = a" for a
    by (simp add: group_spec_def Let_def)
  fix gs g rest n and v :: world
  assume xs: "findOpenCryptoByAsset c d0 = gs @ g # rest"
    and I: "progress c d0 (b_id b) (map g_assetId gs) (db v) \<and> counted c d0 (map g_assetId gs) n"
  have "map g_assetId (gs @ g # rest) = open_assets c d0"
    unfolding xs[symmetric] groups_spec open_assets_def by (simp add: id comp_def)
  then have "distinct (map g_assetId (gs @ g # rest))"
    by (simp add: open_assets_def)
  then have new: "g_assetId g \<notin> set (map g_assetId gs)"
    by auto
  have "g \<in> set (findOpenCryptoByAsset c d0)"
    by (simp add: xs)
  then have g: "g = group_spec c d0 (g_assetId g)"
    unfolding groups_spec by (auto simp: id)
  show "wp (settle_asset b tr op n g) (\<lambda>m v. progress c d0 (b_id b) (map g_assetId (gs @ [g])) (db v)
      \<and> counted c d0 (map g_assetId (gs @ [g])) m) (\<lambda>_ _. True) v"
    using wp_settle_asset[OF ok conjunct1[OF I] new conjunct2[OF I]] g by simp
next
  fix n and v :: world
  assume "progress c d0 (b_id b) (map g_assetId ([] @ findOpenCryptoByAsset c d0)) (db v)
    \<and> counted c d0 (map g_assetId ([] @ findOpenCryptoByAsset c d0)) n"
  then show "progress c d0 (b_id b) (open_assets c d0) (db v) \<and> counted c d0 (open_assets c d0) n"
    by (simp add: groups_spec open_assets_def comp_def group_spec_def Let_def)
qed (use progress_start[OF d] in \<open>simp_all add: counted_def count_of_def\<close>)

definition run_counted :: "int \<Rightarrow> db \<Rightarrow> run_result \<Rightarrow> bool" where
  "run_counted c d r \<longleftrightarrow> rr_assetCount r = length (open_assets c d)
     \<and> rr_settledZero r = count_of (\<lambda>a. net_of c d a = 0) (open_assets c d)
     \<and> rr_spawned r = count_of (\<lambda>a. net_of c d a \<noteq> 0) (open_assets c d)"

lemma wp_grow:
  assumes "steps transfers_grow m" "steps (same (\<lambda>w. outstandings (db w))) m"
    and "\<And>a v. set (transfers (db w)) \<subseteq> set (transfers (db v)) \<Longrightarrow> outstandings (db v) = outstandings (db w) \<Longrightarrow> Q a v"
  shows "wp m Q (\<lambda>_ _. True) w"
proof -
  have "wp m (\<lambda>_ v. transfers_grow w v \<and> outstandings (db v) = outstandings (db w))
      (\<lambda>_ v. transfers_grow w v \<and> outstandings (db v) = outstandings (db w)) w"
    using assms(1,2) by (auto simp: steps_def same_def wp_run)
  then show ?thesis
    by (rule wp_mono) (auto simp: transfers_grow_def intro: assms(3))
qed

lemma run_closes_empty:
  "open_assets c d = [] \<Longrightarrow> outstandings d' = outstandings d \<Longrightarrow> run_closes c d d'"
  using open_asset_in[of _ d c] by (auto simp: run_closes_def list_all2_same)

lemma no_groups: "findOpenCryptoByAsset c d = [] \<longleftrightarrow> open_assets c d = []"
  by (simp add: groups_spec open_assets_def)

theorem wp_run_settlement:
  assumes ok: "outs_ok (db w)"
  shows "wp (run_settlement tr (\<lambda>_. ret ()) op c)
    (\<lambda>r v. run_closes c (db w) (db v) \<and> run_counted c (db w) r) (\<lambda>_ _. True) w"
proof (cases "findOpenCryptoByAsset c (db w) = []")
  case True
  then show ?thesis
    by (auto simp: run_settlement_def run_counted_def no_groups count_of_def
        intro!: wp_grow[OF runFeePass_grow runFeePass_outs] run_closes_empty)
next
  case False
  have tail: "wp (bind (recomputeBatch (b_id b) False) (\<lambda>_. andThen (runFeePass c) (andThen (ret ())
      (ret \<lparr>rr_batchNo = Some (b_no b), rr_assetCount = length (findOpenCryptoByAsset c (db w)),
         rr_settledZero = rc_settledZero n, rr_spawned = rc_spawned n\<rparr>))))
      (\<lambda>r v. run_closes c (db w) (db v) \<and> run_counted c (db w) r) (\<lambda>_ _. True) u"
    if pr: "progress c (db w) (b_id b) (open_assets c (db w)) (db u)" "counted c (db w) (open_assets c (db w)) n" for b n u
    unfolding wp_bind wp_andThen wp_ret
  proof (rule wp_keeps[OF rest_of_recompute], rule wp_grow[OF runFeePass_grow runFeePass_outs])
    fix v v' :: world
    assume "(db v)\<lparr>batches := []\<rparr> = (db u)\<lparr>batches := []\<rparr>" "set (transfers (db v)) \<subseteq> set (transfers (db v'))"
      "outstandings (db v') = outstandings (db v)"
    then have "run_closes c (db w) (db v')"
      using rest_eq[of "db v" "db u"] by (intro progress_closes[OF pr(1)]) auto
    then show "run_closes c (db w) (db v') \<and> run_counted c (db w)
        \<lparr>rr_batchNo = Some (b_no b), rr_assetCount = length (findOpenCryptoByAsset c (db w)),
          rr_settledZero = rc_settledZero n, rr_spawned = rc_spawned n\<rparr>"
      using pr(2) by (simp add: run_counted_def counted_def groups_spec open_assets_def)
  qed
  have "wp (createBatch (batch_input c) False) (\<lambda>b. wp (foldC (settle_asset b tr op)
      \<lparr>rc_settledZero = 0, rc_spawned = 0\<rparr> (findOpenCryptoByAsset c (db w)))
      (\<lambda>n v. progress c (db w) (b_id b) (open_assets c (db w)) (db v) \<and> counted c (db w) (open_assets c (db w)) n)
      (\<lambda>_ _. True)) (\<lambda>_ _. True) w"
    using rest_eq by (intro wp_keeps[OF rest_of_createBatch] wp_settle_assets[OF ok]) blast+
  then have "wp (bind (createBatch (batch_input c) False) (\<lambda>b. bind (foldC (settle_asset b tr op)
      \<lparr>rc_settledZero = 0, rc_spawned = 0\<rparr> (findOpenCryptoByAsset c (db w))) (\<lambda>n.
      bind (recomputeBatch (b_id b) False) (\<lambda>_. andThen (runFeePass c) (andThen (ret ())
      (ret \<lparr>rr_batchNo = Some (b_no b), rr_assetCount = length (findOpenCryptoByAsset c (db w)),
         rr_settledZero = rc_settledZero n, rr_spawned = rc_spawned n\<rparr>))))))
      (\<lambda>r v. run_closes c (db w) (db v) \<and> run_counted c (db w) r) (\<lambda>_ _. True) w"
    unfolding wp_bind[of "createBatch _ _"] wp_bind[of "foldC _ _ _"]
    by (elim wp_mono) (use tail in blast)+
  then show ?thesis
    unfolding run_settlement_def wp_bind[of "getsDb _"] wp_getsDb if_not_P[OF False] .
qed

end
