(* ===== verification/FeeFacts.thy ===== *)
theory FeeFacts
  imports FeeAccruals
begin

text \<open>
  What accruing and re-aggregating compute: an accrual adds at most one row and leaves its source
  accrued, an accrued source is left alone; the counters of a batch say SUCCESS exactly when its ledgers
  are closed.
\<close>

section \<open>Accruing\<close>

definition accrued :: "AccrualInput \<Rightarrow> db \<Rightarrow> bool" where
  "accrued inp d \<longleftrightarrow> (\<exists>a\<in>set (accruals d). same_source inp a)"

definition row_of :: "AccrualInput \<Rightarrow> fee_accrual \<Rightarrow> bool" where
  "row_of inp a \<longleftrightarrow> (\<exists>no i t. a = accrual_row inp no i t)"

text \<open>At most one row was added, and the source is accrued.\<close>

definition accrues :: "AccrualInput \<Rightarrow> db \<Rightarrow> db \<Rightarrow> bool" where
  "accrues inp d d' \<longleftrightarrow>
     (\<exists>new. d' = d\<lparr>accruals := accruals d @ new\<rparr> \<and> length new \<le> 1 \<and> list_all (row_of inp) new) \<and> accrued inp d'"

lemma find_same_source: "find (same_source inp) (accruals d) = None \<longleftrightarrow> \<not> accrued inp d"
  by (auto simp: accrued_def find_None)

lemma found_accrues: "find (same_source inp) (accruals d) = Some a \<Longrightarrow> accrues inp d d"
  using find_same_source[of inp d] by (auto simp: accrues_def intro: exI[of _ "[]"])

lemma new_accrues: "accrues inp d (d\<lparr>accruals := accruals d @ [accrual_row inp no i t]\<rparr>)"
  unfolding accrues_def
  by (intro conjI exI[of _ "[accrual_row inp no i t]"])
    (auto simp: row_of_def accrued_def same_source_def accrual_row_def)

lemma wp_insert_accrual:
  "wp (insert_accrual r) Q E w =
     (if \<exists>a\<in>set (accruals (db w)). fa_no a = fa_no r then E (UniqueConstraint ''feeAccrualNo'') w
      else if \<exists>a\<in>set (accruals (db w)). fa_sourceType a = fa_sourceType r \<and> fa_sourceId a = fa_sourceId r
              \<and> fa_feeKind a = fa_feeKind r
        then E (UniqueConstraint ''sourceType_sourceId_feeKind'') w
      else if \<exists>a\<in>set (accruals (db w)). fa_id a = fa_id r then E (UniqueConstraint ''id'') w
      else Q r (w\<lparr>db := (db w)\<lparr>accruals := accruals (db w) @ [r]\<rparr>\<rparr>))"
  by (auto simp: insert_accrual_def)

lemma wp_try_accrual:
  assumes "\<And>a v. accrues inp (db w) (db v) \<Longrightarrow> Q a v"
  shows "wp (try_accrual n inp) Q (\<lambda>_ _. True) w"
  using assms
proof (induction n arbitrary: w)
  case 0
  show ?case
    by (subst try_accrual.simps)
      (auto simp: wp_insert_accrual existing_accrual_def new_accrues found_accrues split: option.split
        intro!: "0.prems")
next
  case (Suc n)
  have IH: "wp (try_accrual n inp) Q (\<lambda>_ _. True) v" if "db v = db w" for v
    using that by (intro Suc.IH Suc.prems) simp
  show ?case
    by (subst try_accrual.simps)
      (auto simp: wp_insert_accrual existing_accrual_def new_accrues found_accrues split: option.split
        intro!: Suc.prems IH)
qed

lemma wp_createAccrual:
  "(\<And>a v. accrues inp (db w) (db v) \<Longrightarrow> Q a v) \<Longrightarrow> wp (createAccrual inp) Q (\<lambda>_ _. True) w"
  by (auto simp: createAccrual_def existing_accrual_def found_accrues split: option.split
      intro!: wp_try_accrual)

lemma createAccrual_again:
  "accrued inp (db w) \<Longrightarrow> \<exists>a. createAccrual inp w = (Inr a, w)"
  using find_same_source[of inp "db w"]
  by (auto simp: createAccrual_def existing_accrual_def bind_def getsDb_def gets_def ret_def split: option.split)

definition accrued_if_due :: "AccrualInput \<Rightarrow> db \<Rightarrow> bool" where
  "accrued_if_due inp d \<longleftrightarrow> (0 < ac_amount inp \<longrightarrow> accrued inp d)"

lemma accrue_again: "accrued_if_due inp (db w) \<Longrightarrow> accrue inp w = (Inr (), w)"
  using createAccrual_again[of inp w]
  by (auto simp: accrued_if_due_def accrue_def whenM_def bind_def ret_def)

definition due_rows :: "AccrualInput \<Rightarrow> fee_accrual list \<Rightarrow> bool" where
  "due_rows inp new \<longleftrightarrow> length new \<le> 1 \<and> list_all (row_of inp) new \<and> (new \<noteq> [] \<longrightarrow> 0 < ac_amount inp)"

lemma wp_accrue:
  assumes "\<And>new v. db v = (db w)\<lparr>accruals := accruals (db w) @ new\<rparr> \<Longrightarrow> due_rows inp new \<Longrightarrow>
    accrued_if_due inp (db v) \<Longrightarrow> Q () v"
  shows "wp (accrue inp) Q (\<lambda>_ _. True) w"
proof (cases "0 < ac_amount inp")
  case True
  then have "Q () v" if "accrues inp (db w) (db v)" for v
    using that by (auto simp: accrues_def due_rows_def accrued_if_due_def intro: assms)
  then show ?thesis
    using True by (auto simp: accrue_def intro: wp_createAccrual)
next
  case False
  then show ?thesis
    by (auto simp: accrue_def due_rows_def accrued_if_due_def intro: assms[of _ "[]"])
qed

lemma accrued_mono: "accrued_if_due inp d \<Longrightarrow> accrued_if_due inp (d\<lparr>accruals := accruals d @ new\<rparr>)"
  by (auto simp: accrued_if_due_def accrued_def)

text \<open>The two accruals of a swap.\<close>

definition swap_dues :: "swap \<Rightarrow> db \<Rightarrow> AccrualInput \<times> AccrualInput" where
  "swap_dues s d = (let code = asset_code_of (sw_toAssetId s) d in
     (swap_accrual s code ''SERVICE_FEE'' (default_of 0 (sw_feeAmount s)),
      swap_accrual s code ''SPREAD'' (default_of 0 (sw_spreadAmount s))))"

lemma wp_accrueForSwap:
  assumes "by_id sw_id i (swaps (db w)) = Some s"
    and "\<And>n1 n2 v. db v = (db w)\<lparr>accruals := accruals (db w) @ n1 @ n2\<rparr> \<Longrightarrow>
      due_rows (fst (swap_dues s (db w))) n1 \<Longrightarrow> due_rows (snd (swap_dues s (db w))) n2 \<Longrightarrow>
      accrued_if_due (fst (swap_dues s (db w))) (db v) \<Longrightarrow> accrued_if_due (snd (swap_dues s (db w))) (db v) \<Longrightarrow>
      Q () v"
  shows "wp (accrueForSwap i) Q (\<lambda>_ _. True) w"
  by (auto simp: accrueForSwap_def assms(1) swap_dues_def Let_def
      intro!: wp_accrue assms(2) dest: accrued_mono)

lemma accrueForSwap_again:
  assumes "by_id sw_id i (swaps (db w)) = Some s"
    and "accrued_if_due (fst (swap_dues s (db w))) (db w)" "accrued_if_due (snd (swap_dues s (db w))) (db w)"
  shows "accrueForSwap i w = (Inr (), w)"
  using assms accrue_again[of _ w]
  by (simp add: accrueForSwap_def swap_dues_def Let_def bind_def andThen_def getsDb_def gets_def)

section \<open>Counting a batch\<close>

lemma count_all: "count_of p xs = length xs \<longleftrightarrow> list_all p xs"
  unfolding count_of_def list_all_iff by (metis filter_id_conv length_filter_less less_irrefl)

lemma count_le: "count_of p xs \<le> length xs"
  by (simp add: count_of_def)

lemma by_id_stored:
  "by_id key i rs \<noteq> None \<Longrightarrow> key r = i \<Longrightarrow> by_id key i (update_rows (\<lambda>x. key x = i) (\<lambda>_. r) rs) = Some r"
  by (induction rs) (auto simp: by_id_def)

text \<open>With at most one transfer per asset, the asset counter is full exactly when every transfer
  succeeded.\<close>

lemma all_done_iff:
  assumes "distinct (map t_assetId ts)"
  shows "all_done (recounted ts os fs b) \<longleftrightarrow>
    (ts \<noteq> [] \<or> list_ex (\<lambda>x. \<not> truthy (o_transferId x)) os) \<and> list_all (\<lambda>t. t_status t = IT_SUCCESS) ts
    \<and> list_all (\<lambda>x. o_status x = ''SETTLED'') os \<and> list_all (\<lambda>a. fa_status a = ''SETTLED'') fs"
proof -
  have "length (js_set (map t_assetId ts)) = length ts"
    using assms by (simp add: js_set_def distinct_remdups_id)
  then show ?thesis
    by (auto simp: all_done_def recounted_def Let_def count_all list_ex_iff filter_empty_conv)
qed

text \<open>With two transfers of one asset the counter of settled transfers overshoots the counter of assets.\<close>

lemma repeated_asset_not_done:
  assumes "\<not> distinct (map t_assetId ts)" "list_all (\<lambda>t. t_status t = IT_SUCCESS) ts"
  shows "\<not> all_done (recounted ts os fs b)"
proof -
  have "length (js_set (map t_assetId ts)) < length ts"
    using assms(1) card_distinct[of "map t_assetId ts"] card_length[of "map t_assetId ts"]
    unfolding length_js_set by (metis le_neq_implies_less length_map)
  then show ?thesis
    using assms(2) count_all[of "\<lambda>t. t_status t = IT_SUCCESS" ts]
    by (simp add: all_done_def recounted_def Let_def)
qed

lemma recomputed_done:
  "all_done (recomputed i d t b) \<longleftrightarrow>
     all_done (recounted (batch_transfers i d) (batch_outstandings i d) (batch_accruals i d) b)"
  by (simp add: recomputed_def Let_def all_done_def)

lemma recomputed_simps [simp]:
  "b_id (recomputed i d t b) = b_id b"
  "b_status (recomputed i d t b) = (if all_done (recomputed i d t b) then ''SUCCESS'' else ''PROCESSING'')"
  by (auto simp: recomputed_def recounted_def Let_def all_done_def)

end
