(* ===== verification/SettlementProps.thy ===== *)
theory SettlementProps
  imports SettlementEffects FeeFacts Samples
begin

text \<open>
  The properties of the settlement: the one-way life of an outstanding under any sequence of operations,
  the netting by asset, what a run closes, the end-of-day run that always ends in an error, when a batch
  is a success, and that accruing is idempotent.
\<close>

section \<open>Any sequence of operations\<close>

text \<open>One operation of the settlement services with any arguments, run to its end.\<close>

inductive settlement_step :: "world \<Rightarrow> world \<Rightarrow> bool" where
  lock_transfer: "lockToTransfer ids b t w = (r, w') \<Longrightarrow> settlement_step w w'"
| lock_batch: "lockToBatch ids b w = (r1, w') \<Longrightarrow> settlement_step w w'"
| settled: "settle t f w = (r2, w') \<Longrightarrow> settlement_step w w'"
| netted_zero: "markSettledNettedZero b a w = (r3, w') \<Longrightarrow> settlement_step w w'"
| recompute: "recomputeBatch b tx w = (r4, w') \<Longrightarrow> settlement_step w w'"
| batch: "createBatch bi tx w = (r5, w') \<Longrightarrow> settlement_step w w'"
| transfer: "initiate inp op w = (r6, w') \<Longrightarrow> settlement_step w w'"
| swap_fee: "accrueForSwap i w = (r7, w') \<Longrightarrow> settlement_step w w'"
| withdraw_fee: "accrueForWithdraw i w = (r8, w') \<Longrightarrow> settlement_step w w'"
| fees: "settleAccruals rows c st w = (r9, w') \<Longrightarrow> settlement_step w w'"
| fee_cleared: "settleByTransfer t f w = (r10, w') \<Longrightarrow> settlement_step w w'"
| eod: "runEodSettlement op c w = (r11, w') \<Longrightarrow> settlement_step w w'"
| manual: "runManualCryptoSettlement op c w = (r12, w') \<Longrightarrow> settlement_step w w'"
| fund_out: "fundOut wi wn a m op w = (r13, w') \<Longrightarrow> settlement_step w w'"
| fund_return: "fundReturn wi wn a m rs op w = (r14, w') \<Longrightarrow> settlement_step w w'"
| sweep: "runSweep op w = (r15, w') \<Longrightarrow> settlement_step w w'"

lemma settlement_step_live: "settlement_step w w' \<Longrightarrow> outs_live w w'"
  by (induction rule: settlement_step.induct)
    (auto elim!: stepsD[rotated] intro!: consumer_live settle_fees_live accrue_live workflows_live runSweep_live
      recompute_outs[THEN live_outs] createBatch_outs[THEN live_outs] initiate_books[THEN live_books])

lemma settlement_steps_live: "settlement_step\<^sup>*\<^sup>* w w' \<Longrightarrow> outs_live w w'"
  by (induction rule: rtranclp_induct) (auto intro: live.R_refl live.R_trans dest!: settlement_step_live)

text \<open>
  C8. An outstanding only moves forward.  After any sequence of settlement operations, returned or failed,
  the table has the same rows in the same order; a row that changed kept its number, direction, asset and
  amount, and went from OPEN to LOCKED or SETTLED with a batch, or from LOCKED to SETTLED under the batch
  and the transfer it was locked to.  In particular a SETTLED row is never touched again.
\<close>

theorem outstandings_only_move_forward:
  assumes "settlement_step\<^sup>*\<^sup>* w w'"
  shows "length (outstandings (db w')) = length (outstandings (db w)) \<and>
    (\<forall>k < length (outstandings (db w)). let x = outstandings (db w) ! k; y = outstandings (db w') ! k in
       y = x \<or> claim y = claim x \<and>
         (o_status x = ''OPEN'' \<and> o_status y \<in> {''LOCKED'', ''SETTLED''} \<and> o_batchId y \<noteq> None \<or>
          o_status x = ''LOCKED'' \<and> o_status y = ''SETTLED'' \<and> link y = link x \<and> o_closedAt y \<noteq> None))"
  using settlement_steps_live[OF assms]
  by (auto simp: outs_live_def life_def list_all2_conv_all_nth Let_def)

definition owed :: outstanding where
  "owed = \<lparr>o_id = ''O1'', o_no = Some ''OS1'', o_direction = ''IN'', o_assetId = ''USDT'',
     o_assetCode = Some ''USDT-TRON'', o_amount = 5, o_status = ''OPEN'', o_swapId = None, o_batchId = None,
     o_transferId = None, o_closedByFundId = None, o_originTraceId = None, o_lockedAt = None,
     o_closedAt = None, o_createdAt = 10\<rparr>"

definition platform_wallet :: "string \<Rightarrow> wallet" where
  "platform_wallet role = \<lparr>w_id = role, w_ownerType = ''PLATFORM'', w_ownerId = None, w_ownerNo = None,
     w_role = role, w_assetId = ''USDT'', w_address = None, w_iban = None, w_status = ''ACTIVE'', w_balance = 0\<rparr>"

definition owed_world :: world where
  "owed_world = demo_world\<lparr>db := empty_db\<lparr>assets := [usdt], outstandings := [owed],
     wallets := [platform_wallet ''F_OPS'', platform_wallet ''C_MAIN'']\<rparr>\<rparr>"

theorem outstandings_only_move_forward_witness:
  "outstandings (db (snd (lockToBatch [''O1''] ''B'' owed_world)))
     = [owed\<lparr>o_status := ''LOCKED'', o_batchId := Some ''B'', o_lockedAt := Some 1000\<rparr>]
   \<and> claim (outstandings (db (snd (lockToBatch [''O1''] ''B'' owed_world))) ! 0) = claim owed"
proof
  let ?w = "snd (lockToBatch [''O1''] ''B'' owed_world)"
  show "outstandings (db ?w) = [owed\<lparr>o_status := ''LOCKED'', o_batchId := Some ''B'', o_lockedAt := Some 1000\<rparr>]"
    by (rule wp_run[THEN iffD1])
      (simp add: wp_lockToBatch with_outs_def owed_world_def demo_world_def owed_def lockable_def)
  have "settlement_step\<^sup>*\<^sup>* owed_world ?w"
    by (rule r_into_rtranclp, rule settlement_step.lock_batch, rule surjective_pairing)
  from outstandings_only_move_forward[OF this] show "claim (outstandings (db ?w) ! 0) = claim owed"
    by (auto simp: owed_world_def demo_world_def Let_def)
qed

section \<open>Netting\<close>

text \<open>
  C24. Netting is exact.  The groups a settlement works on are, asset by asset in the order the assets first
  appear, the sums of the rows that are open, of a crypto asset, in no batch and older than the cutoff; every
  such row is in exactly one group, and the nets of all groups add up to what comes in less what goes out.
\<close>

theorem netting_is_exact:
  "findOpenCryptoByAsset c d = map (group_spec c d) (open_assets c d)
   \<and> distinct (open_assets c d)
   \<and> (\<Sum>g\<leftarrow>findOpenCryptoByAsset c d. g_net g) = in_sum (open_rows c d) - out_sum (open_rows c d)
   \<and> (\<Sum>g\<leftarrow>findOpenCryptoByAsset c d. length (g_outstandingIds g)) = length (open_rows c d)"
proof (intro conjI)
  let ?signed = "\<lambda>x. if o_direction x = ''IN'' then o_amount x else if o_direction x = ''OUT'' then - o_amount x else 0"
  have signed: "in_sum rows - out_sum rows = (\<Sum>x\<leftarrow>rows. ?signed x)" for rows
    by (induction rows) (auto simp: in_sum_def out_sum_def)
  show "(\<Sum>g\<leftarrow>findOpenCryptoByAsset c d. g_net g) = in_sum (open_rows c d) - out_sum (open_rows c d)"
    unfolding groups_spec signed using concat_by_key_mset[where rk = o_assetId and rs = "open_rows c d" and f = ?signed]
    by (simp add: comp_def group_spec_def Let_def signed)
  show "(\<Sum>g\<leftarrow>findOpenCryptoByAsset c d. length (g_outstandingIds g)) = length (open_rows c d)"
    unfolding groups_spec using concat_by_key_mset[where rk = o_assetId and rs = "open_rows c d" and f = "\<lambda>_. 1 :: nat"]
    by (simp add: comp_def group_spec_def Let_def sum_list_triv)
qed (simp_all add: groups_spec open_assets_def)

section \<open>Runs\<close>

text \<open>
  C25. A manual settlement that returns closes every amount it found open: each row of a crypto asset that was
  open and older than the cutoff now belongs to one batch, SETTLED when its asset netted to zero, and otherwise
  LOCKED to a transfer of that asset, which, unless it existed before the run, is over the absolute net amount
  in the direction of its sign; every other row is untouched or has only moved on.  The counters of the result
  count the assets of each kind.
\<close>

theorem manual_run_closes_open_amounts:
  assumes "outs_ok (db w)" "runManualCryptoSettlement op co w = (Inr r, w')"
  shows "run_closes (default_of (clock w) co) (db w) (db w') \<and> run_counted (default_of (clock w) co) (db w) r"
proof -
  have "run_settlement ''MANUAL_SETTLE'' (\<lambda>_. ret ()) op (default_of (clock w) co) w = (Inr r, w')"
    using assms(2) by (simp add: runManualCryptoSettlement_def bind_def now_def gets_def)
  then show ?thesis
    by (rule wp_result(1)[OF _ wp_run_settlement[OF assms(1)]])
qed

text \<open>
  C26. The end-of-day run never succeeds when something is open: it always ends in an error.  And it commits
  what it did before: where the same run without the last step would have returned, it throws the deprecation
  error and leaves the same world, in which every open amount has been locked or settled.
\<close>

theorem eod_run_commits_then_throws:
  assumes "outs_ok (db w)" "findOpenCryptoByAsset (default_of (resolveEodCutoff (clock w)) co) (db w) \<noteq> []"
  shows "(\<exists>e. fst (runEodSettlement op co w) = Inl e) \<and>
    (\<forall>r w'. run_settlement ''EOD'' (\<lambda>_. ret ()) op (default_of (resolveEodCutoff (clock w)) co) w = (Inr r, w') \<longrightarrow>
       runEodSettlement op co w = (Inl (PlainError DEPRECATED), w')
       \<and> run_closes (default_of (resolveEodCutoff (clock w)) co) (db w) (db w'))"
proof (intro conjI allI impI)
  let ?c = "default_of (resolveEodCutoff (clock w)) co"
  have run: "runEodSettlement op co w = run_settlement ''EOD'' runReval op ?c w"
    by (simp add: runEodSettlement_def bind_def now_def gets_def)
  have groups: "bind (getsDb (findOpenCryptoByAsset ?c)) f w = f (findOpenCryptoByAsset ?c (db w)) w" for f :: "_ \<Rightarrow> run_result op"
    by (simp add: bind_def getsDb_def gets_def)
  show "\<exists>e. fst (runEodSettlement op co w) = Inl e"
    unfolding run run_settlement_def groups using assms(2)
    by (auto simp: bind_def andThen_def runReval_def throw_def split: sum.splits prod.splits)
  fix r w'
  assume ran: "run_settlement ''EOD'' (\<lambda>_. ret ()) op ?c w = (Inr r, w')"
  then show "run_closes ?c (db w) (db w')"
    using wp_result(1)[OF ran wp_run_settlement[OF assms(1)]] by simp
  show "runEodSettlement op co w = (Inl (PlainError DEPRECATED), w')"
    using ran assms(2) unfolding run run_settlement_def groups
    by (auto simp: bind_def andThen_def runReval_def throw_def ret_def split: sum.splits prod.splits)
qed

section \<open>Batches\<close>

text \<open>
  C27. What re-aggregating a batch decides.  It always returns and stores the row.  For a batch with at most
  one transfer per asset the status is SUCCESS exactly when the ledgers are closed: the batch has a transfer
  or an outstanding without one, all its transfers succeeded, and all its outstandings and fee accruals are
  SETTLED; otherwise it is PROCESSING.  A batch with two transfers of one asset stays PROCESSING even when
  all its transfers succeeded, because transfers are counted against distinct assets.
\<close>

theorem batch_success_iff_ledgers_closed:
  assumes "find_batch i (db w) = Some b"
  shows "\<exists>r w'. recomputeBatch i tx w = (Inr r, w') \<and> find_batch i (db w') = Some r \<and>
    (distinct (map t_assetId (batch_transfers i (db w))) \<longrightarrow>
      b_status r = (if (batch_transfers i (db w) \<noteq> [] \<or> list_ex (\<lambda>x. \<not> truthy (o_transferId x)) (batch_outstandings i (db w)))
          \<and> list_all (\<lambda>t. t_status t = IT_SUCCESS) (batch_transfers i (db w))
          \<and> list_all (\<lambda>x. o_status x = ''SETTLED'') (batch_outstandings i (db w))
          \<and> list_all (\<lambda>a. fa_status a = ''SETTLED'') (batch_accruals i (db w))
        then ''SUCCESS'' else ''PROCESSING'')) \<and>
    (\<not> distinct (map t_assetId (batch_transfers i (db w)))
        \<and> list_all (\<lambda>t. t_status t = IT_SUCCESS) (batch_transfers i (db w)) \<longrightarrow> b_status r = ''PROCESSING'')"
proof -
  let ?r = "recomputed i (db w) (clock w) b"
  have id: "b_id b = i"
    using assms by_id_SomeD unfolding find_batch_def by fastforce
  have put: "by_id b_id i (update_rows (\<lambda>x. b_id x = i) (\<lambda>_. ?r) (batches (db w))) = Some ?r"
    using assms id by (intro by_id_stored) (simp_all add: find_batch_def)
  have "wp (recomputeBatch i tx) (\<lambda>r v. r = ?r \<and> find_batch i (db v) = Some r) (\<lambda>_ _. False) w"
    using assms put by (simp add: recomputeBatch_def wp_inTx Let_def put_batch_def find_batch_def)
  then obtain w' where "recomputeBatch i tx w = (Inr ?r, w')" "find_batch i (db w') = Some ?r"
    by (auto dest: wp_returns)
  then show ?thesis
    by (auto simp: recomputed_done all_done_iff repeated_asset_not_done)
qed

section \<open>Accruals\<close>

text \<open>
  Accruing the fees of a swap is idempotent.  A call that returns adds at most one accrual for the service
  fee and one for the spread, each only when its amount is positive, with that amount and status ACCRUED, and
  changes nothing else in the database; a second call returns and changes nothing at all.
\<close>

theorem accruing_twice_is_once:
  assumes "by_id sw_id i (swaps (db w)) = Some s" "accrueForSwap i w = (Inr (), w')"
  shows "(\<exists>n1 n2. db w' = (db w)\<lparr>accruals := accruals (db w) @ n1 @ n2\<rparr>
      \<and> due_rows (fst (swap_dues s (db w))) n1 \<and> due_rows (snd (swap_dues s (db w))) n2)
    \<and> accrueForSwap i w' = (Inr (), w')"
proof -
  let ?P = "\<lambda>v. \<exists>n1 n2. db v = (db w)\<lparr>accruals := accruals (db w) @ n1 @ n2\<rparr>
      \<and> due_rows (fst (swap_dues s (db w))) n1 \<and> due_rows (snd (swap_dues s (db w))) n2
      \<and> accrued_if_due (fst (swap_dues s (db w))) (db v) \<and> accrued_if_due (snd (swap_dues s (db w))) (db v)"
  have "wp (accrueForSwap i) (\<lambda>_. ?P) (\<lambda>_ _. True) w"
    by (rule wp_accrueForSwap[OF assms(1)]) blast
  then have P: "?P w'"
    using assms(2) by (auto simp: wp_def)
  moreover from P have "swap_dues s (db w') = swap_dues s (db w)" "by_id sw_id i (swaps (db w')) = Some s"
    using assms(1) by (auto simp: swap_dues_def asset_code_of_def find_asset_def)
  ultimately have "accrueForSwap i w' = (Inr (), w')"
    by (intro accrueForSwap_again) auto
  then show ?thesis
    using P by blast
qed

section \<open>A run that returns\<close>

text \<open>On empty tables the first number drawn is free, so the creators return.\<close>

lemma wp_unique_first:
  assumes "0 < n"
    and "wp (body (refno p (ymd w) (rnd_src w (rnd_pos w)))) Q (\<lambda>_ _. False) (w\<lparr>rnd_pos := Suc (rnd_pos w)\<rparr>)"
  shows "wp (with_unique_no n p col body) Q (\<lambda>_ _. False) w"
  using assms by (cases n) (auto elim!: wp_mono)

lemma retries_pos: "0 < MAX_NO_GENERATION_RETRIES"
  by (simp add: MAX_NO_GENERATION_RETRIES_def)

definition beside :: "world \<Rightarrow> wallet list \<times> outstanding list \<times> fee_accrual list \<times> asset list" where
  "beside w = (wallets (db w), outstandings (db w), accruals (db w), assets (db w))"

lemma createBatch_returns:
  assumes "batches (db w) = []" "cb_requestId inp = None"
    and "\<And>b v. batches (db v) = [b] \<Longrightarrow> transfers (db v) = transfers (db w) \<Longrightarrow>
      funds (db v) = funds (db w) \<Longrightarrow> beside v = beside w \<Longrightarrow> Q b v"
  shows "wp (createBatch inp False) Q (\<lambda>_ _. False) w"
proof -
  have "wp (with_unique_no MAX_NO_GENERATION_RETRIES ''OSB'' ''batchNo'' (\<lambda>no. bind randomUUID (\<lambda>traceId.
      bind randomUUID (\<lambda>rowId. insert_batch (batch_row inp no traceId rowId)))))
      (\<lambda>b v. batches (db v) = [b] \<and> transfers (db v) = transfers (db w) \<and> funds (db v) = funds (db w)
         \<and> beside v = beside w) (\<lambda>_ _. False) w"
    by (rule wp_unique_first[OF retries_pos]) (simp add: insert_batch_def batch_row_def assms(1,2) beside_def)
  then show ?thesis
    unfolding createBatch_def wp_bind wp_inTx if_False
    by (rule wp_mono) (auto intro!: assms(3) simp: beside_def)
qed

lemma initiate_returns:
  assumes "transfers (db w) = []" "funds (db w) = []"
    and "resolvePathPolicy (it_fromRole inp) (it_toRole inp) \<noteq> None"
    and "\<And>t v. transfers (db v) = [t] \<Longrightarrow> batches (db v) = batches (db w) \<Longrightarrow> beside v = beside w \<Longrightarrow> Q t v"
  shows "wp (initiate inp op) Q (\<lambda>_ _. False) w"
proof -
  obtain p where p: "resolvePathPolicy (it_fromRole inp) (it_toRole inp) = Some p"
    using assms(3) by auto
  let ?rest = "\<lambda>w v. funds (db v) = funds (db w) \<and> batches (db v) = batches (db w) \<and> beside v = beside w"
  have create: "wp (createTransfer ci op True) (\<lambda>t v. transfers (db v) = [t] \<and> ?rest w v) (\<lambda>_ _. False) w" for ci
  proof -
    have "wp (with_unique_no MAX_NO_GENERATION_RETRIES ''ITX'' ''internalTxNo'' (\<lambda>no. bind randomUUID (\<lambda>rowId.
        insert_transfer (transfer_row ci rowId no tr h)))) (\<lambda>t v. transfers (db v) = [t] \<and> ?rest w v) (\<lambda>_ _. False) v"
      if "db v = db w" for v tr h
      by (rule wp_unique_first[OF retries_pos]) (simp add: wp_insert_transfer that assms(1) beside_def)
    then show ?thesis
      by (auto simp: createTransfer_def inTx_def batch_trace_def split: option.split)
  qed
  have leg: "wp (createFromInternalTransaction (from_transfer (t_id t)) op True) (\<lambda>_. Q t) (\<lambda>_ _. False) v"
    if "transfers (db v) = [t]" "?rest w v" for t v
  proof -
    have "wp (create_numbered (fund_from_transfer cf t op (clock v)) aud) (\<lambda>_. Q t) (\<lambda>_ _. False) v" for cf aud
      unfolding create_numbered_def
      by (rule wp_unique_first[OF retries_pos])
        (use that assms(2) in \<open>auto simp: wp_insert_fund beside_def intro!: assms(4)\<close>)
    then show ?thesis
      using that assms(2) by (simp add: createFromInternalTransaction_def inTx_def from_transfer_def by_id_def)
  qed
  show ?thesis
    unfolding initiate_def initiate_body_def assertWhitelisted_def p
    by (auto intro!: wp_mono[OF create] leg simp: beside_def)
qed

lemma owed_groups: "findOpenCryptoByAsset 500 (db owed_world) = [group_spec 500 (db owed_world) ''USDT'']"
  by (simp add: groups_spec open_rows_def open_crypto_def asset_type_of_def find_asset_def by_id_def
      owed_world_def demo_world_def empty_db_def owed_def usdt_def js_set_def)

lemma owed_wallets:
  "beside v = beside owed_world \<Longrightarrow> a = ''USDT'' \<Longrightarrow> r = ''F_OPS'' \<or> r = ''C_MAIN'' \<Longrightarrow>
     wp (resolveWallet a r) Q E v = Q (platform_wallet r) v"
  by (auto simp: wp_resolveWallet beside_def owed_world_def demo_world_def platform_wallet_def)

lemma settle_owed:
  assumes "batches (db v) = [b]" "transfers (db v) = []" "funds (db v) = []" "beside v = beside owed_world"
    and "\<And>n u. batches (db u) = [b] \<Longrightarrow> accruals (db u) = [] \<Longrightarrow> Q n u"
  shows "wp (settle_asset b tr op n (group_spec 500 (db owed_world) ''USDT'')) Q (\<lambda>_ _. False) v"
proof -
  let ?g = "group_spec 500 (db owed_world) ''USDT''"
  have g: "g_net ?g = 5" "g_assetId ?g = ''USDT''"
    by (simp_all add: group_spec_def open_rows_def open_crypto_def asset_type_of_def find_asset_def by_id_def
      owed_world_def demo_world_def empty_db_def owed_def usdt_def in_sum_def out_sum_def Let_def)
  have lock: "wp (lockToTransfer ids (b_id b) t) (\<lambda>_. Q m) (\<lambda>_ _. False) u"
    if "batches (db u) = [b]" "accruals (db u) = []" for ids t m u
  proof -
    have "wp (forEach xs (\<lambda>x. recordSystem (f x) False)) (\<lambda>_. Q m) (\<lambda>_ _. False) u'"
      if "batches (db u') = [b]" "accruals (db u') = []" for xs u' and f :: "outstanding \<Rightarrow> audit"
      using that by (induction xs arbitrary: u') (auto intro: assms(5))
    then show ?thesis
      using that assms(5) by (simp add: lockToTransfer_def updateOutstandings_def audit_outstandings_def batch_trace_of_def)
  qed
  have "accruals (db u) = []" if "beside u = beside v" for u
    using that assms(4) by (simp add: beside_def owed_world_def demo_world_def empty_db_def)
  then show ?thesis
    using assms(1-4) settle_paths(1)
    by (auto simp: settle_asset_def g resolveCryptoDirection_def owed_wallets find_source_def settlement_transfer_def
        intro!: initiate_returns lock)
qed

lemma owed_run: "wp (run_settlement tr (\<lambda>_. ret ()) op 500) (\<lambda>_ _. True) (\<lambda>_ _. False) owed_world"
proof -
  have tail: "wp (recomputeBatch (b_id b) False) (\<lambda>_. wp (andThen (runFeePass 500) (andThen (ret ()) (ret x)))
      (\<lambda>_ _. True) (\<lambda>_ _. False)) (\<lambda>_ _. False) u"
    if "batches (db u) = [b]" "accruals (db u) = []" for b u and x :: run_result
    using that by (simp add: recomputeBatch_def wp_inTx Let_def find_batch_def by_id_def put_batch_def runFeePass_def
        fee_assets_def)
  have "wp (createBatch (batch_input 500) False) (\<lambda>b v. batches (db v) = [b] \<and> transfers (db v) = []
      \<and> funds (db v) = [] \<and> beside v = beside owed_world) (\<lambda>_ _. False) owed_world"
    by (rule createBatch_returns) (simp_all add: owed_world_def demo_world_def empty_db_def batch_input_def)
  then show ?thesis
    unfolding run_settlement_def wp_bind wp_getsDb wp_if owed_groups
    by (auto intro!: settle_owed tail elim!: wp_mono)
qed

lemma owed_returns: "\<exists>r w'. run_settlement tr (\<lambda>_. ret ()) op 500 owed_world = (Inr r, w')"
  using wp_returns[OF owed_run] by blast

lemma owed_ok: "outs_ok (db owed_world)"
  by (simp add: outs_ok_def owed_world_def demo_world_def owed_def)

theorem manual_run_closes_open_amounts_witness:
  "\<exists>r w'. runManualCryptoSettlement ''ADMIN'' (Some 500) owed_world = (Inr r, w')
     \<and> run_closes 500 (db owed_world) (db w') \<and> rr_assetCount r = 1"
proof -
  obtain r w' where "run_settlement ''MANUAL_SETTLE'' (\<lambda>_. ret ()) ''ADMIN'' 500 owed_world = (Inr r, w')"
    using owed_returns by blast
  then have run: "runManualCryptoSettlement ''ADMIN'' (Some 500) owed_world = (Inr r, w')"
    by (simp add: runManualCryptoSettlement_def bind_def now_def gets_def default_of_def)
  have "length (open_assets 500 (db owed_world)) = 1"
    using arg_cong[OF owed_groups, of length] by (simp only: groups_spec open_assets_def length_map list.size One_nat_def)
  then show ?thesis
    using manual_run_closes_open_amounts[OF owed_ok run] run by (auto simp: run_counted_def default_of_def)
qed

theorem eod_run_commits_then_throws_witness:
  "\<exists>w'. runEodSettlement ''SYSTEM'' (Some 500) owed_world = (Inl (PlainError DEPRECATED), w')
     \<and> run_closes 500 (db owed_world) (db w')"
proof -
  obtain r w' where "run_settlement ''EOD'' (\<lambda>_. ret ()) ''SYSTEM'' 500 owed_world = (Inr r, w')"
    using owed_returns by blast
  moreover have "findOpenCryptoByAsset (default_of (resolveEodCutoff (clock owed_world)) (Some 500)) (db owed_world) \<noteq> []"
    by (simp add: default_of_def owed_groups)
  ultimately show ?thesis
    using eod_run_commits_then_throws[OF owed_ok, of "Some 500"] by (auto simp: default_of_def)
qed

definition fee_batch :: settlement_batch where
  "fee_batch = \<lparr>b_id = ''B1'', b_no = ''OSB1'', b_type = ''CRYPTO_SWAP'', b_category = ''SWAP_FEE'', b_cutoffAt = 0,
     b_status = ''PROCESSING'', b_requestId = None, b_traceId = None, b_totalAssets = 0, b_settledAssets = 0,
     b_totalOutstandings = 0, b_settledOutstandings = 0, b_totalFees = 0, b_settledFees = 0, b_completedAt = None\<rparr>"

definition batch_world :: world where
  "batch_world = demo_world\<lparr>db := empty_db\<lparr>batches := [fee_batch],
     outstandings := [owed\<lparr>o_status := ''SETTLED'', o_batchId := Some ''B1''\<rparr>]\<rparr>\<rparr>"

text \<open>Two transfers of one asset, both successful.\<close>

definition paid_twice :: "string \<Rightarrow> internal_transaction" where
  "paid_twice i = \<lparr>t_id = i, t_no = i, t_type = CRYPTO_SETTLE_OUT, t_status = IT_SUCCESS, t_class = Class_B,
     t_medium = CHAIN, t_trigger = ''EOD'', t_traceId = None, t_sourceType = ''EOD_SETTLEMENT'', t_sourceId = i,
     t_sourceNo = None, t_ownerType = ''PLATFORM'', t_ownerId = ''PLATFORM'', t_ownerNo = None, t_assetId = ''USDT'',
     t_amount = 5, t_feeAmount = 0, t_netAmount = 5, t_fromWalletId = None, t_toWalletId = None,
     t_fromAddress = None, t_fromIban = None, t_toAddress = None, t_toIban = None, t_referenceNo = None,
     t_batchId = Some ''B1'', t_grossIn = None, t_grossOut = None, t_history = HNull, t_completedAt = None\<rparr>"

definition twice_world :: world where
  "twice_world = demo_world\<lparr>db := empty_db\<lparr>batches := [fee_batch], transfers := [paid_twice ''T1'', paid_twice ''T2'']\<rparr>\<rparr>"

theorem batch_success_iff_ledgers_closed_witness:
  "(\<exists>r w'. recomputeBatch ''B1'' True batch_world = (Inr r, w') \<and> b_status r = ''SUCCESS'')
   \<and> (\<exists>r w'. recomputeBatch ''B1'' True twice_world = (Inr r, w') \<and> b_status r = ''PROCESSING'')"
proof
  show "\<exists>r w'. recomputeBatch ''B1'' True batch_world = (Inr r, w') \<and> b_status r = ''SUCCESS''"
    using batch_success_iff_ledgers_closed[of "''B1''" batch_world fee_batch True]
    by (auto simp: batch_world_def demo_world_def empty_db_def find_batch_def by_id_def fee_batch_def
        batch_transfers_def batch_outstandings_def batch_accruals_def owed_def)
  show "\<exists>r w'. recomputeBatch ''B1'' True twice_world = (Inr r, w') \<and> b_status r = ''PROCESSING''"
    using batch_success_iff_ledgers_closed[of "''B1''" twice_world fee_batch True]
    by (auto simp: twice_world_def demo_world_def empty_db_def find_batch_def by_id_def fee_batch_def
        batch_transfers_def paid_twice_def)
qed

definition paid_swap :: swap where
  "paid_swap = \<lparr>sw_id = ''S1'', sw_no = ''SWP1'', sw_quoteId = None, sw_quoteNo = None, sw_ownerType = ''CUSTOMER'',
     sw_ownerId = ''C1'', sw_ownerNo = None, sw_status = ''SUCCESS'', sw_stage = None, sw_needsReview = False,
     sw_fromAssetId = ''AED'', sw_fromAssetCode = None, sw_fromAmount = 10, sw_toAssetId = ''USDT'',
     sw_toAssetCode = None, sw_toAmount = 2, sw_netToAmount = None, sw_feeAmount = Some 1, sw_feeCurrency = None,
     sw_feeBreakdown = None, sw_exchangeRate = 5, sw_spreadAmount = None, sw_traceId = None, sw_completedAt = None,
     sw_history = HNull\<rparr>"

definition fee_world :: world where
  "fee_world = demo_world\<lparr>db := empty_db\<lparr>assets := [usdt], swaps := [paid_swap]\<rparr>\<rparr>"

theorem accruing_twice_is_once_witness:
  "\<exists>w'. accrueForSwap ''S1'' fee_world = (Inr (), w') \<and> accrueForSwap ''S1'' w' = (Inr (), w')
     \<and> map fa_amount (accruals (db w')) = [1]"
proof -
  have swap: "by_id sw_id ''S1'' (swaps (db fee_world)) = Some paid_swap"
    by (simp add: fee_world_def demo_world_def by_id_def paid_swap_def)
  have first: "wp (accrue inp) Q (\<lambda>_ _. False) w"
    if "accruals (db w) = []" "0 < ac_amount inp" "\<And>v. map fa_amount (accruals (db v)) = [ac_amount inp] \<Longrightarrow> Q () v"
    for inp Q w
    using that unfolding accrue_def createAccrual_def existing_accrual_def
    by (simp, subst try_accrual.simps) (simp add: wp_insert_accrual accrual_row_def)
  have none: "wp (accrue inp) Q E w = Q () w" if "ac_amount inp = 0" for inp Q E w
    using that by (simp add: accrue_def)
  have amounts: "ac_amount (swap_accrual paid_swap c k x) = x" for c k x
    by (simp add: swap_accrual_def)
  have fees: "sw_feeAmount paid_swap = Some 1" "sw_spreadAmount paid_swap = None"
    by (simp_all add: paid_swap_def)
  have empty: "accruals (db fee_world) = []"
    by (simp add: fee_world_def demo_world_def empty_db_def)
  have "wp (accrueForSwap ''S1'') (\<lambda>_ v. map fa_amount (accruals (db v)) = [1]) (\<lambda>_ _. False) fee_world"
    unfolding accrueForSwap_def wp_bind wp_getsDb swap option.case wp_andThen
    by (rule first) (simp_all add: empty amounts fees default_of_def none)

  from wp_returns[OF this] obtain w' where w': "accrueForSwap ''S1'' fee_world = (Inr (), w')" "map fa_amount (accruals (db w')) = [1]"
    by auto
  show ?thesis
    using w' conjunct2[OF accruing_twice_is_once[OF swap w'(1)]] by (intro exI conjI)
qed

end
