(* ===== verification/ReconSchema.thy ===== *)
theory ReconSchema
  imports LedgerCodes
begin

text \<open>
  The tables of the reconciliation (src/prisma/schema.prisma): the balances and statement lines ingested from
  banks and custodians, the runs of the engine, its cases and their line items.  The engine only reads the rest of
  the database.  An account flow is named by its unique key (transfer, account) instead of its uuid.
\<close>

record external_balance =
  xb_accountRef :: string
  xb_currency :: string
  xb_book :: string
  xb_cutoffDate :: string
  xb_closing :: rat
  xb_walletRef :: "string option"

record external_line =
  xl_id :: string
  xl_source :: string
  xl_accountRef :: string
  xl_subAccount :: "string option"
  xl_book :: string
  xl_currency :: string
  xl_direction :: string
  xl_amount :: rat
  xl_externalRef :: "string option"
  xl_channelRef :: "string option"
  xl_datetime :: int
  xl_description :: "string option"

record recon_run =
  rr_id :: string
  rr_no :: string
  rr_businessDate :: string
  rr_layer :: string
  rr_seq :: nat
  rr_triggerType :: string
  rr_mode :: string
  rr_status :: string
  rr_invariantStatus :: string
  rr_opened :: nat
  rr_reObserved :: nat
  rr_closed :: nat
  rr_traceId :: "string option"
  rr_completedAt :: "int option"
  rr_manifest :: "string option"

record recon_case =
  rc_id :: string
  rc_no :: string
  rc_businessDate :: string
  rc_assetId :: string
  rc_assetCode :: string
  rc_layer :: string
  rc_book :: "string option"
  rc_tbAmount :: rat
  rc_inTransit :: rat
  rc_expected :: rat
  rc_actual :: rat
  rc_delta :: rat
  rc_status :: string
  rc_openedBy :: string
  rc_closedBy :: "string option"
  rc_lastObserved :: "string option"
  rc_traceId :: "string option"
  rc_walletRef :: "string option"
  rc_coaCode :: "string option"
  rc_ownerNo :: "string option"
  rc_firstSeen :: "string option"
  rc_lastUpdated :: "string option"
  rc_resolvedAt :: "int option"
  rc_resolution :: "string option"
  rc_severity :: "string option"

record recon_item =
  ri_caseId :: string
  ri_foundBy :: string
  ri_lineNo :: nat
  ri_matchStatus :: string
  ri_internalSource :: "(string \<times> string) option"
  ri_internalAmount :: "rat option"
  ri_internalDirection :: "string option"
  ri_externalTxId :: "string option"
  ri_externalAmount :: "rat option"
  ri_externalDirection :: "string option"
  ri_externalRef :: "string option"
  ri_walletRef :: "string option"

text \<open>An account as TigerBeetle's lookup returns it.\<close>

record tb_account_view =
  ta_id :: int
  ta_code :: nat
  ta_debits :: int
  ta_credits :: int

text \<open>The state of the engine; \<open>base\<close> are the tables it reads, \<open>lookup\<close> the answer of
  \<open>lookupAccounts\<close> (none when the call throws).\<close>

record recon =
  base :: db
  xbalances :: "external_balance list"
  xlines :: "external_line list"
  runs :: "recon_run list"
  cases :: "recon_case list"
  items :: "recon_item list"
  rclock :: int
  ruuid_src :: "nat \<Rightarrow> string"
  ruuid_pos :: nat
  lookup :: "int list \<Rightarrow> tb_account_view list option"

type_synonym 'a rop = "(recon, 'a) cmd"

end
