(* ===== verification/Pairing.thy ===== *)
theory Pairing
  imports Prelude "HOL-Library.Multiset" "HOL-Library.Sublist"
begin

text \<open>
  The greedy one-to-one matching that the reconciliation engines share.  A pass visits the internal
  items in order; each item either takes external lines that are still free and fit it, or finds that no free line
  fits.  The locale \<open>pairing\<close> states this contract of one visit; its lemmas say what a pass then guarantees:
  every item and every line ends in exactly one place, and no item left over fits a line left over.  The engines
  interpret it on the bodies of their loops.
\<close>

section \<open>Consuming the members of a list\<close>

text \<open>\<open>used\<close> are the keys taken so far, \<open>taken\<close> the keys in the results: together with what is still
  free they are the whole list.\<close>

definition accounted :: "('x \<Rightarrow> 'k) \<Rightarrow> 'x list \<Rightarrow> 'k set \<Rightarrow> 'k multiset \<Rightarrow> bool" where
  "accounted key all used taken \<longleftrightarrow>
     taken + mset (map key (filter (\<lambda>x. key x \<notin> used) all)) = mset (map key all)"

lemma accounted_start: "accounted key all {} {#}"
  by (simp add: accounted_def)

lemma accounted_rest:
  "accounted key all used taken \<Longrightarrow> taken + mset (map key (filter (\<lambda>x. key x \<notin> used) all)) = mset (map key all)"
  by (simp add: accounted_def)

lemma subseq_set: "subseq xs ys \<Longrightarrow> set xs \<subseteq> set ys"
  by (induction rule: list_emb.induct) auto

lemma free_split:
  assumes "subseq xs all" "distinct (map key all)" "key ` set xs \<inter> used = {}"
  shows "mset (map key (filter (\<lambda>x. key x \<notin> used) all)) =
    mset (map key xs) + mset (map key (filter (\<lambda>x. key x \<notin> key ` set xs \<union> used) all))"
  using assms
proof (induction xs all rule: list_emb.induct)
  case (list_emb_Cons xs ys y)
  have "set xs \<subseteq> set ys"
    using list_emb_Cons.hyps by (rule subseq_set)
  then have "key y \<notin> key ` set xs"
    using list_emb_Cons.prems(1) by auto
  then show ?case
    using list_emb_Cons by simp
next
  case (list_emb_Cons2 x y xs ys)
  have "filter (\<lambda>z. key z \<notin> key ` set (x # xs) \<union> used) ys = filter (\<lambda>z. key z \<notin> key ` set xs \<union> used) ys"
    using list_emb_Cons2.prems(1) list_emb_Cons2.hyps by (intro filter_cong) (auto simp: image_iff)
  then show ?case
    using list_emb_Cons2 by auto
qed simp

lemma accounted_take:
  assumes "accounted key all used taken" "distinct (map key all)" "subseq xs all" "key ` set xs \<inter> used = {}"
  shows "accounted key all (key ` set xs \<union> used) (taken + mset (map key xs))"
  using assms(1) unfolding accounted_def free_split[OF assms(3,2,4)] by (simp only: add.assoc)

lemma accounted_take1:
  assumes "accounted key all used taken" "distinct (map key all)" "x \<in> set all" "key x \<notin> used"
  shows "accounted key all (insert (key x) used) (add_mset (key x) taken)"
  using accounted_take[OF assms(1,2), of "[x]"] assms(3,4) by (simp add: subseq_singleton_left)

lemma still_fresh: "U' \<subseteq> insert k U \<Longrightarrow> k \<notin> A \<Longrightarrow> A \<inter> U = {} \<Longrightarrow> A \<inter> U' = {}"
  by blast

lemma foldl_keeps:
  assumes "\<And>s x. x \<in> set xs \<Longrightarrow> P s \<Longrightarrow> P (f s x)" "P s"
  shows "P (foldl f s xs)"
  using assms by (induction xs arbitrary: s) auto

section \<open>One pass\<close>

locale pairing =
  fixes step :: "'s \<Rightarrow> 'i \<Rightarrow> 's"
    and pairs :: "'s \<Rightarrow> ('k \<times> 'j list) multiset"
    and used_int :: "'s \<Rightarrow> 'k set"
    and used_ext :: "'s \<Rightarrow> 'j set"
    and ikey :: "'i \<Rightarrow> 'k"
    and ekey :: "'e \<Rightarrow> 'j"
    and lines :: "'e list"
    and fits :: "'i \<Rightarrow> 'e \<Rightarrow> bool"
  assumes visit: "ikey i \<notin> used_int s \<Longrightarrow>
      step s i = s \<and> (\<forall>e\<in>set lines. ekey e \<notin> used_ext s \<longrightarrow> \<not> fits i e)
    \<or> (\<exists>es. subseq es lines \<and> es \<noteq> [] \<and> (\<forall>e\<in>set es. ekey e \<notin> used_ext s \<and> fits i e)
         \<and> pairs (step s i) = add_mset (ikey i, map ekey es) (pairs s)
         \<and> used_int (step s i) = insert (ikey i) (used_int s)
         \<and> used_ext (step s i) = ekey ` set es \<union> used_ext s)"
begin

lemma grows:
  assumes "ikey i \<notin> used_int s"
  shows "used_int s \<subseteq> used_int (step s i)" "used_ext s \<subseteq> used_ext (step s i)"
    "used_int (step s i) \<subseteq> insert (ikey i) (used_int s)"
  using visit[OF assms] by auto

lemma exhausted:
  assumes "ikey i \<notin> used_int s" "ikey i \<notin> used_int (step s i)" "e \<in> set lines" "ekey e \<notin> used_ext (step s i)"
  shows "\<not> fits i e"
  using visit[OF assms(1)] assms(2-4) by auto

text \<open>\<open>ext_of\<close> of the results: the keys of all lines taken.\<close>

lemma visit_accounted:
  assumes "ikey i \<notin> used_int s" "i \<in> set all" "distinct (map ikey all)" "distinct (map ekey lines)"
    and "accounted ikey all (used_int s) (image_mset fst (pairs s))"
    and "accounted ekey lines (used_ext s) (\<Sum>p\<in>#pairs s. mset (snd p))"
  shows "accounted ikey all (used_int (step s i)) (image_mset fst (pairs (step s i)))
       \<and> accounted ekey lines (used_ext (step s i)) (\<Sum>p\<in>#pairs (step s i). mset (snd p))"
proof -
  consider (none) "step s i = s"
    | (some) es where "subseq es lines" "\<forall>e\<in>set es. ekey e \<notin> used_ext s"
        "pairs (step s i) = add_mset (ikey i, map ekey es) (pairs s)"
        "used_int (step s i) = insert (ikey i) (used_int s)"
        "used_ext (step s i) = ekey ` set es \<union> used_ext s"
    using visit[OF assms(1)] by auto
  then show ?thesis
  proof cases
    case none
    then show ?thesis
      using assms by simp
  next
    case some
    have "accounted ikey all (used_int (step s i)) (image_mset fst (pairs (step s i)))"
      using accounted_take1[OF assms(5,3,2,1)] some by simp
    moreover have "accounted ekey lines (used_ext (step s i)) (\<Sum>p\<in>#pairs (step s i). mset (snd p))"
      using accounted_take[OF assms(6,4) some(1)] some by (auto simp: add.commute)
    ultimately show ?thesis
      by simp
  qed
qed

end

text \<open>Both sides are accounted for.\<close>

definition settled :: "('i \<Rightarrow> 'k) \<Rightarrow> ('e \<Rightarrow> 'j) \<Rightarrow> 'i list \<Rightarrow> 'e list \<Rightarrow> 'k set \<Rightarrow> 'j set \<Rightarrow> ('k \<times> 'j list) multiset \<Rightarrow> bool" where
  "settled ikey ekey all ls ui ue ps \<longleftrightarrow>
     distinct (map ikey all) \<and> distinct (map ekey ls) \<and> accounted ikey all ui (image_mset fst ps)
       \<and> accounted ekey ls ue (\<Sum>p\<in>#ps. mset (snd p))"

text \<open>No item of \<open>xs\<close> that is left over fits a line left over.\<close>

definition no_missed :: "('i \<Rightarrow> 'k) \<Rightarrow> ('e \<Rightarrow> 'j) \<Rightarrow> ('i \<Rightarrow> 'e \<Rightarrow> bool) \<Rightarrow> 'i list \<Rightarrow> 'e list \<Rightarrow> 'k set \<Rightarrow> 'j set \<Rightarrow> bool" where
  "no_missed ikey ekey fits xs ls ui ue \<longleftrightarrow>
     (\<forall>i\<in>set xs. ikey i \<notin> ui \<longrightarrow> (\<forall>e\<in>set ls. ekey e \<notin> ue \<longrightarrow> \<not> fits i e))"

lemma no_missed_mono:
  "no_missed ikey ekey fits xs ls ui ue \<Longrightarrow> ui \<subseteq> ui' \<Longrightarrow> ue \<subseteq> ue' \<Longrightarrow> no_missed ikey ekey fits xs ls ui' ue'"
  unfolding no_missed_def by blast

context pairing begin

text \<open>A pass over fresh items: none of them was taken before, and each is visited once.\<close>

lemma fresh_grows:
  assumes "distinct (map ikey xs)" "ikey ` set xs \<inter> used_int s = {}"
  shows "used_int s \<subseteq> used_int (foldl step s xs) \<and> used_ext s \<subseteq> used_ext (foldl step s xs)"
  using assms
proof (induction xs arbitrary: s)
  case (Cons x xs)
  have fresh: "ikey x \<notin> used_int s"
    using Cons.prems(2) by auto
  have rest: "distinct (map ikey xs)" "ikey ` set xs \<inter> used_int (step s x) = {}"
    using Cons.prems(1) by simp (rule still_fresh[OF grows(3)[OF fresh]], use Cons.prems in auto)
  show ?case
    using Cons.IH[OF rest] grows(1,2)[OF fresh] by auto
qed simp

lemma fresh_pass:
  assumes "distinct (map ikey xs)" "ikey ` set xs \<inter> used_int s = {}" "set xs \<subseteq> set all"
    "settled ikey ekey all lines (used_int s) (used_ext s) (pairs s)"
  shows "settled ikey ekey all lines (used_int (foldl step s xs)) (used_ext (foldl step s xs)) (pairs (foldl step s xs))
       \<and> no_missed ikey ekey fits xs lines (used_int (foldl step s xs)) (used_ext (foldl step s xs))"
  using assms
proof (induction xs arbitrary: s)
  case (Cons x xs)
  have fresh: "ikey x \<notin> used_int s"
    using Cons.prems(2) by auto
  have rest: "distinct (map ikey xs)" "ikey ` set xs \<inter> used_int (step s x) = {}"
    using Cons.prems(1) by simp (rule still_fresh[OF grows(3)[OF fresh]], use Cons.prems in auto)
  have "settled ikey ekey all lines (used_int (step s x)) (used_ext (step s x)) (pairs (step s x))"
    using visit_accounted[OF fresh, of all] Cons.prems by (simp add: settled_def)
  note ih = Cons.IH[OF rest _ this]
  have "\<not> fits x e" if "ikey x \<notin> used_int (foldl step s (x # xs))" "e \<in> set lines"
      "ekey e \<notin> used_ext (foldl step s (x # xs))" for e
    using exhausted[OF fresh _ that(2)] fresh_grows[OF rest] that by auto
  then show ?case
    using ih Cons.prems(3) by (auto simp: no_missed_def)
qed (simp add: no_missed_def)

text \<open>A pass that skips the items taken before is a pass over the others.\<close>

lemma skipping:
  assumes "\<And>s i. ikey i \<in> used_int s \<Longrightarrow> step s i = s" "distinct (map ikey xs)"
  shows "foldl step s xs = foldl step s (filter (\<lambda>i. ikey i \<notin> used_int s) xs)"
  using assms(2)
proof (induction xs arbitrary: s)
  case (Cons x xs)
  show ?case
  proof (cases "ikey x \<in> used_int s")
    case True
    then show ?thesis
      using Cons by (simp add: assms(1))
  next
    case False
    have "used_int s \<subseteq> used_int (step s x)" "used_int (step s x) \<subseteq> insert (ikey x) (used_int s)"
      using grows[OF False] by auto
    moreover have "ikey i \<noteq> ikey x" if "i \<in> set xs" for i
      using Cons.prems that by (auto simp: image_iff)
    ultimately have "filter (\<lambda>i. ikey i \<notin> used_int (step s x)) xs = filter (\<lambda>i. ikey i \<notin> used_int s) xs"
      by (intro filter_cong HOL.refl) blast
    then show ?thesis
      using Cons False by simp
  qed
qed simp

lemma skipping_pass:
  assumes "\<And>s i. ikey i \<in> used_int s \<Longrightarrow> step s i = s" "distinct (map ikey xs)" "set xs \<subseteq> set all"
    "settled ikey ekey all lines (used_int s) (used_ext s) (pairs s)"
  shows "settled ikey ekey all lines (used_int (foldl step s xs)) (used_ext (foldl step s xs)) (pairs (foldl step s xs))
       \<and> no_missed ikey ekey fits xs lines (used_int (foldl step s xs)) (used_ext (foldl step s xs))
       \<and> used_int s \<subseteq> used_int (foldl step s xs) \<and> used_ext s \<subseteq> used_ext (foldl step s xs)"
proof -
  let ?ys = "filter (\<lambda>i. ikey i \<notin> used_int s) xs"
  have ys: "distinct (map ikey ?ys)" "ikey ` set ?ys \<inter> used_int s = {}" "set ?ys \<subseteq> set all"
    using assms(2,3) by (auto simp: distinct_map inj_on_def)
  have "foldl step s xs = foldl step s ?ys"
    by (rule skipping[OF assms(1,2)])
  then show ?thesis
    using fresh_pass[OF ys assms(4)] fresh_grows[OF ys(1,2)]
    by (auto simp: no_missed_def)
qed

end

end
