(* ===== verification/FlowMatching.thy ===== *)
theory FlowMatching
  imports ReconSchema Evidence Pairing Grouping
begin

text \<open>
  The per-wallet engine of the reconciliation (src/src/modules/clearing-settle/reconciliation/engine/v2):
  the matcher pairs the posted, externally crossing flows of a wallet with the lines of its statement, the
  balance checker compares the sum of the wallet's flows with the closing balance of the statement.
\<close>

section \<open>Flow matcher\<close>

definition OWNED_CODES :: "nat list" where
  "OWNED_CODES = map TB_ACCOUNT_CODES [CLIENT_PAYABLE, DEPOSIT_SUSPENSE, FIRM_OPS, FIRM_SET, FIRM_FEE, FIRM_LIQ]"

record statement_line =
  sl_id :: string
  sl_direction :: string
  sl_amount :: rat
  sl_externalRef :: "string option"
  sl_datetime :: int

datatype match_via = Via_ref | Via_fuzzy

record matched_pair =
  mp_flow :: "string \<times> string"
  mp_line :: string
  mp_via :: match_via

record amount_mismatch =
  mm_flow :: "string \<times> string"
  mm_line :: string
  mm_internal :: rat
  mm_external :: rat
  mm_ref :: string

record orphan_internal =
  oi_flow :: "string \<times> string"
  oi_eventCode :: string
  oi_amount :: rat
  oi_direction :: string
  oi_externalRef :: "string option"

record orphan_external =
  oe_line :: string
  oe_amount :: rat
  oe_direction :: string
  oe_externalRef :: "string option"

record matcher_result =
  mr_matched :: "matched_pair list"
  mr_orphanInternal :: "orphan_internal list"
  mr_orphanExternal :: "orphan_external list"
  mr_mismatch :: "amount_mismatch list"

text \<open>The rows of the query, and those of them on an account the wallet owns: the registry is joined on the padded id.\<close>

definition crossing_flows :: "string \<Rightarrow> int \<Rightarrow> db \<Rightarrow> account_flow list" where
  "crossing_flows walletRef cutoff d =
     filter (\<lambda>f. fl_walletRef f = Some walletRef \<and> fl_crossing f \<and> fl_transferType f = ''POSTED''
       \<and> fl_createdAt f \<le> cutoff) (flows d)"

definition owned_flow :: "db \<Rightarrow> account_flow \<Rightarrow> bool" where
  "owned_flow d f = (case reg_of d (fl_accountId f) of None \<Rightarrow> False | Some r \<Rightarrow> r_code r \<in> set OWNED_CODES)"

text \<open>The state of the two loops: the results so far and the ids they resolved.\<close>

record match_state =
  ms_matched :: "matched_pair list"
  ms_mismatch :: "amount_mismatch list"
  ms_usedInternal :: "(string \<times> string) set"
  ms_usedExternal :: "string set"

text \<open>\<open>externalByRef\<close>: the lines with a reference, grouped by it.\<close>

definition externalByRef :: "statement_line list \<Rightarrow> string \<Rightarrow> statement_line list" where
  "externalByRef ls = foldl (\<lambda>m e. if truthy (sl_externalRef e)
     then m(the (sl_externalRef e) := m (the (sl_externalRef e)) @ [e]) else m) (\<lambda>_. []) ls"

definition resolve :: "account_flow \<Rightarrow> statement_line \<Rightarrow> match_state \<Rightarrow> match_state" where
  "resolve f e s = s\<lparr>ms_usedInternal := insert (flow_key f) (ms_usedInternal s),
     ms_usedExternal := insert (sl_id e) (ms_usedExternal s)\<rparr>"

definition add_matched :: "account_flow \<Rightarrow> statement_line \<Rightarrow> match_via \<Rightarrow> match_state \<Rightarrow> match_state" where
  "add_matched f e via s =
     s\<lparr>ms_matched := ms_matched s @ [\<lparr>mp_flow = flow_key f, mp_line = sl_id e, mp_via = via\<rparr>]\<rparr>"

text \<open>The body of the first loop: the first unused line with the flow's reference and direction.\<close>

definition match_ref :: "statement_line list \<Rightarrow> match_state \<Rightarrow> account_flow \<Rightarrow> match_state" where
  "match_ref ls s f =
     (if \<not> truthy (fl_externalRef f) then s
      else (case find (\<lambda>c. sl_id c \<notin> ms_usedExternal s \<and> sl_direction c = fl_direction f)
                   (externalByRef ls (the (fl_externalRef f))) of
        None \<Rightarrow> s
      | Some e \<Rightarrow> resolve f e
          (if fl_amount f = sl_amount e then add_matched f e Via_ref s
           else s\<lparr>ms_mismatch := ms_mismatch s @ [\<lparr>mm_flow = flow_key f, mm_line = sl_id e,
                  mm_internal = fl_amount f, mm_external = sl_amount e, mm_ref = the (fl_externalRef f)\<rparr>]\<rparr>)))"

text \<open>The body of the second: the first unused line of equal direction and amount within the window.\<close>

definition match_fuzzy :: "int \<Rightarrow> statement_line list \<Rightarrow> match_state \<Rightarrow> account_flow \<Rightarrow> match_state" where
  "match_fuzzy windowMs ls s f =
     (if flow_key f \<in> ms_usedInternal s then s
      else (case find (\<lambda>e. sl_id e \<notin> ms_usedExternal s \<and> sl_direction e = fl_direction f
                     \<and> fl_amount f = sl_amount e \<and> \<not> windowMs < \<bar>sl_datetime e - fl_createdAt f\<bar>) ls of
        None \<Rightarrow> s
      | Some e \<Rightarrow> resolve f e (add_matched f e Via_fuzzy s)))"

definition match_passes :: "int \<Rightarrow> account_flow list \<Rightarrow> statement_line list \<Rightarrow> match_state" where
  "match_passes windowMs internal ls =
     foldl (match_fuzzy windowMs ls)
       (foldl (match_ref ls) \<lparr>ms_matched = [], ms_mismatch = [], ms_usedInternal = {}, ms_usedExternal = {}\<rparr> internal)
       internal"

definition matcher_output :: "account_flow list \<Rightarrow> statement_line list \<Rightarrow> match_state \<Rightarrow> matcher_result" where
  "matcher_output internal ls s =
     \<lparr>mr_matched = ms_matched s,
      mr_orphanInternal = map (\<lambda>f. \<lparr>oi_flow = flow_key f, oi_eventCode = fl_eventCode f, oi_amount = fl_amount f,
          oi_direction = fl_direction f, oi_externalRef = fl_externalRef f\<rparr>)
        (filter (\<lambda>f. flow_key f \<notin> ms_usedInternal s) internal),
      mr_orphanExternal = map (\<lambda>e. \<lparr>oe_line = sl_id e, oe_amount = sl_amount e,
          oe_direction = sl_direction e, oe_externalRef = sl_externalRef e\<rparr>)
        (filter (\<lambda>e. sl_id e \<notin> ms_usedExternal s) ls),
      mr_mismatch = ms_mismatch s\<rparr>"

definition matcher_internal :: "string \<Rightarrow> int \<Rightarrow> db \<Rightarrow> account_flow list" where
  "matcher_internal walletRef cutoff d = filter (owned_flow d) (crossing_flows walletRef cutoff d)"

text \<open>The window is given in minutes and defaults to 60.\<close>

definition matchFlows :: "string \<Rightarrow> statement_line list \<Rightarrow> int \<Rightarrow> int option \<Rightarrow> db \<Rightarrow> matcher_result" where
  "matchFlows walletRef ls cutoff timeWindowMinutes d =
     (let windowMs = (case timeWindowMinutes of None \<Rightarrow> 60 | Some m \<Rightarrow> m) * 60 * 1000;
          internal = matcher_internal walletRef cutoff d
      in matcher_output internal ls (match_passes windowMs internal ls))"

section \<open>Balance checker\<close>

definition CUSTOMER_CODES :: "nat list" where
  "CUSTOMER_CODES = map TB_ACCOUNT_CODES [CLIENT_PAYABLE, DEPOSIT_SUSPENSE]"

definition FIRM_CODES :: "nat list" where
  "FIRM_CODES = map TB_ACCOUNT_CODES [FIRM_OPS, FIRM_SET, FIRM_FEE, FIRM_LIQ]"

definition AGGREGATE_CODES :: "nat list" where
  "AGGREGATE_CODES = map TB_ACCOUNT_CODES [CLIENT_ASSET, FIRM_ASSET]"

datatype WalletKind = CUSTOMER | FIRM | UNKNOWN

record balance_check =
  bk_pass :: bool
  bk_walletRef :: string
  bk_kind :: WalletKind
  bk_coaCode :: string
  bk_ownerNo :: "string option"
  bk_payable :: "int option"
  bk_suspense :: "int option"
  bk_firmEquity :: "int option"
  bk_total :: int
  bk_external :: int
  bk_delta :: int

text \<open>\<open>BigInt(x.toString())\<close> of a Decimal: a fraction has a point, and an amount of 22 digits or more prints in
  exponent notation; both are a SyntaxError.\<close>

definition bigint_of :: "rat \<Rightarrow> int option" where
  "bigint_of x = (if of_int \<lfloor>x\<rfloor> = x \<and> \<bar>x\<bar> < 10 ^ 21 then Some \<lfloor>x\<rfloor> else None)"

text \<open>The accumulators of the loop over the flows; the balances are a \<open>Map\<close> in order of first insertion.\<close>

record balance_acc =
  ba_balances :: "(string \<times> int) list"
  ba_seen :: "nat set"
  ba_ownerNo :: "string option"

definition posted_flows :: "string \<Rightarrow> int \<Rightarrow> db \<Rightarrow> account_flow list" where
  "posted_flows walletRef cutoff d =
     filter (\<lambda>f. fl_walletRef f = Some walletRef \<and> fl_transferType f = ''POSTED'' \<and> fl_createdAt f \<le> cutoff)
       (flows d)"

definition add_flow :: "db \<Rightarrow> balance_acc \<Rightarrow> account_flow \<Rightarrow> ('s, balance_acc) cmd" where
  "add_flow d acc f =
     (case find_tb_account (fl_accountId f) d of
        None \<Rightarrow> ret acc
      | Some r \<Rightarrow>
          if r_code r \<in> set AGGREGATE_CODES then ret acc
          else bind (need (bigint_of (fl_amount f)) (SyntaxError ''BigInt'')) (\<lambda>amt.
            let signed = (if fl_direction f = ''IN'' then amt else - amt)
            in ret \<lparr>ba_balances = upsert fst (fl_accountId f) (fl_accountId f, signed)
                      (\<lambda>b. (fst b, snd b + signed)) (ba_balances acc),
                    ba_seen = insert (r_code r) (ba_seen acc),
                    ba_ownerNo = (if \<not> truthy (ba_ownerNo acc) \<and> truthy (r_ownerNo r) then r_ownerNo r
                                  else ba_ownerNo acc)\<rparr>))"

text \<open>The sum of the balances of the accounts whose registry code is one of the given.\<close>

definition sum_of_codes :: "db \<Rightarrow> nat list \<Rightarrow> (string \<times> int) list \<Rightarrow> int" where
  "sum_of_codes d codes bals = (\<Sum>b\<leftarrow>bals. case find_tb_account (fst b) d of None \<Rightarrow> 0
     | Some r \<Rightarrow> if r_code r \<in> set codes then snd b else 0)"

definition first_firm_code :: "db \<Rightarrow> (string \<times> int) list \<Rightarrow> nat option" where
  "first_firm_code d bals = (case List.map_filter (\<lambda>b. case find_tb_account (fst b) d of None \<Rightarrow> None
     | Some r \<Rightarrow> if r_code r \<in> set FIRM_CODES then Some (r_code r) else None) bals of
       [] \<Rightarrow> None | c # _ \<Rightarrow> Some c)"

definition customer_coa :: string where
  "customer_coa = coa_label CLIENT_PAYABLE @ ''+'' @ coa_label DEPOSIT_SUSPENSE"

definition conclude :: "string \<Rightarrow> int \<Rightarrow> db \<Rightarrow> balance_acc \<Rightarrow> balance_check" where
  "conclude walletRef externalClosing d acc =
     (let blank = \<lparr>bk_pass = (externalClosing = 0), bk_walletRef = walletRef, bk_kind = UNKNOWN, bk_coaCode = '''',
            bk_ownerNo = None, bk_payable = None, bk_suspense = None, bk_firmEquity = None, bk_total = 0,
            bk_external = externalClosing, bk_delta = externalClosing\<rparr>
      in if \<exists>c\<in>ba_seen acc. c \<in> set CUSTOMER_CODES then
           (let payable = sum_of_codes d [TB_ACCOUNT_CODES CLIENT_PAYABLE] (ba_balances acc);
                suspense = sum_of_codes d [TB_ACCOUNT_CODES DEPOSIT_SUSPENSE] (ba_balances acc);
                delta = externalClosing - (payable + suspense)
            in blank\<lparr>bk_pass := (delta = 0), bk_kind := CUSTOMER, bk_coaCode := customer_coa,
                 bk_ownerNo := ba_ownerNo acc, bk_payable := Some payable, bk_suspense := Some suspense,
                 bk_total := payable + suspense, bk_delta := delta\<rparr>)
         else if \<exists>c\<in>ba_seen acc. c \<in> set FIRM_CODES then
           (let firmEquity = sum_of_codes d FIRM_CODES (ba_balances acc);
                delta = externalClosing - firmEquity
            in blank\<lparr>bk_pass := (delta = 0), bk_kind := FIRM,
                 bk_coaCode := (case first_firm_code d (ba_balances acc) of None \<Rightarrow> ''''
                                | Some c \<Rightarrow> (case TB_CODE_TO_COA c of None \<Rightarrow> '''' | Some l \<Rightarrow> l)),
                 bk_ownerNo := ba_ownerNo acc, bk_firmEquity := Some firmEquity,
                 bk_total := firmEquity, bk_delta := delta\<rparr>)
         else blank)"

definition checkBalance :: "string \<Rightarrow> int \<Rightarrow> int \<Rightarrow> db \<Rightarrow> ('s, balance_check) cmd" where
  "checkBalance walletRef externalClosing cutoff d =
     bind (foldC (add_flow d) \<lparr>ba_balances = [], ba_seen = {}, ba_ownerNo = None\<rparr> (posted_flows walletRef cutoff d))
       (\<lambda>acc. ret (conclude walletRef externalClosing d acc))"

end
