(* ===== verification/WalletRecon.thy ===== *)
theory WalletRecon
  imports FlowMatching
begin

text \<open>
  The reconciliation run (src/src/modules/clearing-settle/reconciliation/workflow/wallet-recon-run.service.ts):
  a run row, the identity check of the ledger as a gate, then for every wallet with an external balance the
  balance check and the flow match, one case with line items per breaking wallet, and the automatic closing of
  the cases of wallets that did not break.  Nothing of a run is a transaction.
\<close>

section \<open>Dates\<close>

text \<open>\<open>toISOString().slice(0, 10)\<close>: the civil date of a time in milliseconds, counted in eras of 400 years from
  March 1st of year 0.\<close>

definition civil :: "int \<Rightarrow> int \<times> int \<times> int" where
  "civil t =
     (let z = t div 86400000 + 719468;
          era = z div 146097;
          doe = z mod 146097;
          yoe = (doe - doe div 1460 + doe div 36524 - doe div 146096) div 365;
          doy = doe - (365 * yoe + yoe div 4 - yoe div 100);
          mp = (5 * doy + 2) div 153;
          m = (if mp < 10 then mp + 3 else mp - 9)
      in (yoe + era * 400 + (if m \<le> 2 then 1 else 0), m, doy - (153 * mp + 2) div 5 + 1))"

definition int_padded :: "nat \<Rightarrow> int \<Rightarrow> string" where
  "int_padded n k = pad_start n (CHR ''0'') (nat_str (nat k))"

definition toBusinessDate :: "int \<Rightarrow> string" where
  "toBusinessDate t = (case civil t of (y, m, d) \<Rightarrow> take 10
     ((if 0 \<le> y \<and> y \<le> 9999 then int_padded 4 y
       else (if y < 0 then ''-'' else ''+'') @ int_padded 6 \<bar>y\<bar>)
      @ ''-'' @ int_padded 2 m @ ''-'' @ int_padded 2 d))"

definition compact :: "string \<Rightarrow> string" where
  "compact businessDate = filter (\<lambda>c. c \<noteq> CHR ''-'') businessDate"

section \<open>The run row\<close>

definition RUN_LAYER :: string where
  "RUN_LAYER = ''WALLET''"

definition draw_uuid :: "string rop" where
  "draw_uuid = (\<lambda>s. (Inr (ruuid_src s (ruuid_pos s)), s\<lparr>ruuid_pos := Suc (ruuid_pos s)\<rparr>))"

definition insert_run :: "recon_run \<Rightarrow> unit rop" where
  "insert_run r = bind (gets runs) (\<lambda>rs.
     if \<exists>x\<in>set rs. rr_no x = rr_no r then throw (UniqueConstraint ''runNo'')
     else if \<exists>x\<in>set rs. rr_id x = rr_id r then throw (UniqueConstraint ''id'')
     else modify (\<lambda>s. s\<lparr>runs := runs s @ [r]\<rparr>))"

definition createRun :: "string \<Rightarrow> string option \<Rightarrow> recon_run rop" where
  "createRun businessDate manifest =
     bind (gets (\<lambda>s. length (filter (\<lambda>r. rr_businessDate r = businessDate \<and> rr_layer r = RUN_LAYER) (runs s))))
       (\<lambda>prior. bind draw_uuid (\<lambda>trace. bind draw_uuid (\<lambda>rowId.
       let r = \<lparr>rr_id = rowId, rr_no = ''RUN'' @ compact businessDate @ ''-'' @ nat_str (prior + 1),
             rr_businessDate = businessDate, rr_layer = RUN_LAYER, rr_seq = prior + 1,
             rr_triggerType = ''MANUAL'', rr_mode = ''APPLY'', rr_status = ''RUNNING'',
             rr_invariantStatus = ''PASS'', rr_opened = 0, rr_reObserved = 0, rr_closed = 0,
             rr_traceId = Some trace, rr_completedAt = None, rr_manifest = manifest\<rparr>
       in andThen (insert_run r) (ret r))))"

datatype run_status = RUN_PASS | RUN_BREAK | RUN_INTERNAL_BREAK

definition finishRun :: "string \<Rightarrow> run_status \<Rightarrow> nat \<Rightarrow> nat \<Rightarrow> nat \<Rightarrow> unit rop" where
  "finishRun runId status opened reObserved healed =
     bind (gets (\<lambda>s. by_id rr_id runId (runs s))) (\<lambda>row.
       andThen (guard (row \<noteq> None) RecordNotFound)
         (modify (\<lambda>s. s\<lparr>runs := update_rows (\<lambda>r. rr_id r = runId)
            (\<lambda>r. r\<lparr>rr_status := ''COMPLETED'',
                   rr_invariantStatus := (if status = RUN_PASS then ''PASS'' else ''FAIL''),
                   rr_opened := opened, rr_reObserved := reObserved, rr_closed := healed,
                   rr_completedAt := Some (rclock s)\<rparr>) (runs s)\<rparr>)))"

section \<open>The identity of the ledger\<close>

record ledger_sums =
  ls_ledger :: nat
  ls_clientAsset :: int
  ls_clientLiab :: int
  ls_firmAsset :: int
  ls_firmEquity :: int

definition view_balance :: "tb_account_view \<Rightarrow> int" where
  "view_balance a = (if isAssetCode (ta_code a) then ta_debits a - ta_credits a else ta_credits a - ta_debits a)"

text \<open>The last account of an id wins, and an account the ledger does not know has balance 0.\<close>

definition balance_in :: "tb_account_view list \<Rightarrow> int \<Rightarrow> int" where
  "balance_in accounts i = (case find (\<lambda>a. ta_id a = i) (rev accounts) of None \<Rightarrow> 0 | Some a \<Rightarrow> view_balance a)"

definition add_balance :: "nat \<Rightarrow> int \<Rightarrow> ledger_sums \<Rightarrow> ledger_sums" where
  "add_balance code bal s =
     (if code = TB_ACCOUNT_CODES CLIENT_ASSET then s\<lparr>ls_clientAsset := ls_clientAsset s + bal\<rparr>
      else if code = TB_ACCOUNT_CODES CLIENT_PAYABLE \<or> code = TB_ACCOUNT_CODES DEPOSIT_SUSPENSE
        then s\<lparr>ls_clientLiab := ls_clientLiab s + bal\<rparr>
      else if code = TB_ACCOUNT_CODES FIRM_ASSET then s\<lparr>ls_firmAsset := ls_firmAsset s + bal\<rparr>
      else if code = TB_ACCOUNT_CODES FIRM_OPS \<or> code = TB_ACCOUNT_CODES FIRM_SET
           \<or> code = TB_ACCOUNT_CODES FIRM_FEE \<or> code = TB_ACCOUNT_CODES FIRM_LIQ
        then s\<lparr>ls_firmEquity := ls_firmEquity s + bal\<rparr>
      else s)"

definition ledger_zero :: "nat \<Rightarrow> ledger_sums" where
  "ledger_zero l = \<lparr>ls_ledger = l, ls_clientAsset = 0, ls_clientLiab = 0, ls_firmAsset = 0, ls_firmEquity = 0\<rparr>"

definition account_balance :: "tb_account_view list \<Rightarrow> tb_account \<Rightarrow> int" where
  "account_balance accounts r = balance_in accounts (the (hexToBigint (r_id r)))"

definition ledger_table :: "tb_account_view list \<Rightarrow> tb_account list \<Rightarrow> ledger_sums list" where
  "ledger_table accounts regs =
     group_rows ls_ledger r_ledger
       (\<lambda>r. add_balance (r_code r) (account_balance accounts r) (ledger_zero (r_ledger r)))
       (\<lambda>s r. add_balance (r_code r) (account_balance accounts r) s) regs"

record identity_break =
  ib_ledger :: "nat option"
  ib_client :: bool
  ib_asset :: int
  ib_liab :: int

definition breaks_of :: "ledger_sums \<Rightarrow> identity_break list" where
  "breaks_of s =
     (if ls_clientAsset s \<noteq> ls_clientLiab s
      then [\<lparr>ib_ledger = Some (ls_ledger s), ib_client = True, ib_asset = ls_clientAsset s, ib_liab = ls_clientLiab s\<rparr>]
      else [])
     @ (if ls_firmAsset s \<noteq> ls_firmEquity s
        then [\<lparr>ib_ledger = Some (ls_ledger s), ib_client = False, ib_asset = ls_firmAsset s, ib_liab = ls_firmEquity s\<rparr>]
        else [])"

text \<open>The breaks; an unreachable ledger is one break of its own (without a ledger number).\<close>

definition computeInternalIdentity :: "identity_break list rop" where
  "computeInternalIdentity =
     bind (gets (\<lambda>s. filter (\<lambda>r. r_status r = ''ACTIVE'') (registry (base s)))) (\<lambda>regs.
       if regs = [] then ret []
       else bind (need (those (map (\<lambda>r. hexToBigint (r_id r)) regs)) (SyntaxError ''BigInt'')) (\<lambda>tbIds.
         bind (gets (\<lambda>s. lookup s tbIds)) (\<lambda>reply.
           case reply of
             None \<Rightarrow> ret [\<lparr>ib_ledger = None, ib_client = True, ib_asset = 0, ib_liab = 0\<rparr>]
           | Some accounts \<Rightarrow> ret (concat (map breaks_of (ledger_table accounts regs))))))"

section \<open>Cases\<close>

definition computeSeverity :: "int \<Rightarrow> string" where
  "computeSeverity delta =
     (if 10000 \<le> \<bar>delta\<bar> then ''HIGH'' else if 100 \<le> \<bar>delta\<bar> then ''MEDIUM'' else ''LOW'')"

text \<open>\<open>fetchExternalLinesForWallet\<close>: the lines on the wallet's sub-account, and those without a sub-account on its
  bank account.\<close>

definition fetchExternalLinesForWallet :: "string \<Rightarrow> string \<Rightarrow> int \<Rightarrow> recon \<Rightarrow> statement_line list" where
  "fetchExternalLinesForWallet walletRef accountRef cutoff s =
     map (\<lambda>l. \<lparr>sl_id = xl_id l, sl_direction = xl_direction l, sl_amount = xl_amount l,
            sl_externalRef = xl_externalRef l, sl_datetime = xl_datetime l\<rparr>)
       (filter (\<lambda>l. (xl_subAccount l = Some walletRef \<or> xl_subAccount l = None \<and> xl_accountRef l = accountRef)
          \<and> xl_datetime l \<le> cutoff) (xlines s))"

definition resolveAssetId :: "string \<Rightarrow> db \<Rightarrow> string option" where
  "resolveAssetId currency d = map_option a_id (find (\<lambda>a. a_code a = currency) (assets d))"

definition COA_BY_ROLE :: "string \<Rightarrow> string option" where
  "COA_BY_ROLE = map_of
     [(''F_OPS'', coa_label FIRM_OPS), (''F_SET'', coa_label FIRM_SET), (''F_LIQ'', coa_label FIRM_LIQ),
      (''F_FEE'', coa_label FIRM_FEE), (''C_DEP'', customer_coa), (''C_VIBAN'', customer_coa),
      (''C_CMA'', customer_coa)]"

record case_locator =
  cl_book :: string
  cl_coaCode :: string
  cl_ownerNo :: "string option"

definition enrichIfUnknown :: "string \<Rightarrow> balance_check \<Rightarrow> db \<Rightarrow> case_locator" where
  "enrichIfUnknown walletRef b d =
     (if bk_kind b \<noteq> UNKNOWN
      then \<lparr>cl_book = (if bk_kind b = FIRM then ''FIRM'' else ''CUSTOMER''), cl_coaCode = bk_coaCode b,
            cl_ownerNo = bk_ownerNo b\<rparr>
      else (case by_id w_id walletRef (wallets d) of
          None \<Rightarrow> \<lparr>cl_book = ''CUSTOMER'', cl_coaCode = bk_coaCode b, cl_ownerNo = bk_ownerNo b\<rparr>
        | Some x \<Rightarrow> \<lparr>cl_book = (if w_ownerType x \<noteq> ''CUSTOMER'' then ''FIRM'' else ''CUSTOMER''),
            cl_coaCode = (case COA_BY_ROLE (w_role x) of None \<Rightarrow> bk_coaCode b | Some c \<Rightarrow> c),
            cl_ownerNo = nullish (w_ownerNo x) (bk_ownerNo b)\<rparr>))"

record case_input =
  ci_runId :: string
  ci_businessDate :: string
  ci_assetId :: string
  ci_assetCode :: string
  ci_walletRef :: string
  ci_locator :: case_locator
  ci_delta :: int
  ci_tbAmount :: int
  ci_external :: int
  ci_matcher :: matcher_result

definition open_case :: "string \<Rightarrow> string \<Rightarrow> recon_case \<Rightarrow> bool" where
  "open_case walletRef businessDate c \<longleftrightarrow>
     rc_walletRef c = Some walletRef \<and> rc_businessDate c = businessDate \<and> rc_status c = ''OPEN''"

definition refreshed_case :: "case_input \<Rightarrow> recon_case \<Rightarrow> recon_case" where
  "refreshed_case inp c =
     c\<lparr>rc_tbAmount := of_int (ci_tbAmount inp), rc_inTransit := 0,
       rc_expected := of_int (ci_external inp) - of_int (ci_delta inp), rc_actual := of_int (ci_external inp),
       rc_delta := of_int (ci_delta inp), rc_severity := Some (computeSeverity (ci_delta inp)),
       rc_assetId := ci_assetId inp, rc_assetCode := ci_assetCode inp,
       rc_book := Some (cl_book (ci_locator inp)), rc_coaCode := Some (cl_coaCode (ci_locator inp)),
       rc_ownerNo := cl_ownerNo (ci_locator inp), rc_lastUpdated := Some (ci_runId inp),
       rc_lastObserved := Some (ci_runId inp)\<rparr>"

definition new_case :: "case_input \<Rightarrow> string \<Rightarrow> string \<Rightarrow> string \<Rightarrow> recon_case" where
  "new_case inp no rowId trace =
     \<lparr>rc_id = rowId, rc_no = no, rc_businessDate = ci_businessDate inp, rc_assetId = ci_assetId inp,
      rc_assetCode = ci_assetCode inp, rc_layer = RUN_LAYER, rc_book = Some (cl_book (ci_locator inp)),
      rc_tbAmount = of_int (ci_tbAmount inp), rc_inTransit = 0,
      rc_expected = of_int (ci_external inp) - of_int (ci_delta inp), rc_actual = of_int (ci_external inp),
      rc_delta = of_int (ci_delta inp), rc_status = ''OPEN'', rc_openedBy = ci_runId inp, rc_closedBy = None,
      rc_lastObserved = Some (ci_runId inp), rc_traceId = Some trace, rc_walletRef = Some (ci_walletRef inp),
      rc_coaCode = Some (cl_coaCode (ci_locator inp)), rc_ownerNo = cl_ownerNo (ci_locator inp),
      rc_firstSeen = Some (ci_runId inp), rc_lastUpdated = Some (ci_runId inp), rc_resolvedAt = None,
      rc_resolution = None, rc_severity = Some (computeSeverity (ci_delta inp))\<rparr>"

definition insert_case :: "recon_case \<Rightarrow> unit rop" where
  "insert_case c = bind (gets cases) (\<lambda>cs.
     if \<exists>x\<in>set cs. rc_no x = rc_no c then throw (UniqueConstraint ''caseNo'')
     else if \<exists>x\<in>set cs. rc_id x = rc_id c then throw (UniqueConstraint ''id'')
     else modify (\<lambda>s. s\<lparr>cases := cases s @ [c]\<rparr>))"

definition blank_item :: "string \<Rightarrow> string \<Rightarrow> string \<Rightarrow> nat \<Rightarrow> recon_item" where
  "blank_item caseId runId walletRef n =
     \<lparr>ri_caseId = caseId, ri_foundBy = runId, ri_lineNo = n, ri_matchStatus = '''', ri_internalSource = None,
      ri_internalAmount = None, ri_internalDirection = None, ri_externalTxId = None, ri_externalAmount = None,
      ri_externalDirection = None, ri_externalRef = None, ri_walletRef = Some walletRef\<rparr>"

text \<open>The rows \<open>writeLineItems\<close> creates one by one, each with the next line number.\<close>

definition item_drafts :: "matcher_result \<Rightarrow> (recon_item \<Rightarrow> recon_item) list" where
  "item_drafts m =
     map (\<lambda>o1 i. i\<lparr>ri_matchStatus := ''ORPHAN_INTERNAL'', ri_internalSource := Some (oi_flow o1),
        ri_internalAmount := Some (oi_amount o1), ri_internalDirection := Some (oi_direction o1),
        ri_externalRef := oi_externalRef o1\<rparr>) (mr_orphanInternal m)
     @ map (\<lambda>o2 i. i\<lparr>ri_matchStatus := ''ORPHAN_EXTERNAL'', ri_externalTxId := Some (oe_line o2),
        ri_externalAmount := Some (oe_amount o2), ri_externalDirection := Some (oe_direction o2),
        ri_externalRef := oe_externalRef o2\<rparr>) (mr_orphanExternal m)
     @ map (\<lambda>x i. i\<lparr>ri_matchStatus := ''AMOUNT_MISMATCH'', ri_internalSource := Some (mm_flow x),
        ri_internalAmount := Some (mm_internal x), ri_externalTxId := Some (mm_line x),
        ri_externalAmount := Some (mm_external x), ri_externalRef := Some (mm_ref x)\<rparr>) (mr_mismatch m)"

definition line_items :: "string \<Rightarrow> string \<Rightarrow> string \<Rightarrow> matcher_result \<Rightarrow> recon_item list" where
  "line_items caseId runId walletRef m =
     map2 (\<lambda>n f. f (blank_item caseId runId walletRef n)) [1..<Suc (length (item_drafts m))] (item_drafts m)"

definition writeLineItems :: "string \<Rightarrow> string \<Rightarrow> string \<Rightarrow> matcher_result \<Rightarrow> unit rop" where
  "writeLineItems caseId runId walletRef m =
     forEach (line_items caseId runId walletRef m) (\<lambda>i. modify (\<lambda>s. s\<lparr>items := items s @ [i]\<rparr>))"

definition case_number :: "string \<Rightarrow> nat \<Rightarrow> string" where
  "case_number businessDate n = ''REC'' @ compact businessDate @ ''-'' @ pad_start 3 (CHR ''0'') (nat_str n)"

text \<open>Returns the case's id and whether it was created.\<close>

definition upsertCaseForWallet :: "case_input \<Rightarrow> (string \<times> bool) rop" where
  "upsertCaseForWallet inp =
     bind (gets (\<lambda>s. find (open_case (ci_walletRef inp) (ci_businessDate inp)) (cases s))) (\<lambda>existing.
     bind (case existing of
        Some c \<Rightarrow>
          andThen (modify (\<lambda>s. s\<lparr>cases := update_rows (\<lambda>x. rc_id x = rc_id c) (refreshed_case inp) (cases s)\<rparr>))
         (andThen (modify (\<lambda>s. s\<lparr>items := filter (\<lambda>i. ri_caseId i \<noteq> rc_id c) (items s)\<rparr>))
           (ret (rc_id c, False)))
      | None \<Rightarrow>
          bind (gets (\<lambda>s. length (filter (\<lambda>x. rc_businessDate x = ci_businessDate inp) (cases s)))) (\<lambda>priorToday.
          bind draw_uuid (\<lambda>trace. bind draw_uuid (\<lambda>rowId.
            andThen (insert_case (new_case inp (case_number (ci_businessDate inp) (priorToday + 1)) rowId trace))
              (ret (rowId, True)))))) (\<lambda>r.
     andThen (writeLineItems (fst r) (ci_runId inp) (ci_walletRef inp) (ci_matcher inp)) (ret r)))"

text \<open>\<open>autoHealCases\<close>: \<open>notIn\<close> of a list never selects a row without a wallet, unless the list is empty.\<close>

definition stale_case :: "string \<Rightarrow> string list \<Rightarrow> recon_case \<Rightarrow> bool" where
  "stale_case businessDate breaking c \<longleftrightarrow>
     rc_status c = ''OPEN'' \<and> rc_businessDate c = businessDate \<and> rc_layer c = RUN_LAYER
     \<and> (breaking = [] \<or> (case rc_walletRef c of None \<Rightarrow> False | Some r \<Rightarrow> r \<notin> set breaking))"

definition healed_case :: "string \<Rightarrow> int \<Rightarrow> recon_case \<Rightarrow> recon_case" where
  "healed_case runId t c =
     c\<lparr>rc_status := ''RESOLVED'', rc_resolution := Some ''AUTO_HEALED'', rc_resolvedAt := Some t,
       rc_lastUpdated := Some runId, rc_closedBy := Some runId\<rparr>"

definition autoHealCases :: "string \<Rightarrow> string \<Rightarrow> string list \<Rightarrow> nat rop" where
  "autoHealCases runId businessDate breaking =
     bind (gets (\<lambda>s. filter (stale_case businessDate breaking) (cases s))) (\<lambda>stale.
     andThen (forEach stale (\<lambda>c. modify (\<lambda>s. s\<lparr>cases :=
         update_rows (\<lambda>x. rc_id x = rc_id c) (healed_case runId (rclock s)) (cases s)\<rparr>)))
       (ret (length stale)))"

section \<open>The run\<close>

record run_acc =
  ra_created :: nat
  ra_updated :: nat
  ra_orphanInternal :: nat
  ra_orphanExternal :: nat
  ra_mismatch :: nat
  ra_breaking :: "string list"

record run_result =
  re_runId :: string
  re_status :: run_status
  re_walletsChecked :: nat
  re_opened :: nat
  re_reObserved :: nat
  re_healed :: nat
  re_orphanInternal :: nat
  re_orphanExternal :: nat
  re_mismatch :: nat

definition flow_break :: "matcher_result \<Rightarrow> bool" where
  "flow_break m \<longleftrightarrow> mr_orphanInternal m \<noteq> [] \<or> mr_orphanExternal m \<noteq> [] \<or> mr_mismatch m \<noteq> []"

text \<open>The body of the loop over the wallets.\<close>

definition check_wallet :: "string \<Rightarrow> string \<Rightarrow> int \<Rightarrow> external_balance list \<Rightarrow> run_acc \<Rightarrow> string \<Rightarrow> run_acc rop" where
  "check_wallet runId businessDate cutoff balances acc walletRef =
     bind (need (find (\<lambda>b. xb_walletRef b = Some walletRef) balances) (TypeError ''bal'')) (\<lambda>bal.
     bind (gets (\<lambda>s. resolveAssetId (xb_currency bal) (base s))) (\<lambda>asset.
       case asset of None \<Rightarrow> ret acc
       | Some assetId \<Rightarrow>
         bind (need (bigint_of (xb_closing bal)) (SyntaxError ''BigInt'')) (\<lambda>closing.
         bind (gets base) (\<lambda>d.
         bind (checkBalance walletRef closing cutoff d) (\<lambda>b.
         bind (gets (fetchExternalLinesForWallet walletRef (xb_accountRef bal) cutoff)) (\<lambda>ls.
         let m = matchFlows walletRef ls cutoff None d;
             acc' = acc\<lparr>ra_orphanInternal := ra_orphanInternal acc + length (mr_orphanInternal m),
                        ra_orphanExternal := ra_orphanExternal acc + length (mr_orphanExternal m),
                        ra_mismatch := ra_mismatch acc + length (mr_mismatch m)\<rparr>
         in if \<not> bk_pass b \<or> flow_break m
            then bind (upsertCaseForWallet \<lparr>ci_runId = runId, ci_businessDate = businessDate, ci_assetId = assetId,
                     ci_assetCode = xb_currency bal, ci_walletRef = walletRef,
                     ci_locator = enrichIfUnknown walletRef b d, ci_delta = bk_delta b,
                     ci_tbAmount = bk_total b, ci_external = bk_external b, ci_matcher = m\<rparr>) (\<lambda>r.
                   ret (acc'\<lparr>ra_created := ra_created acc + (if snd r then 1 else 0),
                             ra_updated := ra_updated acc + (if snd r then 0 else 1),
                             ra_breaking := ra_breaking acc @ [walletRef]\<rparr>))
            else ret acc'))))))"

definition wallets_to_check :: "external_balance list \<Rightarrow> string list" where
  "wallets_to_check balances = js_set (filter (\<lambda>r. r \<noteq> []) (List.map_filter xb_walletRef balances))"

definition run_recon :: "int \<Rightarrow> string option \<Rightarrow> run_result rop" where
  "run_recon cutoff manifest =
     (let businessDate = toBusinessDate cutoff in
      bind (createRun businessDate manifest) (\<lambda>row.
      bind computeInternalIdentity (\<lambda>breaks.
        if breaks \<noteq> [] then
          andThen (finishRun (rr_id row) RUN_INTERNAL_BREAK 0 0 0)
            (ret \<lparr>re_runId = rr_id row, re_status = RUN_INTERNAL_BREAK, re_walletsChecked = 0, re_opened = 0,
                  re_reObserved = 0, re_healed = 0, re_orphanInternal = 0, re_orphanExternal = 0, re_mismatch = 0\<rparr>)
        else
          bind (gets (\<lambda>s. filter (\<lambda>b. xb_cutoffDate b = businessDate \<and> xb_walletRef b \<noteq> None) (xbalances s))) (\<lambda>balances.
          bind (foldC (check_wallet (rr_id row) businessDate cutoff balances)
              \<lparr>ra_created = 0, ra_updated = 0, ra_orphanInternal = 0, ra_orphanExternal = 0, ra_mismatch = 0,
               ra_breaking = []\<rparr> (wallets_to_check balances)) (\<lambda>acc.
          bind (autoHealCases (rr_id row) businessDate (ra_breaking acc)) (\<lambda>healed.
          let status = (if 0 < ra_created acc + ra_updated acc then RUN_BREAK else RUN_PASS)
          in andThen (finishRun (rr_id row) status (ra_created acc) (ra_updated acc) healed)
             (ret \<lparr>re_runId = rr_id row, re_status = status, re_walletsChecked = length (wallets_to_check balances),
                   re_opened = ra_created acc, re_reObserved = ra_updated acc, re_healed = healed,
                   re_orphanInternal = ra_orphanInternal acc, re_orphanExternal = ra_orphanExternal acc,
                   re_mismatch = ra_mismatch acc\<rparr>)))))))"

end
