(* ===== verification/FlowMatchingFacts.thy ===== *)
theory FlowMatchingFacts
  imports FlowMatching
begin

text \<open>
  The contract of the per-wallet engine: both loops of the matcher are passes of the greedy matching of \<open>Pairing\<close>,
  every entry of the results is explained by a flow and a line, and the checker's total is the sum of the
  wallet's own flows.
\<close>

section \<open>The matcher's loops are greedy passes\<close>

lemma externalByRef_eq: "r \<noteq> [] \<Longrightarrow> externalByRef ls r = filter (\<lambda>e. sl_externalRef e = Some r) ls"
proof (induction ls rule: rev_induct)
  case (snoc e ls)
  then show ?case
    by (cases "sl_externalRef e") (auto simp: externalByRef_def)
qed (simp add: externalByRef_def)

definition state_pairs :: "match_state \<Rightarrow> ((string \<times> string) \<times> string list) multiset" where
  "state_pairs s = mset (map (\<lambda>m. (mp_flow m, [mp_line m])) (ms_matched s))
     + mset (map (\<lambda>m. (mm_flow m, [mm_line m])) (ms_mismatch s))"

definition ref_fits :: "account_flow \<Rightarrow> statement_line \<Rightarrow> bool" where
  "ref_fits f e \<longleftrightarrow> truthy (fl_externalRef f) \<and> sl_externalRef e = fl_externalRef f
     \<and> sl_direction e = fl_direction f"

definition fuzzy_fits :: "int \<Rightarrow> account_flow \<Rightarrow> statement_line \<Rightarrow> bool" where
  "fuzzy_fits windowMs f e \<longleftrightarrow> sl_direction e = fl_direction f \<and> sl_amount e = fl_amount f
     \<and> \<bar>sl_datetime e - fl_createdAt f\<bar> \<le> windowMs"

lemma ref_candidate:
  assumes "truthy (fl_externalRef f)"
  shows "find (\<lambda>c. sl_id c \<notin> U \<and> sl_direction c = fl_direction f) (externalByRef ls (the (fl_externalRef f)))
    = find (\<lambda>c. sl_id c \<notin> U \<and> ref_fits f c) ls"
proof -
  obtain r where r: "fl_externalRef f = Some r" "r \<noteq> []"
    using assms by (cases "fl_externalRef f") auto
  have "find P (filter Q ls) = find (\<lambda>x. Q x \<and> P x) ls" for P Q and ls :: "statement_line list"
    by (induction ls) auto
  then show ?thesis
    using r externalByRef_eq[OF r(2)] by (simp add: ref_fits_def conj_ac)
qed

lemma match_ref_cases:
  obtains (none) "match_ref ls s f = s" "\<forall>e\<in>set ls. sl_id e \<notin> ms_usedExternal s \<longrightarrow> \<not> ref_fits f e"
  | (equal) e where "e \<in> set ls" "sl_id e \<notin> ms_usedExternal s" "ref_fits f e" "fl_amount f = sl_amount e"
      "match_ref ls s f = resolve f e (add_matched f e Via_ref s)"
  | (differ) e where "e \<in> set ls" "sl_id e \<notin> ms_usedExternal s" "ref_fits f e" "fl_amount f \<noteq> sl_amount e"
      "match_ref ls s f = resolve f e (s\<lparr>ms_mismatch := ms_mismatch s @ [\<lparr>mm_flow = flow_key f, mm_line = sl_id e,
         mm_internal = fl_amount f, mm_external = sl_amount e, mm_ref = the (fl_externalRef f)\<rparr>]\<rparr>)"
proof (cases "truthy (fl_externalRef f)")
  case False
  then show ?thesis
    by (intro none) (auto simp: match_ref_def ref_fits_def)
next
  case True
  note eq = match_ref_def[of ls s f] ref_candidate[OF True, of "ms_usedExternal s" ls]
  show ?thesis
  proof (cases "find (\<lambda>c. sl_id c \<notin> ms_usedExternal s \<and> ref_fits f c) ls")
    case None
    then show ?thesis
      by (intro none) (use True None in \<open>simp add: eq\<close>, use None in \<open>auto simp: find_None_iff\<close>)
  next
    case (Some e)
    then have "e \<in> set ls" "sl_id e \<notin> ms_usedExternal s" "ref_fits f e"
      by (auto simp: find_Some_iff)
    then show ?thesis
      using True Some equal[of e] differ[of e] by (cases "fl_amount f = sl_amount e") (simp_all add: eq)
  qed
qed

lemma match_fuzzy_cases:
  obtains (none) "match_fuzzy w ls s f = s"
      "flow_key f \<in> ms_usedInternal s \<or> (\<forall>e\<in>set ls. sl_id e \<notin> ms_usedExternal s \<longrightarrow> \<not> fuzzy_fits w f e)"
  | (found) e where "flow_key f \<notin> ms_usedInternal s" "e \<in> set ls" "sl_id e \<notin> ms_usedExternal s" "fuzzy_fits w f e"
      "match_fuzzy w ls s f = resolve f e (add_matched f e Via_fuzzy s)"
proof (cases "flow_key f \<in> ms_usedInternal s")
  case True
  then show ?thesis
    by (intro none) (simp_all add: match_fuzzy_def)
next
  case False
  have eq: "(\<lambda>e. sl_id e \<notin> ms_usedExternal s \<and> sl_direction e = fl_direction f
      \<and> fl_amount f = sl_amount e \<and> \<not> w < \<bar>sl_datetime e - fl_createdAt f\<bar>)
    = (\<lambda>e. sl_id e \<notin> ms_usedExternal s \<and> fuzzy_fits w f e)"
    by (auto simp: fuzzy_fits_def)
  show ?thesis
  proof (cases "find (\<lambda>e. sl_id e \<notin> ms_usedExternal s \<and> fuzzy_fits w f e) ls")
    case None
    then show ?thesis
      by (intro none)
        (use False None in \<open>simp add: match_fuzzy_def eq\<close>, use None in \<open>auto simp: find_None_iff\<close>)
  next
    case (Some e)
    moreover from Some have "e \<in> set ls" "sl_id e \<notin> ms_usedExternal s" "fuzzy_fits w f e"
      by (auto simp: find_Some_iff)
    ultimately show ?thesis
      using False by (intro found[of e]) (simp_all add: match_fuzzy_def eq)
  qed
qed

lemmas state_simps = resolve_def add_matched_def state_pairs_def subseq_singleton_left

interpretation ref_pass: pairing "match_ref ls" state_pairs ms_usedInternal ms_usedExternal flow_key sl_id ls ref_fits
  for ls
proof
  fix s f
  show "match_ref ls s f = s \<and> (\<forall>e\<in>set ls. sl_id e \<notin> ms_usedExternal s \<longrightarrow> \<not> ref_fits f e)
    \<or> (\<exists>es. subseq es ls \<and> es \<noteq> [] \<and> (\<forall>e\<in>set es. sl_id e \<notin> ms_usedExternal s \<and> ref_fits f e)
         \<and> state_pairs (match_ref ls s f) = add_mset (flow_key f, map sl_id es) (state_pairs s)
         \<and> ms_usedInternal (match_ref ls s f) = insert (flow_key f) (ms_usedInternal s)
         \<and> ms_usedExternal (match_ref ls s f) = sl_id ` set es \<union> ms_usedExternal s)"
  proof (cases rule: match_ref_cases[of ls s f])
    case none
    then show ?thesis by simp
  next
    case (equal e)
    then show ?thesis
      by (intro disjI2 exI[of _ "[e]"]) (simp add: state_simps)
  next
    case (differ e)
    then show ?thesis
      by (intro disjI2 exI[of _ "[e]"]) (simp add: state_simps)
  qed
qed

interpretation fuzzy_pass: pairing "match_fuzzy w ls" state_pairs ms_usedInternal ms_usedExternal flow_key sl_id ls
    "fuzzy_fits w"
  for w ls
proof
  fix s :: match_state and f
  assume fresh: "flow_key f \<notin> ms_usedInternal s"
  show "match_fuzzy w ls s f = s \<and> (\<forall>e\<in>set ls. sl_id e \<notin> ms_usedExternal s \<longrightarrow> \<not> fuzzy_fits w f e)
    \<or> (\<exists>es. subseq es ls \<and> es \<noteq> [] \<and> (\<forall>e\<in>set es. sl_id e \<notin> ms_usedExternal s \<and> fuzzy_fits w f e)
         \<and> state_pairs (match_fuzzy w ls s f) = add_mset (flow_key f, map sl_id es) (state_pairs s)
         \<and> ms_usedInternal (match_fuzzy w ls s f) = insert (flow_key f) (ms_usedInternal s)
         \<and> ms_usedExternal (match_fuzzy w ls s f) = sl_id ` set es \<union> ms_usedExternal s)"
  proof (cases rule: match_fuzzy_cases[of w ls s f])
    case none
    then show ?thesis
      using fresh by simp
  next
    case (found e)
    then show ?thesis
      by (intro disjI2 exI[of _ "[e]"]) (simp add: state_simps)
  qed
qed

lemma fuzzy_skips: "flow_key f \<in> ms_usedInternal s \<Longrightarrow> match_fuzzy w ls s f = s"
  by (simp add: match_fuzzy_def)

lemma passes_settled:
  fixes w :: int
  assumes "distinct (map flow_key internal)" "distinct (map sl_id ls)" and s: "s = match_passes w internal ls"
  shows "settled flow_key sl_id internal ls (ms_usedInternal s) (ms_usedExternal s) (state_pairs s)
    \<and> no_missed flow_key sl_id ref_fits internal ls (ms_usedInternal s) (ms_usedExternal s)
    \<and> no_missed flow_key sl_id (fuzzy_fits w) internal ls (ms_usedInternal s) (ms_usedExternal s)"
proof -
  let ?s0 = "\<lparr>ms_matched = [], ms_mismatch = [], ms_usedInternal = {}, ms_usedExternal = {}\<rparr>"
  let ?s1 = "foldl (match_ref ls) ?s0 internal"
  have s: "s = foldl (match_fuzzy w ls) ?s1 internal"
    by (simp add: s match_passes_def)
  have "settled flow_key sl_id internal ls (ms_usedInternal ?s0) (ms_usedExternal ?s0) (state_pairs ?s0)"
    using assms(1,2) by (simp add: settled_def accounted_start state_pairs_def)
  from ref_pass.fresh_pass[OF assms(1) _ subset_refl this]
  have one: "settled flow_key sl_id internal ls (ms_usedInternal ?s1) (ms_usedExternal ?s1) (state_pairs ?s1)"
      "no_missed flow_key sl_id ref_fits internal ls (ms_usedInternal ?s1) (ms_usedExternal ?s1)"
    by simp_all
  show ?thesis
    unfolding s using fuzzy_pass.skipping_pass[OF fuzzy_skips assms(1) subset_refl one(1)]
      no_missed_mono[OF one(2)] by blast
qed

section \<open>Every result is explained\<close>

definition pair_explained :: "int \<Rightarrow> account_flow list \<Rightarrow> statement_line list \<Rightarrow> matched_pair \<Rightarrow> bool" where
  "pair_explained w internal ls m \<longleftrightarrow>
     (\<exists>f\<in>set internal. \<exists>e\<in>set ls. mp_flow m = flow_key f \<and> mp_line m = sl_id e \<and> fl_amount f = sl_amount e
        \<and> (if mp_via m = Via_ref then ref_fits f e else fuzzy_fits w f e))"

definition mismatch_explained :: "account_flow list \<Rightarrow> statement_line list \<Rightarrow> amount_mismatch \<Rightarrow> bool" where
  "mismatch_explained internal ls m \<longleftrightarrow>
     (\<exists>f\<in>set internal. \<exists>e\<in>set ls. mm_flow m = flow_key f \<and> mm_line m = sl_id e \<and> ref_fits f e
        \<and> mm_internal m = fl_amount f \<and> mm_external m = sl_amount e \<and> fl_amount f \<noteq> sl_amount e
        \<and> fl_externalRef f = Some (mm_ref m))"

lemma passes_explained:
  "(\<forall>m\<in>set (ms_matched (match_passes w internal ls)). pair_explained w internal ls m)
   \<and> (\<forall>m\<in>set (ms_mismatch (match_passes w internal ls)). mismatch_explained internal ls m)"
proof -
  let ?P = "\<lambda>s. (\<forall>m\<in>set (ms_matched s). pair_explained w internal ls m)
     \<and> (\<forall>m\<in>set (ms_mismatch s). mismatch_explained internal ls m)"
  have ref: "?P (match_ref ls s f)" if "f \<in> set internal" "?P s" for s f
  proof (cases rule: match_ref_cases[of ls s f])
    case none
    then show ?thesis using that by simp
  next
    case (equal e)
    then show ?thesis
      using that by (auto simp: resolve_def add_matched_def pair_explained_def intro!: bexI)
  next
    case (differ e)
    moreover obtain r where "fl_externalRef f = Some r"
      using \<open>ref_fits f e\<close> by (cases "fl_externalRef f") (auto simp: ref_fits_def)
    ultimately show ?thesis
      using that by (auto simp: resolve_def mismatch_explained_def intro!: bexI)
  qed
  have fuzzy: "?P (match_fuzzy w ls s f)" if "f \<in> set internal" "?P s" for s f
  proof (cases rule: match_fuzzy_cases[of w ls s f])
    case none
    then show ?thesis using that by simp
  next
    case (found e)
    then show ?thesis
      using that by (auto simp: resolve_def add_matched_def pair_explained_def fuzzy_fits_def intro!: bexI)
  qed
  show ?thesis
    unfolding match_passes_def by (intro foldl_keeps[where P = ?P] ref fuzzy) simp_all
qed

section \<open>The checker sums the flows of the wallet's own accounts\<close>

definition counted :: "db \<Rightarrow> account_flow \<Rightarrow> bool" where
  "counted d f \<longleftrightarrow> (\<exists>r. find_tb_account (fl_accountId f) d = Some r \<and> r_code r \<notin> set AGGREGATE_CODES)"

definition on_codes :: "db \<Rightarrow> nat list \<Rightarrow> account_flow \<Rightarrow> bool" where
  "on_codes d codes f \<longleftrightarrow> (\<exists>r. find_tb_account (fl_accountId f) d = Some r \<and> r_code r \<in> set codes)"

lemma on_codes_Nil: "\<not> on_codes d [] f"
  by (simp add: on_codes_def)

definition flow_units :: "account_flow \<Rightarrow> int" where
  "flow_units f = (if fl_direction f = ''IN'' then \<lfloor>fl_amount f\<rfloor> else - \<lfloor>fl_amount f\<rfloor>)"

lemma sum_of_codes_upsert:
  "sum_of_codes d codes (upsert fst a (a, x) (\<lambda>b. (fst b, snd b + x)) bals) =
     sum_of_codes d codes bals
       + (case find_tb_account a d of None \<Rightarrow> 0 | Some r \<Rightarrow> if r_code r \<in> set codes then x else 0)"
  by (induction bals) (auto simp: sum_of_codes_def split: option.splits)

lemma bigint_of_Some: "bigint_of x = Some n \<Longrightarrow> n = \<lfloor>x\<rfloor>"
  by (simp add: bigint_of_def split: if_splits)

definition acc_ok :: "db \<Rightarrow> account_flow list \<Rightarrow> balance_acc \<Rightarrow> bool" where
  "acc_ok d fs acc \<longleftrightarrow>
     (\<forall>codes. set codes \<inter> set AGGREGATE_CODES = {} \<longrightarrow>
        sum_of_codes d codes (ba_balances acc) = (\<Sum>f\<leftarrow>filter (on_codes d codes) fs. flow_units f))
     \<and> ba_seen acc = {c. c \<notin> set AGGREGATE_CODES \<and> (\<exists>f\<in>set fs. on_codes d [c] f)}"

lemma add_flow_spec:
  assumes "acc_ok d fs acc"
  shows "wp (add_flow d acc f)
    (\<lambda>acc' s'. s' = s \<and> acc_ok d (fs @ [f]) acc' \<and> (counted d f \<longrightarrow> bigint_of (fl_amount f) \<noteq> None))
    (\<lambda>e s'. s' = s \<and> e = SyntaxError ''BigInt'' \<and> counted d f \<and> bigint_of (fl_amount f) = None) s"
proof (cases "find_tb_account (fl_accountId f) d")
  case None
  then show ?thesis
    using assms by (simp add: add_flow_def acc_ok_def on_codes_def counted_def)
next
  case (Some r)
  show ?thesis
  proof (cases "r_code r \<in> set AGGREGATE_CODES")
    case True
    then have "on_codes d codes f \<longrightarrow> set codes \<inter> set AGGREGATE_CODES \<noteq> {}" for codes
      using Some by (auto simp: on_codes_def)
    then show ?thesis
      using True Some assms by (auto simp: add_flow_def acc_ok_def counted_def on_codes_def)
  next
    case False
    show ?thesis
    proof (cases "bigint_of (fl_amount f)")
      case None
      then show ?thesis
        using False Some by (simp add: add_flow_def counted_def)
    next
      case (Some n)
      then show ?thesis
        using False assms \<open>find_tb_account (fl_accountId f) d = Some r\<close> bigint_of_Some[OF Some]
        by (simp add: add_flow_def Let_def acc_ok_def on_codes_def flow_units_def sum_of_codes_upsert) auto
    qed
  qed
qed

lemma add_flows_spec:
  assumes "acc_ok d fs acc"
  shows "wp (foldC (add_flow d) acc gs)
    (\<lambda>acc' s'. s' = s \<and> acc_ok d (fs @ gs) acc' \<and> (\<forall>f\<in>set gs. counted d f \<longrightarrow> bigint_of (fl_amount f) \<noteq> None))
    (\<lambda>e s'. s' = s \<and> e = SyntaxError ''BigInt'' \<and> (\<exists>f\<in>set gs. counted d f \<and> bigint_of (fl_amount f) = None)) s"
  using assms
proof (induction gs arbitrary: acc fs)
  case (Cons g gs)
  show ?case
    unfolding foldC.simps wp_bind
    by (rule wp_mono[OF add_flow_spec[OF Cons.prems]])
      (use Cons.IH[of "fs @ [g]"] in \<open>auto elim!: wp_mono\<close>)
qed simp

text \<open>The codes that count for a kind of wallet, and the kind a set of flows gives.\<close>

fun kind_codes :: "WalletKind \<Rightarrow> nat list" where
  "kind_codes CUSTOMER = CUSTOMER_CODES"
| "kind_codes FIRM = FIRM_CODES"
| "kind_codes UNKNOWN = []"

definition kind_of :: "db \<Rightarrow> account_flow list \<Rightarrow> WalletKind" where
  "kind_of d fs = (if \<exists>f\<in>set fs. on_codes d CUSTOMER_CODES f then CUSTOMER
     else if \<exists>f\<in>set fs. on_codes d FIRM_CODES f then FIRM else UNKNOWN)"

definition wallet_units :: "db \<Rightarrow> account_flow list \<Rightarrow> int" where
  "wallet_units d fs = (\<Sum>f\<leftarrow>filter (on_codes d (kind_codes (kind_of d fs))) fs. flow_units f)"

lemma codes_disjoint:
  "set CUSTOMER_CODES \<inter> set AGGREGATE_CODES = {}" "set FIRM_CODES \<inter> set AGGREGATE_CODES = {}"
  by (simp_all add: CUSTOMER_CODES_def FIRM_CODES_def AGGREGATE_CODES_def)

lemma seen_codes:
  assumes "acc_ok d fs acc" "set codes \<inter> set AGGREGATE_CODES = {}"
  shows "(\<exists>c\<in>ba_seen acc. c \<in> set codes) \<longleftrightarrow> (\<exists>f\<in>set fs. on_codes d codes f)"
  using assms by (auto simp: acc_ok_def on_codes_def)

lemma customer_sum:
  "sum_of_codes d [TB_ACCOUNT_CODES CLIENT_PAYABLE] bals + sum_of_codes d [TB_ACCOUNT_CODES DEPOSIT_SUSPENSE] bals
    = sum_of_codes d CUSTOMER_CODES bals"
  by (induction bals) (auto simp: sum_of_codes_def CUSTOMER_CODES_def split: option.splits)

lemma conclude_spec:
  fixes x :: int
  assumes "acc_ok d fs acc" and r_def: "r = conclude walletRef x d acc"
  shows "bk_kind r = kind_of d fs" "bk_total r = wallet_units d fs" "bk_delta r = x - bk_total r"
    "bk_pass r \<longleftrightarrow> x = bk_total r" "bk_external r = x"
proof -
  note seen = seen_codes[OF assms(1)]
  have sums: "sum_of_codes d codes (ba_balances acc) = (\<Sum>f\<leftarrow>filter (on_codes d codes) fs. flow_units f)"
    if "set codes \<inter> set AGGREGATE_CODES = {}" for codes
    using assms(1) that by (simp add: acc_ok_def)
  consider (c) "\<exists>f\<in>set fs. on_codes d CUSTOMER_CODES f"
    | (f) "\<not> (\<exists>f\<in>set fs. on_codes d CUSTOMER_CODES f)" "\<exists>f\<in>set fs. on_codes d FIRM_CODES f"
    | (u) "\<not> (\<exists>f\<in>set fs. on_codes d CUSTOMER_CODES f)" "\<not> (\<exists>f\<in>set fs. on_codes d FIRM_CODES f)"
    by blast
  then have "bk_kind r = kind_of d fs \<and> bk_total r = wallet_units d fs \<and> bk_delta r = x - bk_total r
    \<and> (bk_pass r \<longleftrightarrow> x = bk_total r) \<and> bk_external r = x"
  proof cases
    case c
    then show ?thesis
      using sums[OF codes_disjoint(1)] seen[OF codes_disjoint(1)]
      by (simp add: r_def conclude_def Let_def kind_of_def wallet_units_def customer_sum[simplified])
  next
    case f
    then show ?thesis
      using sums[OF codes_disjoint(2)] seen[OF codes_disjoint(1)] seen[OF codes_disjoint(2)]
      by (simp add: r_def conclude_def Let_def kind_of_def wallet_units_def)
  next
    case u
    then show ?thesis
      using seen[OF codes_disjoint(1)] seen[OF codes_disjoint(2)]
      by (simp add: r_def conclude_def Let_def kind_of_def wallet_units_def on_codes_Nil)
  qed
  then show "bk_kind r = kind_of d fs" "bk_total r = wallet_units d fs" "bk_delta r = x - bk_total r"
    "bk_pass r \<longleftrightarrow> x = bk_total r" "bk_external r = x"
    by blast+
qed

lemma wp_checkBalance:
  "wp (checkBalance walletRef x cutoff d)
    (\<lambda>r s'. s' = s \<and> bk_kind r = kind_of d (posted_flows walletRef cutoff d)
       \<and> bk_total r = wallet_units d (posted_flows walletRef cutoff d) \<and> bk_delta r = x - bk_total r
       \<and> (bk_pass r \<longleftrightarrow> x = bk_total r) \<and> bk_external r = x
       \<and> (\<forall>f\<in>set (posted_flows walletRef cutoff d). counted d f \<longrightarrow> bigint_of (fl_amount f) \<noteq> None))
    (\<lambda>e s'. s' = s \<and> e = SyntaxError ''BigInt''
       \<and> (\<exists>f\<in>set (posted_flows walletRef cutoff d). counted d f \<and> bigint_of (fl_amount f) = None)) s"
proof -
  have "acc_ok d [] \<lparr>ba_balances = [], ba_seen = {}, ba_ownerNo = None\<rparr>"
    by (simp add: acc_ok_def sum_of_codes_def)
  from add_flows_spec[OF this, of "posted_flows walletRef cutoff d" s] show ?thesis
    unfolding checkBalance_def wp_bind
    by (rule wp_mono) (use conclude_spec[OF _ HOL.refl] in auto)
qed

end
