(* ===== verification/WalletReconFacts.thy ===== *)
theory WalletReconFacts
  imports WalletRecon FlowMatchingFacts
begin

text \<open>
  What a run does to the cases: the invariant of the case table and the steps of a single case, as a
  guarantee of every operation, and the effect of opening, refreshing and closing cases.
\<close>

section \<open>The invariant of the case table\<close>

definition wallet_day :: "recon_case \<Rightarrow> string option \<times> string" where
  "wallet_day c = (rc_walletRef c, rc_businessDate c)"

definition is_open :: "recon_case \<Rightarrow> bool" where
  "is_open c \<longleftrightarrow> rc_status c = ''OPEN'' \<and> rc_walletRef c \<noteq> None"

definition cases_ok :: "recon \<Rightarrow> bool" where
  "cases_ok s \<longleftrightarrow>
     distinct (map rc_id (cases s)) \<and> distinct (map rc_no (cases s))
     \<and> (\<forall>c\<in>set (cases s). \<forall>c'\<in>set (cases s). is_open c \<longrightarrow> is_open c' \<longrightarrow> wallet_day c = wallet_day c' \<longrightarrow> c = c')
     \<and> (\<forall>i\<in>set (items s). ri_caseId i \<in> rc_id ` set (cases s))"

text \<open>What may happen to a case: who opened it for which wallet and day stays, a closed case stays as it is, an open one may be
  refreshed or resolved.\<close>

definition case_moves :: "recon_case \<Rightarrow> recon_case \<Rightarrow> bool" where
  "case_moves c c' \<longleftrightarrow>
     rc_id c' = rc_id c \<and> rc_no c' = rc_no c \<and> wallet_day c' = wallet_day c \<and> rc_layer c' = rc_layer c
     \<and> rc_openedBy c' = rc_openedBy c \<and> rc_firstSeen c' = rc_firstSeen c
     \<and> (rc_status c \<noteq> ''OPEN'' \<longrightarrow> c' = c)
     \<and> (rc_status c' = rc_status c \<or> rc_status c' = ''RESOLVED'' \<and> rc_resolution c' = Some ''AUTO_HEALED'')"

definition same_inputs :: "recon \<Rightarrow> recon \<Rightarrow> bool" where
  "same_inputs s s' \<longleftrightarrow> base s' = base s \<and> xbalances s' = xbalances s \<and> xlines s' = xlines s
     \<and> rclock s' = rclock s \<and> lookup s' = lookup s"

definition recon_step :: "recon \<Rightarrow> recon \<Rightarrow> bool" where
  "recon_step s s' \<longleftrightarrow> same_inputs s s'
     \<and> (cases_ok s \<longrightarrow> cases_ok s' \<and> (\<forall>c\<in>set (cases s). \<exists>c'\<in>set (cases s'). case_moves c c'))"

lemma case_moves_refl: "case_moves c c"
  by (simp add: case_moves_def)

lemma case_moves_trans: "case_moves a b \<Longrightarrow> case_moves b c \<Longrightarrow> case_moves a c"
  by (auto simp: case_moves_def)

interpretation recon_steps: guarantee recon_step
proof
  fix s t u
  show "recon_step s s"
    unfolding recon_step_def same_inputs_def using case_moves_refl by blast
  show "recon_step s t \<Longrightarrow> recon_step t u \<Longrightarrow> recon_step s u"
    unfolding recon_step_def same_inputs_def by (metis case_moves_trans)
qed

text \<open>Operations that leave cases and items alone.\<close>

lemma recon_step_same:
  "same_inputs s s' \<Longrightarrow> cases s' = cases s \<Longrightarrow> items s' = items s \<Longrightarrow> recon_step s s'"
  unfolding recon_step_def cases_ok_def using case_moves_refl by metis

lemma draw_uuid_step: "steps recon_step draw_uuid"
  by (simp add: steps_def draw_uuid_def recon_step_same same_inputs_def)

lemma createRun_step: "steps recon_step (createRun businessDate manifest)"
  unfolding createRun_def Let_def insert_run_def
  by (intro recon_steps.combinators recon_steps.modify draw_uuid_step recon_step_same) (simp_all add: same_inputs_def)

lemma finishRun_step: "steps recon_step (finishRun runId status a b c)"
  unfolding finishRun_def
  by (intro recon_steps.combinators recon_steps.modify recon_step_same) (simp_all add: same_inputs_def)

lemma identity_step: "steps recon_step computeInternalIdentity"
  unfolding computeInternalIdentity_def by (intro recon_steps.combinators)

lemma checkBalance_step: "steps recon_step (checkBalance walletRef x cutoff d)"
proof -
  have "steps recon_step (add_flow d acc f)" for acc f
    unfolding add_flow_def Let_def by (intro recon_steps.combinators)
  then show ?thesis
    unfolding checkBalance_def by (intro recon_steps.combinators)
qed

section \<open>Opening and refreshing a case\<close>

lemma writeLineItems_eq:
  "writeLineItems caseId runId w m s = (Inr (), s\<lparr>items := items s @ line_items caseId runId w m\<rparr>)"
proof -
  have "forEach xs (\<lambda>i. modify (\<lambda>s. s\<lparr>items := items s @ [i]\<rparr>)) s = (Inr (), s\<lparr>items := items s @ xs\<rparr>)" for xs
    by (induction xs arbitrary: s) (simp_all add: ret_def andThen_def bind_def modify_def)
  then show ?thesis
    by (simp add: writeLineItems_def)
qed

lemma wp_writeLineItems [simp]:
  "wp (writeLineItems caseId runId w m) Q E s = Q () (s\<lparr>items := items s @ line_items caseId runId w m\<rparr>)"
  by (simp add: wp_def writeLineItems_eq)

lemma wp_draw_uuid [simp]:
  "wp draw_uuid Q E s = Q (ruuid_src s (ruuid_pos s)) (s\<lparr>ruuid_pos := Suc (ruuid_pos s)\<rparr>)"
  by (simp add: wp_def draw_uuid_def)

lemma line_items_case: "i \<in> set (line_items caseId runId w m) \<Longrightarrow> ri_caseId i = caseId"
proof -
  have "ri_caseId (f (blank_item caseId runId w n)) = caseId" if "f \<in> set (item_drafts m)" for f n
    using that by (auto simp: item_drafts_def blank_item_def)
  then show "i \<in> set (line_items caseId runId w m) \<Longrightarrow> ri_caseId i = caseId"
    by (auto simp: line_items_def dest: set_zip_rightD)
qed

text \<open>The items of a case.\<close>

definition items_of :: "string \<Rightarrow> recon \<Rightarrow> recon_item list" where
  "items_of caseId s = filter (\<lambda>i. ri_caseId i = caseId) (items s)"

text \<open>The case of a wallet shows the measurement of a run.\<close>

definition case_shows :: "case_input \<Rightarrow> recon_case \<Rightarrow> recon \<Rightarrow> bool" where
  "case_shows inp c s \<longleftrightarrow>
     c \<in> set (cases s) \<and> open_case (ci_walletRef inp) (ci_businessDate inp) c
     \<and> rc_tbAmount c = of_int (ci_tbAmount inp) \<and> rc_actual c = of_int (ci_external inp)
     \<and> rc_delta c = of_int (ci_delta inp) \<and> rc_severity c = Some (computeSeverity (ci_delta inp))
     \<and> rc_lastUpdated c = Some (ci_runId inp)
     \<and> items_of (rc_id c) s = line_items (rc_id c) (ci_runId inp) (ci_walletRef inp) (ci_matcher inp)"

definition upserted :: "case_input \<Rightarrow> recon \<Rightarrow> recon \<Rightarrow> bool" where
  "upserted inp s s' \<longleftrightarrow>
     same_inputs s s' \<and> runs s' = runs s
     \<and> (\<exists>c. case_shows inp c s')
     \<and> (\<forall>c\<in>set (cases s). \<not> open_case (ci_walletRef inp) (ci_businessDate inp) c
          \<longrightarrow> c \<in> set (cases s') \<and> items_of (rc_id c) s' = items_of (rc_id c) s)
     \<and> (\<forall>c'\<in>set (cases s'). c' \<in> set (cases s)
          \<or> (open_case (ci_walletRef inp) (ci_businessDate inp) c'
             \<and> (rc_layer c' = RUN_LAYER \<or> (\<exists>c\<in>set (cases s). open_case (ci_walletRef inp) (ci_businessDate inp) c
                  \<and> rc_layer c' = rc_layer c))))"

lemma open_is_open: "open_case w d c \<Longrightarrow> is_open c \<and> wallet_day c = (Some w, d)"
  by (simp add: open_case_def is_open_def wallet_day_def)

lemma refreshed_keys [simp]:
  "rc_id (refreshed_case inp c) = rc_id c" "rc_no (refreshed_case inp c) = rc_no c"
  "wallet_day (refreshed_case inp c) = wallet_day c" "rc_status (refreshed_case inp c) = rc_status c"
  "rc_layer (refreshed_case inp c) = rc_layer c" "rc_walletRef (refreshed_case inp c) = rc_walletRef c"
  "rc_businessDate (refreshed_case inp c) = rc_businessDate c" "is_open (refreshed_case inp c) = is_open c"
  "rc_openedBy (refreshed_case inp c) = rc_openedBy c" "rc_firstSeen (refreshed_case inp c) = rc_firstSeen c"
  by (simp_all add: refreshed_case_def wallet_day_def is_open_def)

lemma distinct_by:
  "distinct (map f xs) \<Longrightarrow> x \<in> set xs \<Longrightarrow> y \<in> set xs \<Longrightarrow> f x = f y \<Longrightarrow> x = y"
  by (auto simp: distinct_map inj_on_def)

text \<open>With distinct ids, an update by id touches one row.\<close>

lemma update_rows_one:
  assumes "distinct (map rc_id cs)" "c \<in> set cs"
  shows "set (update_rows (\<lambda>x. rc_id x = rc_id c) f cs) = insert (f c) (set cs - {c})"
proof -
  have "update_rows (\<lambda>x. rc_id x = rc_id c) f cs = map (\<lambda>x. if x = c then f c else x) cs"
    unfolding update_rows_def using distinct_by[OF assms(1) _ assms(2)] by (intro map_cong) auto
  then show ?thesis
    using assms(2) by auto
qed

lemma update_rows_keys:
  "(\<And>c. key (f c) = key c) \<Longrightarrow> map key (update_rows p f cs) = map key cs"
  by (simp add: update_rows_def)

definition refreshed :: "case_input \<Rightarrow> recon_case \<Rightarrow> recon \<Rightarrow> recon" where
  "refreshed inp c s = s\<lparr>cases := update_rows (\<lambda>x. rc_id x = rc_id c) (refreshed_case inp) (cases s),
     items := filter (\<lambda>i. ri_caseId i \<noteq> rc_id c) (items s)
       @ line_items (rc_id c) (ci_runId inp) (ci_walletRef inp) (ci_matcher inp)\<rparr>"

definition opened :: "case_input \<Rightarrow> recon_case \<Rightarrow> recon \<Rightarrow> recon" where
  "opened inp c s = s\<lparr>cases := cases s @ [c],
     items := items s @ line_items (rc_id c) (ci_runId inp) (ci_walletRef inp) (ci_matcher inp)\<rparr>"

text \<open>The three ways an upsert ends.\<close>

lemma wp_upsert:
  assumes refresh: "\<And>c. find (open_case (ci_walletRef inp) (ci_businessDate inp)) (cases s) = Some c \<Longrightarrow>
      Q (rc_id c, False) (refreshed inp c s)"
    and create: "\<And>c. find (open_case (ci_walletRef inp) (ci_businessDate inp)) (cases s) = None \<Longrightarrow>
      rc_no c \<notin> rc_no ` set (cases s) \<Longrightarrow> rc_id c \<notin> rc_id ` set (cases s) \<Longrightarrow>
      (\<exists>no rowId trace. c = new_case inp no rowId trace) \<Longrightarrow>
      Q (rc_id c, True) (opened inp c (s\<lparr>ruuid_pos := Suc (Suc (ruuid_pos s))\<rparr>))"
    and fail: "\<And>e. E e (s\<lparr>ruuid_pos := Suc (Suc (ruuid_pos s))\<rparr>)"
  shows "wp (upsertCaseForWallet inp) Q E s"
proof (cases "find (open_case (ci_walletRef inp) (ci_businessDate inp)) (cases s)")
  case (Some c)
  then show ?thesis
    using refresh[OF Some] by (simp add: upsertCaseForWallet_def refreshed_def)
next
  case None
  let ?c = "new_case inp (case_number (ci_businessDate inp)
      (length (filter (\<lambda>x. rc_businessDate x = ci_businessDate inp) (cases s)) + 1))
      (ruuid_src s (Suc (ruuid_pos s))) (ruuid_src s (ruuid_pos s))"
  have "Q (rc_id ?c, True) (opened inp ?c (s\<lparr>ruuid_pos := Suc (Suc (ruuid_pos s))\<rparr>))"
    if "\<not> (\<exists>x\<in>set (cases s). rc_no x = rc_no ?c)" "\<not> (\<exists>x\<in>set (cases s). rc_id x = rc_id ?c)"
    using that by (intro create[OF None]) auto
  then show ?thesis
    using None fail by (simp add: upsertCaseForWallet_def insert_case_def opened_def) (simp add: new_case_def)
qed

lemma items_of_append [simp]:
  "items_of i (s\<lparr>items := xs @ ys\<rparr>) = filter (\<lambda>x. ri_caseId x = i) xs @ filter (\<lambda>x. ri_caseId x = i) ys"
  by (simp add: items_of_def)

lemma filter_line_items:
  "filter (\<lambda>x. ri_caseId x = i) (line_items caseId runId w m) = (if i = caseId then line_items caseId runId w m else [])"
  by (auto simp: filter_empty_conv intro!: filter_True dest: line_items_case)

lemma new_case_fields [simp]:
  "rc_id (new_case inp no rowId trace) = rowId" "rc_layer (new_case inp no rowId trace) = RUN_LAYER"
  "open_case (ci_walletRef inp) (ci_businessDate inp) (new_case inp no rowId trace)"
  "wallet_day (new_case inp no rowId trace) = (Some (ci_walletRef inp), ci_businessDate inp)"
  "rc_no (new_case inp no rowId trace) = no"
  by (simp_all add: new_case_def open_case_def wallet_day_def)

lemma refreshed_ok:
  assumes "cases_ok s" "find (open_case (ci_walletRef inp) (ci_businessDate inp)) (cases s) = Some c"
  shows "cases_ok (refreshed inp c s) \<and> upserted inp s (refreshed inp c s) \<and> recon_step s (refreshed inp c s)"
proof -
  have c: "c \<in> set (cases s)" "open_case (ci_walletRef inp) (ci_businessDate inp) c"
    using assms(2) by (auto simp: find_Some_iff)
  have ids: "distinct (map rc_id (cases s))" and nos: "distinct (map rc_no (cases s))"
    using assms(1) by (simp_all add: cases_ok_def)
  have set: "set (cases (refreshed inp c s)) = insert (refreshed_case inp c) (set (cases s) - {c})"
    using update_rows_one[OF ids c(1)] by (simp add: refreshed_def)
  have only: "x = c" if "x \<in> set (cases s)" "open_case (ci_walletRef inp) (ci_businessDate inp) x" for x
    using assms(1) that c open_is_open[OF that(2)] open_is_open[OF c(2)] by (simp add: cases_ok_def)
  have "cases_ok (refreshed inp c s)"
    unfolding cases_ok_def set
  proof (intro conjI)
    show "distinct (map rc_id (cases (refreshed inp c s)))" "distinct (map rc_no (cases (refreshed inp c s)))"
      using ids nos by (simp_all add: refreshed_def update_rows_keys)
    show "\<forall>x\<in>insert (refreshed_case inp c) (set (cases s) - {c}). \<forall>y\<in>insert (refreshed_case inp c) (set (cases s) - {c}).
        is_open x \<longrightarrow> is_open y \<longrightarrow> wallet_day x = wallet_day y \<longrightarrow> x = y"
      using assms(1) c(1) unfolding cases_ok_def by (metis Diff_iff insertE insertI1 refreshed_keys(3,8))
    show "\<forall>i\<in>set (items (refreshed inp c s)). ri_caseId i \<in> rc_id ` insert (refreshed_case inp c) (set (cases s) - {c})"
      using assms(1) by (auto simp: refreshed_def cases_ok_def image_iff dest: line_items_case)
  qed
  moreover have "upserted inp s (refreshed inp c s)"
  proof -
    have "case_shows inp (refreshed_case inp c) (refreshed inp c s)"
      using c(2) set by (simp add: case_shows_def open_case_def)
        (simp add: refreshed_def refreshed_case_def filter_line_items)
    moreover have "items_of (rc_id x) (refreshed inp c s) = items_of (rc_id x) s"
      if "x \<in> set (cases s)" "x \<noteq> c" for x
    proof -
      have "rc_id x \<noteq> rc_id c"
        using distinct_by[OF ids that(1) c(1)] that(2) by blast
      then show ?thesis
        by (auto simp: refreshed_def filter_line_items items_of_def intro!: filter_cong)
    qed
    ultimately show ?thesis
      unfolding upserted_def set using c by (auto simp: refreshed_def same_inputs_def open_case_def)
  qed
  moreover have "recon_step s (refreshed inp c s)"
  proof -
    have "case_moves c (refreshed_case inp c)"
      using c(2) by (simp add: case_moves_def open_case_def)
    then have "\<exists>c'\<in>set (cases (refreshed inp c s)). case_moves x c'" if "x \<in> set (cases s)" for x
      using that case_moves_refl unfolding set by blast
    then show ?thesis
      using calculation by (simp add: recon_step_def) (simp add: refreshed_def same_inputs_def)
  qed
  ultimately show ?thesis
    by blast
qed

lemma opened_ok:
  assumes "cases_ok s" "find (open_case (ci_walletRef inp) (ci_businessDate inp)) (cases s) = None"
    and "rc_no c \<notin> rc_no ` set (cases s)" "rc_id c \<notin> rc_id ` set (cases s)"
    and new: "\<exists>no rowId trace. c = new_case inp no rowId trace"
  shows "cases_ok (opened inp c s) \<and> upserted inp s (opened inp c s) \<and> recon_step s (opened inp c s)"
proof -
  obtain no rowId trace where c: "c = new_case inp no rowId trace"
    using new by blast
  have none: "\<not> open_case (ci_walletRef inp) (ci_businessDate inp) x" if "x \<in> set (cases s)" for x
    using assms(2) that by (auto simp: find_None_iff)
  have other: "wallet_day x \<noteq> wallet_day c" if "x \<in> set (cases s)" "is_open x" for x
    using none[OF that(1)] that(2) c by (auto simp: open_case_def is_open_def wallet_day_def new_case_def)
  have fresh: "filter (\<lambda>i. ri_caseId i = rc_id c) (items s) = []"
    using assms(1,4) unfolding cases_ok_def filter_empty_conv by metis
  have "cases_ok (opened inp c s)"
    unfolding cases_ok_def
  proof (intro conjI)
    show "distinct (map rc_id (cases (opened inp c s)))" "distinct (map rc_no (cases (opened inp c s)))"
      using assms(1,3,4) by (simp_all add: opened_def cases_ok_def)
    show "\<forall>x\<in>set (cases (opened inp c s)). \<forall>y\<in>set (cases (opened inp c s)).
        is_open x \<longrightarrow> is_open y \<longrightarrow> wallet_day x = wallet_day y \<longrightarrow> x = y"
      using assms(1) other other[THEN not_sym] by (auto simp: opened_def cases_ok_def)
    show "\<forall>i\<in>set (items (opened inp c s)). ri_caseId i \<in> rc_id ` set (cases (opened inp c s))"
      using assms(1) by (auto simp: opened_def cases_ok_def dest: line_items_case)
  qed
  moreover have "upserted inp s (opened inp c s)"
  proof -
    have "case_shows inp c (opened inp c s)"
      using fresh c by (simp add: case_shows_def opened_def filter_line_items) (simp add: new_case_def open_case_def)
    moreover have "items_of (rc_id x) (opened inp c s) = items_of (rc_id x) s" if "x \<in> set (cases s)" for x
    proof -
      have "rc_id x \<noteq> rc_id c"
        using that assms(4) by (metis imageI)
      then show ?thesis
        by (simp add: opened_def filter_line_items items_of_def)
    qed
    ultimately show ?thesis
      unfolding upserted_def using c by (auto simp: opened_def same_inputs_def)
  qed
  moreover have "recon_step s (opened inp c s)"
    using calculation case_moves_refl by (auto simp: recon_step_def opened_def same_inputs_def)
  ultimately show ?thesis
    by blast
qed

lemma recon_step_uuid: "recon_step s (s\<lparr>ruuid_pos := n\<rparr>)"
  by (rule recon_step_same) (simp_all add: same_inputs_def)

lemma cases_ok_uuid [simp]: "cases_ok (s\<lparr>ruuid_pos := n\<rparr>) = cases_ok s"
  by (simp add: cases_ok_def)

lemma upserted_uuid [simp]: "upserted inp (s\<lparr>ruuid_pos := n\<rparr>) t = upserted inp s t"
  by (simp add: upserted_def same_inputs_def items_of_def)

lemma wp_upsert_ok:
  assumes "cases_ok s"
  shows "wp (upsertCaseForWallet inp)
    (\<lambda>r t. cases_ok t \<and> upserted inp s t
       \<and> (snd r \<longleftrightarrow> \<not> (\<exists>c\<in>set (cases s). open_case (ci_walletRef inp) (ci_businessDate inp) c)))
    (\<lambda>_ _. True) s"
proof (rule wp_upsert)
  fix c
  assume "find (open_case (ci_walletRef inp) (ci_businessDate inp)) (cases s) = Some c"
  then show "cases_ok (refreshed inp c s) \<and> upserted inp s (refreshed inp c s)
      \<and> (snd (rc_id c, False) \<longleftrightarrow> \<not> (\<exists>c\<in>set (cases s). open_case (ci_walletRef inp) (ci_businessDate inp) c))"
    using refreshed_ok[OF assms] by (auto simp: find_Some_iff)
next
  fix c
  let ?s = "s\<lparr>ruuid_pos := Suc (Suc (ruuid_pos s))\<rparr>"
  assume none: "find (open_case (ci_walletRef inp) (ci_businessDate inp)) (cases s) = None"
    and new: "rc_no c \<notin> rc_no ` set (cases s)" "rc_id c \<notin> rc_id ` set (cases s)"
      "\<exists>no rowId trace. c = new_case inp no rowId trace"
  then have "cases_ok (opened inp c ?s) \<and> upserted inp ?s (opened inp c ?s)"
    using opened_ok[of ?s inp c] assms by simp
  then show "cases_ok (opened inp c ?s) \<and> upserted inp s (opened inp c ?s)
      \<and> (snd (rc_id c, True) \<longleftrightarrow> \<not> (\<exists>c\<in>set (cases s). open_case (ci_walletRef inp) (ci_businessDate inp) c))"
    using none by (auto simp: find_None_iff)
qed simp

lemma upsert_step: "steps recon_step (upsertCaseForWallet inp)"
  unfolding steps_wp
proof
  fix s :: recon
  let ?s = "s\<lparr>ruuid_pos := Suc (Suc (ruuid_pos s))\<rparr>"
  have any: "recon_step s t" if "same_inputs s t" "cases_ok s \<Longrightarrow> recon_step s t" for t
    using that by (auto simp: recon_step_def)
  show "wp (upsertCaseForWallet inp) (\<lambda>_. recon_step s) (\<lambda>_. recon_step s) s"
  proof (rule wp_upsert)
    fix c
    assume found: "find (open_case (ci_walletRef inp) (ci_businessDate inp)) (cases s) = Some c"
    show "recon_step s (refreshed inp c s)"
    proof (rule any)
      assume "cases_ok s"
      then show "recon_step s (refreshed inp c s)"
        using refreshed_ok[OF _ found] by blast
    qed (simp add: refreshed_def same_inputs_def)
  next
    fix c
    assume new: "find (open_case (ci_walletRef inp) (ci_businessDate inp)) (cases s) = None"
      "rc_no c \<notin> rc_no ` set (cases s)" "rc_id c \<notin> rc_id ` set (cases s)"
      "\<exists>no rowId trace. c = new_case inp no rowId trace"
    show "recon_step s (opened inp c ?s)"
    proof (rule any)
      assume "cases_ok s"
      then have "recon_step ?s (opened inp c ?s)"
        using opened_ok[of ?s inp c] new by simp
      then show "recon_step s (opened inp c ?s)"
        by (rule recon_steps.R_trans[OF recon_step_uuid])
    qed (simp add: opened_def same_inputs_def)
  qed (rule recon_step_uuid)
qed

section \<open>Closing cases\<close>

definition healed :: "string \<Rightarrow> string \<Rightarrow> string list \<Rightarrow> recon \<Rightarrow> recon" where
  "healed runId businessDate breaking s = s\<lparr>cases := map (\<lambda>c.
     if rc_id c \<in> rc_id ` set (filter (stale_case businessDate breaking) (cases s))
     then healed_case runId (rclock s) c else c) (cases s)\<rparr>"

lemma healed_case_idem [simp]: "healed_case runId t (healed_case runId t c) = healed_case runId t c"
  by (simp add: healed_case_def)

lemma healed_case_keys [simp]:
  "rc_id (healed_case runId t c) = rc_id c" "rc_no (healed_case runId t c) = rc_no c"
  "wallet_day (healed_case runId t c) = wallet_day c" "rc_layer (healed_case runId t c) = rc_layer c"
  "rc_status (healed_case runId t c) = ''RESOLVED''" "\<not> is_open (healed_case runId t c)"
  "\<not> open_case w d (healed_case runId t c)"
  by (simp_all add: healed_case_def wallet_day_def is_open_def open_case_def)

definition heal_one :: "string \<Rightarrow> recon_case \<Rightarrow> unit rop" where
  "heal_one runId c = modify (\<lambda>s. s\<lparr>cases :=
     update_rows (\<lambda>x. rc_id x = rc_id c) (healed_case runId (rclock s)) (cases s)\<rparr>)"

lemma heal_loop:
  "forEach cs (heal_one runId) s = (Inr (), s\<lparr>cases :=
      map (\<lambda>x. if rc_id x \<in> rc_id ` set cs then healed_case runId (rclock s) x else x) (cases s)\<rparr>)"
proof (induction cs arbitrary: s)
  case (Cons c cs)
  let ?t = "s\<lparr>cases := update_rows (\<lambda>x. rc_id x = rc_id c) (healed_case runId (rclock s)) (cases s)\<rparr>"
  have "map (\<lambda>x. if rc_id x \<in> rc_id ` set cs then healed_case runId (rclock s) x else x)
        (update_rows (\<lambda>x. rc_id x = rc_id c) (healed_case runId (rclock s)) (cases s)) =
      map (\<lambda>x. if rc_id x \<in> rc_id ` set (c # cs) then healed_case runId (rclock s) x else x) (cases s)"
    by (auto simp: update_rows_def)
  moreover have "forEach (c # cs) (heal_one runId) s = forEach cs (heal_one runId) ?t"
    by (simp add: andThen_def bind_def heal_one_def modify_def)
  ultimately show ?case
    unfolding Cons.IH[of ?t] by (simp cong: if_cong)
qed (simp add: ret_def)

lemma autoHeal_eq:
  "autoHealCases runId businessDate breaking s =
     (Inr (length (filter (stale_case businessDate breaking) (cases s))), healed runId businessDate breaking s)"
  unfolding autoHealCases_def heal_one_def[symmetric]
  by (simp add: healed_def bind_def gets_def andThen_def ret_def heal_loop)

lemma wp_autoHeal [simp]:
  "wp (autoHealCases runId businessDate breaking) Q E s =
     Q (length (filter (stale_case businessDate breaking) (cases s))) (healed runId businessDate breaking s)"
  by (simp add: wp_def autoHeal_eq)

lemma healed_set:
  assumes "distinct (map rc_id (cases s))"
  shows "cases (healed runId d breaking s) =
    map (\<lambda>c. if stale_case d breaking c then healed_case runId (rclock s) c else c) (cases s)"
  unfolding healed_def using distinct_by[OF assms] by (auto intro!: map_cong)

lemma autoHeal_step: "steps recon_step (autoHealCases runId d breaking)"
  unfolding steps_wp wp_autoHeal
proof
  fix s :: recon
  let ?f = "\<lambda>c. if stale_case d breaking c then healed_case runId (rclock s) c else c"
  have "cases_ok (healed runId d breaking s) \<and> (\<forall>c\<in>set (cases s). \<exists>c'\<in>set (cases (healed runId d breaking s)). case_moves c c')"
    if ok: "cases_ok s"
  proof -
    have set: "cases (healed runId d breaking s) = map ?f (cases s)"
      using ok by (intro healed_set) (simp add: cases_ok_def)
    have keys: "map rc_id (map ?f (cases s)) = map rc_id (cases s)" "map rc_no (map ?f (cases s)) = map rc_no (cases s)"
      by simp_all
    have opens: "is_open (?f c) \<Longrightarrow> ?f c = c" for c
      by (auto split: if_splits)
    have uniq: "x = y" if xy: "x \<in> set (map ?f (cases s))" "y \<in> set (map ?f (cases s))" "is_open x" "is_open y"
        "wallet_day x = wallet_day y" for x y
    proof -
      obtain a b where ab: "a \<in> set (cases s)" "b \<in> set (cases s)" "x = ?f a" "y = ?f b"
        using xy(1,2) by auto
      then have "x = a" "y = b"
        using opens xy(3,4) by metis+
      then show ?thesis
        using ok xy(3-5) ab(1,2) by (simp add: cases_ok_def)
    qed
    have items: "items (healed runId d breaking s) = items s"
      by (simp add: healed_def)
    have ids: "rc_id ` set (map ?f (cases s)) = rc_id ` set (cases s)"
      using keys(1) by (metis list.set_map)
    have moves: "case_moves c (?f c)" for c
      by (auto simp: case_moves_def stale_case_def) (simp_all add: healed_case_def)
    have "cases_ok (healed runId d breaking s)"
      unfolding cases_ok_def set items ids keys using ok uniq by (simp only: cases_ok_def) blast
    moreover have "\<exists>c'\<in>set (map ?f (cases s)). case_moves c c'" if "c \<in> set (cases s)" for c
      using that by (intro bexI[of _ "?f c"] moves) (simp only: set_map image_eqI)
    ultimately show ?thesis
      unfolding set by blast
  qed
  then show "recon_step s (healed runId d breaking s)"
    by (simp add: recon_step_def) (simp add: healed_def same_inputs_def)
qed

lemma check_wallet_step: "steps recon_step (check_wallet runId d cutoff balances acc walletRef)"
  unfolding check_wallet_def Let_def
  by (intro recon_steps.combinators upsert_step checkBalance_step)

lemma run_step: "steps recon_step (run_recon cutoff manifest)"
  unfolding run_recon_def Let_def
  by (intro recon_steps.combinators createRun_step identity_step check_wallet_step autoHeal_step finishRun_step)

end
