(* ===== verification/WalletReconProps.thy ===== *)
theory WalletReconProps
  imports WalletReconFacts Samples
begin

text \<open>
  The properties of the per-wallet reconciliation: the matching is one-to-one, explained and leaves no match
  unused; the balance check compares the closing balance with the sum of the wallet's flows; a run leaves open exactly
  the cases of the wallets that break, each showing the run's measurement; cases only move forward.
\<close>

section \<open>What a run finds for a wallet\<close>

definition lines_of :: "recon \<Rightarrow> int \<Rightarrow> external_balance \<Rightarrow> string \<Rightarrow> statement_line list" where
  "lines_of s cutoff b w = fetchExternalLinesForWallet w (xb_accountRef b) cutoff s"

definition units_of :: "recon \<Rightarrow> int \<Rightarrow> string \<Rightarrow> int" where
  "units_of s cutoff w = wallet_units (base s) (posted_flows w cutoff (base s))"

text \<open>\<open>ci\<close> is the measurement of the wallet: the closing balance of its statement, the sum of its flows, their
  difference, and the result of the matcher.\<close>

definition measurement :: "recon \<Rightarrow> string \<Rightarrow> int \<Rightarrow> external_balance list \<Rightarrow> string \<Rightarrow> case_input \<Rightarrow> bool" where
  "measurement s runId cutoff balances w ci \<longleftrightarrow>
     (\<exists>b x. find (\<lambda>b. xb_walletRef b = Some w) balances = Some b
        \<and> resolveAssetId (xb_currency b) (base s) = Some (ci_assetId ci) \<and> bigint_of (xb_closing b) = Some x
        \<and> ci_runId ci = runId \<and> ci_walletRef ci = w \<and> ci_businessDate ci = toBusinessDate cutoff
        \<and> ci_external ci = x \<and> ci_tbAmount ci = units_of s cutoff w \<and> ci_delta ci = x - units_of s cutoff w
        \<and> ci_matcher ci = matchFlows w (lines_of s cutoff b w) cutoff None (base s))"

definition breaking :: "recon \<Rightarrow> int \<Rightarrow> external_balance list \<Rightarrow> string \<Rightarrow> bool" where
  "breaking s cutoff balances w \<longleftrightarrow>
     (\<exists>b x. find (\<lambda>b. xb_walletRef b = Some w) balances = Some b
        \<and> resolveAssetId (xb_currency b) (base s) \<noteq> None \<and> bigint_of (xb_closing b) = Some x
        \<and> (x \<noteq> units_of s cutoff w \<or> flow_break (matchFlows w (lines_of s cutoff b w) cutoff None (base s))))"

definition open_wallets :: "string \<Rightarrow> recon \<Rightarrow> string set" where
  "open_wallets date s = {w. \<exists>c\<in>set (cases s). open_case w date c}"

definition day_balances :: "string \<Rightarrow> recon \<Rightarrow> external_balance list" where
  "day_balances date s = filter (\<lambda>b. xb_cutoffDate b = date \<and> xb_walletRef b \<noteq> None) (xbalances s)"

text \<open>The open cases of the day are the engine's own.\<close>

definition own_cases :: "string \<Rightarrow> recon \<Rightarrow> bool" where
  "own_cases date s \<longleftrightarrow> (\<forall>c\<in>set (cases s). rc_businessDate c = date \<longrightarrow> rc_status c = ''OPEN''
     \<longrightarrow> rc_layer c = RUN_LAYER \<and> rc_walletRef c \<noteq> None)"

definition shown :: "recon \<Rightarrow> string \<Rightarrow> int \<Rightarrow> external_balance list \<Rightarrow> string \<Rightarrow> recon \<Rightarrow> bool" where
  "shown s runId cutoff balances w t \<longleftrightarrow> (\<exists>ci c. measurement s runId cutoff balances w ci \<and> case_shows ci c t)"

lemma own_open: "own_cases date s \<Longrightarrow> c \<in> set (cases s) \<Longrightarrow> open_case w date c \<Longrightarrow> rc_layer c = RUN_LAYER"
  by (simp add: own_cases_def open_case_def)

lemma upserted_open:
  assumes "upserted ci s t"
  shows "open_wallets (ci_businessDate ci) t = insert (ci_walletRef ci) (open_wallets (ci_businessDate ci) s)"
    "own_cases (ci_businessDate ci) s \<Longrightarrow> own_cases (ci_businessDate ci) t"
proof -
  let ?d = "ci_businessDate ci" and ?w = "ci_walletRef ci"
  obtain c where c: "case_shows ci c t"
    using assms by (auto simp: upserted_def)
  have kept: "\<And>c. c \<in> set (cases s) \<Longrightarrow> \<not> open_case ?w ?d c \<Longrightarrow> c \<in> set (cases t)"
    using assms by (simp add: upserted_def)
  have from_s: "c' \<in> set (cases s) \<or> open_case ?w ?d c' \<and> (rc_layer c' = RUN_LAYER
      \<or> (\<exists>c\<in>set (cases s). open_case ?w ?d c \<and> rc_layer c' = rc_layer c))" if "c' \<in> set (cases t)" for c'
    using assms that by (simp add: upserted_def)
  have same: "open_case w ?d c \<Longrightarrow> open_case w' ?d c \<Longrightarrow> w = w'" for w w' c
    by (simp add: open_case_def)
  show "open_wallets ?d t = insert ?w (open_wallets ?d s)"
  proof (intro equalityI subsetI)
    fix w
    assume "w \<in> open_wallets ?d t"
    then obtain c' where "c' \<in> set (cases t)" "open_case w ?d c'"
      by (auto simp: open_wallets_def)
    then show "w \<in> insert ?w (open_wallets ?d s)"
      using from_s same unfolding open_wallets_def by blast
  next
    fix w
    assume "w \<in> insert ?w (open_wallets ?d s)"
    then consider "w = ?w" | c' where "w \<noteq> ?w" "c' \<in> set (cases s)" "open_case w ?d c'"
      by (auto simp: open_wallets_def)
    then show "w \<in> open_wallets ?d t"
    proof cases
      case 1
      then show ?thesis
        using c by (auto simp: case_shows_def open_wallets_def)
    next
      case 2
      then show ?thesis
        using kept same unfolding open_wallets_def by blast
    qed
  qed
  show "own_cases ?d t" if own: "own_cases ?d s"
    unfolding own_cases_def
  proof (intro ballI impI)
    fix c'
    assume c': "c' \<in> set (cases t)" "rc_businessDate c' = ?d" "rc_status c' = ''OPEN''"
    from from_s[OF c'(1)] show "rc_layer c' = RUN_LAYER \<and> rc_walletRef c' \<noteq> None"
    proof
      assume "c' \<in> set (cases s)"
      then show ?thesis
        using own c' by (simp add: own_cases_def)
    next
      assume "open_case ?w ?d c' \<and> (rc_layer c' = RUN_LAYER
        \<or> (\<exists>c\<in>set (cases s). open_case ?w ?d c \<and> rc_layer c' = rc_layer c))"
      then show ?thesis
        using own_open[OF own] by (auto simp: open_case_def)
    qed
  qed
qed

lemma shown_kept:
  assumes "upserted ci t u" "shown s runId cutoff balances w t" "ci_businessDate ci = toBusinessDate cutoff"
    "w \<noteq> ci_walletRef ci"
  shows "shown s runId cutoff balances w u"
proof -
  obtain cj c where cj: "measurement s runId cutoff balances w cj" and c: "case_shows cj c t"
    using assms(2) by (auto simp: shown_def)
  have w: "ci_walletRef cj = w" "ci_businessDate cj = toBusinessDate cutoff"
    using cj by (auto simp: measurement_def)
  have "c \<in> set (cases t)" "open_case w (toBusinessDate cutoff) c"
    using c w by (simp_all add: case_shows_def)
  moreover from this have "\<not> open_case (ci_walletRef ci) (ci_businessDate ci) c"
    using assms(3,4) by (auto simp: open_case_def)
  ultimately have "c \<in> set (cases u) \<and> items_of (rc_id c) u = items_of (rc_id c) t"
    using assms(1) by (simp add: upserted_def)
  then have "case_shows cj c u"
    using c by (simp add: case_shows_def)
  then show ?thesis
    using cj by (auto simp: shown_def)
qed

section \<open>The loop over the wallets\<close>

definition checked :: "recon \<Rightarrow> string \<Rightarrow> int \<Rightarrow> external_balance list \<Rightarrow> string list \<Rightarrow> run_acc \<Rightarrow> recon \<Rightarrow> bool" where
  "checked s runId cutoff balances ws acc t \<longleftrightarrow>
     cases_ok t \<and> same_inputs s t
     \<and> ra_breaking acc = filter (breaking s cutoff balances) ws
     \<and> ra_created acc + ra_updated acc = length (filter (breaking s cutoff balances) ws)
     \<and> open_wallets (toBusinessDate cutoff) t
         = open_wallets (toBusinessDate cutoff) s \<union> set (filter (breaking s cutoff balances) ws)
     \<and> (own_cases (toBusinessDate cutoff) s \<longrightarrow> own_cases (toBusinessDate cutoff) t)
     \<and> (\<forall>w\<in>set (filter (breaking s cutoff balances) ws). shown s runId cutoff balances w t)"

lemma checked_breaking:
  assumes J: "checked s runId cutoff balances ws acc t" and new: "w \<notin> set ws"
    and brk: "breaking s cutoff balances w" and ci: "measurement s runId cutoff balances w ci"
    and up: "cases_ok u" "upserted ci t u"
    and acc: "ra_breaking acc' = ra_breaking acc @ [w]" "ra_created acc' + ra_updated acc' = Suc (ra_created acc + ra_updated acc)"
  shows "checked s runId cutoff balances (ws @ [w]) acc' u"
proof -
  have ids: "ci_walletRef ci = w" "ci_businessDate ci = toBusinessDate cutoff"
    using ci by (auto simp: measurement_def)
  have "same_inputs s u"
    using J up(2) by (simp add: checked_def upserted_def same_inputs_def)
  moreover have "shown s runId cutoff balances v u" if "v \<in> set (filter (breaking s cutoff balances) (ws @ [w]))" for v
  proof (cases "v = w")
    case True
    then show ?thesis
      using ci up(2) by (auto simp: shown_def upserted_def)
  next
    case False
    then have "v \<in> set (filter (breaking s cutoff balances) ws)"
      using that False brk by simp
    then have "shown s runId cutoff balances v t"
      using J by (simp add: checked_def)
    then show ?thesis
      using shown_kept[OF up(2)] ids False by simp
  qed
  ultimately show ?thesis
    using J brk up(1) acc upserted_open[OF up(2)] ids by (auto simp: checked_def)
qed

lemma checked_passing:
  assumes "checked s runId cutoff balances ws acc t" "\<not> breaking s cutoff balances w"
    and "ra_breaking acc' = ra_breaking acc" "ra_created acc' = ra_created acc" "ra_updated acc' = ra_updated acc"
  shows "checked s runId cutoff balances (ws @ [w]) acc' t"
  using assms by (simp add: checked_def)

lemma wp_check_wallet:
  assumes J: "checked s runId cutoff balances ws acc t" and new: "w \<notin> set ws"
  shows "wp (check_wallet runId (toBusinessDate cutoff) cutoff balances acc w)
    (checked s runId cutoff balances (ws @ [w])) (\<lambda>_ _. True) t"
proof (cases "find (\<lambda>b. xb_walletRef b = Some w) balances")
  case None
  then show ?thesis
    by (simp add: check_wallet_def)
next
  case b: (Some b)
  have base: "base t = base s" and xl: "xlines t = xlines s"
    using J by (simp_all add: checked_def same_inputs_def)
  have lines: "fetchExternalLinesForWallet w (xb_accountRef b) cutoff t = lines_of s cutoff b w"
    by (simp add: lines_of_def fetchExternalLinesForWallet_def xl)
  show ?thesis
  proof (cases "resolveAssetId (xb_currency b) (base s)")
    case None
    then have "\<not> breaking s cutoff balances w"
      using b by (simp add: breaking_def)
    then show ?thesis
      using J None b by (simp add: check_wallet_def base checked_def)
  next
    case asset: (Some a)
    show ?thesis
    proof (cases "bigint_of (xb_closing b)")
      case None
      then show ?thesis
        using b asset by (simp add: check_wallet_def base)
    next
      case x: (Some x)
      let ?m = "matchFlows w (lines_of s cutoff b w) cutoff None (base s)"
      have brk: "breaking s cutoff balances w \<longleftrightarrow> x \<noteq> units_of s cutoff w \<or> flow_break ?m"
        using b asset x by (simp add: breaking_def)
      show ?thesis
      proof (simp add: check_wallet_def b base asset x Let_def, rule wp_mono[OF wp_checkBalance], goal_cases)
        case (1 r t')
        then have r: "t' = t" "bk_total r = units_of s cutoff w" "bk_delta r = x - units_of s cutoff w"
            "bk_pass r \<longleftrightarrow> x = units_of s cutoff w" "bk_external r = x"
          by (simp_all add: units_of_def)
        have passing: "checked s runId cutoff balances (ws @ [w]) acc' t"
          if "\<not> breaking s cutoff balances w" "ra_breaking acc' = ra_breaking acc" "ra_created acc' = ra_created acc"
            "ra_updated acc' = ra_updated acc" for acc'
          using checked_passing[OF J that] .
        have failing: "wp (upsertCaseForWallet ci) (\<lambda>r u. checked s runId cutoff balances (ws @ [w]) (f (snd r)) u) (\<lambda>_ _. True) t"
          if "breaking s cutoff balances w" "measurement s runId cutoff balances w ci"
            "\<And>b. ra_breaking (f b) = ra_breaking acc @ [w]"
            "\<And>b. ra_created (f b) + ra_updated (f b) = Suc (ra_created acc + ra_updated acc)" for ci f
        proof (rule wp_mono[OF wp_upsert_ok])
          show "cases_ok t"
            using J by (simp add: checked_def)
        qed (use checked_breaking[OF J new that(1,2)] that(3,4) in auto)
        show ?case
        proof (cases "breaking s cutoff balances w")
          case True
          then show ?thesis
            using brk r(1,4) by (simp add: lines base) (rule failing, simp_all add: measurement_def b base asset x r(2,3,5))
        next
          case False
          then show ?thesis
            using brk r(1,4) by (simp add: lines base) (rule passing, simp_all)
        qed
      qed simp
    qed
  qed
qed

section \<open>A whole run\<close>

definition breaking_wallets :: "recon \<Rightarrow> int \<Rightarrow> string list" where
  "breaking_wallets s cutoff =
     (let balances = day_balances (toBusinessDate cutoff) s
      in filter (breaking s cutoff balances) (wallets_to_check balances))"

definition run_reports :: "recon \<Rightarrow> int \<Rightarrow> run_result \<Rightarrow> recon \<Rightarrow> bool" where
  "run_reports s cutoff r t \<longleftrightarrow>
     open_wallets (toBusinessDate cutoff) t = set (breaking_wallets s cutoff)
     \<and> (\<forall>w\<in>set (breaking_wallets s cutoff). shown s (re_runId r) cutoff (day_balances (toBusinessDate cutoff) s) w t)
     \<and> re_opened r + re_reObserved r = length (breaking_wallets s cutoff)
     \<and> re_status r = (if breaking_wallets s cutoff = [] then RUN_PASS else RUN_BREAK)
     \<and> re_walletsChecked r = length (wallets_to_check (day_balances (toBusinessDate cutoff) s))"

definition same_tables :: "recon \<Rightarrow> recon \<Rightarrow> bool" where
  "same_tables s t \<longleftrightarrow> same_inputs s t \<and> cases t = cases s \<and> items t = items s"

lemma wp_createRun: "wp (createRun date manifest) (\<lambda>r t. same_tables s t) (\<lambda>_ _. True) s"
  by (simp add: createRun_def insert_run_def Let_def same_tables_def same_inputs_def)

lemma wp_identity: "wp computeInternalIdentity (\<lambda>b t. t = s) (\<lambda>_ _. True) s"
  by (simp add: computeInternalIdentity_def split: option.splits)

lemma wp_finishRun: "wp (finishRun runId status a b c) (\<lambda>_ t. same_tables s t) (\<lambda>_ _. True) s"
  by (simp add: finishRun_def same_tables_def same_inputs_def)

lemma shown_same: "same_tables t u \<Longrightarrow> shown s runId cutoff balances w t \<Longrightarrow> shown s runId cutoff balances w u"
  by (simp add: shown_def case_shows_def items_of_def same_tables_def)

lemma healed_open:
  assumes "cases_ok t" "own_cases date t"
  shows "open_wallets date (healed runId date breaks t) = open_wallets date t \<inter> set breaks"
proof -
  let ?f = "\<lambda>c. if stale_case date breaks c then healed_case runId (rclock t) c else c"
  have set: "cases (healed runId date breaks t) = map ?f (cases t)"
    using assms(1) by (intro healed_set) (simp add: cases_ok_def)
  have one: "open_case w date (?f c) \<longleftrightarrow> open_case w date c \<and> w \<in> set breaks" if "c \<in> set (cases t)" for w c
    using that own_open[OF assms(2) that, of w] by (auto simp: stale_case_def open_case_def)
  have "open_wallets date (healed runId date breaks t) = {w. \<exists>c\<in>set (cases t). open_case w date (?f c)}"
    unfolding open_wallets_def set by (simp only: set_map bex_simps)
  also have "\<dots> = {w. \<exists>c\<in>set (cases t). open_case w date c \<and> w \<in> set breaks}"
    by (simp only: one cong: bex_cong)
  finally show ?thesis
    by (auto simp: open_wallets_def)
qed

lemma healed_shown:
  assumes "cases_ok t" "shown s runId cutoff balances w t" "w \<in> set breaks"
  shows "shown s runId cutoff balances w (healed runId2 (toBusinessDate cutoff) breaks t)"
proof -
  let ?d = "toBusinessDate cutoff"
  obtain ci c where ci: "measurement s runId cutoff balances w ci" and c: "case_shows ci c t"
    using assms(2) by (auto simp: shown_def)
  have "open_case w ?d c" "c \<in> set (cases t)"
    using ci c by (auto simp: case_shows_def measurement_def)
  then have "\<not> stale_case ?d breaks c"
    using assms(3) by (auto simp: stale_case_def open_case_def)
  moreover have "cases (healed runId2 ?d breaks t) =
      map (\<lambda>c. if stale_case ?d breaks c then healed_case runId2 (rclock t) c else c) (cases t)"
    using assms(1) by (intro healed_set) (simp add: cases_ok_def)
  ultimately have "c \<in> set (cases (healed runId2 ?d breaks t))"
    using \<open>c \<in> set (cases t)\<close> by (force simp: image_iff)
  then have "case_shows ci c (healed runId2 ?d breaks t)"
    using c by (simp add: case_shows_def items_of_def healed_def)
  then show ?thesis
    using ci by (auto simp: shown_def)
qed

lemma wallets_distinct: "distinct (wallets_to_check balances)"
  by (simp add: wallets_to_check_def)

lemma wp_loop:
  assumes "same_tables s t" "cases_ok s" "own_cases (toBusinessDate cutoff) s"
  shows "wp (foldC (check_wallet runId (toBusinessDate cutoff) cutoff balances)
      \<lparr>ra_created = 0, ra_updated = 0, ra_orphanInternal = 0, ra_orphanExternal = 0, ra_mismatch = 0, ra_breaking = []\<rparr>
      (wallets_to_check balances))
    (checked s runId cutoff balances (wallets_to_check balances)) (\<lambda>_ _. True) t"
proof (rule wp_foldC_prefix[where pre = "[]" and xs = "wallets_to_check balances"
      and I = "checked s runId cutoff balances"])
  fix ws w rest acc u
  assume split: "wallets_to_check balances = ws @ w # rest" and J: "checked s runId cutoff balances ws acc u"
  have "w \<notin> set ws"
    using wallets_distinct[of balances] unfolding split by simp
  then show "wp (check_wallet runId (toBusinessDate cutoff) cutoff balances acc w)
      (checked s runId cutoff balances (ws @ [w])) (\<lambda>_ _. True) u"
    by (rule wp_check_wallet[OF J])
next
  show "checked s runId cutoff balances []
      \<lparr>ra_created = 0, ra_updated = 0, ra_orphanInternal = 0, ra_orphanExternal = 0, ra_mismatch = 0, ra_breaking = []\<rparr> t"
    using assms by (simp add: checked_def same_tables_def cases_ok_def open_wallets_def own_cases_def)
qed simp_all

lemma run_effect:
  assumes "cases_ok s" "own_cases (toBusinessDate cutoff) s"
  shows "wp (run_recon cutoff manifest) (\<lambda>r t. re_status r \<noteq> RUN_INTERNAL_BREAK \<longrightarrow> run_reports s cutoff r t) (\<lambda>_ _. True) s"
proof -
  let ?d = "toBusinessDate cutoff" and ?b = "day_balances (toBusinessDate cutoff) s"
  have rest: "wp (bind (foldC (check_wallet runId ?d cutoff ?b)
        \<lparr>ra_created = 0, ra_updated = 0, ra_orphanInternal = 0, ra_orphanExternal = 0, ra_mismatch = 0, ra_breaking = []\<rparr>
        (wallets_to_check ?b)) (\<lambda>acc. bind (autoHealCases runId ?d (ra_breaking acc)) (\<lambda>n.
          andThen (finishRun runId (if 0 < ra_created acc + ra_updated acc then RUN_BREAK else RUN_PASS)
              (ra_created acc) (ra_updated acc) n)
            (ret \<lparr>re_runId = runId, re_status = (if 0 < ra_created acc + ra_updated acc then RUN_BREAK else RUN_PASS),
               re_walletsChecked = length (wallets_to_check ?b), re_opened = ra_created acc,
               re_reObserved = ra_updated acc, re_healed = n, re_orphanInternal = ra_orphanInternal acc,
               re_orphanExternal = ra_orphanExternal acc, re_mismatch = ra_mismatch acc\<rparr>))))
      (\<lambda>r t. run_reports s cutoff r t) (\<lambda>_ _. True) t"
    if t: "same_tables s t" for runId t
    unfolding wp_bind wp_andThen wp_ret wp_autoHeal
  proof (rule wp_mono[OF wp_loop[OF t assms]], rule wp_mono[OF wp_finishRun])
    fix acc u v
    assume J: "checked s runId cutoff ?b (wallets_to_check ?b) acc u"
      and v: "same_tables (healed runId ?d (ra_breaking acc) u) v"
    have ok: "cases_ok u" and own: "own_cases ?d u" and brk: "ra_breaking acc = breaking_wallets s cutoff"
      using J assms(2) by (simp_all add: checked_def breaking_wallets_def Let_def)
    have "open_wallets ?d v = open_wallets ?d (healed runId ?d (ra_breaking acc) u)"
      using v by (simp add: open_wallets_def same_tables_def)
    also have "\<dots> = set (breaking_wallets s cutoff)"
      using J unfolding healed_open[OF ok own] brk by (auto simp: checked_def breaking_wallets_def Let_def)
    finally have opens: "open_wallets ?d v = set (breaking_wallets s cutoff)" .
    have "shown s runId cutoff ?b w v" if "w \<in> set (breaking_wallets s cutoff)" for w
    proof -
      have "shown s runId cutoff ?b w u"
        using J that by (simp add: checked_def breaking_wallets_def Let_def)
      then show ?thesis
        using that brk by (intro shown_same[OF v] healed_shown ok) simp_all
    qed
    moreover have "ra_created acc + ra_updated acc = length (breaking_wallets s cutoff)"
      using J by (simp add: checked_def breaking_wallets_def Let_def)
    moreover from this have "0 < ra_created acc + ra_updated acc \<longleftrightarrow> breaking_wallets s cutoff \<noteq> []"
      by (simp only: length_greater_0_conv)
    ultimately show "run_reports s cutoff \<lparr>re_runId = runId,
        re_status = (if 0 < ra_created acc + ra_updated acc then RUN_BREAK else RUN_PASS),
        re_walletsChecked = length (wallets_to_check ?b), re_opened = ra_created acc,
        re_reObserved = ra_updated acc, re_healed = length (filter (stale_case ?d (ra_breaking acc)) (cases u)),
        re_orphanInternal = ra_orphanInternal acc, re_orphanExternal = ra_orphanExternal acc,
        re_mismatch = ra_mismatch acc\<rparr> v"
      using opens by (simp add: run_reports_def)
  qed simp_all
  have start: "filter (\<lambda>b. xb_cutoffDate b = ?d \<and> xb_walletRef b \<noteq> None) (xbalances t) = ?b" if "same_tables s t" for t
    using that by (simp add: day_balances_def same_tables_def same_inputs_def)
  have after: "wp (if breaks \<noteq> [] then andThen (finishRun (rr_id row) RUN_INTERNAL_BREAK 0 0 0)
            (ret \<lparr>re_runId = rr_id row, re_status = RUN_INTERNAL_BREAK, re_walletsChecked = 0, re_opened = 0,
                  re_reObserved = 0, re_healed = 0, re_orphanInternal = 0, re_orphanExternal = 0, re_mismatch = 0\<rparr>)
        else m) (\<lambda>r t. re_status r \<noteq> RUN_INTERNAL_BREAK \<longrightarrow> run_reports s cutoff r t) (\<lambda>_ _. True) t"
    if "wp m (\<lambda>r t. run_reports s cutoff r t) (\<lambda>_ _. True) t" for breaks row m t
  proof (cases "breaks = []")
    case True
    then show ?thesis
      using that by (simp, elim wp_mono) simp_all
  next
    case False
    then show ?thesis
      by simp
  qed
  show ?thesis
    unfolding run_recon_def Let_def wp_bind[of "createRun _ _"]
  proof (rule wp_mono[OF wp_createRun], unfold wp_bind[of computeInternalIdentity], rule wp_mono[OF wp_identity])
    fix row t breaks u
    assume t: "same_tables s t" and u: "u = t"
    show "wp (if breaks \<noteq> [] then andThen (finishRun (rr_id row) RUN_INTERNAL_BREAK 0 0 0)
            (ret \<lparr>re_runId = rr_id row, re_status = RUN_INTERNAL_BREAK, re_walletsChecked = 0, re_opened = 0,
                  re_reObserved = 0, re_healed = 0, re_orphanInternal = 0, re_orphanExternal = 0, re_mismatch = 0\<rparr>)
        else bind (gets (\<lambda>s. filter (\<lambda>b. xb_cutoffDate b = ?d \<and> xb_walletRef b \<noteq> None) (xbalances s))) (\<lambda>balances.
          bind (foldC (check_wallet (rr_id row) ?d cutoff balances)
              \<lparr>ra_created = 0, ra_updated = 0, ra_orphanInternal = 0, ra_orphanExternal = 0, ra_mismatch = 0,
               ra_breaking = []\<rparr> (wallets_to_check balances)) (\<lambda>acc.
          bind (autoHealCases (rr_id row) ?d (ra_breaking acc)) (\<lambda>healed.
          andThen (finishRun (rr_id row) (if 0 < ra_created acc + ra_updated acc then RUN_BREAK else RUN_PASS)
              (ra_created acc) (ra_updated acc) healed)
             (ret \<lparr>re_runId = rr_id row, re_status = (if 0 < ra_created acc + ra_updated acc then RUN_BREAK else RUN_PASS),
                   re_walletsChecked = length (wallets_to_check balances),
                   re_opened = ra_created acc, re_reObserved = ra_updated acc, re_healed = healed,
                   re_orphanInternal = ra_orphanInternal acc, re_orphanExternal = ra_orphanExternal acc,
                   re_mismatch = ra_mismatch acc\<rparr>)))))
        (\<lambda>r t. re_status r \<noteq> RUN_INTERNAL_BREAK \<longrightarrow> run_reports s cutoff r t) (\<lambda>_ _. True) u"
      unfolding u by (rule after) (simp only: wp_bind[of "gets f" for f] wp_gets start[OF t], rule rest[OF t])
  qed simp_all
qed

section \<open>Properties\<close>

text \<open>The matcher's results as a partition, with the reason of every pair.\<close>

lemma matching_partition:
  assumes "distinct (map flow_key (flows d))" "distinct (map sl_id ls)"
    and m: "m = matchFlows walletRef ls cutoff (Some minutes) d"
  shows "mset (map mp_flow (mr_matched m)) + mset (map mm_flow (mr_mismatch m)) + mset (map oi_flow (mr_orphanInternal m))
      = mset (map flow_key (matcher_internal walletRef cutoff d))"
    "mset (map mp_line (mr_matched m)) + mset (map mm_line (mr_mismatch m)) + mset (map oe_line (mr_orphanExternal m))
      = mset (map sl_id ls)"
    "\<forall>p\<in>set (mr_matched m). pair_explained (minutes * 60000) (matcher_internal walletRef cutoff d) ls p"
    "\<forall>p\<in>set (mr_mismatch m). mismatch_explained (matcher_internal walletRef cutoff d) ls p"
    "\<forall>f\<in>set (matcher_internal walletRef cutoff d). \<forall>e\<in>set ls. flow_key f \<in> oi_flow ` set (mr_orphanInternal m)
      \<longrightarrow> sl_id e \<in> oe_line ` set (mr_orphanExternal m) \<longrightarrow> \<not> ref_fits f e \<and> \<not> fuzzy_fits (minutes * 60000) f e"
proof -
  let ?i = "matcher_internal walletRef cutoff d" and ?w = "minutes * 60000"
  let ?s = "match_passes ?w ?i ls"
  have dist: "distinct (map flow_key ?i)"
    using assms(1) by (auto simp: matcher_internal_def crossing_flows_def distinct_map intro: inj_on_subset)
  have m': "m = matcher_output ?i ls ?s"
    by (simp add: m matchFlows_def Let_def mult.commute)
  from passes_settled[OF dist assms(2) HOL.refl, of ?w]
  have settled: "settled flow_key sl_id ?i ls (ms_usedInternal ?s) (ms_usedExternal ?s) (state_pairs ?s)"
    and missed: "no_missed flow_key sl_id ref_fits ?i ls (ms_usedInternal ?s) (ms_usedExternal ?s)"
      "no_missed flow_key sl_id (fuzzy_fits ?w) ?i ls (ms_usedInternal ?s) (ms_usedExternal ?s)"
    by blast+
  have fst: "image_mset fst (state_pairs ?s) = mset (map mp_flow (mr_matched m)) + mset (map mm_flow (mr_mismatch m))"
    by (simp add: state_pairs_def m' matcher_output_def image_mset.compositionality comp_def)
  have snd: "(\<Sum>p\<in>#state_pairs ?s. mset (snd p)) = mset (map mp_line (mr_matched m)) + mset (map mm_line (mr_mismatch m))"
    by (simp add: state_pairs_def m' matcher_output_def image_mset.compositionality comp_def)
  have oi: "map oi_flow (mr_orphanInternal m) = map flow_key (filter (\<lambda>f. flow_key f \<notin> ms_usedInternal ?s) ?i)"
    by (simp add: m' matcher_output_def)
  have oe: "map oe_line (mr_orphanExternal m) = map sl_id (filter (\<lambda>e. sl_id e \<notin> ms_usedExternal ?s) ls)"
    by (simp add: m' matcher_output_def)
  have one: "mset (map mp_flow (mr_matched m)) + mset (map mm_flow (mr_mismatch m)) + mset (map oi_flow (mr_orphanInternal m))
      = mset (map flow_key ?i)"
    using settled unfolding settled_def accounted_def fst oi by blast
  have two: "mset (map mp_line (mr_matched m)) + mset (map mm_line (mr_mismatch m)) + mset (map oe_line (mr_orphanExternal m))
      = mset (map sl_id ls)"
    using settled unfolding settled_def accounted_def snd oe by blast
  have expl: "\<forall>p\<in>set (mr_matched m). pair_explained ?w ?i ls p" "\<forall>p\<in>set (mr_mismatch m). mismatch_explained ?i ls p"
    using passes_explained[of ?w ?i ls] by (simp_all add: m' matcher_output_def)
  have left: "flow_key f \<in> oi_flow ` set (mr_orphanInternal m) \<Longrightarrow> flow_key f \<notin> ms_usedInternal ?s"
    "sl_id e \<in> oe_line ` set (mr_orphanExternal m) \<Longrightarrow> sl_id e \<notin> ms_usedExternal ?s" for f e
    using arg_cong[OF oi, of set] arg_cong[OF oe, of set] by auto
  have no_miss: "\<forall>f\<in>set ?i. \<forall>e\<in>set ls. flow_key f \<in> oi_flow ` set (mr_orphanInternal m)
      \<longrightarrow> sl_id e \<in> oe_line ` set (mr_orphanExternal m) \<longrightarrow> \<not> ref_fits f e \<and> \<not> fuzzy_fits ?w f e"
    using left missed unfolding no_missed_def by blast
  show "mset (map mp_flow (mr_matched m)) + mset (map mm_flow (mr_mismatch m)) + mset (map oi_flow (mr_orphanInternal m))
      = mset (map flow_key (matcher_internal walletRef cutoff d))"
    "mset (map mp_line (mr_matched m)) + mset (map mm_line (mr_mismatch m)) + mset (map oe_line (mr_orphanExternal m))
      = mset (map sl_id ls)"
    "\<forall>p\<in>set (mr_matched m). pair_explained (minutes * 60000) (matcher_internal walletRef cutoff d) ls p"
    "\<forall>p\<in>set (mr_mismatch m). mismatch_explained (matcher_internal walletRef cutoff d) ls p"
    "\<forall>f\<in>set (matcher_internal walletRef cutoff d). \<forall>e\<in>set ls. flow_key f \<in> oi_flow ` set (mr_orphanInternal m)
      \<longrightarrow> sl_id e \<in> oe_line ` set (mr_orphanExternal m) \<longrightarrow> \<not> ref_fits f e \<and> \<not> fuzzy_fits (minutes * 60000) f e"
    by (fact one, fact two, fact expl(1), fact expl(2), fact no_miss)
qed

text \<open>C28. For flows with distinct keys and lines with distinct ids, the matcher puts every owned crossing flow and every line
  in exactly one of its results; a pair matched by reference has the same reference, direction and amount, a fuzzy pair
  the same direction and amount within the time window, a mismatch the same reference and direction but
  another amount; and no flow left over fits a line left over, by reference or by amount and time.\<close>

theorem statement_matching_is_one_to_one:
  assumes "distinct (map flow_key (flows d))" "distinct (map sl_id ls)"
    and m: "m = matchFlows walletRef ls cutoff (Some minutes) d"
  shows "(mset (map mp_flow (mr_matched m)) + mset (map mm_flow (mr_mismatch m)) + mset (map oi_flow (mr_orphanInternal m))
      = mset (map flow_key (matcher_internal walletRef cutoff d)))
    \<and> (mset (map mp_line (mr_matched m)) + mset (map mm_line (mr_mismatch m)) + mset (map oe_line (mr_orphanExternal m))
      = mset (map sl_id ls))
    \<and> (\<forall>p\<in>set (mr_matched m). pair_explained (minutes * 60000) (matcher_internal walletRef cutoff d) ls p)
    \<and> (\<forall>p\<in>set (mr_mismatch m). mismatch_explained (matcher_internal walletRef cutoff d) ls p)
    \<and> (\<forall>f\<in>set (matcher_internal walletRef cutoff d). \<forall>e\<in>set ls.
      flow_key f \<in> oi_flow ` set (mr_orphanInternal m) \<longrightarrow> sl_id e \<in> oe_line ` set (mr_orphanExternal m)
      \<longrightarrow> \<not> ref_fits f e \<and> \<not> fuzzy_fits (minutes * 60000) f e)"
  using matching_partition[OF assms] by blast

text \<open>C29. The balance check fails with a SyntaxError exactly when a posted flow of the wallet on an own account is a fraction or has
  22 digits; otherwise its total is the sum of the signed amounts of the wallet's posted flows on the accounts of
  its kind (customer as soon as one flow is on a customer account), and it passes exactly when that is the closing
  balance.\<close>

theorem balance_check_sums_own_flows:
  "case checkBalance walletRef closing cutoff d s of
     (Inl e, s') \<Rightarrow> s' = s \<and> e = SyntaxError ''BigInt''
       \<and> (\<exists>f\<in>set (posted_flows walletRef cutoff d). counted d f \<and> bigint_of (fl_amount f) = None)
   | (Inr r, s') \<Rightarrow> s' = s
       \<and> bk_kind r = kind_of d (posted_flows walletRef cutoff d)
       \<and> bk_total r = wallet_units d (posted_flows walletRef cutoff d)
       \<and> bk_delta r = closing - bk_total r
       \<and> bk_pass r = (closing = bk_total r)
       \<and> \<not> (\<exists>f\<in>set (posted_flows walletRef cutoff d). counted d f \<and> bigint_of (fl_amount f) = None)"
  using wp_checkBalance[of walletRef closing cutoff d s]
  by (auto simp: wp_def split: sum.splits prod.splits)

text \<open>C10. When a run gets past the identity check and returns, the wallets with an open case of the day are exactly those
  whose closing balance differs from their flows or whose flows do not match; each of these cases shows the run's
  measurement and line items; the counters add up, and the run passes exactly when no wallet breaks.\<close>

theorem run_leaves_exactly_the_breaks_open:
  assumes "cases_ok s" "own_cases (toBusinessDate cutoff) s"
    and "run_recon cutoff manifest s = (Inr r, t)" "re_status r \<noteq> RUN_INTERNAL_BREAK"
  shows "run_reports s cutoff r t"
  using wp_result(1)[OF assms(3) run_effect[OF assms(1,2)]] assms(4) by blast

text \<open>The life of the tables: runs, and anything that happens to the inputs between them.\<close>

inductive recon_life :: "recon \<Rightarrow> recon \<Rightarrow> bool" where
  life_refl: "recon_life s s"
| life_run: "recon_life s t \<Longrightarrow> run_recon cutoff manifest t = (r, u) \<Longrightarrow> recon_life s u"
| life_inputs: "recon_life s t \<Longrightarrow> cases u = cases t \<Longrightarrow> items u = items t \<Longrightarrow> recon_life s u"

text \<open>C30. Over any sequence of runs, also failing ones, with any inputs in between, there is at most one open case per wallet and
  day, case ids and numbers stay unique, every line item belongs to a case; a case keeps its wallet, day, number and first
  observer, and a resolved case is never touched again.\<close>

theorem cases_only_move_forward:
  "recon_life s t \<Longrightarrow> cases_ok s \<Longrightarrow> cases_ok t \<and> (\<forall>c\<in>set (cases s). \<exists>c'\<in>set (cases t). case_moves c c')"
proof (induction rule: recon_life.induct)
  case (life_refl s)
  then show ?case
    using case_moves_refl by blast
next
  case (life_run s t cutoff manifest r u)
  have "recon_step t u"
    using stepsD[OF run_step life_run.hyps(2)] .
  then show ?case
    using life_run.IH[OF life_run.prems] case_moves_trans unfolding recon_step_def by meson
next
  case (life_inputs s t u)
  then show ?case
    by (simp add: cases_ok_def)
qed

text \<open>A wallet whose balance is missing or has an unknown currency is not checked at all, and yet its open case of the day is
  resolved as healed by every run that gets past the identity check.\<close>

theorem unchecked_wallet_is_healed:
  assumes "cases_ok s" "own_cases (toBusinessDate cutoff) s"
    and "c \<in> set (cases s)" "open_case w (toBusinessDate cutoff) c"
    and skipped: "\<forall>b\<in>set (day_balances (toBusinessDate cutoff) s). xb_walletRef b = Some w
        \<longrightarrow> resolveAssetId (xb_currency b) (base s) = None"
    and run: "run_recon cutoff manifest s = (Inr r, t)" "re_status r \<noteq> RUN_INTERNAL_BREAK"
  shows "\<exists>c'\<in>set (cases t). rc_id c' = rc_id c \<and> rc_status c' = ''RESOLVED'' \<and> rc_resolution c' = Some ''AUTO_HEALED''"
proof -
  have "recon_step s t"
    using stepsD[OF run_step run(1)] .
  then obtain c' where c': "c' \<in> set (cases t)" "case_moves c c'"
    using assms(1,3) by (auto simp: recon_step_def)
  have "w \<notin> set (breaking_wallets s cutoff)"
    using skipped by (auto simp: breaking_wallets_def breaking_def Let_def find_Some_iff)
  then have "w \<notin> open_wallets (toBusinessDate cutoff) t"
    using wp_result(1)[OF run(1) run_effect[OF assms(1,2)]] run(2) by (simp add: run_reports_def)
  then have "\<not> open_case w (toBusinessDate cutoff) c'"
    using c'(1) by (auto simp: open_wallets_def)
  moreover have "wallet_day c' = (Some w, toBusinessDate cutoff)"
    using assms(4) c'(2) by (simp add: case_moves_def open_case_def wallet_day_def)
  ultimately have "rc_status c' \<noteq> ''OPEN''"
    by (auto simp: open_case_def wallet_day_def)
  then show ?thesis
    using c' assms(4) by (auto simp: case_moves_def open_case_def)
qed

text \<open>C31. A posted, externally crossing flow of a wallet on one of its own accounts, whose account is registered under
  an id shorter than 32 digits, is counted by the balance checker and dropped by the matcher, which asks the
  registry for the padded id only: the checker's total is the flow's signed amount plus the amounts of the
  wallet's other flows, while the flow appears in none of the matcher's results, and every statement line that
  fits no other flow is reported as an orphan.\<close>

theorem matcher_drops_flows_the_checker_counts:
  assumes "f \<in> set (crossing_flows walletRef cutoff d)"
    and "on_codes d (kind_codes (kind_of d (posted_flows walletRef cutoff d))) f"
    and "find_tb_account (padId (fl_accountId f)) d = None"
    and "distinct (map flow_key (flows d))" "distinct (map sl_id ls)"
    and "checkBalance walletRef closing cutoff d s = (Inr b, s')"
    and "m = matchFlows walletRef ls cutoff (Some minutes) d"
  shows "bk_total b = flow_units f + (\<Sum>g\<leftarrow>remove1 f (filter (on_codes d (kind_codes (bk_kind b)))
        (posted_flows walletRef cutoff d)). flow_units g)
    \<and> flow_key f \<notin> mp_flow ` set (mr_matched m) \<union> mm_flow ` set (mr_mismatch m) \<union> oi_flow ` set (mr_orphanInternal m)
    \<and> (\<forall>e\<in>set ls. (\<forall>g\<in>set (matcher_internal walletRef cutoff d). \<not> ref_fits g e \<and> \<not> fuzzy_fits (minutes * 60000) g e)
        \<longrightarrow> sl_id e \<in> oe_line ` set (mr_orphanExternal m))"
proof (intro conjI ballI impI)
  let ?i = "matcher_internal walletRef cutoff d" and ?p = "posted_flows walletRef cutoff d"
  note matching = matching_partition[OF assms(4,5,7)]
  have b: "bk_kind b = kind_of d ?p" "bk_total b = wallet_units d ?p"
    using wp_result(1)[OF assms(6) wp_checkBalance] by simp_all
  have "f \<in> set (filter (on_codes d (kind_codes (bk_kind b))) ?p)"
    using assms(1,2) b(1) by (auto simp: crossing_flows_def posted_flows_def)
  then show "bk_total b = flow_units f + (\<Sum>g\<leftarrow>remove1 f (filter (on_codes d (kind_codes (bk_kind b))) ?p). flow_units g)"
    using sum_list_map_remove1[of f "filter (on_codes d (kind_codes (bk_kind b))) ?p" flow_units] b
    by (simp add: wallet_units_def)
  have "reg_of d (fl_accountId f) = None"
    using assms(3) by (simp add: reg_of_def find_tb_account_def by_id_def)
  then have "f \<notin> set ?i"
    by (simp add: matcher_internal_def owned_flow_def)
  moreover have "g = f" if "g \<in> set ?i" "flow_key g = flow_key f" for g
    using assms(1,4) that by (auto simp: matcher_internal_def crossing_flows_def distinct_map inj_on_def)
  ultimately have "flow_key f \<notin> set (map flow_key ?i)"
    by auto
  then show "flow_key f \<notin> mp_flow ` set (mr_matched m) \<union> mm_flow ` set (mr_mismatch m) \<union> oi_flow ` set (mr_orphanInternal m)"
    using arg_cong[OF matching(1), of set_mset] by simp
  fix e
  assume e: "e \<in> set ls" "\<forall>g\<in>set ?i. \<not> ref_fits g e \<and> \<not> fuzzy_fits (minutes * 60000) g e"
  have same: "x = e" if "x \<in> set ls" "sl_id x = sl_id e" for x
    using assms(5) e(1) that by (auto simp: distinct_map inj_on_def)
  have "sl_id e \<notin> mp_line ` set (mr_matched m)"
    using matching(3) e(2) same by (fastforce simp: pair_explained_def split: if_splits)
  moreover have "sl_id e \<notin> mm_line ` set (mr_mismatch m)"
    using matching(4) e(2) same by (fastforce simp: mismatch_explained_def)
  moreover have "sl_id e \<in> mp_line ` set (mr_matched m) \<union> mm_line ` set (mr_mismatch m) \<union> oe_line ` set (mr_orphanExternal m)"
    using arg_cong[OF matching(2), of set_mset] e(1) by auto
  ultimately show "sl_id e \<in> oe_line ` set (mr_orphanExternal m)"
    by blast
qed

section \<open>Witnesses\<close>

definition demo_account :: tb_account where
  "demo_account = \<lparr>r_id = replicate 30 (CHR ''0'') @ ''a1'', r_code = 100, r_ledger = 2, r_ownerType = ''CUSTOMER'',
     r_ownerUuid = None, r_ownerNo = Some ''C1'', r_assetCode = ''USDT'', r_status = ''ACTIVE'',
     r_description = None, r_flags = 0\<rparr>"

definition demo_flow :: account_flow where
  "demo_flow = \<lparr>fl_transferId = ''T1'', fl_accountId = replicate 30 (CHR ''0'') @ ''a1'', fl_walletRef = Some ''W1'',
     fl_direction = ''IN'', fl_amount = 100, fl_crossing = True, fl_externalRef = Some ''tx1'', fl_eventCode = ''DEPOSIT'',
     fl_sourceType = ''DEPOSIT'', fl_sourceNo = ''D1'', fl_transferType = ''POSTED'', fl_assetCode = ''USDT'',
     fl_createdAt = 0\<rparr>"

definition demo_line :: statement_line where
  "demo_line = \<lparr>sl_id = ''L1'', sl_direction = ''IN'', sl_amount = 100, sl_externalRef = Some ''tx1'', sl_datetime = 0\<rparr>"

definition demo_db :: db where
  "demo_db = empty_db\<lparr>assets := [usdt], flows := [demo_flow], registry := [demo_account]\<rparr>"

definition demo_balance :: external_balance where
  "demo_balance = \<lparr>xb_accountRef = ''A1'', xb_currency = ''USDT-TRON'', xb_book = ''CLIENT'',
     xb_cutoffDate = ''1970-01-01'', xb_closing = 90, xb_walletRef = Some ''W1''\<rparr>"

definition demo_recon :: recon where
  "demo_recon = \<lparr>base = demo_db, xbalances = [demo_balance], xlines = [], runs = [], cases = [], items = [],
     rclock = 500, ruuid_src = (\<lambda>n. replicate (Suc n) (CHR ''u'')), ruuid_pos = 0, lookup = (\<lambda>_. Some [])\<rparr>"

definition demo_case :: recon_case where
  "demo_case = \<lparr>rc_id = ''K1'', rc_no = ''REC19700101-001'', rc_businessDate = ''1970-01-01'', rc_assetId = ''USDT'',
     rc_assetCode = ''USDT-TRON'', rc_layer = ''WALLET'', rc_book = None, rc_tbAmount = 0, rc_inTransit = 0,
     rc_expected = 0, rc_actual = 5, rc_delta = 5, rc_status = ''OPEN'', rc_openedBy = ''R0'', rc_closedBy = None,
     rc_lastObserved = None, rc_traceId = None, rc_walletRef = Some ''W2'', rc_coaCode = None, rc_ownerNo = None,
     rc_firstSeen = Some ''R0'', rc_lastUpdated = None, rc_resolvedAt = None, rc_resolution = None,
     rc_severity = None\<rparr>"

lemma epoch_date: "toBusinessDate 0 = ''1970-01-01''"
  by code_simp

lemma demo_id: "hexToBigint (r_id demo_account) = Some 161"
  by code_simp

lemma demo_keys: "distinct (map flow_key (flows demo_db))"
  by (simp add: demo_db_def)

lemma demo_internal: "matcher_internal ''W1'' 0 demo_db = [demo_flow]"
  by (simp add: matcher_internal_def crossing_flows_def demo_db_def demo_flow_def owned_flow_def reg_of_def
      demo_account_def padId_def OWNED_CODES_def)

theorem statement_matching_is_one_to_one_witness:
  "mset (map mp_line (mr_matched (matchFlows ''W1'' [demo_line] 0 (Some 60) demo_db)))
     + mset (map mm_line (mr_mismatch (matchFlows ''W1'' [demo_line] 0 (Some 60) demo_db)))
     + mset (map oe_line (mr_orphanExternal (matchFlows ''W1'' [demo_line] 0 (Some 60) demo_db))) = {#''L1''#}
   \<and> length (matcher_internal ''W1'' 0 demo_db) = 1"
  using statement_matching_is_one_to_one[OF demo_keys, of "[demo_line]" _ "''W1''" 0 60, OF _ HOL.refl]
  by (simp add: demo_internal) (simp add: demo_line_def)

lemma demo_checks: "wp (checkBalance ''W1'' x 0 demo_db) (\<lambda>r s'. s' = s) (\<lambda>_ _. False) s"
  by (rule wp_mono[OF wp_checkBalance])
    (auto simp: posted_flows_def demo_db_def demo_flow_def bigint_of_def)

lemma demo_identity: "registry (base s) = [demo_account] \<Longrightarrow> lookup s = (\<lambda>_. Some []) \<Longrightarrow>
  wp computeInternalIdentity Q E s = Q [] s"
  by (simp add: computeInternalIdentity_def demo_id)
    (simp add: demo_account_def ledger_table_def group_rows_def account_balance_def balance_in_def add_balance_def
      ledger_zero_def breaks_of_def)

lemma demo_check:
  assumes "base s = demo_db" "cases s = []"
  shows "wp (check_wallet runId ''1970-01-01'' 0 [demo_balance] acc ''W1'') (\<lambda>a t. runs t = runs s) (\<lambda>_ _. False) s"
proof -
  have "resolveAssetId ''USDT-TRON'' demo_db = Some ''USDT''"
    by (simp add: resolveAssetId_def demo_db_def usdt_def)
  moreover have "bigint_of 90 = Some 90"
    by (simp add: bigint_of_def)
  ultimately show ?thesis
    unfolding check_wallet_def
    by (simp add: demo_balance_def assms Let_def, intro wp_mono[OF demo_checks])
      (simp_all add: upsertCaseForWallet_def insert_case_def assms)
qed

lemma demo_run: "wp (run_recon 0 manifest) (\<lambda>r t. re_status r \<noteq> RUN_INTERNAL_BREAK) (\<lambda>_ _. False) demo_recon"
proof -
  have wallets: "wallets_to_check [demo_balance] = [''W1'']"
    by (simp add: wallets_to_check_def demo_balance_def js_set_def)
  have bal: "xb_cutoffDate demo_balance = ''1970-01-01''" "xb_walletRef demo_balance = Some ''W1''"
    by (simp_all add: demo_balance_def)
  show ?thesis
    unfolding run_recon_def Let_def epoch_date
    by (simp add: createRun_def insert_run_def Let_def demo_recon_def demo_db_def demo_identity bal wallets,
        rule wp_mono[OF demo_check])
      (simp_all add: demo_db_def finishRun_def healed_def by_id_def)
qed

lemma demo_recon_ok: "cases_ok demo_recon" "own_cases d demo_recon"
  by (simp_all add: demo_recon_def cases_ok_def own_cases_def)

theorem run_leaves_exactly_the_breaks_open_witness:
  "\<exists>r t. run_recon 0 None demo_recon = (Inr r, t) \<and> run_reports demo_recon 0 r t"
proof -
  from wp_returns[OF demo_run[of None]] obtain r t where
    "run_recon 0 None demo_recon = (Inr r, t)" "re_status r \<noteq> RUN_INTERNAL_BREAK"
    by blast
  then show ?thesis
    using run_leaves_exactly_the_breaks_open[OF demo_recon_ok] by blast
qed

theorem cases_only_move_forward_witness:
  "cases_ok (snd (run_recon 0 None demo_recon))"
proof -
  have "recon_life demo_recon (snd (run_recon 0 None demo_recon))"
    by (rule life_run[OF life_refl surjective_pairing])
  then show ?thesis
    using cases_only_move_forward demo_recon_ok(1) by blast
qed

text \<open>The same state without the balance and with an open case of another wallet.\<close>

definition idle_recon :: recon where
  "idle_recon = demo_recon\<lparr>xbalances := [], cases := [demo_case]\<rparr>"

lemma idle_run: "wp (run_recon 0 manifest) (\<lambda>r t. re_status r \<noteq> RUN_INTERNAL_BREAK) (\<lambda>_ _. False) idle_recon"
proof -
  have "wallets_to_check [] = []"
    by (simp add: wallets_to_check_def)
  then show ?thesis
    unfolding run_recon_def Let_def epoch_date
    by (simp add: createRun_def insert_run_def Let_def idle_recon_def demo_recon_def demo_db_def demo_identity
        finishRun_def healed_def by_id_def)
qed

theorem unchecked_wallet_is_healed_witness:
  "\<exists>t. snd (run_recon 0 None idle_recon) = t
     \<and> (\<exists>c\<in>set (cases t). rc_id c = ''K1'' \<and> rc_status c = ''RESOLVED'' \<and> rc_resolution c = Some ''AUTO_HEALED'')"
proof -
  from wp_returns[OF idle_run[of None]] obtain r t where
    run: "run_recon 0 None idle_recon = (Inr r, t)" "re_status r \<noteq> RUN_INTERNAL_BREAK"
    by blast
  have ok: "cases_ok idle_recon" "own_cases (toBusinessDate 0) idle_recon" "demo_case \<in> set (cases idle_recon)"
      "open_case ''W2'' (toBusinessDate 0) demo_case"
      "\<forall>b\<in>set (day_balances (toBusinessDate 0) idle_recon). xb_walletRef b = Some ''W2''
        \<longrightarrow> resolveAssetId (xb_currency b) (base idle_recon) = None"
    by (simp_all add: idle_recon_def demo_recon_def cases_ok_def own_cases_def demo_case_def RUN_LAYER_def
        open_case_def epoch_date day_balances_def)
  show ?thesis
    using unchecked_wallet_is_healed[OF ok run] run(1) by (auto simp: demo_case_def)
qed

text \<open>A deposit of 100 on an account registered as \<open>a1\<close>: the check passes against a closing balance of 100, and the
  line of the deposit is an orphan.\<close>

definition short_flow :: account_flow where
  "short_flow = demo_flow\<lparr>fl_accountId := ''a1''\<rparr>"

definition short_db :: db where
  "short_db = demo_db\<lparr>flows := [short_flow], registry := [demo_account\<lparr>r_id := ''a1''\<rparr>]\<rparr>"

lemma short_account: "find_tb_account ''a1'' short_db = Some (demo_account\<lparr>r_id := ''a1''\<rparr>)"
  "find_tb_account (padId ''a1'') short_db = None"
  by (simp_all add: short_db_def find_tb_account_def by_id_def padId_def pad_start_def)

lemma short_posted: "posted_flows ''W1'' 0 short_db = [short_flow]" "crossing_flows ''W1'' 0 short_db = [short_flow]"
  by (simp_all add: posted_flows_def crossing_flows_def short_db_def short_flow_def demo_flow_def)

lemma short_codes: "on_codes short_db CUSTOMER_CODES short_flow"
  using short_account(1) by (simp add: on_codes_def short_flow_def demo_account_def CUSTOMER_CODES_def)

lemma short_internal: "matcher_internal ''W1'' 0 short_db = []"
  using short_account(2) by (simp add: matcher_internal_def short_posted owned_flow_def reg_of_def short_flow_def
      find_tb_account_def by_id_def)

theorem matcher_drops_flows_the_checker_counts_witness:
  "\<exists>b. checkBalance ''W1'' 100 0 short_db () = (Inr b, ()) \<and> bk_total b = 100
     \<and> ''L1'' \<in> oe_line ` set (mr_orphanExternal (matchFlows ''W1'' [demo_line] 0 (Some 60) short_db))"
proof -
  have "wp (checkBalance ''W1'' 100 0 short_db) (\<lambda>_ _. True) (\<lambda>_ _. False) ()"
    by (rule wp_mono[OF wp_checkBalance]) (auto simp: short_posted short_flow_def demo_flow_def bigint_of_def)
  then obtain b where b: "checkBalance ''W1'' 100 0 short_db () = (Inr b, ())"
    using wp_returns by fastforce
  have "on_codes short_db (kind_codes (kind_of short_db (posted_flows ''W1'' 0 short_db))) short_flow"
    using short_codes by (simp add: kind_of_def short_posted)
  moreover have "short_flow \<in> set (crossing_flows ''W1'' 0 short_db)" "find_tb_account (padId (fl_accountId short_flow)) short_db = None"
    "distinct (map flow_key (flows short_db))" "distinct (map sl_id [demo_line])"
    using short_account(2) by (simp_all add: short_posted) (simp_all add: short_db_def short_flow_def)
  ultimately have drop: "bk_total b = flow_units short_flow + (\<Sum>g\<leftarrow>remove1 short_flow
        (filter (on_codes short_db (kind_codes (bk_kind b))) (posted_flows ''W1'' 0 short_db)). flow_units g)
      \<and> flow_key short_flow \<notin> mp_flow ` set (mr_matched (matchFlows ''W1'' [demo_line] 0 (Some 60) short_db))
          \<union> mm_flow ` set (mr_mismatch (matchFlows ''W1'' [demo_line] 0 (Some 60) short_db))
          \<union> oi_flow ` set (mr_orphanInternal (matchFlows ''W1'' [demo_line] 0 (Some 60) short_db))
      \<and> (\<forall>e\<in>set [demo_line]. (\<forall>g\<in>set (matcher_internal ''W1'' 0 short_db). \<not> ref_fits g e \<and> \<not> fuzzy_fits (60 * 60000) g e)
        \<longrightarrow> sl_id e \<in> oe_line ` set (mr_orphanExternal (matchFlows ''W1'' [demo_line] 0 (Some 60) short_db)))"
    by (intro matcher_drops_flows_the_checker_counts[OF _ _ _ _ _ b HOL.refl])
  have "remove1 short_flow (filter (on_codes short_db (kind_codes (bk_kind b))) [short_flow]) = []"
    by simp
  then have "bk_total b = flow_units short_flow"
    using conjunct1[OF drop] unfolding short_posted by simp
  moreover have "sl_id demo_line \<in> oe_line ` set (mr_orphanExternal (matchFlows ''W1'' [demo_line] 0 (Some 60) short_db))"
    using drop by (simp add: short_internal)
  then have "''L1'' \<in> oe_line ` set (mr_orphanExternal (matchFlows ''W1'' [demo_line] 0 (Some 60) short_db))"
    by (simp only: demo_line_def statement_line.simps)
  ultimately have "bk_total b = flow_units short_flow \<and> ''L1'' \<in> oe_line ` set (mr_orphanExternal (matchFlows ''W1'' [demo_line] 0 (Some 60) short_db))"
    by blast
  then show ?thesis
    using b by (simp add: flow_units_def short_flow_def demo_flow_def)
qed

end
