(* ===== verification/Decimals.thy ===== *)
theory Decimals
  imports Money
begin

text \<open>
  The printed form of a decimal and the numbers of JavaScript, as the rail services use them:
  \<open>String(decimal)\<close> of decimal.js with its exponential notation, the conversion to ledger units of the
  withdrawal services that cuts that text (\<open>decimalToBigint\<close> of withdraw-workflow.service.ts, which does
  not print with \<open>toFixed\<close> first), \<open>Number(decimal)\<close> with the text a number prints as, and the string
  methods \<open>trim\<close>, \<open>toLowerCase\<close>.
\<close>

section \<open>Strings\<close>

definition js_space :: "char \<Rightarrow> bool" where
  "js_space c = (let k = of_char c :: nat in (9 \<le> k \<and> k \<le> 13) \<or> k = 32 \<or> k = 160)"

definition js_trim :: "string \<Rightarrow> string" where
  "js_trim s = rev (dropWhile js_space (rev (dropWhile js_space s)))"

definition to_lower :: "string \<Rightarrow> string" where
  "to_lower s = map (\<lambda>c. let k = of_char c :: nat in
     if 65 \<le> k \<and> k \<le> 90 then char_of (k + 32) else c) s"

section \<open>The text of a decimal\<close>

text \<open>A decimal is \<^emph>\<open>N / 10 ^ k\<close> with the fewest fraction digits \<^emph>\<open>k\<close>: every step takes the common factor
  with ten out of the denominator.\<close>

function places_of :: "nat \<Rightarrow> nat" where
  "places_of q = (if q = 0 \<or> gcd q 10 = 1 then 0 else Suc (places_of (q div gcd q 10)))"
  by auto

termination
proof (relation "measure id")
  fix q :: nat
  assume "\<not> (q = 0 \<or> gcd q 10 = 1)"
  moreover then have "gcd q 10 > 1"
    by (metis gcd_nat.neutr_eq_iff less_one linorder_neqE_nat zero_neq_numeral)
  ultimately show "(q div gcd q 10, q) \<in> measure id"
    by simp
qed simp

declare places_of.simps [simp del]

definition places :: "rat \<Rightarrow> nat" where
  "places v = places_of (nat (snd (quotient_of v)))"

definition coefficient :: "rat \<Rightarrow> nat" where
  "coefficient v = nat \<lfloor>\<bar>v\<bar> * 10 ^ places v\<rfloor>"

text \<open>The exponent of the first digit.  \<open>toString\<close> is exponential from 1e21 up and from 1e-7 down.\<close>

definition decimal_exponent :: "rat \<Rightarrow> int" where
  "decimal_exponent v = int (length (digits 10 (coefficient v))) - 1 - int (places v)"

definition plain :: "rat \<Rightarrow> bool" where
  "plain v \<longleftrightarrow> v = 0 \<or> - 7 < decimal_exponent v \<and> decimal_exponent v < 21"

definition exponential_str :: "rat \<Rightarrow> string" where
  "exponential_str v =
     (let ds = rev (dropWhile (\<lambda>d. d = 0) (rev (digits 10 (coefficient v)))); e = decimal_exponent v in
      [digit_char (hd ds)] @ (if tl ds = [] then [] else CHR ''.'' # map digit_char (tl ds))
      @ ''e'' @ (if e < 0 then ''-'' else ''+'') @ nat_str (nat \<bar>e\<bar>))"

definition decimal_str :: "rat \<Rightarrow> string" where
  "decimal_str v =
     (if v < 0 then ''-'' else [])
     @ (if plain v then point_str (places v) (coefficient v) else exponential_str v)"

definition decimalToBigint :: "rat \<Rightarrow> nat \<Rightarrow> int option" where
  "decimalToBigint value decimals =
     (let (whole, frac) = split_point (decimal_str value);
          paddedFrac = take decimals (pad_end decimals (CHR ''0'') frac)
      in parse_bigint (whole @ paddedFrac))"

text \<open>\<open>new Prisma.Decimal(text)\<close>, with or without an exponent.\<close>

fun split_at :: "char \<Rightarrow> string \<Rightarrow> string \<times> string option" where
  "split_at c [] = ([], None)"
| "split_at c (x # xs) = (if x = c then ([], Some xs) else (let (m, r) = split_at c xs in (x # m, r)))"

definition read_exponent :: "string \<Rightarrow> int option" where
  "read_exponent t =
     (let (neg, ds) = (case t of [] \<Rightarrow> (False, []) | c # cs \<Rightarrow>
            if c = CHR ''-'' then (True, cs) else if c = CHR ''+'' then (False, cs) else (False, t))
      in if ds = [] then None
         else map_option (\<lambda>xs. (if neg then -1 else 1) * int (undigits 10 xs)) (parse_digits 10 ds))"

definition read_Decimal :: "string \<Rightarrow> rat option" where
  "read_Decimal s =
     (case split_at (CHR ''e'') s of
        (m, None) \<Rightarrow> new_Decimal m
      | (m, Some t) \<Rightarrow> (case (new_Decimal m, read_exponent t) of
            (Some x, Some e) \<Rightarrow> Some (if 0 \<le> e then x * 10 ^ nat e else x / 10 ^ nat (- e))
          | _ \<Rightarrow> None))"

section \<open>Numbers\<close>

definition scale :: "nat \<Rightarrow> int \<Rightarrow> rat \<Rightarrow> rat" where
  "scale b e x = (if 0 \<le> e then x * of_nat b ^ nat e else x / of_nat b ^ nat (- e))"

text \<open>The exponent \<^emph>\<open>e\<close> with \<open>b ^ e \<le> a < b ^ (e + 1)\<close> of a positive rational.\<close>

definition floor_log :: "nat \<Rightarrow> rat \<Rightarrow> int" where
  "floor_log b a =
     (if 1 \<le> a then int (length (digits b (nat \<lfloor>a\<rfloor>))) - 1
      else - int (length (digits b (nat (\<lceil>1 / a\<rceil> - 1)))))"

definition round_even :: "rat \<Rightarrow> int" where
  "round_even x =
     (let f = \<lfloor>x\<rfloor>; r = x - of_int f in
      if r < 1 / 2 then f else if 1 / 2 < r then f + 1 else if even f then f else f + 1)"

text \<open>The number with \<^emph>\<open>p\<close> digits to the base \<^emph>\<open>b\<close> nearest to a rational.  \<open>Number(decimal)\<close> is it with 53
  binary digits (amounts are far from the ends of the exponent range), and a number prints with the
  fewest decimal digits that name it.\<close>

definition round_digits :: "nat \<Rightarrow> nat \<Rightarrow> rat \<Rightarrow> rat" where
  "round_digits b p v =
     (if v = 0 then 0
      else (let e = floor_log b \<bar>v\<bar> - int p + 1 in
        sgn v * scale b e (of_int (round_even (scale b (- e) \<bar>v\<bar>)))))"

definition to_Number :: "rat \<Rightarrow> rat" where
  "to_Number v = round_digits 2 53 v"

text \<open>\<open>new Prisma.Decimal(number)\<close> reads the printed number.\<close>

definition number_Decimal :: "rat \<Rightarrow> rat" where
  "number_Decimal x =
     (case find (\<lambda>p. to_Number (round_digits 10 p x) = x) [1..<17] of
        None \<Rightarrow> round_digits 10 17 x | Some p \<Rightarrow> round_digits 10 p x)"

section \<open>What the cut text is worth\<close>

text \<open>Rationals that are decimals.\<close>

definition is_decimal :: "rat \<Rightarrow> bool" where
  "is_decimal v \<longleftrightarrow> (\<exists>n k. v = of_int n / 10 ^ k)"

lemma places_of_dvd: "q dvd 10 ^ k \<Longrightarrow> q dvd 10 ^ places_of q"
proof (induction q rule: places_of.induct)
  case (1 q)
  show ?case
  proof (cases "q = 0 \<or> gcd q 10 = 1")
    case True
    have "q \<noteq> 0"
      using "1.prems" by (metis dvd_0_left_iff power_not_zero zero_neq_numeral)
    then have "coprime q 10"
      using True by (metis coprime_iff_gcd_eq_1)
    then have "coprime q (10 ^ k)"
      by simp
    then have "q = 1"
      using "1.prems" by (meson coprime_absorb_left nat_dvd_1_iff_1)
    then show ?thesis
      by simp
  next
    case False
    have "q div gcd q 10 dvd 10 ^ places_of (q div gcd q 10)"
      using 1 False by (metis dvd_div_mult_self dvd_mult_left gcd_dvd1 mult.commute)
    then have "gcd q 10 * (q div gcd q 10) dvd 10 * 10 ^ places_of (q div gcd q 10)"
      by (intro mult_dvd_mono) auto
    then show ?thesis
      using False by (subst places_of.simps) simp
  qed
qed

lemma coefficient_exact:
  assumes "is_decimal v"
  shows "of_nat (coefficient v) = \<bar>v\<bar> * 10 ^ places v"
proof -
  obtain n k where v: "v = of_int n / 10 ^ k"
    using assms by (auto simp: is_decimal_def)
  obtain p q where pq: "quotient_of v = (p, q)"
    by fastforce
  have q: "0 < q" "coprime p q" "v = of_int p / of_int q"
    using pq quotient_of_denom_pos quotient_of_coprime quotient_of_div by auto
  have "(of_int (p * 10 ^ k) :: rat) = of_int (n * q)"
    using v q by (simp add: field_simps)
  then have "p * 10 ^ k = n * q"
    by (simp only: of_int_eq_iff)
  then have "q dvd p * 10 ^ k"
    by simp
  then have "q dvd 10 ^ k"
    using q(2) by (meson coprime_commute coprime_dvd_mult_right_iff)
  then have "int (nat q) dvd int (10 ^ k)"
    using q(1) by simp
  then have "nat q dvd 10 ^ places v"
    using places_of_dvd[of "nat q" k] pq by (simp only: places_def int_dvd_int_iff snd_conv)
  then obtain r where r: "(10 :: nat) ^ places v = nat q * r"
    by (auto elim: dvdE)
  have "\<bar>v\<bar> * 10 ^ places v = \<bar>of_int p / of_int q\<bar> * of_nat (nat q * r)"
    using q(3) r by (metis of_nat_numeral of_nat_power)
  also have "\<dots> = of_nat (nat \<bar>p\<bar> * r)"
    using q(1) by (simp add: abs_divide)
  finally show ?thesis
    by (simp add: coefficient_def)
qed

lemma take_pad: "length F = k \<Longrightarrow>
    take d (pad_end d (CHR ''0'') (map digit_char F)) = map digit_char (take d (F @ replicate (d - k) 0))"
  by (simp add: pad_end_def digit_char_0 take_map)

lemma undigits_prefix:
  assumes "\<And>x. x \<in> set ds \<Longrightarrow> x < 10" "j \<le> length ds"
  shows "undigits 10 (take (length ds - j) ds) = undigits 10 ds div 10 ^ j"
proof -
  have "undigits 10 (drop (length ds - j) ds) < 10 ^ j"
    using undigits_bound[of "drop (length ds - j) ds" 10] assms by (auto dest: in_set_dropD)
  moreover have "undigits 10 ds = undigits 10 (take (length ds - j) ds) * 10 ^ j + undigits 10 (drop (length ds - j) ds)"
    using undigits_append[of 10 "take (length ds - j) ds" "drop (length ds - j) ds"] assms(2) by simp
  ultimately show ?thesis
    by simp
qed

definition cut_units :: "nat \<Rightarrow> nat \<Rightarrow> nat \<Rightarrow> nat" where
  "cut_units d k n = (if k \<le> d then n * 10 ^ (d - k) else n div 10 ^ (k - d))"

lemma units_of_point_str_cut:
  "units_of_printed d ((if neg then ''-'' else []) @ point_str k n)
     = Some (if neg then - int (cut_units d k n) else int (cut_units d k n))"
proof -
  define ds where "ds = pad_digits k n"
  define W F where "W = take (length ds - k) ds" and "F = drop (length ds - k) ds"
  define R where "R = W @ take d (F @ replicate (d - k) 0)"
  have less: "x < 10" if "x \<in> set ds" for x
    using that pad_digits_less by (simp add: ds_def)
  have len: "k < length ds" "length F = k" "ds = W @ F" "undigits 10 ds = n"
    using pad_digits_length[of k n] undigits_pad[of k n] by (simp_all add: ds_def W_def F_def)
  have R: "R = (if k \<le> d then ds @ replicate (d - k) 0 else take (length ds - (k - d)) ds)"
    using len by (auto simp: R_def)
  have val: "undigits 10 R = cut_units d k n"
  proof (cases "k \<le> d")
    case True
    have "undigits 10 (replicate (d - k) 0) = 0"
      using undigits_zeros[of 10 "d - k" "[]"] by simp
    then have "undigits 10 (ds @ replicate (d - k) 0) = n * 10 ^ (d - k)"
      using len(4) by (simp only: undigits_append length_replicate add_0_right)
    then show ?thesis
      using True by (simp add: R cut_units_def)
  next
    case False
    then show ?thesis
      using undigits_prefix[of ds "k - d"] less len by (simp add: R cut_units_def)
  qed
  have small: "x < 10" if "x \<in> set R" for x
    using that less by (auto simp: R split: if_splits dest: in_set_takeD)
  have "W \<noteq> []"
    using len(1) by (auto simp: W_def)
  then have "R \<noteq> []"
    by (simp add: R_def)
  then obtain x xs where R_cons: "R = x # xs"
    by (cases R) simp
  have x: "R = x # xs" "x < 10"
    using small[of x] R_cons by simp_all
  have parse: "parse_digits 10 (map digit_char R) = Some R"
    using small by (intro parse_digits_map) auto
  have pos: "parse_bigint (map digit_char R) = Some (int (cut_units d k n))"
    unfolding parse_bigint_def using parse x val by simp
  have neg: "parse_bigint (CHR ''-'' # map digit_char R) = Some (- int (cut_units d k n))"
    unfolding parse_bigint_def using parse x val by simp
  have split: "split_point (point_str k n) = (map digit_char W, map digit_char F)"
    by (simp add: split_point_str ds_def W_def F_def)
  have joined: "map digit_char W @ take d (pad_end d (CHR ''0'') (map digit_char F)) = map digit_char R"
    using take_pad[OF len(2), of d] by (simp add: R_def)
  show ?thesis
    unfolding units_of_printed_def
    using pos neg joined by (auto simp: split_sign_point[simplified] split split_beta)
qed

lemma floor_cut:
  assumes "of_nat n = (a :: rat) * 10 ^ k"
  shows "\<lfloor>a * 10 ^ d\<rfloor> = int (cut_units d k n)"
proof (cases "k \<le> d")
  case True
  then have "a * 10 ^ d = a * 10 ^ k * 10 ^ (d - k)"
    by (simp add: mult.assoc flip: power_add)
  also have "\<dots> = of_int (int (n * 10 ^ (d - k)))"
    using assms by simp
  finally show ?thesis
    using True by (simp only: floor_of_int cut_units_def if_True)
next
  case False
  then have "a * 10 ^ d * 10 ^ (k - d) = a * 10 ^ k"
    by (simp add: mult.assoc flip: power_add)
  then have "a * 10 ^ d = of_nat n / of_nat (10 ^ (k - d))"
    using assms by (simp add: field_simps)
  then show ?thesis
    using False by (simp only: floor_divide_of_nat_eq cut_units_def if_False)
qed

text \<open>On a decimal that prints without an exponent the cut text is the truncated amount, as
  \<open>decimalToTbUnits\<close> computes it.\<close>

lemma decimalToBigint_plain:
  assumes "is_decimal v" "plain v"
  shows "decimalToBigint v d = Some (tb_units v d)"
proof -
  have "decimalToBigint v d = units_of_printed d ((if v < 0 then ''-'' else []) @ point_str (places v) (coefficient v))"
    using assms(2) by (simp add: decimalToBigint_def units_of_printed_def decimal_str_def)
  then have "decimalToBigint v d = Some (if v < 0 then - int (cut_units d (places v) (coefficient v))
      else int (cut_units d (places v) (coefficient v)))"
    unfolding units_of_point_str_cut .
  then show ?thesis
    using floor_cut[OF coefficient_exact[OF assms(1)], of d] by (cases "v < 0") (simp_all add: tb_units_def)
qed

end
