(* ===== verification/Payouts.thy ===== *)
theory Payouts
  imports FundsFlow Decimals
begin

text \<open>
  Payouts (src/src/modules/asset-treasury/payouts/payouts.service.ts): the outbound rail row of a
  withdrawal, its two transition tables, creation (once per withdrawal), the status update with its
  fallback references, the R3 guard on clearing and the debit of the customer's wallet.
\<close>

section \<open>Statuses\<close>

fun payout_status_str :: "PayoutStatus \<Rightarrow> string" where
  "payout_status_str PO_CREATED = ''CREATED''"
| "payout_status_str PO_SIGNING = ''SIGNING''"
| "payout_status_str PO_BROADCASTED = ''BROADCASTED''"
| "payout_status_str PO_CONFIRMING = ''CONFIRMING''"
| "payout_status_str PO_CONFIRMED = ''CONFIRMED''"
| "payout_status_str PO_CLEARED = ''CLEARED''"
| "payout_status_str PO_FAILED = ''FAILED''"
| "payout_status_str PO_TIMEOUT = ''TIMEOUT''"
| "payout_status_str PO_RETURNED = ''RETURNED''"

fun payout_action_str :: "PayoutAction \<Rightarrow> string" where
  "payout_action_str PO_SIGN = ''SIGN''"
| "payout_action_str PO_BROADCAST = ''BROADCAST''"
| "payout_action_str PO_SIGN_FAIL = ''SIGN_FAIL''"
| "payout_action_str PO_SEEN_IN_MEMPOOL = ''SEEN_IN_MEMPOOL''"
| "payout_action_str PO_DROP = ''DROP''"
| "payout_action_str PO_TIME_OUT = ''TIMEOUT''"
| "payout_action_str PO_CONFIRM = ''CONFIRM''"
| "payout_action_str PO_FAIL = ''FAIL''"
| "payout_action_str PO_CLEAR = ''CLEAR''"
| "payout_action_str PO_SUBMIT = ''SUBMIT''"
| "payout_action_str PO_RETURN = ''RETURN''"
| "payout_action_str PO_REORG = ''REORG''"

fun payout_crypto_row :: "PayoutStatus \<Rightarrow> (PayoutAction \<times> PayoutStatus) list" where
  "payout_crypto_row PO_CREATED = [(PO_SIGN, PO_SIGNING)]"
| "payout_crypto_row PO_SIGNING = [(PO_BROADCAST, PO_BROADCASTED), (PO_SIGN_FAIL, PO_FAILED)]"
| "payout_crypto_row PO_BROADCASTED =
     [(PO_SEEN_IN_MEMPOOL, PO_CONFIRMING), (PO_DROP, PO_FAILED), (PO_TIME_OUT, PO_TIMEOUT)]"
| "payout_crypto_row PO_CONFIRMING =
     [(PO_CONFIRM, PO_CONFIRMED), (PO_TIME_OUT, PO_TIMEOUT), (PO_FAIL, PO_FAILED), (PO_REORG, PO_BROADCASTED)]"
| "payout_crypto_row PO_CONFIRMED = [(PO_CLEAR, PO_CLEARED)]"
| "payout_crypto_row _ = []"

fun payout_fiat_row :: "PayoutStatus \<Rightarrow> (PayoutAction \<times> PayoutStatus) list" where
  "payout_fiat_row PO_CREATED = [(PO_SUBMIT, PO_CONFIRMING)]"
| "payout_fiat_row PO_CONFIRMING =
     [(PO_CONFIRM, PO_CONFIRMED), (PO_FAIL, PO_FAILED), (PO_TIME_OUT, PO_TIMEOUT)]"
| "payout_fiat_row PO_CONFIRMED = [(PO_CLEAR, PO_CLEARED), (PO_RETURN, PO_RETURNED)]"
| "payout_fiat_row PO_CLEARED = [(PO_RETURN, PO_RETURNED)]"
| "payout_fiat_row _ = []"

definition payout_transitions :: "string \<Rightarrow> PayoutStatus \<Rightarrow> PayoutAction \<Rightarrow> PayoutStatus option" where
  "payout_transitions type q a = map_of (if type = ''CRYPTO'' then payout_crypto_row q else payout_fiat_row q) a"

text \<open>\<open>PayoutFinalizationIncompleteError\<close> extends the bad request.\<close>

definition PayoutFinalizationIncompleteError :: "string \<Rightarrow> error" where
  "PayoutFinalizationIncompleteError detail = BadRequestException (''R3_FINALIZATION_INCOMPLETE: '' @ detail)"

section \<open>Lookups\<close>

definition normalizeOptionalString :: "string option \<Rightarrow> string option" where
  "normalizeOptionalString v =
     (let s = js_trim (default_of [] v) in if s = [] then None else Some s)"

text \<open>\<open>x || text\<close>.\<close>

definition or_text :: "string option \<Rightarrow> string \<Rightarrow> string" where
  "or_text x s = (if truthy x then the x else s)"

definition find_payout :: "string \<Rightarrow> db \<Rightarrow> payout option" where
  "find_payout i d = by_id po_id i (payouts d)"

definition find_withdraw :: "string \<Rightarrow> db \<Rightarrow> withdraw option" where
  "find_withdraw i d = by_id wd_id i (withdraws d)"

text \<open>The wallet a payout is paid from: the customer's own wallet of the asset.\<close>

definition source_role :: "string \<Rightarrow> string" where
  "source_role type = (if to_upper type = ''FIAT'' then ''C_VIBAN'' else ''C_DEP'')"

definition active_customer_wallet :: "string \<Rightarrow> string \<Rightarrow> string \<Rightarrow> db \<Rightarrow> wallet option" where
  "active_customer_wallet role assetId ownerId d =
     find (\<lambda>x. w_role x = role \<and> w_assetId x = assetId \<and> w_ownerType x = ''CUSTOMER''
       \<and> w_ownerId x = Some ownerId \<and> w_status x = ''ACTIVE'') (wallets d)"

definition resolveSourceWalletId :: "string \<Rightarrow> string \<Rightarrow> string option \<Rightarrow> db \<Rightarrow> string option" where
  "resolveSourceWalletId type assetId ownerId d =
     (if \<not> truthy ownerId then None
      else map_option w_id (active_customer_wallet (source_role type) assetId (the ownerId) d))"

definition resolveSourceWallet ::
    "string \<Rightarrow> string \<Rightarrow> string option \<Rightarrow> db \<Rightarrow> string option \<times> string option" where
  "resolveSourceWallet type assetId ownerId d =
     (if \<not> truthy ownerId then (None, None)
      else (let found = active_customer_wallet (source_role type) assetId (the ownerId) d in
        if to_upper type = ''FIAT'' then (None, case found of None \<Rightarrow> None | Some x \<Rightarrow> w_iban x)
        else (case found of None \<Rightarrow> None | Some x \<Rightarrow> w_address x, None)))"

text \<open>\<open>findOne\<close>: the row, with the source wallet filled in for display when the row has none.\<close>

definition findPayout :: "string \<Rightarrow> payout op" where
  "findPayout i =
     bind (getsDb (find_payout i)) (\<lambda>row.
     bind (need row (NotFoundException ''Payout not found'')) (\<lambda>p.
     bind (getsDb (resolveSourceWallet (po_type p) (po_assetId p) (po_ownerId p))) (\<lambda>(address, iban).
       ret (if \<not> truthy (po_fromAddress p) \<and> \<not> truthy (po_fromIban p)
            then p\<lparr>po_fromAddress := address, po_fromIban := iban\<rparr> else p))))"

section \<open>Creation\<close>

record CreatePayoutDto =
  cp_withdrawId :: string
  cp_type :: string
  cp_amount :: rat
  cp_assetId :: string
  cp_toWalletId :: "string option"
  cp_toAddress :: "string option"
  cp_toIban :: "string option"

definition payout_row ::
    "CreatePayoutDto \<Rightarrow> string \<Rightarrow> string option \<times> string option \<Rightarrow> string \<Rightarrow> string \<Rightarrow> string \<Rightarrow> int \<Rightarrow> payout" where
  "payout_row dto ownerId source operatorId rowId no t =
     \<lparr>po_id = rowId, po_no = no, po_withdrawId = cp_withdrawId dto, po_ownerId = Some ownerId,
      po_type = cp_type dto, po_status = PO_CREATED, po_amount = number_Decimal (cp_amount dto),
      po_assetId = cp_assetId dto, po_toWalletId = cp_toWalletId dto, po_toAddress = cp_toAddress dto,
      po_toIban = cp_toIban dto, po_fromAddress = fst source, po_fromIban = snd source,
      po_txHash = None, po_referenceNo = None, po_gasUsed = None, po_gasPrice = None, po_sentAt = None,
      po_completedAt = None,
      po_history = HArray [\<lparr>h_status = payout_status_str PO_CREATED, h_timestamp = t,
        h_operator = operatorId, h_note = ''Payout initiated''\<rparr>]\<rparr>"

definition insert_payout :: "payout \<Rightarrow> payout op" where
  "insert_payout r =
     bind (getsDb payouts) (\<lambda>rs.
       if \<exists>x\<in>set rs. po_id x = po_id r then throw (UniqueConstraint ''id'')
       else if \<exists>x\<in>set rs. po_no x = po_no r then throw (UniqueConstraint ''payoutNo'')
       else if \<exists>x\<in>set rs. po_withdrawId x = po_withdrawId r then throw (UniqueConstraint ''withdrawId'')
       else andThen (onDb (\<lambda>d. d\<lparr>payouts := payouts d @ [r]\<rparr>)) (ret r))"

definition payout_audit :: "string \<Rightarrow> payout \<Rightarrow> string \<Rightarrow> string \<Rightarrow> audit" where
  "payout_audit action p reason operatorId =
     actor_of operatorId ((audit0 action ''PAYOUT'')
       \<lparr>au_entityId := Some (po_id p), au_entityNo := Some (po_no p), au_ownerType := Some ''CUSTOMER'',
        au_ownerId := or_else (po_ownerId p) None, au_reason := Some reason\<rparr>)"

definition createPayout :: "CreatePayoutDto \<Rightarrow> string \<Rightarrow> bool \<Rightarrow> payout op" where
  "createPayout dto operatorId tx = inTx tx (
     bind (getsDb (\<lambda>d. find (\<lambda>p. po_withdrawId p = cp_withdrawId dto) (payouts d))) (\<lambda>existing.
     case existing of Some p \<Rightarrow> ret p
     | None \<Rightarrow>
         bind (getsDb (find_withdraw (cp_withdrawId dto))) (\<lambda>row.
         bind (need row (NotFoundException ''Withdraw transaction not found'')) (\<lambda>wd.
         bind (getsDb (resolveSourceWallet (cp_type dto) (cp_assetId dto) (Some (wd_ownerId wd)))) (\<lambda>source.
         bind randomUUID (\<lambda>u.
         bind (generateReferenceNo ''PO'') (\<lambda>no.
         bind now (\<lambda>t.
         bind (insert_payout (payout_row dto (wd_ownerId wd) source operatorId (''PO_'' @ u) no t)) (\<lambda>p.
         andThen (recordByActor (payout_audit ''PAYOUT_CREATED'' p ''Payout initiated'' operatorId) True)
           (ret p))))))))))"

section \<open>Status updates\<close>

record UpdatePayoutDto =
  up_action :: PayoutAction
  up_txHash :: "string option"
  up_referenceNo :: "string option"
  up_reason :: "string option"
  up_gasUsed :: "string option"
  up_gasPrice :: "string option"

text \<open>The simulated transaction hash: the payout number's letters and digits, padded to forty.\<close>

definition seed_hash :: "payout \<Rightarrow> string" where
  "seed_hash p =
     (let seed = (if po_no p \<noteq> [] then po_no p else if po_id p \<noteq> [] then po_id p else ''unknown'') in
      ''0x'' @ to_lower (take 40 (pad_end 40 (CHR ''0'') (filter alnum seed))))"

text \<open>\<open>x || y\<close> of normalized strings.\<close>

definition first_of :: "string option list \<Rightarrow> string option" where
  "first_of xs = (case filter (\<lambda>x. x \<noteq> None) (map normalizeOptionalString xs) of [] \<Rightarrow> None | x # _ \<Rightarrow> x)"

text \<open>The references the confirmation fills in.\<close>

definition confirm_refs :: "payout \<Rightarrow> UpdatePayoutDto \<Rightarrow> UpdatePayoutDto op" where
  "confirm_refs p dto =
     (if up_action dto \<noteq> PO_CONFIRM then ret dto
      else if po_type p = ''FIAT'' then
        ret (dto\<lparr>up_referenceNo := nullish (first_of [up_referenceNo dto, po_referenceNo p])
               (Some (''BANK-'' @ (if po_no p \<noteq> [] then po_no p else po_id p)))\<rparr>)
      else if po_type p = ''CRYPTO'' then
        bind (if \<not> truthy (up_gasUsed dto) \<and> \<not> truthy (po_gasUsed p)
              then bind mockGasUsed (\<lambda>g. ret (dto\<lparr>up_gasUsed := Some g\<rparr>)) else ret dto) (\<lambda>d1.
        bind (if \<not> truthy (up_gasPrice d1) \<and> \<not> truthy (po_gasPrice p)
              then bind mockGasPrice (\<lambda>g. ret (d1\<lparr>up_gasPrice := Some g\<rparr>)) else ret d1) (\<lambda>d2.
          let d3 = (if \<not> truthy (up_txHash dto) \<and> \<not> truthy (po_txHash p)
                    then d2\<lparr>up_txHash := Some (seed_hash p)\<rparr> else d2);
              ref = first_of [up_referenceNo dto, po_referenceNo p, up_txHash d3, po_txHash p]
          in ret (if ref \<noteq> None then d3\<lparr>up_referenceNo := ref\<rparr> else d3)))
      else ret dto)"

fun payout_done :: "PayoutStatus \<Rightarrow> bool" where
  "payout_done s = (s \<in> set [PO_CLEARED, PO_FAILED, PO_TIMEOUT, PO_RETURNED])"

definition payout_reason :: "UpdatePayoutDto \<Rightarrow> string" where
  "payout_reason dto =
     (if truthy (up_reason dto) then the (up_reason dto) else ''Action: '' @ payout_action_str (up_action dto))"

definition updated_payout :: "payout \<Rightarrow> UpdatePayoutDto \<Rightarrow> PayoutStatus \<Rightarrow> string \<Rightarrow> int \<Rightarrow> payout" where
  "updated_payout p dto q operatorId t =
     p\<lparr>po_status := q,
       po_sentAt := (if (q = PO_SIGNING \<or> po_type p = ''FIAT'' \<and> q = PO_CONFIRMING) \<and> po_sentAt p = None
                     then Some t else po_sentAt p),
       po_completedAt := (if payout_done q then Some t else po_completedAt p),
       po_txHash := or_else (up_txHash dto) (po_txHash p),
       po_gasUsed := or_else (up_gasUsed dto) (po_gasUsed p),
       po_gasPrice := or_else (up_gasPrice dto) (po_gasPrice p),
       po_referenceNo := nullish (normalizeOptionalString (up_referenceNo dto)) (po_referenceNo p),
       po_history := HArray (history_entries (po_history p) @
         [\<lparr>h_status = payout_status_str q, h_timestamp = t, h_operator = operatorId,
           h_note = payout_reason dto\<rparr>])\<rparr>"

text \<open>The R3 guard: the update's value or the stored one.\<close>

definition assert_R3 :: "payout \<Rightarrow> UpdatePayoutDto \<Rightarrow> PayoutStatus \<Rightarrow> unit op" where
  "assert_R3 p dto q =
     whenM (q = PO_CLEARED)
       (andThen (guard (first_of [up_referenceNo dto, po_referenceNo p] \<noteq> None)
           (PayoutFinalizationIncompleteError ''referenceNo is required''))
         (guard (po_type p = ''CRYPTO'' \<longrightarrow> first_of [up_txHash dto, po_txHash p] \<noteq> None)
           (PayoutFinalizationIncompleteError ''txHash is required'')))"

definition payout_events :: "payout \<Rightarrow> PayoutStatus \<Rightarrow> event list" where
  "payout_events p q =
     (if q = PO_CONFIRMED then [PayoutEvent ''payout.status.confirmed'' (po_id p) (po_withdrawId p)]
      else if q = PO_FAILED then [PayoutEvent ''payout.status.failed'' (po_id p) (po_withdrawId p)]
      else if q = PO_TIMEOUT then [PayoutEvent ''payout.status.timeout'' (po_id p) (po_withdrawId p)]
      else if q = PO_RETURNED then [PayoutEvent ''payout.status.returned'' (po_id p) (po_withdrawId p)]
      else [])"

definition put_payout :: "string \<Rightarrow> payout \<Rightarrow> unit op" where
  "put_payout i r = onDb (\<lambda>d. d\<lparr>payouts := update_rows (\<lambda>x. po_id x = i) (\<lambda>_. r) (payouts d)\<rparr>)"

definition apply_payout_update ::
    "payout \<Rightarrow> UpdatePayoutDto \<Rightarrow> PayoutStatus \<Rightarrow> string \<Rightarrow> (payout \<times> event list) op" where
  "apply_payout_update p dto q operatorId =
     bind now (\<lambda>t.
     andThen (assert_R3 p dto q)
      (let updated = updated_payout p dto q operatorId t in
       andThen (put_payout (po_id p) updated)
      (andThen (whenM (q = PO_CLEARED)
         (bind (getsDb (resolveSourceWalletId (po_type p) (po_assetId p) (po_ownerId p))) (\<lambda>src.
            adjust src (- po_amount p))))
      (andThen (recordByActor (payout_audit
           (buildStateTransitionAction ''PAYOUT'' (payout_status_str (po_status p)) (payout_status_str q))
           updated (payout_reason dto) operatorId) True)
         (ret (updated, payout_events p q))))))"

definition update_payout_body ::
    "string \<Rightarrow> UpdatePayoutDto \<Rightarrow> string \<Rightarrow> (payout \<times> event list) op" where
  "update_payout_body i dto operatorId =
     bind (getsDb (find_payout i)) (\<lambda>row.
     bind (need row (NotFoundException ''Payout not found'')) (\<lambda>p.
     bind (need (payout_transitions (po_type p) (po_status p) (up_action dto))
             (BadRequestException ''Invalid action'')) (\<lambda>q.
     bind (confirm_refs p dto) (\<lambda>dto'. apply_payout_update p dto' q operatorId))))"

definition updatePayoutStatus :: "string \<Rightarrow> UpdatePayoutDto \<Rightarrow> string \<Rightarrow> bool \<Rightarrow> payout op" where
  "updatePayoutStatus i dto operatorId tx =
     andThen (guard (\<not> (up_action dto = PO_CLEAR \<and> operatorId \<noteq> ''SYSTEM''))
         (BadRequestException ''PAYOUT_CLEAR_SYSTEM_ONLY''))
     (if tx then bind (update_payout_body i dto operatorId) (\<lambda>(updated, _). ret updated)
      else bind (transaction (update_payout_body i dto operatorId)) (\<lambda>(updated, events).
        andThen (forEach events emit) (ret updated)))"

end
