(* ===== verification/Withdraws.thy ===== *)
theory Withdraws
  imports Payouts
begin

text \<open>
  The withdrawal aggregate
  (src/src/modules/trading/withdraw-transactions/withdraw-transactions.service.ts) and the life of a
  withdrawal quote (src/src/modules/trading/withdrawal-fee-level/withdraw-quote.service.ts): the status
  table with the guard on who may reach which status, and the single-column updates of the workflow.
\<close>

section \<open>Statuses\<close>

fun withdraw_status_str :: "WithdrawStatus \<Rightarrow> string" where
  "withdraw_status_str W_CREATED = ''CREATED''"
| "withdraw_status_str W_PENDING_APPROVAL = ''PENDING_APPROVAL''"
| "withdraw_status_str W_PENDING_COMPLIANCE = ''PENDING_COMPLIANCE''"
| "withdraw_status_str W_UNDER_REVIEW = ''UNDER_REVIEW''"
| "withdraw_status_str W_APPROVED = ''APPROVED''"
| "withdraw_status_str W_PAYOUT_PENDING = ''PAYOUT_PENDING''"
| "withdraw_status_str W_SUCCESS = ''SUCCESS''"
| "withdraw_status_str W_FAILED = ''FAILED''"
| "withdraw_status_str W_REJECTED = ''REJECTED''"
| "withdraw_status_str W_CANCELLED = ''CANCELLED''"
| "withdraw_status_str W_RETURNED = ''RETURNED''"
| "withdraw_status_str W_HELD = ''HELD''"

fun withdraw_action_str :: "WithdrawAction \<Rightarrow> string" where
  "withdraw_action_str WA_CHECK = ''check''"
| "withdraw_action_str WA_REQUIRE_APPROVAL = ''require_approval''"
| "withdraw_action_str WA_GATE_APPROVE = ''gate_approve''"
| "withdraw_action_str WA_FLAG = ''flag''"
| "withdraw_action_str WA_REJECT = ''reject''"
| "withdraw_action_str WA_APPROVE = ''approve''"
| "withdraw_action_str WA_CANCEL = ''cancel''"
| "withdraw_action_str WA_SUCCESS = ''success''"
| "withdraw_action_str WA_FAIL = ''fail''"
| "withdraw_action_str WA_RETURN = ''return''"

fun withdraw_row :: "WithdrawStatus \<Rightarrow> (WithdrawAction \<times> WithdrawStatus) list" where
  "withdraw_row W_CREATED =
     [(WA_REQUIRE_APPROVAL, W_PENDING_APPROVAL), (WA_CHECK, W_PENDING_COMPLIANCE), (WA_CANCEL, W_CANCELLED)]"
| "withdraw_row W_PENDING_APPROVAL =
     [(WA_GATE_APPROVE, W_PENDING_COMPLIANCE), (WA_REJECT, W_REJECTED), (WA_CANCEL, W_CANCELLED)]"
| "withdraw_row W_PENDING_COMPLIANCE =
     [(WA_FLAG, W_UNDER_REVIEW), (WA_REJECT, W_REJECTED), (WA_APPROVE, W_PAYOUT_PENDING), (WA_CANCEL, W_CANCELLED)]"
| "withdraw_row W_UNDER_REVIEW =
     [(WA_APPROVE, W_PAYOUT_PENDING), (WA_REJECT, W_REJECTED), (WA_CANCEL, W_CANCELLED)]"
| "withdraw_row W_APPROVED = [(WA_APPROVE, W_PAYOUT_PENDING)]"
| "withdraw_row W_PAYOUT_PENDING =
     [(WA_FLAG, W_UNDER_REVIEW), (WA_REJECT, W_REJECTED), (WA_SUCCESS, W_SUCCESS), (WA_FAIL, W_FAILED),
      (WA_APPROVE, W_PAYOUT_PENDING)]"
| "withdraw_row W_SUCCESS = [(WA_RETURN, W_RETURNED), (WA_SUCCESS, W_SUCCESS)]"
| "withdraw_row W_FAILED = [(WA_FAIL, W_FAILED)]"
| "withdraw_row W_REJECTED = []"
| "withdraw_row W_CANCELLED = []"
| "withdraw_row W_RETURNED = []"
| "withdraw_row W_HELD = []"

definition withdraw_transitions :: "WithdrawStatus \<Rightarrow> WithdrawAction \<Rightarrow> WithdrawStatus option" where
  "withdraw_transitions q a = map_of (withdraw_row q) a"

text \<open>\<open>deriveWithdrawComplianceSnapshotFromStatus\<close>.\<close>

fun compliance_snapshot :: "WithdrawStatus \<Rightarrow> string" where
  "compliance_snapshot W_UNDER_REVIEW = ''UNDER_REVIEW''"
| "compliance_snapshot W_REJECTED = ''REJECTED''"
| "compliance_snapshot s =
     (if s \<in> set [W_PAYOUT_PENDING, W_SUCCESS, W_FAILED, W_RETURNED] then ''CLEAR'' else ''PENDING'')"

text \<open>Who asks for the update; absent fields get the defaults of the source.\<close>

record StatusContext =
  sc_source :: string
  sc_actorType :: "string option"
  sc_actorId :: "string option"
  sc_actorRole :: "string option"
  sc_platform :: "string option"

record actor =
  ac_source :: string
  ac_type :: string
  ac_id :: string
  ac_role :: string
  ac_platform :: string

definition normalizeStatusUpdateContext :: "StatusContext \<Rightarrow> actor" where
  "normalizeStatusUpdateContext c =
     (let source = (if sc_source c = [] then ''SYSTEM'' else sc_source c) in
      if source = ''ADMIN_API'' then
        \<lparr>ac_source = source, ac_type = or_text (sc_actorType c) ''ADMIN'',
         ac_id = or_text (sc_actorId c) ''ADMIN_SYSTEM'', ac_role = or_text (sc_actorRole c) ''ADMIN'',
         ac_platform = or_text (sc_platform c) ''ADMIN_API''\<rparr>
      else
        \<lparr>ac_source = source, ac_type = or_text (sc_actorType c) ''SYSTEM'',
         ac_id = or_text (sc_actorId c) ''SYSTEM'', ac_role = or_text (sc_actorRole c) ''SYSTEM'',
         ac_platform = or_text (sc_platform c) ''SYSTEM''\<rparr>)"

definition systemCtx :: StatusContext where
  "systemCtx = \<lparr>sc_source = ''WORKFLOW'', sc_actorType = Some ''SYSTEM'', sc_actorId = Some ''WITHDRAW_WORKFLOW'',
     sc_actorRole = None, sc_platform = Some ''SYSTEM''\<rparr>"

definition assertStatusUpdateSourceAllowed :: "WithdrawStatus \<Rightarrow> actor \<Rightarrow> unit op" where
  "assertStatusUpdateSourceAllowed q ac =
     andThen (guard (\<not> (ac_source ac = ''ADMIN_API'' \<and> q = W_PAYOUT_PENDING))
         (BadRequestException ''WITHDRAW_APPROVE_WORKFLOW_ONLY''))
       (guard (\<not> (ac_source ac = ''ADMIN_API'' \<and> q \<in> set [W_SUCCESS, W_FAILED, W_RETURNED]))
         (BadRequestException ''WITHDRAW_TERMINAL_ACTION_SYSTEM_ONLY''))"

section \<open>Rows\<close>

definition findOneInternal :: "string \<Rightarrow> withdraw op" where
  "findOneInternal i =
     bind (getsDb (find_withdraw i)) (\<lambda>row. need row (NotFoundException ''Withdraw transaction not found''))"

definition update_withdraw :: "string \<Rightarrow> (withdraw \<Rightarrow> withdraw) \<Rightarrow> withdraw op" where
  "update_withdraw i f =
     bind (getsDb (find_withdraw i)) (\<lambda>row.
     bind (need row RecordNotFound) (\<lambda>r.
     andThen (onDb (\<lambda>d. d\<lparr>withdraws := update_rows (\<lambda>x. wd_id x = i) f (withdraws d)\<rparr>)) (ret (f r))))"

definition insertRecord :: "withdraw \<Rightarrow> withdraw op" where
  "insertRecord r =
     bind (getsDb withdraws) (\<lambda>rs.
       if \<exists>x\<in>set rs. wd_id x = wd_id r then throw (UniqueConstraint ''id'')
       else if \<exists>x\<in>set rs. wd_no x = wd_no r then throw (UniqueConstraint ''withdrawNo'')
       else if wd_payoutId r \<noteq> None \<and> (\<exists>x\<in>set rs. wd_payoutId x = wd_payoutId r)
         then throw (UniqueConstraint ''payoutId'')
       else if wd_pricingQuoteId r \<noteq> None \<and> (\<exists>x\<in>set rs. wd_pricingQuoteId x = wd_pricingQuoteId r)
         then throw (UniqueConstraint ''pricingQuoteId'')
       else andThen (onDb (\<lambda>d. d\<lparr>withdraws := withdraws d @ [r]\<rparr>)) (ret r))"

definition setPendingIds :: "string \<Rightarrow> string \<Rightarrow> string option \<Rightarrow> withdraw op" where
  "setPendingIds i net fee =
     update_withdraw i (\<lambda>r. r\<lparr>wd_tbPendingNetId := Some net, wd_tbPendingFeeId := fee\<rparr>)"

definition linkPayout :: "string \<Rightarrow> string \<Rightarrow> string \<Rightarrow> unit op" where
  "linkPayout i payoutId payoutNo =
     bind (getsDb withdraws) (\<lambda>rs.
     andThen (guard (\<not> (\<exists>x\<in>set rs. wd_id x \<noteq> i \<and> wd_payoutId x = Some payoutId))
         (UniqueConstraint ''payoutId''))
       (bind (update_withdraw i (\<lambda>r. r\<lparr>wd_payoutId := Some payoutId, wd_payoutNo := Some payoutNo\<rparr>))
         (\<lambda>_. ret ())))"

record valuation =
  va_gross :: "rat option"
  va_rate :: "rat option"
  va_fetchedAt :: "int option"
  va_failed :: bool

definition saveValuationSnapshot :: "string \<Rightarrow> valuation \<Rightarrow> unit op" where
  "saveValuationSnapshot i v =
     bind (update_withdraw i (\<lambda>r. r\<lparr>wd_grossAed := va_gross v, wd_aedRate := va_rate v,
       wd_rateFetchedAt := va_fetchedAt v, wd_rateFetchFailed := va_failed v\<rparr>)) (\<lambda>_. ret ())"

definition linkApprovalCase :: "string \<Rightarrow> string \<Rightarrow> string \<Rightarrow> unit op" where
  "linkApprovalCase i caseId no =
     bind (update_withdraw i (\<lambda>r. r\<lparr>wd_approvalCaseId := Some caseId, wd_approvalNo := Some no\<rparr>)) (\<lambda>_. ret ())"

definition updateKytStatus ::
    "string \<Rightarrow> string \<Rightarrow> string option \<Rightarrow> int option \<Rightarrow> nat \<Rightarrow> withdraw op" where
  "updateKytStatus i kyt screeningId score phase =
     bind (findOneInternal i) (\<lambda>item.
     bind now (\<lambda>t.
     bind (update_withdraw i (\<lambda>r.
         if phase = 1 then
           r\<lparr>wd_preKytStatus := kyt, wd_preKytId := nullish screeningId (wd_preKytId item),
             wd_preKytRiskScore := nullish score (wd_preKytRiskScore item), wd_preKytCheckedAt := Some t\<rparr>
         else
           r\<lparr>wd_kytStatus := kyt, wd_kytScreeningId := nullish screeningId (wd_kytScreeningId item),
             wd_kytRiskScore := nullish score (wd_kytRiskScore item), wd_kytCheckedAt := Some t\<rparr>)) (\<lambda>updated.
     andThen (emit (WithdrawalKytUpdated i kyt phase)) (ret updated))))"

definition updateTravelRuleStatus :: "string \<Rightarrow> string \<Rightarrow> string option \<Rightarrow> withdraw op" where
  "updateTravelRuleStatus i status transferId =
     bind (findOneInternal i) (\<lambda>item.
     bind now (\<lambda>t.
     bind (update_withdraw i (\<lambda>r.
         r\<lparr>wd_travelRuleStatus := status,
           wd_travelRuleTransferId := nullish transferId (wd_travelRuleTransferId item),
           wd_travelRuleCheckedAt := Some t\<rparr>)) (\<lambda>updated.
     andThen (emit (WithdrawalTravelRuleUpdated i status)) (ret updated))))"

definition getOwnerComplianceStatus :: "string \<Rightarrow> string op" where
  "getOwnerComplianceStatus i =
     bind (findOneInternal i) (\<lambda>item.
     bind (getsDb (\<lambda>d. by_id c_id (wd_ownerId item) (customers d))) (\<lambda>c.
       ret (or_text (map_option c_complianceStatus c) ''UNKNOWN'')))"

section \<open>The status update\<close>

fun withdraw_done :: "WithdrawStatus \<Rightarrow> bool" where
  "withdraw_done s = (s \<in> set [W_SUCCESS, W_FAILED, W_REJECTED, W_CANCELLED, W_RETURNED])"

definition moved_withdraw :: "withdraw \<Rightarrow> WithdrawStatus \<Rightarrow> string option \<Rightarrow> actor \<Rightarrow> int \<Rightarrow> withdraw" where
  "moved_withdraw r q reason ac t =
     r\<lparr>wd_status := q, wd_complianceStatus := compliance_snapshot q,
       wd_approvedAt := (if (q = W_APPROVED \<or> q = W_PAYOUT_PENDING) \<and> wd_approvedAt r = None
                         then Some t else wd_approvedAt r),
       wd_payoutRequestedAt := (if q = W_PAYOUT_PENDING then Some t else wd_payoutRequestedAt r),
       wd_completedAt := (if withdraw_done q then Some t else wd_completedAt r),
       wd_history := HArray (history_entries (wd_history r) @
         [\<lparr>h_status = withdraw_status_str q, h_timestamp = t, h_operator = ac_id ac,
           h_note = or_text reason (''Status changed from '' @ withdraw_status_str (wd_status r) @ '' to ''
             @ withdraw_status_str q)\<rparr>])\<rparr>"

definition withdraw_audit :: "string \<Rightarrow> withdraw \<Rightarrow> string \<Rightarrow> audit" where
  "withdraw_audit action r reason =
     (audit0 action ''WITHDRAW_TRANSACTION'')
       \<lparr>au_entityId := Some (wd_id r), au_entityNo := Some (wd_no r), au_ownerType := Some (wd_ownerType r),
        au_ownerId := Some (wd_ownerId r), au_reason := Some reason\<rparr>"

definition move_withdraw :: "string \<Rightarrow> WithdrawAction \<Rightarrow> string option \<Rightarrow> actor \<Rightarrow> withdraw op" where
  "move_withdraw i action reason ac =
     bind (findOneInternal i) (\<lambda>item.
     bind (need (withdraw_transitions (wd_status item) action) (BadRequestException ''Invalid action'')) (\<lambda>q.
     andThen (assertStatusUpdateSourceAllowed q ac)
    (bind now (\<lambda>t.
     bind (update_withdraw i (\<lambda>r. moved_withdraw item q reason ac t)) (\<lambda>updated.
     andThen (recordByActor ((withdraw_audit
           (buildStateTransitionAction ''WITHDRAW'' (withdraw_status_str (wd_status item)) (withdraw_status_str q))
           updated (or_text reason (''Action: '' @ withdraw_action_str action)))
         \<lparr>au_platform := Some (ac_platform ac), au_actorType := ac_type ac, au_actorId := ac_id ac,
          au_actorRole := ac_role ac\<rparr>) True)
       (ret updated))))))"

definition updateWithdrawStatus ::
    "string \<Rightarrow> WithdrawAction \<Rightarrow> string option \<Rightarrow> StatusContext \<Rightarrow> bool \<Rightarrow> withdraw op" where
  "updateWithdrawStatus i action reason ctx tx =
     inTx tx (move_withdraw i action reason (normalizeStatusUpdateContext ctx))"

section \<open>Quotes\<close>

definition find_withdraw_quote :: "string \<Rightarrow> db \<Rightarrow> withdraw_quote option" where
  "find_withdraw_quote i d = by_id wq_id i (withdraw_quotes d)"

definition put_withdraw_quote :: "string \<Rightarrow> (withdraw_quote \<Rightarrow> withdraw_quote) \<Rightarrow> unit op" where
  "put_withdraw_quote i f =
     onDb (\<lambda>d. d\<lparr>withdraw_quotes := update_rows (\<lambda>q. wq_id q = i) f (withdraw_quotes d)\<rparr>)"

definition owned_withdraw_quote :: "string \<Rightarrow> string \<Rightarrow> string \<Rightarrow> withdraw_quote op" where
  "owned_withdraw_quote quoteId ownerType ownerId =
     bind (getsDb (find_withdraw_quote quoteId)) (\<lambda>row.
     bind (need row (NotFoundException ''Quote not found'')) (\<lambda>q.
     andThen (guard (wq_ownerType q = ownerType \<and> wq_ownerId q = ownerId)
         (BadRequestException ''Quote does not belong to this owner''))
    (andThen (guard (wq_status q = ''ACTIVE'') (BadRequestException ''Quote is not ACTIVE''))
       (ret q))))"

definition getActiveWithdrawQuote :: "string \<Rightarrow> string \<Rightarrow> string \<Rightarrow> int \<Rightarrow> withdraw_quote op" where
  "getActiveWithdrawQuote quoteId ownerType ownerId t =
     bind (owned_withdraw_quote quoteId ownerType ownerId) (\<lambda>q.
       if wq_expiresAt q < t
       then andThen (put_withdraw_quote quoteId (\<lambda>q. q\<lparr>wq_status := ''EXPIRED''\<rparr>))
              (throw (BadRequestException ''Quote has expired''))
       else ret q)"

definition consumeWithdrawQuote :: "string \<Rightarrow> string \<Rightarrow> string \<Rightarrow> rat \<Rightarrow> withdraw_quote op" where
  "consumeWithdrawQuote quoteId ownerType ownerId amount =
     bind now (\<lambda>t.
     bind (getActiveWithdrawQuote quoteId ownerType ownerId t) (\<lambda>q.
     andThen (guard (wq_amount q = amount) (BadRequestException ''Quote amount does not match withdraw amount''))
      (let f = (\<lambda>q. q\<lparr>wq_status := ''USED'', wq_usedAt := Some t\<rparr>) in
       andThen (put_withdraw_quote quoteId f) (ret (f q)))))"

definition cancelWithdrawQuote :: "string \<Rightarrow> string \<Rightarrow> string \<Rightarrow> withdraw_quote op" where
  "cancelWithdrawQuote quoteId ownerType ownerId =
     bind (owned_withdraw_quote quoteId ownerType ownerId) (\<lambda>q.
     bind now (\<lambda>t.
       let f = (\<lambda>q. q\<lparr>wq_status := ''CANCELLED'', wq_cancelledAt := Some t\<rparr>) in
       andThen (put_withdraw_quote quoteId f) (ret (f q))))"

end
