(* ===== verification/WithdrawWorkflow.thy ===== *)
theory WithdrawWorkflow
  imports Withdraws SwapWorkflow
begin

text \<open>
  The withdrawal workflow
  (src/src/modules/trading/withdraw-transactions/withdraw-workflow.service.ts): the creation with its two
  ledger locks, the valuation and the approval gate, the compliance screen, the payout phase, the
  finalization after the payout's confirmation, the compensation after its failure, and the two repair
  entry points.  The exchange rate (an external service) and the opening of an approval case (its tables
  are not part of the model) are arguments.
\<close>

section \<open>Creation\<close>

record CreateWithdrawDto =
  cw_assetId :: string
  cw_amount :: rat
  cw_toWalletId :: "string option"
  cw_toAddress :: "string option"
  cw_toIban :: "string option"
  cw_parentType :: "string option"
  cw_parentId :: "string option"
  cw_quoteId :: "string option"

definition is_crypto_asset :: "asset \<Rightarrow> bool" where
  "is_crypto_asset a \<longleftrightarrow> to_upper (a_type a) \<noteq> ''FIAT''"

definition new_withdraw ::
    "CreateWithdrawDto \<Rightarrow> asset \<Rightarrow> string \<Rightarrow> string \<Rightarrow> string option \<Rightarrow> rat \<Rightarrow> rat \<Rightarrow> string \<Rightarrow> string
       \<Rightarrow> string \<Rightarrow> string \<Rightarrow> int \<Rightarrow> withdraw" where
  "new_withdraw dto a ownerType userId ownerNo amount fee quoteId withdrawNo traceId rowId t =
     \<lparr>wd_id = rowId, wd_no = withdrawNo, wd_payoutId = None, wd_payoutNo = None, wd_ownerType = ownerType,
      wd_ownerId = userId, wd_ownerNo = ownerNo, wd_status = W_CREATED, wd_assetId = cw_assetId dto,
      wd_amount = amount, wd_feeAmount = fee, wd_netAmount = amount - fee,
      wd_toWalletId = cw_toWalletId dto, wd_toAddress = cw_toAddress dto, wd_toIban = cw_toIban dto,
      wd_fromWalletId = None, wd_fromAddress = None, wd_fromIban = None, wd_txHash = None,
      wd_referenceNo = None,
      wd_preKytStatus = (if is_crypto_asset a then ''PENDING'' else []), wd_preKytId = None,
      wd_preKytRiskScore = None, wd_preKytCheckedAt = None, wd_kytStatus = [],
      wd_kytScreeningId = None, wd_kytRiskScore = None, wd_kytCheckedAt = None,
      wd_travelRuleRequired = is_crypto_asset a,
      wd_travelRuleStatus = (if is_crypto_asset a then ''PENDING'' else []),
      wd_travelRuleTransferId = None, wd_travelRuleCheckedAt = None, wd_complianceStatus = ''PENDING'',
      wd_traceId = Some traceId, wd_grossAed = None, wd_aedRate = None, wd_rateFetchedAt = None,
      wd_rateFetchFailed = False, wd_approvalCaseId = None, wd_approvalNo = None,
      wd_tbPendingNetId = None, wd_tbPendingFeeId = None, wd_parentType = cw_parentType dto,
      wd_parentId = cw_parentId dto, wd_pricingQuoteId = Some quoteId, wd_approvedAt = None,
      wd_payoutRequestedAt = None, wd_completedAt = None,
      wd_history = HArray [\<lparr>h_status = withdraw_status_str W_CREATED, h_timestamp = t,
        h_operator = ''SYSTEM'', h_note = ''Withdrawal created - awaiting approval-gate valuation''\<rparr>]\<rparr>"

text \<open>\<open>totals[asset.currency] || '0'\<close>.\<close>

definition quote_fee :: "withdraw_quote \<Rightarrow> asset \<Rightarrow> rat op" where
  "quote_fee q a =
     need (read_Decimal (or_text (map_of (wq_totals q) (a_currency a)) ''0'')) (PlainError ''DecimalError'')"

definition to_units :: "rat \<Rightarrow> nat \<Rightarrow> int op" where
  "to_units v d = need (decimalToBigint v d) (SyntaxError ''BigInt'')"

definition lock_evidence :: "withdraw \<Rightarrow> asset \<Rightarrow> string \<Rightarrow> string \<Rightarrow> EvidenceParams" where
  "lock_evidence r a eventCode memo =
     \<lparr>ep_sourceType = ''WITHDRAWAL'', ep_sourceNo = wd_no r, ep_eventCode = eventCode,
      ep_traceId = default_of [] (wd_traceId r), ep_debitCode = coa_label CLIENT_PAYABLE,
      ep_creditCode = coa_label CLIENT_ASSET, ep_assetCurrency = a_currency a,
      ep_actorType = wd_ownerType r, ep_actorId = wd_ownerId r, ep_memo = Some memo,
      ep_debitWalletRef = wd_fromWalletId r, ep_creditWalletRef = wd_fromWalletId r,
      ep_externalRef = None, ep_crossing = False\<rparr>"

text \<open>The catch block: void what was locked.  It is placed around the steps that follow a lock, inside
  the transaction; a void does not touch the database, so the order against the rollback cannot be seen.
  A transfer id 0 counts as none.\<close>

definition void_orphan :: "int \<Rightarrow> int \<Rightarrow> unit op" where
  "void_orphan i amount =
     whenM (i \<noteq> 0) (bind (voidPendingTransferBestEffort i amount) (\<lambda>_. ret ()))"

definition undo_locks :: "(int \<times> int) list \<Rightarrow> 'a op \<Rightarrow> 'a op" where
  "undo_locks locks m =
     handle m (\<lambda>e. andThen (forEach locks (\<lambda>(i, amount). void_orphan i amount)) (throw e))"

definition lock_net :: "withdraw \<Rightarrow> asset \<Rightarrow> nat \<Rightarrow> int \<Rightarrow> int \<Rightarrow> int \<Rightarrow> int op" where
  "lock_net r a ledger payableId assetAccId amount =
     executePendingTransfer payableId assetAccId amount ledger (TB_TRANSFER_CODES WITHDRAW_NET_PENDING) 0
       (lock_evidence r a ''WITHDRAW_LOCK_NET'' ''Withdrawal pending lock: net amount'') None"

definition lock_fee :: "withdraw \<Rightarrow> asset \<Rightarrow> nat \<Rightarrow> int \<Rightarrow> int \<Rightarrow> int \<Rightarrow> int option op" where
  "lock_fee r a ledger payableId assetAccId amount =
     (if 0 < amount then
        bind (executePendingTransfer payableId assetAccId amount ledger
            (TB_TRANSFER_CODES WITHDRAW_FEE_PENDING) 0
            (lock_evidence r a ''WITHDRAW_LOCK_FEE'' ''Withdrawal pending lock: fee amount'') None)
          (\<lambda>i. ret (Some i))
      else ret None)"

definition requested_audit :: "withdraw \<Rightarrow> audit" where
  "requested_audit r =
     (withdraw_audit ''WITHDRAW_REQUESTED'' r ''Customer initiated withdrawal'')
       \<lparr>au_traceId := wd_traceId r, au_workflowType := Some ''WITHDRAW'',
        au_platform := Some (if wd_ownerType r = ''CUSTOMER'' then ''CUSTOMER_API'' else ''ADMIN_API''),
        au_actorType := wd_ownerType r, au_actorId := wd_ownerId r, au_actorRole := wd_ownerType r\<rparr>"

definition lock_balance :: "withdraw \<Rightarrow> asset \<Rightarrow> nat \<Rightarrow> unit op" where
  "lock_balance r a ledger =
     bind (resolveTbAccountId (TB_ACCOUNT_CODES CLIENT_PAYABLE) ledger ''CUSTOMER'' (Some (wd_ownerId r))) (\<lambda>payableId.
     bind (resolveTbAccountId (TB_ACCOUNT_CODES CLIENT_ASSET) ledger ''SYSTEM'' None) (\<lambda>assetAccId.
     bind (to_units (wd_netAmount r) (a_decimals a)) (\<lambda>net.
     bind (to_units (wd_feeAmount r) (a_decimals a)) (\<lambda>fee.
     bind (lock_net r a ledger payableId assetAccId net) (\<lambda>netId.
     bind (undo_locks [(netId, net)] (lock_fee r a ledger payableId assetAccId fee)) (\<lambda>feeId.
     undo_locks ((netId, net) # (case feeId of None \<Rightarrow> [] | Some i \<Rightarrow> [(i, fee)]))
       (bind (setPendingIds (wd_id r) (bigintToHex netId)
            (case feeId of None \<Rightarrow> None | Some i \<Rightarrow> if i = 0 then None else Some (bigintToHex i)))
          (\<lambda>_. recordByActor (requested_audit r) True))))))))"

definition insert_and_lock ::
    "CreateWithdrawDto \<Rightarrow> asset \<Rightarrow> string \<Rightarrow> string \<Rightarrow> string option \<Rightarrow> string \<Rightarrow> string \<Rightarrow> withdraw op" where
  "insert_and_lock dto a ownerType userId ownerNo withdrawNo quoteId =
     (let amount = number_Decimal (cw_amount dto) in
      bind now (\<lambda>t.
      bind (getActiveWithdrawQuote quoteId ownerType userId t) (\<lambda>q.
      andThen (guard (wq_assetId q = cw_assetId dto) (BadRequestException ''Withdrawal quote asset mismatch''))
     (andThen (guard (wq_amount q = amount) (BadRequestException ''Withdrawal quote amount mismatch''))
     (bind (quote_fee q a) (\<lambda>fee.
      bind (consumeWithdrawQuote quoteId ownerType userId amount) (\<lambda>_.
      andThen (guard (0 \<le> amount - fee) (BadRequestException ''Net amount must not be negative''))
     (bind randomUUID (\<lambda>traceId.
      bind randomUUID (\<lambda>rowId.
      bind (insertRecord (new_withdraw dto a ownerType userId ownerNo amount fee (wq_id q) withdrawNo traceId rowId t)) (\<lambda>r.
      andThen
        (case TB_LEDGERS (a_currency a) of
           Some ledger \<Rightarrow>
             if ownerType = ''CUSTOMER'' then lock_balance r a ledger
             else recordByActor (requested_audit r) True
         | None \<Rightarrow> recordByActor (requested_audit r) True)
        (ret r))))))))))))"

definition createWithdrawal :: "CreateWithdrawDto \<Rightarrow> string \<Rightarrow> string \<Rightarrow> withdraw op" where
  "createWithdrawal dto userId ownerType =
     bind (getsDb (find_asset (cw_assetId dto))) (\<lambda>row.
     bind (need row (NotFoundException ''Asset not found'')) (\<lambda>a.
     bind (getsDb (\<lambda>d. by_id c_id userId (customers d))) (\<lambda>cust.
     andThen (if ownerType = ''CUSTOMER'' then ensureCustomerCanTransact cust None else ret ())
    (bind (generateReferenceNo ''WD'') (\<lambda>withdrawNo.
     let ownerNo = (if ownerType = ''CUSTOMER'' then or_else (map_option c_no cust) None else None) in
     andThen (guard (truthy (cw_quoteId dto)) (BadRequestException ''quoteId is required for withdrawal''))
    (bind (transaction (insert_and_lock dto a ownerType userId ownerNo withdrawNo (the (cw_quoteId dto)))) (\<lambda>r.
     andThen (emit (WithdrawalCreated (wd_id r))) (ret r))))))))"

section \<open>Audit rows of the workflow\<close>

definition workflow_audit :: "string \<Rightarrow> withdraw \<Rightarrow> string \<Rightarrow> audit" where
  "workflow_audit action r reason =
     (withdraw_audit action r reason)
       \<lparr>au_traceId := or_else (wd_traceId r) None, au_workflowType := Some ''WITHDRAW'',
        au_platform := Some ''SYSTEM''\<rparr>"

definition record_note :: "string \<Rightarrow> withdraw \<Rightarrow> string \<Rightarrow> unit op" where
  "record_note action r reason = recordSystem (workflow_audit action r reason) False"

section \<open>Releasing the locks\<close>

definition withdraw_asset :: "withdraw \<Rightarrow> asset option op" where
  "withdraw_asset r = getsDb (find_asset (wd_assetId r))"

definition decimals_of :: "asset option \<Rightarrow> nat" where
  "decimals_of a = (case a of None \<Rightarrow> 8 | Some x \<Rightarrow> a_decimals x)"

text \<open>\<open>if (id) voidPendingTransferBestEffort(hexToBigint(id), decimalToBigint(amount))\<close>; a void that fails
  is logged only.\<close>

definition release_one :: "string option \<Rightarrow> rat \<Rightarrow> nat \<Rightarrow> unit op" where
  "release_one pending amount decimals =
     (if truthy pending then
        bind (need (hexToBigint (the pending)) (SyntaxError ''BigInt'')) (\<lambda>i.
        bind (to_units amount decimals) (\<lambda>n.
        bind (voidPendingTransferBestEffort i n) (\<lambda>_. ret ())))
      else ret ())"

definition releaseLock :: "withdraw \<Rightarrow> string \<Rightarrow> unit op" where
  "releaseLock r reason =
     bind (withdraw_asset r) (\<lambda>a.
     andThen (release_one (wd_tbPendingNetId r) (wd_netAmount r) (decimals_of a))
    (andThen (release_one (wd_tbPendingFeeId r) (wd_feeAmount r) (decimals_of a))
    (bind (setWithdrawFeeFundStatus (wd_id r) CANCELLED reason ''SYSTEM'' False) (\<lambda>_.
     record_note ''WITHDRAW_LOCK_RELEASED'' r (''Lock released: '' @ reason)))))"

section \<open>The payout phase\<close>

definition IllegalSourceWalletError :: "string \<Rightarrow> error" where
  "IllegalSourceWalletError what = BadRequestException (''IllegalSourceWallet: '' @ what)"

definition asset_is :: "string \<Rightarrow> asset option \<Rightarrow> bool" where
  "asset_is type a \<longleftrightarrow> (case a of None \<Rightarrow> False | Some x \<Rightarrow> a_type x = type)"

definition customer_source_role :: "asset option \<Rightarrow> string" where
  "customer_source_role a = (if asset_is ''CRYPTO'' a then ''C_DEP'' else ''C_VIBAN'')"

definition ensureSourceWalletBound :: "withdraw \<Rightarrow> withdraw op" where
  "ensureSourceWalletBound r =
     (if truthy (wd_fromWalletId r) then ret r
      else bind (withdraw_asset r) (\<lambda>a.
        andThen (guard (truthy (map_option a_currency a)) (BadRequestException ''Asset currency is missing''))
       (bind (getsDb (active_customer_wallet (customer_source_role a) (wd_assetId r) (wd_ownerId r))) (\<lambda>found.
        bind (need found (IllegalSourceWalletError ''no active customer wallet'')) (\<lambda>x.
        let f = (\<lambda>v. v\<lparr>wd_fromWalletId := Some (w_id x), wd_fromAddress := w_address x,
                   wd_fromIban := w_iban x\<rparr>) in
        bind (update_withdraw (wd_id r) f) (\<lambda>_. ret (f r)))))))"

definition fee_fund_input :: "withdraw \<Rightarrow> wallet option \<Rightarrow> wallet \<Rightarrow> WithdrawFeeInput" where
  "fee_fund_input r src feeWallet =
     \<lparr>wf_withdrawId = wd_id r, wf_assetId = wd_assetId r, wf_amount = wd_feeAmount r,
      wf_fromWalletId = map_option w_id src,
      wf_fromAddress = (case src of None \<Rightarrow> None | Some x \<Rightarrow> w_address x),
      wf_fromIban = (case src of None \<Rightarrow> None | Some x \<Rightarrow> w_iban x),
      wf_toWalletId = Some (w_id feeWallet), wf_toAddress = w_address feeWallet,
      wf_toIban = w_iban feeWallet\<rparr>"

definition payout_input :: "withdraw \<Rightarrow> asset option \<Rightarrow> CreatePayoutDto" where
  "payout_input r a =
     \<lparr>cp_withdrawId = wd_id r, cp_type = (if asset_is ''CRYPTO'' a then ''CRYPTO'' else ''FIAT''),
      cp_amount = to_Number (wd_netAmount r), cp_assetId = wd_assetId r,
      cp_toWalletId = or_else (wd_toWalletId r) None, cp_toAddress = or_else (wd_toAddress r) None,
      cp_toIban = or_else (wd_toIban r) None\<rparr>"

definition create_fee_fund :: "withdraw \<Rightarrow> asset option \<Rightarrow> unit op" where
  "create_fee_fund r a =
     bind (getsDb (active_customer_wallet (customer_source_role a) (wd_assetId r) (wd_ownerId r))) (\<lambda>src.
     bind (resolveWallet (wd_assetId r) ''F_FEE'') (\<lambda>feeWallet.
     bind (createWithdrawFeeFund (fee_fund_input r src feeWallet) ''WITHDRAW_WORKFLOW'' False) (\<lambda>_. ret ())))"

definition initiatePayoutPhase :: "string \<Rightarrow> unit op" where
  "initiatePayoutPhase withdrawId =
     bind (findOneInternal withdrawId) (\<lambda>r0.
     bind (ensureSourceWalletBound r0) (\<lambda>r.
     bind (withdraw_asset r) (\<lambda>a.
     bind (updateWithdrawStatus (wd_id r) WA_APPROVE None systemCtx False) (\<lambda>_.
     andThen (record_note ''WITHDRAW_COMPLIANCE_PASSED'' r ''Pre-broadcast compliance gates passed, payout initiated'')
    (bind (createPayout (payout_input r a) ''SYSTEM'' False) (\<lambda>p.
     andThen (linkPayout (wd_id r) (po_id p) (po_no p))
       (whenM (0 < to_Number (wd_feeAmount r)) (create_fee_fund r a))))))))"

section \<open>The compliance screen\<close>

definition score_str :: "int option \<Rightarrow> string" where
  "score_str s = (case s of None \<Rightarrow> ''null'' | Some n \<Rightarrow> (if n < 0 then ''-'' else []) @ nat_str (nat \<bar>n\<bar>))"

definition gates_passed :: "withdraw \<Rightarrow> bool" where
  "gates_passed r \<longleftrightarrow> wd_preKytStatus r = ''PASSED''
     \<and> (wd_travelRuleStatus r = ''PASSED'' \<or> wd_travelRuleStatus r = ''NOT_REQUIRED'')"

definition checkScreenPass :: "string \<Rightarrow> unit op" where
  "checkScreenPass withdrawId =
     bind (findOneInternal withdrawId) (\<lambda>r.
       if wd_status r \<noteq> W_PENDING_COMPLIANCE then ret ()
       else if \<not> gates_passed r then ret ()
       else
         andThen (record_note ''WITHDRAW_KYT_PHASE1_PASSED'' r (''Pre-KYT passed: score='' @ score_str (wd_preKytRiskScore r)))
        (andThen (record_note ''WITHDRAW_TRAVEL_RULE_PASSED'' r (''Travel Rule status: '' @ wd_travelRuleStatus r))
          (initiatePayoutPhase withdrawId)))"

definition initializeTransactionScreen :: "string \<Rightarrow> unit op" where
  "initializeTransactionScreen withdrawId =
     bind (findOneInternal withdrawId) (\<lambda>r.
     bind (withdraw_asset r) (\<lambda>a.
     bind (updateKytStatus withdrawId ''PENDING'' None None 1) (\<lambda>_.
     bind (updateTravelRuleStatus withdrawId (if asset_is ''FIAT'' a then ''NOT_REQUIRED'' else ''PENDING'') None) (\<lambda>_.
     checkScreenPass withdrawId))))"

definition handlePostBroadcastKyt :: "string \<Rightarrow> string \<Rightarrow> unit op" where
  "handlePostBroadcastKyt withdrawId kyt =
     bind (findOneInternal withdrawId) (\<lambda>r.
       record_note ''WITHDRAW_KYT_PHASE1_PASSED'' r
         (''Post-broadcast KYT completed: status='' @ kyt @ '' score='' @ score_str (wd_kytRiskScore r)))"

definition handleKytUpdated :: "string \<Rightarrow> string \<Rightarrow> nat \<Rightarrow> unit op" where
  "handleKytUpdated withdrawId kyt phase =
     (if phase = 1 then checkScreenPass withdrawId
      else if phase = 2 then handlePostBroadcastKyt withdrawId kyt else ret ())"

definition handleTravelRuleUpdated :: "string \<Rightarrow> unit op" where
  "handleTravelRuleUpdated withdrawId = checkScreenPass withdrawId"

section \<open>Valuation and the approval gate\<close>

text \<open>\<^emph>\<open>fetchRate\<close> is the rate provider's answer to (currency, AED), none when it throws; \<^emph>\<open>createAndSubmit\<close> the
  id and number of the approval case the approvals service opens, none when it throws.\<close>

type_synonym rate_provider = "string \<Rightarrow> string \<Rightarrow> (rat \<times> int) option"
type_synonym approvals = "withdraw \<Rightarrow> valuation \<Rightarrow> (string \<times> string) option"

definition WITHDRAW_APPROVAL_AED_THRESHOLD :: rat where
  "WITHDRAW_APPROVAL_AED_THRESHOLD = 200000"

definition shouldRequireApproval :: "valuation \<Rightarrow> bool" where
  "shouldRequireApproval v \<longleftrightarrow>
     (if va_failed v then True
      else case va_gross v of None \<Rightarrow> True | Some g \<Rightarrow> WITHDRAW_APPROVAL_AED_THRESHOLD \<le> g)"

definition valuateAed :: "rate_provider \<Rightarrow> withdraw \<Rightarrow> asset option \<Rightarrow> valuation" where
  "valuateAed fetchRate r a =
     (case fetchRate (or_text (map_option a_currency a) []) ''AED'' of
        Some (rate, t) \<Rightarrow> \<lparr>va_gross = Some (wd_amount r * rate), va_rate = Some rate, va_fetchedAt = Some t,
          va_failed = False\<rparr>
      | None \<Rightarrow> \<lparr>va_gross = None, va_rate = None, va_fetchedAt = None, va_failed = True\<rparr>)"

definition openApprovalGate :: "approvals \<Rightarrow> withdraw \<Rightarrow> valuation \<Rightarrow> unit op" where
  "openApprovalGate createAndSubmit r v =
     bind (need (createAndSubmit r v) (PlainError ''approval'')) (\<lambda>(caseId, no).
     andThen (linkApprovalCase (wd_id r) caseId no)
    (bind (updateWithdrawStatus (wd_id r) WA_REQUIRE_APPROVAL None systemCtx False) (\<lambda>_.
     record_note ''WITHDRAW_APPROVAL_REQUESTED'' r (''Large-value approval requested (case '' @ no @ '')''))))"

definition handleWithdrawalCreated :: "rate_provider \<Rightarrow> approvals \<Rightarrow> string \<Rightarrow> unit op" where
  "handleWithdrawalCreated fetchRate createAndSubmit withdrawId =
     bind (findOneInternal withdrawId) (\<lambda>r.
       if wd_status r \<noteq> W_CREATED then ret ()
       else
         bind (withdraw_asset r) (\<lambda>a.
         let v = valuateAed fetchRate r a in
         andThen (saveValuationSnapshot (wd_id r) v)
           (if shouldRequireApproval v then openApprovalGate createAndSubmit r v
            else bind (updateWithdrawStatus (wd_id r) WA_CHECK None systemCtx False) (\<lambda>_.
                   initializeTransactionScreen (wd_id r)))))"

definition onLargeValueApprovalDecided :: "string \<Rightarrow> string \<Rightarrow> string \<Rightarrow> string option \<Rightarrow> unit op" where
  "onLargeValueApprovalDecided decision entityRef no decisionReason =
     bind (findOneInternal entityRef) (\<lambda>r.
       if wd_status r \<noteq> W_PENDING_APPROVAL then ret ()
       else if decision = ''APPROVED'' then
         bind (updateWithdrawStatus (wd_id r) WA_GATE_APPROVE None systemCtx False) (\<lambda>_.
         andThen (record_note ''WITHDRAW_APPROVAL_GRANTED'' r
             (''Large-value approval granted (case '' @ no @ '') - proceeding to compliance''))
           (initializeTransactionScreen (wd_id r)))
       else
         bind (updateWithdrawStatus (wd_id r) WA_REJECT
             (Some (''Approval '' @ decision @ '': '' @ or_text decisionReason ''no reason'')) systemCtx False) (\<lambda>_.
         andThen (releaseLock r (''Large-value approval '' @ decision))
           (record_note ''WITHDRAW_APPROVAL_DECLINED'' r
             (''Large-value approval '' @ decision @ '' (case '' @ no @ '') - pending lock voided''))))"

section \<open>Finalization\<close>

definition ledger_of :: "asset option \<Rightarrow> nat option" where
  "ledger_of a = (case a of None \<Rightarrow> None | Some x \<Rightarrow> if a_currency x = [] then None else TB_LEDGERS (a_currency x))"

text \<open>\<open>w.txHash ?? w.referenceNo\<close>, else the payout's, best effort.\<close>

definition external_ref :: "withdraw \<Rightarrow> string option op" where
  "external_ref r =
     (let own = nullish (wd_txHash r) (wd_referenceNo r) in
      if \<not> truthy own \<and> truthy (wd_payoutId r) then
        handle (bind (findPayout (the (wd_payoutId r))) (\<lambda>p. ret (nullish (po_txHash p) (po_referenceNo p))))
          (\<lambda>_. ret own)
      else ret own)"

definition post_fields :: "string \<Rightarrow> string \<Rightarrow> string option \<Rightarrow> string option \<Rightarrow> enrich_fields" where
  "post_fields eventCode memo walletRef externalRef =
     \<lparr>ef_eventCode = Some eventCode, ef_memo = Some (Some memo), ef_debitWalletRef = Some walletRef,
      ef_creditWalletRef = Some walletRef, ef_externalRef = Some externalRef, ef_crossing = Some True\<rparr>"

definition post_one :: "string \<Rightarrow> int op \<Rightarrow> enrich_fields \<Rightarrow> unit op" where
  "post_one pending amount ef =
     bind (need (hexToBigint pending) (SyntaxError ''BigInt'')) (\<lambda>i.
     bind amount (\<lambda>n.
     andThen (postPendingTransfer i n) (enrichForPost pending ef)))"

definition post_net :: "withdraw \<Rightarrow> nat \<Rightarrow> string option \<Rightarrow> unit op" where
  "post_net r decimals externalRef =
     (if truthy (wd_tbPendingNetId r) then
        post_one (the (wd_tbPendingNetId r)) (to_units (wd_netAmount r) decimals)
          (post_fields ''WITHDRAW_NET_POST'' ''Payout confirmed: POST net pending transfer'' (wd_fromWalletId r) externalRef)
      else ret ())"

definition post_fee :: "withdraw \<Rightarrow> int \<Rightarrow> string option \<Rightarrow> unit op" where
  "post_fee r fee externalRef =
     (if truthy (wd_tbPendingFeeId r) \<and> 0 < fee then
        post_one (the (wd_tbPendingFeeId r)) (ret fee)
          (post_fields ''WITHDRAW_FEE_POST'' ''Payout confirmed: POST fee pending transfer'' (wd_fromWalletId r) externalRef)
      else ret ())"

definition resolveFirmFeeWalletRef :: "string \<Rightarrow> string option op" where
  "resolveFirmFeeWalletRef assetId =
     handle (bind (resolveWallet assetId ''F_FEE'') (\<lambda>x. ret (Some (w_id x)))) (\<lambda>_. ret None)"

definition firm_fee_evidence :: "withdraw \<Rightarrow> string \<Rightarrow> string option \<Rightarrow> string option \<Rightarrow> EvidenceParams" where
  "firm_fee_evidence r currency feeWallet externalRef =
     \<lparr>ep_sourceType = ''WITHDRAWAL'', ep_sourceNo = wd_no r, ep_eventCode = ''WITHDRAW_FEE_FIRM'',
      ep_traceId = or_text (wd_traceId r) (wd_id r), ep_debitCode = coa_label FIRM_ASSET,
      ep_creditCode = coa_label FIRM_FEE, ep_assetCurrency = currency, ep_actorType = ''SYSTEM'',
      ep_actorId = ''WITHDRAW_WORKFLOW'', ep_memo = Some ''Firm-side fee collect: FIRM_ASSET to FIRM_FEE'',
      ep_debitWalletRef = None, ep_creditWalletRef = feeWallet, ep_externalRef = externalRef,
      ep_crossing = True\<rparr>"

definition collect_firm_fee :: "withdraw \<Rightarrow> asset option \<Rightarrow> int \<Rightarrow> string option \<Rightarrow> unit op" where
  "collect_firm_fee r a fee externalRef =
     (if 0 < fee then
        bind (need (ledger_of a) (PlainError ''no TB ledger'')) (\<lambda>ledger.
        bind (resolveTbAccountId (TB_ACCOUNT_CODES FIRM_ASSET) ledger ''SYSTEM'' None) (\<lambda>firmAssetId.
        bind (resolveTbAccountId (TB_ACCOUNT_CODES FIRM_FEE) ledger ''SYSTEM'' None) (\<lambda>firmFeeId.
        bind (resolveFirmFeeWalletRef (wd_assetId r)) (\<lambda>feeWallet.
        bind (executeTransfer firmAssetId firmFeeId fee ledger (TB_TRANSFER_CODES WITHDRAW_FEE_FIRM)
            (firm_fee_evidence r (or_text (map_option a_currency a) []) feeWallet externalRef)) (\<lambda>_. ret ())))))
      else ret ())"

text \<open>\<open>assertWithdrawSettled\<close>: the payout is out and every ledger leg has its evidence.\<close>

definition required_codes :: "withdraw \<Rightarrow> int \<Rightarrow> string list" where
  "required_codes r fee =
     (if truthy (wd_tbPendingNetId r) then [''WITHDRAW_NET_POST''] else [])
     @ (if 0 < fee then [''WITHDRAW_FEE_POST'', ''WITHDRAW_FEE_FIRM''] else [])"

definition withdraw_codes :: "string \<Rightarrow> db \<Rightarrow> string list" where
  "withdraw_codes no d =
     map e_eventCode (filter (\<lambda>e. e_sourceType e = ''WITHDRAWAL'' \<and> e_sourceNo e = no) (evidences d))"

definition assertWithdrawSettled :: "withdraw \<Rightarrow> int \<Rightarrow> unit op" where
  "assertWithdrawSettled r fee =
     andThen
       (if truthy (wd_payoutId r) then
          bind (findPayout (the (wd_payoutId r))) (\<lambda>p.
            guard (po_status p = PO_CONFIRMED \<or> po_status p = PO_CLEARED) (PlainError ''cannot settle: payout''))
        else ret ())
       (bind (getsDb (withdraw_codes (wd_no r))) (\<lambda>codes.
          guard (list_all (\<lambda>c. c \<in> set codes) (required_codes r fee))
            (PlainError ''cannot settle: missing TB legs'')))"

definition clear_payout :: "withdraw \<Rightarrow> unit op" where
  "clear_payout r =
     (if truthy (wd_payoutId r) then
        handle (bind (updatePayoutStatus (the (wd_payoutId r))
            \<lparr>up_action = PO_CLEAR, up_txHash = None, up_referenceNo = None,
             up_reason = Some ''Internal accounting completed after chain confirmation'',
             up_gasUsed = None, up_gasPrice = None\<rparr> ''SYSTEM'' False) (\<lambda>_. ret ()))
          (\<lambda>_. ret ())
      else ret ())"

definition finalizeWithdrawal :: "string \<Rightarrow> unit op" where
  "finalizeWithdrawal withdrawId =
     bind (findOneInternal withdrawId) (\<lambda>r.
       if wd_status r \<noteq> W_PAYOUT_PENDING then ret ()
       else
         bind (withdraw_asset r) (\<lambda>a.
         bind (to_units (wd_feeAmount r) (decimals_of a)) (\<lambda>fee.
         andThen (guard (0 < fee \<longrightarrow> ledger_of a \<noteq> None) (PlainError ''cannot collect firm fee: no TB ledger''))
        (bind (external_ref r) (\<lambda>externalRef.
         andThen (post_net r (decimals_of a) externalRef)
        (andThen (post_fee r fee externalRef)
        (andThen (collect_firm_fee r a fee externalRef)
        (bind (setWithdrawFeeFundStatus (wd_id r) CLEAR ''Withdrawal finalized: fee posted'' ''SYSTEM'' False) (\<lambda>_.
         andThen (record_note ''WITHDRAW_ACCOUNTING_POSTED'' r
            (if asset_is ''FIAT'' a then ''TB pending transfers posted after bank confirmation''
             else ''TB pending transfers posted after chain confirmation''))
        (andThen (assertWithdrawSettled r fee)
        (bind (updateWithdrawStatus (wd_id r) WA_SUCCESS None systemCtx False) (\<lambda>_.
         andThen (record_note ''WITHDRAW_SUCCESS'' r ''Withdrawal completed successfully'')
           (clear_payout r)))))))))))))"

text \<open>The archive that follows in \<open>handlePayoutConfirmed\<close> is a stub that logs.\<close>

definition handlePayoutConfirmed :: "string \<Rightarrow> unit op" where
  "handlePayoutConfirmed withdrawId =
     andThen (finalizeWithdrawal withdrawId) (bind (findOneInternal withdrawId) (\<lambda>_. ret ()))"

section \<open>Compensation and repair\<close>

definition compensatePayout :: "string \<Rightarrow> WithdrawAction \<Rightarrow> WithdrawStatus \<Rightarrow> string \<Rightarrow> unit op" where
  "compensatePayout withdrawId action targetStatus reason =
     bind (findOneInternal withdrawId) (\<lambda>r.
     andThen
       (if wd_status r \<noteq> targetStatus
        then bind (updateWithdrawStatus (wd_id r) action (Some reason) systemCtx False) (\<lambda>_. ret ())
        else ret ())
       (releaseLock r reason))"

definition onPayoutFailed :: "string \<Rightarrow> string \<Rightarrow> unit op" where
  "onPayoutFailed withdrawId payoutId =
     compensatePayout withdrawId WA_FAIL W_FAILED (''Payout '' @ payoutId @ '' failed'')"

definition onPayoutTimeout :: "string \<Rightarrow> string \<Rightarrow> unit op" where
  "onPayoutTimeout withdrawId payoutId =
     compensatePayout withdrawId WA_FAIL W_FAILED (''Payout '' @ payoutId @ '' timed out'')"

definition onPayoutReturned :: "string \<Rightarrow> string \<Rightarrow> unit op" where
  "onPayoutReturned withdrawId payoutId =
     compensatePayout withdrawId WA_RETURN W_RETURNED (''Payout '' @ payoutId @ '' returned'')"

definition reCloseoutPayout :: "string \<Rightarrow> (bool \<times> WithdrawStatus \<times> PayoutStatus) op" where
  "reCloseoutPayout payoutId =
     bind (getsDb (find_payout payoutId)) (\<lambda>row.
     bind (need row (BadRequestException ''Payout not found'')) (\<lambda>p.
     bind (findOneInternal (po_withdrawId p)) (\<lambda>r.
       if po_status p = PO_CLEARED \<and> wd_status r = W_SUCCESS then ret (False, wd_status r, po_status p)
       else
         andThen (guard (po_status p = PO_CONFIRMED \<and> wd_status r = W_PAYOUT_PENDING)
             (BadRequestException ''PAYOUT_RECLOSEOUT_NOT_APPLICABLE''))
        (andThen (finalizeWithdrawal (po_withdrawId p))
        (bind (findOneInternal (po_withdrawId p)) (\<lambda>refreshed.
           ret (True, wd_status refreshed, po_status p)))))))"

definition reCompensatePayout :: "string \<Rightarrow> (bool \<times> WithdrawStatus \<times> PayoutStatus) op" where
  "reCompensatePayout payoutId =
     bind (getsDb (find_payout payoutId)) (\<lambda>row.
     bind (need row (BadRequestException ''Payout not found'')) (\<lambda>p.
     andThen (guard (po_status p \<in> set [PO_FAILED, PO_TIMEOUT, PO_RETURNED])
         (BadRequestException ''PAYOUT_RECOMPENSATE_NOT_APPLICABLE''))
    (andThen (compensatePayout (po_withdrawId p)
         (if po_status p = PO_RETURNED then WA_RETURN else WA_FAIL)
         (if po_status p = PO_RETURNED then W_RETURNED else W_FAILED)
         (''Re-compensate payout '' @ payoutId @ '' ('' @ payout_status_str (po_status p) @ '')''))
    (bind (findOneInternal (po_withdrawId p)) (\<lambda>refreshed.
       ret (True, wd_status refreshed, po_status p))))))"

end
