(* ===== verification/WithdrawFacts.thy ===== *)
theory WithdrawFacts
  imports WithdrawWorkflow TableLife SwapFacts
begin

text \<open>
  What the withdrawal and payout services keep: which tables an operation leaves alone, the life of a
  withdrawal and of a payout row, and the effect of the steps of the workflow.
\<close>

section \<open>Frames\<close>

text \<open>The two rail tables of a withdrawal.\<close>

definition rails :: "db \<Rightarrow> withdraw list \<times> payout list" where
  "rails d = (withdraws d, payouts d)"

abbreviation rails_kept :: "'a op \<Rightarrow> bool" where
  "rails_kept m \<equiv> steps (same (\<lambda>w. rails (db w))) m"

lemma rails_core: "rails (core w) = rails (db w)"
  by (simp add: core_def rails_def)

lemma rails_of_core: "steps (same core) m \<Longrightarrow> rails_kept m"
  unfolding steps_def same_def by (metis rails_core)

lemma rails_basic:
  "rails_kept (getsDb f)" "rails_kept now" "rails_kept randomUUID" "rails_kept (generateReferenceNo p)"
  "rails_kept (recordByActor a c)" "rails_kept (recordSystem a c)" "rails_kept (insert_fund r)"
  "rails_kept (emit e)" "rails_kept (put_withdraw_quote i f')" "rails_kept (randomBelow n)"
  "rails_kept (put_fund i r)" "rails_kept tbId" "rails_kept (submit t)" "rails_kept (adjust x m)"
  by (auto simp: steps_wp same_def rails_def wp_insert_fund put_withdraw_quote_def put_fund_def
      wp_submit Let_def wp_adjust split: option.split)

lemma steps_split: "(\<And>a b. steps R (f a b)) \<Longrightarrow> steps R (case p of (a, b) \<Rightarrow> f a b)"
  by (cases p) simp

lemmas rails_rules = unchanged.inTx unchanged.transaction frame.combinators steps_split rails_basic

lemma rails_funds:
  "rails_kept (createWithdrawFeeFund inp op tx)" "rails_kept (setWithdrawFeeFundStatus i s r op tx)"
  unfolding createWithdrawFeeFund_def create_numbered_def setWithdrawFeeFundStatus_def Let_def
  by (intro rails_rules unchanged.with_unique_no)+

lemma rails_ledger:
  "rails_kept (executeTransfer d c a l k ep)" "rails_kept (executePendingTransfer d c a l k tm ep n)"
  "rails_kept (postPendingTransfer p a)" "rails_kept (voidPendingTransfer p a)"
  "rails_kept (enrichForPost i x)" "rails_kept (resolveTbAccountId code l ty ow)"
  "rails_kept (resolveWallet as ro)"
  by (intro rails_of_core ledger_ops_core resolve_core)+

lemma rails_bestEffort: "rails_kept (voidPendingTransferBestEffort p a)"
  unfolding voidPendingTransferBestEffort_def by (intro rails_rules)

lemma rails_workflow:
  "rails_kept (record_note a r s)" "rails_kept (to_units v d)" "rails_kept (withdraw_asset r)"
  "rails_kept (findOneInternal i)" "rails_kept (findPayout i)" "rails_kept (quote_fee q ass)"
  "rails_kept (void_orphan k n)" "rails_kept (ensureCustomerCanTransact cu ca)"
  "rails_kept (resolveFirmFeeWalletRef x)"
  unfolding record_note_def to_units_def withdraw_asset_def findOneInternal_def findPayout_def quote_fee_def
    void_orphan_def ensureCustomerCanTransact_def resolveFirmFeeWalletRef_def
  by (intro rails_rules rails_bestEffort rails_ledger)+

lemma rails_quotes:
  "rails_kept (getActiveWithdrawQuote q ty ow t)" "rails_kept (consumeWithdrawQuote q ty ow m)"
  "rails_kept (cancelWithdrawQuote q ty ow)"
  unfolding getActiveWithdrawQuote_def consumeWithdrawQuote_def cancelWithdrawQuote_def
    owned_withdraw_quote_def Let_def
  by (intro rails_rules)+

lemma rails_undo: "rails_kept m \<Longrightarrow> rails_kept (undo_locks ls m)"
  unfolding undo_locks_def by (intro rails_rules rails_workflow)

lemma rails_locks:
  "rails_kept (lock_net r a l p x n)" "rails_kept (lock_fee r a l p x n)"
  unfolding lock_net_def lock_fee_def by (intro rails_rules rails_ledger)+

lemma rails_release: "rails_kept (releaseLock r reason)"
  unfolding releaseLock_def release_one_def
  by (intro rails_rules rails_workflow rails_bestEffort rails_funds)

lemma rails_finalize_parts:
  "rails_kept (external_ref r)" "rails_kept (post_net r d x)" "rails_kept (post_fee r n x)"
  "rails_kept (collect_firm_fee r a n x)" "rails_kept (assertWithdrawSettled r n)"
  "rails_kept (create_fee_fund r a)"
  unfolding external_ref_def post_net_def post_fee_def post_one_def collect_firm_fee_def
    assertWithdrawSettled_def create_fee_fund_def Let_def
  by (intro rails_rules rails_workflow rails_ledger rails_funds)+

section \<open>The life of a withdrawal\<close>

text \<open>The identity of a withdrawal: what no operation changes.\<close>

definition withdraw_identity ::
    "withdraw \<Rightarrow> string \<times> string \<times> string \<times> string \<times> string \<times> rat \<times> rat \<times> rat \<times> string option" where
  "withdraw_identity r = (wd_id r, wd_no r, wd_ownerType r, wd_ownerId r, wd_assetId r, wd_amount r,
     wd_feeAmount r, wd_netAmount r, wd_pricingQuoteId r)"

definition paid_out :: "WithdrawStatus \<Rightarrow> bool" where
  "paid_out s \<longleftrightarrow> s \<in> {W_PAYOUT_PENDING, W_SUCCESS, W_FAILED, W_RETURNED}"

text \<open>A well-formed row: the amounts add up, and the derived columns agree with the status.\<close>

definition withdraw_ok :: "withdraw \<Rightarrow> bool" where
  "withdraw_ok r \<longleftrightarrow>
     wd_amount r = wd_netAmount r + wd_feeAmount r \<and> 0 \<le> wd_netAmount r
     \<and> wd_complianceStatus r = compliance_snapshot (wd_status r)
     \<and> (wd_completedAt r \<noteq> None \<longleftrightarrow> withdraw_done (wd_status r))
     \<and> (paid_out (wd_status r) \<longrightarrow> wd_approvedAt r \<noteq> None \<and> wd_payoutRequestedAt r \<noteq> None)
     \<and> (\<exists>es. wd_history r = HArray es \<and> es \<noteq> [] \<and> h_status (last es) = withdraw_status_str (wd_status r))"

definition withdraw_moved :: "withdraw \<Rightarrow> withdraw \<Rightarrow> bool" where
  "withdraw_moved r s \<longleftrightarrow> withdraw_identity s = withdraw_identity r
     \<and> reaches withdraw_transitions (wd_status r) (wd_status s)
     \<and> (\<exists>es. history_entries (wd_history s) = history_entries (wd_history r) @ es)"

lemma withdraw_moved_refl: "withdraw_moved r r"
  by (simp add: withdraw_moved_def reaches.refl)

lemma withdraw_moved_trans: "withdraw_moved r s \<Longrightarrow> withdraw_moved s t \<Longrightarrow> withdraw_moved r t"
  unfolding withdraw_moved_def using reaches_trans by auto

abbreviation withdraw_step :: "world \<Rightarrow> world \<Rightarrow> bool" where
  "withdraw_step \<equiv> table_step withdraws wd_id withdraw_ok withdraw_moved"

interpretation wlife: table_life withdraws wd_id withdraw_ok withdraw_moved
  by unfold_locales (fact withdraw_moved_refl, fact withdraw_moved_trans)

lemma wlife_rails: "rails_kept m \<Longrightarrow> steps withdraw_step m"
  by (rule wlife.steps_same) (auto simp: steps_def same_def rails_def)

text \<open>The table keeps the derived columns in step with the status.\<close>

lemma paid_out_entry:
  "withdraw_transitions s a = Some q \<Longrightarrow> paid_out q \<Longrightarrow> q = W_PAYOUT_PENDING \<or> paid_out s"
  by (cases s) (auto simp: withdraw_transitions_def paid_out_def split: if_splits)

lemma done_stays: "withdraw_transitions s a = Some q \<Longrightarrow> withdraw_done s \<Longrightarrow> withdraw_done q"
  by (cases s) (auto simp: withdraw_transitions_def split: if_splits)

lemma moved_withdraw_ok:
  assumes "withdraw_transitions (wd_status r) a = Some q" "withdraw_ok r"
  shows "withdraw_ok (moved_withdraw r q reason ac t)" "withdraw_moved r (moved_withdraw r q reason ac t)"
proof -
  have entry: "q = W_PAYOUT_PENDING \<or> paid_out (wd_status r)" if "paid_out q"
    using paid_out_entry assms(1) that by blast
  have fin: "withdraw_done (wd_status r) \<longrightarrow> withdraw_done q"
    using done_stays assms(1) by blast
  have old: "wd_amount r = wd_netAmount r + wd_feeAmount r" "0 \<le> wd_netAmount r"
    "wd_completedAt r \<noteq> None \<longleftrightarrow> withdraw_done (wd_status r)"
    "paid_out (wd_status r) \<longrightarrow> wd_approvedAt r \<noteq> None \<and> wd_payoutRequestedAt r \<noteq> None"
    using assms(2) unfolding withdraw_ok_def by blast+
  let ?s = "moved_withdraw r q reason ac t"
  have "wd_completedAt ?s \<noteq> None \<longleftrightarrow> withdraw_done q"
    using fin old(3) by (auto simp add: moved_withdraw_def simp del: withdraw_done.simps)
  moreover have "paid_out q \<longrightarrow> wd_approvedAt ?s \<noteq> None \<and> wd_payoutRequestedAt ?s \<noteq> None"
    using entry old(4) by (auto simp: moved_withdraw_def)
  ultimately show "withdraw_ok ?s"
    using old(1,2) by (simp add: withdraw_ok_def moved_withdraw_def del: withdraw_done.simps)
  show "withdraw_moved r (moved_withdraw r q reason ac t)"
    using reaches.step[where \<delta> = withdraw_transitions, OF reaches.refl assms(1)]
    by (simp add: withdraw_moved_def withdraw_identity_def moved_withdraw_def)
qed

lemma update_withdraw_life:
  assumes "\<And>r. wd_id r = i \<Longrightarrow> withdraw_identity (f r) = withdraw_identity r \<and> wd_status (f r) = wd_status r
      \<and> wd_complianceStatus (f r) = wd_complianceStatus r \<and> wd_completedAt (f r) = wd_completedAt r
      \<and> wd_approvedAt (f r) = wd_approvedAt r \<and> wd_payoutRequestedAt (f r) = wd_payoutRequestedAt r
      \<and> wd_history (f r) = wd_history r"
  shows "steps withdraw_step (update_withdraw i f)"
proof -
  have "wp (update_withdraw i f) (\<lambda>_. withdraw_step w) (\<lambda>_. withdraw_step w) w" for w
  proof (cases "find_withdraw i (db w)")
    case None
    then show ?thesis
      by (simp add: update_withdraw_def wlife.step_refl)
  next
    case (Some r)
    have r: "by_id wd_id i (withdraws (db w)) = Some r" "wd_id r = i"
      using Some by_id_SomeD by (fastforce simp: find_withdraw_def)+
    have "withdraw_ok r \<Longrightarrow> withdraw_ok (f r) \<and> wd_id (f r) = i \<and> withdraw_moved r (f r)"
      using assms[OF r(2)] r(2) unfolding withdraw_ok_def withdraw_moved_def withdraw_identity_def
      by (simp add: reaches.refl)
    then have "withdraw_step w (w\<lparr>db := (db w)\<lparr>withdraws := update_rows (\<lambda>x. wd_id x = i) f (withdraws (db w))\<rparr>\<rparr>)"
      by (intro wlife.step_update[OF _ r(1)]) simp_all
    then show ?thesis
      using Some by (simp add: update_withdraw_def)
  qed
  then show ?thesis
    by (simp add: steps_wp)
qed

lemma move_withdraw_life: "steps withdraw_step (move_withdraw i action reason ac)"
proof -
  have "wp (move_withdraw i action reason ac) (\<lambda>_. withdraw_step w) (\<lambda>_. withdraw_step w) w" for w
  proof (cases "find_withdraw i (db w)")
    case None
    then show ?thesis
      by (simp add: move_withdraw_def findOneInternal_def wlife.step_refl)
  next
    case (Some r)
    have r: "by_id wd_id i (withdraws (db w)) = Some r" "wd_id r = i"
      using Some by_id_SomeD by (fastforce simp: find_withdraw_def)+
    have "withdraw_step w v" if "withdraw_transitions (wd_status r) action = Some q"
      and "withdraws (db v) = update_rows (\<lambda>x. wd_id x = i) (\<lambda>_. moved_withdraw r q reason ac (clock w)) (withdraws (db w))"
    for q v
    proof (rule wlife.step_update[OF that(2) r(1)])
      show "withdraw_ok r \<Longrightarrow> withdraw_ok (moved_withdraw r q reason ac (clock w))
          \<and> wd_id (moved_withdraw r q reason ac (clock w)) = i
          \<and> withdraw_moved r (moved_withdraw r q reason ac (clock w))"
        using moved_withdraw_ok[OF that(1)] r(2) by (simp add: moved_withdraw_def)
    qed
    then show ?thesis
      using Some by (simp add: move_withdraw_def findOneInternal_def assertStatusUpdateSourceAllowed_def
          update_withdraw_def wlife.step_refl split: option.split)
  qed
  then show ?thesis
    by (simp add: steps_wp)
qed

lemma insertRecord_life: "withdraw_ok r \<Longrightarrow> steps withdraw_step (insertRecord r)"
  by (auto simp: steps_wp insertRecord_def wlife.step_refl intro!: wlife.step_insert)

lemma new_withdraw_ok: "0 \<le> amount - fee \<Longrightarrow> withdraw_ok (new_withdraw dto a ty u no amount fee q wno tr i t)"
  by (simp add: withdraw_ok_def new_withdraw_def paid_out_def)

text \<open>The payout service does not touch the withdrawals.\<close>

lemma kept_of_rails: "rails_kept m \<Longrightarrow> steps (same (\<lambda>w. withdraws (db w))) m"
  by (auto simp: steps_def same_def rails_def)

lemma confirm_refs_same: "steps (same db) (confirm_refs p dto)"
  unfolding confirm_refs_def mockGasUsed_def mockGasPrice_def Let_def
  by (intro frame.combinators same_draws)

lemma kept_of_db: "steps (same db) m \<Longrightarrow> steps (same (\<lambda>w. f (db w))) m"
  by (simp add: steps_def same_def)

lemma payout_keeps_withdraws:
  "steps (same (\<lambda>w. withdraws (db w))) (createPayout dto op tx)"
  "steps (same (\<lambda>w. withdraws (db w))) (updatePayoutStatus i d op tx)"
proof -
  have writes: "steps (same (\<lambda>w. withdraws (db w))) (insert_payout p)"
    "steps (same (\<lambda>w. withdraws (db w))) (put_payout i p)" for p i
    by (auto simp: steps_wp same_def insert_payout_def put_payout_def)
  note rules = unchanged.inTx unchanged.transaction frame.combinators steps_split writes
    kept_of_rails[OF rails_basic(1)] kept_of_rails[OF rails_basic(2)] kept_of_rails[OF rails_basic(3)]
    kept_of_rails[OF rails_basic(4)] kept_of_rails[OF rails_basic(5)] kept_of_rails[OF rails_basic(8)]
    kept_of_rails[OF rails_basic(14)] kept_of_db[OF confirm_refs_same, of withdraws]
  show "steps (same (\<lambda>w. withdraws (db w))) (createPayout dto op tx)"
    unfolding createPayout_def by (intro rules)
  show "steps (same (\<lambda>w. withdraws (db w))) (updatePayoutStatus i d op tx)"
    unfolding updatePayoutStatus_def update_payout_body_def apply_payout_update_def assert_R3_def Let_def by (intro rules)
qed

section \<open>The life of a payout\<close>

lemma js_trim_idem [simp]: "js_trim (js_trim s) = js_trim s"
proof -
  have strip: "dropWhile p (dropWhile p xs) = dropWhile p xs" for p :: "char \<Rightarrow> bool" and xs
    by simp
  have keep: "dropWhile p (rev (dropWhile p (rev xs))) = rev (dropWhile p (rev xs))"
    if "dropWhile p xs = xs" for p :: "char \<Rightarrow> bool" and xs
  proof (cases xs)
    case (Cons x ys)
    have "\<not> p x"
      using that Cons dropWhile_eq_Cons_conv[of p xs x ys] by auto
    then have "\<not> (\<forall>y\<in>set (rev xs). p y)"
      using Cons by simp
    then obtain zs where "dropWhile p (rev xs) = zs @ [x]"
      using Cons \<open>\<not> p x\<close> by (cases "\<forall>y\<in>set ys. p y") (auto simp: dropWhile_append)
    then show ?thesis
      using \<open>\<not> p x\<close> by simp
  qed simp
  show ?thesis
    using keep[OF strip, of js_space s] strip by (simp add: js_trim_def)
qed

lemma normalize_Some: "normalizeOptionalString x = Some s \<Longrightarrow> normalizeOptionalString (Some s) = Some s"
  by (auto simp: normalizeOptionalString_def default_of_def Let_def split: if_splits)

definition payout_identity ::
    "payout \<Rightarrow> string \<times> string \<times> string \<times> string option \<times> string \<times> rat \<times> string" where
  "payout_identity p = (po_id p, po_no p, po_withdrawId p, po_ownerId p, po_type p, po_amount p, po_assetId p)"

text \<open>A well-formed row; a cleared one has its references (R3).\<close>

definition payout_ok :: "payout \<Rightarrow> bool" where
  "payout_ok p \<longleftrightarrow>
     (po_completedAt p \<noteq> None \<longleftrightarrow> payout_done (po_status p))
     \<and> (po_status p = PO_CLEARED \<longrightarrow> normalizeOptionalString (po_referenceNo p) \<noteq> None
          \<and> (po_type p = ''CRYPTO'' \<longrightarrow> truthy (po_txHash p)))
     \<and> (\<exists>es. po_history p = HArray es \<and> es \<noteq> [] \<and> h_status (last es) = payout_status_str (po_status p))"

definition payout_moved :: "payout \<Rightarrow> payout \<Rightarrow> bool" where
  "payout_moved p r \<longleftrightarrow> payout_identity r = payout_identity p
     \<and> reaches (payout_transitions (po_type p)) (po_status p) (po_status r)
     \<and> (\<exists>es. history_entries (po_history r) = history_entries (po_history p) @ es)"

lemma payout_moved_refl: "payout_moved p p"
  by (simp add: payout_moved_def reaches.refl)

lemma payout_moved_trans: "payout_moved p q \<Longrightarrow> payout_moved q r \<Longrightarrow> payout_moved p r"
  unfolding payout_moved_def payout_identity_def using reaches_trans by auto

abbreviation payout_step :: "world \<Rightarrow> world \<Rightarrow> bool" where
  "payout_step \<equiv> table_step payouts po_id payout_ok payout_moved"

interpretation plife: table_life payouts po_id payout_ok payout_moved
  by unfold_locales (fact payout_moved_refl, fact payout_moved_trans)

lemma payout_done_stays: "payout_transitions ty s a = Some q \<Longrightarrow> payout_done s \<Longrightarrow> payout_done q"
  by (cases s) (auto simp: payout_transitions_def split: if_splits)

lemma truthy_normalized: "normalizeOptionalString x \<noteq> None \<Longrightarrow> truthy x"
  by (cases x) (auto simp: normalizeOptionalString_def js_trim_def default_of_def Let_def)

lemma first_of_two: "first_of [x, y] \<noteq> None \<longleftrightarrow> normalizeOptionalString x \<noteq> None \<or> normalizeOptionalString y \<noteq> None"
  by (auto simp: first_of_def)

lemma updated_payout_ok:
  assumes "payout_transitions (po_type p) (po_status p) (up_action d0) = Some q" "payout_ok p"
    and R3: "q = PO_CLEARED \<Longrightarrow> first_of [up_referenceNo dto, po_referenceNo p] \<noteq> None"
      "q = PO_CLEARED \<Longrightarrow> po_type p = ''CRYPTO'' \<Longrightarrow> first_of [up_txHash dto, po_txHash p] \<noteq> None"
  shows "payout_ok (updated_payout p dto q op t)" "payout_moved p (updated_payout p dto q op t)"
proof -
  let ?r = "updated_payout p dto q op t"
  have fin: "payout_done (po_status p) \<longrightarrow> payout_done q"
    using payout_done_stays assms(1) by blast
  have old: "po_completedAt p \<noteq> None \<longleftrightarrow> payout_done (po_status p)"
    using assms(2) unfolding payout_ok_def by blast
  have "po_completedAt ?r \<noteq> None \<longleftrightarrow> payout_done q"
    using fin old by (auto simp add: updated_payout_def simp del: payout_done.simps)
  moreover have "normalizeOptionalString (po_referenceNo ?r) \<noteq> None" if "q = PO_CLEARED"
    using R3(1)[OF that] normalize_Some unfolding first_of_two updated_payout_def
    by (cases "normalizeOptionalString (up_referenceNo dto)") auto
  moreover have "truthy (po_txHash ?r)" if "q = PO_CLEARED" "po_type p = ''CRYPTO''"
    using R3(2)[OF that] truthy_normalized unfolding first_of_two updated_payout_def by (auto simp: or_else_def)
  ultimately show "payout_ok ?r"
    by (simp add: payout_ok_def updated_payout_def del: payout_done.simps)
  show "payout_moved p ?r"
    using reaches.step[where \<delta> = "payout_transitions (po_type p)", OF reaches.refl assms(1)]
    by (simp add: payout_moved_def payout_identity_def updated_payout_def)
qed

lemma plife_rails: "rails_kept m \<Longrightarrow> steps payout_step m"
  by (rule plife.steps_same) (auto simp: steps_def same_def rails_def)

lemmas payout_rules = plife.life.inTx plife.life.transaction plife.life.combinators steps_split
  plife_rails[OF rails_basic(1)] plife_rails[OF rails_basic(2)] plife_rails[OF rails_basic(3)]
  plife_rails[OF rails_basic(4)] plife_rails[OF rails_basic(5)] plife_rails[OF rails_basic(8)]

lemma createPayout_life: "steps payout_step (createPayout dto op tx)"
proof -
  have "steps payout_step (insert_payout (payout_row dto ow src op' i no t))" for ow src op' i no t
    by (auto simp: steps_wp insert_payout_def plife.step_refl payout_ok_def payout_row_def intro!: plife.step_insert)
  then show ?thesis
    unfolding createPayout_def by (intro payout_rules)
qed

lemma update_payout_body_life: "steps payout_step (update_payout_body i d op)"
proof -
  have "wp (update_payout_body i d op) (\<lambda>_. payout_step w) (\<lambda>_. payout_step w) w" for w
  proof (cases "find_payout i (db w)")
    case None
    then show ?thesis
      by (simp add: update_payout_body_def plife.step_refl)
  next
    case (Some p)
    have p: "by_id po_id i (payouts (db w)) = Some p" "po_id p = i"
      using Some by_id_SomeD by (fastforce simp: find_payout_def)+
    have put: "payout_step w u" if "payout_transitions (po_type p) (po_status p) (up_action d) = Some q"
      "payouts (db u) = update_rows (\<lambda>x. po_id x = i) (\<lambda>_. updated_payout p dto q op t) (payouts (db w))"
      "q = PO_CLEARED \<longrightarrow> first_of [up_referenceNo dto, po_referenceNo p] \<noteq> None
         \<and> (po_type p = ''CRYPTO'' \<longrightarrow> first_of [up_txHash dto, po_txHash p] \<noteq> None)" for q dto t u
      using updated_payout_ok[OF that(1), of dto op t] that(3) p(2)
      by (intro plife.step_update[OF that(2) p(1)]) (simp add: updated_payout_def)
    have tail: "wp (apply_payout_update p dto q op) (\<lambda>_. payout_step w) (\<lambda>_. payout_step w) v"
      if "payout_transitions (po_type p) (po_status p) (up_action d) = Some q" "db v = db w" for q dto v
      using that(2) p(2)
      by (simp add: apply_payout_update_def assert_R3_def put_payout_def Let_def wp_adjust plife.step_same
          put[OF that(1)] split: option.split)
    have "wp (confirm_refs p d) (\<lambda>dto. wp (apply_payout_update p dto q op) (\<lambda>_. payout_step w) (\<lambda>_. payout_step w))
        (\<lambda>_. payout_step w) w"
      if "payout_transitions (po_type p) (po_status p) (up_action d) = Some q" for q
      by (rule wp_same[OF confirm_refs_same]) (simp_all add: tail[OF that] plife.step_same)
    then show ?thesis
      using Some by (simp add: update_payout_body_def plife.step_refl split: option.split)
  qed
  then show ?thesis
    by (simp add: steps_wp)
qed

section \<open>Guarantees of the withdrawal service\<close>

text \<open>What the writes of the two rail tables guarantee, every operation of the workflow guarantees.\<close>

definition keeps_life_columns :: "string \<Rightarrow> (withdraw \<Rightarrow> withdraw) \<Rightarrow> bool" where
  "keeps_life_columns i f \<longleftrightarrow> (\<forall>r. wd_id r = i \<longrightarrow> withdraw_identity (f r) = withdraw_identity r \<and> wd_status (f r) = wd_status r
      \<and> wd_complianceStatus (f r) = wd_complianceStatus r \<and> wd_completedAt (f r) = wd_completedAt r
      \<and> wd_approvedAt (f r) = wd_approvedAt r \<and> wd_payoutRequestedAt (f r) = wd_payoutRequestedAt r
      \<and> wd_history (f r) = wd_history r)"

locale rail_guarantee = tx_guarantee R for R :: "world \<Rightarrow> world \<Rightarrow> bool" +
  assumes plain: "rails (db t) = rails (db s) \<Longrightarrow> R s t"
    and write_columns: "keeps_life_columns i f \<Longrightarrow> steps R (update_withdraw i f)"
    and write_status: "steps R (move_withdraw i act reason ac)"
    and write_new: "withdraw_ok r \<Longrightarrow> steps R (insertRecord r)"
    and payout_new: "steps R (createPayout dto op tx)"
    and payout_move: "steps R (updatePayoutStatus j d op tx)"
begin

lemma rails: "rails_kept m \<Longrightarrow> steps R m"
  unfolding steps_def same_def using plain by metis

lemmas basic = rails[OF rails_basic(1)] rails[OF rails_basic(2)] rails[OF rails_basic(3)]
  rails[OF rails_basic(4)] rails[OF rails_basic(5)] rails[OF rails_basic(6)] rails[OF rails_basic(8)]

lemmas rules = inTx transaction combinators steps_split basic

lemma status: "steps R (updateWithdrawStatus i act reason ctx tx)"
  unfolding updateWithdrawStatus_def by (intro rules write_status)

lemma columns:
  "steps R (setPendingIds i n f)" "steps R (linkPayout i p no)" "steps R (saveValuationSnapshot i v)"
  "steps R (linkApprovalCase i c no)" "steps R (updateKytStatus i k s sc ph)"
  "steps R (updateTravelRuleStatus i k tr)"
  unfolding setPendingIds_def linkPayout_def saveValuationSnapshot_def linkApprovalCase_def updateKytStatus_def
    updateTravelRuleStatus_def
  by (intro rules write_columns rails[OF rails_workflow(4)];
      simp add: keeps_life_columns_def withdraw_identity_def)+

lemmas parts = status columns payout_new payout_move
  rails[OF rails_workflow(1)] rails[OF rails_workflow(2)] rails[OF rails_workflow(3)]
  rails[OF rails_workflow(4)] rails[OF rails_workflow(6)] rails[OF rails_workflow(8)]
  rails[OF rails_quotes(1)] rails[OF rails_quotes(2)] rails[OF rails_locks(1)] rails[OF rails_locks(2)]
  rails[OF rails_ledger(6)] rails[OF rails_release] rails[OF rails_finalize_parts(1)]
  rails[OF rails_finalize_parts(2)] rails[OF rails_finalize_parts(3)] rails[OF rails_finalize_parts(4)]
  rails[OF rails_finalize_parts(5)] rails[OF rails_finalize_parts(6)] rails[OF rails_funds(2)]

lemma guarded: "(P \<Longrightarrow> steps R m) \<Longrightarrow> steps R (andThen (guard P e) m)"
  by (cases P) (auto simp: steps_wp R_refl)

lemma undo: "steps R m \<Longrightarrow> steps R (undo_locks ls m)"
  unfolding undo_locks_def by (intro rules rails[OF rails_workflow(7)])

lemma create: "steps R (createWithdrawal dto u ty)"
proof -
  have "steps R (lock_balance r a ledger)" for r a ledger
    unfolding lock_balance_def by (intro rules undo parts)
  then have "steps R (insert_and_lock dto a ty u no wno qi)" for a no wno qi
    unfolding insert_and_lock_def Let_def
    by (intro rules parts guarded write_new new_withdraw_ok)
  then show ?thesis
    unfolding createWithdrawal_def Let_def by (intro rules parts)
qed

lemma bind_source: "steps R (ensureSourceWalletBound r)"
  unfolding ensureSourceWalletBound_def Let_def
  by (intro rules parts write_columns) (simp add: keeps_life_columns_def withdraw_identity_def)

lemma payout_phase: "steps R (initiatePayoutPhase i)"
  unfolding initiatePayoutPhase_def by (intro rules parts bind_source)

lemma screen: "steps R (checkScreenPass i)" "steps R (initializeTransactionScreen i)"
proof -
  show "steps R (checkScreenPass i)" for i
    unfolding checkScreenPass_def by (intro rules parts payout_phase)
  then show "steps R (initializeTransactionScreen i)"
    unfolding initializeTransactionScreen_def by (intro rules parts)
qed

lemma handlers:
  "steps R (handleKytUpdated i k n)" "steps R (handleTravelRuleUpdated i)"
  "steps R (handleWithdrawalCreated fr cs i)" "steps R (onLargeValueApprovalDecided d i no re)"
  "steps R (finalizeWithdrawal i)" "steps R (compensatePayout i act tgt why)"
  unfolding handleKytUpdated_def handlePostBroadcastKyt_def handleTravelRuleUpdated_def handleWithdrawalCreated_def
    openApprovalGate_def onLargeValueApprovalDecided_def finalizeWithdrawal_def clear_payout_def
    compensatePayout_def Let_def
  by (intro rules parts screen)+

lemma payout_handlers:
  "steps R (handlePayoutConfirmed i)" "steps R (reCloseoutPayout i)" "steps R (reCompensatePayout i)"
  "steps R (onPayoutFailed i p)" "steps R (onPayoutTimeout i p)" "steps R (onPayoutReturned i p)"
  unfolding handlePayoutConfirmed_def reCloseoutPayout_def reCompensatePayout_def onPayoutFailed_def
    onPayoutTimeout_def onPayoutReturned_def
  by (intro rules parts handlers)+

end

interpretation withdraws_live: rail_guarantee withdraw_step
proof (unfold_locales, goal_cases)
  case (1 t s)
  then show ?case
    by (intro wlife.step_same) (simp add: rails_def)
next
  case (2 i f)
  then show ?case
    by (intro update_withdraw_life) (simp add: keeps_life_columns_def)
qed (auto intro: move_withdraw_life insertRecord_life wlife.steps_same payout_keeps_withdraws)

text \<open>The withdrawal writes do not touch the payouts.\<close>

lemma withdraw_writes_keep_payouts:
  "steps (same (\<lambda>w. payouts (db w))) (update_withdraw i f)"
  "steps (same (\<lambda>w. payouts (db w))) (move_withdraw i act reason ac)"
  "steps (same (\<lambda>w. payouts (db w))) (insertRecord r)"
  by (auto simp: steps_wp same_def update_withdraw_def move_withdraw_def findOneInternal_def
      assertStatusUpdateSourceAllowed_def insertRecord_def split: option.split)

lemma updatePayoutStatus_life: "steps payout_step (updatePayoutStatus i d op tx)"
  unfolding updatePayoutStatus_def by (intro payout_rules update_payout_body_life)

interpretation payouts_live: rail_guarantee payout_step
proof (unfold_locales, goal_cases)
  case (1 t s)
  then show ?case
    by (intro plife.step_same) (simp add: rails_def)
qed (auto intro: plife.steps_same withdraw_writes_keep_payouts createPayout_life updatePayoutStatus_life)

end
