(* ===== verification/WithdrawEffects.thy ===== *)
theory WithdrawEffects
  imports WithdrawFacts
begin

text \<open>
  The effect of the ledger steps of a withdrawal: a lock that is accepted or refused, the voids of the
  catch block, and from them the two outcomes of a creation.
\<close>

section \<open>A lock\<close>

definition lock_id :: "world \<Rightarrow> string \<Rightarrow> string \<Rightarrow> int" where
  "lock_id w no eventCode = sha_id w (transfer_key ''WITHDRAWAL'' no eventCode 0)"

definition lock_request :: "int \<Rightarrow> int \<Rightarrow> int \<Rightarrow> int \<Rightarrow> nat \<Rightarrow> nat \<Rightarrow> tb_transfer" where
  "lock_request i debit credit amount ledger code =
     \<lparr>tr_id = i, tr_debit = debit, tr_credit = credit, tr_amount = amount, tr_pending_id = 0,
      tr_timeout = 0, tr_ledger = ledger, tr_code = code, tr_flag = Flag_pending\<rparr>"

text \<open>What everything but the ledger, its evidence and the audits looks like after a step.\<close>

definition beside :: "world \<Rightarrow> db \<times> event list \<times> (string \<Rightarrow> int) \<times> int" where
  "beside w = (core w, emitted w, sha_id w, clock w)"

definition accepted :: "world \<Rightarrow> tb_transfer \<Rightarrow> world \<Rightarrow> bool" where
  "accepted w t v \<longleftrightarrow> beside v = beside w \<and> (\<exists>s. \<not> real_error s \<and> tb_log v = tb_log w @ [(t, s)])
     \<and> (\<exists>es. evidences (db v) = evidences (db w) @ es \<and> (\<forall>e\<in>set es. e_id e = bigintToHex (tr_id t)))"

definition refused :: "world \<Rightarrow> tb_transfer \<Rightarrow> world \<Rightarrow> bool" where
  "refused w t v \<longleftrightarrow> emitted v = emitted w \<and> (\<exists>s. real_error s \<and> tb_log v = tb_log w @ [(t, s)])"

lemma wp_persist_unrefd:
  assumes "e_debitWalletRef e = None" "e_creditWalletRef e = None"
  shows "wp (persist e) (\<lambda>_ v. \<exists>fl. v = w\<lparr>db := (db w)\<lparr>flows := fl\<rparr>\<rparr>) (\<lambda>_ _. False) w"
proof -
  have rows: "fl_walletRef r = None" if "r \<in> set (projectEvidence e)" for r
    using that assms unfolding projectEvidence_def
    by (cases "e_debitAccount e"; cases "e_creditAccount e") (auto split: if_splits)
  show ?thesis
    unfolding persist_def
  proof (rule wp_forEach[where I = "\<lambda>v. \<exists>fl. v = w\<lparr>db := (db w)\<lparr>flows := fl\<rparr>\<rparr>"])
    show "wp (andThen (assertWalletRefMatchesTbAccount (fl_walletRef r) (fl_accountId r)) (upsert_flow r))
        (\<lambda>_ v. \<exists>fl. v = w\<lparr>db := (db w)\<lparr>flows := fl\<rparr>\<rparr>) (\<lambda>_ _. False) s"
      if "r \<in> set (projectEvidence e)" "\<exists>fl. s = w\<lparr>db := (db w)\<lparr>flows := fl\<rparr>\<rparr>" for r s
      using rows[OF that(1)] that(2) by (auto simp: wp_assertWalletRef)
  qed (auto intro: exI[of _ "flows (db w)"])
qed

lemma wp_lock:
  assumes "ep_debitWalletRef ep = None" "ep_creditWalletRef ep = None"
    and i: "i = sha_id w (transfer_key (ep_sourceType ep) (ep_sourceNo ep) (ep_eventCode ep) 0)"
    and fresh: "find_evidence (bigintToHex i) (db w) = None"
  shows "wp (executePendingTransfer d c n l k 0 ep None)
    (\<lambda>r v. r = i \<and> accepted w (lock_request i d c n l k) v)
    (\<lambda>_ v. refused w (lock_request i d c n l k) v) w"
proof -
  define t where "t = lock_request i d c n l k"
  have t: "tr_id t = i" "tr_debit t = d" "tr_credit t = c" "tr_amount t = n"
    by (simp_all add: t_def lock_request_def)
  define u where "u = w\<lparr>tb_log := tb_log w @ [(t, tb_reply w (tb_log w) t)]\<rparr>"
  have written: "wp (writeEvidence (evidence_row ''PENDING'' i d c n ep)) (\<lambda>_ v. accepted w t v) F u"
    if ok: "\<not> real_error (tb_reply w (tb_log w) t)" for F
  proof -
    define e where "e = evidence_row ''PENDING'' i d c n ep (clock w)"
    let ?v = "u\<lparr>db := (db u)\<lparr>evidences := evidences (db u) @ [e]\<rparr>\<rparr>"
    have refs: "e_debitWalletRef e = None" "e_creditWalletRef e = None" "e_id e = bigintToHex i"
      using assms(1,2) by (simp_all add: e_def evidence_row_def)
    have "wp (persist e) (\<lambda>_ v. accepted w t v) (\<lambda>_ _. False) ?v"
      by (rule wp_mono[OF wp_persist_unrefd[OF refs(1,2)]])
        (use ok refs(3) t in \<open>auto simp: accepted_def beside_def core_def u_def\<close>)
    then have "wp (persist e) (\<lambda>_ v. accepted w t v) G ?v" for G
      by (rule wp_mono) simp_all
    moreover have "find_evidence (e_id e) (db u) = None"
      using fresh refs(3) by (simp add: u_def)
    moreover have "clock u = clock w"
      by (simp add: u_def)
    ultimately show ?thesis
      by (simp add: writeEvidence_def insert_evidence_def e_def[symmetric] Let_def)
  qed
  have whole: "executePendingTransfer d c n l k 0 ep None w = record_transfer ''PENDING'' ''TB_PENDING_TRANSFER_FAILED'' t ep w"
    by (simp add: executePendingTransfer_def bind_def deterministicTransferId_def gets_def default_of_def i t_def
        lock_request_def)
  have "wp (record_transfer ''PENDING'' ''TB_PENDING_TRANSFER_FAILED'' t ep)
    (\<lambda>r v. r = i \<and> accepted w t v) (\<lambda>_ v. refused w t v) w"
  proof (cases "real_error (tb_reply w (tb_log w) t)")
    case True
    then show ?thesis
      by (auto simp: record_transfer_def wp_submit Let_def real_error_def refused_def)
  next
    case False
    then have "tb_reply w (tb_log w) t \<noteq> TB_unreachable"
      by (auto simp: real_error_def)
    moreover have "accepted w t u" if "tb_reply w (tb_log w) t = TB_exists"
      using False that by (auto simp: accepted_def beside_def core_def u_def)
    ultimately show ?thesis
      using False written[OF False] by (simp add: record_transfer_def wp_submit Let_def u_def[symmetric] t)
  qed
  then show ?thesis
    unfolding wp_def whole t_def .
qed

section \<open>The catch block\<close>

definition voids :: "(int \<times> int) list \<Rightarrow> tb_log \<Rightarrow> bool" where
  "voids locks lg \<longleftrightarrow> map (\<lambda>(t, s). (tr_flag t, tr_pending_id t, tr_amount t)) lg
     = map (\<lambda>(i, n). (Flag_void, i, n)) (filter (\<lambda>(i, n). i \<noteq> 0) locks)"

definition voided :: "(int \<times> int) list \<Rightarrow> world \<Rightarrow> world \<Rightarrow> bool" where
  "voided locks v v' \<longleftrightarrow> db v' = db v \<and> emitted v' = emitted v \<and> audits_out v' = audits_out v
     \<and> (\<exists>lg. tb_log v' = tb_log v @ lg \<and> voids locks lg)"

lemma voided_Nil: "voided [] v v"
  by (simp add: voided_def voids_def)

lemma voided_append: "voided xs u v \<Longrightarrow> voided ys v w \<Longrightarrow> voided (xs @ ys) u w"
  unfolding voided_def voids_def by (auto intro: exI[of _ "_ @ _"])

lemma wp_bestEffort:
  assumes "\<And>b v s. db v = db w \<Longrightarrow> emitted v = emitted w \<Longrightarrow> audits_out v = audits_out w
      \<Longrightarrow> tb_log v = tb_log w @ [(closing Flag_void (tbid_src w (tbid_pos w)) i n, s)]
      \<Longrightarrow> (b \<longleftrightarrow> \<not> real_error s) \<Longrightarrow> Q b v"
  shows "wp (voidPendingTransferBestEffort i n) Q E w"
  by (auto simp: voidPendingTransferBestEffort_def wp_submit Let_def real_error_def intro!: assms)

lemma wp_void_orphan: "(\<And>v. voided [(i, n)] w v \<Longrightarrow> Q () v) \<Longrightarrow> wp (void_orphan i n) Q E w"
  by (cases "i = 0")
    (auto simp: void_orphan_def voided_def voids_def closing_def intro!: wp_bestEffort)

lemma wp_void_all:
  "(\<And>v. voided locks w v \<Longrightarrow> Q () v) \<Longrightarrow> wp (forEach locks (\<lambda>(i, n). void_orphan i n)) Q E w"
proof (induction locks arbitrary: w)
  case (Cons l ls)
  obtain i n where l: "l = (i, n)"
    by fastforce
  have "wp (forEach ls (\<lambda>(i, n). void_orphan i n)) Q E v" if "voided [(i, n)] w v" for v
    using voided_append[OF that] Cons.prems l by (intro Cons.IH) auto
  then show ?case
    using l by (auto intro!: wp_void_orphan)
qed (simp add: voided_Nil)

lemma wp_undo_locks:
  assumes "wp m Q (\<lambda>e v. \<forall>v'. voided locks v v' \<longrightarrow> E e v') w"
  shows "wp (undo_locks locks m) Q E w"
  using assms unfolding undo_locks_def by (auto elim!: wp_mono intro!: wp_void_all)

section \<open>Both locks\<close>

text \<open>Every accepted lock of a stretch of the log is followed up by the request to void it.\<close>

definition undone :: "tb_log \<Rightarrow> bool" where
  "undone lg \<longleftrightarrow> \<not> (\<exists>(t, s)\<in>set lg. tr_flag t = Flag_pending \<and> \<not> real_error s \<and> tr_id t \<noteq> 0
     \<and> \<not> (\<exists>(u, s')\<in>set lg. tr_flag u = Flag_void \<and> tr_pending_id u = tr_id t \<and> tr_amount u = tr_amount t))"

definition net_request :: "world \<Rightarrow> withdraw \<Rightarrow> int \<Rightarrow> int \<Rightarrow> int \<Rightarrow> nat \<Rightarrow> tb_transfer" where
  "net_request w r payable assetAcc net ledger =
     lock_request (lock_id w (wd_no r) ''WITHDRAW_LOCK_NET'') payable assetAcc net ledger
       (TB_TRANSFER_CODES WITHDRAW_NET_PENDING)"

definition fee_request :: "world \<Rightarrow> withdraw \<Rightarrow> int \<Rightarrow> int \<Rightarrow> int \<Rightarrow> nat \<Rightarrow> tb_transfer" where
  "fee_request w r payable assetAcc fee ledger =
     lock_request (lock_id w (wd_no r) ''WITHDRAW_LOCK_FEE'') payable assetAcc fee ledger
       (TB_TRANSFER_CODES WITHDRAW_FEE_PENDING)"

definition lock_requests :: "world \<Rightarrow> withdraw \<Rightarrow> int \<Rightarrow> int \<Rightarrow> int \<Rightarrow> int \<Rightarrow> nat \<Rightarrow> tb_transfer list" where
  "lock_requests w r payable assetAcc net fee ledger =
     net_request w r payable assetAcc net ledger
       # (if 0 < fee then [fee_request w r payable assetAcc fee ledger] else [])"

definition stored_id :: "int \<Rightarrow> string option" where
  "stored_id i = (if i = 0 then None else Some (bigintToHex i))"

text \<open>The row with the ids of its locks.\<close>

definition with_locks :: "world \<Rightarrow> int \<Rightarrow> withdraw \<Rightarrow> withdraw" where
  "with_locks w fee r =
     r\<lparr>wd_tbPendingNetId := Some (bigintToHex (lock_id w (wd_no r) ''WITHDRAW_LOCK_NET'')),
       wd_tbPendingFeeId := (if 0 < fee then stored_id (lock_id w (wd_no r) ''WITHDRAW_LOCK_FEE'') else None)\<rparr>"

definition fresh_locks :: "world \<Rightarrow> string \<Rightarrow> bool" where
  "fresh_locks w no \<longleftrightarrow> find_evidence (bigintToHex (lock_id w no ''WITHDRAW_LOCK_NET'')) (db w) = None
     \<and> find_evidence (bigintToHex (lock_id w no ''WITHDRAW_LOCK_FEE'')) (db w) = None
     \<and> lock_id w no ''WITHDRAW_LOCK_NET'' \<noteq> lock_id w no ''WITHDRAW_LOCK_FEE''"

lemma wp_resolveTb:
  "(\<And>i. Q i w) \<Longrightarrow> (\<And>e. E e w) \<Longrightarrow> wp (resolveTbAccountId c l ty ow) Q E w"
  by (simp add: resolveTbAccountId_def split: option.split)

lemma wp_to_units: "wp (to_units v d) Q E w =
    (case decimalToBigint v d of None \<Rightarrow> E (SyntaxError ''BigInt'') w | Some n \<Rightarrow> Q n w)"
  by (simp add: to_units_def)

lemma beside_fields: "beside v = beside w \<Longrightarrow> emitted v = emitted w \<and> sha_id v = sha_id w \<and> core v = core w"
  by (simp add: beside_def)

lemma wp_lock_net:
  assumes "wd_fromWalletId r = None" "fresh_locks w (wd_no r)"
  shows "wp (lock_net r a ledger p c net)
    (\<lambda>i v. i = lock_id w (wd_no r) ''WITHDRAW_LOCK_NET'' \<and> accepted w (net_request w r p c net ledger) v)
    (\<lambda>_. refused w (net_request w r p c net ledger)) w"
  unfolding lock_net_def net_request_def
  using assms by (intro wp_lock) (simp_all add: lock_evidence_def lock_id_def fresh_locks_def)

lemma fresh_fee_after:
  assumes "fresh_locks w no" "accepted w t v" "tr_id t = lock_id w no ''WITHDRAW_LOCK_NET''"
  shows "find_evidence (bigintToHex (lock_id v no ''WITHDRAW_LOCK_FEE'')) (db v) = None"
    "lock_id v no ''WITHDRAW_LOCK_FEE'' = lock_id w no ''WITHDRAW_LOCK_FEE''"
  using assms beside_fields[of v w]
  by (auto simp: accepted_def lock_id_def fresh_locks_def find_evidence_None)

text \<open>The outcome of the fee lock: none when no fee is due.\<close>

lemma wp_lock_fee:
  assumes "wd_fromWalletId r = None" "find_evidence (bigintToHex (lock_id w (wd_no r) ''WITHDRAW_LOCK_FEE'')) (db w) = None"
  shows "wp (lock_fee r a ledger p c fee)
    (\<lambda>i v. if 0 < fee then i = Some (lock_id w (wd_no r) ''WITHDRAW_LOCK_FEE'') \<and> accepted w (fee_request w r p c fee ledger) v
           else i = None \<and> v = w)
    (\<lambda>_ v. 0 < fee \<and> refused w (fee_request w r p c fee ledger) v) w"
proof (cases "0 < fee")
  case True
  let ?ep = "lock_evidence r a ''WITHDRAW_LOCK_FEE'' ''Withdrawal pending lock: fee amount''"
  have "wp (executePendingTransfer p c fee ledger (TB_TRANSFER_CODES WITHDRAW_FEE_PENDING) 0 ?ep None)
    (\<lambda>i v. i = lock_id w (wd_no r) ''WITHDRAW_LOCK_FEE'' \<and> accepted w (fee_request w r p c fee ledger) v)
    (\<lambda>_. refused w (fee_request w r p c fee ledger)) w"
    unfolding fee_request_def using assms by (intro wp_lock) (simp_all add: lock_evidence_def lock_id_def)
  then show ?thesis
    using True by (simp add: lock_fee_def)
qed (simp add: lock_fee_def)

lemma undone_voids:
  assumes "voids locks lg"
    and "\<And>t s. (t, s) \<in> set zs \<Longrightarrow> tr_flag t = Flag_pending \<Longrightarrow> \<not> real_error s \<Longrightarrow> (tr_id t, tr_amount t) \<in> set locks"
  shows "undone (zs @ lg)"
proof -
  have void: "\<exists>(u, s')\<in>set lg. tr_flag u = Flag_void \<and> tr_pending_id u = i \<and> tr_amount u = n"
    if "(i, n) \<in> set locks" "i \<noteq> 0" for i n
  proof -
    have "(Flag_void, i, n) \<in> set (map (\<lambda>(i, n). (Flag_void, i, n)) (filter (\<lambda>(i, n). i \<noteq> 0) locks))"
      using that by force
    then have "(Flag_void, i, n) \<in> set (map (\<lambda>(t, s). (tr_flag t, tr_pending_id t, tr_amount t)) lg)"
      using assms(1) by (simp add: voids_def)
    then show ?thesis
      by force
  qed
  have flags: "tr_flag t = Flag_void" if "(t, s) \<in> set lg" for t s
  proof -
    have "(tr_flag t, tr_pending_id t, tr_amount t) \<in> set (map (\<lambda>(t, s). (tr_flag t, tr_pending_id t, tr_amount t)) lg)"
      using that by force
    then show ?thesis
      using assms(1) unfolding voids_def by auto
  qed
  show ?thesis
    unfolding undone_def using void assms(2) flags by fastforce
qed

lemma undone_Nil: "undone []"
  by (simp add: undone_def)

lemma undone_refused: "real_error s \<Longrightarrow> undone [(t, s)]"
  by (simp add: undone_def)

definition backed_out :: "world \<Rightarrow> world \<Rightarrow> bool" where
  "backed_out w v \<longleftrightarrow> emitted v = emitted w \<and> (\<exists>lg. tb_log v = tb_log w @ lg \<and> undone lg)"

definition both_locked :: "withdraw \<Rightarrow> asset \<Rightarrow> nat \<Rightarrow> world \<Rightarrow> world \<Rightarrow> bool" where
  "both_locked r a ledger w v \<longleftrightarrow> (\<exists>p c net fee lg.
     decimalToBigint (wd_netAmount r) (a_decimals a) = Some net
     \<and> decimalToBigint (wd_feeAmount r) (a_decimals a) = Some fee
     \<and> tb_log v = tb_log w @ lg \<and> map fst lg = lock_requests w r p c net fee ledger
     \<and> list_all (\<lambda>(t, s). \<not> real_error s) lg
     \<and> emitted v = emitted w \<and> sha_id v = sha_id w
     \<and> core v = (core w)\<lparr>withdraws := update_rows (\<lambda>x. wd_id x = wd_id r) (\<lambda>x. x
         \<lparr>wd_tbPendingNetId := wd_tbPendingNetId (with_locks w fee r),
          wd_tbPendingFeeId := wd_tbPendingFeeId (with_locks w fee r)\<rparr>) (withdraws (db w))\<rparr>)"

lemma backed_out_refl: "backed_out w w"
  by (simp add: backed_out_def undone_Nil)

lemma refused_backed_out: "refused w t v \<Longrightarrow> backed_out w v"
  unfolding refused_def backed_out_def using undone_refused by blast

lemma backed_out_after:
  assumes "tb_log v = tb_log w @ zs" "emitted v = emitted w" "voided locks v v'"
    and "\<And>t s. (t, s) \<in> set zs \<Longrightarrow> tr_flag t = Flag_pending \<Longrightarrow> \<not> real_error s \<Longrightarrow> (tr_id t, tr_amount t) \<in> set locks"
  shows "backed_out w v'"
proof -
  obtain lg where "tb_log v' = tb_log v @ lg" "voids locks lg" "emitted v' = emitted v"
    using assms(3) by (auto simp: voided_def)
  then show ?thesis
    using undone_voids[of locks lg zs] assms(1,2,4) by (auto simp: backed_out_def)
qed

lemma requests_simps [simp]:
  "tr_id (net_request w r p c n l) = lock_id w (wd_no r) ''WITHDRAW_LOCK_NET''"
  "tr_id (fee_request w r p c n l) = lock_id w (wd_no r) ''WITHDRAW_LOCK_FEE''"
  "tr_amount (net_request w r p c n l) = n" "tr_amount (fee_request w r p c n l) = n"
  by (simp_all add: net_request_def fee_request_def lock_request_def)

text \<open>After the locks: the ids are stored and the request is audited.\<close>

lemma wp_store_locks:
  assumes "find_withdraw (wd_id r) (db v) = Some x" "core v = core w" "emitted v = emitted w" "sha_id v = sha_id w"
    and "tb_log v = tb_log w @ lg" "map fst lg = lock_requests w r p c net fee ledger"
    and "list_all (\<lambda>(t, s). \<not> real_error s) lg"
    and "decimalToBigint (wd_netAmount r) (a_decimals a) = Some net"
    and "decimalToBigint (wd_feeAmount r) (a_decimals a) = Some fee"
    and "fid = wd_tbPendingFeeId (with_locks w fee r)"
  shows "wp (bind (setPendingIds (wd_id r) (bigintToHex (lock_id w (wd_no r) ''WITHDRAW_LOCK_NET'')) fid)
      (\<lambda>_. recordByActor aud True)) (\<lambda>_. both_locked r a ledger w) E v"
proof -
  have ws: "withdraws (db v) = withdraws (db w)"
    using rails_core[of v] rails_core[of w] assms(2) by (simp add: rails_def)
  let ?f = "\<lambda>x. x\<lparr>wd_tbPendingNetId := wd_tbPendingNetId (with_locks w fee r), wd_tbPendingFeeId := wd_tbPendingFeeId (with_locks w fee r)\<rparr>"
  let ?u = "v\<lparr>db := (db v)\<lparr>withdraws := update_rows (\<lambda>x. wd_id x = wd_id r) ?f (withdraws (db w)), audits := audits (db v) @ [aud]\<rparr>\<rparr>"
  have "core ?u = (core w)\<lparr>withdraws := update_rows (\<lambda>x. wd_id x = wd_id r) ?f (withdraws (db w))\<rparr>"
    unfolding assms(2)[symmetric] by (simp add: core_def)
  then have "both_locked r a ledger w ?u"
    unfolding both_locked_def using assms(3-9) by (intro exI[of _ p] exI[of _ c] exI[of _ net] exI[of _ fee] exI[of _ lg]) simp
  then show ?thesis
    using assms(1,10) ws by (simp add: setPendingIds_def update_withdraw_def with_locks_def)
qed

lemma find_withdraw_beside: "beside v = beside w \<Longrightarrow> find_withdraw i (db v) = find_withdraw i (db w)"
  using rails_core[of v] rails_core[of w] by (simp add: beside_def find_withdraw_def rails_def)

lemma wp_after_locks:
  assumes r: "wd_fromWalletId r = None" "fresh_locks w (wd_no r)" "find_withdraw (wd_id r) (db w) = Some x"
    and net: "decimalToBigint (wd_netAmount r) (a_decimals a) = Some net"
    and fee: "decimalToBigint (wd_feeAmount r) (a_decimals a) = Some fee"
    and v: "accepted w (net_request w r p c net ledger) v"
  shows "wp (bind (undo_locks [(lock_id w (wd_no r) ''WITHDRAW_LOCK_NET'', net)] (lock_fee r a ledger p c fee)) (\<lambda>feeId.
      undo_locks ((lock_id w (wd_no r) ''WITHDRAW_LOCK_NET'', net) # (case feeId of None \<Rightarrow> [] | Some i \<Rightarrow> [(i, fee)]))
       (bind (setPendingIds (wd_id r) (bigintToHex (lock_id w (wd_no r) ''WITHDRAW_LOCK_NET''))
            (case feeId of None \<Rightarrow> None | Some i \<Rightarrow> if i = 0 then None else Some (bigintToHex i)))
          (\<lambda>_. recordByActor aud True)))) (\<lambda>_. both_locked r a ledger w) (\<lambda>_. backed_out w) v"
proof -
  obtain s where s: "beside v = beside w" "\<not> real_error s" "tb_log v = tb_log w @ [(net_request w r p c net ledger, s)]"
    using v by (auto simp: accepted_def)
  have b: "emitted v = emitted w" "sha_id v = sha_id w" "core v = core w"
    using beside_fields[OF s(1)] by simp_all
  have fid: "lock_id v (wd_no r) ''WITHDRAW_LOCK_FEE'' = lock_id w (wd_no r) ''WITHDRAW_LOCK_FEE''"
    "fee_request v r p c fee ledger = fee_request w r p c fee ledger"
    by (simp_all add: lock_id_def fee_request_def b)
  have fresh: "find_evidence (bigintToHex (lock_id v (wd_no r) ''WITHDRAW_LOCK_FEE'')) (db v) = None"
    using fresh_fee_after[OF r(2) v] by simp
  have rest: "wp (undo_locks locks (bind (setPendingIds (wd_id r) (bigintToHex (lock_id w (wd_no r) ''WITHDRAW_LOCK_NET''))
            (case feeId of None \<Rightarrow> None | Some i \<Rightarrow> if i = 0 then None else Some (bigintToHex i)))
          (\<lambda>_. recordByActor aud True))) (\<lambda>_. both_locked r a ledger w) (\<lambda>_. backed_out w) u"
    if post: "if 0 < fee then feeId = Some (lock_id w (wd_no r) ''WITHDRAW_LOCK_FEE'') \<and> accepted v (fee_request w r p c fee ledger) u
      else feeId = None \<and> u = v" for feeId u locks
  proof -
    obtain lg where lg: "tb_log u = tb_log w @ lg" "map fst lg = lock_requests w r p c net fee ledger"
      "list_all (\<lambda>(t, s). \<not> real_error s) lg" "beside u = beside w"
    proof (cases "0 < fee")
      case True
      then obtain s' where "beside u = beside v" "\<not> real_error s'" "tb_log u = tb_log v @ [(fee_request w r p c fee ledger, s')]"
        using post by (auto simp: accepted_def)
      then show ?thesis
        using s True that[of "[(net_request w r p c net ledger, s), (fee_request w r p c fee ledger, s')]"]
        by (simp add: lock_requests_def)
    next
      case False
      then show ?thesis
        using s post that[of "[(net_request w r p c net ledger, s)]"] by (simp add: lock_requests_def)
    qed
    have "find_withdraw (wd_id r) (db u) = Some x"
      using r(3) find_withdraw_beside[OF lg(4)] by simp
    moreover have "(case feeId of None \<Rightarrow> None | Some i \<Rightarrow> if i = 0 then None else Some (bigintToHex i))
        = wd_tbPendingFeeId (with_locks w fee r)"
      using post by (simp add: with_locks_def stored_id_def split: if_splits)
    ultimately show ?thesis
      using lg(1-3) beside_fields[OF lg(4)] net fee
      by (intro wp_undo_locks wp_store_locks[where x = x and lg = lg and p = p and c = c and net = net and fee = fee]) simp_all
  qed
  show ?thesis
    unfolding wp_bind
  proof (rule wp_undo_locks, rule wp_mono[OF wp_lock_fee[OF r(1) fresh]], goal_cases)
    case (1 feeId u)
    then show ?case
      by (rule_tac wp_mono[OF rest[unfolded wp_bind]]) (simp_all add: fid split: if_splits)
  next
    case (2 e u)
    then obtain s' where u: "emitted u = emitted v" "real_error s'" "tb_log u = tb_log v @ [(fee_request w r p c fee ledger, s')]"
      by (auto simp: refused_def fid)
    show ?case
      using u s(3) b(1)
      by (auto intro!: backed_out_after[where zs = "[(net_request w r p c net ledger, s), (fee_request w r p c fee ledger, s')]"])
  qed
qed

lemma wp_lock_balance:
  assumes "wd_fromWalletId r = None" "fresh_locks w (wd_no r)" "find_withdraw (wd_id r) (db w) = Some x"
  shows "wp (lock_balance r a ledger) (\<lambda>_. both_locked r a ledger w) (\<lambda>_. backed_out w) w"
proof -
  have after: "wp (lock_net r a ledger p c net) (\<lambda>netId. wp (bind (undo_locks [(netId, net)] (lock_fee r a ledger p c fee)) (\<lambda>feeId.
      undo_locks ((netId, net) # (case feeId of None \<Rightarrow> [] | Some i \<Rightarrow> [(i, fee)]))
       (bind (setPendingIds (wd_id r) (bigintToHex netId)
            (case feeId of None \<Rightarrow> None | Some i \<Rightarrow> if i = 0 then None else Some (bigintToHex i)))
          (\<lambda>_. recordByActor aud True)))) (\<lambda>_. both_locked r a ledger w) (\<lambda>_. backed_out w)) (\<lambda>_. backed_out w) w"
    if "decimalToBigint (wd_netAmount r) (a_decimals a) = Some net" "decimalToBigint (wd_feeAmount r) (a_decimals a) = Some fee"
    for p c net fee aud
    by (rule wp_mono[OF wp_lock_net[OF assms(1,2)]])
      (auto simp del: wp_bind intro: wp_after_locks[OF assms that] refused_backed_out)
  show ?thesis
    unfolding lock_balance_def wp_bind[of "resolveTbAccountId _ _ _ _"] wp_bind[of "to_units _ _"] wp_to_units
    using after
    by (intro wp_resolveTb) (auto simp: backed_out_refl split: option.split)
qed

section \<open>A creation\<close>

definition active_quote :: "withdraw_quote \<Rightarrow> string \<Rightarrow> string \<Rightarrow> int \<Rightarrow> bool" where
  "active_quote q ownerType ownerId t \<longleftrightarrow> wq_ownerType q = ownerType \<and> wq_ownerId q = ownerId
     \<and> wq_status q = ''ACTIVE'' \<and> t \<le> wq_expiresAt q"

definition used_quote :: "int \<Rightarrow> withdraw_quote \<Rightarrow> withdraw_quote" where
  "used_quote t q = q\<lparr>wq_status := ''USED'', wq_usedAt := Some t\<rparr>"

lemma backed_out_same: "tb_log v = tb_log w \<Longrightarrow> emitted v = emitted w \<Longrightarrow> backed_out w v"
  by (simp add: backed_out_def undone_Nil)

lemma wp_getActiveWithdrawQuote:
  assumes "\<And>q. find_withdraw_quote i (db w) = Some q \<Longrightarrow> active_quote q ty ow t \<Longrightarrow> Q q w"
    and "\<And>e v. tb_log v = tb_log w \<Longrightarrow> emitted v = emitted w \<Longrightarrow> E e v"
  shows "wp (getActiveWithdrawQuote i ty ow t) Q E w"
  using assms by (auto simp: getActiveWithdrawQuote_def owned_withdraw_quote_def active_quote_def
      put_withdraw_quote_def not_less split: option.split)

lemma wp_consumeWithdrawQuote:
  assumes "\<And>q. find_withdraw_quote i (db w) = Some q \<Longrightarrow> active_quote q ty ow (clock w) \<Longrightarrow> wq_amount q = m \<Longrightarrow>
      Q (used_quote (clock w) q) (w\<lparr>db := (db w)\<lparr>withdraw_quotes :=
        update_rows (\<lambda>x. wq_id x = i) (used_quote (clock w)) (withdraw_quotes (db w))\<rparr>\<rparr>)"
    and "\<And>e v. tb_log v = tb_log w \<Longrightarrow> emitted v = emitted w \<Longrightarrow> E e v"
  shows "wp (consumeWithdrawQuote i ty ow m) Q E w"
  unfolding consumeWithdrawQuote_def Let_def wp_bind wp_now
  using assms by (intro wp_getActiveWithdrawQuote) (auto simp: put_withdraw_quote_def used_quote_def[abs_def])

lemma update_fresh:
  "\<not> (\<exists>x\<in>set rs. key x = key r) \<Longrightarrow> update_rows (\<lambda>x. key x = key r) f (rs @ [r]) = rs @ [f r]"
  by (auto simp: update_rows_def intro: map_idI)

text \<open>What a successful creation has done, by the quote and the asset it found.\<close>

definition locked_log :: "withdraw \<Rightarrow> asset \<Rightarrow> world \<Rightarrow> world \<Rightarrow> int \<Rightarrow> tb_log \<Rightarrow> bool" where
  "locked_log r a w v fee lg \<longleftrightarrow> (case TB_LEDGERS (a_currency a) of
       None \<Rightarrow> lg = [] \<and> withdraws (db v) = withdraws (db w) @ [r]
     | Some ledger \<Rightarrow> (\<exists>p c net. decimalToBigint (wd_netAmount r) (a_decimals a) = Some net
         \<and> decimalToBigint (wd_feeAmount r) (a_decimals a) = Some fee
         \<and> map fst lg = lock_requests w r p c net fee ledger \<and> list_all (\<lambda>(t, s). \<not> real_error s) lg
         \<and> withdraws (db v) = withdraws (db w) @ [with_locks w fee r]))"

definition created_from :: "string \<Rightarrow> string \<Rightarrow> asset \<Rightarrow> withdraw_quote \<Rightarrow> world \<Rightarrow> withdraw \<Rightarrow> world \<Rightarrow> bool" where
  "created_from user no a q w r v \<longleftrightarrow>
     active_quote q ''CUSTOMER'' user (clock w) \<and> withdraw_ok r \<and> wd_status r = W_CREATED
     \<and> wd_no r = no \<and> wd_ownerId r = user \<and> wd_amount r = wq_amount q \<and> wd_assetId r = wq_assetId q
     \<and> wd_pricingQuoteId r = Some (wq_id q) \<and> emitted v = emitted w
     \<and> withdraw_quotes (db v) = update_rows (\<lambda>x. wq_id x = wq_id q) (used_quote (clock w)) (withdraw_quotes (db w))
     \<and> core v = (core w)\<lparr>withdraws := withdraws (db v), withdraw_quotes := withdraw_quotes (db v)\<rparr>
     \<and> (\<exists>fee lg. tb_log v = tb_log w @ lg \<and> locked_log r a w v fee lg)"

lemma fresh_locks_cong:
  "sha_id v = sha_id w \<Longrightarrow> evidences (db v) = evidences (db w) \<Longrightarrow> fresh_locks v no = fresh_locks w no"
  by (simp add: fresh_locks_def lock_id_def find_evidence_def)

lemma core_fields:
  "withdraws (core v) = withdraws (db v)" "withdraw_quotes (core v) = withdraw_quotes (db v)"
  "payouts (core v) = payouts (db v)" "funds (core v) = funds (db v)" "wallets (core v) = wallets (db v)"
  "assets (core v) = assets (db v)"
  by (simp_all add: core_def)

lemma both_locked_created:
  assumes both: "both_locked r a ledger u v" and led: "TB_LEDGERS (a_currency a) = Some ledger"
    and u: "withdraws (db u) = withdraws (db w) @ [r]" "\<not> (\<exists>x\<in>set (withdraws (db w)). wd_id x = wd_id r)"
      "tb_log u = tb_log w" "emitted u = emitted w" "sha_id u = sha_id w"
      "core u = (core w)\<lparr>withdraws := withdraws (db w) @ [r], withdraw_quotes := qs\<rparr>"
    and r: "active_quote q ''CUSTOMER'' user (clock w)" "withdraw_ok r" "wd_status r = W_CREATED"
      "wd_no r = no" "wd_ownerId r = user" "wd_amount r = wq_amount q" "wd_assetId r = wq_assetId q"
      "wd_pricingQuoteId r = Some (wq_id q)" "wd_tbPendingNetId r = None" "wd_tbPendingFeeId r = None"
      "qs = update_rows (\<lambda>x. wq_id x = wq_id q) (used_quote (clock w)) (withdraw_quotes (db w))"
  shows "created_from user no a q w r v"
proof -
  obtain p c net fee lg where lg:
    "decimalToBigint (wd_netAmount r) (a_decimals a) = Some net"
    "decimalToBigint (wd_feeAmount r) (a_decimals a) = Some fee"
    "tb_log v = tb_log u @ lg" "map fst lg = lock_requests u r p c net fee ledger"
    "list_all (\<lambda>(t, s). \<not> real_error s) lg" "emitted v = emitted u"
    and core: "core v = (core u)\<lparr>withdraws := update_rows (\<lambda>x. wd_id x = wd_id r) (\<lambda>x. x
         \<lparr>wd_tbPendingNetId := wd_tbPendingNetId (with_locks u fee r),
          wd_tbPendingFeeId := wd_tbPendingFeeId (with_locks u fee r)\<rparr>) (withdraws (db u))\<rparr>"
    using both unfolding both_locked_def by blast
  have req: "lock_requests u r p c net fee ledger = lock_requests w r p c net fee ledger"
    "with_locks u fee r = with_locks w fee r"
    by (simp_all add: lock_requests_def net_request_def fee_request_def with_locks_def lock_id_def u(5))
  have row: "r\<lparr>wd_tbPendingNetId := wd_tbPendingNetId (with_locks w fee r),
      wd_tbPendingFeeId := wd_tbPendingFeeId (with_locks w fee r)\<rparr> = with_locks w fee r"
    by (simp add: with_locks_def)
  have core': "core v = (core w)\<lparr>withdraws := withdraws (db w) @ [with_locks w fee r], withdraw_quotes := qs\<rparr>"
    unfolding core u(1,6) req(2) update_fresh[OF u(2)] row by simp
  have tables: "withdraws (db v) = withdraws (db w) @ [with_locks w fee r]" "withdraw_quotes (db v) = qs"
    using arg_cong[OF core', of withdraws] arg_cong[OF core', of withdraw_quotes] by (simp_all add: core_fields)
  show ?thesis
    unfolding created_from_def locked_log_def led option.case
    using r core' tables lg u(3,4) req by auto
qed

lemma wp_insertRecord:
  "wp (insertRecord r) Q E w =
     (if \<exists>x\<in>set (withdraws (db w)). wd_id x = wd_id r then E (UniqueConstraint ''id'') w
      else if \<exists>x\<in>set (withdraws (db w)). wd_no x = wd_no r then E (UniqueConstraint ''withdrawNo'') w
      else if wd_payoutId r \<noteq> None \<and> (\<exists>x\<in>set (withdraws (db w)). wd_payoutId x = wd_payoutId r)
        then E (UniqueConstraint ''payoutId'') w
      else if wd_pricingQuoteId r \<noteq> None \<and> (\<exists>x\<in>set (withdraws (db w)). wd_pricingQuoteId x = wd_pricingQuoteId r)
        then E (UniqueConstraint ''pricingQuoteId'') w
      else Q r (w\<lparr>db := (db w)\<lparr>withdraws := withdraws (db w) @ [r]\<rparr>\<rparr>))"
  by (simp add: insertRecord_def)

lemma find_appended:
  "\<not> (\<exists>x\<in>set (withdraws d). wd_id x = wd_id r) \<Longrightarrow>
     find_withdraw (wd_id r) (d\<lparr>withdraws := withdraws d @ [r]\<rparr>) = Some r"
  by (simp add: find_withdraw_def by_id_append by_id_None[THEN iffD2] by_id_def[of _ _ "[r]"])

lemma created_plain:
  assumes "TB_LEDGERS (a_currency a) = None" "withdraws (db v) = withdraws (db w) @ [r]" "tb_log v = tb_log w"
    "emitted v = emitted w" "core v = (core w)\<lparr>withdraws := withdraws (db w) @ [r], withdraw_quotes := qs\<rparr>"
    and "active_quote q ''CUSTOMER'' user (clock w)" "withdraw_ok r" "wd_status r = W_CREATED"
      "wd_no r = no" "wd_ownerId r = user" "wd_amount r = wq_amount q" "wd_assetId r = wq_assetId q"
      "wd_pricingQuoteId r = Some (wq_id q)"
      "qs = update_rows (\<lambda>x. wq_id x = wq_id q) (used_quote (clock w)) (withdraw_quotes (db w))"
  shows "created_from user no a q w r v"
proof -
  have "withdraw_quotes (db v) = qs"
    using arg_cong[OF assms(5), of withdraw_quotes] by (simp add: core_fields)
  then show ?thesis
    unfolding created_from_def locked_log_def assms(1) option.case using assms by auto
qed

lemma wp_insert_and_lock:
  assumes fresh: "fresh_locks w no"
  shows "wp (insert_and_lock dto a ''CUSTOMER'' user ownerNo no qi)
    (\<lambda>r v. \<exists>q. find_withdraw_quote qi (db w) = Some q \<and> wq_amount q = number_Decimal (cw_amount dto)
       \<and> wq_assetId q = cw_assetId dto \<and> created_from user no a q w r v)
    (\<lambda>_. backed_out w) w"
proof -
  define P where "P = (\<lambda>r v. \<exists>q. find_withdraw_quote qi (db w) = Some q \<and> wq_amount q = number_Decimal (cw_amount dto)
       \<and> wq_assetId q = cw_assetId dto \<and> created_from user no a q w r v)"
  define amount where "amount = number_Decimal (cw_amount dto)"
  define T where "T r = andThen
        (case TB_LEDGERS (a_currency a) of
           Some ledger \<Rightarrow> if ''CUSTOMER'' = ''CUSTOMER'' then lock_balance r a ledger else recordByActor (requested_audit r) True
         | None \<Rightarrow> recordByActor (requested_audit r) True) (ret r)" for r
  have tail: "wp (T r) P (\<lambda>_. backed_out w) u"
    if q: "find_withdraw_quote qi (db w) = Some q" "wq_amount q = amount" "wq_assetId q = cw_assetId dto"
      "active_quote q ''CUSTOMER'' user (clock w)" "0 \<le> amount - fee"
      and r: "r = new_withdraw dto a ''CUSTOMER'' user ownerNo amount fee (wq_id q) no traceId rowId (clock w)"
      and new: "\<not> (\<exists>x\<in>set (withdraws (db w)). wd_id x = wd_id r)"
      and u: "u = w\<lparr>uuid_pos := k, db := (db w)\<lparr>
          withdraw_quotes := update_rows (\<lambda>x. wq_id x = qi) (used_quote (clock w)) (withdraw_quotes (db w)),
          withdraws := withdraws (db w) @ [r]\<rparr>\<rparr>" for q fee r traceId rowId u k
  proof -
    have qi: "wq_id q = qi"
      using q(1) by_id_SomeD by (fastforce simp: find_withdraw_quote_def)
    have row: "withdraw_ok r" "wd_status r = W_CREATED" "wd_no r = no" "wd_ownerId r = user" "wd_amount r = wq_amount q"
      "wd_assetId r = wq_assetId q" "wd_pricingQuoteId r = Some (wq_id q)" "wd_tbPendingNetId r = None"
      "wd_tbPendingFeeId r = None" "wd_fromWalletId r = None"
      using q(2,3,5) new_withdraw_ok[of amount fee] by (simp_all add: r new_withdraw_def)
    have st: "withdraws (db u) = withdraws (db w) @ [r]" "tb_log u = tb_log w" "emitted u = emitted w" "sha_id u = sha_id w"
      "core u = (core w)\<lparr>withdraws := withdraws (db w) @ [r],
         withdraw_quotes := update_rows (\<lambda>x. wq_id x = wq_id q) (used_quote (clock w)) (withdraw_quotes (db w))\<rparr>"
      by (simp_all add: u core_def qi)
    have found: "find_withdraw (wd_id r) (db u) = Some r"
      using new by (simp add: u find_withdraw_def by_id_append by_id_None[THEN iffD2] by_id_def[of _ _ "[r]"])
    have out: "backed_out w v" if "backed_out u v" for v
      using that st by (simp add: backed_out_def)
    show ?thesis
    proof (cases "TB_LEDGERS (a_currency a)")
      case None
      have "created_from user no a q w r (u\<lparr>db := (db u)\<lparr>audits := audits (db u) @ [requested_audit r]\<rparr>\<rparr>)"
        by (rule created_plain[where qs = "withdraw_quotes (db u)", OF None])
          (use st row q(4) in \<open>simp_all add: core_def u qi\<close>)
      then show ?thesis
        using None q(1-3) by (auto simp: T_def P_def amount_def)
    next
      case (Some ledger)
      have fr: "fresh_locks u (wd_no r)"
        using fresh row(3) fresh_locks_cong[of u w no] by (simp add: u)
      have "created_from user no a q w r v" if "both_locked r a ledger u v" for v
        by (rule both_locked_created[OF that Some st(1) new st(2,3,4,5) q(4) row(1-9) HOL.refl])
      then have "wp (lock_balance r a ledger) (\<lambda>_. P r) (\<lambda>_. backed_out w) u"
        using q(1-3) out by (intro wp_mono[OF wp_lock_balance[OF row(10) fr found]]) (auto simp: P_def amount_def)
      then show ?thesis
        using Some by (simp add: T_def)
    qed
  qed
  have fee: "wp (bind (quote_fee q a) (\<lambda>fee.
      bind (consumeWithdrawQuote qi ''CUSTOMER'' user amount) (\<lambda>_.
      andThen (guard (0 \<le> amount - fee) (BadRequestException ''Net amount must not be negative''))
     (bind randomUUID (\<lambda>traceId.
      bind randomUUID (\<lambda>rowId.
      bind (insertRecord (new_withdraw dto a ''CUSTOMER'' user ownerNo amount fee (wq_id q) no traceId rowId (clock w))) (\<lambda>r.
      T r))))))) P (\<lambda>_. backed_out w) w"
    if q: "find_withdraw_quote qi (db w) = Some q" "wq_amount q = amount" "wq_assetId q = cw_assetId dto"
      "active_quote q ''CUSTOMER'' user (clock w)" for q
  proof (cases "read_Decimal (or_text (map_of (wq_totals q) (a_currency a)) ''0'')")
    case None
    then show ?thesis
      by (simp add: quote_fee_def backed_out_refl)
  next
    case (Some fee)
    have "wp (consumeWithdrawQuote qi ''CUSTOMER'' user amount) (\<lambda>_.
        wp (andThen (guard (0 \<le> amount - fee) (BadRequestException ''Net amount must not be negative''))
       (bind randomUUID (\<lambda>traceId.
        bind randomUUID (\<lambda>rowId.
        bind (insertRecord (new_withdraw dto a ''CUSTOMER'' user ownerNo amount fee (wq_id q) no traceId rowId (clock w))) (\<lambda>r.
        T r))))) P (\<lambda>_. backed_out w)) (\<lambda>_. backed_out w) w"
    proof (rule wp_consumeWithdrawQuote)
      show "wp (andThen (guard (0 \<le> amount - fee) (BadRequestException ''Net amount must not be negative''))
         (bind randomUUID (\<lambda>traceId.
          bind randomUUID (\<lambda>rowId.
          bind (insertRecord (new_withdraw dto a ''CUSTOMER'' user ownerNo amount fee (wq_id q) no traceId rowId (clock w)))
            T)))) P (\<lambda>_. backed_out w) (w\<lparr>db := (db w)\<lparr>withdraw_quotes :=
              update_rows (\<lambda>x. wq_id x = qi) (used_quote (clock w)) (withdraw_quotes (db w))\<rparr>\<rparr>)"
        by (auto simp: wp_insertRecord backed_out_same intro!: tail[OF q])
    qed (rule backed_out_same)
    then show ?thesis
      using Some by (simp add: quote_fee_def)
  qed
  have "wp (insert_and_lock dto a ''CUSTOMER'' user ownerNo no qi) P (\<lambda>_. backed_out w) w"
    unfolding insert_and_lock_def Let_def amount_def[symmetric] T_def[symmetric] wp_bind[of now] wp_now
      wp_bind[of "getActiveWithdrawQuote _ _ _ _"]
    using fee
    by (intro wp_getActiveWithdrawQuote) (auto simp: backed_out_same backed_out_refl simp del: wp_bind diff_ge_0_iff_ge)
  then show ?thesis
    by (simp add: P_def amount_def)
qed

end
