(* ===== verification/WithdrawSettle.thy ===== *)
theory WithdrawSettle
  imports WithdrawEffects
begin

text \<open>
  What the later steps of a withdrawal send to TigerBeetle: a calculus of the requests an operation issues,
  and with it the finalization, the release of the locks and the compensation.
\<close>

section \<open>The requests of an operation\<close>

text \<open>A request by flag, pending id and amount; the last component says that it was accepted.\<close>

type_synonym request = "tb_flag \<times> int \<times> int \<times> bool"

definition matches :: "request \<Rightarrow> tb_transfer \<times> tb_status \<Rightarrow> bool" where
  "matches x y = (case x of (f, i, n, ok) \<Rightarrow> case y of (t, s) \<Rightarrow>
     tr_flag t = f \<and> tr_pending_id t = i \<and> tr_amount t = n \<and> (ok \<longrightarrow> \<not> real_error s))"

definition sent :: "request list \<Rightarrow> world \<Rightarrow> world \<Rightarrow> bool" where
  "sent xs w v \<longleftrightarrow> (\<exists>lg. tb_log v = tb_log w @ lg \<and> list_all2 matches xs lg)"

definition issues :: "request list \<Rightarrow> 'a op \<Rightarrow> bool" where
  "issues xs m \<longleftrightarrow> (\<forall>w. wp m (\<lambda>_. sent xs w) (\<lambda>_ _. True) w)"

abbreviation quiet :: "'a op \<Rightarrow> bool" where
  "quiet m \<equiv> steps (same tb_log) m"

lemma sent_Nil: "sent [] w v \<longleftrightarrow> tb_log v = tb_log w"
  by (auto simp: sent_def)

lemma sent_append: "sent xs u v \<Longrightarrow> sent ys v w \<Longrightarrow> sent (xs @ ys) u w"
  unfolding sent_def by (metis append.assoc list_all2_appendI)

lemma sent_cong: "sent xs w v \<Longrightarrow> tb_log u = tb_log v \<Longrightarrow> sent xs w u"
  by (simp add: sent_def)

lemma issues_bind: "issues xs m \<Longrightarrow> (\<And>a. issues ys (f a)) \<Longrightarrow> issues (xs @ ys) (bind m f)"
proof -
  assume m: "issues xs m" and f: "\<And>a. issues ys (f a)"
  have rest: "wp (f a) (\<lambda>_. sent (xs @ ys) w) (\<lambda>_ _. True) v" if "sent xs w v" for a v w
    using f[of a, unfolded issues_def, rule_format, of v] by (rule wp_mono) (simp_all add: sent_append[OF that])
  show "issues (xs @ ys) (bind m f)"
    unfolding issues_def wp_bind
  proof
    fix w
    show "wp m (\<lambda>a. wp (f a) (\<lambda>_. sent (xs @ ys) w) (\<lambda>_ _. True)) (\<lambda>_ _. True) w"
      using m[unfolded issues_def, rule_format, of w] by (rule wp_mono) (simp_all add: rest)
  qed
qed

lemma issues_andThen: "issues xs m \<Longrightarrow> issues ys n \<Longrightarrow> issues (xs @ ys) (andThen m n)"
  unfolding andThen_def by (rule issues_bind)

lemma issues_quiet: "quiet m \<Longrightarrow> issues [] m"
  unfolding issues_def steps_wp same_def sent_Nil by (auto elim!: wp_mono)

lemma quiet_bind: "quiet m \<Longrightarrow> (\<And>a. issues ys (f a)) \<Longrightarrow> issues ys (bind m f)"
  using issues_bind[OF issues_quiet, of m ys f] by simp

lemma quiet_andThen: "quiet m \<Longrightarrow> issues ys n \<Longrightarrow> issues ys (andThen m n)"
  using issues_andThen[OF issues_quiet, of m ys n] by simp

lemma issues_quiet_end: "issues xs m \<Longrightarrow> (\<And>a. quiet (f a)) \<Longrightarrow> issues xs (bind m f)"
  using issues_bind[of xs m "[]" f, OF _ issues_quiet] by simp

lemma issues_then_quiet: "issues xs m \<Longrightarrow> quiet n \<Longrightarrow> issues xs (andThen m n)"
  unfolding andThen_def by (rule issues_quiet_end)

lemma issues_need: "(\<And>a. x = Some a \<Longrightarrow> issues ys (f a)) \<Longrightarrow> issues ys (bind (need x e) f)"
  by (simp add: issues_def split: option.split)

lemma issues_units: "(\<And>n. decimalToBigint v d = Some n \<Longrightarrow> issues ys (f n)) \<Longrightarrow> issues ys (bind (to_units v d) f)"
  unfolding to_units_def by (rule issues_need)

lemma issues_if: "(b \<Longrightarrow> issues xs m) \<Longrightarrow> (\<not> b \<Longrightarrow> issues ys n) \<Longrightarrow> issues (if b then xs else ys) (if b then m else n)"
  by simp

section \<open>Quiet operations\<close>

interpretation silent: tx_guarantee "same tb_log"
  by unfold_locales (auto simp: same_def)

lemma silent_basic:
  "quiet (getsDb f)" "quiet now" "quiet randomUUID" "quiet (recordByActor a c)" "quiet (recordSystem a c)"
  "quiet (emit ev)" "quiet (put_fund i r)" "quiet tbId" "quiet (adjust x m)" "quiet (onDb h)"
  "quiet (insert_evidence e)" "quiet (writeToBacklog b)" "quiet (upsert_flow fl)" "quiet (put_payout j p)"
  "quiet (deterministicTransferId st no event n)" "quiet (randomBelow k)"
  by (auto simp: steps_wp same_def put_fund_def wp_adjust insert_evidence_def writeToBacklog_def
      put_payout_def split: option.split)

lemmas quiet_rules = silent.transaction silent.inTx frame.combinators steps_split silent_basic

lemma silent_persist: "quiet (persist e)"
  unfolding persist_def assertWalletRefMatchesTbAccount_def by (intro quiet_rules)

lemma quiet_evidence:
  "quiet (writeEvidence row)" "quiet (updateTransferType i ty po)" "quiet (enrichForPost i x)"
  unfolding writeEvidence_def enrichForPost_def updateTransferType_def change_evidence_def Let_def
  by (intro quiet_rules silent_persist)+

lemma quiet_resolve:
  "quiet (resolveTbAccountId code l ty ow)" "quiet (resolveWallet a r)" "quiet (resolveFirmFeeWalletRef x)"
  unfolding resolveTbAccountId_def resolveWallet_def resolveFirmFeeWalletRef_def by (intro quiet_rules)+

lemma quiet_find: "quiet (findOneInternal i)"
  unfolding findOneInternal_def by (intro quiet_rules)

lemma quiet_workflow:
  "quiet (withdraw_asset r)" "quiet (to_units v d)" "quiet (record_note a r s)"
  "quiet (setWithdrawFeeFundStatus i st s op tx)" "quiet (findPayout i)"
  unfolding withdraw_asset_def to_units_def record_note_def setWithdrawFeeFundStatus_def
    findPayout_def Let_def
  by (intro quiet_rules)+

lemma quiet_status: "quiet (updateWithdrawStatus i act s ctx tx)"
  unfolding updateWithdrawStatus_def move_withdraw_def update_withdraw_def assertStatusUpdateSourceAllowed_def
  by (intro quiet_rules quiet_find)

lemma quiet_external: "quiet (external_ref r)" "quiet (assertWithdrawSettled r n)"
  unfolding external_ref_def assertWithdrawSettled_def Let_def by (intro quiet_rules quiet_workflow)+

lemma quiet_payout: "quiet (updatePayoutStatus i d op tx)"
  unfolding updatePayoutStatus_def update_payout_body_def confirm_refs_def apply_payout_update_def assert_R3_def
    mockGasUsed_def mockGasPrice_def Let_def
  by (intro quiet_rules)

lemma quiet_clear: "quiet (clear_payout r)"
  unfolding clear_payout_def by (intro quiet_rules quiet_payout)

section \<open>The ledger steps\<close>

lemma bind_bind: "bind (bind m f) g = bind m (\<lambda>a. bind (f a) g)"
  by (auto simp: bind_def fun_eq_iff split: sum.split prod.split)

lemma bind_ret: "bind (ret a) f = f a"
  by (simp add: bind_def ret_def)

lemma issues_close: "issues [(flag, i, n, True)] (close_pending flag ty failure i n)"
  unfolding close_pending_def
proof (rule quiet_bind[OF silent_basic(8)])
  fix j
  have "issues [(flag, i, n, True)] (bind (submit (closing flag j i n)) (\<lambda>status.
      guard (\<not> real_error status) (BadRequestException failure)))"
    by (auto simp: issues_def wp_submit Let_def sent_def matches_def closing_def real_error_def)
  from issues_quiet_end[OF this, of "\<lambda>_. updateTransferType (bigintToHex i) ty (Some (bigintToHex j))"]
  show "issues [(flag, i, n, True)] (bind (submit (closing flag j i n)) (\<lambda>status.
      andThen (guard (\<not> real_error status) (BadRequestException failure))
        (updateTransferType (bigintToHex i) ty (Some (bigintToHex j)))))"
    using quiet_evidence(2) by (simp add: andThen_def bind_bind)
qed

lemma issues_transfer: "issues [(Flag_none, 0, n, True)] (executeTransfer d c n l k ep)"
  unfolding executeTransfer_def
proof (rule quiet_bind[OF silent_basic(15)])
  fix i
  let ?t = "\<lparr>tr_id = i, tr_debit = d, tr_credit = c, tr_amount = n, tr_pending_id = 0, tr_timeout = 0,
    tr_ledger = l, tr_code = k, tr_flag = Flag_none\<rparr>"
  have one: "issues [(Flag_none, 0, n, True)] (bind (submit ?t) (\<lambda>status.
      bind (guard (\<not> real_error status) (BadRequestException f)) (\<lambda>_. ret status)))" for f
    by (auto simp: issues_def wp_submit Let_def sent_def matches_def real_error_def)
  have "quiet (if status = TB_exists then ret (tr_id ?t)
      else andThen (writeEvidence e) (ret (tr_id ?t)))" for status e
    by (intro quiet_rules quiet_evidence)
  from issues_quiet_end[OF one this]
  show "issues [(Flag_none, 0, n, True)] (record_transfer ''POSTED'' ''TB_TRANSFER_FAILED'' ?t ep)"
    by (simp add: record_transfer_def andThen_def bind_bind bind_ret)
qed

section \<open>Finalization\<close>

definition pending_of :: "string option \<Rightarrow> int" where
  "pending_of x = the (hexToBigint (the x))"

definition units_of :: "rat \<Rightarrow> nat \<Rightarrow> int" where
  "units_of v d = the (decimalToBigint v d)"

text \<open>What a complete finalization asks of TigerBeetle: post the lock of the net amount, post the lock of
  the fee, collect the fee on the firm's side.\<close>

definition finalize_requests :: "withdraw \<Rightarrow> nat \<Rightarrow> request list" where
  "finalize_requests r d =
     (if truthy (wd_tbPendingNetId r)
      then [(Flag_post, pending_of (wd_tbPendingNetId r), units_of (wd_netAmount r) d, True)] else [])
     @ (if truthy (wd_tbPendingFeeId r) \<and> 0 < units_of (wd_feeAmount r) d
        then [(Flag_post, pending_of (wd_tbPendingFeeId r), units_of (wd_feeAmount r) d, True)] else [])
     @ (if 0 < units_of (wd_feeAmount r) d then [(Flag_none, 0, units_of (wd_feeAmount r) d, True)] else [])"

lemma issues_post: "issues [(Flag_post, i, n, True)] (postPendingTransfer i n)"
  unfolding postPendingTransfer_def by (rule issues_close)

lemma issues_post_net:
  "issues (if truthy (wd_tbPendingNetId r)
      then [(Flag_post, pending_of (wd_tbPendingNetId r), units_of (wd_netAmount r) d, True)] else []) (post_net r d x)"
  unfolding post_net_def post_one_def
proof (intro issues_if issues_need issues_units, goal_cases)
  case (1 i n)
  then show ?case
    using issues_andThen[OF issues_post issues_quiet[OF quiet_evidence(3)], of i n]
    by (simp add: pending_of_def units_of_def)
qed (rule issues_quiet, rule frame.ret)

lemma issues_post_fee:
  "issues (if truthy (wd_tbPendingFeeId r) \<and> 0 < n
      then [(Flag_post, pending_of (wd_tbPendingFeeId r), n, True)] else []) (post_fee r n x)"
  unfolding post_fee_def post_one_def
proof (intro issues_if issues_need, goal_cases)
  case (1 i)
  then show ?case
    using issues_andThen[OF issues_post issues_quiet[OF quiet_evidence(3)], of i n]
    by (simp add: pending_of_def bind_ret)
qed (rule issues_quiet, rule frame.ret)

lemma issues_firm_fee:
  "issues (if 0 < n then [(Flag_none, 0, n, True)] else []) (collect_firm_fee r a n x)"
  unfolding collect_firm_fee_def
  by (intro issues_if issues_need quiet_bind[OF quiet_resolve(1)] quiet_bind[OF quiet_resolve(3)]
      issues_quiet_end[OF issues_transfer] frame.ret issues_quiet)

text \<open>A stretch of the finalization that leaves the rail tables alone.\<close>

definition during :: "request list \<Rightarrow> world \<Rightarrow> world \<Rightarrow> bool" where
  "during xs w v \<longleftrightarrow> rails (db v) = rails (db w) \<and> sent xs w v"

lemma wp_during:
  assumes "during xs w v" "rails_kept m" "issues ys m"
    and "\<And>a u. during (xs @ ys) w u \<Longrightarrow> wp (f a) Q (\<lambda>_ u. rails (db u) = rails (db w)) u"
  shows "wp (bind m f) Q (\<lambda>_ u. rails (db u) = rails (db w)) v"
  unfolding wp_bind
proof (rule wp_mono[OF wp_conj])
  show "wp m (\<lambda>_. same (\<lambda>w. rails (db w)) v) (\<lambda>_. same (\<lambda>w. rails (db w)) v) v"
    using assms(2) by (simp add: steps_wp)
  show "wp m (\<lambda>_. sent ys v) (\<lambda>_ _. True) v"
    using assms(3) by (simp add: issues_def)
qed (use assms(1) in \<open>auto simp: during_def same_def intro!: assms(4) intro: sent_append\<close>)

lemmas wp_during_quiet = wp_during[OF _ _ issues_quiet, simplified append_Nil2]

section \<open>The payout after the finalization\<close>

definition payout_out :: "string \<Rightarrow> db \<Rightarrow> bool" where
  "payout_out j d \<longleftrightarrow> (case find_payout j d of None \<Rightarrow> False | Some p \<Rightarrow> po_status p \<in> {PO_CONFIRMED, PO_CLEARED})"

definition clear_dto :: UpdatePayoutDto where
  "clear_dto = \<lparr>up_action = PO_CLEAR, up_txHash = None, up_referenceNo = None,
     up_reason = Some ''Internal accounting completed after chain confirmation'',
     up_gasUsed = None, up_gasPrice = None\<rparr>"

lemma payouts_adjust: "steps (same (\<lambda>w. payouts (db w))) (adjust x m)"
  using rails_basic(14) by (auto simp: steps_def same_def rails_def)

lemma wp_clear_update:
  assumes "payout_out j (db w)"
  shows "wp (updatePayoutStatus j clear_dto ''SYSTEM'' False) (\<lambda>_ v. payout_out j (db v)) (\<lambda>_ v. db v = db w) w"
proof -
  obtain p where p: "find_payout j (db w) = Some p" "po_status p = PO_CONFIRMED \<or> po_status p = PO_CLEARED" "po_id p = j"
    using assms by_id_SomeD by (fastforce simp: payout_out_def find_payout_def split: option.splits)
  have out: "payout_out j d"
    if "payouts d = update_rows (\<lambda>x. po_id x = j) (\<lambda>_. updated_payout p clear_dto PO_CLEARED ''SYSTEM'' (clock w)) (payouts (db w))"
    for d
    using that p(1,3) by (simp add: payout_out_def find_payout_def by_id_updated updated_payout_def)
  have q: "q = PO_CLEARED" if "payout_transitions (po_type p) (po_status p) PO_CLEAR = Some q" for q
    using that p(2) by (auto simp: payout_transitions_def split: if_splits)
  have put: "wp (apply_payout_update p clear_dto PO_CLEARED ''SYSTEM'') (\<lambda>_ v. payout_out j (db v)) (\<lambda>_ _. True) w"
    using p(3) by (simp add: apply_payout_update_def assert_R3_def Let_def put_payout_def wp_adjust out split: option.split)
  have act: "up_action clear_dto = PO_CLEAR"
    by (simp add: clear_dto_def)
  have "wp (update_payout_body j clear_dto ''SYSTEM'') (\<lambda>_ v. payout_out j (db v)) (\<lambda>_ _. True) w"
    using p(1) put by (auto simp: update_payout_body_def confirm_refs_def act dest: q split: option.split)
  moreover have "payout_out j (db v) \<Longrightarrow> wp (forEach es emit) (\<lambda>_ v. payout_out j (db v)) E v" for es v E
    by (rule wp_forEach) simp_all
  ultimately show ?thesis
    by (auto simp: updatePayoutStatus_def elim!: wp_mono)
qed

lemma evidences_kept:
  "steps (same (\<lambda>w. evidences (db w))) (updatePayoutStatus j d op tx)"
  "steps (same (\<lambda>w. evidences (db w))) (updateWithdrawStatus i act s ctx tx')"
proof -
  have put: "steps (same (\<lambda>w. evidences (db w))) (put_payout j p)"
    "steps (same (\<lambda>w. evidences (db w))) (adjust x m)"
    "steps (same (\<lambda>w. evidences (db w))) (update_withdraw i f)"
    "steps (same (\<lambda>w. evidences (db w))) (recordByActor a c)"
    "steps (same (\<lambda>w. evidences (db w))) (emit ev)" for j p x m i f a c ev
    by (auto simp: steps_wp same_def put_payout_def wp_adjust update_withdraw_def split: option.split)
  note rules = unchanged.inTx unchanged.transaction frame.combinators steps_split put
    kept_of_db[OF confirm_refs_same, of evidences] kept_of_db[of now evidences]
    kept_of_db[of "getsDb f" evidences for f]
  have reads: "steps (same db) now" "steps (same db) (getsDb f)" for f :: "db \<Rightarrow> 'z"
    by (simp_all add: steps_wp same_def)
  show "steps (same (\<lambda>w. evidences (db w))) (updatePayoutStatus j d op tx)"
    unfolding updatePayoutStatus_def update_payout_body_def apply_payout_update_def assert_R3_def Let_def
    by (intro rules reads)
  show "steps (same (\<lambda>w. evidences (db w))) (updateWithdrawStatus i act s ctx tx')"
    unfolding updateWithdrawStatus_def move_withdraw_def findOneInternal_def assertStatusUpdateSourceAllowed_def
    by (intro rules reads)
qed

text \<open>What is left alone once the withdrawal is settled.\<close>

definition settled_view :: "world \<Rightarrow> withdraw list \<times> tb_evidence list \<times> tb_log" where
  "settled_view w = (withdraws (db w), evidences (db w), tb_log w)"

lemma wp_clear_payout:
  assumes "truthy (wd_payoutId r) \<longrightarrow> payout_out (the (wd_payoutId r)) (db w)"
  shows "wp (clear_payout r) (\<lambda>_ v. settled_view v = settled_view w
      \<and> (truthy (wd_payoutId r) \<longrightarrow> payout_out (the (wd_payoutId r)) (db v))) (\<lambda>_ _. False) w"
proof -
  let ?m = "updatePayoutStatus (the (wd_payoutId r)) clear_dto ''SYSTEM'' False"
  have "wp ?m (\<lambda>_ v. settled_view v = settled_view w) (\<lambda>_ v. settled_view v = settled_view w) w"
    using payout_keeps_withdraws(2) evidences_kept(1) quiet_payout
    by (simp add: settled_view_def wp_run steps_def same_def)
  then have "wp ?m (\<lambda>_ v. settled_view v = settled_view w \<and> payout_out (the (wd_payoutId r)) (db v))
      (\<lambda>_ v. settled_view v = settled_view w \<and> db v = db w) w" if "truthy (wd_payoutId r)"
    using assms that by (intro wp_conj wp_clear_update) simp_all
  then show ?thesis
    using assms by (auto simp: clear_payout_def clear_dto_def[symmetric] elim!: wp_mono)
qed

section \<open>The whole finalization\<close>

definition settled :: "string \<Rightarrow> withdraw \<Rightarrow> nat \<Rightarrow> world \<Rightarrow> world \<Rightarrow> bool" where
  "settled i r d w v \<longleftrightarrow>
     (\<exists>t. withdraws (db v) = update_rows (\<lambda>x. wd_id x = i)
            (\<lambda>_. moved_withdraw r W_SUCCESS None (normalizeStatusUpdateContext systemCtx) t) (withdraws (db w)))
     \<and> sent (finalize_requests r d) w v
     \<and> set (required_codes r (units_of (wd_feeAmount r) d)) \<subseteq> set (withdraw_codes (wd_no r) (db v))
     \<and> (truthy (wd_payoutId r) \<longrightarrow> payout_out (the (wd_payoutId r)) (db v))"

lemma withdraw_codes_cong: "evidences d = evidences d' \<Longrightarrow> withdraw_codes no d = withdraw_codes no d'"
  by (simp add: withdraw_codes_def)

lemma wp_success:
  assumes "find_withdraw i (db u) = Some r" "wd_id r = i" "wd_status r = W_PAYOUT_PENDING"
    and "rails (db u) = rails (db w)" "sent (finalize_requests r d) w u"
    and "set (required_codes r (units_of (wd_feeAmount r) d)) \<subseteq> set (withdraw_codes (wd_no r) (db u))"
    and "truthy (wd_payoutId r) \<longrightarrow> payout_out (the (wd_payoutId r)) (db u)"
  shows "wp (bind (updateWithdrawStatus (wd_id r) WA_SUCCESS None systemCtx False) (\<lambda>_.
      andThen (record_note ''WITHDRAW_SUCCESS'' r s2) (clear_payout r))) (\<lambda>_. settled i r d w) (\<lambda>_ _. False) u"
proof -
  define t where "t = clock u"
  let ?ws = "update_rows (\<lambda>x. wd_id x = i)
      (\<lambda>_. moved_withdraw r W_SUCCESS None (normalizeStatusUpdateContext systemCtx) t) (withdraws (db w))"
  have ws: "withdraws (db u) = withdraws (db w)"
    using assms(4) by (simp add: rails_def)
  have fin: "wp (clear_payout r) (\<lambda>_. settled i r d w) (\<lambda>_ _. False) v"
    if "withdraws (db v) = ?ws" "evidences (db v) = evidences (db u)" "tb_log v = tb_log u"
      "payouts (db v) = payouts (db u)" for v
  proof (rule wp_mono[OF wp_clear_payout])
    show "truthy (wd_payoutId r) \<longrightarrow> payout_out (the (wd_payoutId r)) (db v)"
      using assms(7) that(4) by (simp add: payout_out_def find_payout_def)
    fix a and x :: world
    assume x: "settled_view x = settled_view v
      \<and> (truthy (wd_payoutId r) \<longrightarrow> payout_out (the (wd_payoutId r)) (db x))"
    then show "settled i r d w x"
      using assms(5,6) that withdraw_codes_cong[of "db x" "db u"]
      by (auto simp: settled_def settled_view_def intro: sent_cong)
  qed simp
  have tr: "withdraw_transitions W_PAYOUT_PENDING WA_SUCCESS = Some W_SUCCESS"
    by (simp add: withdraw_transitions_def)
  have src: "ac_source (normalizeStatusUpdateContext systemCtx) \<noteq> ''ADMIN_API''"
    by (simp add: normalizeStatusUpdateContext_def systemCtx_def Let_def)
  show ?thesis
    using assms(1-3) src
    by (simp add: updateWithdrawStatus_def inTx_def move_withdraw_def findOneInternal_def update_withdraw_def
        assertStatusUpdateSourceAllowed_def tr record_note_def ws t_def[symmetric] fin)
qed

lemma wp_assert_settled:
  assumes "set (required_codes r fee) \<subseteq> set (withdraw_codes (wd_no r) (db u)) \<Longrightarrow>
      (truthy (wd_payoutId r) \<longrightarrow> payout_out (the (wd_payoutId r)) (db u)) \<Longrightarrow> Q () u"
    and "\<And>e. E e u"
  shows "wp (assertWithdrawSettled r fee) Q E u"
proof -
  have "payout_out j (db u)" if "find_payout j (db u) = Some p" "po_status p = PO_CONFIRMED \<or> po_status p = PO_CLEARED" for j p
    using that by (auto simp: payout_out_def)
  then show ?thesis
    using assms by (auto simp: assertWithdrawSettled_def findPayout_def list_all_iff subset_iff split: option.split prod.split)
qed

lemma wp_finalizeWithdrawal:
  assumes "find_withdraw i (db w) = Some r" "wd_status r = W_PAYOUT_PENDING"
  shows "wp (finalizeWithdrawal i) (\<lambda>_. settled i r (decimals_of (find_asset (wd_assetId r) (db w))) w)
    (\<lambda>_ v. rails (db v) = rails (db w)) w"
proof -
  define a where "a = find_asset (wd_assetId r) (db w)"
  define d where "d = decimals_of a"
  have i: "wd_id r = i"
    using assms(1) by_id_SomeD by (fastforce simp: find_withdraw_def)
  have last: "wp (andThen (assertWithdrawSettled r fee) (bind (updateWithdrawStatus (wd_id r) WA_SUCCESS None systemCtx False)
      (\<lambda>_. andThen (record_note ''WITHDRAW_SUCCESS'' r s2) (clear_payout r))))
      (\<lambda>_. settled i r d w) (\<lambda>_ v. rails (db v) = rails (db w)) u"
    if u: "during (finalize_requests r d) w u" and fee: "fee = units_of (wd_feeAmount r) d" for fee s2 u
    unfolding wp_andThen[of "assertWithdrawSettled _ _"]
  proof (rule wp_assert_settled)
    have "find_withdraw i (db u) = Some r"
      using u assms(1) by (simp add: during_def rails_def find_withdraw_def)
    moreover assume "set (required_codes r fee) \<subseteq> set (withdraw_codes (wd_no r) (db u))"
      "truthy (wd_payoutId r) \<longrightarrow> payout_out (the (wd_payoutId r)) (db u)"
    ultimately show "wp (bind (updateWithdrawStatus (wd_id r) WA_SUCCESS None systemCtx False)
        (\<lambda>_. andThen (record_note ''WITHDRAW_SUCCESS'' r s2) (clear_payout r)))
        (\<lambda>_. settled i r d w) (\<lambda>_ v. rails (db v) = rails (db w)) u"
      using u fee i assms(2) by (intro wp_mono[OF wp_success[where w = w]]) (simp_all add: during_def)
  qed (use u in \<open>simp add: during_def\<close>)
  let ?fee = "units_of (wd_feeAmount r) d"
  have ledger: "wp (bind (external_ref r) (\<lambda>x. andThen (post_net r d x) (andThen (post_fee r ?fee x)
      (andThen (collect_firm_fee r a ?fee x) (bind (setWithdrawFeeFundStatus (wd_id r) CLEAR s1 op False) (\<lambda>_.
       andThen (record_note what r memo) (andThen (assertWithdrawSettled r ?fee)
      (bind (updateWithdrawStatus (wd_id r) WA_SUCCESS None systemCtx False)
      (\<lambda>_. andThen (record_note ''WITHDRAW_SUCCESS'' r s2) (clear_payout r))))))))))
      (\<lambda>_. settled i r d w) (\<lambda>_ v. rails (db v) = rails (db w)) w"
    for s1 op what memo s2
    unfolding andThen_def
    apply (rule wp_during_quiet[where xs = "[]", OF _ rails_finalize_parts(1) quiet_external(1)])
     apply (simp add: during_def sent_Nil)
    apply (rule wp_during[OF _ rails_finalize_parts(2) issues_post_net], assumption)
    apply (rule wp_during[OF _ rails_finalize_parts(3) issues_post_fee], assumption)
    apply (rule wp_during[OF _ rails_finalize_parts(4) issues_firm_fee], assumption)
    apply (rule wp_during_quiet[OF _ rails_funds(2) quiet_workflow(4)], assumption)
    apply (rule wp_during_quiet[OF _ rails_workflow(1) quiet_workflow(3)], assumption)
    apply (rule last[OF _ HOL.refl, unfolded andThen_def])
    apply (simp add: finalize_requests_def)
    done
  show ?thesis
    using assms ledger
    by (auto simp: finalizeWithdrawal_def findOneInternal_def withdraw_asset_def to_units_def a_def[symmetric] d_def[symmetric]
        units_of_def split: option.split)
qed

lemma settled_row:
  assumes "settled i r d w v" "find_withdraw i (db w) = Some r" "withdraw_ok r" "wd_status r = W_PAYOUT_PENDING"
  shows "\<exists>s. find_withdraw i (db v) = Some s \<and> wd_status s = W_SUCCESS \<and> withdraw_ok s \<and> withdraw_moved r s"
proof -
  obtain t where t: "withdraws (db v) = update_rows (\<lambda>x. wd_id x = i)
      (\<lambda>_. moved_withdraw r W_SUCCESS None (normalizeStatusUpdateContext systemCtx) t) (withdraws (db w))"
    using assms(1) by (auto simp: settled_def)
  have i: "wd_id r = i"
    using assms(2) by_id_SomeD by (fastforce simp: find_withdraw_def)
  let ?s = "moved_withdraw r W_SUCCESS None (normalizeStatusUpdateContext systemCtx) t"
  have "withdraw_transitions (wd_status r) WA_SUCCESS = Some W_SUCCESS"
    by (simp add: assms(4) withdraw_transitions_def)
  moreover have "find_withdraw i (db v) = Some ?s"
    using assms(2) i by (simp add: find_withdraw_def t by_id_updated moved_withdraw_def)
  moreover have "wd_status ?s = W_SUCCESS"
    by (simp add: moved_withdraw_def)
  ultimately show ?thesis
    using moved_withdraw_ok assms(3) by blast
qed

section \<open>Releases\<close>

text \<open>Best-effort voids: what is asked, whatever the answer; and what can be asked at all.\<close>

definition void_requests :: "string option \<Rightarrow> rat \<Rightarrow> nat \<Rightarrow> request list" where
  "void_requests x m d = (if truthy x then [(Flag_void, pending_of x, units_of m d, False)] else [])"

definition releasable :: "string option \<Rightarrow> rat \<Rightarrow> nat \<Rightarrow> bool" where
  "releasable x m d \<longleftrightarrow> truthy x \<longrightarrow> hexToBigint (the x) \<noteq> None \<and> decimalToBigint m d \<noteq> None"

lemma wp_release_one:
  "wp (release_one x m d) (\<lambda>_ v. releasable x m d \<and> db v = db w \<and> sent (void_requests x m d) w v)
     (\<lambda>e v. \<not> releasable x m d \<and> e = SyntaxError ''BigInt'' \<and> v = w) w"
proof (cases "truthy x")
  case True
  have void: "wp (voidPendingTransferBestEffort i n) (\<lambda>_ v. db v = db w \<and> sent [(Flag_void, i, n, False)] w v) E w" for i n E
    by (rule wp_bestEffort) (auto simp: sent_def matches_def closing_def)
  show ?thesis
    using True
    by (auto simp: release_one_def to_units_def releasable_def void_requests_def pending_of_def units_of_def
        intro!: wp_mono[OF void] split: option.split)
qed (simp add: release_one_def releasable_def void_requests_def sent_Nil)

lemma wp_releaseLock:
  fixes r w
  defines "net \<equiv> void_requests (wd_tbPendingNetId r) (wd_netAmount r) (decimals_of (find_asset (wd_assetId r) (db w)))"
    and "fee \<equiv> void_requests (wd_tbPendingFeeId r) (wd_feeAmount r) (decimals_of (find_asset (wd_assetId r) (db w)))"
    and "net_ok \<equiv> releasable (wd_tbPendingNetId r) (wd_netAmount r) (decimals_of (find_asset (wd_assetId r) (db w)))"
    and "fee_ok \<equiv> releasable (wd_tbPendingFeeId r) (wd_feeAmount r) (decimals_of (find_asset (wd_assetId r) (db w)))"
  shows "wp (releaseLock r reason)
    (\<lambda>_ v. net_ok \<and> fee_ok \<and> rails (db v) = rails (db w) \<and> sent (net @ fee) w v)
    (\<lambda>e v. e = SyntaxError ''BigInt'' \<and> rails (db v) = rails (db w)
       \<and> (if net_ok then \<not> fee_ok \<and> sent net w v else sent [] w v)) w"
proof -
  let ?d = "decimals_of (find_asset (wd_assetId r) (db w))"
  have tail: "wp (bind (setWithdrawFeeFundStatus (wd_id r) CANCELLED reason ''SYSTEM'' False) (\<lambda>_.
      record_note ''WITHDRAW_LOCK_RELEASED'' r (''Lock released: '' @ reason)))
      (\<lambda>_ v. rails (db v) = rails (db w) \<and> sent (net @ fee) w v) (\<lambda>_ _. False) u"
    if "db u = db w" "sent (net @ fee) w u" for u
    using that by (auto simp: setWithdrawFeeFundStatus_def wp_inTx Let_def put_fund_def record_note_def recordSystem_def
        rails_def sent_def split: option.split)
  have second: "wp (andThen (release_one (wd_tbPendingFeeId r) (wd_feeAmount r) ?d)
      (bind (setWithdrawFeeFundStatus (wd_id r) CANCELLED reason ''SYSTEM'' False) (\<lambda>_.
      record_note ''WITHDRAW_LOCK_RELEASED'' r (''Lock released: '' @ reason))))
      (\<lambda>_ v. fee_ok \<and> rails (db v) = rails (db w) \<and> sent (net @ fee) w v)
      (\<lambda>e v. e = SyntaxError ''BigInt'' \<and> rails (db v) = rails (db w) \<and> \<not> fee_ok \<and> sent net w v) u"
    if u: "db u = db w" "sent net w u" for u
    unfolding wp_andThen[of "release_one _ _ _"]
  proof (rule wp_mono[OF wp_release_one], goal_cases)
    case (1 a v)
    then have "db v = db w" "sent (net @ fee) w v" "fee_ok"
      using u sent_append[OF u(2)] by (auto simp: fee_def fee_ok_def)
    then show ?case
      using wp_mono[OF tail] by simp
  qed (use u in \<open>simp add: fee_ok_def\<close>)
  have "wp (andThen (release_one (wd_tbPendingNetId r) (wd_netAmount r) ?d)
      (andThen (release_one (wd_tbPendingFeeId r) (wd_feeAmount r) ?d)
      (bind (setWithdrawFeeFundStatus (wd_id r) CANCELLED reason ''SYSTEM'' False) (\<lambda>_.
      record_note ''WITHDRAW_LOCK_RELEASED'' r (''Lock released: '' @ reason)))))
    (\<lambda>_ v. net_ok \<and> fee_ok \<and> rails (db v) = rails (db w) \<and> sent (net @ fee) w v)
    (\<lambda>e v. e = SyntaxError ''BigInt'' \<and> rails (db v) = rails (db w)
       \<and> (if net_ok then \<not> fee_ok \<and> sent net w v else sent [] w v)) w"
    unfolding wp_andThen[of "release_one (wd_tbPendingNetId r) _ _"]
  proof (rule wp_mono[OF wp_release_one], goal_cases)
    case (1 a v)
    then have "db v = db w" "sent net w v" "net_ok"
      by (simp_all add: net_def net_ok_def)
    then show ?case
      by (intro wp_mono[OF second]) auto
  qed (simp add: net_ok_def sent_Nil)
  then show ?thesis
    unfolding releaseLock_def withdraw_asset_def by simp
qed

lemma wp_status_update:
  assumes "find_withdraw i (db w) = Some r"
  shows "wp (updateWithdrawStatus i act reason ctx False)
    (\<lambda>s v. \<exists>q. withdraw_transitions (wd_status r) act = Some q
        \<and> s = moved_withdraw r q reason (normalizeStatusUpdateContext ctx) (clock w)
        \<and> find_withdraw i (db v) = Some s \<and> tb_log v = tb_log w)
    (\<lambda>e v. v = w \<and> (withdraw_transitions (wd_status r) act = None \<longrightarrow> e = BadRequestException ''Invalid action'')) w"
proof -
  have i: "wd_id r = i"
    using assms by_id_SomeD by (fastforce simp: find_withdraw_def)
  have row: "find_withdraw i ((db w)\<lparr>withdraws := update_rows (\<lambda>x. wd_id x = i) (\<lambda>_. moved_withdraw r q reason ac t) (withdraws (db w)),
      audits := au\<rparr>) = Some (moved_withdraw r q reason ac t)" for q ac t au
    using assms i by (simp add: find_withdraw_def by_id_updated moved_withdraw_def)
  show ?thesis
    using assms
    by (auto simp: updateWithdrawStatus_def inTx_def move_withdraw_def findOneInternal_def update_withdraw_def
        assertStatusUpdateSourceAllowed_def row split: option.split)
qed

text \<open>A compensation: the status the payout's failure asks for, whatever becomes of the locks; then the voids of
  both locks, as far as their ids and amounts can be read.\<close>

definition compensated ::
    "string \<Rightarrow> withdraw \<Rightarrow> WithdrawStatus \<Rightarrow> error + unit \<Rightarrow> world \<Rightarrow> world \<Rightarrow> bool" where
  "compensated i r target res w v \<longleftrightarrow>
     (let d = decimals_of (find_asset (wd_assetId r) (db w));
          net = void_requests (wd_tbPendingNetId r) (wd_netAmount r) d;
          fee = void_requests (wd_tbPendingFeeId r) (wd_feeAmount r) d;
          net_ok = releasable (wd_tbPendingNetId r) (wd_netAmount r) d;
          fee_ok = releasable (wd_tbPendingFeeId r) (wd_feeAmount r) d
      in (\<exists>s. find_withdraw i (db v) = Some s \<and> wd_status s = target)
         \<and> (if net_ok \<and> fee_ok then res = Inr () \<and> sent (net @ fee) w v
            else res = Inl (SyntaxError ''BigInt'') \<and> sent (if net_ok then net else []) w v))"

lemma status_update_assets: "steps (same (\<lambda>w. assets (db w))) (updateWithdrawStatus i act s ctx tx)"
proof -
  have parts: "steps (same (\<lambda>w. assets (db w))) (update_withdraw j f)"
    "steps (same (\<lambda>w. assets (db w))) (recordByActor a c)"
    "steps (same (\<lambda>w. assets (db w))) (getsDb g)" "steps (same (\<lambda>w. assets (db w))) now"
    for j f a c and g :: "db \<Rightarrow> 'z"
    by (auto simp: steps_wp same_def update_withdraw_def split: option.split)
  show ?thesis
    unfolding updateWithdrawStatus_def move_withdraw_def findOneInternal_def assertStatusUpdateSourceAllowed_def
    by (intro unchanged.inTx frame.combinators parts)
qed

text \<open>In the workflow's own context an update succeeds exactly when the table has the transition.\<close>

lemma wp_system_update:
  assumes "find_withdraw i (db w) = Some r"
  shows "wp (updateWithdrawStatus i act reason systemCtx False)
    (\<lambda>s v. \<exists>q. withdraw_transitions (wd_status r) act = Some q \<and> wd_status s = q \<and> find_withdraw i (db v) = Some s
       \<and> tb_log v = tb_log w \<and> assets (db v) = assets (db w))
    (\<lambda>e v. withdraw_transitions (wd_status r) act = None \<and> e = BadRequestException ''Invalid action'' \<and> v = w) w"
proof -
  have frame: "wp (updateWithdrawStatus i act reason systemCtx False)
      (\<lambda>_. same (\<lambda>w. assets (db w)) w) (\<lambda>_. same (\<lambda>w. assets (db w)) w) w"
    using status_update_assets by (simp add: steps_wp)
  have "ac_source (normalizeStatusUpdateContext systemCtx) \<noteq> ''ADMIN_API''"
    by (simp add: normalizeStatusUpdateContext_def systemCtx_def Let_def)
  moreover have "wd_id r = i"
    using assms by_id_SomeD by (fastforce simp: find_withdraw_def)
  ultimately have "wp (updateWithdrawStatus i act reason systemCtx False) (\<lambda>_ _. True)
      (\<lambda>_ _. withdraw_transitions (wd_status r) act = None) w"
    using assms by (auto simp: updateWithdrawStatus_def inTx_def move_withdraw_def findOneInternal_def update_withdraw_def
        assertStatusUpdateSourceAllowed_def find_withdraw_def by_id_updated split: option.split)
  then show ?thesis
    by (rule wp_mono[OF wp_conj[OF wp_status_update[OF assms] wp_conj[OF frame]]])
      (auto simp: same_def moved_withdraw_def)
qed

lemma wp_compensatePayout:
  assumes r: "find_withdraw i (db w) = Some r"
    and act: "\<And>q. withdraw_transitions (wd_status r) act = Some q \<Longrightarrow> q = target"
  shows "wp (compensatePayout i act target reason)
    (\<lambda>_ v. (wd_status r = target \<or> withdraw_transitions (wd_status r) act \<noteq> None) \<and> compensated i r target (Inr ()) w v)
    (\<lambda>e v. if wd_status r = target \<or> withdraw_transitions (wd_status r) act \<noteq> None then compensated i r target (Inl e) w v
       else e = BadRequestException ''Invalid action'' \<and> v = w) w"
proof -
  have i: "wd_id r = i"
    using r by_id_SomeD by (fastforce simp: find_withdraw_def)
  have release: "wp (releaseLock r reason) (\<lambda>_. compensated i r target (Inr ()) w) (\<lambda>e. compensated i r target (Inl e) w) u"
    if "find_withdraw i (db u) = Some s" "wd_status s = target" "tb_log u = tb_log w" "assets (db u) = assets (db w)"
    for u s
    using that by (intro wp_mono[OF wp_releaseLock])
      (auto simp: compensated_def Let_def rails_def find_withdraw_def find_asset_def sent_def split: if_splits)
  show ?thesis
  proof (cases "wd_status r = target")
    case True
    then show ?thesis
      using r release[OF r True HOL.refl HOL.refl]
      by (auto simp: compensatePayout_def findOneInternal_def elim: wp_mono)
  next
    case False
    have "wp (updateWithdrawStatus i act (Some reason) systemCtx False)
        (\<lambda>_ v. wp (releaseLock r reason)
          (\<lambda>_ v. withdraw_transitions (wd_status r) act \<noteq> None \<and> compensated i r target (Inr ()) w v)
          (\<lambda>e v. if withdraw_transitions (wd_status r) act \<noteq> None then compensated i r target (Inl e) w v
             else e = BadRequestException ''Invalid action'' \<and> v = w) v)
        (\<lambda>e v. if withdraw_transitions (wd_status r) act \<noteq> None then compensated i r target (Inl e) w v
           else e = BadRequestException ''Invalid action'' \<and> v = w) w"
    proof (rule wp_mono[OF wp_system_update[OF r]], elim exE conjE, goal_cases)
      case (1 s v q)
      then have "wp (releaseLock r reason) (\<lambda>_. compensated i r target (Inr ()) w) (\<lambda>e. compensated i r target (Inl e) w) v"
        using act[OF 1(1)] by (intro release[of v s]) auto
      then show ?case
        by (rule wp_mono) (simp_all add: 1(1))
    qed auto
    then show ?thesis
      using r i False by (simp add: compensatePayout_def findOneInternal_def)
  qed
qed

end
