(* ===== verification/WithdrawScreen.thy ===== *)
theory WithdrawScreen
  imports WithdrawSettle
begin

text \<open>
  The effect of the compliance screen: what starting a payout does to the withdrawal and to the payouts.
\<close>

section \<open>The steps of the payout phase\<close>

text \<open>The withdrawal under way: the row of the withdrawal and the payouts.\<close>

definition at_row :: "string \<Rightarrow> withdraw \<Rightarrow> payout list \<Rightarrow> world \<Rightarrow> bool" where
  "at_row i s ps v \<longleftrightarrow> find_withdraw i (db v) = Some s \<and> payouts (db v) = ps"

lemma at_row_rails: "at_row i s ps v \<Longrightarrow> rails (db u) = rails (db v) \<Longrightarrow> at_row i s ps u"
  by (auto simp: at_row_def rails_def find_withdraw_def)

lemma wp_at_row: "rails_kept m \<Longrightarrow> at_row i s ps v \<Longrightarrow> wp m (\<lambda>_. at_row i s ps) (\<lambda>_. at_row i s ps) v"
  using at_row_rails by (fastforce simp: steps_wp same_def elim: wp_mono)

lemma wp_update_row:
  assumes "at_row i r ps v" "wd_id (f r) = i"
  shows "wp (update_withdraw i f) (\<lambda>s u. s = f r \<and> at_row i (f r) ps u) (\<lambda>_ _. False) v"
proof -
  have r: "find_withdraw i (db v) = Some r" "payouts (db v) = ps"
    using assms(1) by (simp_all add: at_row_def)
  have "by_id wd_id i (update_rows (\<lambda>x. wd_id x = i) f rs) = map_option f (by_id wd_id i rs)"
    if "by_id wd_id i rs = Some r" for rs
    using that assms(2) unfolding by_id_def by (induction rs) (auto split: if_splits)
  then show ?thesis
    using r by (simp add: update_withdraw_def at_row_def find_withdraw_def)
qed

lemma row_id: "at_row i r ps v \<Longrightarrow> wd_id r = i"
  using by_id_SomeD by (fastforce simp: at_row_def find_withdraw_def)

definition bound_to :: "withdraw \<Rightarrow> withdraw \<Rightarrow> bool" where
  "bound_to r s \<longleftrightarrow> (\<exists>x y z. s = r\<lparr>wd_fromWalletId := Some x, wd_fromAddress := y, wd_fromIban := z\<rparr>)"

lemma bound_to_same: "truthy (wd_fromWalletId r) \<Longrightarrow> bound_to r r"
  by (cases r; cases "wd_fromWalletId r") (auto simp: bound_to_def)

lemma wp_ensure_source:
  assumes "at_row i r ps v"
  shows "wp (ensureSourceWalletBound r) (\<lambda>s u. bound_to r s \<and> at_row i s ps u) (\<lambda>_. at_row i r ps) v"
proof -
  have "wp (update_withdraw i (\<lambda>v. v\<lparr>wd_fromWalletId := Some (w_id x), wd_fromAddress := w_address x, wd_fromIban := w_iban x\<rparr>))
      (\<lambda>_ u. at_row i (r\<lparr>wd_fromWalletId := Some (w_id x), wd_fromAddress := w_address x, wd_fromIban := w_iban x\<rparr>) ps u)
      (\<lambda>_. at_row i r ps) v" for x
    using row_id[OF assms] by (intro wp_mono[OF wp_update_row[OF assms]]) auto
  moreover have "bound_to r (r\<lparr>wd_fromWalletId := Some x, wd_fromAddress := y, wd_fromIban := z\<rparr>)" for x y z
    by (auto simp: bound_to_def)
  ultimately show ?thesis
    using assms bound_to_same row_id[OF assms]
    by (auto simp: ensureSourceWalletBound_def withdraw_asset_def Let_def split: option.split)
qed

lemma wp_move_row:
  assumes "at_row i r ps v"
  shows "wp (updateWithdrawStatus i act reason ctx False)
    (\<lambda>_ u. \<exists>q. withdraw_transitions (wd_status r) act = Some q
       \<and> at_row i (moved_withdraw r q reason (normalizeStatusUpdateContext ctx) (clock v)) ps u)
    (\<lambda>_. at_row i r ps) v"
proof -
  have keep: "steps (same (\<lambda>w. payouts (db w))) (updateWithdrawStatus i act reason ctx False)"
  proof -
    have parts: "steps (same (\<lambda>w. payouts (db w))) (update_withdraw j f)"
      "steps (same (\<lambda>w. payouts (db w))) (recordByActor a c)"
      "steps (same (\<lambda>w. payouts (db w))) (getsDb g)" "steps (same (\<lambda>w. payouts (db w))) now"
      for j f a c and g :: "db \<Rightarrow> 'z"
      by (auto simp: steps_wp same_def update_withdraw_def split: option.split)
    show ?thesis
      unfolding updateWithdrawStatus_def move_withdraw_def findOneInternal_def assertStatusUpdateSourceAllowed_def
      by (intro unchanged.inTx frame.combinators parts)
  qed
  have r: "find_withdraw i (db v) = Some r" "payouts (db v) = ps"
    using assms by (simp_all add: at_row_def)
  have "wp (updateWithdrawStatus i act reason ctx False)
      (\<lambda>_. same (\<lambda>w. payouts (db w)) v) (\<lambda>_. same (\<lambda>w. payouts (db w)) v) v"
    using keep by (simp add: steps_wp)
  from wp_conj[OF wp_status_update[OF r(1)] this] show ?thesis
    by (rule wp_mono) (use r in \<open>auto simp: at_row_def same_def\<close>)
qed

section \<open>The payout\<close>

definition fresh_payout :: "CreatePayoutDto \<Rightarrow> payout \<Rightarrow> bool" where
  "fresh_payout dto p \<longleftrightarrow> po_status p = PO_CREATED \<and> po_type p = cp_type dto \<and> po_assetId p = cp_assetId dto
     \<and> po_amount p = number_Decimal (cp_amount dto) \<and> po_toWalletId p = cp_toWalletId dto
     \<and> po_toAddress p = cp_toAddress dto \<and> po_toIban p = cp_toIban dto"

text \<open>At most one payout per withdrawal: the one it has, or a new one with the fields of the order.\<close>

definition payout_for :: "CreatePayoutDto \<Rightarrow> payout list \<Rightarrow> payout \<Rightarrow> payout list \<Rightarrow> bool" where
  "payout_for dto ps p qs \<longleftrightarrow> po_withdrawId p = cp_withdrawId dto
     \<and> (if \<exists>x\<in>set ps. po_withdrawId x = cp_withdrawId dto then qs = ps \<and> p \<in> set ps
        else qs = ps @ [p] \<and> fresh_payout dto p)"

lemma wp_createPayout:
  assumes "at_row i s ps v"
  shows "wp (createPayout dto op False) (\<lambda>p u. \<exists>qs. payout_for dto ps p qs \<and> at_row i s qs u) (\<lambda>_. at_row i s ps) v"
proof -
  have v: "find_withdraw i (db v) = Some s" "payouts (db v) = ps"
    using assms by (simp_all add: at_row_def)
  have new: "fresh_payout dto (payout_row dto ow src op' u no t)" "po_withdrawId (payout_row dto ow src op' u no t) = cp_withdrawId dto"
    for ow src op' u no t
    by (simp_all add: fresh_payout_def payout_row_def)
  show ?thesis
  proof (cases "find (\<lambda>p. po_withdrawId p = cp_withdrawId dto) ps")
    case None
    then have "\<not> (\<exists>x\<in>set ps. po_withdrawId x = cp_withdrawId dto)"
      by (simp add: find_None_iff)
    then show ?thesis
      using v None new by (auto simp: createPayout_def inTx_def insert_payout_def payout_for_def at_row_def find_withdraw_def
          split: option.split)
  next
    case (Some p)
    then have "p \<in> set ps" "po_withdrawId p = cp_withdrawId dto"
      by (auto simp: find_Some_iff)
    then show ?thesis
      using v Some by (auto simp: createPayout_def inTx_def payout_for_def at_row_def)
  qed
qed

section \<open>The screen\<close>

text \<open>What a started payout leaves: the withdrawal waits for the payout, its source wallet and its payout are
  set, and the payout is the one of this withdrawal.\<close>

definition payout_started :: "string \<Rightarrow> withdraw \<Rightarrow> world \<Rightarrow> world \<Rightarrow> bool" where
  "payout_started i r w v \<longleftrightarrow> (\<exists>s p. find_withdraw i (db v) = Some s \<and> wd_status s = W_PAYOUT_PENDING
     \<and> wd_fromWalletId s \<noteq> None \<and> wd_payoutId s = Some (po_id p)
     \<and> wd_tbPendingNetId s = wd_tbPendingNetId r \<and> wd_tbPendingFeeId s = wd_tbPendingFeeId r
     \<and> payout_for (payout_input r (find_asset (wd_assetId r) (db w))) (payouts (db w)) p (payouts (db v)))"

definition in_phase :: "string \<Rightarrow> world \<Rightarrow> bool" where
  "in_phase i v \<longleftrightarrow> (\<exists>s. find_withdraw i (db v) = Some s \<and> wd_status s \<in> {W_PENDING_COMPLIANCE, W_PAYOUT_PENDING})"

lemma at_row_in_phase: "at_row i s ps v \<Longrightarrow> wd_status s \<in> {W_PENDING_COMPLIANCE, W_PAYOUT_PENDING} \<Longrightarrow> in_phase i v"
  by (auto simp: at_row_def in_phase_def)

lemma bound_fields:
  assumes "bound_to r s"
  shows "wd_status s = wd_status r" "wd_assetId s = wd_assetId r" "wd_fromWalletId s \<noteq> None"
    "wd_tbPendingNetId s = wd_tbPendingNetId r" "wd_tbPendingFeeId s = wd_tbPendingFeeId r" "wd_id s = wd_id r"
    "payout_input s a = payout_input r a"
  using assms by (auto simp: bound_to_def payout_input_def)

lemma wp_linkPayout:
  assumes "at_row i s qs v"
  shows "wp (linkPayout i j no) (\<lambda>_. at_row i (s\<lparr>wd_payoutId := Some j, wd_payoutNo := Some no\<rparr>) qs) (\<lambda>_. at_row i s qs) v"
proof -
  have "wp (update_withdraw i (\<lambda>r. r\<lparr>wd_payoutId := Some j, wd_payoutNo := Some no\<rparr>))
      (\<lambda>_. at_row i (s\<lparr>wd_payoutId := Some j, wd_payoutNo := Some no\<rparr>) qs) (\<lambda>_. at_row i s qs) v"
    using row_id[OF assms] by (intro wp_mono[OF wp_update_row[OF assms]]) auto
  then show ?thesis
    using assms by (simp add: linkPayout_def)
qed

text \<open>After the status: the payout, its link and the fee fund.\<close>

lemma wp_after_approve:
  assumes s: "at_row i s ps v" "wd_status s = W_PAYOUT_PENDING"
  shows "wp (bind (createPayout dto op False) (\<lambda>p. andThen (linkPayout i (po_id p) (po_no p))
      (whenM b (create_fee_fund r a))))
    (\<lambda>_ u. \<exists>p qs. payout_for dto ps p qs
       \<and> at_row i (s\<lparr>wd_payoutId := Some (po_id p), wd_payoutNo := Some (po_no p)\<rparr>) qs u)
    (\<lambda>_. in_phase i) v"
proof -
  have fee: "wp (whenM b (create_fee_fund r a)) (\<lambda>_. at_row i t qs) (\<lambda>_. in_phase i) u"
    if "at_row i t qs u" "wd_status t = W_PAYOUT_PENDING" for t qs u
    using that at_row_in_phase
    by (auto intro!: wp_mono[OF wp_at_row[OF rails_finalize_parts(6)]])
  have link: "wp (andThen (linkPayout i (po_id p) (po_no p)) (whenM b (create_fee_fund r a)))
      (\<lambda>_. at_row i (s\<lparr>wd_payoutId := Some (po_id p), wd_payoutNo := Some (po_no p)\<rparr>) qs) (\<lambda>_. in_phase i) u"
    if "at_row i s qs u" for p qs u
    unfolding wp_andThen
    using s(2) by (intro wp_mono[OF wp_linkPayout[OF that]] fee) (auto intro: at_row_in_phase)
  show ?thesis
    unfolding wp_bind
  proof (rule wp_mono[OF wp_createPayout[OF s(1)]])
    fix p and u :: world
    assume "\<exists>qs. payout_for dto ps p qs \<and> at_row i s qs u"
    then obtain qs where qs: "payout_for dto ps p qs" "at_row i s qs u"
      by blast
    show "wp (andThen (linkPayout i (po_id p) (po_no p)) (whenM b (create_fee_fund r a)))
        (\<lambda>_ u. \<exists>p qs. payout_for dto ps p qs
          \<and> at_row i (s\<lparr>wd_payoutId := Some (po_id p), wd_payoutNo := Some (po_no p)\<rparr>) qs u) (\<lambda>_. in_phase i) u"
      using qs(1) by (intro wp_mono[OF link[OF qs(2)]]) auto
  qed (use s in \<open>auto intro: at_row_in_phase\<close>)
qed

lemma ensure_source_assets: "steps (same (\<lambda>w. assets (db w))) (ensureSourceWalletBound r)"
proof -
  have writes: "steps (same (\<lambda>w. assets (db w))) (update_withdraw i f)" for i f
    by (auto simp: steps_wp same_def update_withdraw_def split: option.split)
  have reads: "steps (same (\<lambda>w. assets (db w))) (getsDb (find_asset x))"
    "steps (same (\<lambda>w. assets (db w))) (getsDb (active_customer_wallet y x z))" for x y z
    by (simp_all add: steps_wp same_def)
  show ?thesis
    unfolding ensureSourceWalletBound_def withdraw_asset_def Let_def by (intro frame.combinators writes reads)
qed

lemma wp_initiatePayoutPhase:
  assumes r: "at_row i r (payouts (db w)) v" "wd_status r = W_PENDING_COMPLIANCE" "assets (db v) = assets (db w)"
  shows "wp (initiatePayoutPhase i) (\<lambda>_. payout_started i r w) (\<lambda>_. in_phase i) v"
proof -
  define a where "a = find_asset (wd_assetId r) (db w)"
  define dto where "dto = payout_input r a"
  have i: "wd_id r = i"
    by (rule row_id[OF r(1)])
  have tr: "withdraw_transitions W_PENDING_COMPLIANCE WA_APPROVE = Some W_PAYOUT_PENDING"
    by (simp add: withdraw_transitions_def)
  have later: "wp (andThen (record_note what s memo) (bind (createPayout dto op False) (\<lambda>p.
       andThen (linkPayout i (po_id p) (po_no p)) (whenM b (create_fee_fund s a')))))
      (\<lambda>_. payout_started i r w) (\<lambda>_. in_phase i) u"
    if s: "bound_to r s" and t: "at_row i t (payouts (db w)) u" "t = moved_withdraw s W_PAYOUT_PENDING x y z"
    for s t what memo op b a' x y z u
  proof -
    have st: "wd_status t = W_PAYOUT_PENDING" "wd_fromWalletId t \<noteq> None"
      "wd_tbPendingNetId t = wd_tbPendingNetId r" "wd_tbPendingFeeId t = wd_tbPendingFeeId r"
      using bound_fields[OF s] by (simp_all add: t(2) moved_withdraw_def)
    have "wp (bind (createPayout dto op False) (\<lambda>p. andThen (linkPayout i (po_id p) (po_no p))
        (whenM b (create_fee_fund s a')))) (\<lambda>_. payout_started i r w) (\<lambda>_. in_phase i) u'"
      if "at_row i t (payouts (db w)) u'" for u'
      by (rule wp_mono[OF wp_after_approve[OF that st(1)]])
        (use st in \<open>auto simp: payout_started_def at_row_def dto_def a_def\<close>)
    then show ?thesis
      unfolding wp_andThen
      by (intro wp_mono[OF wp_at_row[OF rails_workflow(1) t(1)]]) (auto intro: at_row_in_phase simp: st(1))
  qed
  have status: "wp (bind (updateWithdrawStatus (wd_id s) WA_APPROVE None systemCtx False) (\<lambda>_.
      andThen (record_note what s memo) (bind (createPayout dto op False) (\<lambda>p.
       andThen (linkPayout (wd_id s) (po_id p) (po_no p)) (whenM b (create_fee_fund s a'))))))
      (\<lambda>_. payout_started i r w) (\<lambda>_. in_phase i) u"
    if s: "bound_to r s" "at_row i s (payouts (db w)) u" for s what memo op b a' u
  proof -
    have id: "wd_id s = i" "wd_status s = W_PENDING_COMPLIANCE"
      using bound_fields[OF s(1)] i r(2) by simp_all
    show ?thesis
      unfolding id(1) wp_bind[of "updateWithdrawStatus _ _ _ _ _"]
    proof (rule wp_mono[OF wp_move_row[OF s(2)]])
      fix m and u' :: world
      assume "\<exists>q. withdraw_transitions (wd_status s) WA_APPROVE = Some q
        \<and> at_row i (moved_withdraw s q None (normalizeStatusUpdateContext systemCtx) (clock u)) (payouts (db w)) u'"
      then show "wp (andThen (record_note what s memo) (bind (createPayout dto op False) (\<lambda>p.
         andThen (linkPayout i (po_id p) (po_no p)) (whenM b (create_fee_fund s a')))))
          (\<lambda>_. payout_started i r w) (\<lambda>_. in_phase i) u'"
        using later[OF s(1) _ HOL.refl] by (auto simp: id(2) tr)
    qed (auto intro: at_row_in_phase simp: id(2))
  qed
  have "wp (bind (ensureSourceWalletBound r) (\<lambda>r. bind (withdraw_asset r) (\<lambda>a.
     bind (updateWithdrawStatus (wd_id r) WA_APPROVE None systemCtx False) (\<lambda>_.
     andThen (record_note what r memo)
    (bind (createPayout (payout_input r a) op False) (\<lambda>p.
     andThen (linkPayout (wd_id r) (po_id p) (po_no p))
       (whenM (0 < to_Number (wd_feeAmount r)) (create_fee_fund r a))))))))
     (\<lambda>_. payout_started i r w) (\<lambda>_. in_phase i) v" for what memo op
    unfolding wp_bind[of "ensureSourceWalletBound _"]
  proof (rule wp_mono[OF wp_conj[OF wp_ensure_source[OF r(1)]]])
    show "wp (ensureSourceWalletBound r) (\<lambda>_. same (\<lambda>w. assets (db w)) v) (\<lambda>_. same (\<lambda>w. assets (db w)) v) v"
      using ensure_source_assets by (simp add: steps_wp)
    fix s and u :: world
    assume s: "(bound_to r s \<and> at_row i s (payouts (db w)) u) \<and> same (\<lambda>w. assets (db w)) v u"
    then have "find_asset (wd_assetId s) (db u) = a"
      using bound_fields(2) r(3) by (auto simp: a_def find_asset_def same_def)
    moreover have "payout_input s a = dto"
      using s bound_fields(7) by (auto simp: dto_def)
    ultimately show "wp (bind (withdraw_asset s) (\<lambda>a.
       bind (updateWithdrawStatus (wd_id s) WA_APPROVE None systemCtx False) (\<lambda>_.
       andThen (record_note what s memo)
      (bind (createPayout (payout_input s a) op False) (\<lambda>p.
       andThen (linkPayout (wd_id s) (po_id p) (po_no p))
         (whenM (0 < to_Number (wd_feeAmount s)) (create_fee_fund s a)))))))
       (\<lambda>_. payout_started i r w) (\<lambda>_. in_phase i) u"
      using status s by (simp add: withdraw_asset_def del: wp_bind wp_andThen add: wp_bind[of "getsDb _"])
  qed (use r(2) in \<open>auto intro: at_row_in_phase\<close>)
  moreover have "find_withdraw i (db v) = Some r"
    using r(1) by (simp add: at_row_def)
  ultimately show ?thesis
    by (simp add: initiatePayoutPhase_def findOneInternal_def del: wp_bind wp_andThen
        add: wp_bind[of "bind _ _"] wp_bind[of "getsDb _"])
qed

end
