(* ===== verification/WithdrawProps.thy ===== *)
theory WithdrawProps
  imports WithdrawScreen Samples
begin

text \<open>
  The properties of withdrawals and payouts.
\<close>

section \<open>Runs\<close>

text \<open>The operations of the two services and of the workflow in any order, with any arguments: customers
  create, administrators and the workflow move statuses, the screening services report, rails report,
  operators repair.\<close>

inductive withdraw_run :: "world \<Rightarrow> world \<Rightarrow> bool" where
  start: "withdraw_run w w"
| create: "withdraw_run w v \<Longrightarrow> withdraw_run w (snd (createWithdrawal dto user ty v))"
| status: "withdraw_run w v \<Longrightarrow> withdraw_run w (snd (updateWithdrawStatus i act reason ctx False v))"
| kyt: "withdraw_run w v \<Longrightarrow> withdraw_run w (snd (updateKytStatus i k screening score phase v))"
| travel_rule: "withdraw_run w v \<Longrightarrow> withdraw_run w (snd (updateTravelRuleStatus i k transfer v))"
| on_created: "withdraw_run w v \<Longrightarrow> withdraw_run w (snd (handleWithdrawalCreated rates cases i v))"
| on_decided: "withdraw_run w v \<Longrightarrow> withdraw_run w (snd (onLargeValueApprovalDecided d i no reason v))"
| on_kyt: "withdraw_run w v \<Longrightarrow> withdraw_run w (snd (handleKytUpdated i k phase v))"
| on_travel_rule: "withdraw_run w v \<Longrightarrow> withdraw_run w (snd (handleTravelRuleUpdated i v))"
| payout: "withdraw_run w v \<Longrightarrow> withdraw_run w (snd (updatePayoutStatus j pd op False v))"
| new_payout: "withdraw_run w v \<Longrightarrow> withdraw_run w (snd (createPayout pc op False v))"
| on_confirmed: "withdraw_run w v \<Longrightarrow> withdraw_run w (snd (handlePayoutConfirmed i v))"
| on_failed: "withdraw_run w v \<Longrightarrow> withdraw_run w (snd (onPayoutFailed i j v))"
| on_timeout: "withdraw_run w v \<Longrightarrow> withdraw_run w (snd (onPayoutTimeout i j v))"
| on_returned: "withdraw_run w v \<Longrightarrow> withdraw_run w (snd (onPayoutReturned i j v))"
| recloseout: "withdraw_run w v \<Longrightarrow> withdraw_run w (snd (reCloseoutPayout j v))"
| recompensate: "withdraw_run w v \<Longrightarrow> withdraw_run w (snd (reCompensatePayout j v))"

context rail_guarantee begin

lemma run: "withdraw_run w v \<Longrightarrow> R w v"
proof (induction rule: withdraw_run.induct)
  case (start w)
  show ?case by (rule R_refl)
qed (blast intro: seq_state create status columns handlers payout_handlers payout_move payout_new)+

end

definition withdraw_final :: "WithdrawStatus \<Rightarrow> bool" where
  "withdraw_final s \<longleftrightarrow> s \<in> {W_REJECTED, W_CANCELLED, W_RETURNED, W_HELD}"

interpretation withdraw_machine: state_machine withdraw_transitions withdraw_final
proof
  fix q a
  assume "withdraw_final q"
  then show "withdraw_transitions q a = None"
    by (cases q) (simp_all add: withdraw_final_def withdraw_transitions_def)
qed

definition payout_final :: "PayoutStatus \<Rightarrow> bool" where
  "payout_final s \<longleftrightarrow> s \<in> {PO_FAILED, PO_TIMEOUT, PO_RETURNED}"

interpretation payout_machine: state_machine "payout_transitions ty" payout_final for ty
proof
  fix q a
  assume "payout_final q"
  then show "payout_transitions ty q a = None"
    by (cases q) (simp_all add: payout_final_def payout_transitions_def)
qed

text \<open>C11. In every run of the withdrawal operations the withdrawal rows stay well-formed: ids stay unique,
  the requested amount is the net amount plus the fee, the compliance snapshot, the completion date, the
  approval and payout dates and the last history entry agree with the status.\<close>

theorem withdrawals_stay_wellformed:
  assumes "withdraw_run w v" "table_inv wd_id withdraw_ok (withdraws (db w))"
  shows "table_inv wd_id withdraw_ok (withdraws (db v))"
  using withdraws_live.run[OF assms(1)] assms(2) by (simp add: table_step_def)

text \<open>C5. In every run of the withdrawal operations every withdrawal keeps its identity (number, owner,
  asset, amounts, quote), its status moves along the transition table, its history only grows, and a
  rejected, cancelled, returned or held withdrawal never changes its status again.\<close>

theorem withdrawals_refine_their_table:
  assumes "withdraw_run w v" "table_inv wd_id withdraw_ok (withdraws (db w))" "r \<in> set (withdraws (db w))"
  shows "\<exists>s\<in>set (withdraws (db v)). withdraw_identity s = withdraw_identity r
    \<and> reaches withdraw_transitions (wd_status r) (wd_status s)
    \<and> (\<exists>es. history_entries (wd_history s) = history_entries (wd_history r) @ es)
    \<and> (withdraw_final (wd_status r) \<longrightarrow> wd_status s = wd_status r)"
proof -
  obtain s where "s \<in> set (withdraws (db v))" "withdraw_moved r s"
    using withdraws_live.run[OF assms(1)] assms(2,3) by (auto simp: table_step_def table_moves_def)
  then show ?thesis
    using withdraw_machine.final_absorbing unfolding withdraw_moved_def by blast
qed

text \<open>C12. In every run of the withdrawal operations the payout rows stay well-formed (R3: a cleared payout
  has a reference number, and a cleared crypto payout a transaction hash), keep their identity and move
  along the table of their type; a failed, timed-out or returned payout stays so.\<close>

theorem cleared_payouts_have_references:
  assumes "withdraw_run w v" "table_inv po_id payout_ok (payouts (db w))"
  shows "table_inv po_id payout_ok (payouts (db v))
    \<and> (\<forall>p\<in>set (payouts (db w)). \<exists>r\<in>set (payouts (db v)). payout_identity r = payout_identity p
         \<and> reaches (payout_transitions (po_type p)) (po_status p) (po_status r)
         \<and> (payout_final (po_status p) \<longrightarrow> po_status r = po_status p))"
proof -
  have step: "payout_step w v"
    using payouts_live.run[OF assms(1)] .
  have "\<exists>r\<in>set (payouts (db v)). payout_identity r = payout_identity p
         \<and> reaches (payout_transitions (po_type p)) (po_status p) (po_status r)
         \<and> (payout_final (po_status p) \<longrightarrow> po_status r = po_status p)"
    if p: "p \<in> set (payouts (db w))" for p
  proof -
    obtain r where "r \<in> set (payouts (db v))" "payout_moved p r"
      using step assms(2) p by (auto simp: table_step_def table_moves_def)
    moreover have "po_status r = po_status p" if "payout_final (po_status p)"
      using \<open>payout_moved p r\<close> payout_machine.final_absorbing[OF _ that] unfolding payout_moved_def by blast
    ultimately show ?thesis
      unfolding payout_moved_def by blast
  qed
  then show ?thesis
    using step assms(2) by (simp add: table_step_def)
qed

section \<open>Creation\<close>

text \<open>A creation for a customer: the quote and the asset it used and the state in which the announcement of
  the withdrawal is the only thing missing.\<close>

definition creation ::
    "CreateWithdrawDto \<Rightarrow> string \<Rightarrow> string \<Rightarrow> world \<Rightarrow> withdraw \<Rightarrow> world \<Rightarrow> bool" where
  "creation dto user no w r v \<longleftrightarrow> (\<exists>a q u. find_asset (cw_assetId dto) (db w) = Some a
     \<and> find_withdraw_quote (the (cw_quoteId dto)) (db w) = Some q
     \<and> wq_amount q = number_Decimal (cw_amount dto) \<and> wq_assetId q = cw_assetId dto
     \<and> created_from user no a q w r u \<and> v = u\<lparr>emitted := emitted u @ [WithdrawalCreated (wd_id r)]\<rparr>)"

lemma created_from_cong: "created_from user no a q (w\<lparr>rnd_pos := k\<rparr>) r v = created_from user no a q w r v"
  by (simp add: created_from_def locked_log_def core_def lock_requests_def net_request_def fee_request_def
      lock_id_def with_locks_def split: option.split)

lemma wp_createWithdrawal:
  assumes "fresh_locks w no" "no = refno ''WD'' (ymd w) (rnd_src w (rnd_pos w))"
  shows "wp (createWithdrawal dto user ''CUSTOMER'') (creation dto user no w)
    (\<lambda>_ v. db v = db w \<and> backed_out w v) w"
proof -
  let ?w = "w\<lparr>rnd_pos := Suc (rnd_pos w)\<rparr>"
  have tx: "wp (insert_and_lock dto a ''CUSTOMER'' user ownerNo no (the (cw_quoteId dto)))
      (\<lambda>r. wp (andThen (emit (WithdrawalCreated (wd_id r))) (ret r)) (creation dto user no w)
          (\<lambda>_ v. db v = db w \<and> backed_out w v))
      (\<lambda>_ v. backed_out w (v\<lparr>db := db w\<rparr>)) ?w"
    if "find_asset (cw_assetId dto) (db w) = Some a" for a ownerNo
    using assms(1) that fresh_locks_cong[of ?w w no]
    by (intro wp_mono[OF wp_insert_and_lock]) (auto simp: creation_def created_from_cong backed_out_def)
  show ?thesis
    unfolding createWithdrawal_def ensureCustomerCanTransact_def
    by (auto simp: assms(2)[symmetric] backed_out_refl backed_out_same intro!: tx simp del: wp_andThen
        simp: wp_andThen[of "bind _ _"] wp_andThen[of "guard _ _"] split: option.split)
qed

text \<open>C4. Creating a withdrawal for a customer is all or nothing. When it fails the database is as it was, nothing
  is announced, and every lock that TigerBeetle accepted is followed by a request to void it. When it
  returns, the quote was active, unexpired, owned by the customer and for this asset and amount and is now
  used; exactly one well-formed withdrawal in CREATED was added; in a currency with a ledger the net amount
  and a positive fee are locked in TigerBeetle, with their ids stored in the row; and the creation is
  announced once.\<close>

theorem creation_all_or_nothing:
  assumes "createWithdrawal dto user ''CUSTOMER'' w = (res, v)"
    and "fresh_locks w (refno ''WD'' (ymd w) (rnd_src w (rnd_pos w)))"
  shows "case res of
      Inl e \<Rightarrow> db v = db w \<and> backed_out w v
    | Inr r \<Rightarrow> creation dto user (refno ''WD'' (ymd w) (rnd_src w (rnd_pos w))) w r v"
  using wp_createWithdrawal[OF assms(2) HOL.refl, of dto user] by (simp add: wp_def assms(1))

section \<open>Finalization\<close>

text \<open>C3. A confirmed payout settles its withdrawal completely or not at all. If the handler fails, the withdrawals
  and the payouts are as they were, so that it can be repeated. If it returns, the withdrawal is SUCCESS and
  well-formed; TigerBeetle was asked for, and accepted, exactly the post of the net lock, the post of the fee
  lock and the collection of the fee (those that are due), in this order; every required ledger entry has its
  evidence; and a linked payout is confirmed or cleared.\<close>

theorem finalization_settles:
  assumes "handlePayoutConfirmed i w = (res, v)" "find_withdraw i (db w) = Some r"
    and "wd_status r = W_PAYOUT_PENDING" "withdraw_ok r"
  shows "case res of
      Inl e \<Rightarrow> rails (db v) = rails (db w)
    | Inr _ \<Rightarrow> (\<exists>s. find_withdraw i (db v) = Some s \<and> wd_status s = W_SUCCESS \<and> withdraw_ok s \<and> withdraw_moved r s)
        \<and> settled i r (decimals_of (find_asset (wd_assetId r) (db w))) w v"
proof -
  let ?d = "decimals_of (find_asset (wd_assetId r) (db w))"
  have row: "\<exists>s. find_withdraw i (db u) = Some s \<and> wd_status s = W_SUCCESS \<and> withdraw_ok s \<and> withdraw_moved r s"
    if "settled i r ?d w u" for u
    using settled_row[OF that assms(2,4,3)] .
  have "wp (handlePayoutConfirmed i) (\<lambda>_ u. settled i r ?d w u) (\<lambda>_ u. rails (db u) = rails (db w)) w"
    unfolding handlePayoutConfirmed_def wp_andThen
    by (rule wp_mono[OF wp_finalizeWithdrawal[OF assms(2,3)]])
      (auto simp: findOneInternal_def split: option.split dest: row)
  then show ?thesis
    using row by (auto simp: wp_def assms(1) split: sum.split)
qed

section \<open>Compensation\<close>

lemma refused_compensation:
  assumes "find_withdraw i (db w) = Some r" "(act, target) \<in> {(WA_FAIL, W_FAILED), (WA_RETURN, W_RETURNED)}"
    and "wd_status r \<noteq> target" "withdraw_transitions (wd_status r) act = None"
  shows "compensatePayout i act target reason w = (Inl (BadRequestException ''Invalid action''), w)"
proof -
  have "wp (compensatePayout i act target reason) (\<lambda>_ _. False)
      (\<lambda>e v. e = BadRequestException ''Invalid action'' \<and> v = w) w"
    using assms wp_status_update[OF assms(1), of act "Some reason" systemCtx] by_id_SomeD[of wd_id i "withdraws (db w)" r]
    by (auto simp: compensatePayout_def findOneInternal_def find_withdraw_def elim!: wp_mono)
  then show ?thesis
    by (cases "compensatePayout i act target reason w"; cases "fst (compensatePayout i act target reason w)")
      (auto simp: wp_def)
qed

text \<open>C33. Compensating a failed or returned payout. From a status that allows it (or a repeated compensation) the
  withdrawal ends in the target status whatever happens to its locks; when the ids and amounts of its locks can be
  read, the compensation always returns, and TigerBeetle is asked for exactly the voids of the two locks, whatever
  it answers; an id or amount that cannot be read stops it with a SyntaxError at that lock, after the status was
  committed and the void of the net lock, if that is readable, was asked. From any other status the compensation
  is refused and the world is unchanged.\<close>

theorem compensation_outcomes:
  assumes "compensatePayout i act target reason w = (res, v)" "find_withdraw i (db w) = Some r"
    and "(act, target) \<in> {(WA_FAIL, W_FAILED), (WA_RETURN, W_RETURNED)}"
  shows "if wd_status r = target \<or> withdraw_transitions (wd_status r) act \<noteq> None
    then (let d = decimals_of (find_asset (wd_assetId r) (db w));
              net = void_requests (wd_tbPendingNetId r) (wd_netAmount r) d;
              fee = void_requests (wd_tbPendingFeeId r) (wd_feeAmount r) d;
              net_ok = releasable (wd_tbPendingNetId r) (wd_netAmount r) d;
              fee_ok = releasable (wd_tbPendingFeeId r) (wd_feeAmount r) d
          in (\<exists>s. find_withdraw i (db v) = Some s \<and> wd_status s = target)
             \<and> (if net_ok \<and> fee_ok then res = Inr () \<and> sent (net @ fee) w v
                else res = Inl (SyntaxError ''BigInt'') \<and> sent (if net_ok then net else []) w v))
    else res = Inl (BadRequestException ''Invalid action'') \<and> v = w"
proof -
  have target: "q = target" if "withdraw_transitions (wd_status r) act = Some q" for q
    using that assms(3) by (cases "wd_status r") (auto simp: withdraw_transitions_def split: if_splits)
  have "wp (compensatePayout i act target reason)
    (\<lambda>_ v. (wd_status r = target \<or> withdraw_transitions (wd_status r) act \<noteq> None) \<and> compensated i r target (Inr ()) w v)
    (\<lambda>e v. if wd_status r = target \<or> withdraw_transitions (wd_status r) act \<noteq> None then compensated i r target (Inl e) w v
       else e = BadRequestException ''Invalid action'' \<and> v = w) w"
    by (rule wp_compensatePayout[OF assms(2) target])
  then show ?thesis
    using assms(1)
    unfolding compensated_def[symmetric]
    by (cases res) (auto simp: wp_def split: if_splits)
qed

text \<open>A payout that is returned by the bank before its withdrawal is settled cannot be compensated: neither
  the event handler nor the operator's repair changes anything, and the withdrawal keeps its locks.\<close>

theorem early_return_is_stuck:
  assumes "find_withdraw i (db w) = Some r" "wd_status r = W_PAYOUT_PENDING"
    and "find_payout j (db w) = Some p" "po_withdrawId p = i" "po_status p = PO_RETURNED"
  shows "onPayoutReturned i j w = (Inl (BadRequestException ''Invalid action''), w)
    \<and> reCompensatePayout j w = (Inl (BadRequestException ''Invalid action''), w)
    \<and> (\<exists>e. reCloseoutPayout j w = (Inl e, w))"
proof -
  have no: "compensatePayout i WA_RETURN W_RETURNED reason w = (Inl (BadRequestException ''Invalid action''), w)" for reason
    by (rule refused_compensation[OF assms(1)]) (simp_all add: assms(2) withdraw_transitions_def)
  then show ?thesis
    using assms
    by (simp add: onPayoutReturned_def reCompensatePayout_def reCloseoutPayout_def findOneInternal_def bind_def andThen_def
        getsDb_def gets_def need_def ret_def guard_def throw_def)
qed

text \<open>C34. An administrator who rejects or cancels a withdrawal leaves its locks in place: nothing is asked of
  TigerBeetle, the ids of the locks stay in the row, and no later failure of the payout releases them.\<close>

theorem rejection_keeps_locks:
  assumes "updateWithdrawStatus i act reason ctx False w = (Inr s, v)"
    and "wd_status s \<in> {W_REJECTED, W_CANCELLED}"
  shows "\<exists>r. find_withdraw i (db w) = Some r \<and> find_withdraw i (db v) = Some s \<and> tb_log v = tb_log w
    \<and> wd_tbPendingNetId s = wd_tbPendingNetId r \<and> wd_tbPendingFeeId s = wd_tbPendingFeeId r
    \<and> onPayoutFailed i j v = (Inl (BadRequestException ''Invalid action''), v)
    \<and> onPayoutTimeout i j v = (Inl (BadRequestException ''Invalid action''), v)
    \<and> onPayoutReturned i j v = (Inl (BadRequestException ''Invalid action''), v)"
proof -
  obtain r where r: "find_withdraw i (db w) = Some r"
    using assms(1) by (cases "find_withdraw i (db w)")
      (auto simp: updateWithdrawStatus_def inTx_def transaction_def move_withdraw_def findOneInternal_def bind_def getsDb_def
        gets_def need_def throw_def)
  obtain q where s: "s = moved_withdraw r q reason (normalizeStatusUpdateContext ctx) (clock w)"
    "find_withdraw i (db v) = Some s" "tb_log v = tb_log w"
    using wp_status_update[OF r, of act reason ctx] by (auto simp: wp_def assms(1))
  have no: "compensatePayout i a t x v = (Inl (BadRequestException ''Invalid action''), v)"
    if "(a, t) \<in> {(WA_FAIL, W_FAILED), (WA_RETURN, W_RETURNED)}" for a t x
    by (rule refused_compensation[OF s(2) that]) (use that assms(2) in \<open>auto simp: withdraw_transitions_def\<close>)
  have pending: "wd_tbPendingNetId s = wd_tbPendingNetId r" "wd_tbPendingFeeId s = wd_tbPendingFeeId r"
    by (simp_all add: s(1) moved_withdraw_def)
  show ?thesis
    using r s(2,3) pending no
    by (intro exI[of _ r]) (simp add: onPayoutFailed_def onPayoutTimeout_def onPayoutReturned_def)
qed

section \<open>The compliance screen\<close>

text \<open>C32. A payout starts only from PENDING_COMPLIANCE and only when the pre-broadcast screening has passed and the
  travel rule has passed or is not required; otherwise the screen changes nothing. When it starts and the
  screen returns, the withdrawal waits for the payout with its source wallet bound, its locks unchanged, and
  linked to its one payout, a new one with the net amount and the destination of the withdrawal if it had
  none; when it fails, the withdrawal is in PENDING_COMPLIANCE or in PAYOUT_PENDING.\<close>

theorem screen_starts_the_payout:
  assumes "checkScreenPass i w = (res, v)" "find_withdraw i (db w) = Some r"
  shows "if wd_status r = W_PENDING_COMPLIANCE \<and> gates_passed r
    then case res of Inl e \<Rightarrow> in_phase i v | Inr _ \<Rightarrow> payout_started i r w v
    else res = Inr () \<and> v = w"
proof (cases "wd_status r = W_PENDING_COMPLIANCE \<and> gates_passed r")
  case True
  have row: "at_row i r (payouts (db u)) u" if "db u = db w" for u
    using assms(2) that by (simp add: at_row_def)
  have "wp (checkScreenPass i) (\<lambda>_. payout_started i r w) (\<lambda>_. in_phase i) w"
    using assms(2) True wp_initiatePayoutPhase[of i r w] row
    by (simp add: checkScreenPass_def findOneInternal_def record_note_def recordSystem_def)
  then show ?thesis
    using True by (auto simp: wp_def assms(1) split: sum.splits)
next
  case False
  then have "checkScreenPass i w = (Inr (), w)"
    using assms(2) by (auto simp: checkScreenPass_def findOneInternal_def bind_def getsDb_def gets_def need_def ret_def)
  then show ?thesis
    using False assms(1) by auto
qed

section \<open>Amounts\<close>

text \<open>The locks cover the withdrawal to within one unit: for amounts that JavaScript prints without an exponent
  the two conversions succeed, neither lock is negative, and their sum is at most the requested amount in the
  ledger's units and misses at most one unit of it.\<close>

theorem locks_cover_amount:
  assumes "withdraw_ok r" "0 \<le> wd_feeAmount r"
    and "is_decimal (wd_netAmount r)" "plain (wd_netAmount r)" "is_decimal (wd_feeAmount r)" "plain (wd_feeAmount r)"
  shows "\<exists>net fee. decimalToBigint (wd_netAmount r) d = Some net \<and> decimalToBigint (wd_feeAmount r) d = Some fee
    \<and> 0 \<le> net \<and> 0 \<le> fee \<and> net + fee \<le> tb_units (wd_amount r) d \<and> tb_units (wd_amount r) d \<le> net + fee + 1"
proof -
  have sum: "wd_amount r = wd_netAmount r + wd_feeAmount r" "0 \<le> wd_netAmount r"
    using assms(1) by (simp_all add: withdraw_ok_def)
  have "tb_units (wd_amount r) d = \<lfloor>wd_netAmount r * 10 ^ d + wd_feeAmount r * 10 ^ d\<rfloor>"
    using sum assms(2) by (simp add: tb_units_def algebra_simps)
  moreover have "0 \<le> wd_netAmount r * 10 ^ d" "0 \<le> wd_feeAmount r * 10 ^ d"
    using sum assms(2) by simp_all
  moreover have "tb_units (wd_netAmount r) d = \<lfloor>wd_netAmount r * 10 ^ d\<rfloor>" "tb_units (wd_feeAmount r) d = \<lfloor>wd_feeAmount r * 10 ^ d\<rfloor>"
    using sum assms(2) by (simp_all add: tb_units_def)
  ultimately have "0 \<le> tb_units (wd_netAmount r) d" "0 \<le> tb_units (wd_feeAmount r) d"
    "tb_units (wd_netAmount r) d + tb_units (wd_feeAmount r) d \<le> tb_units (wd_amount r) d"
    "tb_units (wd_amount r) d \<le> tb_units (wd_netAmount r) d + tb_units (wd_feeAmount r) d + 1"
    by simp_all linarith+
  then show ?thesis
    using decimalToBigint_plain[OF assms(3,4)] decimalToBigint_plain[OF assms(5,6)] by simp
qed

section \<open>Progress\<close>

fun steps_to_success :: "WithdrawStatus \<Rightarrow> WithdrawAction list" where
  "steps_to_success W_CREATED = [WA_CHECK, WA_APPROVE, WA_SUCCESS]"
| "steps_to_success W_PENDING_APPROVAL = [WA_GATE_APPROVE, WA_APPROVE, WA_SUCCESS]"
| "steps_to_success W_PAYOUT_PENDING = [WA_SUCCESS]"
| "steps_to_success W_SUCCESS = []"
| "steps_to_success _ = [WA_APPROVE, WA_SUCCESS]"

text \<open>A sequence of status updates in the workflow's own context; it returns when each of them does.\<close>

definition status_updates :: "string \<Rightarrow> WithdrawAction list \<Rightarrow> unit op" where
  "status_updates i as = forEach as (\<lambda>a. bind (updateWithdrawStatus i a None systemCtx False) (\<lambda>_. ret ()))"

text \<open>The updates follow the table: the sequence returns exactly when the table accepts its actions.\<close>

lemma wp_status_updates:
  "find_withdraw i (db w) = Some r \<Longrightarrow> withdraw_run u w \<Longrightarrow>
   wp (status_updates i as)
     (\<lambda>_ v. withdraw_run u v \<and> (\<exists>s. find_withdraw i (db v) = Some s
        \<and> run_actions withdraw_transitions (wd_status r) as = Some (wd_status s)))
     (\<lambda>_ _. run_actions withdraw_transitions (wd_status r) as = None) w"
proof (induction as arbitrary: w r)
  case (Cons a as)
  have "wp (updateWithdrawStatus i a None systemCtx False) (\<lambda>_. withdraw_run u) (\<lambda>_. withdraw_run u) w"
    using withdraw_run.status[OF Cons.prems(2), of i a None systemCtx] by (simp add: wp_run)
  then have "wp (updateWithdrawStatus i a None systemCtx False)
      (\<lambda>_. wp (status_updates i as) (\<lambda>_ v. withdraw_run u v \<and> (\<exists>s. find_withdraw i (db v) = Some s
          \<and> run_actions withdraw_transitions (wd_status r) (a # as) = Some (wd_status s)))
        (\<lambda>_ _. run_actions withdraw_transitions (wd_status r) (a # as) = None))
      (\<lambda>_ _. run_actions withdraw_transitions (wd_status r) (a # as) = None) w"
    by (rule wp_mono[OF wp_conj[OF wp_system_update[OF Cons.prems(1)]]]) (auto intro!: wp_mono[OF Cons.IH])
  then show ?case
    unfolding status_updates_def by simp
qed (simp add: status_updates_def)

lemma success_unreachable:
  "reaches withdraw_transitions q p \<Longrightarrow> q \<in> {W_FAILED, W_REJECTED, W_CANCELLED, W_RETURNED, W_HELD} \<Longrightarrow> p = q"
  by (induction rule: reaches.induct) (auto simp: withdraw_transitions_def split: if_splits)

lemma reaches_run_actions: "run_actions \<delta> q as = Some p \<Longrightarrow> reaches \<delta> q p"
proof (induction as arbitrary: q)
  case (Cons a as)
  then obtain r where "\<delta> q a = Some r" "run_actions \<delta> r as = Some p"
    by (auto split: option.splits)
  then show ?case
    using Cons.IH reaches_trans[of \<delta> r p q] by (blast intro: reaches.intros)
qed (simp add: reaches.refl)

text \<open>C35. A withdrawal that is neither held nor finished in another way than SUCCESS is taken to SUCCESS by at most
  three status updates in the workflow's own context (a gate decision or compliance check, the approval, the
  confirmation), each of which is accepted; from the other statuses no sequence of accepted updates ever reaches
  SUCCESS.\<close>

theorem open_withdrawals_can_succeed:
  assumes "find_withdraw i (db w) = Some r"
  shows "if (wd_status r = W_SUCCESS \<or> \<not> withdraw_done (wd_status r)) \<and> wd_status r \<noteq> W_HELD
    then \<exists>as v s. length as \<le> 3 \<and> set as \<subseteq> {WA_CHECK, WA_GATE_APPROVE, WA_APPROVE, WA_SUCCESS}
      \<and> status_updates i as w = (Inr (), v) \<and> withdraw_run w v \<and> find_withdraw i (db v) = Some s \<and> wd_status s = W_SUCCESS
    else \<forall>as v s. status_updates i as w = (Inr (), v) \<and> find_withdraw i (db v) = Some s \<longrightarrow> wd_status s \<noteq> W_SUCCESS"
proof (cases "(wd_status r = W_SUCCESS \<or> \<not> withdraw_done (wd_status r)) \<and> wd_status r \<noteq> W_HELD")
  case True
  let ?as = "steps_to_success (wd_status r)"
  have as: "run_actions withdraw_transitions (wd_status r) ?as = Some W_SUCCESS" "length ?as \<le> 3"
    "set ?as \<subseteq> {WA_CHECK, WA_GATE_APPROVE, WA_APPROVE, WA_SUCCESS}"
    using True by (cases "wd_status r"; simp add: withdraw_transitions_def)+
  have "wp (status_updates i ?as) (\<lambda>_ v. withdraw_run w v \<and> (\<exists>s. find_withdraw i (db v) = Some s \<and> wd_status s = W_SUCCESS))
      (\<lambda>_ _. False) w"
    by (rule wp_mono[OF wp_status_updates[OF assms withdraw_run.start]]) (auto simp: as(1))
  then show ?thesis
    using True as(2,3) by (auto dest!: wp_returns)
next
  case False
  then have closed: "wd_status r \<in> {W_FAILED, W_REJECTED, W_CANCELLED, W_RETURNED, W_HELD}"
    by (cases "wd_status r") simp_all
  have "wd_status s \<noteq> W_SUCCESS" if "status_updates i as w = (Inr (), v)" "find_withdraw i (db v) = Some s" for as v s
    using wp_result(1)[OF that(1) wp_status_updates[OF assms withdraw_run.start]] that(2) closed
    by (auto dest!: reaches_run_actions dest: success_unreachable)
  then show ?thesis
    using False by auto
qed

section \<open>Witnesses\<close>

definition wd_order :: CreateWithdrawDto where
  "wd_order = \<lparr>cw_assetId = ''USDT'', cw_amount = 10, cw_toWalletId = None, cw_toAddress = Some ''T9'',
     cw_toIban = None, cw_parentType = None, cw_parentId = None, cw_quoteId = Some ''Q1''\<rparr>"

definition wd_sample :: "rat \<Rightarrow> rat \<Rightarrow> WithdrawStatus \<Rightarrow> withdraw" where
  "wd_sample amount fee st = (moved_withdraw
     (new_withdraw wd_order usdt ''CUSTOMER'' ''C1'' None amount fee ''Q1'' ''WD1'' ''T1'' ''W1'' 5)
     st None (normalizeStatusUpdateContext systemCtx) 6)\<lparr>wd_payoutId := Some ''P1'', wd_tbPendingNetId := Some ''a''\<rparr>"

definition po_sample :: "PayoutStatus \<Rightarrow> payout" where
  "po_sample st = (payout_row (payout_input (wd_sample 10 1 W_PAYOUT_PENDING) (Some usdt)) ''C1'' (None, None)
     ''SYSTEM'' ''P1'' ''PO1'' 7)\<lparr>po_status := st, po_completedAt := (if payout_done st then Some 8 else None),
     po_history := HArray [\<lparr>h_status = payout_status_str st, h_timestamp = 8, h_operator = '''', h_note = ''''\<rparr>]\<rparr>"

definition wd_world :: "withdraw list \<Rightarrow> payout list \<Rightarrow> world" where
  "wd_world ws ps = demo_world\<lparr>db := empty_db\<lparr>assets := [usdt], customers := [trader], withdraws := ws, payouts := ps\<rparr>\<rparr>"

lemma wd_sample_ok: "fee \<le> amount \<Longrightarrow> st \<in> {W_PENDING_COMPLIANCE, W_PAYOUT_PENDING} \<Longrightarrow> withdraw_ok (wd_sample amount fee st)"
  by (auto simp: wd_sample_def withdraw_ok_def moved_withdraw_def new_withdraw_def paid_out_def)

lemma wd_sample_simps [simp]: "wd_id (wd_sample a f st) = ''W1''" "wd_status (wd_sample a f st) = st"
  "wd_payoutId (wd_sample a f st) = Some ''P1''" "wd_assetId (wd_sample a f st) = ''USDT''"
  "wd_netAmount (wd_sample a f st) = a - f" "wd_feeAmount (wd_sample a f st) = f" "wd_amount (wd_sample a f st) = a"
  by (simp_all add: wd_sample_def moved_withdraw_def new_withdraw_def wd_order_def)

lemma po_sample_simps [simp]: "po_id (po_sample st) = ''P1''" "po_status (po_sample st) = st" "po_withdrawId (po_sample st) = ''W1''"
  by (simp_all add: po_sample_def payout_row_def payout_input_def)

lemma wd_world_simps [simp]: "withdraws (db (wd_world ws ps)) = ws" "payouts (db (wd_world ws ps)) = ps"
  "find_withdraw ''W1'' (db (wd_world [wd_sample a f st] ps)) = Some (wd_sample a f st)"
  "find_payout ''P1'' (db (wd_world ws [po_sample s])) = Some (po_sample s)"
  by (simp_all add: wd_world_def find_withdraw_def find_payout_def by_id_def)

abbreviation approving :: "world \<Rightarrow> world" where
  "approving w \<equiv> snd (updateWithdrawStatus ''W1'' WA_APPROVE None systemCtx False w)"

lemma approving_run: "withdraw_run w (approving w)"
  by (rule withdraw_run.status[OF withdraw_run.start])

lemma wd_inv: "table_inv wd_id withdraw_ok [wd_sample 10 1 W_PENDING_COMPLIANCE]"
  using wd_sample_ok[of 1 10 W_PENDING_COMPLIANCE] by (simp add: table_inv_def)

theorem withdrawals_stay_wellformed_witness:
  "table_inv wd_id withdraw_ok (withdraws (db (approving (wd_world [wd_sample 10 1 W_PENDING_COMPLIANCE] []))))"
  by (rule withdrawals_stay_wellformed[OF approving_run]) (simp add: wd_inv)

theorem withdrawals_refine_their_table_witness:
  "\<exists>s\<in>set (withdraws (db (approving (wd_world [wd_sample 10 1 W_PENDING_COMPLIANCE] [])))).
     wd_id s = ''W1'' \<and> reaches withdraw_transitions W_PENDING_COMPLIANCE (wd_status s)"
  using withdrawals_refine_their_table[OF approving_run, of "wd_world [wd_sample 10 1 W_PENDING_COMPLIANCE] []"
      "wd_sample 10 1 W_PENDING_COMPLIANCE"] wd_inv
  by (auto simp: withdraw_identity_def)

abbreviation confirming :: "world \<Rightarrow> world" where
  "confirming w \<equiv> snd (updatePayoutStatus ''P1'' \<lparr>up_action = PO_CONFIRM, up_txHash = None, up_referenceNo = None,
     up_reason = None, up_gasUsed = None, up_gasPrice = None\<rparr> ''RAIL'' False w)"

theorem cleared_payouts_have_references_witness:
  "table_inv po_id payout_ok (payouts (db (confirming (wd_world [] [po_sample PO_CONFIRMING]))))"
proof -
  have "table_inv po_id payout_ok [po_sample PO_CONFIRMING]"
    by (simp add: table_inv_def payout_ok_def po_sample_def)
  then show ?thesis
    using cleared_payouts_have_references[OF withdraw_run.payout[OF withdraw_run.start]] by simp
qed

text \<open>Digests that count the letter T keep the two locks apart.\<close>

definition counting_world :: world where
  "counting_world = (wd_world [] [])\<lparr>sha_id := \<lambda>s. int (length (filter (\<lambda>c. c = CHR ''T'') s))\<rparr>"

lemma counting_fresh: "fresh_locks counting_world no"
  by (simp add: fresh_locks_def counting_world_def lock_id_def transfer_key_def find_evidence_def by_id_def wd_world_def
      demo_world_def empty_db_def)

theorem creation_all_or_nothing_witness:
  "case fst (createWithdrawal wd_order ''C1'' ''CUSTOMER'' counting_world) of
      Inl e \<Rightarrow> db (snd (createWithdrawal wd_order ''C1'' ''CUSTOMER'' counting_world)) = db counting_world
        \<and> backed_out counting_world (snd (createWithdrawal wd_order ''C1'' ''CUSTOMER'' counting_world))
    | Inr r \<Rightarrow> creation wd_order ''C1'' (refno ''WD'' (ymd counting_world) (rnd_src counting_world (rnd_pos counting_world)))
        counting_world r (snd (createWithdrawal wd_order ''C1'' ''CUSTOMER'' counting_world))"
  by (rule creation_all_or_nothing[OF _ counting_fresh]) simp

lemma places_one [simp]: "places_of (Suc 0) = 0"
  by (subst places_of.simps) simp

lemma decimals_9_1: "is_decimal 9" "plain 9" "is_decimal 1" "plain 1"
proof -
  show "is_decimal 9" "is_decimal 1"
    unfolding is_decimal_def by (rule exI[of _ 9], rule exI[of _ 0], simp) (rule exI[of _ 1], rule exI[of _ 0], simp)
  show "plain 9" "plain 1"
    by (simp_all add: plain_def decimal_exponent_def coefficient_def places_def digits.simps)
qed

text \<open>A payout fails before it is sent: the withdrawal fails, and the void of its net lock (id a) is asked for; after
  a rejection it is refused.\<close>

theorem compensation_outcomes_witness:
  "(\<exists>v s. onPayoutFailed ''W1'' ''P1'' (wd_world [wd_sample 10 1 W_PAYOUT_PENDING] []) = (Inr (), v)
      \<and> find_withdraw ''W1'' (db v) = Some s \<and> wd_status s = W_FAILED
      \<and> map (\<lambda>(t, _). (tr_flag t, tr_pending_id t, tr_amount t)) (tb_log v) = [(Flag_void, 10, 9000000)])
   \<and> onPayoutReturned ''W1'' ''P1'' (wd_world [wd_sample 10 1 W_REJECTED] []) =
     (Inl (BadRequestException ''Invalid action''), wd_world [wd_sample 10 1 W_REJECTED] [])"
proof
  let ?w = "wd_world [wd_sample 10 1 W_PAYOUT_PENDING] []"
  obtain res v where run: "onPayoutFailed ''W1'' ''P1'' ?w = (res, v)"
    by fastforce
  have d: "decimals_of (find_asset ''USDT'' (db ?w)) = 6"
    by (simp add: decimals_of_def find_asset_def by_id_def wd_world_def usdt_def)
  have locks: "wd_tbPendingNetId (wd_sample 10 1 W_PAYOUT_PENDING) = Some ''a''"
    "wd_tbPendingFeeId (wd_sample 10 1 W_PAYOUT_PENDING) = None"
    by (simp_all add: wd_sample_def moved_withdraw_def new_withdraw_def)
  have net: "releasable (Some ''a'') 9 6" "pending_of (Some ''a'') = 10" "units_of 9 6 = 9000000"
  proof -
    have "hexToBigint ''a'' = Some 10"
      by code_simp
    moreover have "decimalToBigint 9 6 = Some 9000000"
      using decimalToBigint_plain[of 9 6] decimals_9_1 by (simp add: tb_units_def)
    ultimately show "releasable (Some ''a'') 9 6" "pending_of (Some ''a'') = 10" "units_of 9 6 = 9000000"
      by (simp_all add: releasable_def pending_of_def units_of_def)
  qed
  have "find_withdraw ''W1'' (db ?w) = Some (wd_sample 10 1 W_PAYOUT_PENDING)"
    by simp
  from compensation_outcomes[OF run[unfolded onPayoutFailed_def] this]
  have "(\<exists>s. find_withdraw ''W1'' (db v) = Some s \<and> wd_status s = W_FAILED) \<and> res = Inr ()
      \<and> sent [(Flag_void, 10, 9000000, False)] ?w v"
    by (simp add: withdraw_transitions_def Let_def d locks net) (simp add: releasable_def void_requests_def net)
  then show "\<exists>v s. onPayoutFailed ''W1'' ''P1'' ?w = (Inr (), v) \<and> find_withdraw ''W1'' (db v) = Some s \<and> wd_status s = W_FAILED
      \<and> map (\<lambda>(t, _). (tr_flag t, tr_pending_id t, tr_amount t)) (tb_log v) = [(Flag_void, 10, 9000000)]"
    using run by (auto simp: sent_def wd_world_def demo_world_def list_all2_Cons1 matches_def)
next
  let ?w = "wd_world [wd_sample 10 1 W_REJECTED] []"
  obtain res v where run: "onPayoutReturned ''W1'' ''P1'' ?w = (res, v)"
    by fastforce
  then show "onPayoutReturned ''W1'' ''P1'' ?w = (Inl (BadRequestException ''Invalid action''), ?w)"
    using compensation_outcomes[of "''W1''" WA_RETURN W_RETURNED _ ?w res v "wd_sample 10 1 W_REJECTED"]
    by (simp add: onPayoutReturned_def withdraw_transitions_def)
qed

theorem early_return_is_stuck_witness:
  "reCompensatePayout ''P1'' (wd_world [wd_sample 10 1 W_PAYOUT_PENDING] [po_sample PO_RETURNED]) =
     (Inl (BadRequestException ''Invalid action''), wd_world [wd_sample 10 1 W_PAYOUT_PENDING] [po_sample PO_RETURNED])"
  using early_return_is_stuck[of "''W1''" "wd_world [wd_sample 10 1 W_PAYOUT_PENDING] [po_sample PO_RETURNED]"
      "wd_sample 10 1 W_PAYOUT_PENDING" "''P1''" "po_sample PO_RETURNED"] by simp

theorem screen_starts_the_payout_witness:
  "checkScreenPass ''W1'' (wd_world [wd_sample 10 1 W_PENDING_COMPLIANCE] []) =
     (Inr (), wd_world [wd_sample 10 1 W_PENDING_COMPLIANCE] [])"
proof -
  have "\<not> gates_passed (wd_sample 10 1 W_PENDING_COMPLIANCE)"
    by (simp add: gates_passed_def wd_sample_def moved_withdraw_def new_withdraw_def)
  then show ?thesis
    using screen_starts_the_payout[OF surjective_pairing, of "''W1''" "wd_world [wd_sample 10 1 W_PENDING_COMPLIANCE] []"
        "wd_sample 10 1 W_PENDING_COMPLIANCE"] by (auto intro: prod_eqI)
qed

theorem open_withdrawals_can_succeed_witness:
  "(\<exists>as v s. length as \<le> 3 \<and> status_updates ''W1'' as (wd_world [wd_sample 10 1 W_CREATED] []) = (Inr (), v)
      \<and> find_withdraw ''W1'' (db v) = Some s \<and> wd_status s = W_SUCCESS)
   \<and> (\<nexists>as v s. status_updates ''W1'' as (wd_world [wd_sample 10 1 W_HELD] []) = (Inr (), v)
      \<and> find_withdraw ''W1'' (db v) = Some s \<and> wd_status s = W_SUCCESS)"
proof
  show "\<exists>as v s. length as \<le> 3 \<and> status_updates ''W1'' as (wd_world [wd_sample 10 1 W_CREATED] []) = (Inr (), v)
      \<and> find_withdraw ''W1'' (db v) = Some s \<and> wd_status s = W_SUCCESS"
    using open_withdrawals_can_succeed[of "''W1''" "wd_world [wd_sample 10 1 W_CREATED] []" "wd_sample 10 1 W_CREATED"]
    by auto
  show "\<nexists>as v s. status_updates ''W1'' as (wd_world [wd_sample 10 1 W_HELD] []) = (Inr (), v)
      \<and> find_withdraw ''W1'' (db v) = Some s \<and> wd_status s = W_SUCCESS"
    using open_withdrawals_can_succeed[of "''W1''" "wd_world [wd_sample 10 1 W_HELD] []" "wd_sample 10 1 W_HELD"]
    by auto
qed

theorem rejection_keeps_locks_witness:
  "\<exists>s v. updateWithdrawStatus ''W1'' WA_REJECT None systemCtx False (wd_world [wd_sample 10 1 W_PENDING_COMPLIANCE] []) = (Inr s, v)
    \<and> wd_tbPendingNetId s = Some ''a'' \<and> onPayoutFailed ''W1'' ''P1'' v = (Inl (BadRequestException ''Invalid action''), v)"
proof -
  let ?w = "wd_world [wd_sample 10 1 W_PENDING_COMPLIANCE] []"
  obtain s v where run: "updateWithdrawStatus ''W1'' WA_REJECT None systemCtx False ?w = (Inr s, v)" "wd_status s = W_REJECTED"
    using wp_returns[OF wp_mono[OF wp_system_update[of "''W1''" ?w "wd_sample 10 1 W_PENDING_COMPLIANCE" WA_REJECT None],
        of "\<lambda>s _. wd_status s = W_REJECTED" "\<lambda>_ _. False"]]
    by (auto simp: withdraw_transitions_def)
  have "wd_tbPendingNetId (wd_sample 10 1 W_PENDING_COMPLIANCE) = Some ''a''"
    by (simp add: wd_sample_def)
  then show ?thesis
    using rejection_keeps_locks[OF run(1), of "''P1''"] run by auto
qed

theorem locks_cover_amount_witness:
  "\<exists>net fee. decimalToBigint 9 6 = Some net \<and> decimalToBigint 1 6 = Some fee \<and> net + fee \<le> tb_units 10 6"
  using locks_cover_amount[OF wd_sample_ok[of 1 10 W_PAYOUT_PENDING], of 6] decimals_9_1 by auto

text \<open>A confirmed payout without locks or fee: the finalization returns.\<close>

definition bare_withdrawal :: withdraw where
  "bare_withdrawal = (wd_sample 0 0 W_PAYOUT_PENDING)\<lparr>wd_tbPendingNetId := None\<rparr>"

abbreviation bare_world :: world where
  "bare_world \<equiv> wd_world [bare_withdrawal] [po_sample PO_CONFIRMED]"

lemma bare_simps [simp]: "find_withdraw ''W1'' (db bare_world) = Some bare_withdrawal" "wd_status bare_withdrawal = W_PAYOUT_PENDING"
  "wd_id bare_withdrawal = ''W1''" "wd_payoutId bare_withdrawal = Some ''P1''" "wd_feeAmount bare_withdrawal = 0"
  "wd_tbPendingNetId bare_withdrawal = None" "wd_tbPendingFeeId bare_withdrawal = None"
  by (simp_all add: bare_withdrawal_def wd_world_def find_withdraw_def by_id_def)
    (simp add: wd_sample_def moved_withdraw_def new_withdraw_def)

lemma bare_ok: "withdraw_ok bare_withdrawal"
  using wd_sample_ok[of 0 0 W_PAYOUT_PENDING] by (simp add: bare_withdrawal_def withdraw_ok_def)

lemma zero_units: "decimalToBigint 0 d = Some 0"
  by (simp add: decimalToBigint_plain is_decimal_def plain_def tb_units_def)

lemma bare_success:
  assumes "db w = db bare_world"
  shows "wp (bind (updateWithdrawStatus ''W1'' WA_SUCCESS None systemCtx False) (\<lambda>_.
      andThen (record_note ''WITHDRAW_SUCCESS'' bare_withdrawal memo) (clear_payout bare_withdrawal)))
    (\<lambda>_ v. find_withdraw ''W1'' (db v) \<noteq> None) (\<lambda>_ _. False) w"
proof -
  have "wp (bind (updateWithdrawStatus (wd_id bare_withdrawal) WA_SUCCESS None systemCtx False) (\<lambda>_.
      andThen (record_note ''WITHDRAW_SUCCESS'' bare_withdrawal memo) (clear_payout bare_withdrawal)))
    (\<lambda>_. settled ''W1'' bare_withdrawal 6 w) (\<lambda>_ _. False) w"
    by (rule wp_success) (simp_all add: assms finalize_requests_def units_of_def sent_Nil required_codes_def payout_out_def
        zero_units)
  then show ?thesis
    unfolding bare_simps(3)
  proof (rule wp_mono)
    fix a and v :: world
    assume "settled ''W1'' bare_withdrawal 6 w v"
    from settled_row[OF this] show "find_withdraw ''W1'' (db v) \<noteq> None"
      using bare_ok assms by auto
  qed simp
qed

lemma bare_run: "wp (handlePayoutConfirmed ''W1'') (\<lambda>_ _. True) (\<lambda>_ _. False) bare_world"
proof -
  have last: "wp (updateWithdrawStatus ''W1'' WA_SUCCESS None systemCtx False) (\<lambda>a.
      wp (andThen (record_note ''WITHDRAW_SUCCESS'' bare_withdrawal memo) (clear_payout bare_withdrawal))
        (\<lambda>_. wp (bind (bind (getsDb (find_withdraw ''W1''))
            (\<lambda>row. need row (NotFoundException ''Withdraw transaction not found''))) (\<lambda>_. ret ()))
          (\<lambda>_ _. True) (\<lambda>_ _. False)) (\<lambda>_ _. False)) (\<lambda>_ _. False) w"
    if "db w = db bare_world" for w memo
  proof -
    have "wp (bind (updateWithdrawStatus ''W1'' WA_SUCCESS None systemCtx False) (\<lambda>_.
        andThen (record_note ''WITHDRAW_SUCCESS'' bare_withdrawal memo) (clear_payout bare_withdrawal)))
      (\<lambda>_. wp (bind (bind (getsDb (find_withdraw ''W1''))
            (\<lambda>row. need row (NotFoundException ''Withdraw transaction not found''))) (\<lambda>_. ret ()))
          (\<lambda>_ _. True) (\<lambda>_ _. False)) (\<lambda>_ _. False) w"
      by (rule wp_mono[OF bare_success[OF that]]) auto
    then show ?thesis
      by simp
  qed
  have asset: "find_asset (wd_assetId bare_withdrawal) (db bare_world) = Some usdt"
    by (simp add: bare_withdrawal_def wd_world_def find_asset_def by_id_def usdt_def)
  have none: "funds (db bare_world) = []" "evidences (db bare_world) = []"
    by (simp_all add: wd_world_def empty_db_def)
  have note_step: "wp (record_note x bare_withdrawal y) Q E w \<longleftrightarrow> Q () (w\<lparr>audits_out :=
      audits_out w @ [system_actor (workflow_audit x bare_withdrawal y)]\<rparr>)" for x y Q E w
    by (simp add: record_note_def recordSystem_def recordByActor_def)
  show ?thesis
    unfolding handlePayoutConfirmed_def finalizeWithdrawal_def findOneInternal_def[of "''W1''"]
    by (auto simp: withdraw_asset_def to_units_def zero_units external_ref_def findPayout_def post_net_def post_fee_def
        collect_firm_fee_def setWithdrawFeeFundStatus_def inTx_def none note_step assertWithdrawSettled_def
        required_codes_def last asset split: prod.split)
qed

theorem finalization_settles_witness:
  "\<exists>v s. handlePayoutConfirmed ''W1'' bare_world = (Inr (), v)
    \<and> find_withdraw ''W1'' (db v) = Some s \<and> wd_status s = W_SUCCESS"
proof -
  obtain v where "handlePayoutConfirmed ''W1'' bare_world = (Inr (), v)"
    using wp_returns[OF bare_run] by auto
  then show ?thesis
    using finalization_settles[of "''W1''" bare_world "Inr ()" v bare_withdrawal] bare_ok by auto
qed

end
