(* ===== verification/Payins.thy ===== *)
theory Payins
  imports Payouts
begin

text \<open>
  Payins (src/src/modules/asset-treasury/payins/payins.service.ts): the inbound rail row, its two
  transition tables, its detection, the status update with the R3 guard and the credit of the receiving
  wallet, and the simulated rail events.  Events are handed to \<^emph>\<open>deliver\<close>, an argument: the awaited
  subscribers are those of the deposit workflow.
\<close>

section \<open>Statuses\<close>

fun payin_status_str :: "PayinStatus \<Rightarrow> string" where
  "payin_status_str PI_DETECTED = ''DETECTED''"
| "payin_status_str PI_CONFIRMING = ''CONFIRMING''"
| "payin_status_str PI_CONFIRMED = ''CONFIRMED''"
| "payin_status_str PI_CLEARED = ''CLEARED''"
| "payin_status_str PI_FAILED = ''FAILED''"

fun payin_action_str :: "PayinAction \<Rightarrow> string" where
  "payin_action_str PI_CONFIRM = ''confirm''"
| "payin_action_str PI_FAIL = ''fail''"
| "payin_action_str PI_CLEAR = ''clear''"
| "payin_action_str PI_BLOCK = ''block''"
| "payin_action_str PI_REORG = ''reorg''"

text \<open>The two switches of \<open>updateStatus\<close>.\<close>

fun payin_fiat_row :: "PayinStatus \<Rightarrow> (PayinAction \<times> PayinStatus) list" where
  "payin_fiat_row PI_DETECTED = [(PI_CONFIRM, PI_CONFIRMED), (PI_FAIL, PI_FAILED)]"
| "payin_fiat_row PI_CONFIRMED = [(PI_CLEAR, PI_CLEARED)]"
| "payin_fiat_row _ = []"

fun payin_crypto_row :: "PayinStatus \<Rightarrow> (PayinAction \<times> PayinStatus) list" where
  "payin_crypto_row PI_DETECTED = [(PI_BLOCK, PI_CONFIRMING), (PI_FAIL, PI_FAILED)]"
| "payin_crypto_row PI_CONFIRMING = [(PI_CONFIRM, PI_CONFIRMED), (PI_FAIL, PI_FAILED), (PI_REORG, PI_DETECTED)]"
| "payin_crypto_row PI_CONFIRMED = [(PI_CLEAR, PI_CLEARED)]"
| "payin_crypto_row _ = []"

definition payin_transitions :: "string \<Rightarrow> PayinStatus \<Rightarrow> PayinAction \<Rightarrow> PayinStatus option" where
  "payin_transitions type q a = map_of (if type = ''FIAT'' then payin_fiat_row q else payin_crypto_row q) a"

text \<open>Stored types may be in small letters.\<close>

definition normalizeStoredPayinType :: "string \<Rightarrow> string option" where
  "normalizeStoredPayinType t =
     (let n = to_upper (js_trim t) in if n = ''CRYPTO'' \<or> n = ''FIAT'' then Some n else None)"

section \<open>Rows\<close>

definition find_payin :: "string \<Rightarrow> db \<Rightarrow> payin option" where
  "find_payin i d = by_id pi_id i (payins d)"

text \<open>\<open>findOne\<close>; the joined columns are for display.\<close>

definition findPayin :: "string \<Rightarrow> payin op" where
  "findPayin i = bind (getsDb (find_payin i)) (\<lambda>row. need row (NotFoundException ''Payin not found''))"

definition update_payin :: "string \<Rightarrow> (payin \<Rightarrow> payin) \<Rightarrow> payin op" where
  "update_payin i f =
     bind (getsDb (find_payin i)) (\<lambda>row.
     bind (need row RecordNotFound) (\<lambda>r.
     andThen (onDb (\<lambda>d. d\<lparr>payins := update_rows (\<lambda>x. pi_id x = i) f (payins d)\<rparr>)) (ret (f r))))"

text \<open>The unique columns; a null in \<open>(txHash, assetId, toAddress)\<close> equals nothing.\<close>

definition same_transfer :: "payin \<Rightarrow> payin \<Rightarrow> bool" where
  "same_transfer x y \<longleftrightarrow> pi_txHash x \<noteq> None \<and> pi_toAddress x \<noteq> None \<and> pi_txHash x = pi_txHash y
     \<and> pi_assetId x = pi_assetId y \<and> pi_toAddress x = pi_toAddress y"

definition insert_payin :: "payin \<Rightarrow> payin op" where
  "insert_payin r =
     bind (getsDb payins) (\<lambda>rs.
       if \<exists>x\<in>set rs. pi_id x = pi_id r then throw (UniqueConstraint ''id'')
       else if \<exists>x\<in>set rs. pi_no x = pi_no r then throw (UniqueConstraint ''payinNo'')
       else if \<exists>x\<in>set rs. same_transfer r x then throw (UniqueConstraint ''txHash_assetId_toAddress'')
       else andThen (onDb (\<lambda>d. d\<lparr>payins := payins d @ [r]\<rparr>)) (ret r))"

section \<open>Detection\<close>

record CreateDetectedPayinInput =
  ci_assetId :: string
  ci_toWalletId :: string
  ci_type :: string
  ci_amount :: rat
  ci_txHash :: "string option"
  ci_fromAddress :: "string option"
  ci_fromIban :: "string option"
  ci_referenceNo :: "string option"
  ci_providerTxnId :: "string option"
  ci_receivedAt :: "int option"
  ci_reason :: "string option"

definition payin_row ::
    "CreateDetectedPayinInput \<Rightarrow> wallet \<Rightarrow> string \<Rightarrow> string \<Rightarrow> string \<Rightarrow> int \<Rightarrow> payin" where
  "payin_row inp x traceId rowId no t =
     \<lparr>pi_id = rowId, pi_no = no, pi_depositId = None, pi_type = ci_type inp, pi_status = PI_DETECTED,
      pi_toWalletId = Some (ci_toWalletId inp), pi_assetId = ci_assetId inp, pi_amount = ci_amount inp,
      pi_ownerId = (if w_ownerType x = ''CUSTOMER'' then w_ownerId x else None),
      pi_toAddress = w_address x, pi_toIban = w_iban x, pi_fromAddress = ci_fromAddress inp,
      pi_fromIban = ci_fromIban inp, pi_txHash = ci_txHash inp, pi_referenceNo = ci_referenceNo inp,
      pi_providerTxnId = ci_providerTxnId inp, pi_receivedAt = nullish (ci_receivedAt inp) (Some t),
      pi_traceId = Some traceId,
      pi_history = HArray [\<lparr>h_status = payin_status_str PI_DETECTED, h_timestamp = t, h_operator = ''SYSTEM'',
        h_note = or_text (ci_reason inp) ''Inbound transfer detected''\<rparr>]\<rparr>"

definition payin_audit :: "string \<Rightarrow> payin \<Rightarrow> string option \<Rightarrow> string option \<Rightarrow> string \<Rightarrow> audit" where
  "payin_audit action p ownerType ownerId reason =
     (audit0 action ''PAYIN'')
       \<lparr>au_entityId := Some (pi_id p), au_entityNo := Some (pi_no p), au_ownerType := ownerType,
        au_ownerId := ownerId, au_traceId := pi_traceId p, au_workflowType := Some ''DEPOSIT'',
        au_reason := Some reason, au_platform := Some ''SYSTEM''\<rparr>"

definition createDetected :: "(event \<Rightarrow> unit op) \<Rightarrow> CreateDetectedPayinInput \<Rightarrow> payin op" where
  "createDetected deliver inp =
     bind (getsDb (\<lambda>d. by_id w_id (ci_toWalletId inp) (wallets d))) (\<lambda>row.
     bind (need row (NotFoundException ''Wallet not found'')) (\<lambda>x.
     andThen (guard (w_assetId x = ci_assetId inp) (BadRequestException ''Wallet asset does not match payin asset''))
    (bind randomUUID (\<lambda>traceId.
     bind randomUUID (\<lambda>rowId.
     bind (generateReferenceNo ''PI'') (\<lambda>no.
     bind now (\<lambda>t.
     bind (insert_payin (payin_row inp x traceId rowId no t)) (\<lambda>p.
     andThen (deliver (PayinCreated (pi_id p)))
    (andThen (recordSystem (payin_audit ''PAYIN_CREATED'' p (Some (w_ownerType x)) (or_else (w_ownerId x) None)
        (or_text (ci_reason inp) ''Inbound transfer detected'')) False)
       (ret p))))))))))"

section \<open>Status updates\<close>

definition assert_payin_R3 :: "payin \<Rightarrow> string \<Rightarrow> PayinStatus \<Rightarrow> unit op" where
  "assert_payin_R3 p type q =
     whenM (q = PI_CLEARED)
       (andThen (guard (normalizeOptionalString (pi_referenceNo p) \<noteq> None)
           (PayoutFinalizationIncompleteError ''referenceNo is required''))
         (guard (type = ''CRYPTO'' \<longrightarrow> normalizeOptionalString (pi_txHash p) \<noteq> None)
           (PayoutFinalizationIncompleteError ''txHash is required'')))"

definition moved_payin :: "payin \<Rightarrow> PayinStatus \<Rightarrow> PayinAction \<Rightarrow> int \<Rightarrow> payin \<Rightarrow> payin" where
  "moved_payin item q action t p =
     p\<lparr>pi_status := q, pi_history := HArray (history_entries (pi_history item) @
         [\<lparr>h_status = payin_status_str q, h_timestamp = t, h_operator = ''SYSTEM'',
           h_note = ''Action: '' @ payin_action_str action\<rparr>])\<rparr>"

definition updatePayinStatus :: "(event \<Rightarrow> unit op) \<Rightarrow> string \<Rightarrow> PayinAction \<Rightarrow> payin op" where
  "updatePayinStatus deliver i action =
     bind (findPayin i) (\<lambda>p.
     bind (need (normalizeStoredPayinType (pi_type p)) (BadRequestException ''Unsupported payin type'')) (\<lambda>type.
     bind (need (payin_transitions type (pi_status p) action) (BadRequestException ''Invalid transition'')) (\<lambda>q.
     andThen (assert_payin_R3 p type q)
    (bind now (\<lambda>t.
     bind (update_payin i (moved_payin p q action t)) (\<lambda>updated.
     andThen (whenM (q = PI_CLEARED) (adjust (pi_toWalletId updated) (pi_amount updated)))
    (andThen (recordSystem (payin_audit
        (buildStateTransitionAction ''PAYIN'' (payin_status_str (pi_status p)) (payin_status_str q)) updated
        (if truthy (pi_ownerId updated) then Some ''CUSTOMER'' else None) (or_else (pi_ownerId updated) None)
        (''Action: '' @ payin_action_str action)) False)
    (andThen (deliver (PayinStatusChanged (pi_id updated) (pi_status p) q))
       (ret updated)))))))))"

section \<open>Simulated rail events\<close>

datatype PayinMockEvent = MEMPOOL_SEEN | CHAIN_CONFIRMED | DROPPED | PI_REORGED | FIAT_CONFIRMED | FIAT_FAILED

fun mock_action :: "string \<Rightarrow> PayinMockEvent \<Rightarrow> PayinAction option" where
  "mock_action type MEMPOOL_SEEN = (if type = ''CRYPTO'' then Some PI_BLOCK else None)"
| "mock_action type CHAIN_CONFIRMED = (if type = ''CRYPTO'' then Some PI_CONFIRM else None)"
| "mock_action type DROPPED = (if type = ''CRYPTO'' then Some PI_FAIL else None)"
| "mock_action type PI_REORGED = (if type = ''CRYPTO'' then Some PI_REORG else None)"
| "mock_action type FIAT_CONFIRMED = (if type = ''FIAT'' then Some PI_CONFIRM else None)"
| "mock_action type FIAT_FAILED = (if type = ''FIAT'' then Some PI_FAIL else None)"

definition applyMockEvent :: "(event \<Rightarrow> unit op) \<Rightarrow> string \<Rightarrow> PayinMockEvent \<Rightarrow> payin op" where
  "applyMockEvent deliver i ev =
     bind (findPayin i) (\<lambda>p.
     bind (need (normalizeStoredPayinType (pi_type p)) (BadRequestException ''Unsupported payin type'')) (\<lambda>type.
     bind (need (mock_action type ev) (BadRequestException ''Mock event not supported'')) (\<lambda>action.
     bind (updatePayinStatus deliver i action) (\<lambda>_. findPayin i))))"

definition linkDeposit :: "string \<Rightarrow> string \<Rightarrow> payin op" where
  "linkDeposit i depositId = update_payin i (\<lambda>p. p\<lparr>pi_depositId := Some depositId\<rparr>)"

end
