(* ===== verification/Deposits.thy ===== *)
theory Deposits
  imports Payins
begin

text \<open>
  The deposit aggregate (src/src/modules/trading/deposit-transactions/deposit-transactions.service.ts): the
  status table with the guard on administrators, creation from a payin, and the compliance columns.
\<close>

section \<open>Statuses\<close>

fun deposit_status_str :: "DepositStatus \<Rightarrow> string" where
  "deposit_status_str D_PAYIN_PENDING = ''PAYIN_PENDING''"
| "deposit_status_str D_COMPLIANCE_PENDING = ''COMPLIANCE_PENDING''"
| "deposit_status_str D_ACTION_PENDING = ''ACTION_PENDING''"
| "deposit_status_str D_SUCCESS = ''SUCCESS''"
| "deposit_status_str D_FROZEN = ''FROZEN''"
| "deposit_status_str D_REJECTED = ''REJECTED''"
| "deposit_status_str D_FAILED = ''FAILED''"
| "deposit_status_str D_EXPIRED = ''EXPIRED''"
| "deposit_status_str D_CONFISCATED = ''CONFISCATED''"

fun deposit_action_str :: "DepositAction \<Rightarrow> string" where
  "deposit_action_str D_PAYIN_CONFIRM = ''payin_confirmed''"
| "deposit_action_str D_APPROVE = ''approve''"
| "deposit_action_str D_REJECT = ''reject''"
| "deposit_action_str D_FREEZE = ''freeze''"
| "deposit_action_str D_ACTION_PEND = ''action_pending''"
| "deposit_action_str D_RESUME = ''resume''"
| "deposit_action_str D_CONFISCATE = ''confiscate''"
| "deposit_action_str D_EXPIRE = ''expire''"
| "deposit_action_str D_FAIL = ''fail''"

fun deposit_row :: "DepositStatus \<Rightarrow> (DepositAction \<times> DepositStatus) list" where
  "deposit_row D_PAYIN_PENDING = [(D_PAYIN_CONFIRM, D_COMPLIANCE_PENDING), (D_FAIL, D_FAILED)]"
| "deposit_row D_COMPLIANCE_PENDING =
     [(D_APPROVE, D_SUCCESS), (D_REJECT, D_REJECTED), (D_FREEZE, D_FROZEN), (D_ACTION_PEND, D_ACTION_PENDING),
      (D_FAIL, D_FAILED)]"
| "deposit_row D_ACTION_PENDING =
     [(D_APPROVE, D_SUCCESS), (D_REJECT, D_REJECTED), (D_FREEZE, D_FROZEN), (D_RESUME, D_COMPLIANCE_PENDING),
      (D_EXPIRE, D_EXPIRED)]"
| "deposit_row D_FROZEN = [(D_APPROVE, D_SUCCESS), (D_CONFISCATE, D_CONFISCATED)]"
| "deposit_row _ = []"

definition deposit_terminal :: "DepositStatus \<Rightarrow> bool" where
  "deposit_terminal s \<longleftrightarrow> s \<in> set [D_SUCCESS, D_REJECTED, D_FAILED, D_EXPIRED, D_CONFISCATED]"

text \<open>\<open>getNextStatus\<close>: terminal statuses are refused before the table is read.\<close>

definition deposit_transitions :: "DepositStatus \<Rightarrow> DepositAction \<Rightarrow> DepositStatus option" where
  "deposit_transitions q a = (if deposit_terminal q then None else map_of (deposit_row q) a)"

section \<open>Rows\<close>

definition find_deposit :: "string \<Rightarrow> db \<Rightarrow> deposit option" where
  "find_deposit i d = by_id d_id i (deposits d)"

definition findDeposit :: "string \<Rightarrow> deposit op" where
  "findDeposit i =
     bind (getsDb (find_deposit i)) (\<lambda>row. need row (NotFoundException ''Deposit transaction not found''))"

definition findByPayinId :: "string \<Rightarrow> deposit option op" where
  "findByPayinId payinId = getsDb (\<lambda>d. find (\<lambda>x. d_payinId x = Some payinId) (deposits d))"

definition update_deposit :: "string \<Rightarrow> (deposit \<Rightarrow> deposit) \<Rightarrow> deposit op" where
  "update_deposit i f =
     bind (getsDb (find_deposit i)) (\<lambda>row.
     bind (need row RecordNotFound) (\<lambda>r.
     andThen (onDb (\<lambda>d. d\<lparr>deposits := update_rows (\<lambda>x. d_id x = i) f (deposits d)\<rparr>)) (ret (f r))))"

definition insert_deposit :: "deposit \<Rightarrow> deposit op" where
  "insert_deposit r =
     bind (getsDb deposits) (\<lambda>rs.
       if \<exists>x\<in>set rs. d_id x = d_id r then throw (UniqueConstraint ''id'')
       else if \<exists>x\<in>set rs. d_no x = d_no r then throw (UniqueConstraint ''depositNo'')
       else if d_payinId r \<noteq> None \<and> (\<exists>x\<in>set rs. d_payinId x = d_payinId r)
         then throw (UniqueConstraint ''payinId'')
       else andThen (onDb (\<lambda>d. d\<lparr>deposits := deposits d @ [r]\<rparr>)) (ret r))"

section \<open>The status update\<close>

text \<open>The options of \<open>updateStatus\<close>: reason, actor (type, id, role) and platform.\<close>

record DepositOptions =
  op_reason :: "string option"
  op_actor :: "(string \<times> string \<times> string option) option"
  op_platform :: "string option"

definition no_options :: DepositOptions where
  "no_options = \<lparr>op_reason = None, op_actor = None, op_platform = None\<rparr>"

definition history_operator :: "DepositOptions \<Rightarrow> string" where
  "history_operator opts =
     or_text (or_else (map_option (\<lambda>(_, i, _). i) (op_actor opts)) (normalizeOptionalString (op_platform opts))) ''SYSTEM''"

text \<open>The service parses the stored history and pushes onto it: text that is no JSON counts as empty.  Its own writes
  are arrays, so JSON of another kind, on which the push would throw, does not occur.\<close>

definition moved_deposit ::
    "deposit \<Rightarrow> DepositStatus \<Rightarrow> DepositAction \<Rightarrow> string option \<Rightarrow> DepositOptions \<Rightarrow> int \<Rightarrow> deposit \<Rightarrow> deposit" where
  "moved_deposit item q action reason opts t d =
     d\<lparr>d_status := q,
       d_history := HArray (history_entries (d_history item) @
         [\<lparr>h_status = deposit_status_str q, h_timestamp = t, h_operator = history_operator opts,
           h_note = or_text (or_else (op_reason opts) reason) (deposit_action_str action)\<rparr>]),
       d_completedAt := (if deposit_terminal q \<or> q = D_FROZEN then Some t else d_completedAt d)\<rparr>"

definition updateDepositStatus ::
    "string \<Rightarrow> DepositAction \<Rightarrow> string option \<Rightarrow> DepositOptions \<Rightarrow> deposit op" where
  "updateDepositStatus i action reason opts =
     bind (findDeposit i) (\<lambda>item.
     bind (need (deposit_transitions (d_status item) action) (BadRequestException ''Invalid action'')) (\<lambda>q.
     andThen (guard (\<not> (op_platform opts = Some ''ADMIN_API'' \<and> q = D_SUCCESS))
         (BadRequestException ''DEPOSIT_APPROVE_WORKFLOW_ONLY''))
    (bind now (\<lambda>t.
     bind (update_deposit i (moved_deposit item q action reason opts t)) (\<lambda>updated.
     andThen (emit (DepositStatusChanged (d_id updated) (d_status item) q)) (ret updated))))))"

section \<open>Compliance columns\<close>

definition deposit_asset :: "deposit \<Rightarrow> asset option op" where
  "deposit_asset r = getsDb (find_asset (d_assetId r))"

definition initializeComplianceGates :: "string \<Rightarrow> deposit op" where
  "initializeComplianceGates i =
     bind (getsDb (\<lambda>d. case find_deposit i d of None \<Rightarrow> None | Some r \<Rightarrow> find_asset (d_assetId r) d)) (\<lambda>a.
     let isCrypto = (case a of None \<Rightarrow> False | Some x \<Rightarrow> a_type x = ''CRYPTO'') in
       update_deposit i (\<lambda>r. r\<lparr>d_travelRuleRequired := isCrypto,
         d_travelRuleStatus := (if isCrypto then ''PENDING'' else ''NOT_REQUIRED'')\<rparr>))"

definition updateDepositKyt :: "string \<Rightarrow> string \<Rightarrow> int option \<Rightarrow> deposit op" where
  "updateDepositKyt i status riskScore =
     bind now (\<lambda>t. update_deposit i (\<lambda>r. r\<lparr>d_kytStatus := status, d_kytRiskScore := riskScore,
       d_kytCheckedAt := Some t\<rparr>))"

definition updateDepositTravelRule :: "string \<Rightarrow> string \<Rightarrow> deposit op" where
  "updateDepositTravelRule i status =
     bind now (\<lambda>t. update_deposit i (\<lambda>r. r\<lparr>d_travelRuleStatus := status, d_travelRuleCheckedAt := Some t\<rparr>))"

definition getDepositOwnerCompliance :: "string \<Rightarrow> string op" where
  "getDepositOwnerCompliance i =
     bind (findDeposit i) (\<lambda>r.
     bind (getsDb (\<lambda>d. by_id c_id (d_ownerId r) (customers d))) (\<lambda>c.
       ret (or_text (map_option c_complianceStatus c) ''UNKNOWN'')))"

section \<open>Creation\<close>

definition new_deposit ::
    "rat \<Rightarrow> string \<Rightarrow> wallet \<Rightarrow> string option \<Rightarrow> string option \<Rightarrow> string option \<Rightarrow> string \<Rightarrow> string \<Rightarrow> string
       \<Rightarrow> int \<Rightarrow> deposit" where
  "new_deposit amount assetId x txHash fromAddress payinId traceId rowId no t =
     \<lparr>d_id = rowId, d_no = no, d_ownerType = w_ownerType x, d_ownerId = or_text (w_ownerId x) ''UNKNOWN'',
      d_status = D_PAYIN_PENDING, d_assetId = assetId, d_toWalletId = w_id x, d_payinId = payinId,
      d_amount = amount, d_netAmount = amount, d_feeAmount = 0, d_fromAddress = fromAddress,
      d_toAddress = w_address x, d_toIban = w_iban x, d_txHash = txHash, d_kytStatus = ''PENDING'',
      d_kytRiskScore = None, d_kytCheckedAt = None, d_travelRuleRequired = False,
      d_travelRuleStatus = ''NOT_REQUIRED'', d_travelRuleCheckedAt = None, d_traceId = Some traceId,
      d_history = HArray [\<lparr>h_status = deposit_status_str D_PAYIN_PENDING, h_timestamp = t,
        h_operator = ''SYSTEM'', h_note = ''Created from Payin''\<rparr>],
      d_aggregatedAt = None, d_aggregatedTransferId = None, d_completedAt = None, d_createdAt = t\<rparr>"

text \<open>A payin without a receiving wallet fails the validation of the lookup.\<close>

definition createFromPayin ::
    "rat \<Rightarrow> string \<Rightarrow> string option \<Rightarrow> string option \<Rightarrow> string option \<Rightarrow> string option \<Rightarrow> string option
       \<Rightarrow> deposit op" where
  "createFromPayin amount assetId toWalletId txHash fromAddress payinId traceId =
     bind (need toWalletId (PlainError ''PrismaClientValidationError'')) (\<lambda>walletId.
     bind (getsDb (\<lambda>d. by_id w_id walletId (wallets d))) (\<lambda>row.
     bind (need row (NotFoundException ''Wallet not found'')) (\<lambda>x.
     bind (generateReferenceNo ''DEP'') (\<lambda>no.
     bind (case traceId of Some i \<Rightarrow> ret i | None \<Rightarrow> randomUUID) (\<lambda>trace.
     bind randomUUID (\<lambda>rowId.
     bind now (\<lambda>t.
       insert_deposit (new_deposit amount assetId x txHash fromAddress payinId trace rowId no t))))))))"

end
