(* ===== verification/DepositWorkflow.thy ===== *)
theory DepositWorkflow
  imports Deposits SwapWorkflow
begin

text \<open>
  The deposit workflow (src/src/modules/trading/deposit-transactions/deposit-workflow.service.ts): its
  reactions to the events of payins and deposits, the two bookings of a deposit, the compliance gates, the
  approval, and the status route of the administrators (deposit-transactions.controller.ts).
\<close>

section \<open>Audit rows\<close>

definition deposit_audit :: "string \<Rightarrow> deposit \<Rightarrow> string \<Rightarrow> audit" where
  "deposit_audit action r reason =
     (audit0 action ''DEPOSIT_TRANSACTION'')
       \<lparr>au_entityId := Some (d_id r), au_entityNo := Some (d_no r), au_ownerType := Some (d_ownerType r),
        au_ownerId := Some (d_ownerId r), au_traceId := or_else (d_traceId r) None,
        au_workflowType := Some ''DEPOSIT'', au_reason := Some reason, au_platform := Some ''SYSTEM''\<rparr>"

definition deposit_note :: "string \<Rightarrow> deposit \<Rightarrow> string \<Rightarrow> unit op" where
  "deposit_note action r reason = recordSystem (deposit_audit action r reason) False"

definition recordStateTransitionAudit :: "deposit \<Rightarrow> string \<Rightarrow> string \<Rightarrow> string \<Rightarrow> unit op" where
  "recordStateTransitionAudit r fromStatus toStatus reason =
     deposit_note (buildStateTransitionAction ''DEPOSIT'' fromStatus toStatus) r reason"

section \<open>The two bookings\<close>

text \<open>Step 1 recognises the inbound funds in the customer's suspense account, step 2 credits the customer.\<close>

datatype deposit_step = STEP_1 | STEP_2

fun step_event :: "deposit_step \<Rightarrow> string" where
  "step_event STEP_1 = ''DEPOSIT_ASSET_TO_SUSPENSE''"
| "step_event STEP_2 = ''DEPOSIT_SUSPENSE_TO_PAYABLE''"

text \<open>The evidence of a booking; the memo of step 1 without the account names in brackets.\<close>

definition deposit_evidence :: "deposit \<Rightarrow> string \<Rightarrow> payin option \<Rightarrow> deposit_step \<Rightarrow> EvidenceParams" where
  "deposit_evidence r currency p step =
     \<lparr>ep_sourceType = ''DEPOSIT'', ep_sourceNo = d_no r, ep_eventCode = step_event step,
      ep_traceId = or_text (d_traceId r) (d_id r),
      ep_debitCode = coa_label (if step = STEP_1 then CLIENT_ASSET else DEPOSIT_SUSPENSE),
      ep_creditCode = coa_label (if step = STEP_1 then DEPOSIT_SUSPENSE else CLIENT_PAYABLE),
      ep_assetCurrency = currency, ep_actorType = ''SYSTEM'', ep_actorId = ''SYSTEM'',
      ep_memo = Some (if step = STEP_1 then ''Payin confirmed, funds in compliance hold''
                      else ''Compliance approved, funds credited to client payable''),
      ep_debitWalletRef = (case p of None \<Rightarrow> None | Some x \<Rightarrow> pi_toWalletId x),
      ep_creditWalletRef = (case p of None \<Rightarrow> None | Some x \<Rightarrow> pi_toWalletId x),
      ep_externalRef = (if step = STEP_1
        then (case p of None \<Rightarrow> None | Some x \<Rightarrow> nullish (pi_txHash x) (pi_referenceNo x)) else None),
      ep_crossing = (step = STEP_1)\<rparr>"

definition deposit_accounts :: "deposit \<Rightarrow> nat \<Rightarrow> deposit_step \<Rightarrow> (int \<times> int) op" where
  "deposit_accounts r ledger step =
     (if step = STEP_1 then
        bind (resolveTbAccountId (TB_ACCOUNT_CODES CLIENT_ASSET) ledger ''SYSTEM'' None) (\<lambda>debit.
        bind (resolveTbAccountId (TB_ACCOUNT_CODES DEPOSIT_SUSPENSE) ledger ''CUSTOMER'' (Some (d_ownerId r))) (\<lambda>credit.
          ret (debit, credit)))
      else
        bind (resolveTbAccountId (TB_ACCOUNT_CODES DEPOSIT_SUSPENSE) ledger ''CUSTOMER'' (Some (d_ownerId r))) (\<lambda>debit.
        bind (resolveTbAccountId (TB_ACCOUNT_CODES CLIENT_PAYABLE) ledger ''CUSTOMER'' (Some (d_ownerId r))) (\<lambda>credit.
          ret (debit, credit))))"

definition step_code :: "deposit_step \<Rightarrow> nat" where
  "step_code step = TB_TRANSFER_CODES
     (if step = STEP_1 then DEPOSIT_ASSET_TO_SUSPENSE else DEPOSIT_SUSPENSE_TO_PAYABLE)"

definition executeDepositAccounting :: "deposit \<Rightarrow> deposit_step \<Rightarrow> unit op" where
  "executeDepositAccounting r step =
     bind (deposit_asset r) (\<lambda>row.
     bind (need row (PlainError ''Deposit has no associated asset'')) (\<lambda>a.
     bind (need (case a_ledger a of Some (Suc n) \<Rightarrow> Some (Suc n) | _ \<Rightarrow> None) (PlainError ''Asset has no tbLedgerId'')) (\<lambda>ledger.
     bind (need (decimalToBigint (d_amount r) (a_decimals a)) (SyntaxError ''BigInt'')) (\<lambda>amount.
     bind (if truthy (d_payinId r) then bind (findPayin (the (d_payinId r))) (\<lambda>p. ret (Some p)) else ret None) (\<lambda>p.
     bind (deposit_accounts r ledger step) (\<lambda>(debit, credit).
     bind (executeTransfer debit credit amount ledger (step_code step)
         (deposit_evidence r (a_currency a) p step)) (\<lambda>_. ret ())))))))"

text \<open>A booking that fails is audited and the handler returns; \<^emph>\<open>rest\<close> is what follows a success.  Only
  deposits of customers are booked.\<close>

definition step_label :: "deposit_step \<Rightarrow> string" where
  "step_label step = (if step = STEP_1 then ''TB Step 1 failed: '' else ''TB Step 2 failed: '')"

definition booked :: "deposit \<Rightarrow> deposit_step \<Rightarrow> unit op \<Rightarrow> unit op" where
  "booked r step rest =
     (if d_ownerType r = ''CUSTOMER'' then
        bind (handle (andThen (executeDepositAccounting r step) (ret True))
          (\<lambda>e. andThen (deposit_note ''DEPOSIT_ACCOUNTING_BLOCKED'' r (step_label step @ error_message e)) (ret False)))
          (\<lambda>ok. whenM ok rest)
      else rest)"

section \<open>Approval\<close>

definition ABNORMAL_COMPLIANCE :: "string list" where
  "ABNORMAL_COMPLIANCE = [''FROZEN'', ''SUSPENDED'', ''BLOCKED'', ''REJECTED'']"

definition approveDeposit :: "string \<Rightarrow> unit op" where
  "approveDeposit i =
     bind (findDeposit i) (\<lambda>r.
       if d_status r \<notin> set [D_COMPLIANCE_PENDING, D_ACTION_PENDING, D_FROZEN] then ret ()
       else
         andThen (deposit_note ''DEPOSIT_APPROVED'' r ''Compliance approved, funds credited to client'')
           (booked r STEP_2
             (bind (updateDepositStatus (d_id r) D_APPROVE None no_options) (\<lambda>_.
                deposit_note ''DEPOSIT_COMPLETED'' r ''Deposit completed successfully''))))"

definition gates_open :: "deposit \<Rightarrow> bool" where
  "gates_open r \<longleftrightarrow> d_kytStatus r = ''PASSED''
     \<and> (d_travelRuleStatus r = ''PASSED'' \<or> d_travelRuleStatus r = ''NOT_REQUIRED'')"

definition checkAutoApproval :: "string \<Rightarrow> unit op" where
  "checkAutoApproval i =
     bind (findDeposit i) (\<lambda>r.
       if d_status r \<noteq> D_COMPLIANCE_PENDING then ret ()
       else if \<not> gates_open r then ret ()
       else bind (getDepositOwnerCompliance i) (\<lambda>c.
         if c \<in> set ABNORMAL_COMPLIANCE then ret () else approveDeposit i))"

definition applyKytResult :: "string \<Rightarrow> string \<Rightarrow> int option \<Rightarrow> unit op" where
  "applyKytResult i kyt riskScore =
     bind (updateDepositKyt i kyt riskScore) (\<lambda>_.
     bind (findDeposit i) (\<lambda>r.
     andThen (deposit_note ''DEPOSIT_KYT_APPLIED'' r (''KYT result applied: '' @ kyt))
       (checkAutoApproval i)))"

definition applyTrResult :: "string \<Rightarrow> string \<Rightarrow> unit op" where
  "applyTrResult i tr =
     bind (updateDepositTravelRule i tr) (\<lambda>_.
     bind (findDeposit i) (\<lambda>r.
     andThen (deposit_note ''DEPOSIT_TR_APPLIED'' r (''Travel rule result applied: '' @ tr))
       (checkAutoApproval i)))"

text \<open>Gate 0: the customer's compliance status.\<close>

definition runGate0 :: "string \<Rightarrow> unit op" where
  "runGate0 i =
     bind (getDepositOwnerCompliance i) (\<lambda>c.
       if c \<in> set ABNORMAL_COMPLIANCE then
         bind (updateDepositStatus i D_FREEZE None
             \<lparr>op_reason = Some (''Customer compliance status: '' @ c),
              op_actor = Some (''SYSTEM'', ''COMPLIANCE_GATE_0'', None), op_platform = None\<rparr>) (\<lambda>_. ret ())
       else
         bind (findDeposit i) (\<lambda>r.
         andThen (deposit_note ''DEPOSIT_GATE0_PASSED'' r ''Gate 0 passed: customer compliance status is normal'')
           (bind (initializeComplianceGates i) (\<lambda>_. ret ()))))"

definition handleDepositStatusChanged :: "string \<Rightarrow> DepositStatus \<Rightarrow> unit op" where
  "handleDepositStatusChanged i newStatus = whenM (newStatus = D_COMPLIANCE_PENDING) (runGate0 i)"

section \<open>Administrators\<close>

definition admin_options :: "string \<Rightarrow> string option \<Rightarrow> DepositOptions" where
  "admin_options actorId actorRole =
     \<lparr>op_reason = None, op_actor = Some (''ADMIN'', actorId, actorRole), op_platform = Some ''ADMIN_API''\<rparr>"

definition admin_move ::
    "DepositAction \<Rightarrow> string \<Rightarrow> string \<Rightarrow> string option \<Rightarrow> string \<Rightarrow> string option \<Rightarrow> deposit op" where
  "admin_move action label i reason actorId actorRole =
     bind (updateDepositStatus i action reason (admin_options actorId actorRole)) (\<lambda>updated.
     andThen (recordStateTransitionAudit updated [] (deposit_status_str (d_status updated)) (or_text reason label))
       (ret updated))"

definition adminReject :: "string \<Rightarrow> string option \<Rightarrow> string \<Rightarrow> string option \<Rightarrow> deposit op" where
  "adminReject = admin_move D_REJECT ''Admin reject''"

definition adminFreeze :: "string \<Rightarrow> string option \<Rightarrow> string \<Rightarrow> string option \<Rightarrow> deposit op" where
  "adminFreeze = admin_move D_FREEZE ''Admin freeze''"

text \<open>The route \<open>PATCH :id/status\<close>.\<close>

definition patchDepositStatus :: "string \<Rightarrow> DepositAction \<Rightarrow> string option \<Rightarrow> string \<Rightarrow> string option \<Rightarrow> unit op" where
  "patchDepositStatus i action reason userId role =
     (if action = D_APPROVE then approveDeposit i
      else if action = D_REJECT then bind (adminReject i reason userId role) (\<lambda>_. ret ())
      else if action = D_FREEZE then bind (adminFreeze i reason userId role) (\<lambda>_. ret ())
      else bind (updateDepositStatus i action reason (admin_options userId role)) (\<lambda>_. ret ()))"

section \<open>Reactions to the payin\<close>

definition orchestratePayinDetected :: "string \<Rightarrow> unit op" where
  "orchestratePayinDetected payinId =
     bind (findByPayinId payinId) (\<lambda>found.
     case found of Some _ \<Rightarrow> ret ()
     | None \<Rightarrow>
         bind (findPayin payinId) (\<lambda>p.
         bind (createFromPayin (pi_amount p) (pi_assetId p) (pi_toWalletId p) (or_else (pi_txHash p) None)
             (or_else (pi_fromAddress p) None) (Some (pi_id p)) (or_else (pi_traceId p) None)) (\<lambda>r.
         bind (linkDeposit payinId (d_id r)) (\<lambda>_.
           deposit_note ''DEPOSIT_CREATED'' r ''Deposit created from payin detection''))))"

definition orchestratePayinFailed :: "string \<Rightarrow> unit op" where
  "orchestratePayinFailed payinId =
     bind (findByPayinId payinId) (\<lambda>found.
     case found of None \<Rightarrow> ret ()
     | Some r \<Rightarrow>
         whenM (d_status r \<notin> set [D_FAILED, D_FROZEN, D_REJECTED])
           (bind (updateDepositStatus (d_id r) D_FAIL (Some ''PayIn failed'') no_options) (\<lambda>updated.
              recordStateTransitionAudit updated (deposit_status_str (d_status r))
                (deposit_status_str (d_status updated)) ''PayIn failed'')))"

definition orchestratePayinConfirmed :: "(event \<Rightarrow> unit op) \<Rightarrow> string \<Rightarrow> unit op" where
  "orchestratePayinConfirmed deliver payinId =
     bind (findByPayinId payinId) (\<lambda>found.
     case found of None \<Rightarrow> ret ()
     | Some r \<Rightarrow>
         bind (findPayin payinId) (\<lambda>p.
           if pi_status p = PI_CLEARED then ret ()
           else if d_status r \<noteq> D_PAYIN_PENDING then ret ()
           else
             booked r STEP_1
               (bind (updateDepositStatus (d_id r) D_PAYIN_CONFIRM None no_options) (\<lambda>_.
                andThen (deposit_note ''DEPOSIT_COMPLIANCE_STARTED'' r ''Payin confirmed, deposit entering compliance review'')
                  (bind (updatePayinStatus deliver payinId PI_CLEAR) (\<lambda>_. ret ()))))))"

definition handlePayinCreated :: "string \<Rightarrow> PayinStatus \<Rightarrow> unit op" where
  "handlePayinCreated payinId status = whenM (status = PI_DETECTED) (orchestratePayinDetected payinId)"

definition handlePayinStatusChanged :: "(event \<Rightarrow> unit op) \<Rightarrow> string \<Rightarrow> PayinStatus \<Rightarrow> unit op" where
  "handlePayinStatusChanged deliver payinId newStatus =
     (case newStatus of
        PI_DETECTED \<Rightarrow> orchestratePayinDetected payinId
      | PI_FAILED \<Rightarrow> orchestratePayinFailed payinId
      | PI_CONFIRMED \<Rightarrow> orchestratePayinConfirmed deliver payinId
      | _ \<Rightarrow> ret ())"

text \<open>Delivery of the payin events: \<open>emitAsync\<close> awaits the subscribers above.  What the event library does
  with an error of a subscriber is the argument \<^emph>\<open>report\<close> (by default it logs and drops it, otherwise it
  rethrows).  The number bounds how deep deliveries nest.\<close>

definition subscribed :: "(event \<Rightarrow> unit op) \<Rightarrow> event \<Rightarrow> unit op" where
  "subscribed deliver e =
     (case e of
        PayinCreated i \<Rightarrow> handlePayinCreated i PI_DETECTED
      | PayinStatusChanged i _ q \<Rightarrow> handlePayinStatusChanged deliver i q
      | _ \<Rightarrow> ret ())"

fun deliverEvent :: "(error \<Rightarrow> unit op) \<Rightarrow> nat \<Rightarrow> event \<Rightarrow> unit op" where
  "deliverEvent report 0 e = emit e"
| "deliverEvent report (Suc n) e = andThen (emit e) (handle (subscribed (deliverEvent report n) e) report)"

end
