(* ===== verification/InboundSignals.thy ===== *)
theory InboundSignals
  imports DepositWorkflow
begin

text \<open>
  Inbound transfer signals
  (src/src/modules/trading/deposit-transactions/inbound-transfer-signals.service.ts): a customer announces a
  transfer, and a scan turns the pending announcements into payins and, in the quick mode, drives them to
  their settlement.  The onboarding gate and the delivery of events are arguments.
\<close>

section \<open>Checks\<close>

record CreateSignalDto =
  cs_walletId :: string
  cs_amount :: rat
  cs_txHash :: "string option"
  cs_fromAddress :: "string option"
  cs_referenceNo :: "string option"
  cs_fromIban :: "string option"
  cs_riskLevel :: "string option"
  cs_riskReason :: "string option"

definition getCustomerDepositWallet :: "string \<Rightarrow> string \<Rightarrow> wallet op" where
  "getCustomerDepositWallet customerId walletId =
     bind (getsDb (\<lambda>d. by_id w_id walletId (wallets d))) (\<lambda>row.
     bind (need row (NotFoundException ''Wallet not found'')) (\<lambda>x.
     andThen (guard (w_ownerType x = ''CUSTOMER'' \<and> w_ownerId x = Some customerId \<and> w_role x \<in> set [''C_DEP'', ''C_VIBAN''])
         (ForbiddenException ''Customer can only use own deposit wallet''))
    (andThen (guard (w_status x = ''ACTIVE'') (BadRequestException ''Deposit wallet must be ACTIVE''))
       (ret x))))"

definition channel_of :: "wallet \<Rightarrow> db \<Rightarrow> string option" where
  "channel_of x d =
     (let type = to_upper (case find_asset (w_assetId x) d of None \<Rightarrow> [] | Some a \<Rightarrow> a_type a) in
      if type = ''CRYPTO'' \<or> type = ''FIAT'' then Some type else None)"

definition normalizeToken :: "string option \<Rightarrow> string" where
  "normalizeToken v = to_lower (js_trim (default_of [] v))"

definition buildDedupeKey :: "string \<Rightarrow> string \<Rightarrow> string \<Rightarrow> string option \<Rightarrow> string option \<Rightarrow> string op" where
  "buildDedupeKey channel walletId assetId txHash referenceNo =
     (let part = (if channel = ''CRYPTO'' then normalizeToken txHash else normalizeToken referenceNo) in
      andThen (guard (part \<noteq> []) (BadRequestException ''Inbound signal dedupe identifier is required''))
        (ret (channel @ '':'' @ normalizeToken (Some walletId) @ '':'' @ normalizeToken (Some assetId) @ '':'' @ part)))"

definition medium_reasons :: "string \<Rightarrow> string list" where
  "medium_reasons channel =
     (if channel = ''FIAT'' then [''LARGE_DEPOSIT_PROFILE_MISMATCH'']
      else [''KYT_ISSUE'', ''TRAVEL_RULE_ISSUE'', ''LARGE_DEPOSIT_PROFILE_MISMATCH''])"

definition assertSimulationRiskProfile :: "CreateSignalDto \<Rightarrow> string \<Rightarrow> unit op" where
  "assertSimulationRiskProfile dto channel =
     (let level = to_upper (js_trim (default_of [] (cs_riskLevel dto)));
          reason = to_upper (js_trim (default_of [] (cs_riskReason dto))) in
      if level = [] then ret ()
      else if level = ''LOW'' then guard (reason = []) (BadRequestException ''LOW simulation risk does not accept a reason.'')
      else if level = ''MEDIUM'' then guard (reason \<in> set (medium_reasons channel)) (BadRequestException ''MEDIUM simulation risk'')
      else if level = ''HIGH'' then guard (reason = ''SANCTIONS_HIT'') (BadRequestException ''HIGH simulation risk requires SANCTIONS_HIT.'')
      else throw (BadRequestException ''Unsupported simulation risk level''))"

section \<open>Rows\<close>

definition find_signal :: "string \<Rightarrow> db \<Rightarrow> signal option" where
  "find_signal key d = find (\<lambda>x. si_dedupeKey x = key) (signals d)"

definition insert_signal :: "signal \<Rightarrow> signal op" where
  "insert_signal r =
     bind (getsDb signals) (\<lambda>rs.
       if \<exists>x\<in>set rs. si_id x = si_id r then throw (UniqueConstraint ''id'')
       else if \<exists>x\<in>set rs. si_no x = si_no r then throw (UniqueConstraint ''signalNo'')
       else if \<exists>x\<in>set rs. si_dedupeKey x = si_dedupeKey r then throw (UniqueConstraint ''dedupeKey'')
       else andThen (onDb (\<lambda>d. d\<lparr>signals := signals d @ [r]\<rparr>)) (ret r))"

definition update_signal :: "string \<Rightarrow> (signal \<Rightarrow> signal) \<Rightarrow> unit op" where
  "update_signal i f =
     bind (getsDb (\<lambda>d. by_id si_id i (signals d))) (\<lambda>row.
     andThen (require_row row)
       (onDb (\<lambda>d. d\<lparr>signals := update_rows (\<lambda>x. si_id x = i) f (signals d)\<rparr>)))"

definition signal_note :: "string \<Rightarrow> signal \<Rightarrow> string \<Rightarrow> unit op" where
  "signal_note action s reason =
     recordSystem ((audit0 action ''INBOUND_TRANSFER_SIGNAL'')
       \<lparr>au_entityId := Some (si_id s), au_entityNo := Some (si_no s), au_ownerType := Some ''CUSTOMER'',
        au_ownerId := Some (si_ownerId s), au_workflowType := Some ''DEPOSIT'', au_reason := Some reason,
        au_platform := Some ''CUSTOMER_API''\<rparr>) False"

definition scanned :: "SignalStatus \<Rightarrow> string \<Rightarrow> int \<Rightarrow> signal \<Rightarrow> signal" where
  "scanned q what t s = s\<lparr>si_status := q, si_lastScannedAt := Some t, si_scanResult := Some what\<rparr>"

section \<open>Announcement\<close>

definition new_signal :: "CreateSignalDto \<Rightarrow> string \<Rightarrow> wallet \<Rightarrow> string \<Rightarrow> string \<Rightarrow> string \<Rightarrow> string \<Rightarrow> int \<Rightarrow> signal" where
  "new_signal dto customerId x channel key rowId no t =
     \<lparr>si_id = rowId, si_no = no, si_ownerId = customerId, si_walletId = w_id x, si_assetId = w_assetId x,
      si_channelType = channel, si_amount = cs_amount dto, si_txHash = cs_txHash dto,
      si_referenceNo = cs_referenceNo dto, si_fromAddress = cs_fromAddress dto, si_fromIban = cs_fromIban dto,
      si_riskLevel = or_else (cs_riskLevel dto) None, si_riskReason = or_else (cs_riskReason dto) None,
      si_status = SI_PENDING_SCAN, si_dedupeKey = key, si_linkedPayinId = None, si_submittedAt = t,
      si_lastScannedAt = None, si_scanResult = None\<rparr>"

text \<open>A second announcement of the same transfer returns the first; so does one that loses the race for the
  unique key.\<close>

definition createSignal ::
    "(string \<Rightarrow> string \<Rightarrow> unit op) \<Rightarrow> string \<Rightarrow> CreateSignalDto \<Rightarrow> signal option op" where
  "createSignal assertTradingEligibility customerId dto =
     andThen (assertTradingEligibility customerId ''DEPOSIT'')
    (bind (getsDb (\<lambda>d. by_id c_id customerId (customers d))) (\<lambda>c.
     andThen (ensureCustomerCanTransact c None)
    (bind (getCustomerDepositWallet customerId (cs_walletId dto)) (\<lambda>x.
     bind (getsDb (channel_of x)) (\<lambda>ch.
     bind (need ch (BadRequestException ''Unsupported wallet asset type'')) (\<lambda>channel.
     andThen (if channel = ''CRYPTO''
        then guard (truthy (cs_txHash dto) \<and> truthy (cs_fromAddress dto))
               (BadRequestException ''Crypto inbound signal requires txHash and fromAddress'')
        else guard (truthy (cs_referenceNo dto) \<and> truthy (cs_fromIban dto))
               (BadRequestException ''Fiat inbound signal requires referenceNo and fromIban''))
    (andThen (guard (0 < cs_amount dto) (BadRequestException ''Inbound signal amount must be greater than 0''))
    (andThen (assertSimulationRiskProfile dto channel)
    (bind (buildDedupeKey channel (w_id x) (w_assetId x) (cs_txHash dto) (cs_referenceNo dto)) (\<lambda>key.
     bind (getsDb (find_signal key)) (\<lambda>existing.
     case existing of Some s \<Rightarrow> ret (Some s)
     | None \<Rightarrow>
         handle
           (bind (generateReferenceNo ''SIG'') (\<lambda>no.
            bind randomUUID (\<lambda>rowId.
            bind now (\<lambda>t.
            bind (insert_signal (new_signal dto customerId x channel key rowId no t)) (\<lambda>s.
            andThen (signal_note ''INBOUND_SIGNAL_SUBMITTED'' s ''Customer submitted inbound transfer signal'')
              (getsDb (\<lambda>d. by_id si_id (si_id s) (signals d))))))))
           (\<lambda>e. case e of UniqueConstraint _ \<Rightarrow> getsDb (find_signal key) | _ \<Rightarrow> throw e))))))))))))"

section \<open>Scan\<close>

definition same_crypto :: "signal \<Rightarrow> payin \<Rightarrow> bool" where
  "same_crypto s p \<longleftrightarrow> pi_assetId p = si_assetId s \<and> pi_toWalletId p = Some (si_walletId s) \<and> pi_txHash p = si_txHash s"

definition same_fiat :: "signal \<Rightarrow> payin \<Rightarrow> bool" where
  "same_fiat s p \<longleftrightarrow> pi_assetId p = si_assetId s \<and> pi_toWalletId p = Some (si_walletId s) \<and> pi_referenceNo p = si_referenceNo s"

text \<open>The newest row is the last of the list.\<close>

definition resolveExistingPayin :: "signal \<Rightarrow> db \<Rightarrow> payin option" where
  "resolveExistingPayin s d =
     nullish (if truthy (si_linkedPayinId s) then find_payin (the (si_linkedPayinId s)) d else None)
    (nullish (find (\<lambda>p. pi_providerTxnId p = Some (si_id s)) (rev (payins d)))
       (if si_channelType s = ''CRYPTO'' \<and> truthy (si_txHash s) then find (same_crypto s) (rev (payins d))
        else if si_channelType s = ''FIAT'' \<and> truthy (si_referenceNo s) then find (same_fiat s) (rev (payins d))
        else None))"

definition detected_input :: "signal \<Rightarrow> CreateDetectedPayinInput" where
  "detected_input s =
     \<lparr>ci_assetId = si_assetId s, ci_toWalletId = si_walletId s,
      ci_type = (if si_channelType s = ''CRYPTO'' then ''CRYPTO'' else ''FIAT''), ci_amount = si_amount s,
      ci_txHash = or_else (si_txHash s) None, ci_fromAddress = or_else (si_fromAddress s) None,
      ci_fromIban = or_else (si_fromIban s) None, ci_referenceNo = or_else (si_referenceNo s) None,
      ci_providerTxnId = Some (si_id s), ci_receivedAt = Some (si_submittedAt s),
      ci_reason = Some ''Inbound transfer signal matched into payin''\<rparr>"

text \<open>\<open>advancePayin\<close>: one rail step after the other, each on the row as it then is.\<close>

definition rail_step :: "(event \<Rightarrow> unit op) \<Rightarrow> payin \<Rightarrow> PayinAction \<Rightarrow> payin op" where
  "rail_step deliver p action =
     bind (updatePayinStatus deliver (pi_id p) action) (\<lambda>_.
     bind (getsDb (find_payin (pi_id p))) (\<lambda>row. need row (NotFoundException ''Payin not found after update'')))"

definition advancePayin :: "(event \<Rightarrow> unit op) \<Rightarrow> string \<Rightarrow> string \<Rightarrow> payin op" where
  "advancePayin deliver payinId channel =
     bind (getsDb (find_payin payinId)) (\<lambda>row.
     bind (need row (NotFoundException ''Payin not found'')) (\<lambda>p0.
     bind (if pi_status p0 = PI_DETECTED
           then rail_step deliver p0 (if channel = ''CRYPTO'' then PI_BLOCK else PI_CONFIRM) else ret p0) (\<lambda>p1.
     bind (if pi_status p1 = PI_CONFIRMING then rail_step deliver p1 PI_CONFIRM else ret p1) (\<lambda>p2.
       if pi_status p2 = PI_CONFIRMED then
         bind (findByPayinId payinId) (\<lambda>dep.
           if (case dep of None \<Rightarrow> False | Some r \<Rightarrow> d_status r = D_COMPLIANCE_PENDING)
           then rail_step deliver p2 PI_CLEAR else ret p2)
       else ret p2))))"

record ScanRecord =
  sr_signalId :: string
  sr_signalNo :: string
  sr_payinId :: string
  sr_payinNo :: string
  sr_payinStatus :: PayinStatus
  sr_depositId :: "string option"
  sr_depositNo :: "string option"
  sr_depositStatus :: "DepositStatus option"

definition processSignal :: "(event \<Rightarrow> unit op) \<Rightarrow> signal \<Rightarrow> bool \<Rightarrow> (bool \<times> ScanRecord) op" where
  "processSignal deliver s interactive =
     bind (getsDb (resolveExistingPayin s)) (\<lambda>found.
     bind (case found of Some p \<Rightarrow> ret p | None \<Rightarrow> createDetected deliver (detected_input s)) (\<lambda>p.
     bind (if interactive then ret p else advancePayin deliver (pi_id p) (si_channelType s)) (\<lambda>settled.
     bind (findByPayinId (pi_id settled)) (\<lambda>dep.
     bind now (\<lambda>t.
     andThen (update_signal (si_id s) (\<lambda>x. (scanned SI_PAYIN_CREATED
         (''Matched to payin '' @ pi_no settled @ (case dep of None \<Rightarrow> [] | Some r \<Rightarrow> '' and deposit '' @ d_no r)) t x)
           \<lparr>si_linkedPayinId := Some (pi_id settled)\<rparr>))
    (andThen (signal_note ''INBOUND_SIGNAL_MATCHED'' s
        (if found = None then ''Inbound transfer signal created new payin''
         else ''Inbound transfer signal reused existing payin''))
    (andThen (guard (pi_status settled \<noteq> PI_FAILED) (BadRequestException ''Payin is FAILED''))
       (ret (found = None,
         \<lparr>sr_signalId = si_id s, sr_signalNo = si_no s, sr_payinId = pi_id settled, sr_payinNo = pi_no settled,
          sr_payinStatus = pi_status settled, sr_depositId = map_option d_id dep, sr_depositNo = map_option d_no dep,
          sr_depositStatus = map_option d_status dep\<rparr>)))))))))"

record ScanSummary =
  sm_scanned :: nat
  sm_created :: nat
  sm_reused :: nat
  sm_blocked :: nat
  sm_failed :: nat
  sm_depositIds :: "string list"
  sm_records :: "ScanRecord list"

definition no_summary :: ScanSummary where
  "no_summary = \<lparr>sm_scanned = 0, sm_created = 0, sm_reused = 0, sm_blocked = 0, sm_failed = 0,
     sm_depositIds = [], sm_records = []\<rparr>"

definition add_processed :: "ScanSummary \<Rightarrow> bool \<Rightarrow> ScanRecord \<Rightarrow> ScanSummary" where
  "add_processed m created r =
     m\<lparr>sm_created := (if created then Suc (sm_created m) else sm_created m),
       sm_reused := (if created then sm_reused m else Suc (sm_reused m)),
       sm_depositIds := (case sr_depositId r of None \<Rightarrow> sm_depositIds m
         | Some i \<Rightarrow> if i = [] \<or> i \<in> set (sm_depositIds m) then sm_depositIds m else sm_depositIds m @ [i]),
       sm_records := sm_records m @ [r]\<rparr>"

definition markSignalIgnored :: "signal \<Rightarrow> string \<Rightarrow> unit op" where
  "markSignalIgnored s reason =
     bind now (\<lambda>t.
     andThen (update_signal (si_id s) (scanned SI_IGNORED reason t))
       (signal_note ''INBOUND_SIGNAL_BLOCKED'' s reason))"

definition mark_failed :: "signal \<Rightarrow> string \<Rightarrow> unit op" where
  "mark_failed s reason =
     bind now (\<lambda>t.
     andThen (update_signal (si_id s) (scanned SI_FAILED reason t))
       (signal_note ''INBOUND_SIGNAL_FAILED'' s reason))"

text \<open>One round of the loop; \<^emph>\<open>blocked\<close> is the error of the onboarding gate, asked once before the loop.\<close>

definition scan_one ::
    "(event \<Rightarrow> unit op) \<Rightarrow> bool \<Rightarrow> error option \<Rightarrow> ScanSummary \<Rightarrow> signal \<Rightarrow> ScanSummary op" where
  "scan_one deliver interactive blocked m0 s =
     (let m = m0\<lparr>sm_scanned := Suc (sm_scanned m0)\<rparr> in
      andThen (signal_note ''INBOUND_SIGNAL_SCANNED'' s ''Customer triggered inbound transfer scan'')
        (case blocked of
           Some e \<Rightarrow> andThen (markSignalIgnored s (error_message e)) (ret (m\<lparr>sm_blocked := Suc (sm_blocked m)\<rparr>))
         | None \<Rightarrow>
             handle (bind (processSignal deliver s interactive) (\<lambda>(created, r). ret (add_processed m created r)))
               (\<lambda>e. andThen (mark_failed s (error_message e)) (ret (m\<lparr>sm_failed := Suc (sm_failed m)\<rparr>)))))"

definition pending_signals :: "string \<Rightarrow> string \<Rightarrow> db \<Rightarrow> signal list" where
  "pending_signals customerId walletId d =
     sort_key si_submittedAt (filter (\<lambda>s. si_ownerId s = customerId \<and> si_walletId s = walletId
       \<and> si_status s = SI_PENDING_SCAN) (signals d))"

definition scanForCustomer ::
    "(event \<Rightarrow> unit op) \<Rightarrow> (string \<Rightarrow> string \<Rightarrow> unit op) \<Rightarrow> string \<Rightarrow> string \<Rightarrow> bool \<Rightarrow> ScanSummary op" where
  "scanForCustomer deliver assertTradingEligibility customerId walletId interactive =
     bind (getCustomerDepositWallet customerId walletId) (\<lambda>_.
     bind (getsDb (pending_signals customerId walletId)) (\<lambda>ss.
     bind (handle (andThen (assertTradingEligibility customerId ''DEPOSIT'') (ret None)) (\<lambda>e. ret (Some e))) (\<lambda>blocked.
       foldC (scan_one deliver interactive blocked) no_summary ss)))"

end
