(* ===== verification/DepositFacts.thy ===== *)
theory DepositFacts
  imports InboundSignals WithdrawFacts
begin

text \<open>
  What the deposit side keeps: which tables an operation leaves alone, the life of a payin and of a deposit
  row, and the books of a deposit: a status that claims funds has its booking in the ledger.
\<close>

section \<open>Frames\<close>

text \<open>The environment of a booking, and the three inbound tables.\<close>

definition env :: "world \<Rightarrow> asset list \<times> tb_account list \<times> (string \<Rightarrow> int)" where
  "env w = (assets (db w), registry (db w), sha_id w)"

definition inflow :: "db \<Rightarrow> deposit list \<times> payin list \<times> signal list" where
  "inflow d = (deposits d, payins d, signals d)"

definition onward :: "world \<Rightarrow> world \<Rightarrow> bool" where
  "onward s t \<longleftrightarrow> env t = env s \<and> (\<exists>lg. tb_log t = tb_log s @ lg)"

definition aside :: "world \<Rightarrow> world \<Rightarrow> bool" where
  "aside s t \<longleftrightarrow> onward s t \<and> inflow (db t) = inflow (db s)"

lemma onward_refl: "onward s s"
  by (simp add: onward_def)

lemma onward_trans: "onward s t \<Longrightarrow> onward t u \<Longrightarrow> onward s u"
  by (auto simp: onward_def)

interpretation aside: guarantee aside
  by unfold_locales (auto simp: aside_def intro: onward_refl onward_trans)

lemma aside_basic:
  "steps aside (getsDb f)" "steps aside now" "steps aside randomUUID" "steps aside (generateReferenceNo p)"
  "steps aside (recordByActor a c)" "steps aside (recordSystem a c)" "steps aside (emit e)"
  "steps aside (adjust x m)" "steps aside (submit t)" "steps aside (insert_evidence ev)"
  "steps aside (writeToBacklog b)" "steps aside (upsert_flow fl)" "steps aside (deterministicTransferId st no event n)"
  by (auto simp: steps_wp aside_def onward_def inflow_def env_def wp_adjust wp_submit Let_def insert_evidence_def
      writeToBacklog_def split: option.split)

lemmas aside_rules = aside.combinators steps_split aside_basic

lemma aside_ledger: "steps aside (executeTransfer d c a l k ep)"
  unfolding executeTransfer_def record_transfer_def writeEvidence_def persist_def assertWalletRefMatchesTbAccount_def
    Let_def
  by (intro aside_rules)

lemma aside_deposit:
  "steps aside (deposit_note a r s)" "steps aside (findDeposit i)" "steps aside (findPayin i)"
  "steps aside (findByPayinId i)" "steps aside (deposit_asset r)" "steps aside (getDepositOwnerCompliance i)"
  "steps aside (resolveTbAccountId code l ty ow)" "steps aside (recordStateTransitionAudit r f t s)"
  "steps aside (assert_payin_R3 p ty q)" "steps aside (signal_note a sg s)"
  "steps aside (getCustomerDepositWallet cu wl)" "steps aside (ensureCustomerCanTransact cc ca)"
  "steps aside (assertSimulationRiskProfile dto ch)" "steps aside (buildDedupeKey ch wl as tx re)"
  unfolding deposit_note_def findDeposit_def findPayin_def findByPayinId_def deposit_asset_def getDepositOwnerCompliance_def
    resolveTbAccountId_def recordStateTransitionAudit_def deposit_note_def assert_payin_R3_def signal_note_def
    getCustomerDepositWallet_def ensureCustomerCanTransact_def assertSimulationRiskProfile_def buildDedupeKey_def Let_def
  by (intro aside_rules)+

lemma aside_accounts: "steps aside (deposit_accounts r l step)"
  unfolding deposit_accounts_def by (intro aside_rules aside_deposit)

lemma aside_accounting: "steps aside (executeDepositAccounting r step)"
  unfolding executeDepositAccounting_def by (intro aside_rules aside_deposit aside_accounts aside_ledger)

section \<open>The life of a deposit\<close>

definition deposit_identity ::
    "deposit \<Rightarrow> string \<times> string \<times> string \<times> string \<times> string \<times> string \<times> string option \<times> rat \<times> rat \<times> rat \<times> string option" where
  "deposit_identity r = (d_id r, d_no r, d_ownerType r, d_ownerId r, d_assetId r, d_toWalletId r, d_payinId r,
     d_amount r, d_netAmount r, d_feeAmount r, d_txHash r)"

definition deposit_done :: "DepositStatus \<Rightarrow> bool" where
  "deposit_done s \<longleftrightarrow> deposit_terminal s \<or> s = D_FROZEN"

text \<open>A well-formed row: no fee, a completion date exactly when the deposit is finished or frozen, and the
  last history entry of its status.\<close>

definition deposit_ok :: "deposit \<Rightarrow> bool" where
  "deposit_ok r \<longleftrightarrow>
     d_netAmount r = d_amount r \<and> d_feeAmount r = 0
     \<and> (d_completedAt r \<noteq> None \<longleftrightarrow> deposit_done (d_status r))
     \<and> (\<exists>es. d_history r = HArray es \<and> es \<noteq> [] \<and> h_status (last es) = deposit_status_str (d_status r))"

definition deposit_moved :: "deposit \<Rightarrow> deposit \<Rightarrow> bool" where
  "deposit_moved r s \<longleftrightarrow> deposit_identity s = deposit_identity r
     \<and> reaches deposit_transitions (d_status r) (d_status s)
     \<and> (\<exists>es. history_entries (d_history s) = history_entries (d_history r) @ es)"

lemma deposit_moved_refl: "deposit_moved r r"
  by (simp add: deposit_moved_def reaches.refl)

lemma deposit_moved_trans: "deposit_moved r s \<Longrightarrow> deposit_moved s t \<Longrightarrow> deposit_moved r t"
  unfolding deposit_moved_def using reaches_trans by auto

abbreviation deposit_life :: "world \<Rightarrow> world \<Rightarrow> bool" where
  "deposit_life \<equiv> table_step deposits d_id deposit_ok deposit_moved"

interpretation dlife: table_life deposits d_id deposit_ok deposit_moved
  by unfold_locales (fact deposit_moved_refl, fact deposit_moved_trans)

lemma deposit_done_stays: "deposit_transitions s a = Some q \<Longrightarrow> deposit_done s \<Longrightarrow> deposit_done q"
  by (cases s) (auto simp: deposit_transitions_def deposit_done_def deposit_terminal_def split: if_splits)

lemma moved_deposit_ok:
  assumes "deposit_transitions (d_status r) a = Some q" "deposit_ok r"
  shows "deposit_ok (moved_deposit r q act reason opts t r)" "deposit_moved r (moved_deposit r q act reason opts t r)"
proof -
  have "deposit_done (d_status r) \<longrightarrow> deposit_done q"
    using deposit_done_stays assms(1) by blast
  then show "deposit_ok (moved_deposit r q act reason opts t r)"
    using assms(2) by (auto simp: deposit_ok_def moved_deposit_def deposit_done_def)
  show "deposit_moved r (moved_deposit r q act reason opts t r)"
    using reaches.step[where \<delta> = deposit_transitions, OF reaches.refl assms(1)]
    by (simp add: deposit_moved_def deposit_identity_def moved_deposit_def)
qed

text \<open>Updates of the other columns.\<close>

definition keeps_deposit :: "(deposit \<Rightarrow> deposit) \<Rightarrow> bool" where
  "keeps_deposit f \<longleftrightarrow> (\<forall>r. deposit_identity (f r) = deposit_identity r \<and> d_status (f r) = d_status r
     \<and> d_completedAt (f r) = d_completedAt r \<and> d_history (f r) = d_history r)"

lemma wp_update_deposit:
  "wp (update_deposit i f) Q E w = (case find_deposit i (db w) of None \<Rightarrow> E RecordNotFound w
     | Some r \<Rightarrow> Q (f r) (w\<lparr>db := (db w)\<lparr>deposits := update_rows (\<lambda>x. d_id x = i) f (deposits (db w))\<rparr>\<rparr>))"
  by (simp add: update_deposit_def split: option.split)

lemma update_deposit_life: "keeps_deposit f \<Longrightarrow> steps deposit_life (update_deposit i f)"
  unfolding steps_wp wp_update_deposit keeps_deposit_def
  by (auto simp: find_deposit_def dlife.step_refl deposit_ok_def deposit_moved_def deposit_identity_def reaches.refl
      split: option.split dest: by_id_SomeD intro!: dlife.step_update)

lemma wp_updateDepositStatus:
  "wp (updateDepositStatus i act reason opts) Q E w =
     (case find_deposit i (db w) of None \<Rightarrow> E (NotFoundException ''Deposit transaction not found'') w
      | Some r \<Rightarrow> (case deposit_transitions (d_status r) act of None \<Rightarrow> E (BadRequestException ''Invalid action'') w
        | Some q \<Rightarrow>
            if op_platform opts = Some ''ADMIN_API'' \<and> q = D_SUCCESS then E (BadRequestException ''DEPOSIT_APPROVE_WORKFLOW_ONLY'') w
            else let f = moved_deposit r q act reason opts (clock w) in
              Q (f r) (w\<lparr>db := (db w)\<lparr>deposits := update_rows (\<lambda>x. d_id x = i) f (deposits (db w))\<rparr>,
                emitted := emitted w @ [DepositStatusChanged (d_id r) (d_status r) q]\<rparr>)))"
  by (auto simp: updateDepositStatus_def findDeposit_def wp_update_deposit Let_def moved_deposit_def split: option.split)

lemma updateDepositStatus_life: "steps deposit_life (updateDepositStatus i act reason opts)"
proof -
  have "deposit_life w u" if r: "find_deposit i (db w) = Some r" "deposit_transitions (d_status r) act = Some q"
    "deposits (db u) = update_rows (\<lambda>x. d_id x = i) (moved_deposit r q act reason opts (clock w)) (deposits (db w))" for w u r q
    using moved_deposit_ok[OF r(2)] by_id_SomeD[of d_id i _ r] r(1)
    by (intro dlife.step_update[OF r(3)]) (auto simp: find_deposit_def moved_deposit_def)
  then show ?thesis
    by (auto simp: steps_wp wp_updateDepositStatus Let_def dlife.step_refl split: option.split)
qed

lemma wp_insert_deposit:
  "((\<forall>x\<in>set (deposits (db w)). d_id x \<noteq> d_id r) \<Longrightarrow>
     Q r (w\<lparr>db := (db w)\<lparr>deposits := deposits (db w) @ [r]\<rparr>\<rparr>)) \<Longrightarrow> (\<And>e. E e w) \<Longrightarrow> wp (insert_deposit r) Q E w"
  by (auto simp: insert_deposit_def)

lemma insert_deposit_life: "deposit_ok r \<Longrightarrow> steps deposit_life (insert_deposit r)"
  unfolding steps_wp by (intro allI wp_insert_deposit) (auto intro: dlife.step_insert dlife.step_refl)

lemma new_deposit_ok: "deposit_ok (new_deposit n as x h fa p tr i no t)"
  by (simp add: deposit_ok_def new_deposit_def deposit_done_def deposit_terminal_def)

section \<open>The life of a payin\<close>

definition payin_identity ::
    "payin \<Rightarrow> string \<times> string \<times> string \<times> string option \<times> string \<times> rat \<times> string option \<times> string option \<times> string option" where
  "payin_identity p = (pi_id p, pi_no p, pi_type p, pi_toWalletId p, pi_assetId p, pi_amount p, pi_ownerId p,
     pi_txHash p, pi_referenceNo p)"

definition payin_machine :: "string \<Rightarrow> PayinStatus \<Rightarrow> PayinAction \<Rightarrow> PayinStatus option" where
  "payin_machine type q a =
     (case normalizeStoredPayinType type of None \<Rightarrow> None | Some ty \<Rightarrow> payin_transitions ty q a)"

text \<open>A well-formed row; a cleared one has its references (R3).\<close>

definition payin_ok :: "payin \<Rightarrow> bool" where
  "payin_ok p \<longleftrightarrow>
     (pi_status p = PI_CLEARED \<longrightarrow> normalizeOptionalString (pi_referenceNo p) \<noteq> None
        \<and> (normalizeStoredPayinType (pi_type p) = Some ''CRYPTO'' \<longrightarrow> normalizeOptionalString (pi_txHash p) \<noteq> None))
     \<and> (\<exists>es. pi_history p = HArray es \<and> es \<noteq> [] \<and> h_status (last es) = payin_status_str (pi_status p))"

definition payin_moved :: "payin \<Rightarrow> payin \<Rightarrow> bool" where
  "payin_moved p r \<longleftrightarrow> payin_identity r = payin_identity p
     \<and> reaches (payin_machine (pi_type p)) (pi_status p) (pi_status r)
     \<and> (\<exists>es. history_entries (pi_history r) = history_entries (pi_history p) @ es)"

lemma payin_moved_refl: "payin_moved p p"
  by (simp add: payin_moved_def reaches.refl)

lemma payin_moved_trans: "payin_moved p q \<Longrightarrow> payin_moved q r \<Longrightarrow> payin_moved p r"
  unfolding payin_moved_def payin_identity_def using reaches_trans by auto

abbreviation payin_life :: "world \<Rightarrow> world \<Rightarrow> bool" where
  "payin_life \<equiv> table_step payins pi_id payin_ok payin_moved"

interpretation pilife: table_life payins pi_id payin_ok payin_moved
  by unfold_locales (fact payin_moved_refl, fact payin_moved_trans)

lemma wp_update_payin:
  "wp (update_payin i f) Q E w = (case find_payin i (db w) of None \<Rightarrow> E RecordNotFound w
     | Some r \<Rightarrow> Q (f r) (w\<lparr>db := (db w)\<lparr>payins := update_rows (\<lambda>x. pi_id x = i) f (payins (db w))\<rparr>\<rparr>))"
  by (simp add: update_payin_def split: option.split)

lemma linkDeposit_life: "steps payin_life (linkDeposit i di)"
  unfolding steps_wp linkDeposit_def wp_update_payin
  by (auto simp: find_payin_def pilife.step_refl payin_ok_def payin_moved_def payin_identity_def reaches.refl
      split: option.split dest: by_id_SomeD intro!: pilife.step_update)

lemma moved_payin_ok:
  assumes "normalizeStoredPayinType (pi_type p) = Some ty" "payin_transitions ty (pi_status p) a = Some q" "payin_ok p"
    and "q = PI_CLEARED \<longrightarrow> normalizeOptionalString (pi_referenceNo p) \<noteq> None
      \<and> (ty = ''CRYPTO'' \<longrightarrow> normalizeOptionalString (pi_txHash p) \<noteq> None)"
  shows "payin_ok (moved_payin p q act t p)" "payin_moved p (moved_payin p q act t p)"
proof -
  show "payin_ok (moved_payin p q act t p)"
    using assms by (auto simp: payin_ok_def moved_payin_def)
  have "payin_machine (pi_type p) (pi_status p) a = Some q"
    using assms(1,2) by (simp add: payin_machine_def)
  from reaches.step[where \<delta> = "payin_machine (pi_type p)", OF reaches.refl this]
  show "payin_moved p (moved_payin p q act t p)"
    by (simp add: payin_moved_def payin_identity_def moved_payin_def)
qed

text \<open>A move of a payin that passed the guards of the status update.\<close>

definition payin_allowed :: "payin \<Rightarrow> PayinStatus \<Rightarrow> PayinAction \<Rightarrow> bool" where
  "payin_allowed p q act \<longleftrightarrow> (\<exists>ty. normalizeStoredPayinType (pi_type p) = Some ty
     \<and> payin_transitions ty (pi_status p) act = Some q
     \<and> (q = PI_CLEARED \<longrightarrow> normalizeOptionalString (pi_referenceNo p) \<noteq> None
        \<and> (ty = ''CRYPTO'' \<longrightarrow> normalizeOptionalString (pi_txHash p) \<noteq> None)))"

definition payin_put :: "string \<Rightarrow> (payin \<Rightarrow> payin) \<Rightarrow> world \<Rightarrow> world" where
  "payin_put i f w = w\<lparr>db := (db w)\<lparr>payins := update_rows (\<lambda>x. pi_id x = i) f (payins (db w))\<rparr>\<rparr>"

lemma payin_put_life:
  assumes "find_payin i (db w) = Some p" "payin_allowed p q act"
  shows "payin_life w (payin_put i (moved_payin p q act t) w)"
  using assms moved_payin_ok[of p _ act q act t] by_id_SomeD[of pi_id i _ p]
  by (intro pilife.step_update[where f = "moved_payin p q act t" and i = i and r = p])
    (auto simp: payin_put_def payin_allowed_def find_payin_def moved_payin_def)

lemma insert_payin_life: "payin_ok r \<Longrightarrow> steps payin_life (insert_payin r)"
  by (auto simp: steps_wp insert_payin_def pilife.step_refl intro: pilife.step_insert)

lemma payin_row_ok: "payin_ok (payin_row inp x tr i no t)"
  by (simp add: payin_ok_def payin_row_def)

text \<open>What follows the write of the row.\<close>

definition after_move :: "(event \<Rightarrow> unit op) \<Rightarrow> payin \<Rightarrow> PayinStatus \<Rightarrow> PayinAction \<Rightarrow> payin \<Rightarrow> payin op" where
  "after_move dlv p q act updated =
     andThen (whenM (q = PI_CLEARED) (adjust (pi_toWalletId updated) (pi_amount updated)))
    (andThen (recordSystem (payin_audit
        (buildStateTransitionAction ''PAYIN'' (payin_status_str (pi_status p)) (payin_status_str q)) updated
        (if truthy (pi_ownerId updated) then Some ''CUSTOMER'' else None) (or_else (pi_ownerId updated) None)
        (''Action: '' @ payin_action_str act)) False)
    (andThen (dlv (PayinStatusChanged (pi_id updated) (pi_status p) q)) (ret updated)))"

lemma wp_updatePayinStatus:
  "wp (updatePayinStatus dlv i act) Q E w =
     (case find_payin i (db w) of None \<Rightarrow> E (NotFoundException ''Payin not found'') w
      | Some p \<Rightarrow> (case normalizeStoredPayinType (pi_type p) of None \<Rightarrow> E (BadRequestException ''Unsupported payin type'') w
        | Some ty \<Rightarrow> (case payin_transitions ty (pi_status p) act of None \<Rightarrow> E (BadRequestException ''Invalid transition'') w
          | Some q \<Rightarrow>
              if payin_allowed p q act then
                wp (after_move dlv p q act (moved_payin p q act (clock w) p)) Q E (payin_put i (moved_payin p q act (clock w)) w)
              else if normalizeOptionalString (pi_referenceNo p) = None
              then E (PayoutFinalizationIncompleteError ''referenceNo is required'') w
              else E (PayoutFinalizationIncompleteError ''txHash is required'') w)))"
  by (auto simp: updatePayinStatus_def findPayin_def assert_payin_R3_def wp_update_payin payin_put_def after_move_def
      payin_allowed_def split: option.split)

section \<open>Signals\<close>

lemma wp_update_signal:
  "wp (update_signal i f) Q E w = (if by_id si_id i (signals (db w)) = None then E RecordNotFound w
     else Q () (w\<lparr>db := (db w)\<lparr>signals := update_rows (\<lambda>x. si_id x = i) f (signals (db w))\<rparr>\<rparr>))"
  by (simp add: update_signal_def)

text \<open>A scan rewrites the rows in place, and a row that is no longer pending stays so.\<close>

definition signal_moved :: "signal \<Rightarrow> signal \<Rightarrow> bool" where
  "signal_moved a b \<longleftrightarrow> si_id b = si_id a \<and> si_ownerId b = si_ownerId a \<and> si_walletId b = si_walletId a
     \<and> si_dedupeKey b = si_dedupeKey a \<and> (si_status a \<noteq> SI_PENDING_SCAN \<longrightarrow> si_status b \<noteq> SI_PENDING_SCAN)"

definition signals_kept :: "world \<Rightarrow> world \<Rightarrow> bool" where
  "signals_kept s t \<longleftrightarrow> list_all2 signal_moved (signals (db s)) (signals (db t))"

lemma signals_kept_refl: "signals_kept s s"
  by (simp add: signals_kept_def list_all2_refl signal_moved_def)

lemma signals_kept_trans: "signals_kept s t \<Longrightarrow> signals_kept t u \<Longrightarrow> signals_kept s u"
  unfolding signals_kept_def by (rule list_all2_trans[where ?P2.0 = signal_moved]) (auto simp: signal_moved_def)

lemma signals_kept_update:
  "z \<noteq> SI_PENDING_SCAN \<Longrightarrow> steps signals_kept (update_signal i (\<lambda>x. (scanned z what k x)\<lparr>si_linkedPayinId := l x\<rparr>))"
  by (auto simp: steps_wp wp_update_signal signals_kept_refl)
    (auto simp: signals_kept_def update_rows_def list_all2_map2 signal_moved_def scanned_def intro!: list_all2_refl)

section \<open>Guarantees of the deposit services\<close>

lemma steps_unique:
  fixes a b :: "'a op"
  shows "steps R a \<Longrightarrow> steps R b \<Longrightarrow> steps R (case e of UniqueConstraint x \<Rightarrow> a | _ \<Rightarrow> b)"
  by (cases e; simp only: error.case)

text \<open>What the writes of the two inbound tables guarantee, the services guarantee.\<close>

locale inflow_writes = guarantee R for R :: "world \<Rightarrow> world \<Rightarrow> bool" +
  assumes plain: "aside s t \<Longrightarrow> R s t"
    and payin_write: "find_payin i (db w) = Some p \<Longrightarrow> payin_allowed p q act \<Longrightarrow> R w (payin_put i (moved_payin p q act k) w)"
    and payin_link: "steps R (linkDeposit i di)"
    and payin_new: "steps R (insert_payin (payin_row inp x tr j no k))"
    and deposit_columns: "keeps_deposit g \<Longrightarrow> steps R (update_deposit i g)"
    and deposit_new: "steps R (insert_deposit (new_deposit n as y h fa pid tr j no k))"
    and signal_scan: "z \<noteq> SI_PENDING_SCAN \<Longrightarrow> steps R (update_signal i (\<lambda>x. (scanned z what k x)\<lparr>si_linkedPayinId := l x\<rparr>))"
begin

lemma of_aside: "steps aside m \<Longrightarrow> steps R m"
  unfolding steps_def using plain by blast

lemmas basic = aside_basic[THEN of_aside]
lemmas parts = aside_deposit[THEN of_aside]
lemmas rules = combinators steps_split steps_unique basic

lemma payin_status:
  assumes "\<And>e. steps R (dlv e)"
  shows "steps R (updatePayinStatus dlv i act)"
proof -
  have tail: "steps R (after_move dlv p q act u)" for p q u
    unfolding after_move_def by (intro rules assms)
  show ?thesis
    unfolding steps_wp wp_updatePayinStatus
    by (auto simp: R_refl split: option.split intro!: wp_after[OF tail] payin_write)
qed

lemma detected:
  assumes "\<And>e. steps R (dlv e)"
  shows "steps R (createDetected dlv inp)"
  unfolding createDetected_def by (intro rules payin_new assms)

lemma mock_event:
  assumes "\<And>e. steps R (dlv e)"
  shows "steps R (applyMockEvent dlv i ev)"
  unfolding applyMockEvent_def by (intro rules parts payin_status[OF assms])

lemma columns:
  "steps R (updateDepositKyt i q n)" "steps R (updateDepositTravelRule i q)" "steps R (initializeComplianceGates i)"
  unfolding updateDepositKyt_def updateDepositTravelRule_def initializeComplianceGates_def Let_def
  by (intro rules deposit_columns; simp add: keeps_deposit_def deposit_identity_def)+

lemma from_payin: "steps R (createFromPayin n as wl h fa pid tr)"
  unfolding createFromPayin_def by (intro rules deposit_new)

lemma closed_signals: "steps R (markSignalIgnored s x)" "steps R (mark_failed s x)"
proof -
  have "scanned q what k = (\<lambda>x. (scanned q what k x)\<lparr>si_linkedPayinId := si_linkedPayinId x\<rparr>)" for q what k
    by (simp add: scanned_def fun_eq_iff)
  then have "steps R (update_signal i (scanned q what k))" if "q \<noteq> SI_PENDING_SCAN" for i q what k
    using signal_scan[OF that] by metis
  then show "steps R (markSignalIgnored s x)" "steps R (mark_failed s x)"
    unfolding markSignalIgnored_def mark_failed_def by (intro rules parts; simp)+
qed

lemma payin_seen: "steps R (orchestratePayinDetected i)"
  unfolding orchestratePayinDetected_def by (intro rules parts from_payin payin_link)

end

text \<open>\<^emph>\<open>allowed\<close> is the set of status actions that need no booking; approval and confirmation carry theirs
  with them.\<close>

locale inflow_guarantee = inflow_writes R for R :: "world \<Rightarrow> world \<Rightarrow> bool" +
  fixes allowed :: "DepositAction \<Rightarrow> bool"
  assumes deposit_status: "allowed act \<Longrightarrow> steps R (updateDepositStatus i act reason opts)"
    and approve: "steps R (approveDeposit i)"
    and confirm: "(\<And>j. steps R (updatePayinStatus dlv j PI_CLEAR)) \<Longrightarrow> steps R (orchestratePayinConfirmed dlv i)"
    and always_allowed: "allowed D_REJECT" "allowed D_FREEZE" "allowed D_FAIL"
begin

lemmas always = deposit_status[OF always_allowed(1)] deposit_status[OF always_allowed(2)] deposit_status[OF always_allowed(3)]

lemma auto_approval: "steps R (checkAutoApproval i)"
  unfolding checkAutoApproval_def by (intro rules parts approve)

lemma compliance: "steps R (applyKytResult i q n)" "steps R (applyTrResult i q)" "steps R (runGate0 i)"
  unfolding applyKytResult_def applyTrResult_def runGate0_def by (intro rules parts columns auto_approval always)+

lemma status_event: "steps R (handleDepositStatusChanged i q)"
  unfolding handleDepositStatusChanged_def by (intro rules compliance)

lemma admin_steps: "allowed act \<Longrightarrow> steps R (admin_move act l i reason u r)"
  unfolding admin_move_def by (intro rules parts deposit_status)

lemma admin: "steps R (adminReject i reason u r)" "steps R (adminFreeze i reason u r)"
  unfolding adminReject_def adminFreeze_def by (intro admin_steps always_allowed)+

lemma patch: "act = D_APPROVE \<or> allowed act \<Longrightarrow> steps R (patchDepositStatus i act reason u r)"
  unfolding patchDepositStatus_def by (cases "act = D_APPROVE"; simp; intro rules conjI impI admin deposit_status approve)

lemma payin_failed: "steps R (orchestratePayinFailed i)"
  unfolding orchestratePayinFailed_def by (intro rules parts always)

lemma subscribers:
  assumes "\<And>e. steps R (dlv e)"
  shows "steps R (subscribed dlv e)"
  unfolding subscribed_def handlePayinCreated_def handlePayinStatusChanged_def
  by (auto split: event.split PayinStatus.split intro!: rules payin_seen payin_failed confirm payin_status assms)

lemma delivery:
  assumes "\<And>e. steps R (report e)"
  shows "steps R (deliverEvent report n e)"
  by (induction n arbitrary: e) (auto intro!: rules subscribers assms)

lemma advance:
  assumes "\<And>e. steps R (dlv e)"
  shows "steps R (advancePayin dlv i ch)"
  unfolding advancePayin_def rail_step_def by (intro rules parts payin_status assms)

lemma signal:
  assumes "\<And>e. steps R (dlv e)"
  shows "steps R (processSignal dlv s b)"
  unfolding processSignal_def by (intro rules parts detected advance signal_scan assms; simp)

lemma announce:
  assumes "\<And>c f. steps R (gate c f)"
    and "\<And>y ch key j no k. steps R (insert_signal (new_signal dto c y ch key j no k))"
  shows "steps R (createSignal gate c dto)"
  unfolding createSignal_def by (intro rules parts assms)

lemma scan:
  assumes "\<And>e. steps R (dlv e)" "\<And>c f. steps R (gate c f)"
  shows "steps R (scanForCustomer dlv gate c wl b)"
  unfolding scanForCustomer_def scan_one_def Let_def by (intro rules parts closed_signals signal assms)

end

text \<open>A relation every status update keeps.\<close>

locale inflow_free = inflow_writes R for R :: "world \<Rightarrow> world \<Rightarrow> bool" +
  assumes every_status: "steps R (updateDepositStatus i act reason opts)"
begin

lemma booking: "steps R rest \<Longrightarrow> steps R (booked r step rest)"
  unfolding booked_def by (intro rules parts of_aside[OF aside_accounting])

end

sublocale inflow_free \<subseteq> inflow_guarantee R "\<lambda>_. True"
proof
  show "steps R (approveDeposit i)" for i
    unfolding approveDeposit_def by (intro rules parts booking every_status)
  show "steps R (orchestratePayinConfirmed dlv i)" if "\<And>j. steps R (updatePayinStatus dlv j PI_CLEAR)" for dlv i
    unfolding orchestratePayinConfirmed_def by (intro rules parts booking every_status that)
qed (auto intro: every_status)

section \<open>The ledger only grows\<close>

interpretation ow: inflow_free onward
proof
  show "onward s s" "onward s t \<Longrightarrow> onward t u \<Longrightarrow> onward s u" "aside s t \<Longrightarrow> onward s t" for s t u
    by (auto simp: aside_def intro: onward_refl onward_trans)
qed (auto simp: steps_wp payin_put_def wp_update_signal linkDeposit_def wp_update_payin insert_payin_def wp_update_deposit insert_deposit_def
    wp_updateDepositStatus Let_def onward_def env_def split: option.split)

section \<open>Both lives\<close>

interpretation dl: inflow_free deposit_life
proof
  fix s t w :: world and i p q act k di inp x tr j no g n as y h fa pid reason opts
  show "deposit_life s t" if "aside s t"
    using that by (intro dlife.step_same) (simp add: aside_def inflow_def)
  show "deposit_life w (payin_put i (moved_payin p q act k) w)"
    by (intro dlife.step_same) (simp add: payin_put_def)
  show "steps deposit_life (linkDeposit i di)" "steps deposit_life (insert_payin (payin_row inp x tr j no k))"
    by (auto simp: steps_wp linkDeposit_def wp_update_payin insert_payin_def intro!: dlife.step_same split: option.split)
  show "steps deposit_life (insert_deposit (new_deposit n as y h fa pid tr j no k))"
    by (intro insert_deposit_life new_deposit_ok)
  show "steps deposit_life (update_signal i (\<lambda>x. (scanned z what k x)\<lparr>si_linkedPayinId := l x\<rparr>))" for z what l
    by (auto simp: steps_wp wp_update_signal intro!: dlife.step_same)
qed (auto intro: dlife.step_refl dlife.step_trans update_deposit_life updateDepositStatus_life)

interpretation pl: inflow_free payin_life
proof
  fix s t w :: world and i p q act k di inp x tr j no g n as y h fa pid reason opts
  show "payin_life s t" if "aside s t"
    using that by (intro pilife.step_same) (simp add: aside_def inflow_def)
  show "steps payin_life (insert_payin (payin_row inp x tr j no k))"
    by (intro insert_payin_life payin_row_ok)
  show "steps payin_life (insert_deposit (new_deposit n as y h fa pid tr j no k))" "steps payin_life (update_deposit i g)"
    by (auto simp: steps_wp insert_deposit_def wp_update_deposit intro!: pilife.step_same split: option.split)
  show "steps payin_life (updateDepositStatus i act reason opts)"
    by (auto simp: steps_wp wp_updateDepositStatus Let_def intro!: pilife.step_same split: option.split)
  show "steps payin_life (update_signal i (\<lambda>x. (scanned z what k x)\<lparr>si_linkedPayinId := l x\<rparr>))" for z what l
    by (auto simp: steps_wp wp_update_signal intro!: pilife.step_same)
qed (auto intro: pilife.step_refl pilife.step_trans payin_put_life linkDeposit_life)

lemma signals_same: "signals (db t) = signals (db s) \<Longrightarrow> signals_kept s t"
  by (simp add: signals_kept_def list_all2_refl signal_moved_def)

interpretation sg: inflow_free signals_kept
proof
  show "signals_kept s t" if "aside s t" for s t
    using that by (intro signals_same) (simp add: aside_def inflow_def)
qed (auto simp: steps_wp payin_put_def linkDeposit_def wp_update_payin insert_payin_def wp_update_deposit insert_deposit_def
    wp_updateDepositStatus Let_def signals_kept_refl signals_kept_update[unfolded steps_wp]
    split: option.split dest: signals_kept_trans intro: signals_same)

end
