(* ===== verification/DepositBooks.thy ===== *)
theory DepositBooks
  imports DepositFacts
begin

text \<open>
  The books of a deposit: the transfer each of its two bookings asks the ledger for, as a function of the row,
  the asset and the account registry, and the invariant that a status which claims funds has its booking.
\<close>

section \<open>The expected transfer\<close>

definition account_id :: "nat \<Rightarrow> nat \<Rightarrow> string \<Rightarrow> string option \<Rightarrow> db \<Rightarrow> int option" where
  "account_id code l ty ow d = Option.bind (resolve code l ty ow d) (\<lambda>e. hexToBigint (r_id e))"

definition step_accounts :: "deposit \<Rightarrow> nat \<Rightarrow> deposit_step \<Rightarrow> db \<Rightarrow> (int \<times> int) option" where
  "step_accounts r l step d =
     (let suspense = account_id (TB_ACCOUNT_CODES DEPOSIT_SUSPENSE) l ''CUSTOMER'' (Some (d_ownerId r)) d;
          firm = account_id (TB_ACCOUNT_CODES CLIENT_ASSET) l ''SYSTEM'' None d;
          client = account_id (TB_ACCOUNT_CODES CLIENT_PAYABLE) l ''CUSTOMER'' (Some (d_ownerId r)) d in
      if step = STEP_1 then Option.bind firm (\<lambda>x. map_option (Pair x) suspense)
      else Option.bind suspense (\<lambda>x. map_option (Pair x) client))"

definition step_request :: "deposit \<Rightarrow> deposit_step \<Rightarrow> world \<Rightarrow> tb_transfer option" where
  "step_request r step w =
     Option.bind (find_asset (d_assetId r) (db w)) (\<lambda>a. Option.bind (a_ledger a) (\<lambda>l.
     Option.bind (decimalToBigint (d_amount r) (a_decimals a)) (\<lambda>n.
     map_option (\<lambda>(x, y).
       \<lparr>tr_id = sha_id w (transfer_key ''DEPOSIT'' (d_no r) (step_event step) 0), tr_debit = x, tr_credit = y,
        tr_amount = n, tr_pending_id = 0, tr_timeout = 0, tr_ledger = l, tr_code = step_code step, tr_flag = Flag_none\<rparr>)
       (step_accounts r l step (db w)))))"

text \<open>The ledger has taken the transfer, now or in an earlier attempt.\<close>

definition posted :: "deposit \<Rightarrow> deposit_step \<Rightarrow> world \<Rightarrow> bool" where
  "posted r step w \<longleftrightarrow> (\<exists>t s. step_request r step w = Some t \<and> (t, s) \<in> set (tb_log w) \<and> \<not> real_error s)"

lemma step_request_env: "env v = env w \<Longrightarrow> deposit_identity x = deposit_identity r \<Longrightarrow> step_request x step v = step_request r step w"
  by (simp add: step_request_def step_accounts_def account_id_def resolve_def find_asset_def env_def deposit_identity_def)

lemma posted_onward: "posted r step w \<Longrightarrow> onward w v \<Longrightarrow> deposit_identity x = deposit_identity r \<Longrightarrow> posted x step v"
  unfolding posted_def onward_def using step_request_env[of v w x r step] by auto

section \<open>A booking posts its transfer\<close>

lemma aside_onward: "aside s t \<Longrightarrow> onward s t"
  by (simp add: aside_def)

lemma evidence_key: "ep_sourceType (deposit_evidence r cur p step) = ''DEPOSIT''" "ep_sourceNo (deposit_evidence r cur p step) = d_no r"
  "ep_eventCode (deposit_evidence r cur p step) = step_event step"
  by (simp_all add: deposit_evidence_def)

lemma wp_executeDepositAccounting:
  "wp (executeDepositAccounting r step) (\<lambda>_. posted r step) (\<lambda>_ _. True) w"
proof -
  have transfer: "wp (executeTransfer x y n l (step_code step) ep) (\<lambda>_. posted r step) (\<lambda>_ _. True) v"
    if v: "aside w v" "step_request r step w = Some t" "t = \<lparr>tr_id = sha_id w (transfer_key (ep_sourceType ep) (ep_sourceNo ep)
      (ep_eventCode ep) 0), tr_debit = x, tr_credit = y, tr_amount = n, tr_pending_id = 0, tr_timeout = 0, tr_ledger = l,
      tr_code = step_code step, tr_flag = Flag_none\<rparr>" for x y n l ep v t
  proof -
    have env: "env v = env w" "sha_id v = sha_id w"
      using v(1) by (simp_all add: aside_def onward_def env_def)
    let ?u = "v\<lparr>tb_log := tb_log v @ [(t, tb_reply v (tb_log v) t)]\<rparr>"
    have "posted r step ?u" if "\<not> real_error (tb_reply v (tb_log v) t)"
      using that step_request_env[of ?u w r r step] env v(2) by (auto simp: posted_def env_def)
    moreover have "wp (writeEvidence e) (\<lambda>_. posted r step) (\<lambda>_ _. True) u" if "posted r step u" for u e
    proof -
      have "steps aside (writeEvidence e)"
        unfolding writeEvidence_def persist_def assertWalletRefMatchesTbAccount_def Let_def by (intro aside_rules)
      then have "wp (writeEvidence e) (\<lambda>_. aside u) (\<lambda>_. aside u) u"
        by (simp add: steps_wp)
      then show ?thesis
        by (rule wp_mono) (use that posted_onward aside_onward in blast)+
    qed
    ultimately show ?thesis
      unfolding executeTransfer_def record_transfer_def
      by (auto simp: wp_submit Let_def env(2) v(3)[symmetric])
  qed
  have accounts: "wp (deposit_accounts r l step) (\<lambda>a. wp (bind (executeTransfer (fst a) (snd a) n l (step_code step)
      (deposit_evidence r cur p step)) (\<lambda>_. ret ())) (\<lambda>_. posted r step) (\<lambda>_ _. True)) (\<lambda>_ _. True) w"
    if "find_asset (d_assetId r) (db w) = Some a" "a_ledger a = Some l" "decimalToBigint (d_amount r) (a_decimals a) = Some n"
    for a l n cur p
  proof -
    have "wp (deposit_accounts r l step) (\<lambda>xy v. v = w \<and> step_accounts r l step (db w) = Some xy) (\<lambda>_ _. True) w"
      by (auto simp: deposit_accounts_def step_accounts_def account_id_def resolveTbAccountId_def Let_def split: option.split)
    then show ?thesis
      by (rule wp_mono)
        (auto intro!: transfer[OF _ _ HOL.refl] simp: aside.R_refl step_request_def that evidence_key simp del: step_event.simps)
  qed
  show ?thesis
    unfolding executeDepositAccounting_def deposit_asset_def findPayin_def
    by (auto simp: split_def split: option.split nat.split intro!: accounts)
qed

lemma wp_booked:
  assumes "guarantee R" "\<And>s t. aside s t \<Longrightarrow> R s t"
    and rest: "\<And>v. aside w v \<Longrightarrow> (d_ownerType r = ''CUSTOMER'' \<Longrightarrow> posted r step v) \<Longrightarrow> wp rest (\<lambda>_. R w) (\<lambda>_. R w) v"
  shows "wp (booked r step rest) (\<lambda>_. R w) (\<lambda>_. R w) w"
proof -
  have "wp (executeDepositAccounting r step) (\<lambda>_. aside w) (\<lambda>_. aside w) w"
    using aside_accounting by (simp add: steps_wp)
  from wp_conj[OF this wp_executeDepositAccounting]
  have run: "wp (executeDepositAccounting r step) (\<lambda>_ v. aside w v \<and> posted r step v) (\<lambda>_ v. aside w v \<and> True) w" .
  have noted: "wp (deposit_note a r x) (\<lambda>_. R w) (\<lambda>_. R w) v" if "aside w v" for a x v
    using aside.wp_after[OF aside_deposit(1) that] by (rule wp_mono) (use assms(2) in auto)
  show ?thesis
    unfolding booked_def
    by (auto intro!: wp_mono[OF run] rest aside.R_refl) (auto intro: noted)
qed

section \<open>Statuses that claim funds\<close>

definition unfunded :: "DepositStatus \<Rightarrow> bool" where
  "unfunded s \<longleftrightarrow> s = D_PAYIN_PENDING \<or> s = D_FAILED"

definition booked_ok :: "world \<Rightarrow> deposit \<Rightarrow> bool" where
  "booked_ok w r \<longleftrightarrow> (d_ownerType r = ''CUSTOMER'' \<longrightarrow>
     (\<not> unfunded (d_status r) \<longrightarrow> posted r STEP_1 w) \<and> (d_status r = D_SUCCESS \<longrightarrow> posted r STEP_2 w))"

definition books_ok :: "world \<Rightarrow> bool" where
  "books_ok w \<longleftrightarrow> table_inv d_id (booked_ok w) (deposits (db w))"

definition books_step :: "world \<Rightarrow> world \<Rightarrow> bool" where
  "books_step s t \<longleftrightarrow> onward s t \<and> (books_ok s \<longrightarrow> books_ok t)"

interpretation bk: table_life deposits d_id "booked_ok w" "\<lambda>_ _. True" for w
  by unfold_locales auto

lemma booked_ok_onward: "booked_ok s r \<Longrightarrow> onward s t \<Longrightarrow> booked_ok t r"
  by (auto simp: booked_ok_def intro: posted_onward)

text \<open>The rows may be rewritten as long as they are booked in the later world.\<close>

lemma books_stepI: "onward s t \<Longrightarrow> table_step deposits d_id (booked_ok t) (\<lambda>_ _. True) s t \<Longrightarrow> books_step s t"
  by (auto simp: books_step_def books_ok_def table_step_def table_inv_def dest: booked_ok_onward)

interpretation books: guarantee books_step
  by unfold_locales (auto simp: books_step_def intro: onward_refl onward_trans)

lemma books_same: "onward s t \<Longrightarrow> deposits (db t) = deposits (db s) \<Longrightarrow> books_step s t"
  by (intro books_stepI bk.step_same)

lemma books_aside: "aside s t \<Longrightarrow> books_step s t"
  by (rule books_same) (simp_all add: aside_def inflow_def)

lemma books_update:
  assumes "aside w v" "onward v t" "find_deposit i (db w) = Some r"
    and "deposits (db t) = update_rows (\<lambda>x. d_id x = i) f (deposits (db v))"
    and "deposit_identity (f r) = deposit_identity r"
    and "booked_ok t r \<Longrightarrow> booked_ok t (f r)"
  shows "books_step w t"
proof -
  have "by_id d_id i (deposits (db v)) = Some r"
    using assms(1,3) by (simp add: aside_def inflow_def find_deposit_def)
  moreover have "d_id (f r) = i"
    using assms(3,5) by (auto simp: find_deposit_def deposit_identity_def dest: by_id_SomeD)
  ultimately have "books_step v t"
    using assms(2,4,6) by (intro books_stepI bk.step_update[of t i f v r]) auto
  then show ?thesis
    using books_aside[OF assms(1)] books.R_trans by blast
qed

section \<open>Every operation keeps the books\<close>

definition unbooked_action :: "DepositAction \<Rightarrow> bool" where
  "unbooked_action act \<longleftrightarrow> act \<noteq> D_PAYIN_CONFIRM \<and> act \<noteq> D_APPROVE"

lemma unbooked_target:
  "unbooked_action act \<Longrightarrow> deposit_transitions s act = Some q \<Longrightarrow> q \<noteq> D_SUCCESS \<and> (unfunded s \<longrightarrow> unfunded q)"
  by (cases s) (auto simp: unbooked_action_def deposit_transitions_def unfunded_def split: if_splits)

lemma moved_deposit_simps [simp]:
  "deposit_identity (moved_deposit r q act reason opts k x) = deposit_identity x"
  "d_status (moved_deposit r q act reason opts k x) = q" "d_ownerType (moved_deposit r q act reason opts k x) = d_ownerType x"
  by (simp_all add: moved_deposit_def deposit_identity_def)

lemma posted_moved [simp]: "posted (moved_deposit r q act reason opts k x) step w = posted x step w"
  using posted_onward[OF _ onward_refl] by (metis moved_deposit_simps(1))

lemma updateDepositStatus_books:
  assumes "unbooked_action act"
  shows "steps books_step (updateDepositStatus i act reason opts)"
proof -
  have "books_step w t" if r: "find_deposit i (db w) = Some r" "deposit_transitions (d_status r) act = Some q" "onward w t"
    "deposits (db t) = update_rows (\<lambda>x. d_id x = i) (moved_deposit r q act reason opts k) (deposits (db w))" for w t r q k
    using unbooked_target[OF assms r(2)] r
    by (intro books_update[OF aside.R_refl r(3,1,4)]) (auto simp: booked_ok_def)
  then show ?thesis
    by (auto simp: steps_wp wp_updateDepositStatus Let_def books.R_refl onward_def env_def split: option.split)
qed

lemma posted_cong: "deposit_identity x = deposit_identity r \<Longrightarrow> posted x step w \<longleftrightarrow> posted r step w"
  using posted_onward[OF _ onward_refl] by metis

interpretation bw: inflow_writes books_step
proof
  fix s t w :: world and i p q act k di inp x tr j no g n as y h fa pid
  show "books_step s t" if "aside s t"
    using that by (rule books_aside)
  show "books_step w (payin_put i (moved_payin p q act k) w)"
    by (rule books_same) (simp_all add: payin_put_def onward_def env_def)
  show "steps books_step (linkDeposit i di)" "steps books_step (insert_payin (payin_row inp x tr j no k))"
    by (auto simp: steps_wp linkDeposit_def wp_update_payin insert_payin_def onward_def env_def books.R_refl
        intro!: books_same split: option.split)
  show "steps books_step (update_deposit i g)" if g: "keeps_deposit g"
  proof -
    have row: "deposit_identity (g r) = deposit_identity r" "d_status (g r) = d_status r" "d_ownerType (g r) = d_ownerType r" for r
      using g by (simp_all add: keeps_deposit_def deposit_identity_def)
    then have "booked_ok v r \<longleftrightarrow> booked_ok v (g r)" for v r
      by (simp add: booked_ok_def posted_cong[OF row(1)] row)
    then have "books_step v u" if "find_deposit i (db v) = Some r" "onward v u"
      "deposits (db u) = update_rows (\<lambda>x. d_id x = i) g (deposits (db v))" for v u r
      using row that by (intro books_update[OF aside.R_refl that(2,1,3)]) auto
    then show ?thesis
      by (auto simp: steps_wp wp_update_deposit books.R_refl onward_def env_def split: option.split)
  qed
  show "steps books_step (update_signal i (\<lambda>x. (scanned z what k x)\<lparr>si_linkedPayinId := l x\<rparr>))" for z what l
    by (auto simp: steps_wp wp_update_signal onward_def env_def books.R_refl intro!: books_same)
  have "booked_ok v (new_deposit n as y h fa pid tr j no k)" for v
    by (simp add: booked_ok_def new_deposit_def unfunded_def)
  then show "steps books_step (insert_deposit (new_deposit n as y h fa pid tr j no k))"
    by (auto simp: steps_wp intro!: wp_insert_deposit books_stepI bk.step_insert books.R_refl) (simp add: onward_def env_def)
qed

text \<open>The update that follows a booking, on the row as it was read.\<close>

lemma books_after_booking:
  assumes "find_deposit i (db w) = Some r" "aside w v" "d_ownerType r = ''CUSTOMER'' \<Longrightarrow> posted r step v"
    and "act = D_PAYIN_CONFIRM \<and> step = STEP_1 \<or> act = D_APPROVE \<and> step = STEP_2 \<and> \<not> unfunded (d_status r)"
    and "\<And>a. steps books_step (rest a)"
  shows "wp (bind (updateDepositStatus (d_id r) act reason opts) rest) (\<lambda>_. books_step w) (\<lambda>_. books_step w) v"
proof -
  have r: "d_id r = i" "find_deposit i (db v) = Some r"
    using assms(1,2) by (auto simp: find_deposit_def aside_def inflow_def dest: by_id_SomeD)
  have "books_step w t" if t: "deposit_transitions (d_status r) act = Some q" "onward v t"
    "deposits (db t) = update_rows (\<lambda>x. d_id x = i) (moved_deposit r q act reason opts k) (deposits (db v))" for t q k
  proof (rule books_update[OF assms(2) t(2) assms(1) t(3)])
    have "act = D_PAYIN_CONFIRM \<Longrightarrow> q = D_COMPLIANCE_PENDING"
      using t(1) by (cases "d_status r") (auto simp: deposit_transitions_def split: if_splits)
    moreover have "d_ownerType r = ''CUSTOMER'' \<Longrightarrow> posted r step t"
      using assms(3) posted_onward[OF _ t(2)] by blast
    ultimately show "booked_ok t (moved_deposit r q act reason opts k r)" if "booked_ok t r"
      using that assms(4) by (auto simp: booked_ok_def)
  qed simp
  then show ?thesis
    unfolding wp_bind wp_updateDepositStatus
    by (auto simp: r Let_def onward_def env_def books_aside[OF assms(2)] split: option.split intro!: books.wp_after[OF assms(5)])
qed

lemma approveDeposit_books: "steps books_step (approveDeposit i)"
proof -
  have approved: "wp (andThen (deposit_note a r x) (booked r STEP_2 (bind (updateDepositStatus (d_id r) D_APPROVE None no_options)
      (\<lambda>_. deposit_note b r y)))) (\<lambda>_. books_step w) (\<lambda>_. books_step w) w"
    if "find_deposit i (db w) = Some r" "\<not> unfunded (d_status r)" for w r a x b y
  proof -
    have "wp (booked r STEP_2 (bind (updateDepositStatus (d_id r) D_APPROVE None no_options) (\<lambda>_. deposit_note b r y)))
      (\<lambda>_. books_step w) (\<lambda>_. books_step w) u" if u: "aside w u" for u
    proof -
      have "find_deposit i (db u) = Some r"
        using \<open>find_deposit i (db w) = Some r\<close> u by (simp add: find_deposit_def aside_def inflow_def)
      then have "wp (booked r STEP_2 (bind (updateDepositStatus (d_id r) D_APPROVE None no_options) (\<lambda>_. deposit_note b r y)))
        (\<lambda>_. books_step u) (\<lambda>_. books_step u) u"
        using \<open>\<not> unfunded (d_status r)\<close>
        by (intro wp_booked books.guarantee_axioms books_aside books_after_booking bw.parts) auto
      then show ?thesis
        by (rule wp_mono) (use books_aside[OF u] books.R_trans in blast)+
    qed
    then show ?thesis
      using aside_deposit(1)[of a r x] unfolding steps_wp wp_andThen
      by (auto intro: wp_mono books_aside)
  qed
  show ?thesis
    unfolding steps_wp approveDeposit_def findDeposit_def
    by (auto simp: books.R_refl unfunded_def split: option.split intro!: approved[unfolded wp_andThen])
qed

lemma orchestratePayinConfirmed_books:
  assumes "\<And>j. steps books_step (updatePayinStatus dlv j PI_CLEAR)"
  shows "steps books_step (orchestratePayinConfirmed dlv i)"
proof -
  have started: "wp (booked r STEP_1 (bind (updateDepositStatus (d_id r) D_PAYIN_CONFIRM None no_options) (\<lambda>_.
      andThen (deposit_note a r x) (bind (updatePayinStatus dlv i PI_CLEAR) (\<lambda>_. ret ())))))
      (\<lambda>_. books_step w) (\<lambda>_. books_step w) w"
    if r: "r \<in> set (deposits (db w))" for w r a x
  proof (cases "books_ok w")
    case True
    with r have "find_deposit (d_id r) (db w) = Some r"
      by (simp add: books_ok_def table_inv_def find_deposit_def by_id_in)
    then show ?thesis
      by (intro wp_booked books.guarantee_axioms books_aside books_after_booking bw.rules bw.parts assms) auto
  next
    case False
    have "steps onward (updatePayinStatus dlv i PI_CLEAR)"
      using assms by (auto simp: steps_def books_step_def)
    then have "steps onward (booked r STEP_1 (bind (updateDepositStatus (d_id r) D_PAYIN_CONFIRM None no_options) (\<lambda>_.
      andThen (deposit_note a r x) (bind (updatePayinStatus dlv i PI_CLEAR) (\<lambda>_. ret ())))))"
      by (intro ow.booking ow.rules ow.parts ow.every_status)
    then show ?thesis
      using False by (simp add: books_step_def steps_def wp_run)
  qed
  show ?thesis
    unfolding steps_wp orchestratePayinConfirmed_def findPayin_def findByPayinId_def
    by (auto simp: books.R_refl split: option.split dest!: find_SomeD intro!: started)
qed

interpretation bg: inflow_guarantee books_step unbooked_action
  by unfold_locales (auto simp: unbooked_action_def intro: updateDepositStatus_books approveDeposit_books
      orchestratePayinConfirmed_books)

end
