(* ===== verification/ScanFacts.thy ===== *)
theory ScanFacts
  imports DepositFacts
begin

text \<open>
  What a scan of the inbound signals keeps, and what an announcement returns.
\<close>

section \<open>The scan\<close>

definition off_queue :: "string \<Rightarrow> world \<Rightarrow> bool" where
  "off_queue i w \<longleftrightarrow> (\<forall>y\<in>set (signals (db w)). si_id y = i \<longrightarrow> si_status y \<noteq> SI_PENDING_SCAN)"

lemma list_all2_sources: "list_all2 P xs ys \<Longrightarrow> y \<in> set ys \<Longrightarrow> \<exists>x\<in>set xs. P x y"
  by (induction rule: list_all2_induct) auto

lemma list_all2_images: "list_all2 P xs ys \<Longrightarrow> x \<in> set xs \<Longrightarrow> \<exists>y\<in>set ys. P x y"
  by (induction rule: list_all2_induct) auto

lemma off_queue_kept: "off_queue i s \<Longrightarrow> signals_kept s t \<Longrightarrow> off_queue i t"
  unfolding off_queue_def signals_kept_def using list_all2_sources[of signal_moved] by (fastforce simp: signal_moved_def)

lemma kept_row:
  "signals_kept w v \<Longrightarrow> by_id si_id i (signals (db w)) \<noteq> None \<Longrightarrow> by_id si_id i (signals (db v)) \<noteq> None"
  unfolding by_id_None signals_kept_def using list_all2_images[of signal_moved] by (fastforce simp: signal_moved_def)

lemma wp_kept_bind:
  assumes "steps signals_kept m" "signals_kept w u" "\<And>a v. signals_kept w v \<Longrightarrow> signals_kept u v \<Longrightarrow> wp (f a) Q (\<lambda>_. signals_kept w) v"
  shows "wp (bind m f) Q (\<lambda>_. signals_kept w) u"
proof -
  have "wp m (\<lambda>_. signals_kept u) (\<lambda>_. signals_kept u) u"
    using assms(1) by (simp add: steps_wp)
  then show ?thesis
    unfolding wp_bind by (rule wp_mono) (use assms(2,3) signals_kept_trans in blast)+
qed

lemma wp_close:
  assumes "signals_kept w u" "by_id si_id (si_id x) (signals (db w)) \<noteq> None" "z \<noteq> SI_PENDING_SCAN"
    and "\<And>v. signals_kept w v \<Longrightarrow> off_queue (si_id x) v \<Longrightarrow> Q () v"
  shows "wp (update_signal (si_id x) (\<lambda>y. (scanned z what k y)\<lparr>si_linkedPayinId := l y\<rparr>)) Q E u"
proof -
  let ?f = "\<lambda>y. (scanned z what k y)\<lparr>si_linkedPayinId := l y\<rparr>"
  let ?v = "u\<lparr>db := (db u)\<lparr>signals := update_rows (\<lambda>y. si_id y = si_id x) ?f (signals (db u))\<rparr>\<rparr>"
  have "signals_kept u ?v"
    using signals_kept_update[OF assms(3), where i = "si_id x" and what = what and k = k and l = l] kept_row[OF assms(1,2)]
    by (auto simp: steps_wp wp_update_signal)
  moreover have "off_queue (si_id x) ?v"
    using assms(3) by (auto simp: off_queue_def update_rows_def scanned_def)
  ultimately have "Q () ?v"
    using assms(1,4) signals_kept_trans by blast
  then show ?thesis
    using kept_row[OF assms(1,2)] by (auto simp: wp_update_signal)
qed

lemma plain_scan: "scanned z what k = (\<lambda>y. (scanned z what k y)\<lparr>si_linkedPayinId := si_linkedPayinId y\<rparr>)"
  by (simp add: scanned_def fun_eq_iff)

lemma wp_signal_note:
  assumes "\<And>v. signals_kept u v \<Longrightarrow> Q () v"
  shows "wp (signal_note a x t) Q E u"
  unfolding signal_note_def using assms by (simp add: signals_same)

lemma wp_mark:
  assumes "signals_kept w u" "by_id si_id (si_id x) (signals (db w)) \<noteq> None" "z \<noteq> SI_PENDING_SCAN"
    and Q: "\<And>v. signals_kept w v \<Longrightarrow> off_queue (si_id x) v \<Longrightarrow> Q () v"
  shows "wp (andThen (update_signal (si_id x) (scanned z what k)) (signal_note a x t)) Q E u"
  unfolding wp_andThen
  by (subst plain_scan, rule wp_close[OF assms(1-3)], rule wp_signal_note, rule Q) (blast intro: off_queue_kept signals_kept_trans)+

lemma wp_processSignal:
  assumes "\<And>e. steps aside (report e)" "signals_kept w u" "by_id si_id (si_id x) (signals (db w)) \<noteq> None"
  shows "wp (processSignal (deliverEvent report n) x b) (\<lambda>_ v. signals_kept w v \<and> off_queue (si_id x) v) (\<lambda>_. signals_kept w) u"
proof -
  have dlv: "steps signals_kept (deliverEvent report n e)" for e
    by (intro sg.delivery sg.of_aside assms(1))
  have matched: "wp (andThen (update_signal (si_id x) (\<lambda>y. (scanned SI_PAYIN_CREATED what k y)\<lparr>si_linkedPayinId := l\<rparr>))
      (andThen (signal_note a x t) (andThen (guard g err) (ret r)))) (\<lambda>_ v. signals_kept w v \<and> off_queue (si_id x) v) (\<lambda>_. signals_kept w) v"
    if "signals_kept w v" for what k l a t g err r v
    unfolding wp_andThen
    by (rule wp_close[OF that assms(3)], simp, rule wp_signal_note) (auto intro: off_queue_kept signals_kept_trans)
  show ?thesis
    unfolding processSignal_def
    by (intro wp_kept_bind matched) (auto intro!: sg.rules sg.parts sg.detected sg.advance dlv assms(2))
qed

definition counted :: "ScanSummary \<Rightarrow> nat \<Rightarrow> bool" where
  "counted m n \<longleftrightarrow> sm_scanned m = n \<and> sm_created m + sm_reused m + sm_blocked m + sm_failed m = n"

lemma wp_scan_one:
  assumes "\<And>e. steps aside (report e)" "signals_kept w u" "by_id si_id (si_id x) (signals (db w)) \<noteq> None" "counted m k"
  shows "wp (scan_one (deliverEvent report n) b blocked m x)
    (\<lambda>m' v. signals_kept w v \<and> off_queue (si_id x) v \<and> counted m' (Suc k)) (\<lambda>_ _. False) u"
proof -
  let ?Q = "\<lambda>m' v. signals_kept w v \<and> off_queue (si_id x) v \<and> counted m' (Suc k)"
  have marks: "wp (andThen (markSignalIgnored x t) (ret m')) ?Q (\<lambda>_ _. False) v"
    "wp (andThen (mark_failed x t) (ret m')) ?Q (\<lambda>_ _. False) v"
    if "signals_kept w v" "counted m' (Suc k)" for v t m'
    unfolding markSignalIgnored_def mark_failed_def wp_andThen[of "bind a f" for a f] wp_bind wp_now
    by (rule wp_mark[OF that(1) assms(3)]; simp add: that(2))+
  have run: "wp (handle (bind (processSignal (deliverEvent report n) x b) (\<lambda>(c, r). ret (add_processed m1 c r)))
      (\<lambda>e. andThen (mark_failed x (error_message e)) (ret m2))) ?Q (\<lambda>_ _. False) v"
    if "signals_kept w v" "counted m2 (Suc k)" "\<And>c r. counted (add_processed m1 c r) (Suc k)" for v m1 m2
    unfolding wp_handle wp_bind
    by (rule wp_mono[OF wp_processSignal[OF assms(1) that(1) assms(3)]]) (auto intro: marks that(2,3) simp del: wp_andThen)
  have counts: "counted ((m\<lparr>sm_scanned := Suc (sm_scanned m)\<rparr>)\<lparr>sm_blocked := Suc (sm_blocked m)\<rparr>) (Suc k)"
    "counted ((m\<lparr>sm_scanned := Suc (sm_scanned m)\<rparr>)\<lparr>sm_failed := Suc (sm_failed m)\<rparr>) (Suc k)"
    "counted (add_processed (m\<lparr>sm_scanned := Suc (sm_scanned m)\<rparr>) c r) (Suc k)" for c r
    using assms(4) by (simp_all add: counted_def add_processed_def)
  show ?thesis
  proof (cases blocked)
    case None
    show ?thesis
      unfolding scan_one_def Let_def None option.case wp_andThen[of "signal_note a x t" for a t]
      by (rule wp_signal_note, rule run, rule signals_kept_trans[OF assms(2)]) (use counts in simp_all)
  next
    case (Some e)
    show ?thesis
      unfolding scan_one_def Let_def Some option.case wp_andThen[of "signal_note a x t" for a t]
      by (rule wp_signal_note, rule marks, rule signals_kept_trans[OF assms(2)]) (use counts in simp_all)
  qed
qed

lemma queue_emptied:
  assumes "signals_kept w v" "\<forall>x\<in>set (pending_signals c wl (db w)). off_queue (si_id x) v"
  shows "pending_signals c wl (db v) = []"
proof -
  have "\<not> (si_ownerId y = c \<and> si_walletId y = wl \<and> si_status y = SI_PENDING_SCAN)" if y: "y \<in> set (signals (db v))" for y
  proof -
    obtain x where "x \<in> set (signals (db w))" "signal_moved x y"
      using list_all2_sources[OF assms(1)[unfolded signals_kept_def] y] by blast
    moreover from this have "si_status y \<noteq> SI_PENDING_SCAN" if "x \<in> set (pending_signals c wl (db w))"
      using assms(2) y that unfolding signal_moved_def off_queue_def by blast
    ultimately show ?thesis
      by (auto simp: signal_moved_def pending_signals_def)
  qed
  then have "filter (\<lambda>s. si_ownerId s = c \<and> si_walletId s = wl \<and> si_status s = SI_PENDING_SCAN) (signals (db v)) = []"
    by (simp add: filter_empty_conv)
  then show ?thesis
    by (simp add: pending_signals_def)
qed

section \<open>Announcements\<close>

definition dedupe_of :: "CreateSignalDto \<Rightarrow> db \<Rightarrow> string" where
  "dedupe_of dto d = (case by_id w_id (cs_walletId dto) (wallets d) of None \<Rightarrow> []
     | Some x \<Rightarrow> (case channel_of x d of None \<Rightarrow> []
       | Some ch \<Rightarrow> ch @ '':'' @ normalizeToken (Some (w_id x)) @ '':'' @ normalizeToken (Some (w_assetId x)) @ '':'' @
           (if ch = ''CRYPTO'' then normalizeToken (cs_txHash dto) else normalizeToken (cs_referenceNo dto))))"

definition shelf :: "world \<Rightarrow> wallet list \<times> asset list \<times> signal list" where
  "shelf w = (wallets (db w), assets (db w), signals (db w))"

definition announced_as :: "CreateSignalDto \<Rightarrow> world \<Rightarrow> signal option \<Rightarrow> world \<Rightarrow> bool" where
  "announced_as dto w r v \<longleftrightarrow> wallets (db v) = wallets (db w) \<and> assets (db v) = assets (db w)
     \<and> r = find_signal (dedupe_of dto (db w)) (db v)
     \<and> (find_signal (dedupe_of dto (db w)) (db w) \<noteq> None \<longrightarrow> signals (db v) = signals (db w))"

lemma find_last: "(\<forall>x\<in>set xs. \<not> P x) \<Longrightarrow> P y \<Longrightarrow> find P (xs @ [y]) = Some y"
  by (induction xs) auto

lemma dedupe_of_cong: "wallets d = wallets d' \<Longrightarrow> assets d = assets d' \<Longrightarrow> dedupe_of dto d = dedupe_of dto d'"
proof -
  assume same: "wallets d = wallets d'" "assets d = assets d'"
  then have "channel_of x d = channel_of x d'" for x
    by (simp add: channel_of_def find_asset_def)
  with same show ?thesis
    by (simp add: dedupe_of_def split: option.split)
qed

lemma wp_store:
  assumes "find_signal key (db u) = None"
  shows "wp (handle
      (bind (generateReferenceNo ''SIG'') (\<lambda>no. bind randomUUID (\<lambda>rowId. bind now (\<lambda>t.
       bind (insert_signal (new_signal dto c x ch key rowId no t)) (\<lambda>s.
       andThen (signal_note ''INBOUND_SIGNAL_SUBMITTED'' s note_text) (getsDb (\<lambda>d. by_id si_id (si_id s) (signals d))))))))
      (\<lambda>e. case e of UniqueConstraint _ \<Rightarrow> getsDb (find_signal key) | _ \<Rightarrow> throw e))
    (\<lambda>r v. wallets (db v) = wallets (db u) \<and> assets (db v) = assets (db u) \<and> r = find_signal key (db v)) (\<lambda>_ _. True) u"
proof -
  have row: "by_id si_id (si_id s) (ss @ [s]) = Some s" "find (\<lambda>y. si_dedupeKey y = key) (ss @ [s]) = Some s"
    if "\<forall>y\<in>set ss. si_id y \<noteq> si_id s" "\<forall>y\<in>set ss. si_dedupeKey y \<noteq> key" "si_dedupeKey s = key" for s ss
    using that by (auto simp: by_id_def intro: find_last)
  have key: "si_dedupeKey (new_signal dto c x ch key i no t) = key" for i no t
    by (simp add: new_signal_def)
  have "\<forall>y\<in>set (signals (db u)). si_dedupeKey y \<noteq> key"
    using assms by (simp add: find_signal_def find_None)
  with row[OF _ this key] show ?thesis
    by (auto simp: insert_signal_def signal_note_def find_signal_def key)
qed

text \<open>The checks, when only the result matters.\<close>

lemma wp_checks:
  "(b \<Longrightarrow> Q () u) \<Longrightarrow> wp (guard b e) Q (\<lambda>_ _. True) u"
  "(\<And>a. x = Some a \<Longrightarrow> Q' a u) \<Longrightarrow> wp (need x e) Q' (\<lambda>_ _. True) u"
  "Q () u \<Longrightarrow> wp (if b then guard g e else guard h f) Q (\<lambda>_ _. True) u"
  "Q () u \<Longrightarrow> wp (ensureCustomerCanTransact cu ca) Q (\<lambda>_ _. True) u"
  "Q () u \<Longrightarrow> wp (assertSimulationRiskProfile dto ch) Q (\<lambda>_ _. True) u"
  by (auto simp: ensureCustomerCanTransact_def assertSimulationRiskProfile_def Let_def split: option.split)

lemma wp_wallet:
  "(\<And>x. by_id w_id wl (wallets (db u)) = Some x \<Longrightarrow> Q x u) \<Longrightarrow> wp (getCustomerDepositWallet c wl) Q (\<lambda>_ _. True) u"
  by (auto simp: getCustomerDepositWallet_def split: option.split)

lemma wp_key:
  "Q (ch @ '':'' @ normalizeToken (Some wl) @ '':'' @ normalizeToken (Some as) @ '':'' @
       (if ch = ''CRYPTO'' then normalizeToken tx else normalizeToken rn)) u
     \<Longrightarrow> wp (buildDedupeKey ch wl as tx rn) Q (\<lambda>_ _. True) u"
  unfolding buildDedupeKey_def Let_def by simp

lemma wp_createSignal:
  assumes "steps (same shelf) (gate c ''DEPOSIT'')"
  shows "wp (createSignal gate c dto) (announced_as dto w) (\<lambda>_ _. True) w"
proof -
  have shelf: "wallets (db u) = wallets (db w)" "assets (db u) = assets (db w)" "signals (db u) = signals (db w)"
    if "shelf u = shelf w" for u
    using that by (simp_all add: shelf_def)
  have "wp (gate c ''DEPOSIT'') (\<lambda>_ u. shelf u = shelf w) (\<lambda>_ _. True) w"
  proof (rule wp_mono)
    show "wp (gate c ''DEPOSIT'') (\<lambda>_. same shelf w) (\<lambda>_. same shelf w) w"
      using assms by (simp add: steps_wp)
  qed (simp_all add: same_def)
  then show ?thesis
    unfolding createSignal_def wp_andThen[of "gate c x" for x]
  proof (rule wp_mono, goal_cases)
    case (1 a u)
    note u = shelf[OF 1]
    have ann: "announced_as dto w r v" if "wallets (db v) = wallets (db u)" "assets (db v) = assets (db u)"
      "r = find_signal (dedupe_of dto (db u)) (db v)"
      "find_signal (dedupe_of dto (db u)) (db u) \<noteq> None \<longrightarrow> signals (db v) = signals (db u)" for r v
    proof -
      have "find_signal k (db w) = find_signal k (db u)" for k
        by (simp add: find_signal_def u)
      with that show ?thesis
        unfolding announced_as_def u[symmetric] dedupe_of_cong[OF u(1,2), symmetric] by presburger
    qed
    show ?case
      unfolding wp_bind[of "getsDb f" for f] wp_andThen wp_getsDb wp_bind[of "getCustomerDepositWallet a b" for a b]
        wp_bind[of "need a b" for a b] wp_bind[of "buildDedupeKey a b c d e" for a b c d e]
    proof (rule wp_checks wp_wallet wp_key)+
      fix x :: wallet and ch
      let ?key = "ch @ '':'' @ normalizeToken (Some (w_id x)) @ '':'' @ normalizeToken (Some (w_assetId x)) @ '':'' @
        (if ch = ''CRYPTO'' then normalizeToken (cs_txHash dto) else normalizeToken (cs_referenceNo dto))"
      assume "by_id w_id (cs_walletId dto) (wallets (db u)) = Some x" "channel_of x (db u) = Some ch"
      then have key: "?key = dedupe_of dto (db u)"
        by (simp add: dedupe_of_def)
      show "wp (case find_signal ?key (db u) of Some s \<Rightarrow> ret (Some s) | None \<Rightarrow>
            handle (bind (generateReferenceNo ''SIG'') (\<lambda>no. bind randomUUID (\<lambda>rowId. bind now (\<lambda>t.
              bind (insert_signal (new_signal dto c x ch ?key rowId no t)) (\<lambda>s.
              andThen (signal_note ''INBOUND_SIGNAL_SUBMITTED'' s ''Customer submitted inbound transfer signal'')
                (getsDb (\<lambda>d. by_id si_id (si_id s) (signals d))))))))
              (\<lambda>e. case e of UniqueConstraint _ \<Rightarrow> getsDb (find_signal ?key) | _ \<Rightarrow> throw e)) (announced_as dto w) (\<lambda>_ _. True) u"
      proof (cases "find_signal (dedupe_of dto (db u)) (db u)")
        case None
        show ?thesis
          unfolding key None option.case by (rule wp_mono[OF wp_store[OF None]]) (auto intro: ann simp: None)
      next
        case (Some s)
        show ?thesis
          unfolding key Some option.case wp_ret by (rule ann) (simp_all add: Some)
      qed
    qed
  qed simp
qed

end
