(* ===== verification/DepositProps.thy ===== *)
theory DepositProps
  imports DepositBooks ScanFacts WithdrawProps
begin

text \<open>
  The properties of payins, deposits and inbound signals.
\<close>

section \<open>Runs\<close>

text \<open>The operations of the services in any order, with any arguments: rails report, customers announce and
  scan, the screening services report, administrators act.  \<^emph>\<open>P\<close> is the set of actions they take on the status
  route; the onboarding gate and the error handler of the event library write no inbound table and no
  account.\<close>

inductive deposit_run :: "(DepositAction \<Rightarrow> bool) \<Rightarrow> world \<Rightarrow> world \<Rightarrow> bool" for P :: "DepositAction \<Rightarrow> bool" and w :: world where
  start: "deposit_run P w w"
| detect: "deposit_run P w v \<Longrightarrow> (\<And>e. steps aside (report e)) \<Longrightarrow>
    deposit_run P w (snd (createDetected (deliverEvent report n) inp v))"
| rail: "deposit_run P w v \<Longrightarrow> (\<And>e. steps aside (report e)) \<Longrightarrow>
    deposit_run P w (snd (updatePayinStatus (deliverEvent report n) i pa v))"
| mock: "deposit_run P w v \<Longrightarrow> (\<And>e. steps aside (report e)) \<Longrightarrow>
    deposit_run P w (snd (applyMockEvent (deliverEvent report n) i ev v))"
| announced: "deposit_run P w v \<Longrightarrow> (\<And>c f. steps aside (gate c f)) \<Longrightarrow>
    deposit_run P w (snd (createSignal gate c dto v))"
| scan: "deposit_run P w v \<Longrightarrow> (\<And>e. steps aside (report e)) \<Longrightarrow> (\<And>c f. steps aside (gate c f)) \<Longrightarrow>
    deposit_run P w (snd (scanForCustomer (deliverEvent report n) gate c wl b v))"
| status_event: "deposit_run P w v \<Longrightarrow> deposit_run P w (snd (handleDepositStatusChanged i q v))"
| kyt: "deposit_run P w v \<Longrightarrow> deposit_run P w (snd (applyKytResult i k score v))"
| travel_rule: "deposit_run P w v \<Longrightarrow> deposit_run P w (snd (applyTrResult i k v))"
| admin: "deposit_run P w v \<Longrightarrow> P act \<Longrightarrow> deposit_run P w (snd (patchDepositStatus i act reason u role v))"

context inflow_guarantee begin

lemma run:
  assumes "deposit_run P w v" "\<And>act. P act \<Longrightarrow> act = D_APPROVE \<or> allowed act"
    and "\<And>dto c y ch key j no k. steps R (insert_signal (new_signal dto c y ch key j no k))"
  shows "R w v"
  using assms(1)
proof (induction rule: deposit_run.induct)
  case start
  show ?case by (rule R_refl)
next
  case (admin v act i reason u role)
  show ?case by (rule seq_state[OF admin.IH patch[OF assms(2)[OF admin.hyps(2)]]])
qed (blast intro: seq_state detected payin_status mock_event delivery announce scan status_event compliance of_aside assms(3))+

end

lemma insert_signal_lives: "steps deposit_life (insert_signal s)" "steps payin_life (insert_signal s)" "steps books_step (insert_signal s)"
  by (auto simp: steps_wp insert_signal_def onward_def env_def books.R_refl
      intro!: dlife.step_same pilife.step_same books_same)

section \<open>Deposits and payins\<close>

text \<open>C13. Refinement: in every run a deposit keeps its identity, its history only grows, and its status moves along the
  transition table only.\<close>

theorem deposits_refine_their_table:
  assumes "deposit_run P w v" "table_inv d_id deposit_ok (deposits (db w))" "r \<in> set (deposits (db w))"
  shows "\<exists>s\<in>set (deposits (db v)). deposit_identity s = deposit_identity r
    \<and> reaches deposit_transitions (d_status r) (d_status s)
    \<and> (\<exists>es. history_entries (d_history s) = history_entries (d_history r) @ es)"
  using dl.run[OF assms(1) disjI2[OF TrueI] insert_signal_lives(1)] assms(2,3)
  by (fastforce simp: table_step_def table_moves_def deposit_moved_def)

text \<open>Deposits stay well-formed: no fee is ever withheld, a completion date exactly on finished or frozen ones, and
  the last history entry is the status.\<close>

theorem deposits_stay_wellformed:
  assumes "deposit_run P w v" "table_inv d_id deposit_ok (deposits (db w))"
  shows "table_inv d_id deposit_ok (deposits (db v))"
  using dl.run[OF assms(1) disjI2[OF TrueI] insert_signal_lives(1)] assms(2) by (simp add: table_step_def)

text \<open>A payin is cleared, and its wallet credited, only when it has a reference number and, on a chain, a
  transaction hash.\<close>

theorem cleared_payins_have_references:
  assumes "deposit_run P w v" "table_inv pi_id payin_ok (payins (db w))"
  shows "table_inv pi_id payin_ok (payins (db v))"
  using pl.run[OF assms(1) disjI2[OF TrueI] insert_signal_lives(2)] assms(2) by (simp add: table_step_def)

text \<open>C36. A payin without a reference number is never cleared, whatever happens: the announced chain transfers, whose
  form asks for none, end here.\<close>

theorem payin_without_reference_never_clears:
  assumes "deposit_run P w v" "table_inv pi_id payin_ok (payins (db w))" "p \<in> set (payins (db w))"
    and "normalizeOptionalString (pi_referenceNo p) = None"
  shows "\<exists>q\<in>set (payins (db v)). pi_id q = pi_id p \<and> pi_status q \<noteq> PI_CLEARED"
proof -
  have step: "table_inv pi_id payin_ok (payins (db v))" "table_moves pi_id payin_moved (payins (db w)) (payins (db v))"
    using pl.run[OF assms(1) disjI2[OF TrueI] insert_signal_lives(2)] assms(2) by (simp_all add: table_step_def)
  then obtain q where q: "q \<in> set (payins (db v))" "pi_id q = pi_id p" "payin_moved p q"
    using assms(3) by (auto simp: table_moves_def)
  then show ?thesis
    using step(1) assms(4) by (auto simp: table_inv_def payin_ok_def payin_moved_def payin_identity_def)
qed

text \<open>C2. When administrators do not confirm payins by hand, every deposit of a customer that is past the payin is booked
  in suspense, and every successful one is credited: the ledger took both transfers, with the amount, accounts and id
  that the row determines.\<close>

theorem funded_deposits_are_booked:
  assumes "deposit_run (\<lambda>act. act \<noteq> D_PAYIN_CONFIRM) w v" "books_ok w"
    and "r \<in> set (deposits (db v))" "d_ownerType r = ''CUSTOMER''"
  shows "(d_status r \<notin> {D_PAYIN_PENDING, D_FAILED} \<longrightarrow> posted r STEP_1 v) \<and> (d_status r = D_SUCCESS \<longrightarrow> posted r STEP_2 v)"
proof -
  have "books_step w v"
    using bg.run[OF assms(1) _ insert_signal_lives(3)] by (auto simp: unbooked_action_def)
  then show ?thesis
    using assms(2,3,4) by (auto simp: books_step_def books_ok_def table_inv_def booked_ok_def unfunded_def)
qed

section \<open>Error behaviour\<close>

lemma find_update_rows:
  "(\<And>x. P (f x) = P x) \<Longrightarrow> find P (update_rows k f xs) = map_option (\<lambda>x. if k x then f x else x) (find P xs)"
  by (induction xs) auto

lemma moved_deposit_keys [simp]: "d_payinId (moved_deposit r q act reason opts k x) = d_payinId x"
  "d_id (moved_deposit r q act reason opts k x) = d_id x"
  by (simp_all add: moved_deposit_def)

text \<open>C37. The status route lets an administrator confirm the payin of a pending deposit: the deposit enters the
  compliance review without any request to the ledger, and the confirmation of the payin that comes later does nothing,
  so the suspense booking is never made.\<close>

theorem admin_confirm_skips_suspense:
  assumes "find (\<lambda>x. d_payinId x = Some pid) (deposits (db w)) = Some r" "find_deposit (d_id r) (db w) = Some r"
    and "d_status r = D_PAYIN_PENDING" "find_payin pid (db w) = Some p"
  shows "\<exists>s v. patchDepositStatus (d_id r) D_PAYIN_CONFIRM reason u role w = (Inr (), v) \<and> tb_log v = tb_log w
    \<and> find_deposit (d_id r) (db v) = Some s \<and> d_status s = D_COMPLIANCE_PENDING
    \<and> orchestratePayinConfirmed dlv pid v = (Inr (), v)"
proof -
  let ?f = "moved_deposit r D_COMPLIANCE_PENDING D_PAYIN_CONFIRM reason (admin_options u role) (clock w)"
  have "wp (patchDepositStatus (d_id r) D_PAYIN_CONFIRM reason u role) (\<lambda>_ v. tb_log v = tb_log w
      \<and> find_deposit (d_id r) (db v) = Some (?f r) \<and> find (\<lambda>x. d_payinId x = Some pid) (deposits (db v)) = Some (?f r)
      \<and> find_payin pid (db v) = Some p) (\<lambda>_ _. False) w"
    using assms
    by (simp add: patchDepositStatus_def wp_updateDepositStatus deposit_transitions_def deposit_terminal_def admin_options_def
        Let_def find_update_rows find_deposit_def find_payin_def by_id_updated)
  from wp_returns[OF this] obtain v where v: "patchDepositStatus (d_id r) D_PAYIN_CONFIRM reason u role w = (Inr (), v)"
    "tb_log v = tb_log w" "find_deposit (d_id r) (db v) = Some (?f r)" "find_payin pid (db v) = Some p"
    "find (\<lambda>x. d_payinId x = Some pid) (deposits (db v)) = Some (?f r)"
    by auto
  have "wp (orchestratePayinConfirmed dlv pid) (\<lambda>_ u. u = v) (\<lambda>_ _. False) v"
    by (simp add: orchestratePayinConfirmed_def findByPayinId_def findPayin_def v)
  from wp_returns[OF this] show ?thesis
    using v by auto
qed

section \<open>Delivery\<close>

lemma bind_need: "(\<And>a. x = Some a \<Longrightarrow> f a = g a) \<Longrightarrow> bind (need x e) f = bind (need x e) g"
  by (cases x) (auto simp: need_def bind_def throw_def ret_def fun_eq_iff)

lemma clearing_target: "payin_transitions ty s PI_CLEAR = Some q \<Longrightarrow> q = PI_CLEARED"
  by (cases s) (auto simp: payin_transitions_def split: if_splits)

lemma clearing_delivers_cleared:
  assumes "\<And>i s. dlv (PayinStatusChanged i s PI_CLEARED) = dlv' (PayinStatusChanged i s PI_CLEARED)"
  shows "updatePayinStatus dlv i PI_CLEAR = updatePayinStatus dlv' i PI_CLEAR"
  unfolding updatePayinStatus_def
  by (intro arg_cong[of _ _ "bind (findPayin i)"] ext bind_need) (auto dest: clearing_target simp: assms)

lemma cleared_is_final: "deliverEvent report n (PayinStatusChanged i s PI_CLEARED) = emit (PayinStatusChanged i s PI_CLEARED)"
proof (cases n)
  case (Suc m)
  have "andThen m' (handle (ret ()) h) = m'" for m' :: "unit op" and h
    by (rule ext) (auto simp: andThen_def bind_def handle_def ret_def split: sum.split prod.split)
  with Suc show ?thesis
    by (simp add: subscribed_def handlePayinStatusChanged_def)
qed simp

text \<open>C38. Termination of the cascade of awaited events: a subscriber's own deliveries reach no further subscriber's work, so
  one level of delivery is all there is, whatever the depth allowed.\<close>

theorem delivery_settles:
  "deliverEvent report (Suc n) e = deliverEvent report 1 e"
proof -
  have eq: "updatePayinStatus (deliverEvent report n) i PI_CLEAR = updatePayinStatus (deliverEvent report 0) i PI_CLEAR" for i
    by (rule clearing_delivers_cleared) (simp only: cleared_is_final)
  have "orchestratePayinConfirmed (deliverEvent report n) i = orchestratePayinConfirmed (deliverEvent report 0) i" for i
    unfolding orchestratePayinConfirmed_def eq ..
  then have "subscribed (deliverEvent report n) e = subscribed (deliverEvent report 0) e"
    by (auto simp: subscribed_def handlePayinStatusChanged_def split: event.split PayinStatus.split)
  then show ?thesis
    by simp
qed

section \<open>Announcements and scans\<close>

text \<open>C39. A scan of an existing deposit wallet always returns a summary: every pending signal of the customer and wallet
  is processed once and leaves the queue, whatever the gate, the rails and the ledger answer, and the counts add up.\<close>

theorem scan_settles_every_pending_signal:
  assumes "\<And>e. steps aside (report e)" "\<And>c f. steps aside (gate c f)"
    and "getCustomerDepositWallet c wl w = (Inr x, w)"
  shows "\<exists>m v. scanForCustomer (deliverEvent report n) gate c wl b w = (Inr m, v)
    \<and> sm_scanned m = length (pending_signals c wl (db w))
    \<and> sm_created m + sm_reused m + sm_blocked m + sm_failed m = sm_scanned m
    \<and> pending_signals c wl (db v) = []"
proof -
  let ?ss = "pending_signals c wl (db w)"
  let ?I = "\<lambda>ds m v. signals_kept w v \<and> (\<forall>x\<in>set ds. off_queue (si_id x) v) \<and> counted m (length ds)"
  have loop: "wp (foldC (scan_one (deliverEvent report n) b blocked) no_summary ?ss) (?I ?ss) (\<lambda>_ _. False) u"
    if u: "signals_kept w u" for u blocked
  proof (rule wp_foldC_prefix[where I = ?I and pre = "[]" and xs = ?ss])
    fix ds y todo m v
    assume y: "?ss = ds @ y # todo" and I: "?I ds m v"
    have "y \<in> set ?ss"
      unfolding y by simp
    then have "by_id si_id (si_id y) (signals (db w)) \<noteq> None"
      by (auto simp: by_id_None pending_signals_def)
    then have "by_id si_id (si_id y) (signals (db v)) \<noteq> None"
      using I kept_row by blast
    from wp_scan_one[OF assms(1) signals_kept_refl this conjunct2[OF conjunct2[OF I]]]
    show "wp (scan_one (deliverEvent report n) b blocked m y) (?I (ds @ [y])) (\<lambda>_ _. False) v"
      by (rule wp_mono) (use I off_queue_kept signals_kept_trans in \<open>auto\<close>)
  qed (use u in \<open>auto simp: counted_def no_summary_def\<close>)
  have gate: "wp (handle (andThen (gate c ''DEPOSIT'') (ret None)) (\<lambda>e. ret (Some e))) (\<lambda>_. signals_kept w) (\<lambda>_ _. False) w"
    using sg.of_aside[OF assms(2), of c "''DEPOSIT''"] by (simp add: steps_wp)
  have "wp (getCustomerDepositWallet c wl) (\<lambda>_ v. v = w) (\<lambda>_ _. False) w"
    using assms(3) by (simp add: wp_def)
  then have "wp (scanForCustomer (deliverEvent report n) gate c wl b) (?I ?ss) (\<lambda>_ _. False) w"
    unfolding scanForCustomer_def wp_bind[of "getCustomerDepositWallet c wl"]
    by (rule wp_mono) (use loop wp_mono[OF gate] in \<open>auto simp del: wp_handle\<close>)
  from wp_returns[OF this] show ?thesis
    using queue_emptied by (auto simp: counted_def)
qed


text \<open>C40. Announcing the same transfer again returns the signal of the first announcement, as it is now, and stores
  nothing.\<close>

theorem announcement_is_idempotent:
  assumes "\<And>x f. steps (same shelf) (gate x f)"
    and "createSignal gate c dto w = (Inr (Some s), v)" "createSignal gate c dto v = (Inr r, u)"
  shows "r = Some s \<and> signals (db u) = signals (db v)"
proof -
  have first: "announced_as dto w (Some s) v"
    using wp_result(1)[OF assms(2) wp_createSignal[OF assms(1)]] .
  have second: "announced_as dto v r u"
    using wp_result(1)[OF assms(3) wp_createSignal[OF assms(1)]] .
  have "dedupe_of dto (db v) = dedupe_of dto (db w)"
    using first by (intro dedupe_of_cong) (simp_all add: announced_as_def)
  then show ?thesis
    using first second by (auto simp: announced_as_def find_signal_def)
qed

section \<open>Witnesses\<close>

definition dep_sample :: "DepositStatus \<Rightarrow> deposit" where
  "dep_sample st = (moved_deposit (new_deposit 1 ''USDT'' (purse ''W1'' ''C_DEP'' ''USDT'' (Some ''C1'')) (Some ''h1'') None
     (Some ''P1'') ''T1'' ''D1'' ''DEP1'' 5) st D_PAYIN_CONFIRM None no_options 6
     (new_deposit 1 ''USDT'' (purse ''W1'' ''C_DEP'' ''USDT'' (Some ''C1'')) (Some ''h1'') None (Some ''P1'') ''T1'' ''D1'' ''DEP1'' 5))"

definition chain_transfer :: CreateDetectedPayinInput where
  "chain_transfer = \<lparr>ci_assetId = ''USDT'', ci_toWalletId = ''W1'', ci_type = ''CRYPTO'', ci_amount = 1, ci_txHash = Some ''h1'',
     ci_fromAddress = None, ci_fromIban = None, ci_referenceNo = None, ci_providerTxnId = None, ci_receivedAt = None,
     ci_reason = None\<rparr>"

definition pay_sample :: payin where
  "pay_sample = payin_row chain_transfer (purse ''W1'' ''C_DEP'' ''USDT'' (Some ''C1'')) ''T1'' ''P1'' ''PI1'' 4"

definition in_world :: "deposit list \<Rightarrow> payin list \<Rightarrow> signal list \<Rightarrow> world" where
  "in_world ds ps ss = demo_world\<lparr>db := empty_db\<lparr>wallets := [purse ''W1'' ''C_DEP'' ''USDT'' (Some ''C1'')], assets := [usdt],
     customers := [trader], deposits := ds, payins := ps, signals := ss\<rparr>\<rparr>"

lemma dep_sample_simps [simp]: "d_id (dep_sample st) = ''D1''" "d_status (dep_sample st) = st" "d_payinId (dep_sample st) = Some ''P1''"
  "d_ownerType (dep_sample st) = ''CUSTOMER''" "d_amount (dep_sample st) = 1" "d_assetId (dep_sample st) = ''USDT''"
  "d_ownerId (dep_sample st) = ''C1''"
  by (simp_all add: dep_sample_def moved_deposit_def new_deposit_def purse_def or_text_def)

lemma dep_sample_ok: "deposit_ok (dep_sample st)"
  by (simp add: dep_sample_def deposit_ok_def moved_deposit_def new_deposit_def deposit_done_def)

lemma in_world_simps [simp]: "deposits (db (in_world ds ps ss)) = ds" "payins (db (in_world ds ps ss)) = ps"
  "signals (db (in_world ds ps ss)) = ss" "wallets (db (in_world ds ps ss)) = [purse ''W1'' ''C_DEP'' ''USDT'' (Some ''C1'')]"
  "assets (db (in_world ds ps ss)) = [usdt]" "customers (db (in_world ds ps ss)) = [trader]"
  by (simp_all add: in_world_def)

lemma pay_sample_simps [simp]: "pi_id pay_sample = ''P1''" "pi_referenceNo pay_sample = None" "pi_status pay_sample = PI_DETECTED"
  by (simp_all add: pay_sample_def payin_row_def chain_transfer_def)

lemma in_world_rows [simp]: "find_deposit ''D1'' (db (in_world [dep_sample st] ps ss)) = Some (dep_sample st)"
  "find_payin ''P1'' (db (in_world ds [pay_sample] ss)) = Some pay_sample" "tb_log (in_world ds ps ss) = []"
  by (simp_all add: find_deposit_def find_payin_def by_id_def in_world_def demo_world_def)

abbreviation freezing :: "world \<Rightarrow> world" where
  "freezing w \<equiv> snd (patchDepositStatus ''D1'' D_FREEZE None ''A1'' None w)"

abbreviation held :: world where
  "held \<equiv> in_world [dep_sample D_COMPLIANCE_PENDING] [pay_sample] []"

lemma freezing_run: "deposit_run (\<lambda>_. True) w (freezing w)"
  by (rule deposit_run.admin[OF deposit_run.start TrueI])

lemma held_inv: "table_inv d_id deposit_ok [dep_sample st]"
  by (simp add: table_inv_def dep_sample_ok)

theorem deposits_refine_their_table_witness:
  "\<exists>s\<in>set (deposits (db (freezing held))). deposit_identity s = deposit_identity (dep_sample D_COMPLIANCE_PENDING)
    \<and> reaches deposit_transitions D_COMPLIANCE_PENDING (d_status s)"
  using deposits_refine_their_table[OF freezing_run, of held "dep_sample D_COMPLIANCE_PENDING"] held_inv by auto

theorem deposits_stay_wellformed_witness: "table_inv d_id deposit_ok (deposits (db (freezing held)))"
  by (rule deposits_stay_wellformed[OF freezing_run]) (simp add: held_inv)

abbreviation seen :: "world \<Rightarrow> world" where
  "seen w \<equiv> snd (updatePayinStatus (deliverEvent (\<lambda>_. ret ()) 1) ''P1'' PI_BLOCK w)"

lemma seen_run: "deposit_run (\<lambda>_. True) held (seen held)"
  by (rule deposit_run.rail[OF deposit_run.start]) (rule aside.ret)

lemma pay_inv: "table_inv pi_id payin_ok [pay_sample]"
  by (simp add: table_inv_def pay_sample_def payin_row_ok)

theorem cleared_payins_have_references_witness: "table_inv pi_id payin_ok (payins (db (seen held)))"
  by (rule cleared_payins_have_references[OF seen_run]) (simp add: pay_inv)

theorem payin_without_reference_never_clears_witness:
  "\<exists>q\<in>set (payins (db (seen held))). pi_id q = ''P1'' \<and> pi_status q \<noteq> PI_CLEARED"
proof -
  have "normalizeOptionalString None = None"
    by code_simp
  then show ?thesis
    using payin_without_reference_never_clears[OF seen_run, of pay_sample] pay_inv by auto
qed

theorem admin_confirm_skips_suspense_witness:
  "\<exists>s v. patchDepositStatus ''D1'' D_PAYIN_CONFIRM None ''A1'' None (in_world [dep_sample D_PAYIN_PENDING] [pay_sample] []) = (Inr (), v)
    \<and> tb_log v = [] \<and> find_deposit ''D1'' (db v) = Some s \<and> d_status s = D_COMPLIANCE_PENDING
    \<and> orchestratePayinConfirmed (\<lambda>_. ret ()) ''P1'' v = (Inr (), v)"
  using admin_confirm_skips_suspense[of "''P1''" "in_world [dep_sample D_PAYIN_PENDING] [pay_sample] []" "dep_sample D_PAYIN_PENDING"
      pay_sample None "''A1''" None "\<lambda>_. ret ()"] by simp

text \<open>A ledger that has taken both transfers of a successful deposit.\<close>

definition open_books :: world where
  "open_books = (in_world [dep_sample D_SUCCESS] [] [])\<lparr>db := (db (in_world [dep_sample D_SUCCESS] [] []))
     \<lparr>registry := [acct 1 (TB_ACCOUNT_CODES CLIENT_ASSET) 2 None, acct 2 (TB_ACCOUNT_CODES DEPOSIT_SUSPENSE) 2 (Some ''C1''),
        acct 3 (TB_ACCOUNT_CODES CLIENT_PAYABLE) 2 (Some ''C1'')]\<rparr>\<rparr>"

definition funded :: world where
  "funded = open_books\<lparr>tb_log := map (\<lambda>step. (the (step_request (dep_sample D_SUCCESS) step open_books), TB_created)) [STEP_1, STEP_2]\<rparr>"

lemma funded_posted: "posted (dep_sample D_SUCCESS) step funded"
proof -
  have "decimalToBigint 1 6 \<noteq> None"
    using decimalToBigint_plain[OF decimals_9_1(3,4)] by simp
  then have "step_request (dep_sample D_SUCCESS) step open_books \<noteq> None"
    by (auto simp: step_request_def step_accounts_def find_asset_def by_id_def open_books_def usdt_def Let_def account_id_def
        resolve_def acct_def hex_roundtrip)
  moreover have "step_request (dep_sample D_SUCCESS) step funded = step_request (dep_sample D_SUCCESS) step open_books"
    by (rule step_request_env) (simp_all add: env_def funded_def)
  ultimately show ?thesis
    by (cases step) (auto simp: posted_def funded_def real_error_def)
qed

theorem funded_deposits_are_booked_witness: "posted (dep_sample D_SUCCESS) STEP_1 funded \<and> posted (dep_sample D_SUCCESS) STEP_2 funded"
proof -
  have "deposits (db funded) = [dep_sample D_SUCCESS]"
    by (simp add: funded_def open_books_def)
  moreover from this have "books_ok funded"
    by (simp add: books_ok_def table_inv_def booked_ok_def funded_posted)
  ultimately show ?thesis
    using funded_deposits_are_booked[OF deposit_run.start, of funded "dep_sample D_SUCCESS"] by simp
qed

definition chain_notice :: CreateSignalDto where
  "chain_notice = \<lparr>cs_walletId = ''W1'', cs_amount = 1, cs_txHash = Some ''h1'', cs_fromAddress = Some ''a1'',
     cs_referenceNo = None, cs_fromIban = None, cs_riskLevel = None, cs_riskReason = None\<rparr>"

definition sig_sample :: signal where
  "sig_sample = new_signal chain_notice ''C1'' (purse ''W1'' ''C_DEP'' ''USDT'' (Some ''C1'')) ''CRYPTO'' ''CRYPTO:w1:usdt:h1'' ''S1'' ''SIG1'' 7"

abbreviation announced :: world where
  "announced \<equiv> in_world [] [] [sig_sample]"

lemma wallet_read: "getCustomerDepositWallet ''C1'' ''W1'' announced = (Inr (purse ''W1'' ''C_DEP'' ''USDT'' (Some ''C1'')), announced)"
  by (simp add: getCustomerDepositWallet_def purse_def bind_def getsDb_def gets_def need_def guard_def andThen_def ret_def by_id_def)

theorem scan_settles_every_pending_signal_witness:
  "\<exists>m v. scanForCustomer (deliverEvent (\<lambda>_. ret ()) 1) (\<lambda>_ _. ret ()) ''C1'' ''W1'' True announced = (Inr m, v)
    \<and> sm_scanned m = 1 \<and> pending_signals ''C1'' ''W1'' (db v) = []"
proof -
  have "length (pending_signals ''C1'' ''W1'' (db announced)) = 1"
    by (simp add: pending_signals_def sig_sample_def new_signal_def purse_def)
  then show ?thesis
    using scan_settles_every_pending_signal[where report = "\<lambda>_. ret ()" and gate = "\<lambda>_ _. ret ()", OF aside.ret aside.ret wallet_read,
        of 1 True] by fastforce
qed

lemma same_notice: "createSignal (\<lambda>_ _. ret ()) ''C1'' chain_notice announced = (Inr (Some sig_sample), announced)"
proof -
  have tokens: "normalizeToken (Some ''W1'') = ''w1''" "normalizeToken (Some ''USDT'') = ''usdt''" "normalizeToken (Some ''h1'') = ''h1''"
    "to_upper ''CRYPTO'' = ''CRYPTO''" "to_upper (js_trim (default_of [] None)) = []"
    by code_simp+
  have "wp (createSignal (\<lambda>_ _. ret ()) ''C1'' chain_notice) (\<lambda>r v. r = Some sig_sample \<and> v = announced) (\<lambda>_ _. False) announced"
    unfolding createSignal_def
    by (simp add: ensureCustomerCanTransact_def getCustomerDepositWallet_def assertSimulationRiskProfile_def buildDedupeKey_def
        channel_of_def chain_notice_def trader_def purse_def usdt_def find_asset_def by_id_def Let_def tokens find_signal_def
        sig_sample_def new_signal_def)
  from wp_returns[OF this] show ?thesis
    by auto
qed

theorem announcement_is_idempotent_witness:
  "fst (createSignal (\<lambda>_ _. ret ()) ''C1'' chain_notice announced) = Inr (Some sig_sample)
    \<and> signals (db (snd (createSignal (\<lambda>_ _. ret ()) ''C1'' chain_notice announced))) = [sig_sample]"
  using announcement_is_idempotent[where gate = "\<lambda>_ _. ret ()", OF frame.ret same_notice same_notice] same_notice by simp

end
