(* ===== verification/Spec2Isabelle.thy ===== *)
theory Spec2Isabelle
  imports FundsFlowProps Values LedgerProps SwapProps SettlementProps WalletReconProps WithdrawProps DepositProps
begin

text \<open>
  A verification development of the exchange's backend (src/src/modules; file names below are relative
  to it).  It models the part that moves money: the funds layer with its execution legs, the double-entry
  ledger with its evidence, the four-leg swap settlement, the settlement of outstandings and fees,
  withdrawals with their payouts, deposits with their payins, and the reconciliation against bank and custody statements.

  State.  \<open>World.world\<close> is what the services share: the database (\<open>World.db\<close>, one list of
  records per table of src/prisma/schema.prisma, in order of creation: \<open>Schema\<close>, \<open>TradeSchema\<close>), the ledger
  as the log of the requests sent to TigerBeetle with their answers, the evidence backlog, the audit rows written
  outside a transaction, the emitted events, and the sources of clock, uuids and random numbers.  What is
  not code of the repository is a field of that record and so a parameter of every theorem: TigerBeetle's
  answers (\<open>tb_reply\<close>, \<open>tb_lookup\<close>, \<open>tb_acct_reply\<close>), its id generator, SHA-256, uuids, random digits.
  An operation is a function from the state to an error or a value and the new state (\<open>Prelude\<close>:
  \<open>ret\<close>, \<open>throw\<close>, \<open>bind\<close>, \<open>handle\<close>, \<open>forEach\<close>, \<open>foldC\<close>).  A database transaction restores
  the database, and nothing else, when its body throws: ledger requests, backlog and events of a rolled
  back transaction stay.  Guarantees of operations are stated with the
  weakest precondition \<open>wp\<close> (what holds after a return, what after a throw), \<open>maintains\<close> and \<open>steps\<close>; the
  locales \<open>guarantee\<close> and \<open>tx_guarantee\<close> carry a transition relation through the combinators and are interpreted
  for every invariant below.

  Parts, in the order of the theories.
  \<^item> \<open>FundStates\<close>, \<open>Paths\<close>, \<open>Money\<close>, \<open>LedgerCodes\<close>: the state tables of crypto and bank legs, the transfer
    whitelist, amounts and ledger ids, chart of accounts (funds-layer/domain, constants, guards,
    accounting/tigerbeetle/constants and utils).  \<open>Values\<close> has their properties.
  \<^item> \<open>InternalTransfers\<close>, \<open>FundsFlow\<close>: the transfer aggregate and its execution legs
    (funds-layer/domain/internal-transfer.service.ts, funds-flow.service.ts).  \<open>FundsFlowFacts\<close> and
    \<open>FundsFlowSteps\<close> prove that every operation obeys the leg table, but for the two statuses written directly (a leg parked in
    NEEDS_REVIEW, the fee leg of a withdrawal set to a final status); \<open>FundsFlowProps\<close> states it over runs.
  \<^item> \<open>Evidence\<close>, \<open>Accounting\<close>: evidence rows, the account flows projected from them, statements, and the posting
    service with its business keys, pending, post and void
    (accounting/tigerbeetle, clearing-settle/reconciliation/projector).  \<open>AccountingFacts\<close>, \<open>FlowFacts\<close>: books
    backed by the ledger, wallet references that agree with the account's owner over runs that also open accounts, the
    flow table equal to a projection of all evidence from scratch (\<open>mirrored\<close>); \<open>LedgerProps\<close>.
  \<^item> \<open>SwapPlan\<close>, \<open>SwapAccounting\<close>, \<open>SwapTransactions\<close>, \<open>SwapWorkflow\<close>: the plan of the four legs, their entries, the
    swap and quote rows, and the workflow with retry and resumption (trading/swap-transactions,
    trading/swap-fee-level).  \<open>SwapFacts\<close>, \<open>SwapRuns\<close>, \<open>SwapEffects\<close>, \<open>SwapProps\<close>.
  \<^item> \<open>Settlement\<close>, \<open>FeeAccruals\<close>, \<open>SettlementWorkflow\<close>: batches, the consumer of outstandings, the accrual of fees, the
    end-of-day and manual settlement, fee pass, deposit sweep and revaluation (funds-layer/domain,
    funds-layer/workflow).  \<open>SettlementFacts\<close>, \<open>SettlementRuns\<close>, \<open>SettlementEffects\<close>, \<open>FeeFacts\<close>,
    \<open>SettlementProps\<close>.
  \<^item> \<open>Decimals\<close>, \<open>Payouts\<close>, \<open>Withdraws\<close>, \<open>WithdrawWorkflow\<close>: the printed form of decimals, the payout rows with their two
    tables and the R3 guard, the withdrawal rows with the use of a quote, and the workflow from the request to
    the settlement or the compensation (asset-treasury/payouts, trading/withdraw-transactions,
    trading/withdrawal-fee-level/withdraw-quote.service.ts).  The exchange rate and the opening of an approval case are
    arguments.  \<open>TableLife\<close> has what the invariants of both tables share (a table whose rows keep an invariant and move
    along a table of states), \<open>WithdrawFacts\<close> proves it of every operation, \<open>WithdrawEffects\<close> says what the creation does,
    \<open>WithdrawSettle\<close> what is asked of the ledger by release, finalization and compensation (\<open>sent\<close>: the requests of an operation,
    in order; \<open>compensated\<close>: every outcome of a compensation, locks that cannot be read included), \<open>WithdrawScreen\<close> how the payout phase starts; \<open>WithdrawProps\<close>.  The catch block of the creation, which voids the locks,
    stands inside the transaction: a void does not touch the database.
  \<^item> \<open>Payins\<close>, \<open>Deposits\<close>, \<open>DepositWorkflow\<close>, \<open>InboundSignals\<close>: the inbound rails with their two tables and the R3
    guard, the deposit rows, the workflow that books a deposit into suspense when its payin is confirmed and credits the customer
    when it is approved, and the announcements customers make and scan (asset-treasury/payins,
    trading/deposit-transactions).  The onboarding gate and the reaction of the event library to an error are arguments;
    awaited events nest up to a depth that is an argument too, and \<open>delivery_settles\<close> shows that one level is all there is.  The
    deposit events are not awaited: \<open>handleDepositStatusChanged\<close> is a step of its own.
    \<open>DepositFacts\<close> has the lives of payins, deposits and signals and the locale that carries a guarantee of the table writes over
    every service, \<open>DepositBooks\<close> the booking invariant (\<open>step_request\<close>, \<open>posted\<close>), \<open>ScanFacts\<close> what a scan keeps and
    what an announcement returns; \<open>DepositProps\<close>.
  \<^item> \<open>Pairing\<close>, \<open>ReconSchema\<close>, \<open>FlowMatching\<close>, \<open>WalletRecon\<close>: the greedy matching of account flows with statement lines, the
    balance check, and the daily run that opens, refreshes and closes cases (clearing-settle/reconciliation/engine/v2
    and workflow).  The run has a state of its own, \<open>recon\<close>, and reads the trading tables.
    \<open>FlowMatchingFacts\<close>, \<open>WalletReconFacts\<close>, \<open>WalletReconProps\<close>.
  Operations of different parts meet where the code calls them: an advance of a swap leg books entries
  (\<open>SwapAccounting\<close> over \<open>Accounting\<close>) and moves its leg (\<open>FundsFlow\<close>); a settlement creates transfers and legs, and
  the statuses these reach settle the outstandings; a withdrawal locks, posts and voids through \<open>Accounting\<close>, moves its payout and
  keeps its fee leg in \<open>FundsFlow\<close>; a deposit books through \<open>Accounting\<close> and clears its payin, which credits the wallet.  State machines are relations over runs:
  \<open>ff_step\<close>, \<open>ledger_run\<close>, \<open>swap_step\<close>, \<open>settlement_step\<close>, \<open>withdraw_run\<close>, \<open>deposit_run\<close>, \<open>recon_life\<close>.

  Numbers.  Amounts are exact rationals: decimal.js's rounding to 20 significant digits is not modelled, \<open>Number\<close> of a
  bigint or of a decimal rounds to 53 bits (\<open>js_number\<close>, \<open>to_Number\<close>), ledger units are unbounded integers.  A number that must be unique is drawn
  at most \<open>MAX_NO_GENERATION_RETRIES\<close> (10) times, an accrual's at most 9 times, as in the code; the bound is the fuel of
  the model's loops, which end there with the code's error.  All other recursion is structural.

  Assumptions of the model.  The clock stands still within one operation.  The database is
  SQLite: transactions are serial, and a unique violation does not abort the transaction; a clash of
  primary keys is the same error on the column \<open>id\<close>.  Foreign keys are not checked.  \<open>createdAt\<close> order is the order of the
  list.  Rows of a JavaScript \<open>Map\<close> or \<open>Set\<close> are visited in the order of first insertion (\<open>Grouping\<close>).

  Not modelled: controllers, guards, DTO validation and the web clients (input and output only); identity,
  onboarding and Sumsub ingestion; governance and its approval cases; fee levels and the
  pricing of quotes; mock data and list queries; the reconciliation queries, the demo data provider and the older
  leg engine; the wallet numbers stored beside wallet ids; the text of audit entries beyond action, entity,
  reason and trace; numbers and digests of the audit trail.
\<close>

end
